(* ===== verification/Prelude.thy ===== *)
theory Prelude
  imports Main "HOL-Library.Word"
begin

text \<open>
  Shared vocabulary of the development: the names of the machine types of the Rust sources,
  results (\<open>Result<T, E>\<close> as a sum, \<open>Inl\<close> the error and \<open>Inr\<close> the value) with the operator
  \<open>?\<close> as \<open>and_then\<close>, the early return \<open>if ... { return Err(e) }\<close> as \<open>ensure\<close>, iterator
  \<open>collect::<Result<Vec<_>, _>>()\<close> as \<open>collect\<close>, and the collections of simplification rules
  that the component theories fill.
\<close>

named_theorems result_simps \<open>inversion of successful results\<close>
named_theorems valid_simps \<open>what the validators of the source accept\<close>
named_theorems frame_simps \<open>fields and tables an operation leaves alone\<close>

type_synonym u16 = "16 word"
type_synonym u32 = "32 word"
type_synonym u64 = "64 word"
type_synonym uuid = "128 word"

text \<open>An \<open>i64\<close> is a 64-bit word read through \<open>sint\<close>: addition wraps as in a release build.\<close>
type_synonym i64 = "64 word"

text \<open>\<open>chrono::DateTime<Utc>\<close>: nanoseconds since the epoch; durations are in the same unit.\<close>
type_synonym timestamp = int

definition seconds :: "int \<Rightarrow> int" where
  "seconds n = n * 1000000000"

definition minutes :: "int \<Rightarrow> int" where
  "minutes n = seconds (60 * n)"

definition days :: "int \<Rightarrow> int" where
  "days n = seconds (86400 * n)"

section \<open>Results\<close>

definition and_then :: "'e + 'a \<Rightarrow> ('a \<Rightarrow> 'e + 'b) \<Rightarrow> 'e + 'b" where
  "and_then r f = (case r of Inl e \<Rightarrow> Inl e | Inr a \<Rightarrow> f a)"

definition ensure :: "bool \<Rightarrow> 'e \<Rightarrow> 'e + unit" where
  "ensure b e = (if b then Inr () else Inl e)"

definition map_err :: "('e \<Rightarrow> 'f) \<Rightarrow> 'e + 'a \<Rightarrow> 'f + 'a" where
  "map_err g r = (case r of Inl e \<Rightarrow> Inl (g e) | Inr a \<Rightarrow> Inr a)"

definition ok_or :: "'a option \<Rightarrow> 'e \<Rightarrow> 'e + 'a" where
  "ok_or x e = (case x of None \<Rightarrow> Inl e | Some a \<Rightarrow> Inr a)"

primrec collect :: "('a \<Rightarrow> 'e + 'b) \<Rightarrow> 'a list \<Rightarrow> 'e + 'b list" where
  "collect f [] = Inr []"
| "collect f (x # xs) = and_then (f x) (\<lambda>y. and_then (collect f xs) (\<lambda>ys. Inr (y # ys)))"

definition transpose_map :: "('a \<Rightarrow> 'e + 'b) \<Rightarrow> 'a option \<Rightarrow> 'e + 'b option" where
  "transpose_map f x = (case x of None \<Rightarrow> Inr None | Some a \<Rightarrow> and_then (f a) (\<lambda>b. Inr (Some b)))"

definition is_ok :: "'e + 'a \<Rightarrow> bool" where
  "is_ok r = (case r of Inl _ \<Rightarrow> False | Inr _ \<Rightarrow> True)"

lemma and_then_Inl [simp]: "and_then (Inl e) f = Inl e"
  by (simp add: and_then_def)

lemma and_then_Inr [simp]: "and_then (Inr a) f = f a"
  by (simp add: and_then_def)

lemma and_then_eq_Inr [result_simps]:
  "and_then r f = Inr b \<longleftrightarrow> (\<exists>a. r = Inr a \<and> f a = Inr b)"
  by (cases r) auto

lemma and_then_eq_Inl:
  "and_then r f = Inl e \<longleftrightarrow> r = Inl e \<or> (\<exists>a. r = Inr a \<and> f a = Inl e)"
  by (cases r) auto

lemma ensure_True [simp]: "ensure True e = Inr ()"
  by (simp add: ensure_def)

lemma ensure_False [simp]: "ensure False e = Inl e"
  by (simp add: ensure_def)

lemma ensure_eq_Inr [result_simps]: "ensure b e = Inr u \<longleftrightarrow> b"
  by (cases b) auto

lemma ensure_eq_Inl: "ensure b e = Inl e' \<longleftrightarrow> \<not> b \<and> e' = e"
  by (cases b) auto

lemma map_err_eq_Inr [result_simps]: "map_err g r = Inr a \<longleftrightarrow> r = Inr a"
  by (cases r) (auto simp: map_err_def)

lemma map_err_simps [simp]: "map_err g (Inl e) = Inl (g e)" "map_err g (Inr a) = Inr a"
  by (simp_all add: map_err_def)

lemma ok_or_eq_Inr [result_simps]: "ok_or x e = Inr a \<longleftrightarrow> x = Some a"
  by (cases x) (auto simp: ok_or_def)

lemma ok_or_simps [simp]: "ok_or None e = Inl e" "ok_or (Some a) e = Inr a"
  by (simp_all add: ok_or_def)

lemma is_ok_simps [simp]: "\<not> is_ok (Inl e)" "is_ok (Inr a)"
  by (simp_all add: is_ok_def)

lemma is_ok_iff: "is_ok r \<longleftrightarrow> (\<exists>a. r = Inr a)"
  by (cases r) auto

lemma collect_eq_Inr:
  "collect f xs = Inr ys \<longleftrightarrow> list_all2 (\<lambda>x y. f x = Inr y) xs ys"
  by (induction xs arbitrary: ys) (auto simp: result_simps list_all2_Cons1)

lemma collect_id: "(\<And>x. x \<in> set xs \<Longrightarrow> f x = Inr x) \<Longrightarrow> collect f xs = Inr xs"
  by (induction xs) auto

lemma transpose_map_simps [simp]:
  "transpose_map f None = Inr None"
  "transpose_map f (Some a) = and_then (f a) (\<lambda>b. Inr (Some b))"
  by (simp_all add: transpose_map_def)

lemma transpose_map_eq_Inr [result_simps]:
  "transpose_map f x = Inr y \<longleftrightarrow>
     (case x of None \<Rightarrow> y = None | Some a \<Rightarrow> (\<exists>b. f a = Inr b \<and> y = Some b))"
  by (cases x) (auto simp: result_simps)

lemma sum_cases_Inr:
  "(case r of Inl e \<Rightarrow> False | Inr a \<Rightarrow> P a) \<longleftrightarrow> (\<exists>a. r = Inr a \<and> P a)"
  by (cases r) auto

section \<open>Steps on a state\<close>

text \<open>
  A handler that runs several transactions keeps those it has committed when a later one fails: its
  result pairs the state with the error or the value. \<open>transact\<close> is one transaction.
\<close>

definition then_do :: "'s \<times> ('e + 'a) \<Rightarrow> ('a \<Rightarrow> 's \<Rightarrow> 's \<times> ('e + 'b)) \<Rightarrow> 's \<times> ('e + 'b)" where
  "then_do r f = (case r of (s, Inl e) \<Rightarrow> (s, Inl e) | (s, Inr a) \<Rightarrow> f a s)"

definition transact :: "('e \<Rightarrow> 'f) \<Rightarrow> ('s \<Rightarrow> 'e + 's) \<Rightarrow> 's \<Rightarrow> 's \<times> ('f + unit)" where
  "transact g f s = (case f s of Inl e \<Rightarrow> (s, Inl (g e)) | Inr s' \<Rightarrow> (s', Inr ()))"

lemma then_do_simps [simp]: "then_do (s, Inl e) f = (s, Inl e)" "then_do (s, Inr a) f = f a s"
  by (simp_all add: then_do_def)

lemma then_do_ok [result_simps]:
  "then_do r f = (s', Inr b) \<longleftrightarrow> (\<exists>s a. r = (s, Inr a) \<and> f a s = (s', Inr b))"
  by (cases r; cases "snd r") auto

lemma then_do_error:
  "then_do r f = (s', Inl e) \<longleftrightarrow> r = (s', Inl e) \<or> (\<exists>s a. r = (s, Inr a) \<and> f a s = (s', Inl e))"
  by (cases r; cases "snd r") auto

lemma transact_ok [result_simps]: "transact g f s = (s', Inr u) \<longleftrightarrow> f s = Inr s'"
  by (simp add: transact_def split: sum.split)

lemma transact_error: "transact g f s = (s', Inl e) \<longleftrightarrow> s' = s \<and> (\<exists>d. f s = Inl d \<and> e = g d)"
  by (auto simp: transact_def split: sum.split)

lemma pair_result_ok [result_simps]: "(s, r) = (s', Inr a) \<longleftrightarrow> s = s' \<and> r = Inr a"
  by auto

section \<open>Machine integers\<close>

text \<open>\<open>u64::saturating_add\<close> and its 32-bit version.\<close>

definition saturating_add64 :: "u64 \<Rightarrow> u64 \<Rightarrow> u64" where
  "saturating_add64 a b = (if unat a + unat b < 2 ^ 64 then a + b else -1)"

definition saturating_add32 :: "u32 \<Rightarrow> u32 \<Rightarrow> u32" where
  "saturating_add32 a b = (if unat a + unat b < 2 ^ 32 then a + b else -1)"

lemma unat_saturating_add64: "unat (saturating_add64 a b) = min (unat a + unat b) (2 ^ 64 - 1)"
  by (auto simp: saturating_add64_def unat_word_ariths unsigned_minus_1_eq_mask mask_eq_exp_minus_1)

lemma unat_saturating_add32: "unat (saturating_add32 a b) = min (unat a + unat b) (2 ^ 32 - 1)"
  by (auto simp: saturating_add32_def unat_word_ariths unsigned_minus_1_eq_mask mask_eq_exp_minus_1)

text \<open>Decimal printing of unsigned integers, as \<open>format!("{n}")\<close> does.\<close>

fun decimal :: "nat \<Rightarrow> string" where
  "decimal n = (if n < 10 then [char_of (48 + n)] else decimal (n div 10) @ [char_of (48 + n mod 10)])"

declare decimal.simps [simp del]

end
