(* ===== verification/Rust_Text.thy ===== *)
theory Rust_Text
  imports Prelude "HOL-Library.Char_ord" "HOL-Library.List_Lexorder"
begin

text \<open>
  Rust's \<open>str\<close>: a \<open>string\<close> of this theory is the UTF-8 byte sequence, so \<open>length\<close> is
  \<open>str::len\<close> and the order of \<^theory_text>\<open>List_Lexorder\<close> is \<open>str::cmp\<close>. \<open>chars\<close> splits the bytes
  into encoded characters; \<open>char::is_whitespace\<close> and \<open>char::is_control\<close> look at the code point.
  The rest are the methods of \<open>str\<close> and \<open>u8\<close> of Rust's standard library that the sources call.
\<close>

section \<open>Characters of a UTF-8 string\<close>

definition utf8_width :: "char \<Rightarrow> nat" where
  "utf8_width c = (let b = (of_char c :: nat)
     in if b < 128 then 1 else if b < 224 then 2 else if b < 240 then 3 else 4)"

fun chars :: "string \<Rightarrow> string list" where
  "chars [] = []"
| "chars (c # s) = (c # take (utf8_width c - 1) s) # chars (drop (utf8_width c - 1) s)"

fun code_point :: "string \<Rightarrow> nat" where
  "code_point [a] = of_char a"
| "code_point [a, b] = (of_char a mod 32) * 64 + of_char b mod 64"
| "code_point [a, b, c] = (of_char a mod 16) * 4096 + (of_char b mod 64) * 64 + of_char c mod 64"
| "code_point [a, b, c, d] =
     (of_char a mod 8) * 262144 + (of_char b mod 64) * 4096 + (of_char c mod 64) * 64 + of_char d mod 64"
| "code_point _ = 0"

text \<open>The Unicode property \<open>White_Space\<close> and the general category \<open>Cc\<close>.\<close>

definition is_whitespace :: "string \<Rightarrow> bool" where
  "is_whitespace ch = (let p = code_point ch in
     9 \<le> p \<and> p \<le> 13 \<or> p = 32 \<or> p = 133 \<or> p = 160 \<or> p = 5760 \<or> 8192 \<le> p \<and> p \<le> 8202 \<or>
     p = 8232 \<or> p = 8233 \<or> p = 8239 \<or> p = 8287 \<or> p = 12288)"

definition is_control :: "string \<Rightarrow> bool" where
  "is_control ch = (let p = code_point ch in p < 32 \<or> 127 \<le> p \<and> p \<le> 159)"

definition any_char :: "(string \<Rightarrow> bool) \<Rightarrow> string \<Rightarrow> bool" where
  "any_char p s = list_ex p (chars s)"

definition trim_chars :: "string list \<Rightarrow> string list" where
  "trim_chars gs = rev (dropWhile is_whitespace (rev (dropWhile is_whitespace gs)))"

definition trim :: "string \<Rightarrow> string" where
  "trim s = concat (trim_chars (chars s))"

text \<open>
  Any sequence of encoded characters is read back by \<open>chars\<close> when each but the last is as long
  as its leading byte says: this is what makes \<open>trim\<close> idempotent on every byte string.
\<close>

fun grouped :: "string list \<Rightarrow> bool" where
  "grouped [] = True"
| "grouped (g # gs) = (g \<noteq> [] \<and> length g \<le> utf8_width (hd g) \<and>
     (gs \<noteq> [] \<longrightarrow> length g = utf8_width (hd g)) \<and> grouped gs)"

lemma utf8_width_pos: "1 \<le> utf8_width c"
  by (simp add: utf8_width_def Let_def)

lemma chars_Nil_iff [simp]: "chars s = [] \<longleftrightarrow> s = []"
  by (cases s) auto

lemma concat_chars [simp]: "concat (chars s) = s"
  by (induction s rule: chars.induct) auto

lemma grouped_chars: "grouped (chars s)"
proof (induction s rule: chars.induct)
  case (2 c s)
  then show ?case using utf8_width_pos [of c] by auto
qed simp

lemma chars_concat: "grouped gs \<Longrightarrow> chars (concat gs) = gs"
proof (induction gs)
  case (Cons g gs)
  then obtain c s where g: "g = c # s" by (cases g) auto
  show ?case
  proof (cases "gs = []")
    case True
    with Cons g show ?thesis by auto
  next
    case False
    with Cons g have "length s = utf8_width c - 1" by auto
    with Cons g show ?thesis by auto
  qed
qed simp

lemma grouped_append1: "grouped (xs @ ys) \<Longrightarrow> grouped xs"
  by (induction xs) auto

lemma grouped_append2: "grouped (xs @ ys) \<Longrightarrow> grouped ys"
  by (induction xs) auto

lemma dropWhile_suffix: "\<exists>ys. xs = ys @ dropWhile p xs"
  by (metis takeWhile_dropWhile_id)

lemma trim_chars_infix: "\<exists>as bs. gs = as @ trim_chars gs @ bs"
proof -
  obtain as where as: "gs = as @ dropWhile is_whitespace gs"
    using dropWhile_suffix [of gs is_whitespace] by blast
  obtain bs where "rev (dropWhile is_whitespace gs) =
      bs @ dropWhile is_whitespace (rev (dropWhile is_whitespace gs))"
    using dropWhile_suffix by blast
  then have "dropWhile is_whitespace gs = trim_chars gs @ rev bs"
    unfolding trim_chars_def by (metis rev_append rev_rev_ident)
  with as show ?thesis by metis
qed

lemma grouped_trim_chars: "grouped gs \<Longrightarrow> grouped (trim_chars gs)"
  using trim_chars_infix [of gs] by (metis grouped_append1 grouped_append2)

lemma chars_trim: "chars (trim s) = trim_chars (chars s)"
  by (simp add: trim_def chars_concat grouped_trim_chars grouped_chars)

lemma trim_chars_idem: "trim_chars (trim_chars gs) = trim_chars gs"
proof (cases "trim_chars gs = []")
  case True
  then show ?thesis by (metis dropWhile.simps(1) rev.simps(1) trim_chars_def)
next
  case False
  let ?d = "dropWhile is_whitespace gs" and ?t = "trim_chars gs"
  obtain bs where d: "rev ?d = bs @ rev ?t"
    unfolding trim_chars_def rev_rev_ident using dropWhile_suffix by blast
  have "hd ?t = hd ?d" using False d
    by (metis append_is_Nil_conv hd_append2 rev_append rev_is_Nil_conv rev_rev_ident)
  moreover have "?d \<noteq> []" using False d
    by (metis append_is_Nil_conv rev_is_Nil_conv)
  ultimately have "\<not> is_whitespace (hd ?t)" by (metis hd_dropWhile)
  then have 1: "dropWhile is_whitespace ?t = ?t" using False by (cases ?t) auto
  have "\<not> is_whitespace (hd (rev ?t))" using False
    unfolding trim_chars_def by (metis hd_dropWhile rev_is_Nil_conv rev_rev_ident)
  then have "dropWhile is_whitespace (rev ?t) = rev ?t" using False by (cases "rev ?t") auto
  with 1 show ?thesis by (simp add: trim_chars_def [of ?t])
qed

lemma trim_trim [simp]: "trim (trim s) = trim s"
  by (simp add: trim_def [of "trim s"] chars_trim trim_chars_idem) (simp add: trim_def)

lemma trim_chars_subset: "set (trim_chars gs) \<subseteq> set gs"
  using trim_chars_infix [of gs] by (metis Un_iff set_append subsetI)

lemma any_char_trim: "\<not> any_char p s \<Longrightarrow> \<not> any_char p (trim s)"
  using trim_chars_subset by (fastforce simp: any_char_def chars_trim list_ex_iff)

lemma trim_Nil [simp]: "trim [] = []"
  by (simp add: trim_def trim_chars_def)

lemma trim_infix: "\<exists>u v. s = u @ trim s @ v"
proof -
  obtain as bs where "chars s = as @ trim_chars (chars s) @ bs"
    using trim_chars_infix by blast
  then have "concat (chars s) = concat as @ trim s @ concat bs"
    unfolding trim_def by (metis concat_append)
  then show ?thesis by auto
qed

lemma set_trim: "set (trim s) \<subseteq> set s"
  using trim_infix [of s] by (metis Un_iff set_append subsetI)

lemma length_trim: "length (trim s) \<le> length s"
  using trim_infix [of s] by (metis le_add1 le_add2 le_trans length_append)

section \<open>Methods of \<open>str\<close> and \<open>u8\<close>\<close>

definition split_once :: "char \<Rightarrow> string \<Rightarrow> (string \<times> string) option" where
  "split_once c s = (if c \<in> set s then Some (takeWhile (\<lambda>x. x \<noteq> c) s, tl (dropWhile (\<lambda>x. x \<noteq> c) s))
     else None)"

definition starts_with :: "string \<Rightarrow> string \<Rightarrow> bool" where
  "starts_with p s = (take (length p) s = p)"

definition ends_with_char :: "char \<Rightarrow> string \<Rightarrow> bool" where
  "ends_with_char c s = (s \<noteq> [] \<and> last s = c)"

fun contains_sub :: "string \<Rightarrow> string \<Rightarrow> bool" where
  "contains_sub p [] = (p = [])"
| "contains_sub p (c # s) = (starts_with p (c # s) \<or> contains_sub p s)"

definition ascii_lower :: "char \<Rightarrow> char" where
  "ascii_lower c = (let b = (of_char c :: nat) in if 65 \<le> b \<and> b \<le> 90 then char_of (b + 32) else c)"

definition to_ascii_lowercase :: "string \<Rightarrow> string" where
  "to_ascii_lowercase s = map ascii_lower s"

definition is_ascii_hexdigit :: "char \<Rightarrow> bool" where
  "is_ascii_hexdigit c = (let b = (of_char c :: nat)
     in 48 \<le> b \<and> b \<le> 57 \<or> 65 \<le> b \<and> b \<le> 70 \<or> 97 \<le> b \<and> b \<le> 102)"

definition is_ascii_alphanumeric :: "char \<Rightarrow> bool" where
  "is_ascii_alphanumeric c = (let b = (of_char c :: nat)
     in 48 \<le> b \<and> b \<le> 57 \<or> 65 \<le> b \<and> b \<le> 90 \<or> 97 \<le> b \<and> b \<le> 122)"

definition is_ascii_control :: "char \<Rightarrow> bool" where
  "is_ascii_control c = (let b = (of_char c :: nat) in b < 32 \<or> b = 127)"

fun split_on :: "char \<Rightarrow> string \<Rightarrow> string list" where
  "split_on c [] = [[]]"
| "split_on c (x # s) = (if x = c then [] # split_on c s
     else case split_on c s of [] \<Rightarrow> [[x]] | w # ws \<Rightarrow> (x # w) # ws)"

text \<open>\<open>str::lines\<close>: a final line ending is optional, one \<open>\r\<close> before \<open>\n\<close> is dropped.\<close>

definition strip_cr :: "string \<Rightarrow> string" where
  "strip_cr s = (if s \<noteq> [] \<and> last s = CHR 0x0D then butlast s else s)"

definition lines :: "string \<Rightarrow> string list" where
  "lines s = (case split_on CHR 0x0A s of [] \<Rightarrow> [] | ws \<Rightarrow>
     map strip_cr (butlast ws) @ (if last ws = [] then [] else [last ws]))"

text \<open>\<open>Path::is_absolute\<close> and \<open>Path::components\<close> on Unix.\<close>

datatype path_component = RootDir | CurDir | ParentDir | Normal string

definition path_is_absolute :: "string \<Rightarrow> bool" where
  "path_is_absolute p = starts_with ''/'' p"

fun path_segments :: "bool \<Rightarrow> string list \<Rightarrow> path_component list" where
  "path_segments first [] = []"
| "path_segments first (w # ws) =
     (if w = [] then [] else if w = ''.'' then (if first then [CurDir] else [])
      else if w = ''..'' then [ParentDir] else [Normal w]) @ path_segments False ws"

definition path_components :: "string \<Rightarrow> path_component list" where
  "path_components p = (if path_is_absolute p then RootDir # path_segments False (split_on CHR ''/'' p)
     else path_segments True (split_on CHR ''/'' p))"

lemma split_once_Some:
  "split_once c s = Some (a, b) \<longleftrightarrow> s = a @ c # b \<and> c \<notin> set a"
proof
  assume "split_once c s = Some (a, b)"
  then have h: "c \<in> set s" "a = takeWhile (\<lambda>x. x \<noteq> c) s" "b = tl (dropWhile (\<lambda>x. x \<noteq> c) s)"
    by (auto simp: split_once_def split: if_splits)
  then have "dropWhile (\<lambda>x. x \<noteq> c) s \<noteq> []" and "hd (dropWhile (\<lambda>x. x \<noteq> c) s) = c"
    by (auto simp: hd_dropWhile) (metis (mono_tags, lifting) dropWhile_eq_Nil_conv hd_dropWhile)
  with h show "s = a @ c # b \<and> c \<notin> set a"
    by (metis (mono_tags, lifting) list.collapse set_takeWhileD takeWhile_dropWhile_id)
next
  assume h: "s = a @ c # b \<and> c \<notin> set a"
  then have "takeWhile (\<lambda>x. x \<noteq> c) s = a" "dropWhile (\<lambda>x. x \<noteq> c) s = c # b"
    by (auto simp: takeWhile_append dropWhile_append) 
  with h show "split_once c s = Some (a, b)" by (simp add: split_once_def)
qed

lemma split_once_None: "split_once c s = None \<longleftrightarrow> c \<notin> set s"
  by (simp add: split_once_def)

lemma length_to_ascii_lowercase [simp]: "length (to_ascii_lowercase s) = length s"
  by (simp add: to_ascii_lowercase_def)

lemma of_char_less: "(of_char c :: nat) < 256"
  using of_char_mod_256 [of c, where 'a = nat] by (metis mod_less_divisor zero_less_numeral)

lemma ascii_lower_idem [simp]: "ascii_lower (ascii_lower c) = ascii_lower c"
  by (auto simp: ascii_lower_def Let_def of_char_of)

lemma to_ascii_lowercase_idem [simp]: "to_ascii_lowercase (to_ascii_lowercase s) = to_ascii_lowercase s"
  by (simp add: to_ascii_lowercase_def)

lemma is_ascii_hexdigit_lower [simp]: "is_ascii_hexdigit c \<Longrightarrow> is_ascii_hexdigit (ascii_lower c)"
  by (auto simp: is_ascii_hexdigit_def ascii_lower_def Let_def of_char_of)

lemma list_all_hex_lower: "list_all is_ascii_hexdigit s \<Longrightarrow> list_all is_ascii_hexdigit (to_ascii_lowercase s)"
  by (simp add: to_ascii_lowercase_def list_all_iff)

lemma starts_with_iff: "starts_with p s \<longleftrightarrow> (\<exists>t. s = p @ t)"
  unfolding starts_with_def by (metis append_eq_conv_conj append_take_drop_id)

lemma contains_sub_iff: "contains_sub p s \<longleftrightarrow> (\<exists>u v. s = u @ p @ v)"
proof (induction s)
  case Nil
  then show ?case by auto
next
  case (Cons c s)
  have "(\<exists>u v. c # s = u @ p @ v) \<longleftrightarrow> (\<exists>v. c # s = p @ v) \<or> (\<exists>u v. s = u @ p @ v)"
    by (metis append_Cons append_Nil list.exhaust list.sel(3))
  with Cons show ?case by (simp add: starts_with_iff)
qed

lemma contains_sub_short: "length s < length p \<Longrightarrow> \<not> contains_sub p s"
  by (auto simp: contains_sub_iff)

lemma contains_sub_trim: "contains_sub p (trim s) \<Longrightarrow> contains_sub p s"
  using trim_infix [of s] unfolding contains_sub_iff by (metis append.assoc)

section \<open>Printable ASCII text\<close>

definition is_ascii_graphic :: "char \<Rightarrow> bool" where
  "is_ascii_graphic c \<longleftrightarrow> (let b = (of_char c :: nat) in 33 \<le> b \<and> b \<le> 126)"

definition is_ascii_printable :: "char \<Rightarrow> bool" where
  "is_ascii_printable c \<longleftrightarrow> (let b = (of_char c :: nat) in 32 \<le> b \<and> b \<le> 126)"

lemma graphic_printable: "is_ascii_graphic c \<Longrightarrow> is_ascii_printable c"
  by (simp add: is_ascii_graphic_def is_ascii_printable_def Let_def)

lemma chars_printable: "list_all is_ascii_printable s \<Longrightarrow> chars s = map (\<lambda>c. [c]) s"
  by (induction s) (auto simp: is_ascii_printable_def utf8_width_def Let_def)

lemma graphic_not_whitespace: "is_ascii_graphic c \<Longrightarrow> \<not> is_whitespace [c]"
  by (auto simp: is_ascii_graphic_def is_whitespace_def Let_def)

lemma trim_printable:
  assumes "list_all is_ascii_printable s" "s \<noteq> []" "is_ascii_graphic (hd s)" "is_ascii_graphic (last s)"
  shows "trim s = s"
proof -
  obtain c cs where s: "s = c # cs" using assms(2) by (cases s) auto
  obtain ds d where s': "s = ds @ [d]" using assms(2) by (cases s rule: rev_cases) auto
  have "dropWhile is_whitespace (map (\<lambda>c. [c]) s) = map (\<lambda>c. [c]) s"
    using assms(3) graphic_not_whitespace by (simp add: s)
  moreover have "dropWhile is_whitespace (rev (map (\<lambda>c. [c]) s)) = rev (map (\<lambda>c. [c]) s)"
    using assms(4) graphic_not_whitespace by (simp add: s')
  ultimately have "trim_chars (chars s) = chars s"
    by (simp add: trim_chars_def chars_printable [OF assms(1)])
  then show ?thesis by (simp add: trim_def)
qed

lemma printable_no_control: "list_all is_ascii_printable s \<Longrightarrow> \<not> any_char is_control s"
  by (auto simp: any_char_def chars_printable list_ex_iff list_all_iff is_control_def
      is_ascii_printable_def Let_def)

lemma trim_word: "list_all is_ascii_graphic s \<Longrightarrow> trim s = s"
proof (cases "s = []")
  case False
  assume a: "list_all is_ascii_graphic s"
  show ?thesis
    by (rule trim_printable [OF _ False])
      (use a False graphic_printable in \<open>auto simp: list_all_iff\<close>)
qed simp

end
