(* ===== verification/Task_Source.thy ===== *)
theory Task_Source
  imports Rust_Text
begin

text \<open>
  \<open>TaskSource\<close> of \<open>crates/patchwright-core/src/contract.rs\<close>: where a task comes from (a local
  request, an issue or a pull request snapshot), the field validators of that file, and the two
  validated constructors. A value built by a constructor is \<open>source_wf\<close>, and every
  \<open>source_wf\<close> value passes through \<open>revalidate_task_source\<close> unchanged.
\<close>

datatype contract_error = ContractInvalidField string

section \<open>Field validators\<close>

definition nonempty :: "string \<Rightarrow> string \<Rightarrow> contract_error + unit" where
  "nonempty v field = (if trim v = [] then Inl (ContractInvalidField field) else Inr ())"

definition nonzero :: "u64 \<Rightarrow> string \<Rightarrow> contract_error + unit" where
  "nonzero v field = (if v = 0 then Inl (ContractInvalidField field) else Inr ())"

definition validate_absolute_path :: "string \<Rightarrow> string \<Rightarrow> contract_error + unit" where
  "validate_absolute_path v field =
     (if \<not> path_is_absolute v then Inl (ContractInvalidField field) else Inr ())"

definition validate_optional_absolute_path :: "string option \<Rightarrow> string \<Rightarrow> contract_error + unit" where
  "validate_optional_absolute_path v field =
     (case v of Some p \<Rightarrow> validate_absolute_path p field | None \<Rightarrow> Inr ())"

definition validate_sha256 :: "string \<Rightarrow> string \<Rightarrow> contract_error + unit" where
  "validate_sha256 v field =
     (if length v \<noteq> 64 \<or> \<not> list_all is_ascii_hexdigit v then Inl (ContractInvalidField field) else Inr ())"

definition validate_git_sha :: "string \<Rightarrow> string \<Rightarrow> contract_error + unit" where
  "validate_git_sha v field =
     (if \<not> (length v = 40 \<or> length v = 64) \<or> \<not> list_all is_ascii_hexdigit v
      then Inl (ContractInvalidField field) else Inr ())"

definition validate_https_url :: "string \<Rightarrow> string \<Rightarrow> contract_error + unit" where
  "validate_https_url v field =
     (let valid = starts_with ''https://'' v \<and>
        (let remainder = drop 8 v in remainder \<noteq> [] \<and> \<not> any_char is_whitespace remainder)
      in if \<not> valid then Inl (ContractInvalidField field) else Inr ())"

definition validate_ref :: "string \<Rightarrow> string \<Rightarrow> contract_error + unit" where
  "validate_ref v field = and_then (nonempty v field) (\<lambda>_.
     if any_char is_control v then Inl (ContractInvalidField field) else Inr ())"

definition validate_repository_name :: "string \<Rightarrow> contract_error + unit" where
  "validate_repository_name v =
     (case split_once CHR ''/'' v of
        None \<Rightarrow> Inl (ContractInvalidField ''repositoryFullName'')
      | Some (owner, name) \<Rightarrow>
          if trim owner = [] \<or> trim name = [] \<or> CHR ''/'' \<in> set name \<or>
             any_char (\<lambda>ch. is_whitespace ch \<or> is_control ch) v
          then Inl (ContractInvalidField ''repositoryFullName'') else Inr ())"

definition validate_github_item ::
  "u64 \<Rightarrow> string \<Rightarrow> u64 \<Rightarrow> string \<Rightarrow> contract_error + unit" where
  "validate_github_item repository_id repository_full_name number html_url =
     and_then (nonzero repository_id ''repositoryId'') (\<lambda>_.
     and_then (validate_repository_name repository_full_name) (\<lambda>_.
     and_then (nonzero number ''itemNumber'') (\<lambda>_.
     validate_https_url html_url ''htmlUrl'')))"

lemma nonempty_ok [valid_simps]: "nonempty v f = Inr u \<longleftrightarrow> trim v \<noteq> []"
  by (simp add: nonempty_def)

lemma nonzero_ok [valid_simps]: "nonzero v f = Inr u \<longleftrightarrow> v \<noteq> 0"
  by (simp add: nonzero_def)

lemma validate_absolute_path_ok [valid_simps]:
  "validate_absolute_path v f = Inr u \<longleftrightarrow> path_is_absolute v"
  by (simp add: validate_absolute_path_def)

lemma validate_optional_absolute_path_ok [valid_simps]:
  "validate_optional_absolute_path v f = Inr u \<longleftrightarrow> (\<forall>p. v = Some p \<longrightarrow> path_is_absolute p)"
  by (cases v) (simp_all add: validate_optional_absolute_path_def valid_simps)

definition is_sha256 :: "string \<Rightarrow> bool" where
  "is_sha256 v \<longleftrightarrow> length v = 64 \<and> list_all is_ascii_hexdigit v"

definition is_git_sha :: "string \<Rightarrow> bool" where
  "is_git_sha v \<longleftrightarrow> (length v = 40 \<or> length v = 64) \<and> list_all is_ascii_hexdigit v"

definition is_https_url :: "string \<Rightarrow> bool" where
  "is_https_url v \<longleftrightarrow> (\<exists>r. v = ''https://'' @ r \<and> r \<noteq> [] \<and> \<not> any_char is_whitespace r)"

definition is_repository_name :: "string \<Rightarrow> bool" where
  "is_repository_name v \<longleftrightarrow> (\<exists>owner name. v = owner @ CHR ''/'' # name \<and>
     CHR ''/'' \<notin> set owner \<and> CHR ''/'' \<notin> set name \<and> owner \<noteq> [] \<and> name \<noteq> [] \<and>
     \<not> any_char (\<lambda>ch. is_whitespace ch \<or> is_control ch) v)"

lemma validate_sha256_ok [valid_simps]: "validate_sha256 v f = Inr u \<longleftrightarrow> is_sha256 v"
  by (simp add: validate_sha256_def is_sha256_def)

lemma validate_git_sha_ok [valid_simps]: "validate_git_sha v f = Inr u \<longleftrightarrow> is_git_sha v"
  by (simp add: validate_git_sha_def is_git_sha_def)

lemma validate_https_url_ok [valid_simps]: "validate_https_url v f = Inr u \<longleftrightarrow> is_https_url v"
  by (auto simp: validate_https_url_def is_https_url_def starts_with_iff Let_def)

lemma validate_ref_ok [valid_simps]:
  "validate_ref v f = Inr u \<longleftrightarrow> trim v \<noteq> [] \<and> \<not> any_char is_control v"
  by (auto simp: validate_ref_def result_simps valid_simps)

section \<open>Sources\<close>

record github_issue_source =
  iss_repository_id :: u64
  iss_repository_full_name :: string
  iss_number :: u64
  iss_html_url :: string
  iss_snapshot_at :: timestamp

record github_pull_request_source =
  pr_repository_id :: u64
  pr_repository_full_name :: string
  pr_number :: u64
  pr_html_url :: string
  pr_snapshot_at :: timestamp
  pr_base_ref :: string
  pr_base_sha :: string
  pr_head_ref :: string
  pr_head_sha :: string

datatype task_source =
    LocalRequest
  | GitHubIssue github_issue_source
  | GitHubPullRequest github_pull_request_source

text \<open>
  The input structs \<open>GitHubIssueSourceInput\<close> and \<open>GitHubPullRequestSourceInput\<close> have the fields
  of the sources, so the constructors take the record they return when every check passes.
\<close>

definition github_issue :: "github_issue_source \<Rightarrow> contract_error + task_source" where
  "github_issue i = and_then (validate_github_item (iss_repository_id i)
       (iss_repository_full_name i) (iss_number i) (iss_html_url i)) (\<lambda>_. Inr (GitHubIssue i))"

definition github_pull_request :: "github_pull_request_source \<Rightarrow> contract_error + task_source" where
  "github_pull_request p = and_then (validate_github_item (pr_repository_id p)
       (pr_repository_full_name p) (pr_number p) (pr_html_url p)) (\<lambda>_.
     and_then (validate_ref (pr_base_ref p) ''baseRef'') (\<lambda>_.
     and_then (validate_ref (pr_head_ref p) ''headRef'') (\<lambda>_.
     and_then (validate_git_sha (pr_base_sha p) ''baseSha'') (\<lambda>_.
     and_then (validate_git_sha (pr_head_sha p) ''headSha'') (\<lambda>_.
     Inr (GitHubPullRequest p))))))"

definition revalidate_task_source :: "task_source \<Rightarrow> contract_error + task_source" where
  "revalidate_task_source s = (case s of
       LocalRequest \<Rightarrow> Inr LocalRequest
     | GitHubIssue i \<Rightarrow> github_issue i
     | GitHubPullRequest p \<Rightarrow> github_pull_request p)"

primrec source_repository_id :: "task_source \<Rightarrow> u64 option" where
  "source_repository_id LocalRequest = None"
| "source_repository_id (GitHubIssue i) = Some (iss_repository_id i)"
| "source_repository_id (GitHubPullRequest p) = Some (pr_repository_id p)"

primrec source_item_number :: "task_source \<Rightarrow> u64 option" where
  "source_item_number LocalRequest = None"
| "source_item_number (GitHubIssue i) = Some (iss_number i)"
| "source_item_number (GitHubPullRequest p) = Some (pr_number p)"

primrec source_repository_full_name :: "task_source \<Rightarrow> string option" where
  "source_repository_full_name LocalRequest = None"
| "source_repository_full_name (GitHubIssue i) = Some (iss_repository_full_name i)"
| "source_repository_full_name (GitHubPullRequest p) = Some (pr_repository_full_name p)"

primrec source_head_sha :: "task_source \<Rightarrow> string option" where
  "source_head_sha LocalRequest = None"
| "source_head_sha (GitHubIssue i) = None"
| "source_head_sha (GitHubPullRequest p) = Some (pr_head_sha p)"

primrec source_base_sha :: "task_source \<Rightarrow> string option" where
  "source_base_sha LocalRequest = None"
| "source_base_sha (GitHubIssue i) = None"
| "source_base_sha (GitHubPullRequest p) = Some (pr_base_sha p)"

text \<open>What a validated source satisfies.\<close>

definition source_wf :: "task_source \<Rightarrow> bool" where
  "source_wf s = is_ok (revalidate_task_source s)"

lemma github_issue_ok [valid_simps]:
  "github_issue i = Inr s \<longleftrightarrow> s = GitHubIssue i \<and>
     is_ok (validate_github_item (iss_repository_id i) (iss_repository_full_name i)
       (iss_number i) (iss_html_url i))"
  by (auto simp: github_issue_def result_simps is_ok_iff)

lemma github_pull_request_ok:
  "github_pull_request p = Inr s \<Longrightarrow> s = GitHubPullRequest p"
  by (auto simp: github_pull_request_def result_simps)

lemma revalidate_task_source_id:
  "revalidate_task_source s = Inr s' \<Longrightarrow> s' = s"
  by (auto simp: revalidate_task_source_def valid_simps github_pull_request_ok split: task_source.splits)

lemma revalidate_task_source_wf:
  "revalidate_task_source s = Inr s' \<longleftrightarrow> s' = s \<and> source_wf s"
  by (auto simp: source_wf_def is_ok_iff dest: revalidate_task_source_id)

lemma source_wf_shas:
  assumes "source_wf s"
  shows "\<forall>h. source_head_sha s = Some h \<longrightarrow> is_git_sha h"
    and "\<forall>b. source_base_sha s = Some b \<longrightarrow> is_git_sha b"
    and "source_repository_id s \<noteq> Some 0" and "source_item_number s \<noteq> Some 0"
  using assms by (cases s; auto simp: source_wf_def is_ok_iff revalidate_task_source_def
      github_issue_def github_pull_request_def validate_github_item_def result_simps valid_simps)+

end
