(* ===== verification/Domain.thy ===== *)
theory Domain
  imports Task_Source
begin

text \<open>
  \<open>crates/patchwright-core/src/domain.rs\<close>: the task and its lifecycle. \<open>Utc::now()\<close> and
  \<open>Uuid::new_v4()\<close> are arguments (\<open>now\<close>, \<open>fresh\<close>); a \<open>&mut self\<close> method returns the new task or
  the error, and on an error the caller keeps the old one, as the code leaves \<open>self\<close> alone on
  every early return. \<open>task_wf\<close> is the type invariant; \<open>lifecycle\<close> is the step relation of the
  four mutators with the list of visited states, from which the approval gates are proved.
\<close>

datatype task_state =
    Discovered | Assessing | Planned | AwaitingPreparationApproval | Preparing | Implementing
  | Verifying | Reviewing | AwaitingDeliveryApproval | Delivering | Monitoring
  | AwaitingMergeApproval | Merging | Paused | Blocked | Completed | Failed | Cancelled

definition permits :: "task_state \<Rightarrow> task_state \<Rightarrow> bool" where
  "permits s next = (case s of
       Discovered \<Rightarrow> next = Assessing
     | Assessing \<Rightarrow> next = Planned
     | Planned \<Rightarrow> next = AwaitingPreparationApproval
     | AwaitingPreparationApproval \<Rightarrow> next = Preparing
     | Preparing \<Rightarrow> next = Implementing
     | Implementing \<Rightarrow> next = Verifying
     | Verifying \<Rightarrow> next = Reviewing
     | Reviewing \<Rightarrow> next = AwaitingDeliveryApproval
     | AwaitingDeliveryApproval \<Rightarrow> next = Delivering
     | Delivering \<Rightarrow> next = Monitoring
     | Monitoring \<Rightarrow> next = Completed \<or> next = AwaitingMergeApproval
     | Merging \<Rightarrow> next = Completed \<or> next = AwaitingMergeApproval
     | AwaitingMergeApproval \<Rightarrow> next = Merging
     | _ \<Rightarrow> False)"

definition is_terminal :: "task_state \<Rightarrow> bool" where
  "is_terminal s \<longleftrightarrow> s = Completed \<or> s = Failed \<or> s = Cancelled"

definition is_interruption :: "task_state \<Rightarrow> bool" where
  "is_interruption s \<longleftrightarrow> s = Paused \<or> s = Blocked \<or> s = Failed \<or> s = Cancelled"

definition is_recoverable_interruption :: "task_state \<Rightarrow> bool" where
  "is_recoverable_interruption s \<longleftrightarrow> s = Paused \<or> s = Blocked"

datatype validation_error =
    EmptyTitle
  | RelativeRepository
  | InvalidTransition task_state task_state
  | EmptyInterruptionReason
  | InvalidInterruptionState task_state

record task_interruption =
  int_state :: task_state
  int_resume_state :: task_state
  int_reason :: string

record task =
  task_id :: uuid
  task_title :: string
  task_repository_path :: string
  task_state :: task_state
  task_created_at :: timestamp
  task_updated_at :: timestamp
  task_interruption :: "task_interruption option"
  task_source :: task_source
  task_repository_binding_id :: "uuid option"
  task_contract_version :: u32
  task_checkpoint_id :: "uuid option"

definition default_contract_version :: u32 where
  "default_contract_version = 1"

definition new_task :: "uuid \<Rightarrow> timestamp \<Rightarrow> string \<Rightarrow> string \<Rightarrow> validation_error + task" where
  "new_task fresh now title repository_path =
     (let title = trim title in
      if title = [] then Inl EmptyTitle
      else if \<not> path_is_absolute repository_path then Inl RelativeRepository
      else Inr \<lparr>task_id = fresh, task_title = title, task_repository_path = repository_path,
        task_state = Discovered, task_created_at = now, task_updated_at = now,
        task_interruption = None, task_source = LocalRequest, task_repository_binding_id = None,
        task_contract_version = default_contract_version, task_checkpoint_id = None\<rparr>)"

definition transition :: "timestamp \<Rightarrow> task_state \<Rightarrow> task \<Rightarrow> validation_error + task" where
  "transition now next t =
     (if \<not> permits (task_state t) next then Inl (InvalidTransition (task_state t) next)
      else Inr (t\<lparr>task_state := next, task_updated_at := now\<rparr>))"

definition interrupt :: "timestamp \<Rightarrow> task_state \<Rightarrow> string \<Rightarrow> task \<Rightarrow> validation_error + task" where
  "interrupt now interruption_state reason t =
     (if \<not> is_interruption interruption_state then Inl (InvalidInterruptionState interruption_state)
      else if is_terminal (task_state t) \<or> is_interruption (task_state t)
      then Inl (InvalidTransition (task_state t) interruption_state)
      else let reason = trim reason in
        if reason = [] then Inl EmptyInterruptionReason
        else Inr (t\<lparr>task_state := interruption_state,
          task_interruption := Some \<lparr>int_state = interruption_state,
            int_resume_state = task_state t, int_reason = reason\<rparr>,
          task_updated_at := now\<rparr>))"

definition resume :: "timestamp \<Rightarrow> task \<Rightarrow> validation_error + task" where
  "resume now t = (case task_interruption t of
       None \<Rightarrow> Inl (InvalidTransition (task_state t) (task_state t))
     | Some i \<Rightarrow>
         if \<not> is_recoverable_interruption (task_state t) \<or> int_state i \<noteq> task_state t
         then Inl (InvalidTransition (task_state t) (int_resume_state i))
         else Inr (t\<lparr>task_state := int_resume_state i, task_interruption := None,
           task_updated_at := now\<rparr>))"

text \<open>Evidence structures of the domain: plain data, carried by the store and the reports.\<close>

datatype finding_severity = P0 | P1 | P2 | P3

section \<open>Well-formed tasks\<close>

text \<open>A task is at work when it is neither interrupted nor finished.\<close>

definition at_work :: "task_state \<Rightarrow> bool" where
  "at_work s \<longleftrightarrow> \<not> is_terminal s \<and> \<not> is_interruption s"

definition interruption_wf :: "task \<Rightarrow> bool" where
  "interruption_wf t \<longleftrightarrow> (case task_interruption t of
       None \<Rightarrow> \<not> is_interruption (task_state t)
     | Some i \<Rightarrow> is_interruption (task_state t) \<and> int_state i = task_state t \<and>
         at_work (int_resume_state i) \<and> int_reason i \<noteq> [] \<and> trim (int_reason i) = int_reason i)"

definition task_wf :: "task \<Rightarrow> bool" where
  "task_wf t \<longleftrightarrow> task_title t \<noteq> [] \<and> trim (task_title t) = task_title t \<and>
     path_is_absolute (task_repository_path t) \<and> interruption_wf t"

lemmas state_defs = is_terminal_def is_interruption_def is_recoverable_interruption_def at_work_def

lemma transition_ok [result_simps]:
  "transition now next t = Inr t' \<longleftrightarrow> permits (task_state t) next \<and>
     t' = t\<lparr>task_state := next, task_updated_at := now\<rparr>"
  by (auto simp: transition_def)

lemma interrupt_ok [result_simps]:
  "interrupt now s reason t = Inr t' \<longleftrightarrow> is_interruption s \<and> at_work (task_state t) \<and>
     trim reason \<noteq> [] \<and>
     t' = t\<lparr>task_state := s, task_interruption := Some \<lparr>int_state = s,
       int_resume_state = task_state t, int_reason = trim reason\<rparr>, task_updated_at := now\<rparr>"
  by (auto simp: interrupt_def at_work_def Let_def)

lemma resume_ok [result_simps]:
  "resume now t = Inr t' \<longleftrightarrow> (\<exists>i. task_interruption t = Some i \<and>
     is_recoverable_interruption (task_state t) \<and> int_state i = task_state t \<and>
     t' = t\<lparr>task_state := int_resume_state i, task_interruption := None, task_updated_at := now\<rparr>)"
  by (auto simp: resume_def split: option.splits)

lemma permits_at_work: "permits s s' \<Longrightarrow> at_work s"
  by (cases s) (simp_all add: permits_def state_defs)

lemma permits_not_interruption: "permits s s' \<Longrightarrow> \<not> is_interruption s'"
  by (cases s) (auto simp: permits_def state_defs)

lemma new_task_wf: "new_task fresh now title path = Inr t \<Longrightarrow> task_wf t \<and> task_state t = Discovered"
  by (auto simp: new_task_def Let_def task_wf_def interruption_wf_def state_defs split: if_splits)

lemma transition_wf: "task_wf t \<Longrightarrow> transition now s t = Inr t' \<Longrightarrow> task_wf t'"
  using permits_at_work permits_not_interruption
  by (auto simp: result_simps task_wf_def interruption_wf_def at_work_def split: option.splits)

lemma interrupt_wf: "task_wf t \<Longrightarrow> interrupt now s r t = Inr t' \<Longrightarrow> task_wf t'"
  by (auto simp: result_simps task_wf_def interruption_wf_def)

lemma resume_wf: "task_wf t \<Longrightarrow> resume now t = Inr t' \<Longrightarrow> task_wf t'"
  by (auto simp: result_simps task_wf_def interruption_wf_def at_work_def)

section \<open>Lifecycle runs\<close>

text \<open>
  A run of the mutators from a new task. The list holds the states visited, the newest first.
\<close>

inductive lifecycle :: "task \<Rightarrow> task_state list \<Rightarrow> bool" where
  created: "new_task fresh now title path = Inr t \<Longrightarrow> lifecycle t [task_state t]"
| advanced: "lifecycle t h \<Longrightarrow> transition now s t = Inr t' \<Longrightarrow> lifecycle t' (task_state t' # h)"
| interrupted: "lifecycle t h \<Longrightarrow> interrupt now s r t = Inr t' \<Longrightarrow> lifecycle t' (task_state t' # h)"
| resumed: "lifecycle t h \<Longrightarrow> resume now t = Inr t' \<Longrightarrow> lifecycle t' (task_state t' # h)"

lemma lifecycle_wf: "lifecycle t h \<Longrightarrow> task_wf t"
  by (induction rule: lifecycle.induct) (auto dest: new_task_wf transition_wf interrupt_wf resume_wf)

lemma lifecycle_head: "lifecycle t h \<Longrightarrow> \<exists>h'. h = task_state t # h'"
  by (cases rule: lifecycle.cases) auto

text \<open>The phase of a task: where it works, or where it resumes when it is interrupted.\<close>

definition phase :: "task \<Rightarrow> task_state" where
  "phase t = (case task_interruption t of None \<Rightarrow> task_state t | Some i \<Rightarrow> int_resume_state i)"

text \<open>The approval states that every run to a phase has passed through.\<close>

definition gates :: "task_state \<Rightarrow> task_state set" where
  "gates s = (case s of
       Preparing \<Rightarrow> {AwaitingPreparationApproval}
     | Implementing \<Rightarrow> {AwaitingPreparationApproval}
     | Verifying \<Rightarrow> {AwaitingPreparationApproval}
     | Reviewing \<Rightarrow> {AwaitingPreparationApproval}
     | AwaitingDeliveryApproval \<Rightarrow> {AwaitingPreparationApproval}
     | Delivering \<Rightarrow> {AwaitingPreparationApproval, AwaitingDeliveryApproval}
     | Monitoring \<Rightarrow> {AwaitingPreparationApproval, AwaitingDeliveryApproval}
     | AwaitingMergeApproval \<Rightarrow> {AwaitingPreparationApproval, AwaitingDeliveryApproval}
     | Merging \<Rightarrow> {AwaitingPreparationApproval, AwaitingDeliveryApproval, AwaitingMergeApproval}
     | Completed \<Rightarrow> {AwaitingPreparationApproval, AwaitingDeliveryApproval}
     | _ \<Rightarrow> {})"

lemma gates_step: "permits s s' \<Longrightarrow> gates s' \<subseteq> insert s (gates s)"
  by (cases s) (auto simp: permits_def gates_def)

lemma phase_transition:
  "task_wf t \<Longrightarrow> transition now s t = Inr t' \<Longrightarrow> phase t' = s \<and> phase t = task_state t"
  using permits_at_work [of "task_state t" s]
  by (auto simp: result_simps task_wf_def interruption_wf_def phase_def at_work_def split: option.splits)

lemma phase_interrupt:
  "task_wf t \<Longrightarrow> interrupt now s r t = Inr t' \<Longrightarrow> phase t' = phase t"
  by (auto simp: result_simps task_wf_def interruption_wf_def phase_def at_work_def split: option.splits)

lemma phase_resume: "resume now t = Inr t' \<Longrightarrow> phase t' = phase t"
  by (auto simp: result_simps phase_def)

lemma lifecycle_phase_visited: "lifecycle t h \<Longrightarrow> phase t \<in> set h \<and> gates (phase t) \<subseteq> set h"
proof (induction rule: lifecycle.induct)
  case (created fresh now title path t)
  then have "task_state t = Discovered" "task_interruption t = None"
    by (auto simp: new_task_def Let_def split: if_splits)
  then show ?case by (simp add: phase_def gates_def)
next
  case (advanced t h now s t')
  then have wf: "task_wf t" by (blast intro: lifecycle_wf)
  with advanced have p: "phase t' = s" "phase t = task_state t"
    by (simp_all add: phase_transition)
  from advanced have "task_state t' = s" and "permits (task_state t) s"
    by (simp_all add: result_simps)
  with advanced p show ?case using gates_step [of "task_state t" s] by auto
next
  case (interrupted t h now s r t')
  then show ?case using lifecycle_wf phase_interrupt by fastforce
next
  case (resumed t h now t')
  then show ?case using phase_resume by fastforce
qed

section \<open>Progress\<close>

text \<open>A shortest permitted way forward from a state at work.\<close>

definition successor :: "task_state \<Rightarrow> task_state" where
  "successor s = (case s of
       Discovered \<Rightarrow> Assessing | Assessing \<Rightarrow> Planned | Planned \<Rightarrow> AwaitingPreparationApproval
     | AwaitingPreparationApproval \<Rightarrow> Preparing | Preparing \<Rightarrow> Implementing
     | Implementing \<Rightarrow> Verifying | Verifying \<Rightarrow> Reviewing | Reviewing \<Rightarrow> AwaitingDeliveryApproval
     | AwaitingDeliveryApproval \<Rightarrow> Delivering | Delivering \<Rightarrow> Monitoring
     | AwaitingMergeApproval \<Rightarrow> Merging | _ \<Rightarrow> Completed)"

definition remaining :: "task_state \<Rightarrow> nat" where
  "remaining s = (case s of
       Discovered \<Rightarrow> 11 | Assessing \<Rightarrow> 10 | Planned \<Rightarrow> 9 | AwaitingPreparationApproval \<Rightarrow> 8
     | Preparing \<Rightarrow> 7 | Implementing \<Rightarrow> 6 | Verifying \<Rightarrow> 5 | Reviewing \<Rightarrow> 4
     | AwaitingDeliveryApproval \<Rightarrow> 3 | Delivering \<Rightarrow> 2 | Monitoring \<Rightarrow> 1
     | AwaitingMergeApproval \<Rightarrow> 2 | Merging \<Rightarrow> 1 | _ \<Rightarrow> 0)"

primrec transitions :: "timestamp \<Rightarrow> task_state list \<Rightarrow> task \<Rightarrow> validation_error + task" where
  "transitions now [] t = Inr t"
| "transitions now (s # ss) t = and_then (transition now s t) (transitions now ss)"

lemma successor_step:
  "at_work s \<Longrightarrow> permits s (successor s) \<and> Suc (remaining (successor s)) = remaining s"
  by (cases s) (simp_all add: permits_def successor_def remaining_def state_defs)

lemma permitted_at_work_or_completed: "permits s s' \<Longrightarrow> at_work s' \<or> s' = Completed"
  by (cases s) (auto simp: permits_def state_defs)

lemma path_to_completed:
  assumes "at_work (task_state t) \<or> task_state t = Completed"
  shows "\<exists>ss t'. length ss = remaining (task_state t) \<and> transitions now ss t = Inr t' \<and>
    task_state t' = Completed"
  using assms
proof (induction "remaining (task_state t)" arbitrary: t)
  case 0
  then have "task_state t = Completed"
    using successor_step [of "task_state t"] by (metis Zero_not_Suc)
  with 0 show ?case by (metis list.size(3) transitions.simps(1))
next
  case (Suc n)
  then have w: "at_work (task_state t)"
    by (cases "task_state t") (simp_all add: remaining_def state_defs)
  let ?s = "successor (task_state t)"
  let ?t = "t\<lparr>task_state := ?s, task_updated_at := now\<rparr>"
  from successor_step [OF w] Suc(2) have p: "permits (task_state t) ?s" "n = remaining ?s" by auto
  with Suc(1) [of ?t] permitted_at_work_or_completed obtain ss t' where
    "length ss = n" "transitions now ss ?t = Inr t'" "task_state t' = Completed" by auto
  moreover from p have "transition now ?s t = Inr ?t" by (simp add: result_simps)
  ultimately have "length (?s # ss) = remaining (task_state t)"
    and "transitions now (?s # ss) t = Inr t'" using Suc(2) by auto
  with \<open>task_state t' = Completed\<close> show ?case by blast
qed

end
