(* ===== verification/Policy.thy ===== *)
theory Policy
  imports Domain
begin

text \<open>
  \<open>crates/patchwright-core/src/policy.rs\<close>: capabilities, approval classes, action fingerprints,
  approvals and the authorization decision. The serialization of a fingerprint to JSON and
  SHA-256 are not code of the repository: \<open>digest_sha256\<close> takes them as arguments.
\<close>

datatype capability =
    ReadRepository | PrepareWorktree | ModifyWorktree | RunKnownCommand | AccessNetwork
  | InstallDependency | CapCreateBranch | PushBranch | CreatePullRequest | PostComment | PostReview
  | ResolveThread | CreateCheckRun | CapUpdatePullRequestBranch | CapReadyPullRequest
  | CapClosePullRequest | CapCloseIssue | ModifyWorkflow | CapEnqueuePullRequest
  | CapMergePullRequest | AdministratorBypass

definition capability_action_kind :: "capability \<Rightarrow> string" where
  "capability_action_kind c = (case c of
       ReadRepository \<Rightarrow> ''readRepository''
     | PrepareWorktree \<Rightarrow> ''prepareWorktree''
     | ModifyWorktree \<Rightarrow> ''modifyWorktree''
     | RunKnownCommand \<Rightarrow> ''runKnownCommand''
     | AccessNetwork \<Rightarrow> ''accessNetwork''
     | InstallDependency \<Rightarrow> ''installDependency''
     | CapCreateBranch \<Rightarrow> ''createBranch''
     | PushBranch \<Rightarrow> ''pushBranch''
     | CreatePullRequest \<Rightarrow> ''createPullRequest''
     | PostComment \<Rightarrow> ''postComment''
     | PostReview \<Rightarrow> ''postReview''
     | ResolveThread \<Rightarrow> ''resolveThread''
     | CreateCheckRun \<Rightarrow> ''createCheckRun''
     | CapUpdatePullRequestBranch \<Rightarrow> ''updatePullRequestBranch''
     | CapReadyPullRequest \<Rightarrow> ''readyPullRequest''
     | CapClosePullRequest \<Rightarrow> ''closePullRequest''
     | CapCloseIssue \<Rightarrow> ''closeIssue''
     | ModifyWorkflow \<Rightarrow> ''modifyWorkflow''
     | CapEnqueuePullRequest \<Rightarrow> ''enqueuePullRequest''
     | CapMergePullRequest \<Rightarrow> ''mergePullRequest''
     | AdministratorBypass \<Rightarrow> ''administratorBypass'')"

datatype approval_class = Preparation | CodexRuntime | LocalCapability | GitHubDelivery | Merge

datatype approval_error =
    ApprovalInvalidField string
  | InvalidExpiration
  | IncompatibleClass approval_class capability

record action_fingerprint =
  fp_task_id :: uuid
  fp_github_repository_id :: u64
  fp_repository_full_name :: string
  fp_action_kind :: string
  fp_pull_request_number :: "u64 option"
  fp_branch :: "string option"
  fp_head_sha :: "string option"
  fp_base_sha :: "string option"
  fp_payload_sha256 :: string
  fp_policy_sha256 :: string
  fp_instruction_sha256 :: string
  fp_invalidation_generation :: u64

section \<open>Fields of a fingerprint\<close>

definition approval_repository_name :: "string \<Rightarrow> approval_error + unit" where
  "approval_repository_name v =
     (case split_once CHR ''/'' v of
        None \<Rightarrow> Inl (ApprovalInvalidField ''repositoryFullName'')
      | Some (owner, name) \<Rightarrow>
          if trim owner = [] \<or> trim name = [] \<or> CHR ''/'' \<in> set name \<or>
             any_char (\<lambda>ch. is_whitespace ch \<or> is_control ch) v
          then Inl (ApprovalInvalidField ''repositoryFullName'') else Inr ())"

definition validated_text :: "string \<Rightarrow> string \<Rightarrow> approval_error + string" where
  "validated_text value field =
     (let value = trim value in
      if value = [] \<or> any_char is_control value then Inl (ApprovalInvalidField field)
      else Inr value)"

definition validated_optional_text :: "string \<Rightarrow> string option \<Rightarrow> approval_error + string option" where
  "validated_optional_text field value = transpose_map (\<lambda>v. validated_text v field) value"

definition approval_optional_git_sha :: "string option \<Rightarrow> string \<Rightarrow> approval_error + unit" where
  "approval_optional_git_sha value field = (case value of
       None \<Rightarrow> Inr ()
     | Some v \<Rightarrow> if \<not> (length v = 40 \<or> length v = 64) \<or> \<not> list_all is_ascii_hexdigit v
         then Inl (ApprovalInvalidField field) else Inr ())"

definition approval_sha256 :: "string \<Rightarrow> string \<Rightarrow> approval_error + unit" where
  "approval_sha256 v field =
     (if length v \<noteq> 64 \<or> \<not> list_all is_ascii_hexdigit v
      then Inl (ApprovalInvalidField field) else Inr ())"

text \<open>\<open>TryFrom<ActionFingerprintDraft>\<close>: the draft has the fields of the fingerprint.\<close>

definition fingerprint_try_from :: "action_fingerprint \<Rightarrow> approval_error + action_fingerprint" where
  "fingerprint_try_from d =
     (if fp_github_repository_id d = 0 then Inl (ApprovalInvalidField ''githubRepositoryId'') else
      and_then (approval_repository_name (fp_repository_full_name d)) (\<lambda>_.
      and_then (validated_text (fp_action_kind d) ''actionKind'') (\<lambda>action_kind.
      if fp_pull_request_number d = Some 0 then Inl (ApprovalInvalidField ''pullRequestNumber'') else
      and_then (validated_optional_text ''branch'' (fp_branch d)) (\<lambda>branch.
      and_then (approval_optional_git_sha (fp_head_sha d) ''headSha'') (\<lambda>_.
      and_then (approval_optional_git_sha (fp_base_sha d) ''baseSha'') (\<lambda>_.
      and_then (approval_sha256 (fp_payload_sha256 d) ''payloadSha256'') (\<lambda>_.
      and_then (approval_sha256 (fp_policy_sha256 d) ''policySha256'') (\<lambda>_.
      and_then (approval_sha256 (fp_instruction_sha256 d) ''instructionSha256'') (\<lambda>_.
      Inr (d\<lparr>fp_action_kind := action_kind, fp_branch := branch\<rparr>))))))))))"

text \<open>The identity of a fingerprint in the store, for a JSON encoder and a SHA-256 in hex.\<close>

definition digest_sha256 ::
  "(action_fingerprint \<Rightarrow> string) \<Rightarrow> (string \<Rightarrow> string) \<Rightarrow> action_fingerprint \<Rightarrow> string" where
  "digest_sha256 to_json sha256_hex fp = sha256_hex (to_json fp)"

section \<open>Approvals\<close>

record approval =
  ap_id :: uuid
  ap_class :: approval_class
  ap_capability :: capability
  ap_fingerprint :: action_fingerprint
  ap_approved_by :: string
  ap_approved_at :: timestamp
  ap_expires_at :: timestamp

definition max_approval_duration :: int where
  "max_approval_duration = minutes 30"

definition required_class :: "capability \<Rightarrow> approval_class" where
  "required_class c = (case c of
       PrepareWorktree \<Rightarrow> Preparation
     | CapMergePullRequest \<Rightarrow> Merge
     | CapEnqueuePullRequest \<Rightarrow> Merge
     | AccessNetwork \<Rightarrow> LocalCapability
     | InstallDependency \<Rightarrow> LocalCapability
     | ModifyWorkflow \<Rightarrow> LocalCapability
     | ReadRepository \<Rightarrow> CodexRuntime
     | ModifyWorktree \<Rightarrow> CodexRuntime
     | RunKnownCommand \<Rightarrow> CodexRuntime
     | AdministratorBypass \<Rightarrow> LocalCapability
     | _ \<Rightarrow> GitHubDelivery)"

definition class_supports :: "approval_class \<Rightarrow> capability \<Rightarrow> bool" where
  "class_supports cls c = (case cls of
       Preparation \<Rightarrow> c = PrepareWorktree
     | CodexRuntime \<Rightarrow> c \<in> set [ModifyWorktree, RunKnownCommand]
     | LocalCapability \<Rightarrow> c \<in> set [AccessNetwork, InstallDependency, ModifyWorkflow]
     | GitHubDelivery \<Rightarrow> c \<in> set [CapCreateBranch, PushBranch, CreatePullRequest, PostComment,
         PostReview, ResolveThread, CreateCheckRun, CapUpdatePullRequestBranch,
         CapReadyPullRequest, CapClosePullRequest, CapCloseIssue]
     | Merge \<Rightarrow> c \<in> set [CapEnqueuePullRequest, CapMergePullRequest])"

definition new_approval :: "uuid \<Rightarrow> approval_class \<Rightarrow> capability \<Rightarrow> action_fingerprint \<Rightarrow> string \<Rightarrow>
    timestamp \<Rightarrow> timestamp \<Rightarrow> approval_error + approval" where
  "new_approval fresh cls c fp approved_by approved_at expires_at =
     and_then (validated_text approved_by ''approvedBy'') (\<lambda>approved_by.
     if expires_at \<le> approved_at \<or> expires_at - approved_at > max_approval_duration
     then Inl InvalidExpiration
     else if \<not> class_supports cls c then Inl (IncompatibleClass cls c)
     else if fp_action_kind fp \<noteq> capability_action_kind c
     then Inl (ApprovalInvalidField ''actionKind'')
     else Inr \<lparr>ap_id = fresh, ap_class = cls, ap_capability = c, ap_fingerprint = fp,
       ap_approved_by = approved_by, ap_approved_at = approved_at, ap_expires_at = expires_at\<rparr>)"

definition is_valid_for ::
  "approval \<Rightarrow> approval_class \<Rightarrow> capability \<Rightarrow> action_fingerprint \<Rightarrow> timestamp \<Rightarrow> bool" where
  "is_valid_for a cls c fp now \<longleftrightarrow> ap_class a = cls \<and> ap_capability a = c \<and> ap_fingerprint a = fp \<and>
     ap_approved_at a \<le> now \<and> now < ap_expires_at a"

section \<open>The decision\<close>

datatype policy_decision = Allowed | ApprovalRequired string | Denied string

record policy =
  automation_disabled :: bool

text \<open>\<open>Policy::default\<close> reads the kill switch from the value of an environment variable.\<close>

definition policy_default :: "string option \<Rightarrow> policy" where
  "policy_default env_value = \<lparr>automation_disabled = (env_value = Some ''1'')\<rparr>"

text \<open>
  The derived \<open>Debug\<close> names of a capability and of a class, used in the message of a missing
  approval only.
\<close>

definition capability_debug :: "capability \<Rightarrow> string" where
  "capability_debug c = (case c of
       ReadRepository \<Rightarrow> ''ReadRepository''
     | PrepareWorktree \<Rightarrow> ''PrepareWorktree''
     | ModifyWorktree \<Rightarrow> ''ModifyWorktree''
     | RunKnownCommand \<Rightarrow> ''RunKnownCommand''
     | AccessNetwork \<Rightarrow> ''AccessNetwork''
     | InstallDependency \<Rightarrow> ''InstallDependency''
     | CapCreateBranch \<Rightarrow> ''CreateBranch''
     | PushBranch \<Rightarrow> ''PushBranch''
     | CreatePullRequest \<Rightarrow> ''CreatePullRequest''
     | PostComment \<Rightarrow> ''PostComment''
     | PostReview \<Rightarrow> ''PostReview''
     | ResolveThread \<Rightarrow> ''ResolveThread''
     | CreateCheckRun \<Rightarrow> ''CreateCheckRun''
     | CapUpdatePullRequestBranch \<Rightarrow> ''UpdatePullRequestBranch''
     | CapReadyPullRequest \<Rightarrow> ''ReadyPullRequest''
     | CapClosePullRequest \<Rightarrow> ''ClosePullRequest''
     | CapCloseIssue \<Rightarrow> ''CloseIssue''
     | ModifyWorkflow \<Rightarrow> ''ModifyWorkflow''
     | CapEnqueuePullRequest \<Rightarrow> ''EnqueuePullRequest''
     | CapMergePullRequest \<Rightarrow> ''MergePullRequest''
     | AdministratorBypass \<Rightarrow> ''AdministratorBypass'')"

definition class_debug :: "approval_class \<Rightarrow> string" where
  "class_debug cls = (case cls of
       Preparation \<Rightarrow> ''Preparation'' | CodexRuntime \<Rightarrow> ''CodexRuntime''
     | LocalCapability \<Rightarrow> ''LocalCapability'' | GitHubDelivery \<Rightarrow> ''GitHubDelivery''
     | Merge \<Rightarrow> ''Merge'')"

definition authorize :: "policy \<Rightarrow> capability \<Rightarrow> action_fingerprint \<Rightarrow> approval option \<Rightarrow> timestamp \<Rightarrow>
    policy_decision" where
  "authorize p c fp a now =
     (if c = AdministratorBypass then Denied ''administrator bypass is prohibited''
      else if fp_action_kind fp \<noteq> capability_action_kind c
      then Denied ''action fingerprint does not match capability''
      else if automation_disabled p \<and> c \<noteq> ReadRepository
      then Denied ''automation kill switch is active''
      else if c \<in> set [ReadRepository, ModifyWorktree, RunKnownCommand] then Allowed
      else let cls = required_class c in
        case a of
          Some value \<Rightarrow> if is_valid_for value cls c fp now then Allowed
            else ApprovalRequired (capability_debug c @ '' requires an exact '' @ class_debug cls @ '' approval'')
        | None \<Rightarrow> ApprovalRequired (capability_debug c @ '' requires an exact '' @ class_debug cls @ '' approval''))"

section \<open>Lemmas\<close>

lemma validated_text_ok [valid_simps]:
  "validated_text v f = Inr w \<longleftrightarrow> w = trim v \<and> w \<noteq> [] \<and> \<not> any_char is_control w"
  unfolding validated_text_def Let_def by (cases "trim v = [] \<or> any_char is_control (trim v)") auto

lemma validated_text_idem: "validated_text v f = Inr w \<Longrightarrow> validated_text w g = Inr w"
  by (auto simp: valid_simps)

lemma approval_optional_git_sha_ok [valid_simps]:
  "approval_optional_git_sha v f = Inr u \<longleftrightarrow> (\<forall>s. v = Some s \<longrightarrow> is_git_sha s)"
  by (cases v) (simp_all add: approval_optional_git_sha_def is_git_sha_def)

lemma approval_sha256_ok [valid_simps]: "approval_sha256 v f = Inr u \<longleftrightarrow> is_sha256 v"
  by (simp add: approval_sha256_def is_sha256_def)

text \<open>The two copies of the repository name check accept the same names.\<close>

lemma repository_name_checks_agree:
  "is_ok (approval_repository_name v) = is_ok (validate_repository_name v)"
  by (simp add: approval_repository_name_def validate_repository_name_def split: option.split)

lemma validated_optional_text_ok [valid_simps]:
  "validated_optional_text f v = Inr w \<longleftrightarrow> (case v of None \<Rightarrow> w = None
     | Some x \<Rightarrow> w = Some (trim x) \<and> trim x \<noteq> [] \<and> \<not> any_char is_control (trim x))"
  by (auto simp: validated_optional_text_def result_simps valid_simps split: option.splits)

lemma fingerprint_try_from_ok [result_simps]:
  "fingerprint_try_from d = Inr fp \<longleftrightarrow>
     fp_github_repository_id d \<noteq> 0 \<and> approval_repository_name (fp_repository_full_name d) = Inr () \<and>
     fp_pull_request_number d \<noteq> Some 0 \<and>
     (\<forall>s. fp_head_sha d = Some s \<longrightarrow> is_git_sha s) \<and> (\<forall>s. fp_base_sha d = Some s \<longrightarrow> is_git_sha s) \<and>
     is_sha256 (fp_payload_sha256 d) \<and> is_sha256 (fp_policy_sha256 d) \<and>
     is_sha256 (fp_instruction_sha256 d) \<and>
     (\<exists>k b. validated_text (fp_action_kind d) ''actionKind'' = Inr k \<and>
        validated_optional_text ''branch'' (fp_branch d) = Inr b \<and>
        fp = d\<lparr>fp_action_kind := k, fp_branch := b\<rparr>)"
  unfolding fingerprint_try_from_def
  by (simp add: result_simps valid_simps) (auto simp: valid_simps split: option.splits)

lemma new_approval_ok [result_simps]:
  "new_approval fresh cls c fp who at ex = Inr a \<longleftrightarrow>
     trim who \<noteq> [] \<and> \<not> any_char is_control (trim who) \<and> at < ex \<and> ex - at \<le> max_approval_duration \<and>
     class_supports cls c \<and> fp_action_kind fp = capability_action_kind c \<and>
     a = \<lparr>ap_id = fresh, ap_class = cls, ap_capability = c, ap_fingerprint = fp,
       ap_approved_by = trim who, ap_approved_at = at, ap_expires_at = ex\<rparr>"
  by (auto simp: new_approval_def result_simps valid_simps)

lemma capability_action_kind_inj: "capability_action_kind c = capability_action_kind d \<Longrightarrow> c = d"
  by (cases c; cases d) (simp_all add: capability_action_kind_def)

text \<open>
  What a class may grant is what asks for that class, but for the two capabilities that no
  approval covers: reading is free, and the administrator bypass is never granted.
\<close>

lemma class_supports_iff_required:
  "class_supports cls c \<longleftrightarrow> cls = required_class c \<and> c \<notin> {ReadRepository, AdministratorBypass}"
  by (cases cls; cases c) (simp_all add: class_supports_def required_class_def)

text \<open>The decision in one formula.\<close>

definition needs_no_approval :: "capability \<Rightarrow> bool" where
  "needs_no_approval c \<longleftrightarrow> c \<in> {ReadRepository, ModifyWorktree, RunKnownCommand}"

lemma authorize_Allowed_iff [result_simps]:
  "authorize p c fp a now = Allowed \<longleftrightarrow>
     c \<noteq> AdministratorBypass \<and> fp_action_kind fp = capability_action_kind c \<and>
     (automation_disabled p \<longrightarrow> c = ReadRepository) \<and>
     (needs_no_approval c \<or>
      (\<exists>v. a = Some v \<and> is_valid_for v (required_class c) c fp now))"
  by (auto simp: authorize_def needs_no_approval_def Let_def split: option.split if_splits)

lemma authorize_window:
  assumes "authorize p c fp (Some a) now = Allowed" and "\<not> needs_no_approval c"
    and "new_approval fresh cls c' fp' who at ex = Inr a"
  shows "cls = required_class c" and "c' = c" and "fp' = fp" and "at \<le> now" and "now < ex"
    and "now < at + minutes 30"
  using assms by (auto simp: result_simps is_valid_for_def max_approval_duration_def)

end
