(* ===== verification/Contract.thy ===== *)
theory Contract
  imports Policy
begin

text \<open>
  The rest of \<open>crates/patchwright-core/src/contract.rs\<close>: repository bindings, the parts of a task
  contract, the contract itself with its validated construction and decoding, and the legacy
  contract. A draft and the value made of it share a record; the value extends it by the field the
  constructor adds (\<open>id\<close> of a binding, \<open>version\<close> of a contract). A struct with the attribute
  \<open>deny_unknown_fields\<close> that serde has read is the record of its fields.
\<close>

section \<open>Repository bindings\<close>

datatype permission_level = NoPermission | ReadPermission | WritePermission

record repository_permission_snapshot =
  perm_metadata :: permission_level
  perm_contents :: permission_level
  perm_issues :: permission_level
  perm_pull_requests :: permission_level
  perm_checks :: permission_level
  perm_administration :: permission_level

definition read_only :: repository_permission_snapshot where
  "read_only = \<lparr>perm_metadata = ReadPermission, perm_contents = ReadPermission,
     perm_issues = ReadPermission, perm_pull_requests = ReadPermission,
     perm_checks = ReadPermission, perm_administration = NoPermission\<rparr>"

datatype credential_health = HealthUnknown | Healthy | Expired | Revoked | MissingPermission

record repository_binding_draft =
  rb_github_repository_id :: u64
  rb_full_name :: string
  rb_installation_id :: u64
  rb_clone_url :: string
  rb_html_url :: string
  rb_default_branch :: string
  rb_user_checkout :: "string option"
  rb_managed_clone :: "string option"
  rb_state_root :: string
  rb_worktree_root :: string
  rb_default_branch_sha :: "string option"
  rb_default_branch_committed_at :: "timestamp option"
  rb_permissions :: repository_permission_snapshot
  rb_credential_health :: credential_health

record repository_binding = repository_binding_draft +
  rb_id :: uuid

definition repository_binding_try_from ::
  "uuid \<Rightarrow> repository_binding_draft \<Rightarrow> contract_error + repository_binding" where
  "repository_binding_try_from fresh d =
     and_then (nonzero (rb_github_repository_id d) ''githubRepositoryId'') (\<lambda>_.
     and_then (nonzero (rb_installation_id d) ''installationId'') (\<lambda>_.
     and_then (validate_repository_name (rb_full_name d)) (\<lambda>_.
     and_then (validate_https_url (rb_clone_url d) ''cloneUrl'') (\<lambda>_.
     and_then (validate_https_url (rb_html_url d) ''htmlUrl'') (\<lambda>_.
     and_then (nonempty (rb_default_branch d) ''defaultBranch'') (\<lambda>_.
     and_then (validate_optional_absolute_path (rb_user_checkout d) ''userCheckout'') (\<lambda>_.
     and_then (validate_optional_absolute_path (rb_managed_clone d) ''managedClone'') (\<lambda>_.
     and_then (validate_absolute_path (rb_state_root d) ''stateRoot'') (\<lambda>_.
     and_then (validate_absolute_path (rb_worktree_root d) ''worktreeRoot'') (\<lambda>_.
     and_then (case rb_default_branch_sha d of Some sha \<Rightarrow> validate_git_sha sha ''defaultBranchSha''
         | None \<Rightarrow> Inr ()) (\<lambda>_.
     if (rb_default_branch_sha d \<noteq> None) \<noteq> (rb_default_branch_committed_at d \<noteq> None)
     then Inl (ContractInvalidField ''defaultBranchCommit'')
     else Inr \<lparr>rb_github_repository_id = rb_github_repository_id d, rb_full_name = rb_full_name d,
       rb_installation_id = rb_installation_id d, rb_clone_url = rb_clone_url d,
       rb_html_url = rb_html_url d, rb_default_branch = rb_default_branch d,
       rb_user_checkout = rb_user_checkout d, rb_managed_clone = rb_managed_clone d,
       rb_state_root = rb_state_root d, rb_worktree_root = rb_worktree_root d,
       rb_default_branch_sha = rb_default_branch_sha d,
       rb_default_branch_committed_at = rb_default_branch_committed_at d,
       rb_permissions = rb_permissions d, rb_credential_health = rb_credential_health d,
       rb_id = fresh\<rparr>)))))))))))"

section \<open>Parts of a contract\<close>

record instruction_digest =
  dig_source :: string
  dig_sha256 :: string
  dig_precedence :: u16

definition instruction_digest_new :: "string \<Rightarrow> string \<Rightarrow> u16 \<Rightarrow> contract_error + instruction_digest" where
  "instruction_digest_new source sha256 precedence =
     and_then (nonempty source ''instructionSource'') (\<lambda>_.
     and_then (validate_sha256 sha256 ''instructionSha256'') (\<lambda>_.
     Inr \<lparr>dig_source = source, dig_sha256 = sha256, dig_precedence = precedence\<rparr>))"

record verification_command =
  vc_program :: string
  vc_args :: "string list"

definition verification_command_new :: "string \<Rightarrow> string list \<Rightarrow> contract_error + verification_command" where
  "verification_command_new program args =
     and_then (nonempty program ''verificationProgram'') (\<lambda>_.
     if any_char is_control program then Inl (ContractInvalidField ''verificationProgram'')
     else if list_ex (any_char is_control) args then Inl (ContractInvalidField ''verificationArgument'')
     else Inr \<lparr>vc_program = program, vc_args = args\<rparr>)"

datatype risk_class = Low | Moderate | High | CriticalRisk

record sensitive_path =
  sp_path :: string
  sp_reason :: string

definition sensitive_path_new :: "string \<Rightarrow> string \<Rightarrow> contract_error + sensitive_path" where
  "sensitive_path_new path reason =
     (if trim path = [] \<or> path_is_absolute path \<or>
         list_ex (\<lambda>c. c = ParentDir \<or> c = RootDir) (path_components path)
      then Inl (ContractInvalidField ''sensitivePath'')
      else and_then (nonempty reason ''sensitivePathReason'') (\<lambda>_.
        Inr \<lparr>sp_path = path, sp_reason = reason\<rparr>))"

definition recheck_digest :: "instruction_digest \<Rightarrow> contract_error + instruction_digest" where
  "recheck_digest d = instruction_digest_new (dig_source d) (dig_sha256 d) (dig_precedence d)"

definition recheck_command :: "verification_command \<Rightarrow> contract_error + verification_command" where
  "recheck_command c = verification_command_new (vc_program c) (vc_args c)"

definition recheck_path :: "sensitive_path \<Rightarrow> contract_error + sensitive_path" where
  "recheck_path p = sensitive_path_new (sp_path p) (sp_reason p)"

section \<open>Task contracts\<close>

record task_contract_draft =
  tc_task_id :: uuid
  tc_source :: task_source
  tc_repository_binding_id :: uuid
  tc_goal :: string
  tc_acceptance_criteria :: "string list"
  tc_base_sha :: "string option"
  tc_head_sha :: "string option"
  tc_source_sha256 :: string
  tc_repository_sha256 :: string
  tc_instruction_digests :: "instruction_digest list"
  tc_verification_commands :: "verification_command list"
  tc_required_capabilities :: "capability list"
  tc_risk :: risk_class
  tc_sensitive_paths :: "sensitive_path list"
  tc_dependencies :: "uuid list"

record task_contract = task_contract_draft +
  tc_version :: u32

definition current_task_contract_version :: u32 where
  "current_task_contract_version = 2"

definition optional_git_sha :: "string option \<Rightarrow> string \<Rightarrow> contract_error + unit" where
  "optional_git_sha v field = (case v of Some sha \<Rightarrow> validate_git_sha sha field | None \<Rightarrow> Inr ())"

definition criteria_ok :: "string list \<Rightarrow> contract_error + unit" where
  "criteria_ok cs = (if cs = [] \<or> list_ex (\<lambda>c. c = []) cs
     then Inl (ContractInvalidField ''acceptanceCriteria'') else Inr ())"

definition pull_request_sha_binding ::
  "task_source \<Rightarrow> string option \<Rightarrow> string option \<Rightarrow> contract_error + unit" where
  "pull_request_sha_binding s base head = (case s of
       GitHubPullRequest p \<Rightarrow>
         if base \<noteq> Some (pr_base_sha p) \<or> head \<noteq> Some (pr_head_sha p)
         then Inl (ContractInvalidField ''pullRequestShaBinding'') else Inr ()
     | _ \<Rightarrow> Inr ())"

definition dependencies_ok :: "uuid list \<Rightarrow> uuid \<Rightarrow> contract_error + unit" where
  "dependencies_ok deps task =
     (if card (set deps) \<noteq> length deps \<or> task \<in> set deps
      then Inl (ContractInvalidField ''dependencies'') else Inr ())"

definition task_contract_try_from :: "'a task_contract_draft_scheme \<Rightarrow> contract_error + task_contract" where
  "task_contract_try_from d =
     (let goal = trim (tc_goal d) in
      and_then (nonempty goal ''goal'') (\<lambda>_.
      and_then (revalidate_task_source (tc_source d)) (\<lambda>source.
      let criteria = map trim (tc_acceptance_criteria d) in
      and_then (criteria_ok criteria) (\<lambda>_.
      and_then (optional_git_sha (tc_base_sha d) ''baseSha'') (\<lambda>_.
      and_then (optional_git_sha (tc_head_sha d) ''headSha'') (\<lambda>_.
      and_then (validate_sha256 (tc_source_sha256 d) ''sourceSha256'') (\<lambda>_.
      and_then (validate_sha256 (tc_repository_sha256 d) ''repositorySha256'') (\<lambda>_.
      and_then (ensure (tc_verification_commands d \<noteq> [])
        (ContractInvalidField ''verificationCommands'')) (\<lambda>_.
      and_then (collect recheck_digest (tc_instruction_digests d)) (\<lambda>digests.
      and_then (collect recheck_command (tc_verification_commands d)) (\<lambda>commands.
      and_then (collect recheck_path (tc_sensitive_paths d)) (\<lambda>paths.
      and_then (pull_request_sha_binding source (tc_base_sha d) (tc_head_sha d)) (\<lambda>_.
      and_then (dependencies_ok (tc_dependencies d) (tc_task_id d)) (\<lambda>_.
      Inr \<lparr>tc_task_id = tc_task_id d, tc_source = source,
        tc_repository_binding_id = tc_repository_binding_id d, tc_goal = goal,
        tc_acceptance_criteria = criteria, tc_base_sha = tc_base_sha d, tc_head_sha = tc_head_sha d,
        tc_source_sha256 = tc_source_sha256 d, tc_repository_sha256 = tc_repository_sha256 d,
        tc_instruction_digests = digests, tc_verification_commands = commands,
        tc_required_capabilities = tc_required_capabilities d, tc_risk = tc_risk d,
        tc_sensitive_paths = paths, tc_dependencies = tc_dependencies d,
        tc_version = current_task_contract_version\<rparr>))))))))))))))"

datatype decode_error = DecodeMessage string | DecodeContract contract_error

text \<open>
  \<open>Deserialize for TaskContract\<close>: the wire struct has the fields of the contract. Its commands
  are decoded (and checked) by their own \<open>Deserialize\<close> before the version is looked at.
\<close>

definition decode_task_contract :: "task_contract \<Rightarrow> decode_error + task_contract" where
  "decode_task_contract wire =
     and_then (map_err DecodeContract (collect recheck_command (tc_verification_commands wire))) (\<lambda>_.
     if \<not> (tc_version wire = 1 \<or> tc_version wire = current_task_contract_version)
     then Inl (DecodeMessage ''unsupported task contract version'')
     else and_then (map_err DecodeContract (task_contract_try_from wire)) (\<lambda>contract.
       Inr (contract\<lparr>tc_version := tc_version wire\<rparr>)))"

section \<open>Legacy contracts and snapshots\<close>

record legacy_task_contract =
  lc_version :: u32
  lc_task_id :: uuid
  lc_source :: task_source
  lc_repository_binding_id :: uuid
  lc_goal :: string
  lc_acceptance_criteria :: "string list"
  lc_base_sha :: "string option"
  lc_head_sha :: "string option"
  lc_instruction_digests :: "instruction_digest list"
  lc_verification_commands :: "verification_command list"
  lc_required_capabilities :: "capability list"
  lc_risk :: risk_class
  lc_sensitive_paths :: "sensitive_path list"
  lc_dependencies :: "uuid list"

definition decode_legacy_task_contract :: "legacy_task_contract \<Rightarrow> decode_error + legacy_task_contract" where
  "decode_legacy_task_contract wire =
     and_then (map_err DecodeContract (collect recheck_command (lc_verification_commands wire))) (\<lambda>_.
     if lc_version wire \<noteq> 1
     then Inl (DecodeMessage ''unsupported legacy task contract version'')
     else map_err DecodeContract (
      and_then (revalidate_task_source (lc_source wire)) (\<lambda>source.
      let goal = trim (lc_goal wire); criteria = map trim (lc_acceptance_criteria wire) in
      and_then (nonempty goal ''goal'') (\<lambda>_.
      and_then (criteria_ok criteria) (\<lambda>_.
      and_then (optional_git_sha (lc_base_sha wire) ''baseSha'') (\<lambda>_.
      and_then (optional_git_sha (lc_head_sha wire) ''headSha'') (\<lambda>_.
      and_then (pull_request_sha_binding source (lc_base_sha wire) (lc_head_sha wire)) (\<lambda>_.
      and_then (dependencies_ok (lc_dependencies wire) (lc_task_id wire)) (\<lambda>_.
      and_then (collect recheck_digest (lc_instruction_digests wire)) (\<lambda>digests.
      and_then (collect recheck_command (lc_verification_commands wire)) (\<lambda>commands.
      and_then (collect recheck_path (lc_sensitive_paths wire)) (\<lambda>paths.
      Inr (wire\<lparr>lc_source := source, lc_goal := goal, lc_acceptance_criteria := criteria,
        lc_instruction_digests := digests, lc_verification_commands := commands,
        lc_sensitive_paths := paths\<rparr>)))))))))))))"

datatype task_contract_snapshot =
    Executable task_contract
  | LegacyReadOnly legacy_task_contract

text \<open>
  The JSON value of a stored contract, by the struct whose fields it has. Both structs deny unknown
  fields and only the current one has (and requires) the two evidence digests, so no value has the
  shape of both.
\<close>

datatype contract_json = CurrentShape task_contract | LegacyShape legacy_task_contract | OtherShape

definition json_as_contract :: "contract_json \<Rightarrow> decode_error + task_contract" where
  "json_as_contract v = (case v of CurrentShape w \<Rightarrow> decode_task_contract w
     | _ \<Rightarrow> Inl (DecodeMessage ''shape''))"

definition json_as_legacy :: "contract_json \<Rightarrow> decode_error + legacy_task_contract" where
  "json_as_legacy v = (case v of LegacyShape w \<Rightarrow> decode_legacy_task_contract w
     | _ \<Rightarrow> Inl (DecodeMessage ''shape''))"

definition decode_task_contract_snapshot :: "contract_json \<Rightarrow> decode_error + task_contract_snapshot" where
  "decode_task_contract_snapshot v = (case json_as_contract v of
       Inr contract \<Rightarrow> Inr (Executable contract)
     | Inl _ \<Rightarrow> and_then (json_as_legacy v) (\<lambda>c. Inr (LegacyReadOnly c)))"

definition is_legacy_read_only :: "task_contract_snapshot \<Rightarrow> bool" where
  "is_legacy_read_only s = (case s of LegacyReadOnly _ \<Rightarrow> True | Executable _ \<Rightarrow> False)"

primrec snapshot_version :: "task_contract_snapshot \<Rightarrow> u32" where
  "snapshot_version (Executable c) = tc_version c"
| "snapshot_version (LegacyReadOnly c) = lc_version c"

primrec snapshot_task_id :: "task_contract_snapshot \<Rightarrow> uuid" where
  "snapshot_task_id (Executable c) = tc_task_id c"
| "snapshot_task_id (LegacyReadOnly c) = lc_task_id c"

primrec snapshot_goal :: "task_contract_snapshot \<Rightarrow> string" where
  "snapshot_goal (Executable c) = tc_goal c"
| "snapshot_goal (LegacyReadOnly c) = lc_goal c"

section \<open>What a contract satisfies\<close>

lemma recheck_digest_ok: "recheck_digest d = Inr d' \<longleftrightarrow> d' = d \<and> is_ok (recheck_digest d)"
  by (auto simp: recheck_digest_def instruction_digest_new_def is_ok_iff result_simps)

lemma recheck_command_ok: "recheck_command c = Inr c' \<longleftrightarrow> c' = c \<and> is_ok (recheck_command c)"
  by (auto simp: recheck_command_def verification_command_new_def is_ok_iff result_simps split: if_splits)

lemma recheck_path_ok: "recheck_path p = Inr p' \<longleftrightarrow> p' = p \<and> is_ok (recheck_path p)"
  by (auto simp: recheck_path_def sensitive_path_new_def is_ok_iff result_simps split: if_splits)

lemma list_all2_recheck:
  assumes "\<And>x y. f x = Inr y \<longleftrightarrow> y = x \<and> is_ok (f x)"
  shows "collect f xs = Inr ys \<longleftrightarrow> ys = xs \<and> list_all (\<lambda>x. is_ok (f x)) xs"
  by (induction xs arbitrary: ys) (auto simp: result_simps assms)

lemmas collect_recheck [result_simps] =
  list_all2_recheck [of recheck_digest, OF recheck_digest_ok]
  list_all2_recheck [of recheck_command, OF recheck_command_ok]
  list_all2_recheck [of recheck_path, OF recheck_path_ok]

lemma optional_git_sha_ok [valid_simps]:
  "optional_git_sha v f = Inr u \<longleftrightarrow> (\<forall>s. v = Some s \<longrightarrow> is_git_sha s)"
  by (cases v) (simp_all add: optional_git_sha_def valid_simps)

lemma criteria_ok_ok [valid_simps]: "criteria_ok cs = Inr u \<longleftrightarrow> cs \<noteq> [] \<and> [] \<notin> set cs"
  by (auto simp: criteria_ok_def list_ex_iff)

lemma pull_request_sha_binding_ok [valid_simps]:
  "pull_request_sha_binding s b h = Inr u \<longleftrightarrow>
     (\<forall>p. s = GitHubPullRequest p \<longrightarrow> b = Some (pr_base_sha p) \<and> h = Some (pr_head_sha p))"
  by (cases s) (auto simp: pull_request_sha_binding_def)

lemma dependencies_ok_ok [valid_simps]:
  "dependencies_ok deps t = Inr u \<longleftrightarrow> distinct deps \<and> t \<notin> set deps"
  by (auto simp: dependencies_ok_def card_distinct distinct_card)

definition draft_ok :: "'a task_contract_draft_scheme \<Rightarrow> bool" where
  "draft_ok d \<longleftrightarrow> trim (tc_goal d) \<noteq> [] \<and> source_wf (tc_source d) \<and>
     tc_acceptance_criteria d \<noteq> [] \<and> [] \<notin> set (map trim (tc_acceptance_criteria d)) \<and>
     (\<forall>s. tc_base_sha d = Some s \<longrightarrow> is_git_sha s) \<and> (\<forall>s. tc_head_sha d = Some s \<longrightarrow> is_git_sha s) \<and>
     is_sha256 (tc_source_sha256 d) \<and> is_sha256 (tc_repository_sha256 d) \<and>
     tc_verification_commands d \<noteq> [] \<and>
     list_all (\<lambda>x. is_ok (recheck_digest x)) (tc_instruction_digests d) \<and>
     list_all (\<lambda>x. is_ok (recheck_command x)) (tc_verification_commands d) \<and>
     list_all (\<lambda>x. is_ok (recheck_path x)) (tc_sensitive_paths d) \<and>
     (\<forall>p. tc_source d = GitHubPullRequest p \<longrightarrow>
        tc_base_sha d = Some (pr_base_sha p) \<and> tc_head_sha d = Some (pr_head_sha p)) \<and>
     distinct (tc_dependencies d) \<and> tc_task_id d \<notin> set (tc_dependencies d)"

definition normalized :: "u32 \<Rightarrow> 'a task_contract_draft_scheme \<Rightarrow> task_contract" where
  "normalized v d = \<lparr>tc_task_id = tc_task_id d, tc_source = tc_source d,
     tc_repository_binding_id = tc_repository_binding_id d, tc_goal = trim (tc_goal d),
     tc_acceptance_criteria = map trim (tc_acceptance_criteria d), tc_base_sha = tc_base_sha d,
     tc_head_sha = tc_head_sha d, tc_source_sha256 = tc_source_sha256 d,
     tc_repository_sha256 = tc_repository_sha256 d,
     tc_instruction_digests = tc_instruction_digests d,
     tc_verification_commands = tc_verification_commands d,
     tc_required_capabilities = tc_required_capabilities d, tc_risk = tc_risk d,
     tc_sensitive_paths = tc_sensitive_paths d, tc_dependencies = tc_dependencies d,
     tc_version = v\<rparr>"

lemma task_contract_try_from_ok [result_simps]:
  "task_contract_try_from d = Inr c \<longleftrightarrow> draft_ok d \<and> c = normalized current_task_contract_version d"
  unfolding task_contract_try_from_def Let_def draft_ok_def normalized_def
  by (simp add: result_simps valid_simps revalidate_task_source_wf del: set_map) blast

text \<open>
  A well-formed contract: its draft passes every check and its texts are trimmed. This is what
  construction and decoding establish, and what a decoder gives back unchanged.
\<close>

definition contract_wf :: "task_contract \<Rightarrow> bool" where
  "contract_wf c \<longleftrightarrow> draft_ok c \<and> trim (tc_goal c) = tc_goal c \<and>
     map trim (tc_acceptance_criteria c) = tc_acceptance_criteria c \<and>
     (tc_version c = 1 \<or> tc_version c = current_task_contract_version)"

lemma normalized_simps [simp]:
  "tc_goal (normalized v d) = trim (tc_goal d)"
  "tc_acceptance_criteria (normalized v d) = map trim (tc_acceptance_criteria d)"
  "tc_version (normalized v d) = v"
  "(normalized u d)\<lparr>tc_version := v\<rparr> = normalized v d"
  by (simp_all add: normalized_def)

lemma draft_ok_normalized [simp]: "draft_ok (normalized v d) = draft_ok d"
  by (simp add: draft_ok_def normalized_def)

lemma normalized_wf:
  "draft_ok d \<Longrightarrow> v = 1 \<or> v = current_task_contract_version \<Longrightarrow> contract_wf (normalized v d)"
  by (simp add: contract_wf_def)

lemma normalized_id: "contract_wf c \<Longrightarrow> normalized (tc_version c) c = c"
  by (simp add: contract_wf_def normalized_def)

lemma draft_ok_commands:
  "draft_ok d \<Longrightarrow> collect recheck_command (tc_verification_commands d) = Inr (tc_verification_commands d)"
  by (simp add: collect_recheck draft_ok_def)

lemma decode_task_contract_ok [result_simps]:
  "decode_task_contract w = Inr c \<longleftrightarrow> draft_ok w \<and>
     (tc_version w = 1 \<or> tc_version w = current_task_contract_version) \<and>
     c = normalized (tc_version w) w"
proof (cases "draft_ok w")
  case True
  then have "task_contract_try_from w = Inr (normalized current_task_contract_version w)"
    by (simp add: task_contract_try_from_ok)
  with True show ?thesis by (auto simp: decode_task_contract_def draft_ok_commands)
next
  case False
  then show ?thesis
    by (auto simp: decode_task_contract_def and_then_eq_Inr map_err_eq_Inr task_contract_try_from_ok
        split: if_splits)
qed

lemma decode_task_contract_wf: "decode_task_contract w = Inr c \<Longrightarrow> contract_wf c"
  using normalized_wf by (auto simp: result_simps)

lemma decode_wf_contract: "contract_wf c \<Longrightarrow> decode_task_contract c = Inr c"
  using normalized_id [of c] by (simp add: decode_task_contract_ok contract_wf_def)

lemma try_from_wf: "task_contract_try_from d = Inr c \<Longrightarrow> contract_wf c"
  using normalized_wf by (auto simp: result_simps)

definition legacy_ok :: "legacy_task_contract \<Rightarrow> bool" where
  "legacy_ok c \<longleftrightarrow> lc_version c = 1 \<and> source_wf (lc_source c) \<and> trim (lc_goal c) \<noteq> [] \<and>
     lc_acceptance_criteria c \<noteq> [] \<and> [] \<notin> set (map trim (lc_acceptance_criteria c)) \<and>
     (\<forall>s. lc_base_sha c = Some s \<longrightarrow> is_git_sha s) \<and> (\<forall>s. lc_head_sha c = Some s \<longrightarrow> is_git_sha s) \<and>
     list_all (\<lambda>x. is_ok (recheck_digest x)) (lc_instruction_digests c) \<and>
     list_all (\<lambda>x. is_ok (recheck_command x)) (lc_verification_commands c) \<and>
     list_all (\<lambda>x. is_ok (recheck_path x)) (lc_sensitive_paths c) \<and>
     (\<forall>p. lc_source c = GitHubPullRequest p \<longrightarrow>
        lc_base_sha c = Some (pr_base_sha p) \<and> lc_head_sha c = Some (pr_head_sha p)) \<and>
     distinct (lc_dependencies c) \<and> lc_task_id c \<notin> set (lc_dependencies c)"

definition legacy_normalized :: "legacy_task_contract \<Rightarrow> legacy_task_contract" where
  "legacy_normalized c = c\<lparr>lc_goal := trim (lc_goal c),
     lc_acceptance_criteria := map trim (lc_acceptance_criteria c)\<rparr>"

definition legacy_wf :: "legacy_task_contract \<Rightarrow> bool" where
  "legacy_wf c \<longleftrightarrow> legacy_ok c \<and> legacy_normalized c = c"

lemma decode_legacy_ok [result_simps]:
  "decode_legacy_task_contract w = Inr c \<longleftrightarrow> legacy_ok w \<and> c = legacy_normalized w"
proof (cases "legacy_ok w")
  case True
  then show ?thesis
    by (auto simp: decode_legacy_task_contract_def Let_def legacy_ok_def legacy_normalized_def
        result_simps valid_simps revalidate_task_source_wf simp del: set_map)
next
  case False
  then show ?thesis
    by (auto simp: decode_legacy_task_contract_def Let_def legacy_ok_def and_then_eq_Inr
        map_err_eq_Inr valid_simps revalidate_task_source_wf collect_recheck split: if_splits)
qed

lemma decode_legacy_wf: "decode_legacy_task_contract w = Inr c \<Longrightarrow> legacy_wf c"
  by (auto simp: decode_legacy_ok legacy_wf_def legacy_ok_def legacy_normalized_def)

lemma decode_legacy_id: "legacy_wf c \<Longrightarrow> decode_legacy_task_contract c = Inr c"
  by (simp add: decode_legacy_ok legacy_wf_def)

section \<open>The store of documents\<close>

text \<open>
  The contract between a document type and its persistence: a decoder that checks what it reads,
  and the values that construction hands out. The code stores a value as JSON and decodes it on
  every load, so the laws say that a stored value comes back as it was, and that only well-formed
  values ever come back.
\<close>

locale checked_document =
  fixes decode :: "'w \<Rightarrow> 'e + 'c"
    and wire :: "'c \<Rightarrow> 'w"
    and wf :: "'c \<Rightarrow> bool"
  assumes decode_wire: "wf c \<Longrightarrow> decode (wire c) = Inr c"
    and decode_checks: "decode w = Inr c \<Longrightarrow> wf c"
begin

lemma reload_stable: "decode w = Inr c \<Longrightarrow> decode (wire c) = Inr c"
  by (rule decode_wire [OF decode_checks])

lemma wire_inj:
  assumes "wf c" and "wf d" and "wire c = wire d"
  shows "c = d"
proof -
  have "decode (wire d) = Inr c" using decode_wire [OF assms(1)] unfolding assms(3) .
  moreover have "decode (wire d) = Inr d" by (rule decode_wire [OF assms(2)])
  ultimately show ?thesis by (metis Inr_inject)
qed

lemma decodable_iff: "wf c \<longleftrightarrow> decode (wire c) = Inr c"
  by (rule iffI [OF decode_wire decode_checks])

end

interpretation contract_doc: checked_document decode_task_contract "\<lambda>c. c" contract_wf
  by unfold_locales (auto intro: decode_wf_contract decode_task_contract_wf)

interpretation legacy_doc: checked_document decode_legacy_task_contract "\<lambda>c. c" legacy_wf
  by unfold_locales (auto intro: decode_legacy_id decode_legacy_wf)

definition snapshot_wf :: "task_contract_snapshot \<Rightarrow> bool" where
  "snapshot_wf s = (case s of Executable c \<Rightarrow> contract_wf c | LegacyReadOnly c \<Rightarrow> legacy_wf c)"

definition snapshot_json :: "task_contract_snapshot \<Rightarrow> contract_json" where
  "snapshot_json s = (case s of Executable c \<Rightarrow> CurrentShape c | LegacyReadOnly c \<Rightarrow> LegacyShape c)"

interpretation snapshot_doc: checked_document decode_task_contract_snapshot snapshot_json snapshot_wf
proof unfold_locales
  fix c assume "snapshot_wf c"
  then show "decode_task_contract_snapshot (snapshot_json c) = Inr c"
    by (cases c) (simp_all add: snapshot_wf_def snapshot_json_def decode_task_contract_snapshot_def
        json_as_contract_def json_as_legacy_def decode_wf_contract decode_legacy_id)
next
  fix w c assume "decode_task_contract_snapshot w = Inr c"
  then show "snapshot_wf c"
    by (cases w) (auto simp: decode_task_contract_snapshot_def json_as_contract_def json_as_legacy_def
        snapshot_wf_def result_simps intro: normalized_wf decode_legacy_wf [unfolded decode_legacy_ok] split: sum.splits)
qed

end
