(* ===== verification/GitHub_Actions.thy ===== *)
theory GitHub_Actions
  imports Contract
begin

text \<open>
  \<open>crates/patchwright-core/src/github_actions.rs\<close>: the typed GitHub mutations, their validated
  constructors, what an action reveals to the policy (capability, target, SHAs), and the preview
  that binds an action to a repository and a precondition. The JSON encoders and SHA-256 of a
  preview are arguments; an encoder that can fail returns None. The private wire enums have the
  fields of the public types, so a decoder takes an unchecked value of the type and runs the
  constructor on its fields.
\<close>

datatype github_action_error = ActionInvalidField string | DuplicateInlinePosition | Serialization

datatype review_event = Approve | RequestChanges | CommentEvent | PendingEvent

datatype merge_method = MergeCommit | Squash | Rebase

record inline_review_comment =
  irc_path :: string
  irc_line :: u64
  irc_body :: string

datatype github_action =
    CreateBranch (ga_branch: string) (ga_from_sha: string)
  | PushIntent (ga_branch: string) (ga_head_sha: string)
  | Comment (ga_issue_number: u64) (ga_body: string)
  | Review (ga_pull_request_number: u64) (ga_expected_head_sha: string) (ga_event: review_event)
      (ga_body: string) (ga_inline_comments: "inline_review_comment list")
  | ResolveReviewThread (ga_pull_request_number: u64) (ga_thread_id: string)
      (ga_expected_head_sha: string)
  | CheckRun (ga_name: string) (ga_head_sha: string) (ga_status: string)
      (ga_conclusion: "string option")
  | DraftPullRequest (ga_title: string) (ga_head: string) (ga_base: string) (ga_body: string)
      (ga_expected_head_sha: string) (ga_expected_base_sha: string)
  | UpdatePullRequestBranch (ga_pull_request_number: u64) (ga_expected_head_sha: string)
  | ReadyPullRequest (ga_pull_request_number: u64) (ga_expected_head_sha: string)
  | ClosePullRequest (ga_pull_request_number: u64) (ga_expected_head_sha: string)
  | CloseIssue (ga_issue_number: u64)
  | EnqueuePullRequest (ga_pull_request_number: u64) (ga_expected_head_sha: string)
  | MergePullRequest (ga_pull_request_number: u64) (ga_expected_head_sha: string)
      (ga_method: merge_method)

section \<open>Validators\<close>

definition max_body_bytes :: nat where
  "max_body_bytes = 65536"

definition validate_number :: "u64 \<Rightarrow> github_action_error + u64" where
  "validate_number v = (if v = 0 then Inl (ActionInvalidField ''number'') else Inr v)"

definition validate_sha :: "string \<Rightarrow> github_action_error + string" where
  "validate_sha v = (if length v \<noteq> 40 \<or> \<not> list_all is_ascii_hexdigit v
     then Inl (ActionInvalidField ''sha'') else Inr (to_ascii_lowercase v))"

definition forbidden_ref_byte :: "char \<Rightarrow> bool" where
  "forbidden_ref_byte b \<longleftrightarrow> is_ascii_control b \<or>
     b \<in> set [CHR '' '', CHR ''~'', CHR ''^'', CHR '':'', CHR ''?'', CHR ''*'', CHR ''['', CHR 0x5C]"

definition validate_git_ref :: "string \<Rightarrow> github_action_error + string" where
  "validate_git_ref v =
     (if v = [] \<or> 255 < length v \<or>
         starts_with ''-'' v \<or> starts_with ''/'' v \<or> starts_with ''.'' v \<or>
         ends_with_char CHR ''/'' v \<or> ends_with_char CHR ''.'' v \<or>
         contains_sub ''..'' v \<or> contains_sub [CHR 0x40, CHR 0x7B] v \<or> list_ex forbidden_ref_byte v
      then Inl (ActionInvalidField ''ref'') else Inr v)"

definition credential_markers :: "string list" where
  "credential_markers = [''authorization: bearer '', ''ghp_'', ''gho_'', ''github_pat_'', ''-----begin'']"

definition validate_body :: "string \<Rightarrow> github_action_error + string" where
  "validate_body v =
     (let value = trim v; lowercase = to_ascii_lowercase value in
      if value = [] \<or> max_body_bytes < length value \<or> CHR 0x00 \<in> set value \<or>
         list_ex (\<lambda>marker. contains_sub marker lowercase) credential_markers
      then Inl (ActionInvalidField ''body'') else Inr value)"

definition validate_text :: "string \<Rightarrow> nat \<Rightarrow> string \<Rightarrow> github_action_error + string" where
  "validate_text v maximum field =
     (let value = trim v in
      if value = [] \<or> maximum < length value \<or> any_char is_control value
      then Inl (ActionInvalidField field) else Inr value)"

definition validate_node_id :: "string \<Rightarrow> github_action_error + string" where
  "validate_node_id v =
     (if v = [] \<or> 256 < length v \<or>
         \<not> list_all (\<lambda>b. is_ascii_alphanumeric b \<or> b = CHR ''_'' \<or> b = CHR ''-'') v
      then Inl (ActionInvalidField ''threadId'') else Inr v)"

definition validate_repository_component :: "string \<Rightarrow> github_action_error + unit" where
  "validate_repository_component v =
     (if v = [] \<or> 100 < length v \<or>
         \<not> list_all (\<lambda>b. is_ascii_alphanumeric b \<or> b = CHR ''-'' \<or> b = CHR ''_'' \<or> b = CHR ''.'') v
      then Inl (ActionInvalidField ''repositoryFullName'') else Inr ())"

section \<open>Constructors\<close>

definition inline_review_comment_new ::
  "string \<Rightarrow> u64 \<Rightarrow> string \<Rightarrow> github_action_error + inline_review_comment" where
  "inline_review_comment_new path line body =
     (if line = 0 \<or> starts_with ''/'' path \<or> contains_sub ''..'' path
      then Inl (ActionInvalidField ''inlineComment'')
      else and_then (validate_text path 1024 ''path'') (\<lambda>path.
        and_then (validate_body body) (\<lambda>body.
        Inr \<lparr>irc_path = path, irc_line = line, irc_body = body\<rparr>)))"

definition create_branch :: "string \<Rightarrow> string \<Rightarrow> github_action_error + github_action" where
  "create_branch branch from_sha =
     and_then (validate_git_ref branch) (\<lambda>branch. and_then (validate_sha from_sha) (\<lambda>from_sha.
     Inr (CreateBranch branch from_sha)))"

definition push_intent :: "string \<Rightarrow> string \<Rightarrow> github_action_error + github_action" where
  "push_intent branch head_sha =
     and_then (validate_git_ref branch) (\<lambda>branch. and_then (validate_sha head_sha) (\<lambda>head_sha.
     Inr (PushIntent branch head_sha)))"

definition comment :: "u64 \<Rightarrow> string \<Rightarrow> github_action_error + github_action" where
  "comment issue_number body =
     and_then (validate_number issue_number) (\<lambda>issue_number. and_then (validate_body body) (\<lambda>body.
     Inr (Comment issue_number body)))"

definition comment_position :: "inline_review_comment \<Rightarrow> string \<times> u64" where
  "comment_position c = (irc_path c, irc_line c)"

definition review :: "u64 \<Rightarrow> string \<Rightarrow> review_event \<Rightarrow> string \<Rightarrow> inline_review_comment list \<Rightarrow>
    github_action_error + github_action" where
  "review pull_request_number expected_head_sha event body inline_comments =
     and_then (validate_number pull_request_number) (\<lambda>pull_request_number.
     and_then (validate_body body) (\<lambda>body.
     and_then (ensure (distinct (map comment_position inline_comments)) DuplicateInlinePosition) (\<lambda>_.
     and_then (validate_sha expected_head_sha) (\<lambda>expected_head_sha.
     Inr (Review pull_request_number expected_head_sha event body inline_comments)))))"

definition resolve_review_thread :: "u64 \<Rightarrow> string \<Rightarrow> string \<Rightarrow> github_action_error + github_action" where
  "resolve_review_thread pull_request_number thread_id expected_head_sha =
     and_then (validate_number pull_request_number) (\<lambda>pull_request_number.
     and_then (validate_node_id thread_id) (\<lambda>thread_id.
     and_then (validate_sha expected_head_sha) (\<lambda>expected_head_sha.
     Inr (ResolveReviewThread pull_request_number thread_id expected_head_sha))))"

definition check_run :: "string \<Rightarrow> string \<Rightarrow> string \<Rightarrow> string option \<Rightarrow>
    github_action_error + github_action" where
  "check_run name head_sha status conclusion =
     (if status \<notin> set [''queued'', ''in_progress'', ''completed''] \<or>
         status = ''completed'' \<and> conclusion = None \<or> status \<noteq> ''completed'' \<and> conclusion \<noteq> None
      then Inl (ActionInvalidField ''status'')
      else and_then (validate_text name 100 ''name'') (\<lambda>name.
        and_then (validate_sha head_sha) (\<lambda>head_sha.
        and_then (transpose_map (\<lambda>value. validate_text value 32 ''conclusion'') conclusion) (\<lambda>conclusion.
        Inr (CheckRun name head_sha status conclusion)))))"

definition draft_pull_request :: "string \<Rightarrow> string \<Rightarrow> string \<Rightarrow> string \<Rightarrow> string \<Rightarrow> string \<Rightarrow>
    github_action_error + github_action" where
  "draft_pull_request title head base body expected_head_sha expected_base_sha =
     and_then (validate_text title 256 ''title'') (\<lambda>title.
     and_then (validate_git_ref head) (\<lambda>head.
     and_then (validate_git_ref base) (\<lambda>base.
     and_then (validate_body body) (\<lambda>body.
     and_then (validate_sha expected_head_sha) (\<lambda>expected_head_sha.
     and_then (validate_sha expected_base_sha) (\<lambda>expected_base_sha.
     Inr (DraftPullRequest title head base body expected_head_sha expected_base_sha)))))))"

definition update_pull_request_branch :: "u64 \<Rightarrow> string \<Rightarrow> github_action_error + github_action" where
  "update_pull_request_branch pull_request_number expected_head_sha =
     and_then (validate_number pull_request_number) (\<lambda>pull_request_number.
     and_then (validate_sha expected_head_sha) (\<lambda>expected_head_sha.
     Inr (UpdatePullRequestBranch pull_request_number expected_head_sha)))"

definition close_pull_request :: "u64 \<Rightarrow> string \<Rightarrow> github_action_error + github_action" where
  "close_pull_request pull_request_number expected_head_sha =
     and_then (validate_number pull_request_number) (\<lambda>pull_request_number.
     and_then (validate_sha expected_head_sha) (\<lambda>expected_head_sha.
     Inr (ClosePullRequest pull_request_number expected_head_sha)))"

definition ready_pull_request :: "u64 \<Rightarrow> string \<Rightarrow> github_action_error + github_action" where
  "ready_pull_request pull_request_number expected_head_sha =
     and_then (validate_number pull_request_number) (\<lambda>pull_request_number.
     and_then (validate_sha expected_head_sha) (\<lambda>expected_head_sha.
     Inr (ReadyPullRequest pull_request_number expected_head_sha)))"

definition close_issue :: "u64 \<Rightarrow> github_action_error + github_action" where
  "close_issue issue_number =
     and_then (validate_number issue_number) (\<lambda>issue_number. Inr (CloseIssue issue_number))"

definition enqueue_pull_request :: "u64 \<Rightarrow> string \<Rightarrow> github_action_error + github_action" where
  "enqueue_pull_request pull_request_number expected_head_sha =
     and_then (validate_number pull_request_number) (\<lambda>pull_request_number.
     and_then (validate_sha expected_head_sha) (\<lambda>expected_head_sha.
     Inr (EnqueuePullRequest pull_request_number expected_head_sha)))"

definition merge_pull_request :: "u64 \<Rightarrow> string \<Rightarrow> merge_method \<Rightarrow> github_action_error + github_action" where
  "merge_pull_request pull_request_number expected_head_sha method =
     and_then (validate_number pull_request_number) (\<lambda>pull_request_number.
     and_then (validate_sha expected_head_sha) (\<lambda>expected_head_sha.
     Inr (MergePullRequest pull_request_number expected_head_sha method)))"

text \<open>\<open>Deserialize\<close> of an inline comment and of an action: the constructor on the wire's fields.\<close>

definition decode_inline_comment :: "inline_review_comment \<Rightarrow> github_action_error + inline_review_comment" where
  "decode_inline_comment w = inline_review_comment_new (irc_path w) (irc_line w) (irc_body w)"

definition decode_github_action :: "github_action \<Rightarrow> github_action_error + github_action" where
  "decode_github_action w = (case w of
       CreateBranch branch from_sha \<Rightarrow> create_branch branch from_sha
     | PushIntent branch head_sha \<Rightarrow> push_intent branch head_sha
     | Comment issue_number body \<Rightarrow> comment issue_number body
     | Review number head_sha event body inline_comments \<Rightarrow>
         and_then (collect decode_inline_comment inline_comments) (\<lambda>inline_comments.
         review number head_sha event body inline_comments)
     | ResolveReviewThread number thread_id head_sha \<Rightarrow> resolve_review_thread number thread_id head_sha
     | CheckRun name head_sha status conclusion \<Rightarrow> check_run name head_sha status conclusion
     | DraftPullRequest title head base body head_sha base_sha \<Rightarrow>
         draft_pull_request title head base body head_sha base_sha
     | UpdatePullRequestBranch number head_sha \<Rightarrow> update_pull_request_branch number head_sha
     | ReadyPullRequest number head_sha \<Rightarrow> ready_pull_request number head_sha
     | ClosePullRequest number head_sha \<Rightarrow> close_pull_request number head_sha
     | CloseIssue issue_number \<Rightarrow> close_issue issue_number
     | EnqueuePullRequest number head_sha \<Rightarrow> enqueue_pull_request number head_sha
     | MergePullRequest number head_sha method \<Rightarrow> merge_pull_request number head_sha method)"

section \<open>What an action reveals\<close>

definition action_capability :: "github_action \<Rightarrow> capability" where
  "action_capability a = (case a of
       CreateBranch _ _ \<Rightarrow> CapCreateBranch
     | PushIntent _ _ \<Rightarrow> PushBranch
     | Comment _ _ \<Rightarrow> PostComment
     | Review _ _ _ _ _ \<Rightarrow> PostReview
     | ResolveReviewThread _ _ _ \<Rightarrow> ResolveThread
     | CheckRun _ _ _ _ \<Rightarrow> CreateCheckRun
     | DraftPullRequest _ _ _ _ _ _ \<Rightarrow> CreatePullRequest
     | UpdatePullRequestBranch _ _ \<Rightarrow> CapUpdatePullRequestBranch
     | ReadyPullRequest _ _ \<Rightarrow> CapReadyPullRequest
     | ClosePullRequest _ _ \<Rightarrow> CapClosePullRequest
     | CloseIssue _ \<Rightarrow> CapCloseIssue
     | EnqueuePullRequest _ _ \<Rightarrow> CapEnqueuePullRequest
     | MergePullRequest _ _ _ \<Rightarrow> CapMergePullRequest)"

definition action_kind :: "github_action \<Rightarrow> string" where
  "action_kind a = capability_action_kind (action_capability a)"

definition action_pull_request_number :: "github_action \<Rightarrow> u64 option" where
  "action_pull_request_number a = (case a of
       Review n _ _ _ _ \<Rightarrow> Some n
     | ResolveReviewThread n _ _ \<Rightarrow> Some n
     | UpdatePullRequestBranch n _ \<Rightarrow> Some n
     | ClosePullRequest n _ \<Rightarrow> Some n
     | ReadyPullRequest n _ \<Rightarrow> Some n
     | EnqueuePullRequest n _ \<Rightarrow> Some n
     | MergePullRequest n _ _ \<Rightarrow> Some n
     | Comment n _ \<Rightarrow> Some n
     | CloseIssue n \<Rightarrow> Some n
     | _ \<Rightarrow> None)"

definition action_branch :: "github_action \<Rightarrow> string option" where
  "action_branch a = (case a of
       CreateBranch branch _ \<Rightarrow> Some branch
     | PushIntent branch _ \<Rightarrow> Some branch
     | DraftPullRequest _ head _ _ _ _ \<Rightarrow> Some head
     | _ \<Rightarrow> None)"

definition action_expected_head_sha :: "github_action \<Rightarrow> string option" where
  "action_expected_head_sha a = (case a of
       Review _ sha _ _ _ \<Rightarrow> Some sha
     | UpdatePullRequestBranch _ sha \<Rightarrow> Some sha
     | ResolveReviewThread _ _ sha \<Rightarrow> Some sha
     | DraftPullRequest _ _ _ _ sha _ \<Rightarrow> Some sha
     | ReadyPullRequest _ sha \<Rightarrow> Some sha
     | ClosePullRequest _ sha \<Rightarrow> Some sha
     | EnqueuePullRequest _ sha \<Rightarrow> Some sha
     | MergePullRequest _ sha _ \<Rightarrow> Some sha
     | _ \<Rightarrow> None)"

definition action_expected_base_sha :: "github_action \<Rightarrow> string option" where
  "action_expected_base_sha a = (case a of
       CreateBranch _ from_sha \<Rightarrow> Some from_sha
     | DraftPullRequest _ _ _ _ _ sha \<Rightarrow> Some sha
     | _ \<Rightarrow> None)"

definition permissions_for :: "github_action \<Rightarrow> string list" where
  "permissions_for a = (case a of
       CreateBranch _ _ \<Rightarrow> [''contents:write'', ''metadata:read'']
     | PushIntent _ _ \<Rightarrow> [''contents:write'', ''metadata:read'']
     | Comment _ _ \<Rightarrow> [''issues:write'', ''metadata:read'']
     | CloseIssue _ \<Rightarrow> [''issues:write'', ''metadata:read'']
     | CheckRun _ _ _ _ \<Rightarrow> [''checks:write'', ''metadata:read'']
     | _ \<Rightarrow> [''pull_requests:write'', ''metadata:read''])"

section \<open>Identity, precondition and preview\<close>

record remote_identity =
  ri_repository_id :: u64
  ri_installation_id :: u64
  ri_repository_full_name :: string

definition remote_identity_new :: "u64 \<Rightarrow> u64 \<Rightarrow> string \<Rightarrow> github_action_error + remote_identity" where
  "remote_identity_new repository_id installation_id repository_full_name =
     (if repository_id = 0 \<or> installation_id = 0 then Inl (ActionInvalidField ''remoteIdentity'')
      else case split_once CHR ''/'' repository_full_name of
        None \<Rightarrow> Inl (ActionInvalidField ''repositoryFullName'')
      | Some (owner, repository) \<Rightarrow>
          and_then (validate_repository_component owner) (\<lambda>_.
          and_then (validate_repository_component repository) (\<lambda>_.
          Inr \<lparr>ri_repository_id = repository_id, ri_installation_id = installation_id,
            ri_repository_full_name = repository_full_name\<rparr>)))"

definition decode_remote_identity :: "remote_identity \<Rightarrow> github_action_error + remote_identity" where
  "decode_remote_identity w =
     remote_identity_new (ri_repository_id w) (ri_installation_id w) (ri_repository_full_name w)"

record remote_precondition =
  rp_expected_head_sha :: "string option"
  rp_expected_base_sha :: "string option"
  rp_snapshot_generation :: u64

definition remote_precondition_new ::
  "string option \<Rightarrow> string option \<Rightarrow> u64 \<Rightarrow> github_action_error + remote_precondition" where
  "remote_precondition_new head base snapshot_generation =
     (if snapshot_generation = 0 then Inl (ActionInvalidField ''snapshotGeneration'')
      else and_then (transpose_map validate_sha head) (\<lambda>head.
        and_then (transpose_map validate_sha base) (\<lambda>base.
        Inr \<lparr>rp_expected_head_sha = head, rp_expected_base_sha = base,
          rp_snapshot_generation = snapshot_generation\<rparr>)))"

definition decode_remote_precondition ::
  "remote_precondition \<Rightarrow> github_action_error + remote_precondition" where
  "decode_remote_precondition w =
     remote_precondition_new (rp_expected_head_sha w) (rp_expected_base_sha w) (rp_snapshot_generation w)"

record github_action_preview =
  gp_remote :: remote_identity
  gp_action :: github_action
  gp_precondition :: remote_precondition
  gp_payload_sha256 :: string
  gp_idempotency_sha256 :: string
  gp_required_permissions :: "string list"

text \<open>The encoders of an action and of an identity triple, and SHA-256 printed in hex.\<close>

record action_codec =
  json_action :: "github_action \<Rightarrow> string option"
  json_identity :: "remote_identity \<times> github_action \<times> remote_precondition \<Rightarrow> string option"
  sha256_hex :: "string \<Rightarrow> string"

definition github_action_preview_new :: "action_codec \<Rightarrow> remote_identity \<Rightarrow> github_action \<Rightarrow>
    remote_precondition \<Rightarrow> github_action_error + github_action_preview" where
  "github_action_preview_new cd remote action precondition =
     and_then (ok_or (json_action cd action) Serialization) (\<lambda>payload.
     and_then (ok_or (json_identity cd (remote, action, precondition)) Serialization) (\<lambda>identity_payload.
     Inr \<lparr>gp_remote = remote, gp_action = action, gp_precondition = precondition,
       gp_payload_sha256 = sha256_hex cd payload,
       gp_idempotency_sha256 = sha256_hex cd identity_payload,
       gp_required_permissions = permissions_for action\<rparr>))"

definition decode_github_action_preview ::
  "action_codec \<Rightarrow> github_action_preview \<Rightarrow> github_action_error + github_action_preview" where
  "decode_github_action_preview cd w =
     and_then (decode_remote_identity (gp_remote w)) (\<lambda>remote.
     and_then (decode_github_action (gp_action w)) (\<lambda>action.
     and_then (decode_remote_precondition (gp_precondition w)) (\<lambda>precondition.
     and_then (github_action_preview_new cd remote action precondition) (\<lambda>preview.
     if gp_payload_sha256 w \<noteq> gp_payload_sha256 preview
     then Inl (ActionInvalidField ''payloadSha256'')
     else if gp_idempotency_sha256 w \<noteq> gp_idempotency_sha256 preview
     then Inl (ActionInvalidField ''idempotencySha256'')
     else if gp_required_permissions w \<noteq> gp_required_permissions preview
     then Inl (ActionInvalidField ''requiredPermissions'')
     else Inr preview))))"

section \<open>What the validators accept\<close>

text \<open>
  Each validator is a normal form and a predicate on it that the normal form keeps, so checking a
  checked value again changes nothing.
\<close>

definition is_sha40 :: "string \<Rightarrow> bool" where
  "is_sha40 v \<longleftrightarrow> length v = 40 \<and> list_all is_ascii_hexdigit v"

definition is_git_ref :: "string \<Rightarrow> bool" where
  "is_git_ref v \<longleftrightarrow> is_ok (validate_git_ref v)"

definition is_node_id :: "string \<Rightarrow> bool" where
  "is_node_id v \<longleftrightarrow> is_ok (validate_node_id v)"

definition is_body :: "string \<Rightarrow> bool" where
  "is_body v \<longleftrightarrow> v \<noteq> [] \<and> length v \<le> max_body_bytes \<and> CHR 0x00 \<notin> set v \<and>
     (\<forall>m\<in>set credential_markers. \<not> contains_sub m (to_ascii_lowercase v))"

definition is_text :: "nat \<Rightarrow> string \<Rightarrow> bool" where
  "is_text n v \<longleftrightarrow> v \<noteq> [] \<and> length v \<le> n \<and> \<not> any_char is_control v"

lemma validate_number_ok [valid_simps]: "validate_number v = Inr w \<longleftrightarrow> w = v \<and> v \<noteq> 0"
  by (auto simp: validate_number_def)

lemma validate_sha_ok [valid_simps]: "validate_sha v = Inr w \<longleftrightarrow> w = to_ascii_lowercase v \<and> is_sha40 v"
  by (auto simp: validate_sha_def is_sha40_def)

lemma is_sha40_lower [simp]: "is_sha40 v \<Longrightarrow> is_sha40 (to_ascii_lowercase v)"
  by (simp add: is_sha40_def list_all_hex_lower)

lemma validate_git_ref_ok [valid_simps]: "validate_git_ref v = Inr w \<longleftrightarrow> w = v \<and> is_git_ref v"
  by (auto simp: validate_git_ref_def is_git_ref_def)

lemma validate_node_id_ok [valid_simps]: "validate_node_id v = Inr w \<longleftrightarrow> w = v \<and> is_node_id v"
  by (auto simp: validate_node_id_def is_node_id_def)

lemma validate_body_ok [valid_simps]: "validate_body v = Inr w \<longleftrightarrow> w = trim v \<and> is_body (trim v)"
  by (auto simp: validate_body_def is_body_def Let_def list_ex_iff)

lemma validate_text_ok [valid_simps]: "validate_text v n f = Inr w \<longleftrightarrow> w = trim v \<and> is_text n (trim v)"
  by (auto simp: validate_text_def is_text_def Let_def)

text \<open>
  The decoder accepts its own results, with one exception: a path of an inline comment is checked
  before it is trimmed, so a path of white space and then a slash comes out absolute.
\<close>

definition relative_comment :: "inline_review_comment \<Rightarrow> bool" where
  "relative_comment c \<longleftrightarrow> \<not> starts_with ''/'' (irc_path c)"

lemma inline_comment_idem:
  "inline_review_comment_new path line body = Inr c \<Longrightarrow> relative_comment c \<Longrightarrow>
     decode_inline_comment c = Inr c"
  by (auto simp: inline_review_comment_new_def decode_inline_comment_def relative_comment_def
      result_simps valid_simps dest: contains_sub_trim split: if_splits)

definition action_canonical :: "github_action \<Rightarrow> bool" where
  "action_canonical a = (case a of Review _ _ _ _ cs \<Rightarrow> list_all relative_comment cs | _ \<Rightarrow> True)"

lemma decode_comments_idem:
  assumes "collect decode_inline_comment ws = Inr cs" and "list_all relative_comment cs"
  shows "collect decode_inline_comment cs = Inr cs"
proof (rule collect_id)
  fix c assume "c \<in> set cs"
  with assms obtain w where "decode_inline_comment w = Inr c" and "relative_comment c"
    by (auto simp: collect_eq_Inr list_all2_conv_all_nth in_set_conv_nth list_all_iff)
  then show "decode_inline_comment c = Inr c"
    unfolding decode_inline_comment_def [of w] by (rule inline_comment_idem)
qed

lemmas action_constructors = create_branch_def push_intent_def comment_def review_def
  resolve_review_thread_def check_run_def draft_pull_request_def update_pull_request_branch_def
  close_pull_request_def ready_pull_request_def close_issue_def enqueue_pull_request_def
  merge_pull_request_def

lemma decode_review_idem:
  assumes "decode_github_action (Review n h e b cs) = Inr a" and "action_canonical a"
  shows "decode_github_action a = Inr a"
proof -
  from assms(1) obtain ds where d: "collect decode_inline_comment cs = Inr ds"
      and r: "review n h e b ds = Inr a"
    by (auto simp: decode_github_action_def result_simps)
  from r have a: "a = Review n (to_ascii_lowercase h) e (trim b) ds"
    by (simp add: review_def result_simps valid_simps)
  with assms(2) have "list_all relative_comment ds" by (simp add: action_canonical_def)
  from decode_comments_idem [OF d this] a r show ?thesis
    by (simp add: decode_github_action_def review_def result_simps valid_simps)
qed

lemma transpose_validate_text_idem:
  "transpose_map (\<lambda>v. validate_text v n f) c = Inr d \<Longrightarrow> transpose_map (\<lambda>v. validate_text v n f) d = Inr d"
  by (cases c) (auto simp: result_simps valid_simps)

lemma decode_check_run_idem: "check_run n h s c = Inr a \<Longrightarrow> decode_github_action a = Inr a"
  by (cases c) (auto simp: check_run_def decode_github_action_def result_simps valid_simps split: if_splits)

lemma decode_action_idem:
  assumes "decode_github_action w = Inr a" and "action_canonical a"
  shows "decode_github_action a = Inr a"
proof (cases w)
  case (Review n h e b cs)
  with assms decode_review_idem show ?thesis by blast
next
  case (CheckRun n h s c)
  with assms decode_check_run_idem show ?thesis by (simp add: decode_github_action_def)
qed (use assms(1) in \<open>auto simp: decode_github_action_def action_constructors result_simps valid_simps\<close>)

lemma decode_remote_identity_idem:
  "decode_remote_identity w = Inr r \<Longrightarrow> r = w"
  by (auto simp: decode_remote_identity_def remote_identity_new_def result_simps split: if_splits option.splits)

lemma decode_remote_precondition_idem:
  "decode_remote_precondition w = Inr r \<Longrightarrow> decode_remote_precondition r = Inr r"
  by (auto simp: decode_remote_precondition_def remote_precondition_new_def result_simps valid_simps
      split: if_splits option.splits)

text \<open>Identities and preconditions are checked documents.\<close>

definition remote_identity_wf :: "remote_identity \<Rightarrow> bool" where
  "remote_identity_wf r \<longleftrightarrow> decode_remote_identity r = Inr r"

definition remote_precondition_wf :: "remote_precondition \<Rightarrow> bool" where
  "remote_precondition_wf r \<longleftrightarrow> decode_remote_precondition r = Inr r"

interpretation identity_doc: checked_document decode_remote_identity "\<lambda>r. r" remote_identity_wf
proof unfold_locales
  fix w c assume "decode_remote_identity w = Inr c"
  then show "remote_identity_wf c"
    using decode_remote_identity_idem by (simp add: remote_identity_wf_def) blast
qed (simp add: remote_identity_wf_def)

interpretation precondition_doc:
  checked_document decode_remote_precondition "\<lambda>r. r" remote_precondition_wf
  by unfold_locales (auto simp: remote_precondition_wf_def intro: decode_remote_precondition_idem)

end
