(* ===== verification/Ordering.thy ===== *)
theory Ordering
  imports Rust_Text "HOL-Library.Multiset"
begin

text \<open>
  \<open>std::cmp::Ordering\<close> and \<open>slice::sort_by\<close>: comparators as functions into \<open>ordering\<close>, the
  stable sort by a comparator, and the locale of the comparators that sorting needs. A chain of
  comparators joined by \<open>then_with\<close> is again such a comparator.
\<close>

datatype ordering = Less | Equal | Greater

definition reverse :: "ordering \<Rightarrow> ordering" where
  "reverse r = (case r of Less \<Rightarrow> Greater | Equal \<Rightarrow> Equal | Greater \<Rightarrow> Less)"

definition cmp :: "'a::linorder \<Rightarrow> 'a \<Rightarrow> ordering" where
  "cmp a b = (if a < b then Less else if a = b then Equal else Greater)"

definition then_with :: "ordering \<Rightarrow> ordering \<Rightarrow> ordering" where
  "then_with r s = (case r of Equal \<Rightarrow> s | _ \<Rightarrow> r)"

text \<open>Stable sorting: an element is inserted before the ones that are greater.\<close>

primrec insert_by :: "('a \<Rightarrow> 'a \<Rightarrow> ordering) \<Rightarrow> 'a \<Rightarrow> 'a list \<Rightarrow> 'a list" where
  "insert_by c x [] = [x]"
| "insert_by c x (y # ys) = (if c x y = Greater then y # insert_by c x ys else x # y # ys)"

definition sort_by :: "('a \<Rightarrow> 'a \<Rightarrow> ordering) \<Rightarrow> 'a list \<Rightarrow> 'a list" where
  "sort_by c xs = foldr (insert_by c) xs []"

lemma reverse_simps [simp]:
  "reverse Less = Greater" "reverse Equal = Equal" "reverse Greater = Less"
  "reverse (reverse r) = r"
  by (cases r; simp add: reverse_def)+

lemma reverse_eq [simp]:
  "reverse r = Less \<longleftrightarrow> r = Greater" "reverse r = Equal \<longleftrightarrow> r = Equal" "reverse r = Greater \<longleftrightarrow> r = Less"
  by (cases r; simp)+

lemma eq_reverse [simp]:
  "Less = reverse r \<longleftrightarrow> r = Greater" "Equal = reverse r \<longleftrightarrow> r = Equal" "Greater = reverse r \<longleftrightarrow> r = Less"
  by (cases r; simp)+

lemma then_with_simps [simp]:
  "then_with Equal s = s" "then_with Less s = Less" "then_with Greater s = Greater"
  by (simp_all add: then_with_def)

lemma then_with_eq:
  "then_with r s = Equal \<longleftrightarrow> r = Equal \<and> s = Equal"
  "then_with r s = Less \<longleftrightarrow> r = Less \<or> r = Equal \<and> s = Less"
  "then_with r s = Greater \<longleftrightarrow> r = Greater \<or> r = Equal \<and> s = Greater"
  by (cases r; simp)+

lemma cmp_eq [simp]:
  "cmp a b = Less \<longleftrightarrow> a < b" "cmp a b = Equal \<longleftrightarrow> a = b" "cmp a b = Greater \<longleftrightarrow> b < a"
  by (auto simp: cmp_def)

lemma cmp_refl [simp]: "cmp a a = Equal"
  by (simp add: cmp_def)

lemma reverse_cmp [simp]: "reverse (cmp a b) = cmp b a"
  by (auto simp: cmp_def)

lemma mset_insert_by [simp]: "mset (insert_by c x xs) = add_mset x (mset xs)"
  by (induction xs) auto

lemma mset_sort_by [simp]: "mset (sort_by c xs) = mset xs"
  by (induction xs) (simp_all add: sort_by_def)

lemma set_sort_by [simp]: "set (sort_by c xs) = set xs"
  by (metis mset_sort_by set_mset_mset)

lemma length_sort_by [simp]: "length (sort_by c xs) = length xs"
  by (metis mset_sort_by size_mset)

lemma sort_by_Cons: "sort_by c (x # xs) = insert_by c x (sort_by c xs)"
  by (simp add: sort_by_def)

lemma sort_by_Nil [simp]: "sort_by c [] = []"
  by (simp add: sort_by_def)

section \<open>Lawful comparators\<close>

text \<open>
  What \<open>sort_by\<close> documents for its comparator: a total preorder. \<open>no_greater\<close> is its
  less-or-equal.
\<close>

locale comparator =
  fixes c :: "'a \<Rightarrow> 'a \<Rightarrow> ordering"
  assumes swap: "c y x = reverse (c x y)"
    and trans_le: "c x y \<noteq> Greater \<Longrightarrow> c y z \<noteq> Greater \<Longrightarrow> c x z \<noteq> Greater"
begin

lemma greater_iff: "c x y = Greater \<longleftrightarrow> c y x = Less"
  by (simp add: swap [of y x])

lemma equal_iff: "c x y = Equal \<longleftrightarrow> c y x = Equal"
  by (simp add: swap [of y x])

lemma both_le: "c x y \<noteq> Greater \<Longrightarrow> c y x \<noteq> Greater \<Longrightarrow> c x y = Equal"
  using greater_iff [of x y] greater_iff [of y x] by (cases "c x y") auto

lemma refl_equal: "c x x = Equal"
  using swap [of x x] by (cases "c x x") simp_all

lemma total: "c x y \<noteq> Greater \<or> c y x \<noteq> Greater"
  using greater_iff [of x y] by auto

lemma sorted_insert_by:
  "sorted_wrt (\<lambda>a b. c a b \<noteq> Greater) xs \<Longrightarrow> sorted_wrt (\<lambda>a b. c a b \<noteq> Greater) (insert_by c x xs)"
proof (induction xs)
  case (Cons y ys)
  show ?case
  proof (cases "c x y = Greater")
    case True
    then have "c y x \<noteq> Greater" using total by blast
    moreover have "set (insert_by c x ys) = insert x (set ys)"
      by (metis mset_insert_by set_mset_add_mset_insert set_mset_mset)
    ultimately show ?thesis using Cons True by simp
  next
    case False
    then show ?thesis using Cons.prems trans_le [of x y] by auto
  qed
qed simp

lemma sorted_sort_by: "sorted_wrt (\<lambda>a b. c a b \<noteq> Greater) (sort_by c xs)"
  by (induction xs) (simp_all add: sort_by_Cons sorted_insert_by)

text \<open>Elements that compare equal keep their order.\<close>

definition equals :: "'a \<Rightarrow> 'a \<Rightarrow> bool" where
  "equals k x \<longleftrightarrow> c k x = Equal"

lemma equals_trans:
  assumes "c x y = Equal"
  shows "c k x = Equal \<longleftrightarrow> c k y = Equal"
proof -
  from assms have "c x y \<noteq> Greater" "c y x \<noteq> Greater" using equal_iff [of x y] by simp_all
  then have "c k x \<noteq> Greater \<longleftrightarrow> c k y \<noteq> Greater" "c x k \<noteq> Greater \<longleftrightarrow> c y k \<noteq> Greater"
    using trans_le by blast+
  moreover have "c k z = Equal \<longleftrightarrow> c k z \<noteq> Greater \<and> c z k \<noteq> Greater" for z
    using both_le [of k z] equal_iff [of k z] by auto
  ultimately show ?thesis by blast
qed

lemma filter_insert_by:
  "filter (equals k) (insert_by c x xs) = (if equals k x then x # filter (equals k) xs else filter (equals k) xs)"
proof (induction xs)
  case (Cons y ys)
  show ?case
  proof (cases "c x y = Greater \<and> equals k x")
    case True
    then have "\<not> equals k y"
      using equals_trans [of k y x] equal_iff [of k x] by (auto simp: equals_def)
    with Cons True show ?thesis by simp
  next
    case False
    with Cons show ?thesis by auto
  qed
qed simp

lemma stable_sort_by: "filter (equals k) (sort_by c xs) = filter (equals k) xs"
  by (induction xs) (simp_all add: sort_by_Cons filter_insert_by)

text \<open>When equal elements are the same, the result depends on the elements only.\<close>

lemma sort_by_unique:
  assumes "mset xs = mset ys" and "\<And>x y. x \<in> set xs \<Longrightarrow> y \<in> set xs \<Longrightarrow> c x y = Equal \<Longrightarrow> x = y"
  shows "sort_by c xs = sort_by c ys"
proof -
  have "us = vs" if "sorted_wrt (\<lambda>a b. c a b \<noteq> Greater) us" "sorted_wrt (\<lambda>a b. c a b \<noteq> Greater) vs"
    "mset us = mset vs" "\<And>x y. x \<in> set us \<Longrightarrow> y \<in> set us \<Longrightarrow> c x y = Equal \<Longrightarrow> x = y" for us vs
    using that
  proof (induction us arbitrary: vs)
    case (Cons u us)
    then obtain v vs' where vs: "vs = v # vs'" by (cases vs) auto
    have sets: "set (u # us) = set vs" using Cons.prems(3) by (metis set_mset_mset)
    then have "v \<in> set (u # us)" "u \<in> set vs" using vs by auto
    with Cons.prems(1,2) vs have "c u v \<noteq> Greater" "c v u \<noteq> Greater" by (auto simp: refl_equal)
    then have "c u v = Equal" by (rule both_le)
    with Cons.prems(4) \<open>v \<in> set (u # us)\<close> have "u = v" by simp
    with Cons vs show ?case by simp
  qed simp
  then show ?thesis using sorted_sort_by assms by (metis mset_sort_by set_sort_by)
qed

end

text \<open>A lawful comparator whose equal elements are equal is a linear order.\<close>

locale strict_comparator = comparator +
  assumes equal_eq: "c x y = Equal \<Longrightarrow> x = y"
begin

lemma order_independent: "mset xs = mset ys \<Longrightarrow> sort_by c xs = sort_by c ys"
  by (rule sort_by_unique) (auto intro: equal_eq)

end

interpretation cmp_order: strict_comparator "cmp :: 'a::linorder \<Rightarrow> 'a \<Rightarrow> ordering"
  by unfold_locales (auto simp: not_less)

section \<open>Building comparators\<close>

lemma comparator_on: "comparator c \<Longrightarrow> comparator (\<lambda>x y. c (f x) (f y))"
  unfolding comparator_def by blast

lemma comparator_reverse:
  assumes "comparator c"
  shows "comparator (\<lambda>x y. reverse (c x y))"
proof
  fix x y z
  show "reverse (c y x) = reverse (reverse (c x y))"
    using comparator.swap [OF assms, of y x] by simp
  assume h: "reverse (c x y) \<noteq> Greater" "reverse (c y z) \<noteq> Greater"
  then have "c z y \<noteq> Greater" "c y x \<noteq> Greater"
    using comparator.greater_iff [OF assms, of z y] comparator.greater_iff [OF assms, of y x]
    by simp_all
  then have "c z x \<noteq> Greater" by (rule comparator.trans_le [OF assms])
  then show "reverse (c x z) \<noteq> Greater" 
    using comparator.greater_iff [OF assms, of z x] by simp
qed

lemma comparator_then_with:
  assumes "comparator c" and "comparator d"
  shows "comparator (\<lambda>x y. then_with (c x y) (d x y))"
proof
  fix x y z
  show "then_with (c y x) (d y x) = reverse (then_with (c x y) (d x y))"
    using comparator.swap [OF assms(1), of y x] comparator.swap [OF assms(2), of y x]
    by (cases "c x y") auto
  assume h: "then_with (c x y) (d x y) \<noteq> Greater" "then_with (c y z) (d y z) \<noteq> Greater"
  then have ne: "c x y \<noteq> Greater" "c y z \<noteq> Greater" by (auto simp: then_with_eq)
  then have xz: "c x z \<noteq> Greater" by (rule comparator.trans_le [OF assms(1)])
  show "then_with (c x z) (d x z) \<noteq> Greater"
  proof (cases "c x z = Equal")
    case True
    have "c z x = Equal" using comparator.equal_iff [OF assms(1)] True by blast
    then have "c z y \<noteq> Greater" "c y x \<noteq> Greater"
      using comparator.trans_le [OF assms(1), of z x y] comparator.trans_le [OF assms(1), of y z x] ne
      by (simp_all del: cmp_eq)
    then have "c x y = Equal" "c y z = Equal"
      using ne comparator.both_le [OF assms(1)] by auto
    with h True comparator.trans_le [OF assms(2), of x y z] show ?thesis by simp
  next
    case False
    with xz show ?thesis by (cases "c x z") auto
  qed
qed

lemma comparator_cmp_on: "comparator (\<lambda>x y. cmp (f x :: 'b::linorder) (f y))"
  by (rule comparator_on [OF cmp_order.comparator_axioms])

end
