(* ===== verification/GitHub_Model.thy ===== *)
theory GitHub_Model
  imports Rust_Text Ordering
begin

text \<open>
  The read model of GitHub in \<open>crates/patchwright-engine/src/github.rs\<close>: the structures a
  snapshot is made of, and the pure functions that condense raw reviews, checks and headers
  (\<open>bounded_snapshot_limits\<close>, \<open>next_link\<close>, \<open>latest_review_at\<close>, \<open>review_decision\<close>, \<open>ci_health\<close>,
  \<open>encode_path_segment\<close>). The HTTP client is in \<open>GitHub_Client\<close>.
\<close>

record github_account =
  ga_login :: string
  ga_avatar_url :: string
  ga_html_url :: string

datatype github_permission = PermissionDenied | PermissionGranted

record github_repository_permissions =
  gp_admin :: github_permission
  gp_maintain :: github_permission
  gp_push :: github_permission
  gp_triage :: github_permission
  gp_pull :: github_permission

definition is_granted :: "github_permission \<Rightarrow> bool" where
  "is_granted p \<longleftrightarrow> p = PermissionGranted"

record github_repository =
  gr_id :: u64
  gr_full_name :: string
  gr_description :: "string option"
  gr_private :: bool
  gr_archived :: bool
  gr_default_branch :: string
  gr_html_url :: string
  gr_updated_at :: string
  gr_pushed_at :: "string option"
  gr_open_issues_count :: u64
  gr_open_pull_request_count :: u64
  gr_failing_check_count :: u64
  gr_default_branch_sha :: "string option"
  gr_default_branch_committed_at :: "string option"
  gr_installation_id :: "u64 option"
  gr_permissions :: github_repository_permissions

datatype work_item_kind = IssueItem | PullRequestItem

record github_work_item =
  wi_id :: u64
  wi_repository_full_name :: string
  wi_number :: u64
  wi_kind :: work_item_kind
  wi_title :: string
  wi_state :: string
  wi_state_reason :: "string option"
  wi_body :: "string option"
  wi_author :: string
  wi_html_url :: string
  wi_draft :: bool
  wi_comments_count :: u64
  wi_base_ref :: "string option"
  wi_base_sha :: "string option"
  wi_head_ref :: "string option"
  wi_head_sha :: "string option"
  wi_merged :: "bool option"
  wi_merge_commit_sha :: "string option"
  wi_created_at :: "string option"
  wi_head_committed_at :: "string option"
  wi_latest_review_at :: "string option"
  wi_updated_at :: string
  wi_review_decision :: "string option"
  wi_ci_health :: "string option"
  wi_mergeable :: "bool option"
  wi_mergeable_state :: "string option"
  wi_rebaseable :: "bool option"
  wi_has_conflicts :: "bool option"
  wi_head_repository_full_name :: "string option"
  wi_head_repository_fork :: bool
  wi_maintainer_can_modify :: bool
  wi_additions :: u64
  wi_deletions :: u64
  wi_changed_files :: u64
  wi_labels :: "string list"
  wi_assignees :: "string list"
  wi_milestone :: "string option"

record github_discussion =
  gd_id :: u64
  gd_item_number :: u64
  gd_kind :: string
  gd_author :: string
  gd_body :: "string option"
  gd_state :: "string option"
  gd_path :: "string option"
  gd_line :: "u64 option"
  gd_html_url :: string
  gd_updated_at :: "string option"
  gd_thread_node_id :: "string option"
  gd_thread_resolved :: "bool option"
  gd_thread_outdated :: "bool option"
  gd_viewer_can_resolve :: "bool option"

record github_check_run =
  gc_id :: u64
  gc_item_number :: u64
  gc_name :: string
  gc_status :: string
  gc_conclusion :: "string option"
  gc_html_url :: "string option"

record github_workflow_run =
  gw_id :: u64
  gw_name :: "string option"
  gw_status :: "string option"
  gw_conclusion :: "string option"
  gw_event :: string
  gw_head_sha :: string
  gw_html_url :: string
  gw_updated_at :: string

record github_repository_snapshot =
  gs_repository :: github_repository
  gs_work_items :: "github_work_item list"
  gs_discussions :: "github_discussion list"
  gs_checks :: "github_check_run list"
  gs_workflow_runs :: "github_workflow_run list"

section \<open>Condensing reviews and checks\<close>

definition max_snapshot_resources :: nat where
  "max_snapshot_resources = 100"

text \<open>\<open>usize::clamp\<close> and \<open>div_ceil\<close>, on naturals: both results are at most 100.\<close>

definition bounded_snapshot_limits :: "nat \<Rightarrow> nat \<Rightarrow> nat \<times> nat" where
  "bounded_snapshot_limits requested pull_count =
     (let global = max 1 (min requested max_snapshot_resources);
          pulls = max pull_count 1;
          per_pull = max ((global + pulls - 1) div pulls) 1
      in (global, per_pull))"

definition trim_start_matches :: "char \<Rightarrow> string \<Rightarrow> string" where
  "trim_start_matches c v = dropWhile (\<lambda>x. x = c) v"

definition trim_end_matches :: "char \<Rightarrow> string \<Rightarrow> string" where
  "trim_end_matches c v = rev (dropWhile (\<lambda>x. x = c) (rev v))"

definition next_link_part :: "string \<Rightarrow> string option" where
  "next_link_part part = (case split_once CHR '';'' (trim part) of
       None \<Rightarrow> None
     | Some (url, relation) \<Rightarrow>
         if trim relation = ''rel='' @ [CHR 0x22] @ ''next'' @ [CHR 0x22]
         then Some (trim_end_matches CHR ''>'' (trim_start_matches CHR ''<'' (trim url)))
         else None)"

definition next_link :: "string \<Rightarrow> string option" where
  "next_link header = (case List.map_filter next_link_part (split_on CHR '','' header) of
       [] \<Rightarrow> None | url # _ \<Rightarrow> Some url)"

definition max_text :: "string list \<Rightarrow> string option" where
  "max_text vs = (case vs of [] \<Rightarrow> None | v # rest \<Rightarrow> Some (fold max rest v))"

definition latest_review_at :: "github_discussion list \<Rightarrow> string option" where
  "latest_review_at ds =
     max_text (List.map_filter gd_updated_at (filter (\<lambda>d. starts_with ''review'' (gd_kind d)) ds))"

text \<open>The hash map from reviewer to the time and state of the latest review, as a finite map.\<close>

definition note_review ::
  "github_discussion \<Rightarrow> (string \<rightharpoonup> string \<times> string) \<Rightarrow> (string \<rightharpoonup> string \<times> string)" where
  "note_review d latest = (case gd_state d of
       None \<Rightarrow> latest
     | Some state \<Rightarrow>
         let submitted_at = (case gd_updated_at d of None \<Rightarrow> [] | Some t \<Rightarrow> t) in
         if (case latest (gd_author d) of None \<Rightarrow> True | Some (current, _) \<Rightarrow> current \<le> submitted_at)
         then latest(gd_author d \<mapsto> (submitted_at, state)) else latest)"

definition latest_reviews :: "github_discussion list \<Rightarrow> (string \<rightharpoonup> string \<times> string)" where
  "latest_reviews ds = fold note_review (filter (\<lambda>d. gd_kind d = ''review'') ds) Map.empty"

definition review_states :: "github_discussion list \<Rightarrow> string list" where
  "review_states ds = List.map_filter
     (\<lambda>author. map_option (\<lambda>(_, state). to_ascii_lowercase state) (latest_reviews ds author))
     (remdups (map gd_author ds))"

definition review_decision :: "github_discussion list \<Rightarrow> string option" where
  "review_decision ds = (let states = review_states ds in
     if list_ex (\<lambda>s. s = ''changes_requested'' \<or> s = ''changesrequested'') states
     then Some ''changesRequested''
     else if list_ex (\<lambda>s. s = ''approved'') states then Some ''approved''
     else if states = [] then None
     else Some ''reviewRequired'')"

definition is_failing_conclusion :: "string option \<Rightarrow> bool" where
  "is_failing_conclusion c \<longleftrightarrow> c \<in> Some ` set [''failure'', ''timed_out'', ''cancelled'',
     ''action_required'', ''startup_failure'', ''stale'']"

definition ci_health :: "github_check_run list \<Rightarrow> string" where
  "ci_health checks =
     (if checks = [] then ''unknown''
      else if list_ex (\<lambda>c. gc_status c \<noteq> ''completed'') checks then ''pending''
      else if list_ex (\<lambda>c. is_failing_conclusion (gc_conclusion c)) checks then ''failing''
      else if list_all (\<lambda>c. gc_conclusion c \<in> Some ` set [''success'', ''neutral'', ''skipped'']) checks
      then ''passing'' else ''unknown'')"

definition hex_digit :: "nat \<Rightarrow> char" where
  "hex_digit n = ''0123456789ABCDEF'' ! n"

definition encode_byte :: "char \<Rightarrow> string" where
  "encode_byte c =
     (if is_ascii_alphanumeric c \<or> c \<in> set ''-._~'' then [c]
      else [CHR ''%'', hex_digit (of_char c div 16), hex_digit (of_char c mod 16)])"

definition encode_path_segment :: "string \<Rightarrow> string" where
  "encode_path_segment v = concat (map encode_byte v)"

section \<open>What a passing item shows\<close>

lemma ci_health_passing:
  "ci_health cs = ''passing'' \<longleftrightarrow> cs \<noteq> [] \<and> (\<forall>c\<in>set cs. gc_status c = ''completed'' \<and>
     gc_conclusion c \<in> Some ` set [''success'', ''neutral'', ''skipped''])"
  by (auto simp: ci_health_def list_ex_iff list_all_iff is_failing_conclusion_def)

lemma div_ceil_le: "1 \<le> n \<Longrightarrow> 1 \<le> g \<Longrightarrow> (g + n - 1) div n \<le> (g::nat)"
proof -
  assume a: "1 \<le> n" "1 \<le> g"
  then obtain i j where "n = Suc i" "g = Suc j" by (metis One_nat_def Suc_le_D)
  then have "(g + n - 1) div n \<le> (g * n) div n" by (intro div_le_mono) simp
  with a show ?thesis by simp
qed

lemma snapshot_limits_bounds:
  assumes "bounded_snapshot_limits r n = (g, p)"
  shows "1 \<le> g \<and> g \<le> 100 \<and> 1 \<le> p \<and> p \<le> g"
proof -
  define q where "q = (g + max n 1 - 1) div max n 1"
  have e: "(max 1 (min r 100), max ((max 1 (min r 100) + max n 1 - 1) div max n 1) 1) = (g, p)"
    using assms by (simp only: bounded_snapshot_limits_def max_snapshot_resources_def Let_def)
  have g: "g = max 1 (min r 100)" using e by (simp only: prod.inject)
  have p: "p = max q 1" using e unfolding q_def g by (simp only: prod.inject)
  have b: "1 \<le> g" "g \<le> 100" using g by arith+
  moreover have "q \<le> g" unfolding q_def using b(1) by (intro div_ceil_le) simp_all
  ultimately show ?thesis unfolding p by simp
qed

lemma encode_byte_length: "1 \<le> length (encode_byte c) \<and> length (encode_byte c) \<le> 3"
  by (simp add: encode_byte_def)

end
