(* ===== verification/Monitoring_Record.thy ===== *)
theory Monitoring_Record
  imports Domain
begin

text \<open>
  \<open>crates/patchwright-engine/src/monitoring.rs\<close>: the monitor of one pull request at one pair of
  SHAs. \<open>observe\<close> returns the new record with the outcome, or the error with the record as it was.
  The RFC 3339 rendering of a time, which only a summary uses, is an argument.
\<close>

datatype ci_state = CIPending | CISuccess | CIFailure

datatype monitor_review = RevPending | RevApproved | RevChangesRequested | RevApprovalDismissed

datatype mergeability = MergeUnknown | Mergeable | Conflicting | InaccessibleFork

datatype monitor_state = MonPending | MonRepairNeeded | MonSucceeded | MonBlocked | MonCancelled

record remote_observation =
  ob_observed_at :: timestamp
  ob_head_sha :: string
  ob_base_sha :: string
  ob_ci :: ci_state
  ob_review :: monitor_review
  ob_mergeability :: mergeability
  ob_repository_accessible :: bool
  ob_network_available :: bool
  ob_rate_limited_until :: "timestamp option"

record monitor_outcome =
  mo_state :: monitor_state
  mo_summary :: string
  mo_invalidate_approvals :: bool

record monitor_record =
  mon_id :: uuid
  mon_task_id :: uuid
  mon_repository_full_name :: string
  mon_pull_request_number :: u64
  mon_expected_head_sha :: string
  mon_expected_base_sha :: string
  mon_state :: monitor_state
  mon_attempt_count :: u32
  mon_repair_iteration :: u32
  mon_repair_budget :: u32
  mon_next_attempt_at :: "timestamp option"
  mon_latest_observation :: "remote_observation option"
  mon_summary :: string
  mon_created_at :: timestamp
  mon_updated_at :: timestamp

datatype monitoring_error =
  InvalidRepository | InvalidPullRequest | InvalidSha | InvalidRepairBudget | MonitorTerminal

definition monitor_validate_sha :: "string \<Rightarrow> monitoring_error + unit" where
  "monitor_validate_sha v =
     (if length v \<noteq> 40 \<or> \<not> list_all is_ascii_hexdigit v then Inl InvalidSha else Inr ())"

definition monitor_new :: "uuid \<Rightarrow> uuid \<Rightarrow> string \<Rightarrow> u64 \<Rightarrow> string \<Rightarrow> string \<Rightarrow> timestamp \<Rightarrow> u32 \<Rightarrow>
    monitoring_error + monitor_record" where
  "monitor_new fresh task repository number head base now repair_budget =
     (if split_once CHR ''/'' repository = None \<or> any_char is_whitespace repository
      then Inl InvalidRepository
      else if number = 0 then Inl InvalidPullRequest
      else and_then (monitor_validate_sha head) (\<lambda>_.
        and_then (monitor_validate_sha base) (\<lambda>_.
        if repair_budget = 0 then Inl InvalidRepairBudget
        else Inr \<lparr>mon_id = fresh, mon_task_id = task, mon_repository_full_name = repository,
          mon_pull_request_number = number, mon_expected_head_sha = head,
          mon_expected_base_sha = base, mon_state = MonPending, mon_attempt_count = 0,
          mon_repair_iteration = 0, mon_repair_budget = repair_budget,
          mon_next_attempt_at = Some now, mon_latest_observation = None,
          mon_summary = ''waiting for first remote observation'', mon_created_at = now,
          mon_updated_at = now\<rparr>)))"

definition monitor_terminal :: "monitor_state \<Rightarrow> bool" where
  "monitor_terminal s \<longleftrightarrow> s = MonSucceeded \<or> s = MonBlocked \<or> s = MonCancelled"

definition monitor_outcome_of :: "bool \<Rightarrow> monitor_record \<Rightarrow> monitor_outcome" where
  "monitor_outcome_of invalidate m =
     \<lparr>mo_state = mon_state m, mo_summary = mon_summary m, mo_invalidate_approvals = invalidate\<rparr>"

text \<open>The exponential delay in seconds, capped, and the jitter of the monitor's id.\<close>

definition backoff_seconds :: "u32 \<Rightarrow> int" where
  "backoff_seconds attempts =
     (let exponent = min (unat attempts - 1) 5 in min (30 * 2 ^ exponent) (15 * 60))"

definition jitter_seconds :: "uuid \<Rightarrow> u32 \<Rightarrow> int" where
  "jitter_seconds i attempts = uint (Bit_Operations.xor i (ucast attempts) mod 11)"

definition monitor_schedule :: "timestamp \<Rightarrow> string \<Rightarrow> monitor_record \<Rightarrow> monitor_record \<times> monitor_outcome" where
  "monitor_schedule now summary m =
     (let m = m\<lparr>mon_state := MonPending,
        mon_next_attempt_at := Some (now + seconds (backoff_seconds (mon_attempt_count m) +
          jitter_seconds (mon_id m) (mon_attempt_count m))),
        mon_summary := summary\<rparr>
      in (m, monitor_outcome_of False m))"

definition monitor_block :: "string \<Rightarrow> bool \<Rightarrow> monitor_record \<Rightarrow> monitor_record \<times> monitor_outcome" where
  "monitor_block summary invalidate m =
     (let m = m\<lparr>mon_state := MonBlocked, mon_next_attempt_at := None, mon_summary := summary\<rparr>
      in (m, monitor_outcome_of invalidate m))"

definition repair_reason :: "remote_observation \<Rightarrow> string option" where
  "repair_reason ob =
     (if ob_ci ob = CIFailure then Some ''CI failed''
      else if ob_review ob = RevChangesRequested then Some ''review requested changes''
      else if ob_review ob = RevApprovalDismissed then Some ''a prior review approval was dismissed''
      else None)"

definition monitor_repair :: "string \<Rightarrow> monitor_record \<Rightarrow> monitor_record \<times> monitor_outcome" where
  "monitor_repair reason m =
     (if mon_repair_budget m \<le> mon_repair_iteration m
      then monitor_block (''repair budget exhausted after '' @ reason) True m
      else let m = m\<lparr>mon_repair_iteration := mon_repair_iteration m + 1,
          mon_state := MonRepairNeeded, mon_next_attempt_at := None\<rparr>;
          m = m\<lparr>mon_summary := reason @ ''; repair iteration '' @
            decimal (unat (mon_repair_iteration m)) @ '' of '' @
            decimal (unat (mon_repair_budget m)) @ '' requires a new plan''\<rparr>
        in (m, monitor_outcome_of True m))"

text \<open>The body of \<open>observe\<close> after the guards and the bookkeeping, in the order of its returns.\<close>

definition monitor_decide :: "(timestamp \<Rightarrow> string) \<Rightarrow> remote_observation \<Rightarrow> timestamp \<Rightarrow>
    monitor_record \<Rightarrow> monitor_record \<times> monitor_outcome" where
  "monitor_decide rfc3339 ob now m =
     (if \<not> ob_network_available ob
      then monitor_schedule now ''network unavailable; monitoring will retry'' m
      else case (case ob_rate_limited_until ob of None \<Rightarrow> None
          | Some until \<Rightarrow> if now < until then Some until else None) of
        Some until \<Rightarrow>
          let m = m\<lparr>mon_state := MonPending, mon_next_attempt_at := Some until,
            mon_summary := ''GitHub rate limit active until '' @ rfc3339 until\<rparr>
          in (m, monitor_outcome_of False m)
      | None \<Rightarrow>
          if \<not> ob_repository_accessible ob
          then monitor_block ''repository or installation is no longer accessible'' True m
          else if ob_head_sha ob \<noteq> mon_expected_head_sha m
          then monitor_block ''pull request head SHA changed'' True m
          else if ob_base_sha ob \<noteq> mon_expected_base_sha m
          then monitor_block ''pull request base SHA changed'' True m
          else case ob_mergeability ob of
            Conflicting \<Rightarrow> monitor_block ''pull request now has merge conflicts'' True m
          | InaccessibleFork \<Rightarrow> monitor_block ''pull request fork is inaccessible'' True m
          | MergeUnknown \<Rightarrow>
              monitor_schedule now ''mergeability is unknown; monitoring will retry'' m
          | Mergeable \<Rightarrow> (case repair_reason ob of
              Some reason \<Rightarrow> monitor_repair reason m
            | None \<Rightarrow>
                if ob_ci ob = CISuccess \<and> ob_review ob = RevApproved
                then let m = m\<lparr>mon_state := MonSucceeded, mon_next_attempt_at := None,
                    mon_summary := ''CI passed and review is approved''\<rparr>
                  in (m, monitor_outcome_of False m)
                else monitor_schedule now ''CI or review is still pending'' m))"

definition monitor_observe :: "(timestamp \<Rightarrow> string) \<Rightarrow> remote_observation \<Rightarrow> timestamp \<Rightarrow>
    monitor_record \<Rightarrow> monitoring_error + monitor_record \<times> monitor_outcome" where
  "monitor_observe rfc3339 ob now m =
     (if monitor_terminal (mon_state m) then Inl MonitorTerminal
      else and_then (monitor_validate_sha (ob_head_sha ob)) (\<lambda>_.
        and_then (monitor_validate_sha (ob_base_sha ob)) (\<lambda>_.
        Inr (monitor_decide rfc3339 ob now
          (m\<lparr>mon_attempt_count := saturating_add32 (mon_attempt_count m) 1,
             mon_latest_observation := Some ob, mon_updated_at := now\<rparr>)))))"

text \<open>\<open>wake\<close> and \<open>cancel\<close> report whether they changed the record.\<close>

definition monitor_wake :: "timestamp \<Rightarrow> monitor_record \<Rightarrow> bool \<times> monitor_record" where
  "monitor_wake now m =
     (if mon_state m \<noteq> MonPending then (False, m)
      else (True, m\<lparr>mon_next_attempt_at := Some now, mon_updated_at := now,
        mon_summary := ''webhook requested an immediate refresh''\<rparr>))"

definition monitor_cancel :: "timestamp \<Rightarrow> monitor_record \<Rightarrow> bool \<times> monitor_record" where
  "monitor_cancel now m =
     (if monitor_terminal (mon_state m) then (False, m)
      else (True, m\<lparr>mon_state := MonCancelled, mon_next_attempt_at := None, mon_updated_at := now,
        mon_summary := ''monitoring cancelled by the operator''\<rparr>))"

section \<open>The invariant of a monitor\<close>

definition monitor_wf :: "monitor_record \<Rightarrow> bool" where
  "monitor_wf m \<longleftrightarrow> mon_pull_request_number m \<noteq> 0 \<and> mon_repair_budget m \<noteq> 0 \<and>
     mon_repair_iteration m \<le> mon_repair_budget m \<and>
     monitor_validate_sha (mon_expected_head_sha m) = Inr () \<and>
     monitor_validate_sha (mon_expected_base_sha m) = Inr () \<and>
     (mon_next_attempt_at m \<noteq> None \<longleftrightarrow> mon_state m = MonPending)"

text \<open>The target of a monitor never changes.\<close>

definition same_target :: "monitor_record \<Rightarrow> monitor_record \<Rightarrow> bool" where
  "same_target m m' \<longleftrightarrow> mon_id m' = mon_id m \<and> mon_task_id m' = mon_task_id m \<and>
     mon_repository_full_name m' = mon_repository_full_name m \<and>
     mon_pull_request_number m' = mon_pull_request_number m \<and>
     mon_expected_head_sha m' = mon_expected_head_sha m \<and>
     mon_expected_base_sha m' = mon_expected_base_sha m \<and>
     mon_repair_budget m' = mon_repair_budget m \<and> mon_created_at m' = mon_created_at m"

lemmas monitor_step_defs = monitor_schedule_def monitor_block_def monitor_repair_def Let_def
  monitor_outcome_of_def

lemma word_inc_le: "(i :: u32) < b \<Longrightarrow> i + 1 \<le> b"
  by (simp add: inc_le)

lemma monitor_new_wf: "monitor_new fresh t r n h b now budget = Inr m \<Longrightarrow> monitor_wf m"
  by (auto simp: monitor_new_def monitor_wf_def and_then_eq_Inr split: if_splits)

lemma monitor_decide_wf:
  "monitor_wf m \<Longrightarrow> monitor_wf (fst (monitor_decide rf ob now m))"
  by (auto simp: monitor_decide_def monitor_step_defs monitor_wf_def word_inc_le not_le
      split: option.splits mergeability.splits)

lemma monitor_decide_target: "same_target m (fst (monitor_decide rf ob now m))"
  by (auto simp: monitor_decide_def monitor_step_defs same_target_def
      split: option.splits mergeability.splits)

lemma monitor_observe_ok [result_simps]:
  "monitor_observe rf ob now m = Inr r \<longleftrightarrow> \<not> monitor_terminal (mon_state m) \<and>
     monitor_validate_sha (ob_head_sha ob) = Inr () \<and> monitor_validate_sha (ob_base_sha ob) = Inr () \<and>
     r = monitor_decide rf ob now (m\<lparr>mon_attempt_count := saturating_add32 (mon_attempt_count m) 1,
       mon_latest_observation := Some ob, mon_updated_at := now\<rparr>)"
  by (auto simp: monitor_observe_def and_then_eq_Inr)

text \<open>Success is claimed for a reachable, unchanged, mergeable, green and approved pull request only.\<close>

definition merge_evidence :: "monitor_record \<Rightarrow> remote_observation \<Rightarrow> bool" where
  "merge_evidence m ob \<longleftrightarrow> ob_network_available ob \<and> ob_repository_accessible ob \<and>
     ob_head_sha ob = mon_expected_head_sha m \<and> ob_base_sha ob = mon_expected_base_sha m \<and>
     ob_mergeability ob = Mergeable \<and> ob_ci ob = CISuccess \<and> ob_review ob = RevApproved"

definition rate_limited :: "remote_observation \<Rightarrow> timestamp \<Rightarrow> bool" where
  "rate_limited ob now \<longleftrightarrow> (\<exists>u. ob_rate_limited_until ob = Some u \<and> now < u)"

text \<open>The record after the bookkeeping that precedes the decision.\<close>

definition observed :: "remote_observation \<Rightarrow> timestamp \<Rightarrow> monitor_record \<Rightarrow> monitor_record" where
  "observed ob now m = m\<lparr>mon_attempt_count := saturating_add32 (mon_attempt_count m) 1,
     mon_latest_observation := Some ob, mon_updated_at := now\<rparr>"

lemma observed_simps [simp]:
  "monitor_wf (observed ob now m) = monitor_wf m" "same_target m (observed ob now m)"
  "mon_state (observed ob now m) = mon_state m"
  "mon_repair_iteration (observed ob now m) = mon_repair_iteration m"
  "mon_repair_budget (observed ob now m) = mon_repair_budget m"
  "merge_evidence (observed ob now m) = merge_evidence m"
  by (simp_all add: observed_def monitor_wf_def same_target_def merge_evidence_def fun_eq_iff)

lemma observe_decides:
  "monitor_observe rf ob now m = Inr (m', out) \<Longrightarrow>
     \<not> monitor_terminal (mon_state m) \<and> monitor_decide rf ob now (observed ob now m) = (m', out)"
  by (auto simp: monitor_observe_ok observed_def)

lemma monitor_observe_wf:
  "monitor_wf m \<Longrightarrow> monitor_observe rf ob now m = Inr (m', out) \<Longrightarrow> monitor_wf m'"
  using monitor_decide_wf [of "observed ob now m" rf ob now] by (auto dest: observe_decides)

lemma same_target_trans: "same_target m n \<Longrightarrow> same_target n k \<Longrightarrow> same_target m k"
  by (simp add: same_target_def)

lemma monitor_observe_target:
  assumes "monitor_observe rf ob now m = Inr (m', out)"
  shows "same_target m m'"
proof -
  have "monitor_decide rf ob now (observed ob now m) = (m', out)"
    using observe_decides [OF assms] by simp
  then have "same_target (observed ob now m) m'"
    using monitor_decide_target [of "observed ob now m" rf ob now] by simp
  then show ?thesis by (rule same_target_trans [OF observed_simps(2)])
qed

lemma monitor_wake_wf: "monitor_wf m \<Longrightarrow> monitor_wf (snd (monitor_wake now m))"
  by (simp add: monitor_wake_def monitor_wf_def)

lemma monitor_cancel_wf: "monitor_wf m \<Longrightarrow> monitor_wf (snd (monitor_cancel now m))"
  by (simp add: monitor_cancel_def monitor_wf_def)

lemma backoff_bounds: "30 \<le> backoff_seconds n \<and> backoff_seconds n \<le> 900"
proof -
  have "(1::int) \<le> 2 ^ min (unat n - 1) 5" by simp
  then show ?thesis by (simp add: backoff_seconds_def Let_def)
qed

lemma jitter_bounds: "0 \<le> jitter_seconds i n \<and> jitter_seconds i n \<le> 10"
  by (simp add: jitter_seconds_def uint_mod)

lemma monitor_schedule_next:
  "\<exists>t. mon_next_attempt_at (fst (monitor_schedule now s m)) = Some t \<and>
     now + seconds 30 \<le> t \<and> t \<le> now + seconds 910"
  using backoff_bounds [of "mon_attempt_count m"]
    jitter_bounds [of "mon_id m" "mon_attempt_count m"]
  by (simp add: monitor_schedule_def Let_def seconds_def)

lemma monitor_decide_succeeded:
  "mon_state (fst (monitor_decide rf ob now m)) = MonSucceeded \<longleftrightarrow>
     merge_evidence m ob \<and> \<not> rate_limited ob now"
  by (auto simp: monitor_decide_def monitor_step_defs merge_evidence_def rate_limited_def
      repair_reason_def split: option.splits mergeability.splits)

lemma monitor_decide_outcome:
  "mo_state (snd (monitor_decide rf ob now m)) = mon_state (fst (monitor_decide rf ob now m))"
  "mo_invalidate_approvals (snd (monitor_decide rf ob now m)) \<longleftrightarrow>
     mon_state (fst (monitor_decide rf ob now m)) \<in> {MonBlocked, MonRepairNeeded}"
  by (auto simp: monitor_decide_def monitor_step_defs split: option.splits mergeability.splits)

lemma monitor_decide_repairs:
  "mon_state (fst (monitor_decide rf ob now m)) = MonRepairNeeded \<longleftrightarrow>
     mon_repair_iteration (fst (monitor_decide rf ob now m)) \<noteq> mon_repair_iteration m"
  "mon_state (fst (monitor_decide rf ob now m)) = MonRepairNeeded \<Longrightarrow>
     mon_repair_iteration m < mon_repair_budget m \<and>
     mon_repair_iteration (fst (monitor_decide rf ob now m)) = mon_repair_iteration m + 1"
  by (auto simp: monitor_decide_def monitor_step_defs not_le
      split: option.splits mergeability.splits if_splits)

end
