(* ===== verification/Samples.thy ===== *)
theory Samples
  imports GitHub_Actions GitHub_Model Monitoring_Record
begin

text \<open>
  Concrete values at which the properties are witnessed: a task on a pull request that awaits its
  merge approval, the contract, the repository binding and the merge action that go with it.
\<close>

definition sha_a :: string where "sha_a = replicate 40 CHR ''a''"
definition sha_b :: string where "sha_b = replicate 40 CHR ''b''"
definition sha256_c :: string where "sha256_c = replicate 64 CHR ''c''"

definition sample_pull_request :: github_pull_request_source where
  "sample_pull_request = \<lparr>pr_repository_id = 11, pr_repository_full_name = ''o/r'', pr_number = 4,
     pr_html_url = ''https://h/4'', pr_snapshot_at = 0, pr_base_ref = ''main'',
     pr_base_sha = sha_b, pr_head_ref = ''work'', pr_head_sha = sha_a\<rparr>"

definition sample_binding :: repository_binding where
  "sample_binding = \<lparr>rb_github_repository_id = 11, rb_full_name = ''o/r'', rb_installation_id = 5,
     rb_clone_url = ''https://h/r'', rb_html_url = ''https://h/r'', rb_default_branch = ''main'',
     rb_user_checkout = None, rb_managed_clone = Some ''/c'', rb_state_root = ''/s'',
     rb_worktree_root = ''/w'', rb_default_branch_sha = Some sha_b,
     rb_default_branch_committed_at = Some 0, rb_permissions = read_only,
     rb_credential_health = Healthy, rb_id = 3\<rparr>"

definition sample_contract :: task_contract where
  "sample_contract = \<lparr>tc_task_id = 7, tc_source = GitHubPullRequest sample_pull_request,
     tc_repository_binding_id = 3, tc_goal = ''Fix'', tc_acceptance_criteria = [''Green''],
     tc_base_sha = Some sha_b, tc_head_sha = Some sha_a, tc_source_sha256 = sha256_c,
     tc_repository_sha256 = sha256_c, tc_instruction_digests = [],
     tc_verification_commands = [\<lparr>vc_program = ''make'', vc_args = [''test'']\<rparr>],
     tc_required_capabilities = [CapMergePullRequest], tc_risk = Low, tc_sensitive_paths = [],
     tc_dependencies = [], tc_version = 2\<rparr>"

definition sample_task :: task where
  "sample_task = \<lparr>task_id = 7, task_title = ''Fix'', task_repository_path = ''/r'',
     task_state = Discovered, task_created_at = 0, task_updated_at = 0, task_interruption = None,
     task_source = LocalRequest, task_repository_binding_id = None,
     task_contract_version = default_contract_version, task_checkpoint_id = None\<rparr>"

definition merge_task :: task where
  "merge_task = sample_task\<lparr>task_state := AwaitingMergeApproval,
     task_source := GitHubPullRequest sample_pull_request, task_repository_binding_id := Some 3\<rparr>"

definition merge_action :: github_action where
  "merge_action = MergePullRequest 4 sha_a Squash"

section \<open>Their fields are valid\<close>

lemma trim_samples [simp]:
  "trim ''Fix'' = ''Fix''" "trim ''Green'' = ''Green''" "trim ''make'' = ''make''" "trim ''o'' = ''o''"
  "trim ''r'' = ''r''" "trim ''main'' = ''main''" "trim ''work'' = ''work''" "trim ''who'' = ''who''"
  by (rule trim_word; simp add: is_ascii_graphic_def)+

lemma sha_lengths [simp]: "length sha_a = 40" "length sha_b = 40" "length sha256_c = 64"
  by (simp_all add: sha_a_def sha_b_def sha256_c_def)

lemma sha_hex [simp]:
  "list_all is_ascii_hexdigit sha_a" "list_all is_ascii_hexdigit sha_b"
  "list_all is_ascii_hexdigit sha256_c"
  by (simp_all add: sha_a_def sha_b_def sha256_c_def list_all_iff is_ascii_hexdigit_def)

lemma sha_valid [simp]: "is_git_sha sha_a" "is_git_sha sha_b" "is_sha256 sha256_c"
  by (simp_all add: is_git_sha_def is_sha256_def)

lemma graphic_clean:
  assumes "list_all is_ascii_graphic v"
  shows "\<not> any_char is_whitespace v" "\<not> any_char is_control v"
    "\<not> any_char (\<lambda>ch. is_whitespace ch \<or> is_control ch) v"
proof -
  have p: "list_all is_ascii_printable v" using assms graphic_printable by (auto simp: list_all_iff)
  show c: "\<not> any_char is_control v" using printable_no_control [OF p] .
  show w: "\<not> any_char is_whitespace v"
    using assms graphic_not_whitespace by (auto simp: any_char_def chars_printable [OF p] list_ex_iff list_all_iff)
  show "\<not> any_char (\<lambda>ch. is_whitespace ch \<or> is_control ch) v"
    using c w by (auto simp: any_char_def list_ex_iff)
qed

lemma clean_samples [simp]:
  "\<not> any_char is_control ''main''" "\<not> any_char is_control ''work''" "\<not> any_char is_control ''make''"
  "\<not> any_char is_control ''test''" "\<not> any_char is_control ''who''"
  by (rule graphic_clean; simp add: is_ascii_graphic_def)+

lemma sample_name: "validate_repository_name ''o/r'' = Inr ()"
proof -
  have "\<not> any_char (\<lambda>ch. is_whitespace ch \<or> is_control ch) ''o/r''"
    by (rule graphic_clean(3)) (simp add: is_ascii_graphic_def)
  moreover have "split_once CHR ''/'' ''o/r'' = Some (''o'', ''r'')" by (simp add: split_once_Some)
  ultimately show ?thesis by (simp add: validate_repository_name_def)
qed

lemma sample_urls: "is_https_url ''https://h/4''" "is_https_url ''https://h/r''"
  unfolding is_https_url_def
  by ((rule exI [of _ "''h/4''"] exI [of _ "''h/r''"]), simp add: graphic_clean(1) [unfolded list_all_iff] is_ascii_graphic_def)+

lemma sample_source_wf: "source_wf (GitHubPullRequest sample_pull_request)"
  using sample_name sample_urls
  by (simp add: source_wf_def revalidate_task_source_def github_pull_request_def
      validate_github_item_def is_ok_iff result_simps valid_simps sample_pull_request_def)

lemma sample_command_ok: "is_ok (recheck_command \<lparr>vc_program = ''make'', vc_args = [''test'']\<rparr>)"
  by (simp add: recheck_command_def verification_command_new_def nonempty_def)

lemma sample_contract_wf: "contract_wf sample_contract"
  using sample_source_wf sample_command_ok
  by (simp add: contract_wf_def draft_ok_def sample_contract_def sample_pull_request_def
      current_task_contract_version_def)

lemma sample_binding_new:
  "repository_binding_try_from 3 (repository_binding_draft.truncate sample_binding) = Inr sample_binding"
  using sample_name sample_urls
  by (simp only: repository_binding_try_from_def and_then_eq_Inr)
    (simp add: repository_binding_draft.defs sample_binding_def valid_simps path_is_absolute_def starts_with_def)

lemma sha_a_lower: "is_sha40 sha_a" "to_ascii_lowercase sha_a = sha_a"
  by (simp_all add: is_sha40_def) (simp add: sha_a_def to_ascii_lowercase_def ascii_lower_def)

lemma merge_action_ok: "decode_github_action merge_action = Inr merge_action"
  using sha_a_lower
  by (simp add: merge_action_def decode_github_action_def merge_pull_request_def result_simps valid_simps)

section \<open>What GitHub shows of the sample, and its monitor\<close>

definition sample_permissions :: github_repository_permissions where
  "sample_permissions = \<lparr>gp_admin = PermissionDenied, gp_maintain = PermissionDenied,
     gp_push = PermissionGranted, gp_triage = PermissionDenied, gp_pull = PermissionGranted\<rparr>"

definition sample_repository :: github_repository where
  "sample_repository = \<lparr>gr_id = 11, gr_full_name = ''o/r'', gr_description = None, gr_private = False,
     gr_archived = False, gr_default_branch = ''main'', gr_html_url = ''https://h/r'',
     gr_updated_at = ''t'', gr_pushed_at = None, gr_open_issues_count = 0,
     gr_open_pull_request_count = 1, gr_failing_check_count = 0, gr_default_branch_sha = Some sha_b,
     gr_default_branch_committed_at = None, gr_installation_id = Some 5,
     gr_permissions = sample_permissions\<rparr>"

definition sample_item :: "bool \<Rightarrow> github_work_item" where
  "sample_item merged = \<lparr>wi_id = 1, wi_repository_full_name = ''o/r'', wi_number = 4,
     wi_kind = PullRequestItem, wi_title = ''Fix'', wi_state = (if merged then ''closed'' else ''open''),
     wi_state_reason = None, wi_body = None, wi_author = ''who'', wi_html_url = ''https://h/4'',
     wi_draft = False, wi_comments_count = 0, wi_base_ref = Some ''main'', wi_base_sha = Some sha_b,
     wi_head_ref = Some ''work'', wi_head_sha = Some sha_a, wi_merged = Some merged,
     wi_merge_commit_sha = None, wi_created_at = None, wi_head_committed_at = None,
     wi_latest_review_at = None, wi_updated_at = ''t'', wi_review_decision = Some ''approved'',
     wi_ci_health = Some ''passing'', wi_mergeable = Some True, wi_mergeable_state = None,
     wi_rebaseable = None, wi_has_conflicts = Some False, wi_head_repository_full_name = None,
     wi_head_repository_fork = False, wi_maintainer_can_modify = False, wi_additions = 1,
     wi_deletions = 1, wi_changed_files = 1, wi_labels = [], wi_assignees = [], wi_milestone = None\<rparr>"

definition sample_snapshot :: "bool \<Rightarrow> github_repository_snapshot" where
  "sample_snapshot merged = \<lparr>gs_repository = sample_repository, gs_work_items = [sample_item merged],
     gs_discussions = [], gs_checks = [], gs_workflow_runs = []\<rparr>"

definition sample_monitor :: monitor_record where
  "sample_monitor = \<lparr>mon_id = 9, mon_task_id = 7, mon_repository_full_name = ''o/r'',
     mon_pull_request_number = 4, mon_expected_head_sha = sha_a, mon_expected_base_sha = sha_b,
     mon_state = MonPending, mon_attempt_count = 0, mon_repair_iteration = 0, mon_repair_budget = 2,
     mon_next_attempt_at = Some 0, mon_latest_observation = None,
     mon_summary = ''waiting for first remote observation'', mon_created_at = 0, mon_updated_at = 0\<rparr>"

lemma sample_monitor_new: "monitor_new 9 7 ''o/r'' 4 sha_a sha_b 0 2 = Inr sample_monitor"
proof -
  have "\<not> any_char is_whitespace ''o/r''"
    by (rule graphic_clean(1)) (simp add: is_ascii_graphic_def)
  then show ?thesis
    by (simp add: monitor_new_def monitor_validate_sha_def split_once_def sample_monitor_def)
qed

end
