(* ===== verification/Core_Properties.thy ===== *)
theory Core_Properties
  imports Samples
begin

text \<open>
  The properties of tasks, approvals, contracts and GitHub actions
  (\<open>crates/patchwright-core/src\<close>), with their witnesses at concrete inputs. The component
  theories hold the definitions and the lemmas these rest on.
\<close>

section \<open>The task lifecycle\<close>

lemma lifecycle_transitions:
  "lifecycle t h \<Longrightarrow> transitions now ss t = Inr t' \<Longrightarrow> lifecycle t' (rev ss @ h)"
proof (induction ss arbitrary: t h)
  case Nil
  then show ?case by simp
next
  case (Cons s ss)
  then obtain u where u: "transition now s t = Inr u" "transitions now ss u = Inr t'"
    by (auto simp: result_simps)
  have "lifecycle u (task_state u # h)" using lifecycle.advanced [OF Cons.prems(1) u(1)] .
  moreover have "task_state u = s" using u(1) by (simp add: transition_ok)
  ultimately show ?case using Cons.IH [OF _ u(2)] by simp
qed

lemma sample_task_new: "new_task 7 0 ''Fix'' ''/r'' = Inr sample_task"
  by (simp add: new_task_def sample_task_def path_is_absolute_def starts_with_def)

lemma sample_lifecycle: "lifecycle sample_task [Discovered]"
  using lifecycle.created [OF sample_task_new] by (simp add: sample_task_def)

definition delivery_path :: "task_state list" where
  "delivery_path = [Assessing, Planned, AwaitingPreparationApproval, Preparing, Implementing,
     Verifying, Reviewing, AwaitingDeliveryApproval, Delivering, Monitoring, AwaitingMergeApproval,
     Merging]"

lemma sample_merging:
  "lifecycle (sample_task\<lparr>task_state := Merging\<rparr>) (rev delivery_path @ [Discovered])"
proof -
  have "transitions 0 delivery_path sample_task = Inr (sample_task\<lparr>task_state := Merging\<rparr>)"
    by (simp add: delivery_path_def sample_task_def transition_def permits_def)
  then show ?thesis using lifecycle_transitions [OF sample_lifecycle] by blast
qed

text \<open>C30: Approval gates. However a task is moved, interrupted and resumed, it works in its
  worktree only after it waited for the preparation approval, it delivers or is monitored only after
  it waited for the delivery approval, and it merges only after it waited for all three approvals;
  an interrupted task counts as the phase it will resume.\<close>

theorem lifecycle_gates:
  assumes "lifecycle t h"
  shows "(phase t \<in> {Preparing, Implementing, Verifying, Reviewing} \<longrightarrow> AwaitingPreparationApproval \<in> set h) \<and>
    (phase t \<in> {Delivering, Monitoring} \<longrightarrow>
       {AwaitingPreparationApproval, AwaitingDeliveryApproval} \<subseteq> set h) \<and>
    (phase t = Merging \<longrightarrow>
       {AwaitingPreparationApproval, AwaitingDeliveryApproval, AwaitingMergeApproval} \<subseteq> set h) \<and>
    (task_state t = Completed \<longrightarrow>
       {AwaitingPreparationApproval, AwaitingDeliveryApproval} \<subseteq> set h)"
proof -
  have g: "gates (phase t) \<subseteq> set h" using lifecycle_phase_visited [OF assms] by blast
  have "phase t = Completed" if "task_state t = Completed"
    using lifecycle_wf [OF assms] that
    by (auto simp: task_wf_def interruption_wf_def phase_def state_defs split: option.splits)
  with g show ?thesis by (auto simp: gates_def)
qed

theorem lifecycle_gates_witness:
  "AwaitingMergeApproval \<in> set (rev delivery_path @ [Discovered]) \<and>
   phase (sample_task\<lparr>task_state := Merging\<rparr>) = Merging"
  using lifecycle_gates [OF sample_merging] by (simp add: phase_def sample_task_def)

text \<open>Well-formed tasks. Every task that the mutators produce has a trimmed, non-empty title and
  an absolute repository path, and it carries an interruption exactly while it is interrupted, with
  the reason and a working state to resume.\<close>

theorem lifecycle_well_formed:
  assumes "lifecycle t h"
  shows "task_title t \<noteq> [] \<and> trim (task_title t) = task_title t \<and>
    path_is_absolute (task_repository_path t) \<and>
    (task_interruption t = None \<longleftrightarrow> \<not> is_interruption (task_state t)) \<and>
    (\<forall>i. task_interruption t = Some i \<longrightarrow> int_state i = task_state t \<and>
       at_work (int_resume_state i) \<and> int_reason i \<noteq> [])"
  using lifecycle_wf [OF assms]
  by (auto simp: task_wf_def interruption_wf_def split: option.splits)

theorem lifecycle_well_formed_witness:
  "task_title sample_task = ''Fix'' \<and> task_interruption sample_task = None \<and>
   \<not> is_interruption (task_state sample_task)"
  using lifecycle_well_formed [OF sample_lifecycle] by (simp add: sample_task_def state_defs)

text \<open>Interruption and resumption. A paused or blocked task resumes exactly where it was, with
  only its update time changed; a failed or cancelled task cannot be resumed, and no interrupted
  task can be interrupted again or moved on.\<close>

theorem interrupt_resume:
  assumes "task_wf t" and "interrupt now s reason t = Inr u"
  shows "(s \<in> {Paused, Blocked} \<longrightarrow> resume later u = Inr (t\<lparr>task_updated_at := later\<rparr>)) \<and>
    (s \<in> {Failed, Cancelled} \<longrightarrow> resume later u = Inl (InvalidTransition s (task_state t))) \<and>
    \<not> is_ok (interrupt later s' reason' u) \<and> \<not> is_ok (transition later s' u)"
proof -
  have none: "task_interruption t = None"
    using assms by (auto simp: task_wf_def interruption_wf_def interrupt_ok at_work_def split: option.splits)
  have u: "u = t\<lparr>task_state := s, task_interruption := Some \<lparr>int_state = s,
      int_resume_state = task_state t, int_reason = trim reason\<rparr>, task_updated_at := now\<rparr>"
    and s: "is_interruption s" using assms(2) by (auto simp: interrupt_ok)
  have "\<not> permits s s'" using permits_at_work [of s s'] s by (auto simp: at_work_def)
  with none s show ?thesis
    by (auto simp: u resume_def is_recoverable_interruption_def interrupt_ok is_ok_iff at_work_def transition_ok)
qed

theorem interrupt_resume_witness:
  "resume 2 (sample_task\<lparr>task_state := Paused, task_interruption := Some \<lparr>int_state = Paused,
      int_resume_state = Discovered, int_reason = ''Fix''\<rparr>, task_updated_at := 1\<rparr>) =
   Inr (sample_task\<lparr>task_updated_at := 2\<rparr>)"
proof -
  have wf: "task_wf sample_task" using lifecycle_wf sample_lifecycle by blast
  have i: "interrupt 1 Paused ''Fix'' sample_task = Inr (sample_task\<lparr>task_state := Paused,
      task_interruption := Some \<lparr>int_state = Paused, int_resume_state = Discovered,
        int_reason = ''Fix''\<rparr>, task_updated_at := 1\<rparr>)"
    by (simp add: interrupt_ok state_defs sample_task_def)
  show ?thesis using interrupt_resume [OF wf i, of 2] by simp
qed

lemma remaining_step: "permits s s' \<Longrightarrow> remaining s \<le> Suc (remaining s')"
  by (cases s) (auto simp: permits_def remaining_def)

lemma transitions_remaining:
  "transitions now ss t = Inr t' \<Longrightarrow> task_state t' = Completed \<Longrightarrow> remaining (task_state t) \<le> length ss"
proof (induction ss arbitrary: t)
  case Nil
  then show ?case by (simp add: remaining_def)
next
  case (Cons s ss)
  then obtain u where "transition now s t = Inr u" "transitions now ss u = Inr t'"
    by (auto simp: result_simps)
  with Cons remaining_step [of "task_state t" s] show ?case
    by (fastforce simp: transition_ok)
qed

text \<open>Progress. From every working state a run of permitted transitions reaches completion, and
  the shortest one has the length that \<open>remaining\<close> gives: eleven from discovery.\<close>

theorem shortest_completion:
  assumes "at_work (task_state t)"
  shows "(\<exists>ss t'. transitions now ss t = Inr t' \<and> task_state t' = Completed \<and>
      length ss = remaining (task_state t)) \<and>
    (\<forall>ss t'. transitions now ss t = Inr t' \<longrightarrow> task_state t' = Completed \<longrightarrow>
      remaining (task_state t) \<le> length ss)"
  using path_to_completed [of t now] assms transitions_remaining by blast

theorem shortest_completion_witness:
  "\<exists>ss t'. transitions 5 ss sample_task = Inr t' \<and> task_state t' = Completed \<and> length ss = 11"
  using shortest_completion [of sample_task 5] by (simp add: sample_task_def state_defs remaining_def)

section \<open>Approvals\<close>

text \<open>C2: An approval grants exactly one thing. An approval that the constructor minted for a
  capability and a fingerprint makes the policy allow an action that needs one exactly for that
  capability and that fingerprint, from the moment of the approval until it expires, at most thirty
  minutes later, and only while the kill switch is off.\<close>

theorem approval_grants_exactly:
  assumes "new_approval fresh cls granted fp0 who at ex = Inr a" and "\<not> needs_no_approval c"
  shows "(authorize p c fp (Some a) now = Allowed \<longleftrightarrow>
      c = granted \<and> fp = fp0 \<and> at \<le> now \<and> now < ex \<and> \<not> automation_disabled p) \<and>
      (ex \<le> at + minutes 30)"
proof -
  have "cls = required_class granted" "granted \<noteq> AdministratorBypass"
    "fp_action_kind fp0 = capability_action_kind granted"
    using assms(1) by (auto simp: new_approval_ok class_supports_iff_required)
  with assms have c1: "authorize p c fp (Some a) now = Allowed \<longleftrightarrow>
      c = granted \<and> fp = fp0 \<and> at \<le> now \<and> now < ex \<and> \<not> automation_disabled p"
    by (auto simp: new_approval_ok authorize_Allowed_iff is_valid_for_def needs_no_approval_def)
  have c2: "ex \<le> at + minutes 30" using assms(1) by (auto simp: new_approval_ok max_approval_duration_def)
  show ?thesis using c1 c2 by blast
qed

definition sample_fingerprint :: action_fingerprint where
  "sample_fingerprint = \<lparr>fp_task_id = 7, fp_github_repository_id = 11,
     fp_repository_full_name = ''o/r'', fp_action_kind = capability_action_kind CapMergePullRequest,
     fp_pull_request_number = Some 4, fp_branch = None, fp_head_sha = Some sha_a, fp_base_sha = None,
     fp_payload_sha256 = sha256_c, fp_policy_sha256 = sha256_c, fp_instruction_sha256 = sha256_c,
     fp_invalidation_generation = 1\<rparr>"

theorem approval_grants_exactly_witness:
  "\<exists>a. new_approval 1 Merge CapMergePullRequest sample_fingerprint ''who'' 0 (minutes 10) = Inr a \<and>
     authorize (policy_default None) CapMergePullRequest sample_fingerprint (Some a) 5 = Allowed \<and>
     authorize (policy_default None) CapMergePullRequest sample_fingerprint (Some a) (minutes 10) \<noteq> Allowed"
proof -
  obtain a where a: "new_approval 1 Merge CapMergePullRequest sample_fingerprint ''who'' 0 (minutes 10) = Inr a"
    by (auto simp: new_approval_ok max_approval_duration_def minutes_def seconds_def class_supports_def
        sample_fingerprint_def)
  note exact = approval_grants_exactly [OF a, of CapMergePullRequest]
  show ?thesis using a exact
    by (auto simp: needs_no_approval_def policy_default_def minutes_def seconds_def)
qed

text \<open>What approvals can and cannot unlock. With automation on, every action whose fingerprint
  matches its capability can be granted by some approval of ten minutes, but for the administrator
  bypass, which nothing unlocks; and without an approval exactly reading, editing the worktree and
  running known commands are allowed.\<close>

theorem approvable_capabilities:
  assumes "fp_action_kind fp = capability_action_kind c" and "\<not> automation_disabled p"
  shows "((\<exists>a. authorize p c fp a now = Allowed) \<longleftrightarrow> c \<noteq> AdministratorBypass) \<and>
      (c \<notin> {ReadRepository, AdministratorBypass} \<longrightarrow>
      (\<exists>a. new_approval fresh (required_class c) c fp ''who'' now (now + minutes 10) = Inr a \<and>
        authorize p c fp (Some a) now = Allowed)) \<and>
      (authorize p c fp None now = Allowed \<longleftrightarrow> c \<in> {ReadRepository, ModifyWorktree, RunKnownCommand})"
proof -
  have c3: "authorize p c fp None now = Allowed \<longleftrightarrow> c \<in> {ReadRepository, ModifyWorktree, RunKnownCommand}"
    using assms by (auto simp: authorize_Allowed_iff needs_no_approval_def)
  have c2: "c \<notin> {ReadRepository, AdministratorBypass} \<longrightarrow>
      (\<exists>a. new_approval fresh (required_class c) c fp ''who'' now (now + minutes 10) = Inr a \<and>
        authorize p c fp (Some a) now = Allowed)"
    using assms
    by (auto simp: new_approval_ok class_supports_iff_required authorize_Allowed_iff is_valid_for_def
        max_approval_duration_def minutes_def seconds_def)
  have c1: "(\<exists>a. authorize p c fp a now = Allowed) \<longleftrightarrow> c \<noteq> AdministratorBypass"
    using c2 c3 by (cases "c = ReadRepository") (auto simp: authorize_Allowed_iff)
  show ?thesis using c1 c2 c3 by blast
qed

theorem approvable_capabilities_witness:
  "\<exists>a. authorize (policy_default None) CapMergePullRequest sample_fingerprint a 5 = Allowed"
  using approvable_capabilities [of sample_fingerprint CapMergePullRequest "policy_default None" 5]
  by (simp add: sample_fingerprint_def policy_default_def)

section \<open>Contracts and bindings\<close>

text \<open>Contracts. A contract that construction or decoding accepted has a trimmed goal, acceptance
  criteria and verification commands, SHAs and digests of the right form, the very SHAs of its pull
  request when it has one, and dependencies without repetition that leave itself out; and decoding
  what was stored gives the same executable contract back.\<close>

theorem contract_round_trip:
  assumes "task_contract_try_from d = Inr c \<or> decode_task_contract w = Inr c"
  shows "(decode_task_contract c = Inr c) \<and>
      (decode_task_contract_snapshot (CurrentShape c) = Inr (Executable c)) \<and>
      (tc_goal c \<noteq> [] \<and> trim (tc_goal c) = tc_goal c \<and> tc_acceptance_criteria c \<noteq> [] \<and>
      tc_verification_commands c \<noteq> [] \<and> is_sha256 (tc_source_sha256 c) \<and>
      is_sha256 (tc_repository_sha256 c) \<and>
      (\<forall>p. tc_source c = GitHubPullRequest p \<longrightarrow>
         tc_base_sha c = Some (pr_base_sha p) \<and> tc_head_sha c = Some (pr_head_sha p)) \<and>
      distinct (tc_dependencies c) \<and> tc_task_id c \<notin> set (tc_dependencies c))"
proof -
  have wf: "contract_wf c" using assms try_from_wf contract_doc.decode_checks by blast
  have c1: "decode_task_contract c = Inr c" using contract_doc.decode_wire [OF wf] .
  have c2: "decode_task_contract_snapshot (CurrentShape c) = Inr (Executable c)"
    using snapshot_doc.decode_wire [of "Executable c"] wf by (simp add: snapshot_wf_def snapshot_json_def)
  have c3: "tc_goal c \<noteq> [] \<and> trim (tc_goal c) = tc_goal c \<and> tc_acceptance_criteria c \<noteq> [] \<and>
      tc_verification_commands c \<noteq> [] \<and> is_sha256 (tc_source_sha256 c) \<and>
      is_sha256 (tc_repository_sha256 c) \<and>
      (\<forall>p. tc_source c = GitHubPullRequest p \<longrightarrow>
         tc_base_sha c = Some (pr_base_sha p) \<and> tc_head_sha c = Some (pr_head_sha p)) \<and>
      distinct (tc_dependencies c) \<and> tc_task_id c \<notin> set (tc_dependencies c)"
    using wf by (auto simp: contract_wf_def draft_ok_def)
  show ?thesis using c1 c2 c3 by blast
qed

theorem contract_round_trip_witness:
  "decode_task_contract sample_contract = Inr sample_contract \<and>
   tc_head_sha sample_contract = Some (pr_head_sha sample_pull_request)"
proof -
  have "decode_task_contract sample_contract = Inr sample_contract"
    by (rule decode_wf_contract [OF sample_contract_wf])
  then show ?thesis using contract_round_trip [of undefined sample_contract sample_contract]
    by (simp add: sample_contract_def)
qed

text \<open>Legacy contracts are never executable. A stored document comes back either as the executable
  contract it is, or, when it has the legacy shape, as a read-only value of version 1 that the
  executable decoder refuses.\<close>

theorem legacy_read_only:
  assumes "decode_task_contract_snapshot v = Inr s"
  shows "(is_legacy_read_only s \<longleftrightarrow> \<not> is_ok (json_as_contract v)) \<and>
      (is_legacy_read_only s \<longrightarrow> snapshot_version s = 1 \<and> (\<exists>w. v = LegacyShape w)) \<and>
      (\<not> is_legacy_read_only s \<longrightarrow> (\<exists>c. s = Executable c \<and> json_as_contract v = Inr c \<and> contract_wf c)) \<and>
      (decode_task_contract_snapshot (snapshot_json s) = Inr s)"
proof -
  have c1: "is_legacy_read_only s \<longleftrightarrow> \<not> is_ok (json_as_contract v)"
    using assms by (auto simp: decode_task_contract_snapshot_def is_legacy_read_only_def is_ok_def
        result_simps split: sum.splits)
  have c2: "is_legacy_read_only s \<longrightarrow> snapshot_version s = 1 \<and> (\<exists>w. v = LegacyShape w)"
    using assms by (cases v) (auto simp: decode_task_contract_snapshot_def is_legacy_read_only_def
        json_as_legacy_def json_as_contract_def result_simps legacy_ok_def legacy_normalized_def
        split: sum.splits)
  have c3: "\<not> is_legacy_read_only s \<longrightarrow> (\<exists>c. s = Executable c \<and> json_as_contract v = Inr c \<and> contract_wf c)"
    using assms snapshot_doc.decode_checks [OF assms]
    by (auto simp: decode_task_contract_snapshot_def is_legacy_read_only_def snapshot_wf_def
        result_simps split: sum.splits)
  have c4: "decode_task_contract_snapshot (snapshot_json s) = Inr s"
    using snapshot_doc.reload_stable [OF assms] .
  show ?thesis using c1 c2 c3 c4 by blast
qed

definition sample_legacy :: legacy_task_contract where
  "sample_legacy = \<lparr>lc_version = 1, lc_task_id = 7, lc_source = LocalRequest,
     lc_repository_binding_id = 3, lc_goal = ''Fix'', lc_acceptance_criteria = [''Green''],
     lc_base_sha = None, lc_head_sha = None, lc_instruction_digests = [],
     lc_verification_commands = [], lc_required_capabilities = [], lc_risk = Low,
     lc_sensitive_paths = [], lc_dependencies = []\<rparr>"

theorem legacy_read_only_witness:
  "decode_task_contract_snapshot (LegacyShape sample_legacy) = Inr (LegacyReadOnly sample_legacy) \<and>
   \<not> is_ok (json_as_contract (LegacyShape sample_legacy))"
proof -
  have "legacy_wf sample_legacy"
    by (simp add: legacy_wf_def legacy_ok_def legacy_normalized_def sample_legacy_def source_wf_def
        revalidate_task_source_def)
  then have "decode_task_contract_snapshot (LegacyShape sample_legacy) = Inr (LegacyReadOnly sample_legacy)"
    using snapshot_doc.decode_wire [of "LegacyReadOnly sample_legacy"]
    by (simp add: snapshot_wf_def snapshot_json_def)
  from this legacy_read_only [OF this] show ?thesis by (simp add: is_legacy_read_only_def)
qed

text \<open>C40: Repository bindings. An accepted binding names a repository as \<open>owner/name\<close> with non-zero
  identifiers, HTTPS addresses, a default branch that is not blank, and absolute paths (of the user's
  checkout and of the managed clone where it has them); it has the SHA and the time of the default
  branch together or not at all, the SHA as 40 or 64 hexadecimal digits; and it is its draft with the fresh
  identifier.\<close>

theorem binding_valid:
  assumes "repository_binding_try_from fresh d = Inr b"
  shows "(rb_id b = fresh \<and> repository_binding_draft.truncate b = d) \<and>
      (rb_github_repository_id b \<noteq> 0 \<and> rb_installation_id b \<noteq> 0 \<and>
      (\<exists>owner name. rb_full_name b = owner @ CHR ''/'' # name \<and> trim owner \<noteq> [] \<and> trim name \<noteq> [] \<and>
         CHR ''/'' \<notin> set owner \<and> CHR ''/'' \<notin> set name)) \<and>
      (is_https_url (rb_clone_url b) \<and> is_https_url (rb_html_url b) \<and>
      path_is_absolute (rb_state_root b) \<and> path_is_absolute (rb_worktree_root b)) \<and>
      (\<forall>path. rb_user_checkout b = Some path \<or> rb_managed_clone b = Some path \<longrightarrow> path_is_absolute path) \<and>
      trim (rb_default_branch b) \<noteq> [] \<and>
      ((rb_default_branch_sha b = None \<longleftrightarrow> rb_default_branch_committed_at b = None) \<and>
       (\<forall>sha. rb_default_branch_sha b = Some sha \<longrightarrow> (length sha = 40 \<or> length sha = 64) \<and> list_all is_ascii_hexdigit sha))"
proof -
  have name: "\<exists>owner name. v = owner @ CHR ''/'' # name \<and> trim owner \<noteq> [] \<and> trim name \<noteq> [] \<and>
         CHR ''/'' \<notin> set owner \<and> CHR ''/'' \<notin> set name" if ok: "validate_repository_name v = Inr ()" for v
  proof -
    obtain a b where "split_once CHR ''/'' v = Some (a, b)" "trim a \<noteq> []" "trim b \<noteq> []" "CHR ''/'' \<notin> set b"
      using ok by (auto simp: validate_repository_name_def split: option.splits if_splits)
    then show ?thesis unfolding split_once_Some by blast
  qed
  note inv = assms [unfolded repository_binding_try_from_def and_then_eq_Inr]
  have c1: "rb_id b = fresh \<and> repository_binding_draft.truncate b = d"
    using inv by (cases d) (auto simp: repository_binding_draft.defs split: if_splits)
  have c2: "rb_github_repository_id b \<noteq> 0 \<and> rb_installation_id b \<noteq> 0 \<and>
      (\<exists>owner name. rb_full_name b = owner @ CHR ''/'' # name \<and> trim owner \<noteq> [] \<and> trim name \<noteq> [] \<and>
         CHR ''/'' \<notin> set owner \<and> CHR ''/'' \<notin> set name)"
    using inv name by (auto simp: nonzero_ok split: if_splits)
  have c3: "is_https_url (rb_clone_url b) \<and> is_https_url (rb_html_url b) \<and>
      path_is_absolute (rb_state_root b) \<and> path_is_absolute (rb_worktree_root b)"
    using inv by (auto simp: validate_https_url_ok validate_absolute_path_ok split: if_splits)
  have c4: "\<forall>path. rb_user_checkout b = Some path \<or> rb_managed_clone b = Some path \<longrightarrow> path_is_absolute path"
    using inv by (auto simp: validate_optional_absolute_path_def validate_absolute_path_ok split: if_splits)
  have c5: "trim (rb_default_branch b) \<noteq> []" using inv by (auto simp: nonempty_ok split: if_splits)
  have c6: "(rb_default_branch_sha b = None \<longleftrightarrow> rb_default_branch_committed_at b = None)"
    using inv by (auto split: if_splits)
  have c7: "\<forall>sha. rb_default_branch_sha b = Some sha \<longrightarrow> (length sha = 40 \<or> length sha = 64) \<and> list_all is_ascii_hexdigit sha"
    using inv by (auto simp: validate_git_sha_ok is_git_sha_def split: if_splits)
  show ?thesis using c1 c2 c3 c4 c5 c6 c7 by blast
qed

theorem binding_valid_witness:
  "rb_id sample_binding = 3 \<and> is_https_url (rb_clone_url sample_binding)"
  using binding_valid [OF sample_binding_new] by blast

section \<open>GitHub actions and previews\<close>

text \<open>Decoding an action. A decoded action survives being stored: its parts are normalised, and
  decoding it again gives the same action (so its digests are stable), provided that no inline
  comment of it ended up with an absolute path.\<close>

theorem action_decoding_stable:
  assumes "decode_github_action w = Inr a" and "action_canonical a"
  shows "decode_github_action a = Inr a \<and> action_capability a = action_capability w \<and>
    action_pull_request_number a = action_pull_request_number w \<and>
    (\<forall>sha. action_expected_head_sha a = Some sha \<longrightarrow> is_sha40 sha \<and> to_ascii_lowercase sha = sha)"
proof -
  have "action_capability a = action_capability w \<and>
    action_pull_request_number a = action_pull_request_number w \<and>
    (\<forall>sha. action_expected_head_sha a = Some sha \<longrightarrow> is_sha40 sha \<and> to_ascii_lowercase sha = sha)"
    using assms(1)
    by (cases w) (auto simp: decode_github_action_def action_constructors result_simps valid_simps
        action_capability_def action_pull_request_number_def action_expected_head_sha_def split: if_splits)
  then show ?thesis using decode_action_idem [OF assms] by blast
qed

theorem action_decoding_stable_witness:
  "decode_github_action merge_action = Inr merge_action \<and> is_sha40 sha_a"
  using action_decoding_stable [OF merge_action_ok]
  by (simp add: merge_action_def action_canonical_def action_expected_head_sha_def)

lemma trim_space: "list_all is_ascii_graphic v \<Longrightarrow> trim (CHR '' '' # v) = v"
proof -
  assume g: "list_all is_ascii_graphic v"
  then have p: "list_all is_ascii_printable v" using graphic_printable by (auto simp: list_all_iff)
  then have ps: "list_all is_ascii_printable (CHR '' '' # v)" by (simp add: is_ascii_printable_def Let_def)
  have "is_whitespace '' ''" by (simp add: is_whitespace_def Let_def)
  then have "trim_chars (chars (CHR '' '' # v)) = trim_chars (chars v)"
    unfolding chars_printable [OF ps] chars_printable [OF p] by (simp add: trim_chars_def)
  then show ?thesis using trim_word [OF g] by (simp add: trim_def)
qed

text \<open>A gap in the inline comment check. The check that the path is relative is made before the
  path is trimmed, so a space in front of an absolute path gets it accepted, and the comment that
  comes out is one that the decoder itself refuses.\<close>

theorem inline_comment_absolute_path:
  assumes "list_all is_ascii_graphic path" and "starts_with ''/'' path" and "\<not> contains_sub ''..'' path"
    and "length path \<le> 1024" and "line \<noteq> 0" and "validate_body body = Inr body"
  shows "inline_review_comment_new (CHR '' '' # path) line body =
      Inr \<lparr>irc_path = path, irc_line = line, irc_body = body\<rparr> \<and>
    decode_inline_comment \<lparr>irc_path = path, irc_line = line, irc_body = body\<rparr> =
      Inl (ActionInvalidField ''inlineComment'')"
proof -
  have "\<not> contains_sub ''..'' (CHR '' '' # path)" using assms(3) by (simp add: starts_with_def)
  moreover have "validate_text (CHR '' '' # path) 1024 ''path'' = Inr path"
    using assms graphic_clean(2) by (auto simp: validate_text_ok trim_space is_text_def starts_with_def)
  ultimately show ?thesis
    using assms by (simp add: inline_review_comment_new_def decode_inline_comment_def starts_with_def)
qed

theorem inline_comment_absolute_path_witness:
  "inline_review_comment_new '' /etc'' 1 ''Fix'' = Inr \<lparr>irc_path = ''/etc'', irc_line = 1, irc_body = ''Fix''\<rparr> \<and>
   decode_inline_comment \<lparr>irc_path = ''/etc'', irc_line = 1, irc_body = ''Fix''\<rparr> =
     Inl (ActionInvalidField ''inlineComment'')"
proof -
  have "validate_body ''Fix'' = Inr ''Fix''"
    by (simp add: validate_body_ok is_body_def credential_markers_def max_body_bytes_def contains_sub_short)
  then show ?thesis using inline_comment_absolute_path [of "''/etc''" 1 "''Fix''"]
    by (simp add: is_ascii_graphic_def starts_with_def)
qed

text \<open>C37: The idempotency key identifies the effect. Two previews with the same key are about the
  same repository, action and precondition and are equal, when the encoder of identities is
  injective where it succeeds and the hash does not collide on the two encodings.\<close>

theorem idempotency_key_identifies:
  assumes "github_action_preview_new cd r1 a1 p1 = Inr v1" and "github_action_preview_new cd r2 a2 p2 = Inr v2"
    and "gp_idempotency_sha256 v1 = gp_idempotency_sha256 v2"
    and "inj_on (json_identity cd) {x. json_identity cd x \<noteq> None}"
    and "inj_on (sha256_hex cd) {j. json_identity cd (r1, a1, p1) = Some j \<or> json_identity cd (r2, a2, p2) = Some j}"
  shows "r1 = r2 \<and> a1 = a2 \<and> p1 = p2 \<and> v1 = v2"
proof -
  obtain j1 j2 where j: "json_identity cd (r1, a1, p1) = Some j1" "json_identity cd (r2, a2, p2) = Some j2"
    "gp_idempotency_sha256 v1 = sha256_hex cd j1" "gp_idempotency_sha256 v2 = sha256_hex cd j2"
    using assms(1,2) by (auto simp: github_action_preview_new_def result_simps)
  have "sha256_hex cd j1 = sha256_hex cd j2" using assms(3) unfolding j(3,4) .
  then have "j1 = j2" using inj_onD [OF assms(5)] j(1,2) by blast
  then have "(r1, a1, p1) = (r2, a2, p2)" using j(1,2) by (intro inj_onD [OF assms(4)]) simp_all
  then show ?thesis using assms(1,2) by simp
qed

text \<open>A codec for the witnesses: it encodes the merge at two generations of the snapshot.\<close>

definition sample_remote :: remote_identity where
  "sample_remote = \<lparr>ri_repository_id = 11, ri_installation_id = 5, ri_repository_full_name = ''o/r''\<rparr>"

definition sample_precondition :: "u64 \<Rightarrow> remote_precondition" where
  "sample_precondition n = \<lparr>rp_expected_head_sha = Some sha_a, rp_expected_base_sha = None,
     rp_snapshot_generation = n\<rparr>"

definition sample_codec :: action_codec where
  "sample_codec = \<lparr>json_action = (\<lambda>a. Some (action_kind a)),
     json_identity = (\<lambda>x. if x = (sample_remote, merge_action, sample_precondition 1) then Some ''1''
       else if x = (sample_remote, merge_action, sample_precondition 2) then Some ''2'' else None),
     sha256_hex = (\<lambda>v. ''hash of '' @ v)\<rparr>"

lemma sample_preconditions_differ: "sample_precondition 1 \<noteq> sample_precondition 2"
  by (simp add: sample_precondition_def)

theorem idempotency_key_identifies_witness:
  "\<exists>v1 v2. github_action_preview_new sample_codec sample_remote merge_action (sample_precondition 1) = Inr v1 \<and>
     github_action_preview_new sample_codec sample_remote merge_action (sample_precondition 2) = Inr v2 \<and>
     gp_idempotency_sha256 v1 \<noteq> gp_idempotency_sha256 v2"
proof -
  have inj: "inj_on (json_identity sample_codec) {x. json_identity sample_codec x \<noteq> None}"
    by (auto simp: inj_on_def sample_codec_def split: if_splits)
  have hash: "inj_on (sha256_hex sample_codec) A" for A
    by (simp add: inj_on_def sample_codec_def)
  obtain v1 v2 where v:
    "github_action_preview_new sample_codec sample_remote merge_action (sample_precondition 1) = Inr v1"
    "github_action_preview_new sample_codec sample_remote merge_action (sample_precondition 2) = Inr v2"
    using sample_preconditions_differ
    by (auto simp: github_action_preview_new_def sample_codec_def)
  have "gp_idempotency_sha256 v1 \<noteq> gp_idempotency_sha256 v2"
    using idempotency_key_identifies [OF v _ inj hash] sample_preconditions_differ by blast
  with v show ?thesis by blast
qed

text \<open>C38: Tampered previews are refused. A preview that the decoder accepts is the preview that
  its own parts give: its payload digest, its idempotency key and its permissions are recomputed,
  and the wire had the same ones.\<close>

theorem decoded_preview_recomputed:
  assumes "decode_github_action_preview cd w = Inr p"
  shows "github_action_preview_new cd (gp_remote p) (gp_action p) (gp_precondition p) = Inr p \<and>
    gp_payload_sha256 w = gp_payload_sha256 p \<and> gp_idempotency_sha256 w = gp_idempotency_sha256 p \<and>
    gp_required_permissions w = permissions_for (gp_action p) \<and> gp_remote w = gp_remote p \<and>
    decode_github_action (gp_action w) = Inr (gp_action p) \<and> rp_snapshot_generation (gp_precondition p) \<noteq> 0"
  using assms
  by (auto simp: decode_github_action_preview_def github_action_preview_new_def result_simps
      decode_remote_precondition_def remote_precondition_new_def
      dest: decode_remote_identity_idem split: if_splits)

lemma sample_remote_ok: "decode_remote_identity sample_remote = Inr sample_remote"
proof -
  have "split_once CHR ''/'' ''o/r'' = Some (''o'', ''r'')" by (simp add: split_once_Some)
  then show ?thesis
    by (simp add: decode_remote_identity_def remote_identity_new_def sample_remote_def
        validate_repository_component_def is_ascii_alphanumeric_def)
qed

lemma sample_precondition_ok:
  "n \<noteq> 0 \<Longrightarrow> decode_remote_precondition (sample_precondition n) = Inr (sample_precondition n)"
  using validate_sha_ok [of sha_a sha_a] sha_a_lower
  by (simp add: decode_remote_precondition_def remote_precondition_new_def sample_precondition_def)

theorem decoded_preview_recomputed_witness:
  "\<exists>p. github_action_preview_new sample_codec sample_remote merge_action (sample_precondition 1) = Inr p \<and>
     decode_github_action_preview sample_codec p = Inr p \<and>
     gp_required_permissions p = [''pull_requests:write'', ''metadata:read'']"
proof -
  obtain p where p: "github_action_preview_new sample_codec sample_remote merge_action (sample_precondition 1) = Inr p"
    by (auto simp: github_action_preview_new_def sample_codec_def)
  then have parts: "gp_remote p = sample_remote" "gp_action p = merge_action" "gp_precondition p = sample_precondition 1"
    by (auto simp: github_action_preview_new_def result_simps)
  then have d: "decode_github_action_preview sample_codec p = Inr p"
    using p sample_remote_ok merge_action_ok sample_precondition_ok [of 1]
    by (simp add: decode_github_action_preview_def)
  then show ?thesis using p parts decoded_preview_recomputed [OF d]
    by (auto simp: permissions_for_def merge_action_def)
qed

end
