(* ===== verification/Workspace_Sorting.thy ===== *)
theory Workspace_Sorting
  imports Ordering
begin

text \<open>
  \<open>crates/patchwright-core/src/sorting.rs\<close>: the orders of the repository and pull request tables
  and the workspace filter. An \<open>i64\<close> is compared by its signed value, a missing value comes last in
  both directions. The filter subtracts days from the present time, and chrono panics below its
  earliest representable time: \<open>matches\<close> takes that bound as an argument and returns None for
  the panic.
\<close>

datatype sort_direction = Ascending | Descending

definition apply_direction :: "ordering \<Rightarrow> sort_direction \<Rightarrow> ordering" where
  "apply_direction r d = (case d of Ascending \<Rightarrow> r | Descending \<Rightarrow> reverse r)"

definition compare_value :: "'a::linorder \<Rightarrow> 'a \<Rightarrow> sort_direction \<Rightarrow> ordering" where
  "compare_value left right d = apply_direction (cmp left right) d"

definition compare_optional :: "'a::linorder option \<Rightarrow> 'a option \<Rightarrow> sort_direction \<Rightarrow> ordering" where
  "compare_optional left right d = (case (left, right) of
       (Some l, Some r) \<Rightarrow> apply_direction (cmp l r) d
     | (Some _, None) \<Rightarrow> Less
     | (None, Some _) \<Rightarrow> Greater
     | (None, None) \<Rightarrow> Equal)"

section \<open>Repositories\<close>

datatype repository_sort_key =
    RepoQueuePriority | RepoRecentlyUpdated | RepoRecentlyPushed | RepoLatestDefaultBranchCommit
  | RepoOpenPullRequestCount | RepoFailingCheckCount | RepoName

record repository_sort =
  rs_key :: repository_sort_key
  rs_direction :: sort_direction

record repository_queue_record =
  rq_id :: u64
  rq_full_name :: string
  rq_queue_priority :: "i64 option"
  rq_updated_at :: timestamp
  rq_pushed_at :: "timestamp option"
  rq_default_branch_committed_at :: "timestamp option"
  rq_open_pull_request_count :: u64
  rq_failing_check_count :: u64

definition repository_primary_order ::
  "repository_sort \<Rightarrow> repository_queue_record \<Rightarrow> repository_queue_record \<Rightarrow> ordering" where
  "repository_primary_order s left right = (case rs_key s of
       RepoQueuePriority \<Rightarrow> compare_optional (map_option sint (rq_queue_priority left))
         (map_option sint (rq_queue_priority right)) (rs_direction s)
     | RepoRecentlyUpdated \<Rightarrow> compare_value (rq_updated_at left) (rq_updated_at right) (rs_direction s)
     | RepoRecentlyPushed \<Rightarrow> compare_optional (rq_pushed_at left) (rq_pushed_at right) (rs_direction s)
     | RepoLatestDefaultBranchCommit \<Rightarrow> compare_optional (rq_default_branch_committed_at left)
         (rq_default_branch_committed_at right) (rs_direction s)
     | RepoOpenPullRequestCount \<Rightarrow> compare_value (rq_open_pull_request_count left)
         (rq_open_pull_request_count right) (rs_direction s)
     | RepoFailingCheckCount \<Rightarrow> compare_value (rq_failing_check_count left)
         (rq_failing_check_count right) (rs_direction s)
     | RepoName \<Rightarrow> compare_value (rq_full_name left) (rq_full_name right) (rs_direction s))"

definition repository_order ::
  "repository_sort \<Rightarrow> repository_queue_record \<Rightarrow> repository_queue_record \<Rightarrow> ordering" where
  "repository_order s left right = then_with (then_with (repository_primary_order s left right)
     (cmp (rq_full_name left) (rq_full_name right))) (cmp (rq_id left) (rq_id right))"

definition sort_repositories ::
  "repository_queue_record list \<Rightarrow> repository_sort \<Rightarrow> repository_queue_record list" where
  "sort_repositories records s = sort_by (repository_order s) records"

section \<open>Pull requests\<close>

datatype ci_health = CiFailing | CiPending | CiPassing | CiUnknown

definition ci_sort_rank :: "ci_health \<Rightarrow> nat option" where
  "ci_sort_rank h = (case h of CiFailing \<Rightarrow> Some 1 | CiPending \<Rightarrow> Some 2 | CiPassing \<Rightarrow> Some 3
     | CiUnknown \<Rightarrow> None)"

datatype review_state = ChangesRequested | ReviewRequired | Dismissed | Approved | ReviewUnknown

definition review_sort_rank :: "review_state \<Rightarrow> nat option" where
  "review_sort_rank s = (case s of ChangesRequested \<Rightarrow> Some 1 | ReviewRequired \<Rightarrow> Some 2
     | Dismissed \<Rightarrow> Some 3 | Approved \<Rightarrow> Some 4 | ReviewUnknown \<Rightarrow> None)"

datatype pull_request_queue_state =
    Inbox | Assessed | QsReady | NeedsWork | QsBlocked | Active | AwaitingWriteApproval | QsMonitoring
  | MergeReady | QsAwaitingMergeApproval | Merged | QsFailed

datatype pull_request_sort_key =
    PrQueuePriority | PrRecentlyUpdated | PrLatestHeadCommit | PrLatestReviewActivity | PrCiHealth
  | PrReviewState | PrCreatedNewest | PrCreatedOldest | PrChangeSize | PrNumber

record pull_request_sort =
  ps_key :: pull_request_sort_key
  ps_direction :: sort_direction

record pull_request_queue_record =
  pq_id :: u64
  pq_number :: u64
  pq_queue_priority :: "i64 option"
  pq_updated_at :: timestamp
  pq_head_committed_at :: "timestamp option"
  pq_latest_review_at :: "timestamp option"
  pq_ci_health :: "ci_health option"
  pq_review_state :: "review_state option"
  pq_created_at :: timestamp
  pq_additions :: u64
  pq_deletions :: u64
  pq_open :: bool
  pq_draft :: bool
  pq_author :: string
  pq_assignees :: "string set"
  pq_labels :: "string set"
  pq_has_conflicts :: "bool option"
  pq_queue_state :: "pull_request_queue_state option"
  pq_active_codex_work :: bool

definition pull_request_primary_order ::
  "pull_request_sort \<Rightarrow> pull_request_queue_record \<Rightarrow> pull_request_queue_record \<Rightarrow> ordering" where
  "pull_request_primary_order s left right = (case ps_key s of
       PrQueuePriority \<Rightarrow> compare_optional (map_option sint (pq_queue_priority left))
         (map_option sint (pq_queue_priority right)) (ps_direction s)
     | PrRecentlyUpdated \<Rightarrow> compare_value (pq_updated_at left) (pq_updated_at right) (ps_direction s)
     | PrLatestHeadCommit \<Rightarrow> compare_optional (pq_head_committed_at left)
         (pq_head_committed_at right) (ps_direction s)
     | PrLatestReviewActivity \<Rightarrow> compare_optional (pq_latest_review_at left)
         (pq_latest_review_at right) (ps_direction s)
     | PrCiHealth \<Rightarrow> compare_optional (Option.bind (pq_ci_health left) ci_sort_rank)
         (Option.bind (pq_ci_health right) ci_sort_rank) (ps_direction s)
     | PrReviewState \<Rightarrow> compare_optional (Option.bind (pq_review_state left) review_sort_rank)
         (Option.bind (pq_review_state right) review_sort_rank) (ps_direction s)
     | PrCreatedNewest \<Rightarrow> compare_value (pq_created_at left) (pq_created_at right) (ps_direction s)
     | PrCreatedOldest \<Rightarrow> compare_value (pq_created_at right) (pq_created_at left) (ps_direction s)
     | PrChangeSize \<Rightarrow> compare_value (saturating_add64 (pq_additions left) (pq_deletions left))
         (saturating_add64 (pq_additions right) (pq_deletions right)) (ps_direction s)
     | PrNumber \<Rightarrow> compare_value (pq_number left) (pq_number right) (ps_direction s))"

definition pull_request_order ::
  "pull_request_sort \<Rightarrow> pull_request_queue_record \<Rightarrow> pull_request_queue_record \<Rightarrow> ordering" where
  "pull_request_order s left right = then_with (then_with (pull_request_primary_order s left right)
     (cmp (pq_number left) (pq_number right))) (cmp (pq_id left) (pq_id right))"

definition sort_pull_requests ::
  "pull_request_queue_record list \<Rightarrow> pull_request_sort \<Rightarrow> pull_request_queue_record list" where
  "sort_pull_requests records s = sort_by (pull_request_order s) records"

section \<open>The filter\<close>

record workspace_filter =
  wf_open :: "bool option"
  wf_draft :: "bool option"
  wf_authors :: "string set"
  wf_assignees :: "string set"
  wf_labels :: "string set"
  wf_review_states :: "review_state set"
  wf_ci_results :: "ci_health set"
  wf_has_conflicts :: "bool option"
  wf_maximum_age_days :: "u32 option"
  wf_queue_states :: "pull_request_queue_state set"
  wf_active_codex_work :: "bool option"

definition workspace_filter_default :: workspace_filter where
  "workspace_filter_default = \<lparr>wf_open = None, wf_draft = None, wf_authors = {}, wf_assignees = {},
     wf_labels = {}, wf_review_states = {}, wf_ci_results = {}, wf_has_conflicts = None,
     wf_maximum_age_days = None, wf_queue_states = {}, wf_active_codex_work = None\<rparr>"

definition is_none_or :: "('a \<Rightarrow> bool) \<Rightarrow> 'a option \<Rightarrow> bool" where
  "is_none_or p x = (case x of None \<Rightarrow> True | Some a \<Rightarrow> p a)"

definition is_some_and :: "('a \<Rightarrow> bool) \<Rightarrow> 'a option \<Rightarrow> bool" where
  "is_some_and p x = (case x of None \<Rightarrow> False | Some a \<Rightarrow> p a)"

text \<open>The conjuncts before and after the age limit; \<open>&&\<close> stops at the first that fails.\<close>

definition matches_before_age :: "workspace_filter \<Rightarrow> pull_request_queue_record \<Rightarrow> bool" where
  "matches_before_age f r \<longleftrightarrow>
     is_none_or (\<lambda>e. pq_open r = e) (wf_open f) \<and> is_none_or (\<lambda>e. pq_draft r = e) (wf_draft f) \<and>
     (wf_authors f = {} \<or> pq_author r \<in> wf_authors f) \<and>
     (wf_assignees f = {} \<or> pq_assignees r \<inter> wf_assignees f \<noteq> {}) \<and>
     (wf_labels f = {} \<or> pq_labels r \<inter> wf_labels f \<noteq> {}) \<and>
     (wf_review_states f = {} \<or> is_some_and (\<lambda>s. s \<in> wf_review_states f) (pq_review_state r)) \<and>
     (wf_ci_results f = {} \<or> is_some_and (\<lambda>h. h \<in> wf_ci_results f) (pq_ci_health r)) \<and>
     is_none_or (\<lambda>e. pq_has_conflicts r = Some e) (wf_has_conflicts f)"

definition matches_after_age :: "workspace_filter \<Rightarrow> pull_request_queue_record \<Rightarrow> bool" where
  "matches_after_age f r \<longleftrightarrow>
     (wf_queue_states f = {} \<or> is_some_and (\<lambda>s. s \<in> wf_queue_states f) (pq_queue_state r)) \<and>
     is_none_or (\<lambda>e. pq_active_codex_work r = e) (wf_active_codex_work f)"

definition age_limit :: "timestamp \<Rightarrow> u32 \<Rightarrow> timestamp \<Rightarrow> timestamp option" where
  "age_limit min_utc d now = (let t = now - days (uint d) in if t < min_utc then None else Some t)"

definition matches ::
  "timestamp \<Rightarrow> workspace_filter \<Rightarrow> pull_request_queue_record \<Rightarrow> timestamp \<Rightarrow> bool option" where
  "matches min_utc f r now =
     (if \<not> matches_before_age f r then Some False
      else case wf_maximum_age_days f of
        None \<Rightarrow> Some (matches_after_age f r)
      | Some d \<Rightarrow> (case age_limit min_utc d now of
          None \<Rightarrow> None
        | Some t \<Rightarrow> Some (t \<le> pq_updated_at r \<and> matches_after_age f r)))"

section \<open>The orders are lawful\<close>

lemma comparator_direction: "comparator c \<Longrightarrow> comparator (\<lambda>x y. apply_direction (c x y) d)"
  by (cases d) (simp_all add: apply_direction_def comparator_reverse)

lemma comparator_value: "comparator (\<lambda>x y. compare_value (f x :: 'b::linorder) (f y) d)"
  unfolding compare_value_def by (rule comparator_direction) (rule comparator_cmp_on)

lemma reverse_compare_value [simp]: "reverse (compare_value a b d) = compare_value b a d"
  by (cases d) (simp_all add: compare_value_def apply_direction_def)

lemma comparator_value_swapped: "comparator (\<lambda>x y. compare_value (f y :: 'b::linorder) (f x) d)"
  using comparator_reverse [OF comparator_value [of f d]] by simp

lemma comparator_optional_id: "comparator (\<lambda>x y. compare_optional (x :: 'b::linorder option) y d)"
proof
  fix x y z :: "'b option"
  show "compare_optional y x d = reverse (compare_optional x y d)"
    by (cases x; cases y; cases d) (simp_all add: compare_optional_def apply_direction_def)
  show "compare_optional x y d \<noteq> Greater \<Longrightarrow> compare_optional y z d \<noteq> Greater \<Longrightarrow>
      compare_optional x z d \<noteq> Greater"
    by (cases x; cases y; cases z; cases d) (auto simp: compare_optional_def apply_direction_def)
qed

lemma comparator_optional: "comparator (\<lambda>x y. compare_optional (f x :: 'b::linorder option) (f y) d)"
  by (rule comparator_on [OF comparator_optional_id])

lemmas comparator_rules = comparator_value comparator_value_swapped comparator_optional
  comparator_then_with comparator_cmp_on

lemma repository_primary_comparator: "comparator (repository_primary_order s)"
  unfolding repository_primary_order_def
  by (cases "rs_key s") (simp_all add: comparator_rules)

lemma pull_request_primary_comparator: "comparator (pull_request_primary_order s)"
  unfolding pull_request_primary_order_def
  by (cases "ps_key s") (simp_all add: comparator_rules)

interpretation repo_order: comparator "repository_order s" for s
  unfolding repository_order_def
  by (intro comparator_then_with comparator_cmp_on repository_primary_comparator)

interpretation pr_order: comparator "pull_request_order s" for s
  unfolding pull_request_order_def
  by (intro comparator_then_with comparator_cmp_on pull_request_primary_comparator)

lemma repository_order_Equal:
  "repository_order s x y = Equal \<Longrightarrow> rq_full_name x = rq_full_name y \<and> rq_id x = rq_id y"
  by (simp add: repository_order_def then_with_eq)

lemma pull_request_order_Equal:
  "pull_request_order s x y = Equal \<Longrightarrow> pq_number x = pq_number y \<and> pq_id x = pq_id y"
  by (simp add: pull_request_order_def then_with_eq)

text \<open>
  The optional key of an order, when its key is an optional field: such orders put the records
  without a value at the end.
\<close>

definition pull_request_missing :: "pull_request_sort_key \<Rightarrow> pull_request_queue_record \<Rightarrow> bool" where
  "pull_request_missing k r = (case k of
       PrQueuePriority \<Rightarrow> pq_queue_priority r = None
     | PrLatestHeadCommit \<Rightarrow> pq_head_committed_at r = None
     | PrLatestReviewActivity \<Rightarrow> pq_latest_review_at r = None
     | PrCiHealth \<Rightarrow> pq_ci_health r = None \<or> pq_ci_health r = Some CiUnknown
     | PrReviewState \<Rightarrow> pq_review_state r = None \<or> pq_review_state r = Some ReviewUnknown
     | _ \<Rightarrow> False)"

lemma ci_rank_None: "Option.bind h ci_sort_rank = None \<longleftrightarrow> h = None \<or> h = Some CiUnknown"
  by (cases h) (auto simp: ci_sort_rank_def split: ci_health.splits)

lemma review_rank_None: "Option.bind h review_sort_rank = None \<longleftrightarrow> h = None \<or> h = Some ReviewUnknown"
  by (cases h) (auto simp: review_sort_rank_def split: review_state.splits)

lemma compare_optional_missing:
  "a = None \<Longrightarrow> b \<noteq> None \<Longrightarrow> compare_optional a b d = Greater"
  by (auto simp: compare_optional_def)

lemma missing_after:
  assumes "pull_request_missing (ps_key s) x" and "\<not> pull_request_missing (ps_key s) y"
  shows "pull_request_order s x y = Greater"
proof -
  have "pull_request_primary_order s x y = Greater"
    using assms ci_rank_None review_rank_None unfolding pull_request_primary_order_def
    by (cases "ps_key s") (simp_all add: pull_request_missing_def compare_optional_missing)
  then show ?thesis by (simp add: pull_request_order_def)
qed

end
