(* ===== verification/Queue.thy ===== *)
theory Queue
  imports Ordering
begin

text \<open>
  \<open>crates/patchwright-core/src/queue.rs\<close>: the triage of open pull requests into tiers and scores.
  Scores are \<open>i64\<close> with the wrap-around of a release build. The digest of a candidate and a preset
  (JSON and SHA-256) is an argument.
\<close>

datatype workflow_preset =
    QuickWins | CiRescue | ReviewClosure | ConflictRecovery | DependencyChain | SecurityFirst
  | ReleaseTrain | StalePullRequestTriage | DraftCompletion | PostMergeWatch | ReviewLoadBalancing
  | DuplicateOverlapDetection

datatype queue_tier =
    TierCritical | TierReady | TierRepair | TierReview | TierDraft | TierStale | TierBlocked

text \<open>The derived order of the enum is the order of its variants.\<close>

definition tier_rank :: "queue_tier \<Rightarrow> nat" where
  "tier_rank t = (case t of TierCritical \<Rightarrow> 0 | TierReady \<Rightarrow> 1 | TierRepair \<Rightarrow> 2 | TierReview \<Rightarrow> 3
     | TierDraft \<Rightarrow> 4 | TierStale \<Rightarrow> 5 | TierBlocked \<Rightarrow> 6)"

lemma tier_rank_inj: "tier_rank s = tier_rank t \<Longrightarrow> s = t"
  by (cases s; cases t) (simp_all add: tier_rank_def)

instantiation queue_tier :: linorder
begin

definition less_eq_queue_tier :: "queue_tier \<Rightarrow> queue_tier \<Rightarrow> bool" where
  "less_eq_queue_tier s t = (tier_rank s \<le> tier_rank t)"

definition less_queue_tier :: "queue_tier \<Rightarrow> queue_tier \<Rightarrow> bool" where
  "less_queue_tier s t = (tier_rank s < tier_rank t)"

instance
  by standard (auto simp: less_eq_queue_tier_def less_queue_tier_def tier_rank_inj)

end

record queue_candidate =
  qc_repository_full_name :: string
  qc_number :: u64
  qc_title :: string
  qc_draft :: bool
  qc_ci_health :: "string option"
  qc_review_decision :: "string option"
  qc_has_conflicts :: "bool option"
  qc_updated_at :: timestamp
  qc_labels :: "string list"
  qc_dependency_numbers :: "u64 list"
  qc_changed_paths :: "string list"
  qc_manual_priority :: "i64 option"
  qc_pinned :: bool

record queue_decision =
  qd_repository_full_name :: string
  qd_number :: u64
  qd_tier :: queue_tier
  qd_score :: i64
  qd_reasons :: "string list"
  qd_decision_input_sha256 :: string

datatype queue_error = InvalidCandidate

definition candidate_identity :: "queue_candidate \<Rightarrow> string \<times> u64" where
  "candidate_identity c = (qc_repository_full_name c, qc_number c)"

section \<open>Validation\<close>

definition invalid_path :: "string \<Rightarrow> bool" where
  "invalid_path p \<longleftrightarrow> p = [] \<or> starts_with ''/'' p \<or> contains_sub ''..'' p \<or> CHR 0x00 \<in> set p"

definition invalid_candidate :: "queue_candidate \<Rightarrow> bool" where
  "invalid_candidate c \<longleftrightarrow> qc_number c = 0 \<or> split_once CHR ''/'' (qc_repository_full_name c) = None \<or>
     trim (qc_title c) = [] \<or> qc_number c \<in> set (qc_dependency_numbers c) \<or>
     list_ex invalid_path (qc_changed_paths c)"

text \<open>The loop with the set of identities seen so far.\<close>

primrec validate_from :: "(string \<times> u64) set \<Rightarrow> queue_candidate list \<Rightarrow> queue_error + unit" where
  "validate_from seen [] = Inr ()"
| "validate_from seen (c # cs) =
     (if invalid_candidate c \<or> candidate_identity c \<in> seen then Inl InvalidCandidate
      else validate_from (insert (candidate_identity c) seen) cs)"

definition validate_candidates :: "queue_candidate list \<Rightarrow> queue_error + unit" where
  "validate_candidates cs = validate_from {} cs"

section \<open>Assessment\<close>

definition preset_name :: "workflow_preset \<Rightarrow> string" where
  "preset_name p = (case p of
       QuickWins \<Rightarrow> ''Quick Wins''
     | CiRescue \<Rightarrow> ''CI Rescue''
     | ReviewClosure \<Rightarrow> ''Review Closure''
     | ConflictRecovery \<Rightarrow> ''Conflict Recovery''
     | DependencyChain \<Rightarrow> ''Dependency Chain''
     | SecurityFirst \<Rightarrow> ''Security First''
     | ReleaseTrain \<Rightarrow> ''Release Train''
     | StalePullRequestTriage \<Rightarrow> ''Stale PR Triage''
     | DraftCompletion \<Rightarrow> ''Draft Completion''
     | PostMergeWatch \<Rightarrow> ''Post-Merge Watch''
     | ReviewLoadBalancing \<Rightarrow> ''Review Load Balancing''
     | DuplicateOverlapDetection \<Rightarrow> ''Duplicate/Overlap Detection'')"

record candidate_flags =
  cf_security :: bool
  cf_unknown :: bool
  cf_stale :: bool
  cf_failing :: bool
  cf_changes_requested :: bool
  cf_conflicts :: bool
  cf_approved :: bool
  cf_passing :: bool

definition candidate_flags_of :: "queue_candidate \<Rightarrow> timestamp \<Rightarrow> candidate_flags" where
  "candidate_flags_of c now = \<lparr>
     cf_security = list_ex (\<lambda>label. to_ascii_lowercase label \<in> set [''security'', ''vulnerability'', ''cve''])
       (qc_labels c),
     cf_unknown = (qc_ci_health c = None \<or> qc_review_decision c = None \<or> qc_has_conflicts c = None),
     cf_stale = (days 30 \<le> now - qc_updated_at c),
     cf_failing = (qc_ci_health c \<in> set [Some ''failing'', Some ''failure'']),
     cf_changes_requested = (qc_review_decision c \<in> set [Some ''changesRequested'', Some ''changes_requested'']),
     cf_conflicts = (qc_has_conflicts c = Some True),
     cf_approved = (qc_review_decision c = Some ''approved''),
     cf_passing = (qc_ci_health c \<in> set [Some ''passing'', Some ''success''])\<rparr>"

text \<open>The chain of conditions that picks the first tier, with the score and the reason it adds.\<close>

definition base_tier :: "candidate_flags \<Rightarrow> bool \<Rightarrow> queue_tier \<times> i64 \<times> string" where
  "base_tier f draft =
     (if cf_security f then (TierCritical, 1000, ''Security-sensitive change'')
      else if cf_unknown f then (TierBlocked, 0, ''Unknown CI, review, or mergeability state'')
      else if cf_conflicts f then (TierRepair, 820, ''Conflict recovery required'')
      else if cf_failing f then (TierRepair, 800, ''CI is failing'')
      else if cf_changes_requested f then (TierReview, 700, ''Requested review changes remain'')
      else if draft then (TierDraft, 400, ''Draft completion required'')
      else if cf_approved f \<and> cf_passing f then (TierReady, 900, ''Approved with passing CI'')
      else (TierReview, 600, ''Awaiting review closure''))"

definition preset_matches :: "workflow_preset \<Rightarrow> queue_candidate \<Rightarrow> candidate_flags \<Rightarrow> bool" where
  "preset_matches preset c f = (case preset of
       QuickWins \<Rightarrow> \<not> qc_draft c \<and> \<not> cf_failing f \<and> \<not> cf_conflicts f
     | CiRescue \<Rightarrow> cf_failing f
     | ReviewClosure \<Rightarrow> cf_changes_requested f
     | ReviewLoadBalancing \<Rightarrow> cf_changes_requested f
     | ConflictRecovery \<Rightarrow> cf_conflicts f
     | DependencyChain \<Rightarrow> qc_dependency_numbers c \<noteq> []
     | SecurityFirst \<Rightarrow> cf_security f
     | ReleaseTrain \<Rightarrow> ''release'' \<in> set (qc_labels c)
     | StalePullRequestTriage \<Rightarrow> cf_stale f
     | DraftCompletion \<Rightarrow> qc_draft c
     | PostMergeWatch \<Rightarrow> ''post-merge'' \<in> set (qc_labels c)
     | DuplicateOverlapDetection \<Rightarrow> qc_changed_paths c \<noteq> [])"

definition apply_preset :: "workflow_preset \<Rightarrow> queue_candidate \<Rightarrow> candidate_flags \<Rightarrow>
    i64 \<times> string list \<Rightarrow> i64 \<times> string list" where
  "apply_preset preset c f = (\<lambda>(score, reasons).
     if preset_matches preset c f
     then (score + 250, reasons @ [''Matches '' @ preset_name preset @ '' workflow''])
     else (score, reasons))"

definition overlapping_path :: "queue_candidate \<Rightarrow> queue_candidate list \<Rightarrow> string option" where
  "overlapping_path c cs = List.find (\<lambda>p. p \<in> set (qc_changed_paths c))
     (concat (map qc_changed_paths (filter (\<lambda>other. qc_number other \<noteq> qc_number c \<and>
        qc_repository_full_name other = qc_repository_full_name c) cs)))"

definition block_on :: "(string \<times> u64) set \<Rightarrow> string \<Rightarrow> u64 \<Rightarrow>
    queue_tier \<times> i64 \<times> string list \<Rightarrow> queue_tier \<times> i64 \<times> string list" where
  "block_on identities repo dependency = (\<lambda>(tier, score, reasons).
     if (repo, dependency) \<in> identities
     then (TierBlocked, score - 500, reasons @ [''Blocked by #'' @ decimal (unat dependency)])
     else (tier, score, reasons))"

definition assess_candidate :: "(queue_candidate \<times> workflow_preset \<Rightarrow> string) \<Rightarrow> queue_candidate \<Rightarrow>
    workflow_preset \<Rightarrow> timestamp \<Rightarrow> (string \<times> u64) set \<Rightarrow> queue_candidate list \<Rightarrow> queue_decision" where
  "assess_candidate digest c preset now identities cs =
     (let score = (case qc_manual_priority c of None \<Rightarrow> 0 | Some p \<Rightarrow> p);
          (score, reasons) = (if qc_pinned c then (score + 2000, [''Manually pinned'']) else (score, []));
          f = candidate_flags_of c now;
          (tier, gain, reason) = base_tier f (qc_draft c);
          score = score + gain;
          reasons = reasons @ [reason];
          (tier, reasons) = (if cf_stale f
            then (if tier \<noteq> TierBlocked then TierStale else tier, reasons @ [''Stale for at least 30 days''])
            else (tier, reasons));
          (score, reasons) = apply_preset preset c f (score, reasons);
          (tier, score, reasons) = fold (block_on identities (qc_repository_full_name c))
            (qc_dependency_numbers c) (tier, score, reasons);
          (score, reasons) = (case overlapping_path c cs of
              Some p \<Rightarrow> (if preset = DuplicateOverlapDetection then score + 300 else score,
                reasons @ [''Overlaps another open PR at '' @ p])
            | None \<Rightarrow> (score, reasons))
      in \<lparr>qd_repository_full_name = qc_repository_full_name c, qd_number = qc_number c,
           qd_tier = tier, qd_score = score, qd_reasons = reasons,
           qd_decision_input_sha256 = digest (c, preset)\<rparr>)"

definition decision_order :: "queue_decision \<Rightarrow> queue_decision \<Rightarrow> ordering" where
  "decision_order left right =
     then_with (then_with (then_with (cmp (qd_tier left) (qd_tier right))
       (cmp (sint (qd_score right)) (sint (qd_score left))))
       (cmp (qd_repository_full_name left) (qd_repository_full_name right)))
       (cmp (qd_number left) (qd_number right))"

definition assess_queue :: "(queue_candidate \<times> workflow_preset \<Rightarrow> string) \<Rightarrow> queue_candidate list \<Rightarrow>
    workflow_preset \<Rightarrow> timestamp \<Rightarrow> queue_error + queue_decision list" where
  "assess_queue digest cs preset now =
     and_then (validate_candidates cs) (\<lambda>_.
     let identities = set (map candidate_identity cs);
         decisions = map (\<lambda>c. assess_candidate digest c preset now identities cs) cs
     in Inr (sort_by decision_order decisions))"

section \<open>Lemmas\<close>

lemma validate_from_ok:
  "validate_from seen cs = Inr u \<longleftrightarrow> (\<forall>c\<in>set cs. \<not> invalid_candidate c) \<and>
     distinct (map candidate_identity cs) \<and> set (map candidate_identity cs) \<inter> seen = {}"
  by (induction cs arbitrary: seen) auto

lemma validate_candidates_ok [result_simps]:
  "validate_candidates cs = Inr u \<longleftrightarrow> (\<forall>c\<in>set cs. \<not> invalid_candidate c) \<and>
     distinct (map candidate_identity cs)"
  by (simp add: validate_candidates_def validate_from_ok)

lemma assess_queue_ok [result_simps]:
  "assess_queue digest cs preset now = Inr ds \<longleftrightarrow> validate_candidates cs = Inr () \<and>
     ds = sort_by decision_order
       (map (\<lambda>c. assess_candidate digest c preset now (set (map candidate_identity cs)) cs) cs)"
  by (auto simp: assess_queue_def Let_def and_then_eq_Inr)

interpretation decision_order: comparator decision_order
  unfolding decision_order_def
proof (intro comparator_then_with comparator_cmp_on)
  show "comparator (\<lambda>x y. cmp (sint (qd_score y)) (sint (qd_score x)))"
    using comparator_reverse [OF comparator_cmp_on [of "\<lambda>d. sint (qd_score d)"]] by simp
qed

lemma decision_order_Equal:
  "decision_order x y = Equal \<Longrightarrow>
     qd_repository_full_name x = qd_repository_full_name y \<and> qd_number x = qd_number y"
  by (simp add: decision_order_def then_with_eq)

text \<open>The number of dependencies that are in the queue.\<close>

definition open_dependencies :: "(string \<times> u64) set \<Rightarrow> queue_candidate \<Rightarrow> u64 list" where
  "open_dependencies identities c =
     filter (\<lambda>d. (qc_repository_full_name c, d) \<in> identities) (qc_dependency_numbers c)"

lemma fold_block_on:
  "fold (block_on ids repo) deps (tier, score, reasons) =
     (let bs = filter (\<lambda>d. (repo, d) \<in> ids) deps
      in (if bs = [] then tier else TierBlocked, score - of_nat (length bs) * 500,
          reasons @ map (\<lambda>d. ''Blocked by #'' @ decimal (unat d)) bs))"
  by (induction deps arbitrary: tier score reasons)
    (auto simp: block_on_def Let_def algebra_simps)

definition priority_of :: "queue_candidate \<Rightarrow> i64" where
  "priority_of c = (case qc_manual_priority c of None \<Rightarrow> 0 | Some p \<Rightarrow> p)"

definition stale_tier :: "candidate_flags \<Rightarrow> queue_tier \<Rightarrow> queue_tier" where
  "stale_tier f t = (if cf_stale f \<and> t \<noteq> TierBlocked then TierStale else t)"

text \<open>Tier, score and identity of a decision in closed form.\<close>

lemma if_pair: "(if b then (x, y) else (u, v)) = (if b then x else u, if b then y else v)"
  by simp

lemma assess_candidate_fields:
  fixes c :: queue_candidate and now :: timestamp
  defines "f \<equiv> candidate_flags_of c now"
  shows "qd_repository_full_name (assess_candidate digest c preset now ids cs) = qc_repository_full_name c"
    and "qd_number (assess_candidate digest c preset now ids cs) = qc_number c"
    and "qd_tier (assess_candidate digest c preset now ids cs) =
      (if open_dependencies ids c = [] then stale_tier f (fst (base_tier f (qc_draft c))) else TierBlocked)"
    and "qd_score (assess_candidate digest c preset now ids cs) =
      priority_of c + (if qc_pinned c then 2000 else 0) + fst (snd (base_tier f (qc_draft c))) +
      (if preset_matches preset c f then 250 else 0) - of_nat (length (open_dependencies ids c)) * 500 +
      (if preset = DuplicateOverlapDetection \<and> overlapping_path c cs \<noteq> None then 300 else 0)"
  unfolding f_def assess_candidate_def apply_preset_def priority_of_def stale_tier_def
    open_dependencies_def if_pair Let_def split_def fst_conv snd_conv fold_block_on
  by (cases "overlapping_path c cs"; simp add: Let_def split_def if_pair cong: if_cong)+

lemma decision_identity [simp]:
  "(qd_repository_full_name (assess_candidate digest c preset now ids cs),
    qd_number (assess_candidate digest c preset now ids cs)) = candidate_identity c"
  by (simp add: assess_candidate_fields(1,2) candidate_identity_def)

lemma find_None_iff: "List.find p xs = None \<longleftrightarrow> (\<forall>x\<in>set xs. \<not> p x)"
  by (induction xs) auto

lemma overlapping_path_perm:
  "set cs = set cs' \<Longrightarrow> (overlapping_path c cs = None) = (overlapping_path c cs' = None)"
  by (simp add: overlapping_path_def find_None_iff)

text \<open>What the order of the queue is about: everything of a decision but its explanation.\<close>

definition placement :: "queue_decision \<Rightarrow> queue_tier \<times> int \<times> string \<times> u64" where
  "placement d = (qd_tier d, - sint (qd_score d), qd_repository_full_name d, qd_number d)"

lemma placement_perm:
  assumes "set cs = set cs'"
  shows "placement (assess_candidate digest c preset now ids cs) =
    placement (assess_candidate digest c preset now ids cs')"
  using overlapping_path_perm [OF assms, of c] by (simp add: placement_def assess_candidate_fields)

definition placement_order ::
  "queue_tier \<times> int \<times> string \<times> u64 \<Rightarrow> queue_tier \<times> int \<times> string \<times> u64 \<Rightarrow> ordering" where
  "placement_order x y = then_with (then_with (then_with (cmp (fst x) (fst y))
     (cmp (fst (snd x)) (fst (snd y)))) (cmp (fst (snd (snd x))) (fst (snd (snd y)))))
     (cmp (snd (snd (snd x))) (snd (snd (snd y))))"

interpretation placement_order: strict_comparator placement_order
proof -
  have "comparator placement_order"
    unfolding placement_order_def by (intro comparator_then_with comparator_cmp_on)
  then show "strict_comparator placement_order"
    by (simp add: strict_comparator_def strict_comparator_axioms_def placement_order_def then_with_eq
        prod_eq_iff)
qed

lemma cmp_neg: "cmp (- a) (- b :: int) = cmp b a"
  by (simp add: cmp_def)

lemma decision_order_placement: "decision_order x y = placement_order (placement x) (placement y)"
  by (simp add: decision_order_def placement_order_def placement_def cmp_neg)

lemma map_insert_by:
  "(\<And>x y. c x y = d (f x) (f y)) \<Longrightarrow> map f (insert_by c x xs) = insert_by d (f x) (map f xs)"
  by (induction xs) auto

lemma map_sort_by:
  "(\<And>x y. c x y = d (f x) (f y)) \<Longrightarrow> map f (sort_by c xs) = sort_by d (map f xs)"
  by (induction xs) (simp_all add: sort_by_Cons map_insert_by)

end
