(* ===== verification/Instructions.thy ===== *)
theory Instructions
  imports Ordering
begin

text \<open>
  \<open>crates/patchwright-core/src/instructions.rs\<close>: the resolution of instruction sources by
  precedence. Sources are sorted by kind (stably), the \<open>key: value\<close> lines of all of them are
  collected per key in a \<open>BTreeMap\<close> (an association list in ascending key order), and a key with two
  different neighbouring values is a conflict whose last value wins. SHA-256 is an argument.
\<close>

datatype instruction_kind =
  Organization | User | ProjectConfiguration | RootAgents | DirectoryAgents | Branch | TaskKind

definition kind_rank :: "instruction_kind \<Rightarrow> nat" where
  "kind_rank k = (case k of Organization \<Rightarrow> 0 | User \<Rightarrow> 1 | ProjectConfiguration \<Rightarrow> 2 | RootAgents \<Rightarrow> 3
     | DirectoryAgents \<Rightarrow> 4 | Branch \<Rightarrow> 5 | TaskKind \<Rightarrow> 6)"

lemma kind_rank_inj: "kind_rank a = kind_rank b \<Longrightarrow> a = b"
  by (cases a; cases b) (simp_all add: kind_rank_def)

instantiation instruction_kind :: linorder
begin

definition less_eq_instruction_kind :: "instruction_kind \<Rightarrow> instruction_kind \<Rightarrow> bool" where
  "less_eq_instruction_kind a b = (kind_rank a \<le> kind_rank b)"

definition less_instruction_kind :: "instruction_kind \<Rightarrow> instruction_kind \<Rightarrow> bool" where
  "less_instruction_kind a b = (kind_rank a < kind_rank b)"

instance
  by standard (auto simp: less_eq_instruction_kind_def less_instruction_kind_def kind_rank_inj)

end

record instruction_source =
  is_kind :: instruction_kind
  is_location :: string
  is_content :: string
  is_content_sha256 :: string
  is_enforced :: bool

definition instruction_source_new ::
  "(string \<Rightarrow> string) \<Rightarrow> instruction_kind \<Rightarrow> string \<Rightarrow> string \<Rightarrow> instruction_source" where
  "instruction_source_new sha256_hex kind location content = \<lparr>is_kind = kind, is_location = location,
     is_content = content, is_content_sha256 = sha256_hex content, is_enforced = False\<rparr>"

record instruction_conflict =
  ic_key :: string
  ic_values :: "string list"
  ic_effective_value :: string

record effective_instructions =
  ei_sources :: "instruction_source list"
  ei_conflicts :: "instruction_conflict list"

text \<open>One line of a source, and all the settings of a list of sources in order.\<close>

definition line_setting :: "string \<Rightarrow> (string \<times> string) option" where
  "line_setting line = (case split_once CHR '':'' line of
       None \<Rightarrow> None
     | Some (key, value) \<Rightarrow> let key = trim key; value = trim value in
         if key \<noteq> [] \<and> value \<noteq> [] then Some (key, value) else None)"

definition source_settings :: "instruction_source \<Rightarrow> (string \<times> string) list" where
  "source_settings s = List.map_filter line_setting (lines (is_content s))"

text \<open>\<open>values.entry(key).or_default().push(value)\<close> on a map kept in key order.\<close>

fun push_value :: "(string \<times> string list) list \<Rightarrow> string \<times> string \<Rightarrow> (string \<times> string list) list" where
  "push_value [] (k, v) = [(k, [v])]"
| "push_value ((k', vs) # m) (k, v) =
     (if k = k' then (k', vs @ [v]) # m
      else if k < k' then (k, [v]) # (k', vs) # m
      else (k', vs) # push_value m (k, v))"

fun neighbours_differ :: "string list \<Rightarrow> bool" where
  "neighbours_differ (a # b # vs) = (a \<noteq> b \<or> neighbours_differ (b # vs))"
| "neighbours_differ vs = False"

definition conflict_of :: "string \<times> string list \<Rightarrow> instruction_conflict" where
  "conflict_of e = \<lparr>ic_key = fst e, ic_values = snd e,
     ic_effective_value = (if snd e = [] then [] else last (snd e))\<rparr>"

definition resolve :: "instruction_source list \<Rightarrow> effective_instructions" where
  "resolve sources =
     (let sources = sort_by (\<lambda>a b. cmp (is_kind a) (is_kind b)) sources;
          values = foldl push_value [] (concat (map source_settings sources));
          conflicts = map conflict_of (filter (\<lambda>e. neighbours_differ (snd e)) values)
      in \<lparr>ei_sources = sources, ei_conflicts = conflicts\<rparr>)"

section \<open>Lemmas\<close>

interpretation kind_order: comparator "\<lambda>a b. cmp (is_kind a) (is_kind b)"
  by (rule comparator_cmp_on)

text \<open>The specification of the map: for every key its values in order, each key once, in order.\<close>

definition values_for :: "string \<Rightarrow> (string \<times> string) list \<Rightarrow> string list" where
  "values_for k kvs = map snd (filter (\<lambda>kv. fst kv = k) kvs)"

lemma keys_push_value: "set (map fst (push_value m kv)) = insert (fst kv) (set (map fst m))"
  by (induction m kv rule: push_value.induct) auto

lemma sorted_push_value:
  "sorted_wrt (<) (map fst m) \<Longrightarrow> sorted_wrt (<) (map fst (push_value m kv))"
proof (induction m kv rule: push_value.induct)
  case (2 k' vs m k v)
  then show ?case using keys_push_value [of m "(k, v)"] by auto
qed simp

lemma map_of_push_value:
  "sorted_wrt (<) (map fst m) \<Longrightarrow> map_of (push_value m (k, v)) =
     (map_of m)(k \<mapsto> (case map_of m k of None \<Rightarrow> [v] | Some vs \<Rightarrow> vs @ [v]))"
proof (induction m "(k, v)" rule: push_value.induct)
  case (2 k' vs m)
  have "map_of m k = None" if "k < k'"
    using that "2.prems" by (fastforce simp: map_of_eq_None_iff)
  with 2 show ?case by (auto simp: fun_eq_iff)
qed auto

lemma collected_values:
  "sorted_wrt (<) (map fst (foldl push_value [] kvs)) \<and>
   map_of (foldl push_value [] kvs) k = (if values_for k kvs = [] then None else Some (values_for k kvs))"
proof (induction kvs rule: rev_induct)
  case (snoc kv kvs)
  then show ?case
    by (cases kv) (auto simp: values_for_def sorted_push_value map_of_push_value)
qed (simp add: values_for_def)

lemma neighbours_differ_iff: "neighbours_differ vs \<longleftrightarrow> (\<exists>a\<in>set vs. \<exists>b\<in>set vs. a \<noteq> b)"
proof (induction vs rule: neighbours_differ.induct)
  case (1 a b vs)
  then show ?case by (cases "a = b") auto
qed auto

lemma distinct_sorted_keys: "sorted_wrt (<) (ks :: string list) \<Longrightarrow> distinct ks"
  by (induction ks) auto

lemma resolve_conflict_iff:
  assumes "ss = sort_by (\<lambda>a b. cmp (is_kind a) (is_kind b)) sources"
    and "kvs = concat (map source_settings ss)"
  shows "c \<in> set (ei_conflicts (resolve sources)) \<longleftrightarrow>
    (\<exists>a\<in>set (values_for (ic_key c) kvs). \<exists>b\<in>set (values_for (ic_key c) kvs). a \<noteq> b) \<and>
    ic_values c = values_for (ic_key c) kvs \<and> ic_effective_value c = last (values_for (ic_key c) kvs)"
proof -
  let ?m = "foldl push_value [] kvs"
  have d: "distinct (map fst ?m)" using collected_values distinct_sorted_keys by blast
  have m: "(k, vs) \<in> set ?m \<longleftrightarrow> vs = values_for k kvs \<and> vs \<noteq> []" for k vs
    using map_of_eq_Some_iff [OF d, of k vs] collected_values [of kvs k] by (auto split: if_splits)
  have eq: "ei_conflicts (resolve sources) = map conflict_of (filter (\<lambda>e. neighbours_differ (snd e)) ?m)"
    by (simp add: resolve_def Let_def assms)
  have "c \<in> set (ei_conflicts (resolve sources)) \<longleftrightarrow>
    (\<exists>k vs. (k, vs) \<in> set ?m \<and> neighbours_differ vs \<and> c = conflict_of (k, vs))"
    unfolding eq by (auto simp: image_iff Bex_def)
  also have "\<dots> \<longleftrightarrow> (\<exists>a\<in>set (values_for (ic_key c) kvs). \<exists>b\<in>set (values_for (ic_key c) kvs). a \<noteq> b) \<and>
    ic_values c = values_for (ic_key c) kvs \<and> ic_effective_value c = last (values_for (ic_key c) kvs)"
    unfolding m neighbours_differ_iff by (cases c) (auto simp: conflict_of_def)
  finally show ?thesis .
qed

end
