(* ===== verification/Triage_Properties.thy ===== *)
theory Triage_Properties
  imports Samples Workspace_Sorting Queue Instructions GitHub_Model Monitoring_Record
begin

text \<open>
  The properties of what the workspace shows and of what it concludes from GitHub: the sorted and
  filtered tables, the triage queue, the resolution of instructions, the condensed CI and review
  states, and the monitor of a pull request; with their witnesses at concrete inputs.
\<close>

section \<open>Tables\<close>

text \<open>Sorting the repository table. Every order of the table keeps the rows, arranges them by the
  comparator, keeps rows that compare equal in the order they came in, and, when no two rows are the
  same repository, gives a table that does not depend on the order of the input.\<close>

theorem repositories_sorted:
  assumes "mset records' = mset records"
  shows "mset (sort_repositories records s) = mset records \<and>
    sorted_wrt (\<lambda>a b. repository_order s a b \<noteq> Greater) (sort_repositories records s) \<and>
    filter (\<lambda>r. repository_order s k r = Equal) (sort_repositories records s) =
      filter (\<lambda>r. repository_order s k r = Equal) records \<and>
    (distinct (map rq_id records) \<longrightarrow> sort_repositories records' s = sort_repositories records s)"
proof -
  have "sort_repositories records' s = sort_repositories records s" if d: "distinct (map rq_id records)"
  proof -
    have "x = y" if "x \<in> set records'" "y \<in> set records'" "repository_order s x y = Equal" for x y
      using d that repository_order_Equal assms by (metis distinct_map inj_onD set_mset_mset)
    then show ?thesis
      unfolding sort_repositories_def using assms by (intro repo_order.sort_by_unique) auto
  qed
  then show ?thesis
    using repo_order.stable_sort_by [of s k records] repo_order.sorted_sort_by [of s records]
    by (simp add: sort_repositories_def repo_order.equals_def [abs_def])
qed

definition sample_row :: "u64 \<Rightarrow> string \<Rightarrow> i64 option \<Rightarrow> repository_queue_record" where
  "sample_row i name p = \<lparr>rq_id = i, rq_full_name = name, rq_queue_priority = p, rq_updated_at = 0,
     rq_pushed_at = None, rq_default_branch_committed_at = None, rq_open_pull_request_count = 0,
     rq_failing_check_count = 0\<rparr>"

theorem repositories_sorted_witness:
  "sort_repositories [sample_row 1 ''a'' None, sample_row 2 ''b'' (Some (- 1))] \<lparr>rs_key = RepoQueuePriority, rs_direction = Descending\<rparr> =
   sort_repositories [sample_row 2 ''b'' (Some (- 1)), sample_row 1 ''a'' None] \<lparr>rs_key = RepoQueuePriority, rs_direction = Descending\<rparr>"
  using repositories_sorted [of "[sample_row 1 ''a'' None, sample_row 2 ''b'' (Some (- 1))]"
      "[sample_row 2 ''b'' (Some (- 1)), sample_row 1 ''a'' None]"]
  by (simp add: sample_row_def add_mset_commute)

lemma sorted_missing_last:
  "sorted_wrt (\<lambda>a b. pull_request_order s a b \<noteq> Greater) xs \<Longrightarrow>
     \<exists>ys zs. xs = ys @ zs \<and> list_all (\<lambda>r. \<not> pull_request_missing (ps_key s) r) ys \<and>
       list_all (pull_request_missing (ps_key s)) zs"
proof (induction xs)
  case (Cons x xs)
  then obtain ys zs where split: "xs = ys @ zs" "list_all (\<lambda>r. \<not> pull_request_missing (ps_key s) r) ys"
    "list_all (pull_request_missing (ps_key s)) zs" by auto
  show ?case
  proof (cases "pull_request_missing (ps_key s) x")
    case True
    have "ys = []"
    proof (rule ccontr)
      assume "ys \<noteq> []"
      then obtain y where "y \<in> set ys" by (cases ys) auto
      then have "pull_request_order s x y = Greater"
        using True split(2) missing_after by (auto simp: list_all_iff)
      then show False using Cons.prems split(1) \<open>y \<in> set ys\<close> by auto
    qed
    then show ?thesis using split True by (intro exI [of _ "[]"] exI [of _ "x # zs"]) simp
  next
    case False
    then show ?thesis using split by (intro exI [of _ "x # ys"] exI [of _ zs]) simp
  qed
qed simp

text \<open>Missing values come last. In a pull request table sorted by an optional column, in either
  direction, the rows without a value form the end of the table, and the table keeps its rows and is
  sorted by the comparator.\<close>

theorem pull_requests_missing_last:
  "mset (sort_pull_requests records s) = mset records \<and>
   sorted_wrt (\<lambda>a b. pull_request_order s a b \<noteq> Greater) (sort_pull_requests records s) \<and>
   (\<exists>ys zs. sort_pull_requests records s = ys @ zs \<and>
      list_all (\<lambda>r. \<not> pull_request_missing (ps_key s) r) ys \<and>
      list_all (pull_request_missing (ps_key s)) zs)"
  using sorted_missing_last [OF pr_order.sorted_sort_by [of s records]] pr_order.sorted_sort_by [of s records]
  by (simp add: sort_pull_requests_def)

text \<open>The workspace filter. A filter with a maximum age keeps exactly the rows that pass its
  other conditions and were updated within that many days; but a filter of so many days that the
  limit precedes the earliest representable time stops the program at the first row that reaches the
  age check. Without a maximum age it never stops.\<close>

theorem filter_age:
  "(matches min_utc f r now = None \<longleftrightarrow> matches_before_age f r \<and>
     (\<exists>d. wf_maximum_age_days f = Some d \<and> now - days (uint d) < min_utc)) \<and>
   (matches min_utc f r now = Some True \<longleftrightarrow> matches_before_age f r \<and> matches_after_age f r \<and>
     (case wf_maximum_age_days f of None \<Rightarrow> True
      | Some d \<Rightarrow> min_utc \<le> now - days (uint d) \<and> now - pq_updated_at r \<le> days (uint d)))"
  by (auto simp: matches_def age_limit_def Let_def split: option.splits if_splits)

section \<open>The triage queue\<close>

definition sample_candidate :: "string list \<Rightarrow> queue_candidate" where
  "sample_candidate labels = \<lparr>qc_repository_full_name = ''o/r'', qc_number = 4, qc_title = ''Fix'',
     qc_draft = False, qc_ci_health = Some ''passing'', qc_review_decision = Some ''approved'',
     qc_has_conflicts = Some False, qc_updated_at = 0, qc_labels = labels,
     qc_dependency_numbers = [], qc_changed_paths = [], qc_manual_priority = None, qc_pinned = False\<rparr>"

text \<open>C39: The queue. An accepted assessment decides every candidate exactly once, in the order of
  tier, falling signed score, repository and number; and neither the tiers and scores nor the order
  depend on the order in which the candidates were given.\<close>

theorem queue_complete_sorted:
  assumes "assess_queue digest cs preset now = Inr ds" and "mset cs' = mset cs"
  shows "mset (map (\<lambda>d. (qd_repository_full_name d, qd_number d)) ds) = mset (map candidate_identity cs) \<and>
    sorted_wrt (\<lambda>a b. decision_order a b \<noteq> Greater) ds \<and>
    (\<exists>ds'. assess_queue digest cs' preset now = Inr ds' \<and> map placement ds' = map placement ds)"
proof -
  let ?ids = "set (map candidate_identity cs)"
  let ?d = "\<lambda>cs c. assess_candidate digest c preset now ?ids cs"
  have ds: "ds = sort_by decision_order (map (?d cs) cs)" and v: "validate_candidates cs = Inr ()"
    using assms(1) by (auto simp: assess_queue_ok)
  have set_eq: "set cs' = set cs" using assms(2) by (metis set_mset_mset)
  have "distinct (map candidate_identity cs')"
    using v assms(2) by (metis validate_candidates_ok mset_eq_imp_distinct_iff mset_map)
  then have v': "validate_candidates cs' = Inr ()" using v set_eq by (simp add: validate_candidates_ok)
  define ds' where "ds' = sort_by decision_order (map (?d cs') cs')"
  have a: "assess_queue digest cs' preset now = Inr ds'"
    using v' set_eq by (simp add: assess_queue_ok ds'_def)
  have p: "placement \<circ> ?d cs' = placement \<circ> ?d cs"
    using placement_perm [OF set_eq] by auto
  have "mset (map (placement \<circ> ?d cs') cs') = mset (map (placement \<circ> ?d cs) cs)"
    unfolding p using assms(2) by (simp add: mset_map)
  then have "map placement ds' = map placement ds"
    unfolding ds ds'_def map_sort_by [of decision_order placement_order placement, OF decision_order_placement] map_map
    by (rule placement_order.order_independent)
  moreover have "mset (map (\<lambda>d. (qd_repository_full_name d, qd_number d)) ds) = mset (map candidate_identity cs)"
    by (simp add: ds image_mset.compositionality comp_def)
  ultimately show ?thesis using a decision_order.sorted_sort_by [of "map (?d cs) cs"] ds by blast
qed

theorem queue_complete_sorted_witness:
  "\<exists>ds. assess_queue (\<lambda>_. []) [sample_candidate []] QuickWins 0 = Inr ds \<and>
     mset (map (\<lambda>d. (qd_repository_full_name d, qd_number d)) ds) = {#(''o/r'', 4)#}"
proof -
  have "split_once CHR ''/'' ''o/r'' = Some (''o'', ''r'')" by (simp add: split_once_Some)
  then have "\<not> invalid_candidate (sample_candidate [])"
    by (simp add: invalid_candidate_def sample_candidate_def)
  then obtain ds where ds: "assess_queue (\<lambda>_. []) [sample_candidate []] QuickWins 0 = Inr ds"
    by (auto simp: assess_queue_ok validate_candidates_ok)
  from queue_complete_sorted [OF ds refl] show ?thesis
    using ds by (simp add: candidate_identity_def sample_candidate_def)
qed

text \<open>Tiers. A decision puts a candidate in the blocked tier exactly when one of its dependencies
  is itself in the queue, or its CI, review or mergeability is unknown and it is not about security;
  a ready candidate is approved, passing, free of conflicts, no draft and fresh; and a stale
  candidate that is not blocked leaves every other tier, the critical one of security too.\<close>

theorem queue_tiers:
  "let d = assess_candidate digest c preset now ids cs; f = candidate_flags_of c now in
    (qd_tier d = TierBlocked \<longleftrightarrow>
      open_dependencies ids c \<noteq> [] \<or> cf_unknown f \<and> \<not> cf_security f) \<and>
    (qd_tier d = TierReady \<longrightarrow> cf_approved f \<and> cf_passing f \<and> \<not> cf_conflicts f \<and> \<not> qc_draft c \<and>
      now - qc_updated_at c < days 30 \<and> open_dependencies ids c = []) \<and>
    (cf_stale f \<and> qd_tier d \<noteq> TierBlocked \<longrightarrow> qd_tier d = TierStale) \<and>
    (qd_tier d = TierCritical \<longleftrightarrow> open_dependencies ids c = [] \<and> cf_security f \<and> \<not> cf_stale f)"
proof -
  define d where "d = assess_candidate digest c preset now ids cs"
  define f where "f = candidate_flags_of c now"
  have stale: "cf_stale f \<longleftrightarrow> days 30 \<le> now - qc_updated_at c"
    by (simp add: f_def candidate_flags_of_def)
  have tier: "qd_tier d = (if open_dependencies ids c = [] then stale_tier f (fst (base_tier f (qc_draft c)))
      else TierBlocked)"
    by (simp add: d_def f_def assess_candidate_fields)
  show ?thesis
    unfolding Let_def d_def [symmetric] f_def [symmetric] tier
    using stale by (auto simp: stale_tier_def base_tier_def)
qed

theorem queue_tiers_witness:
  "qd_tier (assess_candidate (\<lambda>_. []) (sample_candidate [''security'']) QuickWins (days 40) {} []) = TierStale \<and>
   qd_tier (assess_candidate (\<lambda>_. []) (sample_candidate []) QuickWins 0 {} []) \<noteq> TierStale"
proof -
  have f: "cf_stale (candidate_flags_of (sample_candidate [''security'']) (days 40))"
    "\<not> cf_unknown (candidate_flags_of (sample_candidate [''security'']) (days 40))"
    by (simp_all add: candidate_flags_of_def sample_candidate_def days_def seconds_def)
  have "qd_tier (assess_candidate (\<lambda>_. []) (sample_candidate []) QuickWins 0 {} []) = TierReady"
    by (simp add: assess_candidate_fields open_dependencies_def stale_tier_def base_tier_def
        candidate_flags_of_def sample_candidate_def days_def seconds_def)
  then show ?thesis
    using queue_tiers [of "\<lambda>_. []" "sample_candidate [''security'']" QuickWins "days 40" "{}" "[]"] f
    by (auto simp: Let_def open_dependencies_def sample_candidate_def)
qed

definition score_sum :: "queue_candidate \<Rightarrow> candidate_flags \<Rightarrow> workflow_preset \<Rightarrow> nat \<Rightarrow> bool \<Rightarrow> int" where
  "score_sum c f preset blocked overlap = sint (priority_of c) + (if qc_pinned c then 2000 else 0) +
     sint (fst (snd (base_tier f (qc_draft c)))) + (if preset_matches preset c f then 250 else 0) -
     500 * int blocked + (if preset = DuplicateOverlapDetection \<and> overlap then 300 else 0)"

lemma sint_of_int: "- (2 ^ 63) \<le> n \<Longrightarrow> n < 2 ^ 63 \<Longrightarrow> sint (word_of_int n :: i64) = n"
  by (simp add: sint_sbintrunc' signed_take_bit_int_eq_self)

lemma base_score_bounds: "0 \<le> sint (fst (snd (base_tier f draft))) \<and> sint (fst (snd (base_tier f draft))) \<le> 1000"
  by (simp add: base_tier_def)

lemma assess_score:
  "qd_score (assess_candidate digest c preset now ids cs) =
     word_of_int (score_sum c (candidate_flags_of c now) preset (length (open_dependencies ids c))
       (overlapping_path c cs \<noteq> None))"
  unfolding assess_candidate_fields(4) score_sum_def by (simp add: wi_hom_syms)

text \<open>Scores. When a manual priority is at most a million in size and a candidate has at most
  a thousand dependencies, the score is computed without wrap-around, so it is the sum of the
  priority, the tier's score and the bonuses, less 500 for every open dependency.\<close>

theorem queue_score_exact:
  assumes "\<bar>sint (priority_of c)\<bar> \<le> 1000000" and "length (qc_dependency_numbers c) \<le> 1000"
  shows "sint (qd_score (assess_candidate digest c preset now ids cs)) =
    score_sum c (candidate_flags_of c now) preset (length (open_dependencies ids c))
      (overlapping_path c cs \<noteq> None)"
proof -
  have "length (open_dependencies ids c) \<le> 1000"
    using assms(2) le_trans [OF length_filter_le] by (simp add: open_dependencies_def)
  then have "\<bar>score_sum c (candidate_flags_of c now) preset (length (open_dependencies ids c))
      (overlapping_path c cs \<noteq> None)\<bar> \<le> 1600000"
    using assms(1) base_score_bounds [of "candidate_flags_of c now" "qc_draft c"]
    unfolding score_sum_def by (auto simp: abs_le_iff)
  then show ?thesis unfolding assess_score by (intro sint_of_int) auto
qed

theorem queue_score_exact_witness:
  "sint (qd_score (assess_candidate (\<lambda>_. []) (sample_candidate []) QuickWins 0 {} [])) = 1150"
  using queue_score_exact [of "sample_candidate []" "\<lambda>_. []" QuickWins 0 "{}" "[]"]
  by (simp add: sample_candidate_def priority_of_def score_sum_def base_tier_def candidate_flags_of_def
      preset_matches_def open_dependencies_def days_def seconds_def)

section \<open>Instructions\<close>

text \<open>Instructions. Resolution keeps every source, arranged by precedence with sources of one
  kind in their given order; and it reports exactly the keys that were given two different values,
  with all their values in that order and the last, of highest precedence, as the effective one.\<close>

theorem instructions_resolved:
  "let ss = ei_sources (resolve sources); settings = concat (map source_settings ss) in
     mset ss = mset sources \<and> sorted_wrt (\<le>) (map is_kind ss) \<and>
     filter (\<lambda>s. is_kind s = k) ss = filter (\<lambda>s. is_kind s = k) sources \<and>
     (c \<in> set (ei_conflicts (resolve sources)) \<longleftrightarrow>
        1 < card (set (values_for (ic_key c) settings)) \<and>
        ic_values c = values_for (ic_key c) settings \<and>
        ic_effective_value c = last (values_for (ic_key c) settings))"
proof -
  define ss where "ss = sort_by (\<lambda>a b. cmp (is_kind a) (is_kind b)) sources"
  have ss: "ei_sources (resolve sources) = ss" by (simp add: resolve_def Let_def ss_def)
  have card: "1 < card (set vs) \<longleftrightarrow> (\<exists>a\<in>set vs. \<exists>b\<in>set vs. a \<noteq> b)" for vs :: "string list"
    by (auto simp: card_le_Suc0_iff_eq not_le [symmetric])
  have "sorted_wrt (\<le>) (map is_kind ss)"
    using kind_order.sorted_sort_by [of sources] by (simp add: ss_def sorted_wrt_map not_less)
  moreover have "filter (\<lambda>s. is_kind s = k) ss = filter (\<lambda>s. is_kind s = k) sources"
  proof (cases "\<exists>s\<in>set sources. is_kind s = k")
    case True
    then obtain s :: instruction_source where s: "is_kind s = k" by blast
    have eq: "kind_order.equals s = (\<lambda>s. is_kind s = k)"
      using s by (auto simp: kind_order.equals_def)
    show ?thesis using kind_order.stable_sort_by [of s sources] unfolding eq ss_def .
  next
    case False
    then have none: "\<forall>s\<in>set ss. is_kind s \<noteq> k" "\<forall>s\<in>set sources. is_kind s \<noteq> k"
      by (simp_all add: ss_def)
    then show ?thesis by (simp add: filter_False)
  qed
  moreover have "mset ss = mset sources" by (simp add: ss_def)
  ultimately show ?thesis
    unfolding Let_def ss card using resolve_conflict_iff [OF ss_def refl, of c] by blast
qed

section \<open>What GitHub shows\<close>

text \<open>CI health. The checks of a pull request are passing exactly when there are some, all are
  completed and each succeeded, was neutral or was skipped; failing when all are completed and one
  failed; pending while one is not completed; and unknown otherwise.\<close>

theorem ci_verdicts:
  "(ci_health cs = ''passing'' \<longleftrightarrow> cs \<noteq> [] \<and> list_all (\<lambda>c. gc_status c = ''completed'' \<and>
      gc_conclusion c \<in> {Some ''success'', Some ''neutral'', Some ''skipped''}) cs) \<and>
   (ci_health cs = ''failing'' \<longleftrightarrow> list_all (\<lambda>c. gc_status c = ''completed'') cs \<and>
      list_ex (\<lambda>c. is_failing_conclusion (gc_conclusion c)) cs) \<and>
   (ci_health cs = ''pending'' \<longleftrightarrow> list_ex (\<lambda>c. gc_status c \<noteq> ''completed'') cs) \<and>
   ci_health cs \<in> {''passing'', ''failing'', ''pending'', ''unknown''}"
  using ci_health_passing [of cs]
  by (auto simp: ci_health_def list_all_iff list_ex_iff is_failing_conclusion_def)

definition review_by :: "string \<Rightarrow> string \<Rightarrow> string \<Rightarrow> github_discussion" where
  "review_by author state at = \<lparr>gd_id = 1, gd_item_number = 4, gd_kind = ''review'', gd_author = author,
     gd_body = None, gd_state = Some state, gd_path = None, gd_line = None, gd_html_url = [],
     gd_updated_at = Some at, gd_thread_node_id = None, gd_thread_resolved = None,
     gd_thread_outdated = None, gd_viewer_can_resolve = None\<rparr>"

lemma lower_review_states:
  "to_ascii_lowercase ''CHANGES_REQUESTED'' = ''changes_requested''"
  "to_ascii_lowercase ''COMMENTED'' = ''commented''" "to_ascii_lowercase ''APPROVED'' = ''approved''"
  by code_simp+

text \<open>A comment hides an objection. The condensed decision looks at the latest review of each
  reviewer whatever its state, so when a reviewer who asked for changes comments later, the objection
  no longer counts, and with somebody else's approval the pull request is taken for approved.\<close>

theorem comment_hides_objection:
  assumes "a \<noteq> b" and "t \<le> u"
  shows "review_decision [review_by a ''CHANGES_REQUESTED'' t, review_by b ''APPROVED'' v] =
      Some ''changesRequested'' \<and>
    review_decision [review_by a ''CHANGES_REQUESTED'' t, review_by a ''COMMENTED'' u, review_by b ''APPROVED'' v] =
      Some ''approved''"
  using assms
  by (simp add: review_decision_def review_states_def latest_reviews_def note_review_def review_by_def
      map_filter_simps lower_review_states Let_def)

theorem comment_hides_objection_witness:
  "review_decision [review_by ''x'' ''CHANGES_REQUESTED'' ''1'', review_by ''x'' ''COMMENTED'' ''2'',
     review_by ''y'' ''APPROVED'' ''1''] = Some ''approved''"
  using comment_hides_objection [of "''x''" "''y''" "''1''" "''2''" "''1''"] by simp

section \<open>Monitors\<close>

lemma monitor_decide_next:
  assumes "mon_state (fst (monitor_decide rf ob now m)) = MonPending"
  shows "\<exists>t. mon_next_attempt_at (fst (monitor_decide rf ob now m)) = Some t \<and>
    (ob_rate_limited_until ob = Some t \<and> now < t \<or> now + seconds 30 \<le> t \<and> t \<le> now + seconds 910)"
proof -
  have r: "mon_state (fst (monitor_repair reason m)) \<noteq> MonPending" for reason
    by (simp add: monitor_step_defs)
  show ?thesis using assms monitor_schedule_next [of now _ m]
    by (auto simp: monitor_decide_def monitor_block_def monitor_outcome_of_def Let_def r
        split: if_splits option.splits mergeability.splits)
qed

text \<open>One observation. Observing a well-formed monitor keeps it well-formed and on its target. It
  succeeds exactly on a reachable, unchanged, mergeable, green and approved pull request with no rate
  limit in force; approvals are invalidated exactly when it blocks or asks for a repair; while it
  stays pending it looks again when the rate limit ends, or after 30 to 910 seconds.\<close>

theorem monitor_observation:
  assumes "monitor_wf m" and "monitor_observe rf ob now m = Inr (m', out)"
  shows "monitor_wf m' \<and> same_target m m' \<and>
    (mon_state m' = MonSucceeded \<longleftrightarrow> merge_evidence m ob \<and> \<not> rate_limited ob now) \<and>
    mo_state out = mon_state m' \<and>
    (mo_invalidate_approvals out \<longleftrightarrow> mon_state m' \<in> {MonBlocked, MonRepairNeeded}) \<and>
    (mon_state m' = MonPending \<longrightarrow> (\<exists>t. mon_next_attempt_at m' = Some t \<and>
       (ob_rate_limited_until ob = Some t \<and> now < t \<or> now + seconds 30 \<le> t \<and> t \<le> now + seconds 910)))"
proof -
  have d: "monitor_decide rf ob now (observed ob now m) = (m', out)"
    using observe_decides [OF assms(2)] by simp
  show ?thesis
    using monitor_observe_wf [OF assms] monitor_observe_target [OF assms(2)]
      monitor_decide_succeeded [of rf ob now "observed ob now m"]
      monitor_decide_outcome [of rf ob now "observed ob now m"]
      monitor_decide_next [of rf ob now "observed ob now m"]
    unfolding d by simp
qed

definition sample_observation :: "ci_state \<Rightarrow> remote_observation" where
  "sample_observation ci = \<lparr>ob_observed_at = 0, ob_head_sha = sha_a, ob_base_sha = sha_b, ob_ci = ci,
     ob_review = RevApproved, ob_mergeability = Mergeable, ob_repository_accessible = True,
     ob_network_available = True, ob_rate_limited_until = None\<rparr>"

lemma sample_observed: "\<exists>m out. monitor_observe (\<lambda>_. []) (sample_observation ci) 5 sample_monitor = Inr (m, out)"
proof -
  have "\<exists>r. monitor_observe (\<lambda>_. []) (sample_observation ci) 5 sample_monitor = Inr r"
    by (simp add: monitor_observe_ok monitor_terminal_def monitor_validate_sha_def sample_observation_def
        sample_monitor_def)
  then show ?thesis by (metis surj_pair)
qed

theorem monitor_observation_witness:
  "\<exists>m out. monitor_observe (\<lambda>_. []) (sample_observation CISuccess) 5 sample_monitor = Inr (m, out) \<and>
     mon_state m = MonSucceeded \<and> \<not> mo_invalidate_approvals out"
proof -
  obtain m out where o: "monitor_observe (\<lambda>_. []) (sample_observation CISuccess) 5 sample_monitor = Inr (m, out)"
    using sample_observed by blast
  have "merge_evidence sample_monitor (sample_observation CISuccess)"
    by (simp add: merge_evidence_def sample_observation_def sample_monitor_def)
  then show ?thesis
    using o monitor_observation [OF monitor_new_wf [OF sample_monitor_new] o]
    by (auto simp: rate_limited_def sample_observation_def)
qed

text \<open>The life of a monitor, with the number of repairs it has asked for.\<close>

inductive monitor_life :: "monitor_record \<Rightarrow> nat \<Rightarrow> bool" where
  created: "monitor_new fresh task repository number head base now budget = Inr m \<Longrightarrow> monitor_life m 0"
| observing: "monitor_life m n \<Longrightarrow> monitor_observe rf ob now m = Inr (m', out) \<Longrightarrow>
     monitor_life m' (if mo_state out = MonRepairNeeded then Suc n else n)"
| waking: "monitor_life m n \<Longrightarrow> monitor_wake now m = (changed, m') \<Longrightarrow> monitor_life m' n"
| cancelling: "monitor_life m n \<Longrightarrow> monitor_cancel now m = (changed, m') \<Longrightarrow> monitor_life m' n"

lemma monitor_wake_counts:
  "monitor_wake now m = (changed, m') \<Longrightarrow> mon_repair_iteration m' = mon_repair_iteration m \<and> same_target m m'"
  "monitor_cancel now m = (changed, m') \<Longrightarrow> mon_repair_iteration m' = mon_repair_iteration m \<and> same_target m m'"
  by (auto simp: monitor_wake_def monitor_cancel_def same_target_def split: if_splits)

lemma unat_inc: "(i :: u32) < b \<Longrightarrow> unat (i + 1) = Suc (unat i)"
  using unsigned_less [of b, where 'a = nat] by (simp add: unat_word_ariths word_less_nat_alt)

lemma monitor_observe_counts:
  assumes "monitor_observe rf ob now m = Inr (m', out)"
  shows "unat (mon_repair_iteration m') =
    (if mo_state out = MonRepairNeeded then Suc (unat (mon_repair_iteration m)) else unat (mon_repair_iteration m))"
proof -
  let ?d = "monitor_decide rf ob now (observed ob now m)"
  have d: "?d = (m', out)" using observe_decides [OF assms] by simp
  have s: "mo_state out = mon_state m'" using monitor_decide_outcome(1) [of rf ob now "observed ob now m"] d by simp
  show ?thesis
  proof (cases "mon_state m' = MonRepairNeeded")
    case True
    then have "mon_repair_iteration m < mon_repair_budget m" "mon_repair_iteration m' = mon_repair_iteration m + 1"
      using monitor_decide_repairs(2) [of rf ob now "observed ob now m"] d by auto
    then show ?thesis using True s by (simp add: unat_inc)
  next
    case False
    then show ?thesis using monitor_decide_repairs(1) [of rf ob now "observed ob now m"] d s by auto
  qed
qed

lemma monitor_life_inv: "monitor_life m n \<Longrightarrow> monitor_wf m \<and> n = unat (mon_repair_iteration m)"
proof (induction rule: monitor_life.induct)
  case (created fresh task repository number head base now budget m)
  moreover from created have "mon_repair_iteration m = 0"
    by (auto simp: monitor_new_def and_then_eq_Inr split: if_splits)
  ultimately show ?case using monitor_new_wf by auto
next
  case (observing m n rf ob now m' out)
  then show ?case using monitor_observe_wf monitor_observe_counts by auto
next
  case (waking m n now changed m')
  then show ?case using monitor_wake_wf [of m now] monitor_wake_counts(1) by auto
next
  case (cancelling m n now changed m')
  then show ?case using monitor_cancel_wf [of m now] monitor_wake_counts(2) by auto
qed

text \<open>C4: The repair budget. However a monitor is observed, woken and cancelled, it is well-formed
  and asks for at most as many repairs as its budget; a monitor that succeeded, blocked or was
  cancelled takes no further observation and stays as it is, and a cancellation always ends it.\<close>

theorem monitor_repairs_bounded:
  assumes "monitor_life m n"
  shows "monitor_wf m \<and> n \<le> unat (mon_repair_budget m) \<and>
    (monitor_terminal (mon_state m) \<longrightarrow> monitor_observe rf ob now m = Inl MonitorTerminal \<and>
       monitor_wake now m = (False, m) \<and> monitor_cancel now m = (False, m)) \<and>
    monitor_terminal (mon_state (snd (monitor_cancel now m)))"
  using monitor_life_inv [OF assms]
  by (auto simp: monitor_wf_def word_le_nat_alt monitor_observe_def monitor_wake_def monitor_cancel_def
      monitor_terminal_def)

theorem monitor_repairs_bounded_witness:
  "\<exists>m. monitor_life m 1 \<and> mon_state m = MonRepairNeeded \<and> 1 \<le> unat (mon_repair_budget m)"
proof -
  obtain m out where o: "monitor_observe (\<lambda>_. []) (sample_observation CIFailure) 5 sample_monitor = Inr (m, out)"
    using sample_observed by blast
  then have r: "mo_state out = MonRepairNeeded" "mon_state m = MonRepairNeeded"
    by (auto simp: monitor_observe_ok monitor_decide_def repair_reason_def monitor_step_defs
        sample_observation_def sample_monitor_def)
  have "monitor_life m 1"
    using monitor_life.observing [OF monitor_life.created [OF sample_monitor_new] o] r by simp
  with r monitor_repairs_bounded [OF this] show ?thesis by blast
qed

end
