(* ===== verification/Tables.thy ===== *)
theory Tables
  imports Prelude "HOL-Library.AList"
begin

text \<open>
  Tables of the event store. A table with a primary key is an association list in row order, its
  rows found by key; the statements of the sources are \<open>INSERT ... ON CONFLICT DO UPDATE\<close>
  (\<open>upsert\<close>), \<open>INSERT OR IGNORE\<close> (\<open>insert_ignore\<close>), \<open>INSERT\<close> (\<open>insert_new\<close>, refused on a conflict)
  and \<open>UPDATE ... WHERE\<close> (\<open>update_where\<close> with the number of rows it changed). Two interfaces are
  stated here: rows under upserts (\<open>keyed_rows\<close>) and a register that grants each key once
  (\<open>claim_register\<close>), which deliveries, preparations, webhooks and conversions all implement.
\<close>

type_synonym ('k, 'v) table = "('k \<times> 'v) list"

definition find_row :: "'k \<Rightarrow> ('k, 'v) table \<Rightarrow> 'v option" where
  "find_row k t = map_of t k"

definition has_row :: "'k \<Rightarrow> ('k, 'v) table \<Rightarrow> bool" where
  "has_row k t \<longleftrightarrow> find_row k t \<noteq> None"

definition upsert :: "'k \<Rightarrow> 'v \<Rightarrow> ('k, 'v) table \<Rightarrow> ('k, 'v) table" where
  "upsert k v t = AList.update k v t"

text \<open>\<open>ON CONFLICT DO UPDATE SET\<close> of some columns only: \<open>f\<close> merges the old row with the new one.\<close>

definition upsert_with :: "'k \<Rightarrow> 'v \<Rightarrow> ('v \<Rightarrow> 'v) \<Rightarrow> ('k, 'v) table \<Rightarrow> ('k, 'v) table" where
  "upsert_with k v f t = (case find_row k t of None \<Rightarrow> upsert k v t | Some old \<Rightarrow> upsert k (f old) t)"

definition insert_ignore :: "'k \<Rightarrow> 'v \<Rightarrow> ('k, 'v) table \<Rightarrow> ('k, 'v) table \<times> bool" where
  "insert_ignore k v t = (if has_row k t then (t, False) else (t @ [(k, v)], True))"

definition matching :: "('k \<Rightarrow> 'v \<Rightarrow> bool) \<Rightarrow> ('k, 'v) table \<Rightarrow> ('k, 'v) table" where
  "matching P t = filter (\<lambda>(k, v). P k v) t"

definition update_where ::
  "('k \<Rightarrow> 'v \<Rightarrow> bool) \<Rightarrow> ('v \<Rightarrow> 'v) \<Rightarrow> ('k, 'v) table \<Rightarrow> ('k, 'v) table \<times> nat" where
  "update_where P f t =
     (map (\<lambda>(k, v). if P k v then (k, f v) else (k, v)) t, length (matching P t))"

definition table_wf :: "('k, 'v) table \<Rightarrow> bool" where
  "table_wf t \<longleftrightarrow> distinct (map fst t)"

section \<open>Rows under updates\<close>

lemma find_row_upsert [simp]: "find_row k' (upsert k v t) = (if k' = k then Some v else find_row k' t)"
  by (simp add: find_row_def upsert_def update_conv')

lemma find_row_upsert_with [simp]:
  "find_row k' (upsert_with k v f t) =
     (if k' = k then Some (case find_row k t of None \<Rightarrow> v | Some old \<Rightarrow> f old) else find_row k' t)"
  by (simp add: upsert_with_def split: option.splits)

lemma find_row_append_new:
  "find_row k' (t @ [(k, v)]) =
     (case find_row k' t of Some w \<Rightarrow> Some w | None \<Rightarrow> if k' = k then Some v else None)"
  by (simp add: find_row_def map_add_def split: option.splits)

lemma find_row_update_where [simp]:
  "find_row k (fst (update_where P f t)) =
     map_option (\<lambda>v. if P k v then f v else v) (find_row k t)"
  by (induction t) (auto simp: update_where_def find_row_def split: if_splits)

lemma update_where_none: "(\<And>k v. (k, v) \<in> set t \<Longrightarrow> \<not> P k v) \<Longrightarrow> fst (update_where P f t) = t"
  by (induction t) (auto simp: update_where_def)

lemma keys_update_where [simp]: "map fst (fst (update_where P f t)) = map fst t"
  by (induction t) (auto simp: update_where_def)

lemma has_row_iff: "has_row k t \<longleftrightarrow> k \<in> fst ` set t"
  by (auto simp: has_row_def find_row_def map_of_eq_None_iff)

lemma has_row_simps [simp]:
  "has_row k' (upsert k v t) \<longleftrightarrow> k' = k \<or> has_row k' t"
  "has_row k' (upsert_with k v f t) \<longleftrightarrow> k' = k \<or> has_row k' t"
  "has_row k' (t @ [(k, v)]) \<longleftrightarrow> k' = k \<or> has_row k' t"
  "has_row k' (fst (update_where P f t)) \<longleftrightarrow> has_row k' t"
  by (auto simp: has_row_def find_row_append_new split: option.splits)

lemma find_row_has [simp]: "find_row k t = Some v \<Longrightarrow> has_row k t"
  by (simp add: has_row_def)

lemma find_row_in: "find_row k t = Some v \<Longrightarrow> (k, v) \<in> set t"
  by (simp add: find_row_def map_of_SomeD)

lemma in_find_row: "table_wf t \<Longrightarrow> (k, v) \<in> set t \<Longrightarrow> find_row k t = Some v"
  by (simp add: table_wf_def find_row_def)

lemma matching_key:
  assumes "table_wf t"
  shows "length (matching (\<lambda>k v. k = k0 \<and> P v) t) =
    (case find_row k0 t of Some v \<Rightarrow> if P v then 1 else 0 | None \<Rightarrow> 0)"
  using assms
proof (induction t)
  case Nil
  show ?case by (simp add: matching_def find_row_def)
next
  case (Cons r t)
  have "k0 = fst r \<Longrightarrow> find_row k0 t = None"
    using Cons.prems by (auto simp: table_wf_def find_row_def map_of_eq_None_iff)
  with Cons show ?case
    by (cases r) (auto simp: matching_def find_row_def table_wf_def split: option.splits)
qed

lemma table_wf_simps [simp, intro]:
  "table_wf []"
  "table_wf t \<Longrightarrow> table_wf (upsert k v t)"
  "table_wf t \<Longrightarrow> table_wf (upsert_with k v f t)"
  "table_wf t \<Longrightarrow> \<not> has_row k t \<Longrightarrow> table_wf (t @ [(k, v)])"
  "table_wf t \<Longrightarrow> table_wf (fst (insert_ignore k v t))"
  "table_wf t \<Longrightarrow> table_wf (fst (update_where P f t))"
  by (auto simp: table_wf_def upsert_def upsert_with_def distinct_update insert_ignore_def
      has_row_iff split: option.splits)

section \<open>The interface of upserted rows\<close>

text \<open>A request \<open>x\<close> stores \<open>val x\<close> in the row of \<open>key x\<close> and leaves the other rows alone.\<close>

locale keyed_rows =
  fixes find :: "'k \<Rightarrow> 's \<Rightarrow> 'v option" and put :: "'a \<Rightarrow> 's \<Rightarrow> 's"
    and key :: "'a \<Rightarrow> 'k" and val :: "'a \<Rightarrow> 'v"
  assumes find_put: "find k (put x s) = (if k = key x then Some (val x) else find k s)"
begin

lemma find_put_all:
  "find k (fold put xs s) =
     (case List.find (\<lambda>x. key x = k) (rev xs) of Some x \<Rightarrow> Some (val x) | None \<Rightarrow> find k s)"
proof (induction xs rule: rev_induct)
  case Nil
  show ?case by simp
next
  case (snoc x xs)
  then show ?case by (simp add: find_put)
qed

lemma find_put_last: "key x = k \<Longrightarrow> find k (fold put (xs @ [x]) s) = Some (val x)"
  by (simp add: find_put)

lemma find_put_absent: "k \<notin> key ` set xs \<Longrightarrow> find k (fold put xs s) = find k s"
  by (induction xs arbitrary: s) (auto simp: find_put)

lemma find_put_same_key:
  assumes "xs \<noteq> []" "\<And>x. x \<in> set xs \<Longrightarrow> key x = k"
  shows "find k (fold put xs s) = Some (val (last xs))"
  using assms find_put_last [of "last xs" k "butlast xs" s]
  by (metis append_butlast_last_id last_in_set)

end

interpretation rows: keyed_rows find_row "\<lambda>(k, v). upsert k v" fst snd
  by unfold_locales (simp add: split_def)

section \<open>The interface of a register that grants each key once\<close>

primrec claim_all :: "('a \<Rightarrow> 's \<Rightarrow> 's \<times> bool) \<Rightarrow> 'a list \<Rightarrow> 's \<Rightarrow> 's \<times> (('a \<times> bool) list)" where
  "claim_all claim [] s = (s, [])"
| "claim_all claim (a # as) s =
     (let (s', granted) = claim a s; (s'', rest) = claim_all claim as s' in (s'', (a, granted) # rest))"

text \<open>How many requests for a key were granted.\<close>

definition grants :: "('a \<Rightarrow> 'k) \<Rightarrow> 'k \<Rightarrow> ('a \<times> bool) list \<Rightarrow> nat" where
  "grants key k log = length (filter (\<lambda>(a, granted). key a = k \<and> granted) log)"

text \<open>\<open>ok\<close> is the invariant of the register, \<open>taken k\<close> says that \<open>k\<close> is not to be granted again.\<close>

locale claim_register =
  fixes claim :: "'a \<Rightarrow> 's \<Rightarrow> 's \<times> bool" and key :: "'a \<Rightarrow> 'k"
    and taken :: "'k \<Rightarrow> 's \<Rightarrow> bool" and ok :: "'s \<Rightarrow> bool"
  assumes ok_kept: "ok s \<Longrightarrow> claim a s = (s', r) \<Longrightarrow> ok s'"
    and granted_taken: "ok s \<Longrightarrow> claim a s = (s', True) \<Longrightarrow> taken (key a) s'"
    and taken_refused: "ok s \<Longrightarrow> taken (key a) s \<Longrightarrow> claim a s = (s, False)"
    and taken_kept: "ok s \<Longrightarrow> claim a s = (s', r) \<Longrightarrow> taken k s \<Longrightarrow> taken k s'"
begin

lemma taken_no_grants: "ok s \<Longrightarrow> taken k s \<Longrightarrow> grants key k (snd (claim_all claim as s)) = 0"
proof (induction as arbitrary: s)
  case Nil
  show ?case by (simp add: grants_def)
next
  case (Cons a as)
  obtain s' r where c: "claim a s = (s', r)" by (cases "claim a s")
  have "\<not> (key a = k \<and> r)" using c Cons.prems taken_refused [of s a] by auto
  moreover have "grants key k (snd (claim_all claim as s')) = 0"
    using Cons.IH ok_kept [OF Cons.prems(1) c] taken_kept [OF Cons.prems(1) c Cons.prems(2)] by blast
  ultimately show ?case by (simp add: c split_def Let_def grants_def)
qed

lemma at_most_one_grant: "ok s \<Longrightarrow> grants key k (snd (claim_all claim as s)) \<le> 1"
proof (induction as arbitrary: s)
  case Nil
  show ?case by (simp add: grants_def)
next
  case (Cons a as)
  obtain s' r where c: "claim a s = (s', r)" by (cases "claim a s")
  have ok: "ok s'" using ok_kept [OF Cons.prems c] .
  show ?case
  proof (cases "key a = k \<and> r")
    case True
    then have "taken k s'" using c granted_taken [OF Cons.prems, of a s'] by auto
    then have "grants key k (snd (claim_all claim as s')) = 0" by (rule taken_no_grants [OF ok])
    with True show ?thesis by (simp add: c split_def Let_def grants_def)
  next
    case False
    with Cons.IH [OF ok] show ?thesis by (auto simp: c split_def Let_def grants_def)
  qed
qed

lemma second_refused:
  "ok s \<Longrightarrow> claim a s = (s', True) \<Longrightarrow> key b = key a \<Longrightarrow> claim b s' = (s', False)"
  using granted_taken [of s a s'] taken_refused [of s' b] ok_kept [of s a s' True] by simp

end

end
