(* ===== verification/Jobs.thy ===== *)
theory Jobs
  imports Domain
begin

text \<open>
  \<open>crates/patchwright-engine/src/jobs.rs\<close>: durable jobs, their state machine, and the checkpoints
  with bounded metadata that carries no credentials.
\<close>

datatype job_kind = GitHubSync | TaskExecution | GitHubDeliveryJob | MergeJob

datatype job_state =
    JobQueued | JobRunning | JobCancelling | JobCancelled | JobSucceeded | JobFailed | JobInterrupted

definition job_permits :: "job_state \<Rightarrow> job_state \<Rightarrow> bool" where
  "job_permits s next = (case s of
       JobQueued \<Rightarrow> next \<in> set [JobRunning, JobCancelled, JobFailed]
     | JobRunning \<Rightarrow> next \<in> set [JobCancelling, JobSucceeded, JobFailed, JobInterrupted]
     | JobCancelling \<Rightarrow> next \<in> set [JobCancelled, JobSucceeded, JobFailed, JobInterrupted]
     | JobInterrupted \<Rightarrow> next \<in> set [JobQueued, JobCancelled, JobFailed]
     | _ \<Rightarrow> False)"

datatype cancellation_state = NotRequested | Requested | Acknowledged

datatype job_error = InvalidMetadata string | InvalidJobTransition job_state job_state

definition max_summary_bytes :: nat where
  "max_summary_bytes = 256"

definition summary_markers :: "string list" where
  "summary_markers = [''bearer '', ''gho_'', ''ghp_'', ''github_pat_'', ''token='', ''-----begin'']"

definition validate_summary :: "string \<Rightarrow> job_error + string" where
  "validate_summary value =
     (let value = trim value; lowercase = to_ascii_lowercase value;
          credential_shaped = list_ex (\<lambda>marker. contains_sub marker lowercase) summary_markers in
      if value = [] \<or> max_summary_bytes < length value \<or>
         list_ex (\<lambda>c. c = CHR 0x0A \<or> c = CHR 0x0D \<or> c = CHR 0x00) value \<or> credential_shaped
      then Inl (InvalidMetadata ''summary'') else Inr value)"

definition validate_job_metadata :: "string \<Rightarrow> string \<Rightarrow> job_error + string" where
  "validate_job_metadata value field =
     (let value = trim value in
      if value = [] \<or> 64 < length value \<or> any_char is_control value
      then Inl (InvalidMetadata field) else Inr value)"

record job_checkpoint =
  jc_sequence :: u64
  jc_kind :: string
  jc_summary :: string
  jc_recorded_at :: timestamp

definition job_checkpoint_new :: "timestamp \<Rightarrow> u64 \<Rightarrow> string \<Rightarrow> string \<Rightarrow> job_error + job_checkpoint" where
  "job_checkpoint_new now sequence kind summary =
     and_then (validate_job_metadata kind ''checkpoint kind'') (\<lambda>kind.
     and_then (validate_summary summary) (\<lambda>summary.
     Inr \<lparr>jc_sequence = sequence, jc_kind = kind, jc_summary = summary, jc_recorded_at = now\<rparr>))"

record task_checkpoint =
  cp_id :: uuid
  cp_task_id :: uuid
  cp_state :: task_state
  cp_summary :: string
  cp_occurred_at :: timestamp

definition task_checkpoint_new ::
  "uuid \<Rightarrow> timestamp \<Rightarrow> uuid \<Rightarrow> task_state \<Rightarrow> string \<Rightarrow> job_error + task_checkpoint" where
  "task_checkpoint_new fresh now task state summary =
     and_then (validate_summary summary) (\<lambda>summary.
     Inr \<lparr>cp_id = fresh, cp_task_id = task, cp_state = state, cp_summary = summary,
       cp_occurred_at = now\<rparr>)"

record job =
  job_id :: uuid
  job_kind :: job_kind
  job_task_id :: "uuid option"
  job_state :: job_state
  job_cancellation :: cancellation_state
  job_summary :: string
  job_checkpoint :: "job_checkpoint option"
  job_created_at :: timestamp
  job_updated_at :: timestamp
  job_generation :: u64

definition job_new :: "uuid \<Rightarrow> timestamp \<Rightarrow> job_kind \<Rightarrow> uuid option \<Rightarrow> string \<Rightarrow> job_error + job" where
  "job_new fresh now kind task summary =
     and_then (validate_summary summary) (\<lambda>summary.
     Inr \<lparr>job_id = fresh, job_kind = kind, job_task_id = task, job_state = JobQueued,
       job_cancellation = NotRequested, job_summary = summary, job_checkpoint = None,
       job_created_at = now, job_updated_at = now, job_generation = 0\<rparr>)"

section \<open>Lemmas\<close>

definition is_summary :: "string \<Rightarrow> bool" where
  "is_summary v \<longleftrightarrow> v \<noteq> [] \<and> length v \<le> max_summary_bytes \<and>
     CHR 0x0A \<notin> set v \<and> CHR 0x0D \<notin> set v \<and> CHR 0x00 \<notin> set v \<and>
     (\<forall>m\<in>set summary_markers. \<not> contains_sub m (to_ascii_lowercase v))"

lemma validate_summary_ok [valid_simps]:
  "validate_summary v = Inr w \<longleftrightarrow> w = trim v \<and> is_summary (trim v)"
  by (auto simp: validate_summary_def is_summary_def Let_def list_ex_iff)

lemma validate_summary_idem: "validate_summary v = Inr w \<Longrightarrow> validate_summary w = Inr w"
  by (auto simp: valid_simps)

text \<open>Finished jobs: no transition leaves these states.\<close>

definition job_final :: "job_state \<Rightarrow> bool" where
  "job_final s \<longleftrightarrow> s \<in> {JobCancelled, JobSucceeded, JobFailed}"

lemma job_permits_final: "job_permits s next \<Longrightarrow> \<not> job_final s"
  by (cases s) (simp_all add: job_permits_def job_final_def)

lemma job_not_final_permits_failed: "\<not> job_final s \<Longrightarrow> job_permits s JobFailed"
  by (cases s) (simp_all add: job_permits_def job_final_def)

lemma job_permits_irrefl: "\<not> job_permits s s"
  by (cases s) (simp_all add: job_permits_def)

end
