(* ===== verification/Codex_Records.thy ===== *)
theory Codex_Records
  imports Domain Policy Jobs
begin

text \<open>
  The durable records of Codex sessions: the data types of
  \<open>crates/patchwright-engine/src/codex/session.rs\<close>, the runtime approvals of
  \<open>codex/service.rs\<close>, the request identifiers of \<open>codex/protocol.rs\<close> and the verification
  evidence of \<open>verification.rs\<close>, with the metadata validators of the session.
\<close>

datatype request_id = NumberId i64 | StringId string

datatype codex_account_state = SignedIn | SignedOut | AccountUnavailable

datatype codex_session_status =
  SessionStarting | SessionInitialized | SessionReady | StaleThreadNeedsConfirmation | SessionFailed

record codex_session =
  cs_task_id :: uuid
  cs_process_generation :: uuid
  cs_protocol_version :: string
  cs_executable_version :: string
  cs_account_state :: codex_account_state
  cs_thread_id :: "string option"
  cs_last_turn_id :: "string option"
  cs_last_sequence :: u64
  cs_status :: codex_session_status
  cs_updated_at :: timestamp

record codex_event_draft =
  ed_kind :: string
  ed_summary :: string
  ed_thread_id :: "string option"
  ed_turn_id :: "string option"
  ed_item_id :: "string option"
  ed_content :: "string option"

record codex_event =
  ce_task_id :: uuid
  ce_process_generation :: uuid
  ce_sequence :: u64
  ce_kind :: string
  ce_summary :: string
  ce_thread_id :: "string option"
  ce_turn_id :: "string option"
  ce_item_id :: "string option"
  ce_content :: "string option"
  ce_occurred_at :: timestamp

definition status_draft :: "string \<Rightarrow> string \<Rightarrow> codex_event_draft" where
  "status_draft kind summary = \<lparr>ed_kind = kind, ed_summary = summary, ed_thread_id = None,
     ed_turn_id = None, ed_item_id = None, ed_content = None\<rparr>"

datatype thread_bootstrap = StartThread string | ResumeThread string

text \<open>\<open>codex/session.rs\<close>: \<open>validate_metadata\<close> and \<open>validate_bootstrap\<close>; the error names the field.\<close>

definition session_metadata :: "string \<Rightarrow> string \<Rightarrow> nat \<Rightarrow> string + unit" where
  "session_metadata v field maximum =
     (if trim v = [] \<or> maximum < length v \<or> CHR 0x00 \<in> set v then Inl field else Inr ())"

definition validate_bootstrap :: "thread_bootstrap \<Rightarrow> string + unit" where
  "validate_bootstrap b = (case b of
       StartThread instructions \<Rightarrow> session_metadata instructions ''task instructions'' (64 * 1024)
     | ResumeThread thread \<Rightarrow> session_metadata thread ''thread id'' 256)"

datatype codex_approval_kind = CommandApproval | FileChangeApproval

datatype codex_approval_state =
  RuntimePending | RuntimeApproved | RuntimeDeclined | RuntimeExpired | RuntimeInvalidated

record codex_runtime_approval =
  ra_id :: uuid
  ra_task_id :: uuid
  ra_class :: approval_class
  ra_request_id :: request_id
  ra_process_generation :: uuid
  ra_thread_id :: string
  ra_turn_id :: string
  ra_item_id :: string
  ra_kind :: codex_approval_kind
  ra_reason :: "string option"
  ra_command :: "string option"
  ra_cwd :: "string option"
  ra_grant_root :: "string option"
  ra_state :: codex_approval_state
  ra_created_at :: timestamp
  ra_expires_at :: timestamp
  ra_decided_at :: "timestamp option"

record verification_evidence =
  ve_run_id :: uuid
  ve_task_id :: uuid
  ve_ordinal :: u32
  ve_command_sha256 :: string
  ve_program :: string
  ve_success :: bool
  ve_exit_code :: "32 word option"
  ve_stdout_sha256 :: string
  ve_stdout_bytes :: u64
  ve_stderr_sha256 :: string
  ve_stderr_bytes :: u64
  ve_failure_kind :: "string option"
  ve_started_at :: timestamp
  ve_completed_at :: timestamp

text \<open>Validators of the event store for Codex events (\<open>store.rs\<close>).\<close>

definition validate_codex_event_kind :: "string \<Rightarrow> string + string" where
  "validate_codex_event_kind v = (let v = trim v in
     if v \<noteq> [] \<and> length v \<le> 64 \<and> \<not> any_char is_control v then Inr v
     else Inl ''invalid Codex event kind'')"

definition validate_codex_identity :: "string \<Rightarrow> string \<Rightarrow> string + unit" where
  "validate_codex_identity v field =
     (if v \<noteq> [] \<and> length v \<le> 256 \<and> \<not> any_char is_control v then Inr ()
      else Inl (''invalid Codex '' @ field))"

definition validate_codex_event_content :: "string \<Rightarrow> string + string" where
  "validate_codex_event_content v =
     (if length v \<le> 64 * 1024 \<and> CHR 0x00 \<notin> set v then Inr v
      else Inl ''invalid Codex event content'')"

lemma validate_codex_event_kind_ok [valid_simps]:
  "validate_codex_event_kind v = Inr w \<longleftrightarrow>
     w = trim v \<and> w \<noteq> [] \<and> length w \<le> 64 \<and> \<not> any_char is_control w"
  by (auto simp: validate_codex_event_kind_def Let_def)

lemma validate_codex_identity_ok [valid_simps]:
  "validate_codex_identity v f = Inr u \<longleftrightarrow> v \<noteq> [] \<and> length v \<le> 256 \<and> \<not> any_char is_control v"
  by (simp add: validate_codex_identity_def)

lemma validate_codex_event_content_ok [valid_simps]:
  "validate_codex_event_content v = Inr w \<longleftrightarrow> w = v \<and> length v \<le> 64 * 1024 \<and> CHR 0x00 \<notin> set v"
  by (auto simp: validate_codex_event_content_def)

end
