(* ===== verification/Store.thy ===== *)
theory Store
  imports Tables Domain Policy Contract Jobs Codex_Records GitHub_Model Queue Monitoring_Record
begin

text \<open>
  \<open>crates/patchwright-engine/src/store.rs\<close>: the event store. The SQLite database is the record
  \<open>store\<close>, one field for each table of \<open>MIGRATIONS\<close>; a payload column holds the value it encodes, as
  the JSON of a derived \<open>Serialize\<close> decodes to the value it came from (contracts, whose
  \<open>Deserialize\<close> checks them, are held as JSON values and decoded when read). Times are compared
  as instants: the text of \<open>to_rfc3339\<close> in UTC orders as they do. Each operation is one transaction,
  so an error leaves the store as it was: an operation that can fail returns
  \<open>store_error + store\<close>. Input and output errors of SQLite are not modelled. This theory holds the
  state and the operations on tasks, evidence, bindings, contracts and approvals; the theories
  \<open>Store_Claims\<close>, \<open>Store_Jobs\<close>, \<open>Store_Codex\<close> and \<open>Store_GitHub\<close> hold the others.
\<close>

datatype store_error =
    StoreMessage string
  | ConstraintViolation
  | IntegerOutOfRange
  | RowMissing
  | StoredValue decode_error
  | StoredMetadata job_error

section \<open>The tables\<close>

record task_event =
  te_task_id :: uuid
  te_summary :: string
  te_payload :: task
  te_occurred_at :: timestamp

record binding_row =
  bw_full_name :: string
  bw_payload :: repository_binding
  bw_updated_at :: timestamp

record contract_row =
  cw_binding_id :: uuid
  cw_version :: u32
  cw_payload :: contract_json
  cw_updated_at :: timestamp

record approval_row =
  aw_task_id :: uuid
  aw_capability :: capability
  aw_action_digest :: string
  aw_payload :: approval
  aw_expires_at :: timestamp
  aw_invalidated_at :: "timestamp option"

record preparation_claim =
  pc_task_id :: uuid
  pc_action_digest :: string
  pc_claimed_at :: timestamp
  pc_result :: "string option"
  pc_completed_at :: "timestamp option"

record delivery_row =
  dl_result :: "string option"
  dl_claimed_at :: timestamp
  dl_completed_at :: "timestamp option"
  dl_task_id :: "uuid option"

record job_event =
  je_job_id :: uuid
  je_state :: job_state
  je_summary :: string
  je_checkpoint :: "job_checkpoint option"
  je_occurred_at :: timestamp

record monitor_row =
  mw_task_id :: uuid
  mw_repository_full_name :: string
  mw_pull_request_number :: u64
  mw_state :: monitor_state
  mw_next_attempt_at :: "timestamp option"
  mw_payload :: monitor_record
  mw_updated_at :: timestamp

record webhook_row =
  ww_event :: string
  ww_action :: string
  ww_repository_full_name :: "string option"
  ww_entity_number :: "u64 option"
  ww_payload_sha256 :: string
  ww_received_at :: string
  ww_ingested_at :: timestamp

record runtime_row =
  rw_task_id :: uuid
  rw_process_generation :: uuid
  rw_request_id :: request_id
  rw_payload :: codex_runtime_approval

record snapshot_row =
  sw_repository :: github_repository
  sw_snapshot :: github_repository_snapshot
  sw_synced_at :: timestamp

record store =
  st_tasks :: "(uuid, task) table"
  st_task_events :: "task_event list"
  st_checkpoints :: "(uuid, task_checkpoint) table"
  st_evidence :: "(uuid \<times> uuid \<times> u32, verification_evidence) table"
  st_bindings :: "(uuid, binding_row) table"
  st_contracts :: "(uuid, contract_row) table"
  st_approvals :: "(uuid, approval_row) table"
  st_preparations :: "(uuid, preparation_claim) table"
  st_deliveries :: "(string, delivery_row) table"
  st_task_sources :: "(string, uuid) table"
  st_jobs :: "(uuid, job) table"
  st_job_events :: "job_event list"
  st_codex_sessions :: "(uuid, codex_session) table"
  st_codex_events :: "(uuid \<times> u64, codex_event) table"
  st_runtime_approvals :: "(uuid, runtime_row) table"
  st_account :: "github_account option"
  st_snapshots :: "(string, snapshot_row) table"
  st_queue :: "(string \<times> u64, nat \<times> queue_decision) table"
  st_monitors :: "(uuid, monitor_row) table"
  st_webhooks :: "(string, webhook_row) table"

definition empty_store :: store where
  "empty_store = \<lparr>st_tasks = [], st_task_events = [], st_checkpoints = [], st_evidence = [],
     st_bindings = [], st_contracts = [], st_approvals = [], st_preparations = [],
     st_deliveries = [], st_task_sources = [], st_jobs = [], st_job_events = [],
     st_codex_sessions = [], st_codex_events = [], st_runtime_approvals = [], st_account = None,
     st_snapshots = [], st_queue = [], st_monitors = [], st_webhooks = []\<rparr>"

text \<open>An unsigned value as an SQLite integer: refused from \<open>2 ^ 63\<close> on.\<close>

definition sql_u64 :: "u64 \<Rightarrow> store_error + u64" where
  "sql_u64 v = (if unat v < 2 ^ 63 then Inr v else Inl IntegerOutOfRange)"

definition ensure_msg :: "bool \<Rightarrow> string \<Rightarrow> store_error + unit" where
  "ensure_msg b msg = ensure b (StoreMessage msg)"

text \<open>A plain \<open>INSERT\<close>: a row with the key violates the primary key.\<close>

definition insert_new :: "'k \<Rightarrow> 'v \<Rightarrow> ('k, 'v) table \<Rightarrow> store_error + ('k, 'v) table" where
  "insert_new k v t = (if has_row k t then Inl ConstraintViolation else Inr (t @ [(k, v)]))"

section \<open>Tasks, their events and checkpoints\<close>

text \<open>The two statements that nearly every transaction about a task runs.\<close>

definition record_task :: "task \<Rightarrow> string \<Rightarrow> store \<Rightarrow> store" where
  "record_task t summary s = s\<lparr>st_tasks := upsert (task_id t) t (st_tasks s),
     st_task_events := st_task_events s @ [\<lparr>te_task_id = task_id t, te_summary = summary,
       te_payload = t, te_occurred_at = task_updated_at t\<rparr>]\<rparr>"

definition save_task :: "task \<Rightarrow> string \<Rightarrow> store \<Rightarrow> store" where
  "save_task t summary s = record_task t summary s"

definition save_task_events :: "(task \<times> string) list \<Rightarrow> store \<Rightarrow> store" where
  "save_task_events events s = fold (\<lambda>(t, summary). record_task t summary) events s"

definition insert_checkpoint :: "task_checkpoint \<Rightarrow> store \<Rightarrow> store_error + store" where
  "insert_checkpoint c s = and_then (insert_new (cp_id c) c (st_checkpoints s))
     (\<lambda>rows. Inr (s\<lparr>st_checkpoints := rows\<rparr>))"

definition save_task_with_checkpoint ::
  "task \<Rightarrow> string \<Rightarrow> task_checkpoint \<Rightarrow> store \<Rightarrow> store_error + store" where
  "save_task_with_checkpoint t summary c s =
     and_then (ensure_msg (task_id t = cp_task_id c) ''checkpoint task does not match'') (\<lambda>_.
     and_then (ensure_msg (task_state t = cp_state c) ''checkpoint state does not match'') (\<lambda>_.
     and_then (map_err StoredMetadata (validate_summary (cp_summary c))) (\<lambda>_.
     insert_checkpoint c (record_task t summary s))))"

definition load_task :: "uuid \<Rightarrow> store \<Rightarrow> task option" where
  "load_task i s = find_row i (st_tasks s)"

definition tasks :: "store \<Rightarrow> task list" where
  "tasks s = sort_by (\<lambda>a b. then_with (reverse (cmp (task_updated_at a) (task_updated_at b)))
     (cmp (task_id a) (task_id b))) (map snd (st_tasks s))"

definition timeline :: "uuid \<Rightarrow> store \<Rightarrow> task list" where
  "timeline i s = map te_payload (filter (\<lambda>e. te_task_id e = i) (st_task_events s))"

definition task_checkpoints :: "uuid \<Rightarrow> store \<Rightarrow> task_checkpoint list" where
  "task_checkpoints i s = sort_by (\<lambda>a b. then_with (cmp (cp_occurred_at a) (cp_occurred_at b))
     (cmp (cp_id a) (cp_id b))) (filter (\<lambda>c. cp_task_id c = i) (map snd (st_checkpoints s)))"

definition save_verification_evidence :: "verification_evidence \<Rightarrow> store \<Rightarrow> store_error + store" where
  "save_verification_evidence e s =
     and_then (insert_new (ve_task_id e, ve_run_id e, ve_ordinal e) e (st_evidence s))
       (\<lambda>rows. Inr (s\<lparr>st_evidence := rows\<rparr>))"

definition verification_evidence :: "uuid \<Rightarrow> store \<Rightarrow> verification_evidence list" where
  "verification_evidence i s = sort_by
     (\<lambda>a b. then_with (cmp (ve_completed_at a) (ve_completed_at b))
       (then_with (cmp (ve_run_id a) (ve_run_id b)) (cmp (ve_ordinal a) (ve_ordinal b))))
     (filter (\<lambda>e. ve_task_id e = i) (map snd (st_evidence s)))"

section \<open>Bindings and contracts\<close>

text \<open>The column \<open>full_name\<close> is unique too.\<close>

definition save_repository_binding :: "timestamp \<Rightarrow> repository_binding \<Rightarrow> store \<Rightarrow> store_error + store" where
  "save_repository_binding now b s =
     (if list_ex (\<lambda>(i, r). i \<noteq> rb_id b \<and> bw_full_name r = rb_full_name b) (st_bindings s)
      then Inl ConstraintViolation
      else Inr (s\<lparr>st_bindings := upsert (rb_id b) \<lparr>bw_full_name = rb_full_name b, bw_payload = b,
        bw_updated_at = now\<rparr> (st_bindings s)\<rparr>))"

definition repository_binding :: "uuid \<Rightarrow> store \<Rightarrow> repository_binding option" where
  "repository_binding i s = map_option bw_payload (find_row i (st_bindings s))"

definition repository_binding_by_full_name :: "string \<Rightarrow> store \<Rightarrow> repository_binding option" where
  "repository_binding_by_full_name name s =
     map_option (bw_payload \<circ> snd) (List.find (\<lambda>(i, r). bw_full_name r = name) (st_bindings s))"

definition save_task_contract :: "timestamp \<Rightarrow> task_contract \<Rightarrow> store \<Rightarrow> store" where
  "save_task_contract now c s = s\<lparr>st_contracts := upsert (tc_task_id c)
     \<lparr>cw_binding_id = tc_repository_binding_id c, cw_version = tc_version c,
      cw_payload = CurrentShape c, cw_updated_at = now\<rparr> (st_contracts s)\<rparr>"

definition load_task_contract :: "uuid \<Rightarrow> store \<Rightarrow> store_error + task_contract option" where
  "load_task_contract i s = transpose_map (\<lambda>r. map_err StoredValue (json_as_contract (cw_payload r)))
     (find_row i (st_contracts s))"

definition load_task_contract_snapshot :: "uuid \<Rightarrow> store \<Rightarrow> store_error + task_contract_snapshot option" where
  "load_task_contract_snapshot i s =
     transpose_map (\<lambda>r. map_err StoredValue (decode_task_contract_snapshot (cw_payload r)))
       (find_row i (st_contracts s))"

section \<open>Approvals\<close>

text \<open>
  Saving an approval again keeps the task, the capability and the invalidation of its row. The
  digest of a fingerprint is an argument (\<open>digest_sha256\<close> with the encoders of the code).
\<close>

definition save_approval :: "(action_fingerprint \<Rightarrow> string) \<Rightarrow> approval \<Rightarrow> store \<Rightarrow> store" where
  "save_approval digest a s = s\<lparr>st_approvals := upsert_with (ap_id a)
     \<lparr>aw_task_id = fp_task_id (ap_fingerprint a), aw_capability = ap_capability a,
      aw_action_digest = digest (ap_fingerprint a), aw_payload = a,
      aw_expires_at = ap_expires_at a, aw_invalidated_at = None\<rparr>
     (\<lambda>old. old\<lparr>aw_payload := a, aw_action_digest := digest (ap_fingerprint a),
        aw_expires_at := ap_expires_at a\<rparr>)
     (st_approvals s)\<rparr>"

definition load_approval :: "uuid \<Rightarrow> store \<Rightarrow> approval option" where
  "load_approval i s = (case find_row i (st_approvals s) of
       Some r \<Rightarrow> if aw_invalidated_at r = None then Some (aw_payload r) else None
     | None \<Rightarrow> None)"

definition invalidate_task_approvals :: "timestamp \<Rightarrow> uuid \<Rightarrow> store \<Rightarrow> store \<times> nat" where
  "invalidate_task_approvals now i s =
     (let (rows, n) = update_where (\<lambda>_ r. aw_task_id r = i \<and> aw_invalidated_at r = None)
        (\<lambda>r. r\<lparr>aw_invalidated_at := Some now\<rparr>) (st_approvals s)
      in (s\<lparr>st_approvals := rows\<rparr>, n))"

definition approval_action_digest :: "uuid \<Rightarrow> store \<Rightarrow> string option" where
  "approval_action_digest i s = map_option aw_action_digest (find_row i (st_approvals s))"

section \<open>Lemmas\<close>

lemma insert_new_ok [result_simps]:
  "insert_new k v t = Inr t' \<longleftrightarrow> \<not> has_row k t \<and> t' = t @ [(k, v)]"
  by (auto simp: insert_new_def)

lemma ensure_msg_ok [result_simps]: "ensure_msg b m = Inr u \<longleftrightarrow> b"
  by (simp add: ensure_msg_def result_simps)

lemma sql_u64_ok [result_simps]: "sql_u64 v = Inr w \<longleftrightarrow> w = v \<and> unat v < 2 ^ 63"
  by (auto simp: sql_u64_def)

text \<open>What \<open>record_task\<close> does to each table.\<close>

lemma record_task_tasks [simp]: "st_tasks (record_task t m s) = upsert (task_id t) t (st_tasks s)"
  by (simp add: record_task_def)

lemma record_task_events [simp]:
  "st_task_events (record_task t m s) = st_task_events s @ [\<lparr>te_task_id = task_id t,
     te_summary = m, te_payload = t, te_occurred_at = task_updated_at t\<rparr>]"
  by (simp add: record_task_def)

lemma record_task_frame [simp, frame_simps]:
  "st_checkpoints (record_task t m s) = st_checkpoints s"
  "st_evidence (record_task t m s) = st_evidence s"
  "st_bindings (record_task t m s) = st_bindings s"
  "st_contracts (record_task t m s) = st_contracts s"
  "st_approvals (record_task t m s) = st_approvals s"
  "st_preparations (record_task t m s) = st_preparations s"
  "st_deliveries (record_task t m s) = st_deliveries s"
  "st_task_sources (record_task t m s) = st_task_sources s"
  "st_jobs (record_task t m s) = st_jobs s"
  "st_job_events (record_task t m s) = st_job_events s"
  "st_codex_sessions (record_task t m s) = st_codex_sessions s"
  "st_codex_events (record_task t m s) = st_codex_events s"
  "st_runtime_approvals (record_task t m s) = st_runtime_approvals s"
  "st_monitors (record_task t m s) = st_monitors s"
  "st_webhooks (record_task t m s) = st_webhooks s"
  by (simp_all add: record_task_def)

interpretation task_rows: keyed_rows load_task "\<lambda>(t, m). record_task t m" "\<lambda>(t, m). task_id t" fst
  by unfold_locales (simp add: load_task_def split_def)

lemma save_task_events_fold: "save_task_events events s = fold (\<lambda>(t, m). record_task t m) events s"
  by (simp add: save_task_events_def)

lemma load_task_record [simp]:
  "load_task i (record_task t m s) = (if i = task_id t then Some t else load_task i s)"
  by (simp add: load_task_def)

lemma save_task_events_simps [simp]:
  "save_task_events [] s = s"
  "save_task_events ((t, m) # es) s = save_task_events es (record_task t m s)"
  by (simp_all add: save_task_events_def)

lemma save_task_events_frame [simp, frame_simps]:
  "st_approvals (save_task_events es s) = st_approvals s"
  "st_preparations (save_task_events es s) = st_preparations s"
  "st_deliveries (save_task_events es s) = st_deliveries s"
  "st_bindings (save_task_events es s) = st_bindings s"
  "st_contracts (save_task_events es s) = st_contracts s"
  "st_monitors (save_task_events es s) = st_monitors s"
  "st_jobs (save_task_events es s) = st_jobs s"
  by (induction es arbitrary: s) auto

text \<open>The event log only grows, and holds the saved events in their order.\<close>

lemma save_task_events_log:
  "st_task_events (save_task_events es s) = st_task_events s @
     map (\<lambda>(t, m). \<lparr>te_task_id = task_id t, te_summary = m, te_payload = t,
       te_occurred_at = task_updated_at t\<rparr>) es"
  by (induction es arbitrary: s) auto

lemma load_task_events:
  assumes "es \<noteq> []" "\<And>t m. (t, m) \<in> set es \<Longrightarrow> task_id t = i"
  shows "load_task i (save_task_events es s) = Some (fst (last es))"
  unfolding save_task_events_def using assms
  by (intro task_rows.find_put_same_key) auto

text \<open>
  The latest event of a task and the task's row agree: the row is what the log replays to.
\<close>

definition replay :: "uuid \<Rightarrow> task_event list \<Rightarrow> task option" where
  "replay i es = (case filter (\<lambda>e. te_task_id e = i) es of [] \<Rightarrow> None | x # xs \<Rightarrow> Some (te_payload (last (x # xs))))"

definition log_wf :: "store \<Rightarrow> bool" where
  "log_wf s \<longleftrightarrow> (\<forall>i. load_task i s = replay i (st_task_events s))"

lemma replay_append:
  "replay i (es @ [e]) = (if te_task_id e = i then Some (te_payload e) else replay i es)"
  by (cases "filter (\<lambda>e. te_task_id e = i) es") (simp_all add: replay_def)

lemma log_wf_record [simp]: "log_wf s \<Longrightarrow> log_wf (record_task t m s)"
  by (simp add: log_wf_def replay_append)

lemma log_wf_save_task_events [simp]: "log_wf s \<Longrightarrow> log_wf (save_task_events es s)"
  by (induction es arbitrary: s) auto

lemma log_wf_empty [simp]: "log_wf empty_store"
  by (simp add: log_wf_def replay_def load_task_def find_row_def empty_store_def)

lemma log_wf_cong: "st_tasks s' = st_tasks s \<Longrightarrow> st_task_events s' = st_task_events s \<Longrightarrow> log_wf s' = log_wf s"
  by (simp add: log_wf_def load_task_def)

lemma insert_checkpoint_ok [result_simps]:
  "insert_checkpoint c s = Inr s' \<longleftrightarrow> \<not> has_row (cp_id c) (st_checkpoints s) \<and>
     s' = s\<lparr>st_checkpoints := st_checkpoints s @ [(cp_id c, c)]\<rparr>"
  by (auto simp: insert_checkpoint_def result_simps)

lemma load_task_frame [simp]:
  "load_task i (s\<lparr>st_checkpoints := x1\<rparr>) = load_task i s"
  "load_task i (s\<lparr>st_approvals := x2\<rparr>) = load_task i s"
  "load_task i (s\<lparr>st_deliveries := x3\<rparr>) = load_task i s"
  "load_task i (s\<lparr>st_task_sources := x4\<rparr>) = load_task i s"
  "load_task i (s\<lparr>st_monitors := x5\<rparr>) = load_task i s"
  by (simp_all add: load_task_def)

lemma log_wf_frame [simp]:
  "log_wf (s\<lparr>st_checkpoints := x1\<rparr>) = log_wf s"
  "log_wf (s\<lparr>st_approvals := x2\<rparr>) = log_wf s"
  "log_wf (s\<lparr>st_deliveries := x3\<rparr>) = log_wf s"
  "log_wf (s\<lparr>st_task_sources := x4\<rparr>) = log_wf s"
  "log_wf (s\<lparr>st_monitors := x5\<rparr>) = log_wf s"
  by (simp_all add: log_wf_def)

lemma save_task_with_checkpoint_ok [result_simps]:
  "save_task_with_checkpoint t m c s = Inr s' \<longleftrightarrow>
     task_id t = cp_task_id c \<and> task_state t = cp_state c \<and> is_summary (trim (cp_summary c)) \<and>
     \<not> has_row (cp_id c) (st_checkpoints s) \<and>
     s' = (record_task t m s)\<lparr>st_checkpoints := st_checkpoints s @ [(cp_id c, c)]\<rparr>"
  by (auto simp: save_task_with_checkpoint_def result_simps valid_simps)

text \<open>An approval that was invalidated stays unavailable, whatever is saved again.\<close>

lemma load_approval_ok [result_simps]:
  "load_approval i s = Some a \<longleftrightarrow>
     (\<exists>r. find_row i (st_approvals s) = Some r \<and> aw_invalidated_at r = None \<and> aw_payload r = a)"
  by (auto simp: load_approval_def split: option.splits)

definition approval_revoked :: "uuid \<Rightarrow> store \<Rightarrow> bool" where
  "approval_revoked i s \<longleftrightarrow>
     (\<exists>r. find_row i (st_approvals s) = Some r \<and> aw_invalidated_at r \<noteq> None)"

lemma approval_revoked_unavailable: "approval_revoked i s \<Longrightarrow> load_approval i s = None"
  by (auto simp: approval_revoked_def load_approval_def)

lemma save_approval_revoked: "approval_revoked i s \<Longrightarrow> approval_revoked i (save_approval d a s)"
  by (auto simp: approval_revoked_def save_approval_def)

lemma invalidate_rows:
  "st_approvals (fst (invalidate_task_approvals now i s)) =
     fst (update_where (\<lambda>_ r. aw_task_id r = i \<and> aw_invalidated_at r = None)
       (\<lambda>r. r\<lparr>aw_invalidated_at := Some now\<rparr>) (st_approvals s))"
  by (simp add: invalidate_task_approvals_def split_def Let_def)

lemma invalidate_task_approvals_spec:
  "load_approval j (fst (invalidate_task_approvals now i s)) =
     (case find_row j (st_approvals s) of
        Some r \<Rightarrow> if aw_task_id r = i then None else load_approval j s
      | None \<Rightarrow> None)"
  by (auto simp: load_approval_def invalidate_rows split: option.splits)

text \<open>The columns of an approval row repeat its payload as long as the id names one approval.\<close>

definition approvals_wf :: "(action_fingerprint \<Rightarrow> string) \<Rightarrow> store \<Rightarrow> bool" where
  "approvals_wf digest s \<longleftrightarrow> (\<forall>i r. find_row i (st_approvals s) = Some r \<longrightarrow>
     ap_id (aw_payload r) = i \<and> aw_task_id r = fp_task_id (ap_fingerprint (aw_payload r)) \<and>
     aw_capability r = ap_capability (aw_payload r) \<and>
     aw_action_digest r = digest (ap_fingerprint (aw_payload r)) \<and>
     aw_expires_at r = ap_expires_at (aw_payload r))"

lemma save_approval_wf:
  assumes "approvals_wf digest s"
    and "\<And>r. find_row (ap_id a) (st_approvals s) = Some r \<Longrightarrow>
      ap_capability (aw_payload r) = ap_capability a \<and>
      fp_task_id (ap_fingerprint (aw_payload r)) = fp_task_id (ap_fingerprint a)"
  shows "approvals_wf digest (save_approval digest a s)"
  using assms by (auto simp: approvals_wf_def save_approval_def split: option.splits)

lemma invalidate_wf: "approvals_wf digest s \<Longrightarrow> approvals_wf digest (fst (invalidate_task_approvals now i s))"
  by (auto simp: approvals_wf_def invalidate_rows)

end
