(* ===== verification/Store_Claims.thy ===== *)
theory Store_Claims
  imports Store
begin

text \<open>
  The claims of \<open>crates/patchwright-engine/src/store.rs\<close> that make an external effect happen at
  most once: the preparation of a worktree for an approval, the delivery of an action under its
  idempotency key, and the conversion of a GitHub item into a task. Each is shown to implement the
  register interface. \<open>json_state\<close> stands for SQLite's \<open>json_extract(result, '$.state')\<close> on a
  column (\<open>None\<close> where the text is not JSON or has no such field), \<open>julianday\<close> for its function of
  that name, and \<open>pick\<close> for the row SQLite returns among rows of equal \<open>claimed_at\<close>, whose order it
  leaves open.
\<close>

section \<open>Preparations\<close>

datatype preparation_claim_outcome =
  PrepClaimed | PrepApprovalUnavailable | PrepAlreadyClaimed | PrepTaskInProgress

definition preparation_approval_ok ::
  "(timestamp \<Rightarrow> int) \<Rightarrow> uuid \<Rightarrow> uuid \<Rightarrow> string \<Rightarrow> timestamp \<Rightarrow> store \<Rightarrow> bool" where
  "preparation_approval_ok julianday aid tid digest now s =
     (case find_row aid (st_approvals s) of None \<Rightarrow> False
      | Some r \<Rightarrow> aw_task_id r = tid \<and> aw_capability r = PrepareWorktree \<and>
          aw_action_digest r = digest \<and> aw_invalidated_at r = None \<and>
          julianday now < julianday (aw_expires_at r))"

text \<open>The partial unique index: one active claim for a task.\<close>

definition preparation_active :: "uuid \<Rightarrow> store \<Rightarrow> bool" where
  "preparation_active tid s =
     list_ex (\<lambda>(_, c). pc_task_id c = tid \<and> pc_completed_at c = None) (st_preparations s)"

definition claim_preparation :: "(timestamp \<Rightarrow> int) \<Rightarrow> uuid \<Rightarrow> uuid \<Rightarrow> string \<Rightarrow> timestamp \<Rightarrow> store \<Rightarrow>
    store \<times> preparation_claim_outcome" where
  "claim_preparation julianday aid tid digest now s =
     (if preparation_approval_ok julianday aid tid digest now s \<and>
         \<not> has_row aid (st_preparations s) \<and> \<not> preparation_active tid s
      then (s\<lparr>st_preparations := st_preparations s @ [(aid, \<lparr>pc_task_id = tid,
             pc_action_digest = digest, pc_claimed_at = now, pc_result = None,
             pc_completed_at = None\<rparr>)]\<rparr>, PrepClaimed)
      else if has_row aid (st_preparations s) then (s, PrepAlreadyClaimed)
      else if \<not> preparation_approval_ok julianday aid tid digest now s then (s, PrepApprovalUnavailable)
      else (s, PrepTaskInProgress))"

definition complete_preparation_claim :: "timestamp \<Rightarrow> uuid \<Rightarrow> string \<Rightarrow> store \<Rightarrow> store_error + store" where
  "complete_preparation_claim now aid result s =
     and_then (ensure_msg (result \<in> set [''succeeded'', ''failed'', ''interrupted''])
       ''invalid preparation result'') (\<lambda>_.
     let (rows, updated) = update_where (\<lambda>k c. k = aid \<and> pc_completed_at c = None)
       (\<lambda>c. c\<lparr>pc_result := Some result, pc_completed_at := Some now\<rparr>) (st_preparations s) in
     and_then (ensure_msg (updated = 1) ''preparation approval is not actively claimed'') (\<lambda>_.
     Inr (s\<lparr>st_preparations := rows\<rparr>)))"

definition recover_interrupted_preparations :: "timestamp \<Rightarrow> store \<Rightarrow> store" where
  "recover_interrupted_preparations now s = s\<lparr>st_preparations :=
     fst (update_where (\<lambda>_ c. pc_completed_at c = None)
       (\<lambda>c. c\<lparr>pc_result := Some ''interrupted'', pc_completed_at := Some now\<rparr>) (st_preparations s))\<rparr>"

section \<open>Deliveries\<close>

text \<open>\<open>datetime('now')\<close> has the resolution of a second.\<close>

definition datetime_now :: "timestamp \<Rightarrow> timestamp" where
  "datetime_now now = seconds (now div seconds 1)"

definition delivery_failed :: "(string \<Rightarrow> string option) \<Rightarrow> delivery_row \<Rightarrow> bool" where
  "delivery_failed json_state r =
     (case dl_result r of None \<Rightarrow> False | Some result \<Rightarrow> json_state result = Some ''failed'')"

definition claim_delivery_with_task_event :: "(string \<Rightarrow> string option) \<Rightarrow> timestamp \<Rightarrow> string \<Rightarrow>
    (task \<times> string) option \<Rightarrow> store \<Rightarrow> store \<times> bool" where
  "claim_delivery_with_task_event json_state now key task_event s =
     (let task = map_option (\<lambda>(t, _). task_id t) task_event;
          (rows, reset) = update_where (\<lambda>k r. k = key \<and> delivery_failed json_state r)
            (\<lambda>r. r\<lparr>dl_claimed_at := datetime_now now, dl_result := None, dl_completed_at := None,
               dl_task_id := (case task of Some i \<Rightarrow> Some i | None \<Rightarrow> dl_task_id r)\<rparr>)
            (st_deliveries s);
          (rows, claimed) = (if reset = 1 then (rows, True)
            else insert_ignore key \<lparr>dl_result = None, dl_claimed_at = datetime_now now,
              dl_completed_at = None, dl_task_id = task\<rparr> rows)
      in if claimed
         then (let s = s\<lparr>st_deliveries := rows\<rparr> in
           (case task_event of Some (t, summary) \<Rightarrow> record_task t summary s | None \<Rightarrow> s, True))
         else (s, False))"

definition claim_delivery ::
  "(string \<Rightarrow> string option) \<Rightarrow> timestamp \<Rightarrow> string \<Rightarrow> store \<Rightarrow> store \<times> bool" where
  "claim_delivery json_state now key s = claim_delivery_with_task_event json_state now key None s"

text \<open>The update of one delivery, refused when the key was never claimed.\<close>

definition set_delivery :: "string \<Rightarrow> string \<Rightarrow> timestamp option \<Rightarrow> store \<Rightarrow> store_error + store" where
  "set_delivery key result completed s =
     (let (rows, updated) = update_where (\<lambda>k _. k = key)
        (\<lambda>r. r\<lparr>dl_result := Some result, dl_completed_at := completed\<rparr>) (st_deliveries s) in
      and_then (ensure_msg (updated = 1) ''delivery key was not claimed'') (\<lambda>_.
      Inr (s\<lparr>st_deliveries := rows\<rparr>)))"

definition complete_delivery :: "timestamp \<Rightarrow> string \<Rightarrow> string \<Rightarrow> store \<Rightarrow> store_error + store" where
  "complete_delivery now key result s = set_delivery key result (Some (datetime_now now)) s"

definition mark_delivery_ambiguous :: "string \<Rightarrow> string \<Rightarrow> store \<Rightarrow> store_error + store" where
  "mark_delivery_ambiguous key result s = set_delivery key result None s"

definition ambiguous_rows ::
  "(string \<Rightarrow> string option) \<Rightarrow> uuid \<Rightarrow> store \<Rightarrow> (string, delivery_row) table" where
  "ambiguous_rows json_state tid s = matching (\<lambda>_ r. dl_task_id r = Some tid \<and>
     dl_completed_at r = None \<and>
     (case dl_result r of None \<Rightarrow> False | Some result \<Rightarrow> json_state result = Some ''ambiguous''))
     (st_deliveries s)"

definition ambiguous_delivery_for_task :: "(string \<Rightarrow> string option) \<Rightarrow> (string list \<Rightarrow> string) \<Rightarrow>
    uuid \<Rightarrow> store \<Rightarrow> string option" where
  "ambiguous_delivery_for_task json_state pick tid s =
     (let found = ambiguous_rows json_state tid s;
          latest = fold max (map (dl_claimed_at \<circ> snd) found) (dl_claimed_at (snd (hd found)))
      in if found = [] then None
         else Some (pick (map fst (filter (\<lambda>(_, r). dl_claimed_at r = latest) found))))"

definition complete_delivery_with_task_events ::
  "timestamp \<Rightarrow> string \<Rightarrow> string \<Rightarrow> (task \<times> string) list \<Rightarrow> store \<Rightarrow> store_error + store" where
  "complete_delivery_with_task_events now key result events s =
     and_then (set_delivery key result (Some (datetime_now now)) s) (\<lambda>s.
     Inr (save_task_events events s))"

definition complete_failed_merge_delivery ::
  "timestamp \<Rightarrow> string \<Rightarrow> string \<Rightarrow> task \<Rightarrow> string \<Rightarrow> store \<Rightarrow> store_error + store" where
  "complete_failed_merge_delivery now key result t summary s =
     and_then (set_delivery key result (Some (datetime_now now)) s) (\<lambda>s.
     Inr (record_task t summary (fst (invalidate_task_approvals now (task_id t) s))))"

definition delivery_result :: "string \<Rightarrow> store \<Rightarrow> string option option" where
  "delivery_result key s = map_option dl_result (find_row key (st_deliveries s))"

definition delivery_claimed :: "string \<Rightarrow> store \<Rightarrow> bool" where
  "delivery_claimed key s = has_row key (st_deliveries s)"

section \<open>Conversions\<close>

definition create_converted_task :: "task \<Rightarrow> string \<Rightarrow> store \<Rightarrow> store_error + store \<times> task \<times> bool" where
  "create_converted_task t source_key s =
     and_then (ensure_msg (source_key \<noteq> []) ''source key is required'') (\<lambda>_.
     case find_row source_key (st_task_sources s) of
       Some existing \<Rightarrow> (case load_task existing s of
           None \<Rightarrow> Inl RowMissing
         | Some persisted \<Rightarrow> Inr (s, persisted, False))
     | None \<Rightarrow>
         if has_row (task_id t) (st_tasks s) \<or>
            list_ex (\<lambda>(_, i). i = task_id t) (st_task_sources s)
         then Inl ConstraintViolation
         else Inr ((record_task t ''task created from GitHub snapshot'' s)\<lparr>st_task_sources :=
           st_task_sources s @ [(source_key, task_id t)]\<rparr>, t, True))"

section \<open>Lemmas\<close>

lemma set_delivery_ok [result_simps]:
  assumes "table_wf (st_deliveries s)"
  shows "set_delivery key result completed s = Inr s' \<longleftrightarrow> has_row key (st_deliveries s) \<and>
     s' = s\<lparr>st_deliveries := fst (update_where (\<lambda>k _. k = key)
       (\<lambda>r. r\<lparr>dl_result := Some result, dl_completed_at := completed\<rparr>) (st_deliveries s))\<rparr>"
proof -
  have "snd (update_where (\<lambda>k _. k = key) f (st_deliveries s)) = 1 \<longleftrightarrow> has_row key (st_deliveries s)"
    for f :: "delivery_row \<Rightarrow> delivery_row"
    using matching_key [OF assms, of key "\<lambda>_. True"]
    by (simp add: update_where_def has_row_def split: option.splits)
  then show ?thesis by (auto simp: set_delivery_def split_def Let_def result_simps)
qed

lemma set_delivery_row:
  assumes "table_wf (st_deliveries s)" "set_delivery key result completed s = Inr s'"
  shows "find_row k (st_deliveries s') = (if k = key
     then map_option (\<lambda>r. r\<lparr>dl_result := Some result, dl_completed_at := completed\<rparr>)
       (find_row k (st_deliveries s))
     else find_row k (st_deliveries s))"
  using assms by (auto simp: set_delivery_ok option.map_ident)

text \<open>The claim of a delivery, by the row its key has.\<close>

lemma failed_reset_count:
  assumes "table_wf (st_deliveries s)"
  shows "snd (update_where (\<lambda>k r. k = key \<and> delivery_failed js r) f (st_deliveries s)) =
    (case find_row key (st_deliveries s) of Some r \<Rightarrow> if delivery_failed js r then 1 else 0 | None \<Rightarrow> 0)"
  using matching_key [OF assms, of key "delivery_failed js"] by (simp add: update_where_def)

definition reclaimable :: "(string \<Rightarrow> string option) \<Rightarrow> string \<Rightarrow> store \<Rightarrow> bool" where
  "reclaimable js key s = (case find_row key (st_deliveries s) of
       None \<Rightarrow> True | Some r \<Rightarrow> delivery_failed js r)"

lemma claim_delivery_granted:
  assumes wf: "table_wf (st_deliveries s)"
  shows "snd (claim_delivery_with_task_event js now key ev s) \<longleftrightarrow> reclaimable js key s"
  using failed_reset_count [OF wf, of key js]
  by (auto simp: claim_delivery_with_task_event_def reclaimable_def split_def Let_def
      insert_ignore_def has_row_def split: option.splits)

lemma claim_delivery_refused:
  assumes "table_wf (st_deliveries s)" "\<not> reclaimable js key s"
  shows "claim_delivery_with_task_event js now key ev s = (s, False)"
  using claim_delivery_granted [OF assms(1), of js now key ev] assms(2)
  by (auto simp: claim_delivery_with_task_event_def split_def Let_def split: if_splits)

definition claimed_row ::
  "timestamp \<Rightarrow> (task \<times> string) option \<Rightarrow> delivery_row option \<Rightarrow> delivery_row" where
  "claimed_row now ev old = \<lparr>dl_result = None, dl_claimed_at = datetime_now now,
     dl_completed_at = None,
     dl_task_id = (case ev of Some (t, _) \<Rightarrow> Some (task_id t)
       | None \<Rightarrow> (case old of None \<Rightarrow> None | Some r \<Rightarrow> dl_task_id r))\<rparr>"

lemma claim_delivery_rows:
  assumes wf: "table_wf (st_deliveries s)" and r: "reclaimable js key s"
  shows "find_row k (st_deliveries (fst (claim_delivery_with_task_event js now key ev s))) =
    (if k = key then Some (claimed_row now ev (find_row key (st_deliveries s)))
     else find_row k (st_deliveries s))"
proof (cases "find_row key (st_deliveries s)")
  case None
  then have "snd (update_where (\<lambda>k r. k = key \<and> delivery_failed js r) f (st_deliveries s)) = 0" for f
    using failed_reset_count [OF wf, of key js f] by simp
  with None show ?thesis
    by (auto simp: claim_delivery_with_task_event_def split_def Let_def insert_ignore_def
        has_row_def find_row_append_new claimed_row_def option.map_ident
        split: option.splits)
next
  case (Some old)
  then have f: "delivery_failed js old" using r by (simp add: reclaimable_def)
  then have "snd (update_where (\<lambda>k r. k = key \<and> delivery_failed js r) g (st_deliveries s)) = 1" for g
    using failed_reset_count [OF wf, of key js g] Some by simp
  with Some f show ?thesis
    by (auto simp: claim_delivery_with_task_event_def split_def Let_def claimed_row_def
        option.map_ident split: option.splits)
qed

lemma claim_delivery_wf:
  "table_wf (st_deliveries s) \<Longrightarrow>
     table_wf (st_deliveries (fst (claim_delivery_with_task_event js now key ev s)))"
  by (auto simp: claim_delivery_with_task_event_def split_def Let_def insert_ignore_def
      split: option.splits)

section \<open>Each register grants a key once\<close>

text \<open>A delivery request: the time, the key and the task event it comes with.\<close>

type_synonym delivery_request = "timestamp \<times> string \<times> (task \<times> string) option"

definition deliver :: "(string \<Rightarrow> string option) \<Rightarrow> delivery_request \<Rightarrow> store \<Rightarrow> store \<times> bool" where
  "deliver js = (\<lambda>(now, key, ev) s. claim_delivery_with_task_event js now key ev s)"

text \<open>A key is taken while its row has no definitive failure: also while it is in flight or ambiguous.\<close>

definition delivery_taken :: "(string \<Rightarrow> string option) \<Rightarrow> string \<Rightarrow> store \<Rightarrow> bool" where
  "delivery_taken js key s \<longleftrightarrow> \<not> reclaimable js key s"

lemma claimed_row_not_failed: "\<not> delivery_failed js (claimed_row now ev old)"
  by (simp add: delivery_failed_def claimed_row_def)

lemma deliver_taken:
  assumes "table_wf (st_deliveries s)" "deliver js a s = (s', r)"
  shows "(r \<longrightarrow> delivery_taken js (fst (snd a)) s') \<and>
    (delivery_taken js k s \<longrightarrow> delivery_taken js k s')"
proof -
  obtain now key ev where a: "a = (now, key, ev)" by (cases a)
  show ?thesis
  proof (cases "reclaimable js key s")
    case True
    have s': "s' = fst (claim_delivery_with_task_event js now key ev s)"
      using assms(2) by (simp add: deliver_def a)
    show ?thesis using claim_delivery_rows [OF assms(1) True, of _ now ev] True
      by (auto simp: delivery_taken_def s' a reclaimable_def claimed_row_not_failed)
  next
    case False
    then have "deliver js a s = (s, False)"
      using claim_delivery_refused [OF assms(1)] by (simp add: deliver_def a)
    with assms(2) show ?thesis by simp
  qed
qed

interpretation delivery_register:
  claim_register "deliver js" "\<lambda>a. fst (snd a)" "delivery_taken js" "\<lambda>s. table_wf (st_deliveries s)" for js
proof unfold_locales
  fix s s' :: store and a r k
  assume wf: "table_wf (st_deliveries s)"
  show "deliver js a s = (s', r) \<Longrightarrow> table_wf (st_deliveries s')"
    using claim_delivery_wf [OF wf] by (auto simp: deliver_def split_def) (metis fst_conv)
  show "deliver js a s = (s', True) \<Longrightarrow> delivery_taken js (fst (snd a)) s'"
    using deliver_taken [OF wf] by blast
  show "delivery_taken js (fst (snd a)) s \<Longrightarrow> deliver js a s = (s, False)"
    using claim_delivery_refused [OF wf] by (simp add: deliver_def delivery_taken_def split_def)
  show "deliver js a s = (s', r) \<Longrightarrow> delivery_taken js k s \<Longrightarrow> delivery_taken js k s'"
    using deliver_taken [OF wf] by blast
qed

text \<open>A preparation request: the approval, the task, the digest and the time.\<close>

definition prepare ::
  "(timestamp \<Rightarrow> int) \<Rightarrow> uuid \<times> uuid \<times> string \<times> timestamp \<Rightarrow> store \<Rightarrow> store \<times> bool" where
  "prepare jd = (\<lambda>(aid, tid, digest, now) s.
     let (s', outcome) = claim_preparation jd aid tid digest now s in (s', outcome = PrepClaimed))"

lemma prepare_eq:
  "prepare jd (aid, tid, digest, now) s =
     (if preparation_approval_ok jd aid tid digest now s \<and>
         \<not> has_row aid (st_preparations s) \<and> \<not> preparation_active tid s
      then (fst (claim_preparation jd aid tid digest now s), True) else (s, False))"
  by (simp add: prepare_def claim_preparation_def Let_def)

interpretation approval_register:
  claim_register "prepare jd" fst "\<lambda>i s. has_row i (st_preparations s)" "\<lambda>s. True" for jd
  by unfold_locales (auto simp: prepare_eq claim_preparation_def split: if_splits)

interpretation preparation_register:
  claim_register "prepare jd" "\<lambda>a. fst (snd a)" preparation_active "\<lambda>s. True" for jd
  by unfold_locales (auto simp: prepare_eq claim_preparation_def preparation_active_def split: if_splits)

text \<open>A conversion request: the new task and the key of its source.\<close>

definition convert :: "task \<times> string \<Rightarrow> store \<Rightarrow> store \<times> bool" where
  "convert = (\<lambda>(t, key) s. case create_converted_task t key s of
       Inl _ \<Rightarrow> (s, False) | Inr (s', _, created) \<Rightarrow> (s', created))"

interpretation source_register:
  claim_register convert snd "\<lambda>k s. has_row k (st_task_sources s)" "\<lambda>s. True"
  by unfold_locales (auto simp: convert_def create_converted_task_def has_row_def
      find_row_append_new and_then_def ensure_msg_def ensure_def split: if_splits option.splits sum.splits)

end
