(* ===== verification/Store_Jobs.thy ===== *)
theory Store_Jobs
  imports Store
begin

text \<open>
  The durable jobs of \<open>crates/patchwright-engine/src/store.rs\<close>: creation, the guarded transition
  (expected state, generation counter, event log) and the recovery of interrupted jobs when the
  store is opened. The relation \<open>jobs_reachable\<close> is every run of these operations; a job's history
  of states is then a path of the state machine of \<open>jobs.rs\<close>, its generation counts the steps, and
  finished jobs stay finished.
\<close>

definition job_event_of :: "uuid \<Rightarrow> job_state \<Rightarrow> string \<Rightarrow> job_checkpoint option \<Rightarrow> timestamp \<Rightarrow> job_event" where
  "job_event_of i state summary checkpoint now = \<lparr>je_job_id = i, je_state = state,
     je_summary = summary, je_checkpoint = checkpoint, je_occurred_at = now\<rparr>"

definition create_job :: "job \<Rightarrow> store \<Rightarrow> store_error + store" where
  "create_job j s =
     and_then (sql_u64 (job_generation j)) (\<lambda>_.
     and_then (insert_new (job_id j) j (st_jobs s)) (\<lambda>rows.
     Inr (s\<lparr>st_jobs := rows, st_job_events := st_job_events s @
       [job_event_of (job_id j) (job_state j) (job_summary j) (job_checkpoint j) (job_created_at j)]\<rparr>)))"

definition transition_job :: "timestamp \<Rightarrow> uuid \<Rightarrow> job_state \<Rightarrow> job_state \<Rightarrow> cancellation_state \<Rightarrow>
    string \<Rightarrow> job_checkpoint option \<Rightarrow> store \<Rightarrow> store_error + store \<times> bool" where
  "transition_job now i expected next cancellation summary checkpoint s =
     (if \<not> job_permits expected next then Inl (StoredMetadata (InvalidJobTransition expected next))
      else and_then (map_err StoredMetadata (validate_summary summary)) (\<lambda>summary.
        case find_row i (st_jobs s) of
          None \<Rightarrow> Inr (s, False)
        | Some current \<Rightarrow>
            if job_state current \<noteq> expected then Inr (s, False)
            else let checkpoint = (case checkpoint of Some c \<Rightarrow> Some c | None \<Rightarrow> job_checkpoint current);
                     generation = job_generation current in
              and_then (sql_u64 (generation + 1)) (\<lambda>_.
              let (rows, updated) = update_where
                (\<lambda>k j. k = i \<and> job_state j = expected \<and> job_generation j = generation)
                (\<lambda>j. j\<lparr>job_state := next, job_cancellation := cancellation, job_summary := summary,
                   job_checkpoint := checkpoint, job_updated_at := now,
                   job_generation := generation + 1\<rparr>) (st_jobs s) in
              if updated \<noteq> 1 then Inr (s, False)
              else Inr (s\<lparr>st_jobs := rows, st_job_events := st_job_events s @
                [job_event_of i next summary checkpoint now]\<rparr>, True))))"

definition load_job :: "uuid \<Rightarrow> store \<Rightarrow> store_error + job option" where
  "load_job i s = transpose_map (\<lambda>j.
     and_then (map_err StoredMetadata (validate_summary (job_summary j))) (\<lambda>summary.
     Inr (j\<lparr>job_id := i, job_summary := summary\<rparr>))) (find_row i (st_jobs s))"

definition job_timeline :: "uuid \<Rightarrow> store \<Rightarrow> string list" where
  "job_timeline i s = map je_summary (filter (\<lambda>e. je_job_id e = i) (st_job_events s))"

text \<open>Recovery of one job, and of all of them in the order of their ids.\<close>

definition recoverable :: "job_state \<Rightarrow> bool" where
  "recoverable s \<longleftrightarrow> s = JobRunning \<or> s = JobCancelling"

definition restart_summary :: string where
  "restart_summary = ''engine restart interrupted job''"

definition recover_job :: "timestamp \<Rightarrow> uuid \<times> u64 \<Rightarrow> store \<Rightarrow> store_error + store" where
  "recover_job now = (\<lambda>(i, generation) s.
     and_then (sql_u64 (generation + 1)) (\<lambda>_.
     let (rows, updated) = update_where
       (\<lambda>k j. k = i \<and> job_generation j = generation \<and> recoverable (job_state j))
       (\<lambda>j. j\<lparr>job_state := JobInterrupted, job_summary := restart_summary, job_updated_at := now,
          job_generation := generation + 1\<rparr>) (st_jobs s) in
     Inr (s\<lparr>st_jobs := rows, st_job_events := st_job_events s @
       (if updated = 1 then (case find_row i rows of
          Some j \<Rightarrow> [job_event_of i JobInterrupted restart_summary (job_checkpoint j) now]
        | None \<Rightarrow> []) else [])\<rparr>)))"

primrec recover_jobs :: "timestamp \<Rightarrow> (uuid \<times> u64) list \<Rightarrow> store \<Rightarrow> store_error + store" where
  "recover_jobs now [] s = Inr s"
| "recover_jobs now (r # rs) s = and_then (recover_job now r s) (recover_jobs now rs)"

definition recoverable_jobs :: "store \<Rightarrow> (uuid \<times> u64) list" where
  "recoverable_jobs s = map (\<lambda>(i, j). (i, job_generation j))
     (sort_key fst (matching (\<lambda>_ j. recoverable (job_state j)) (st_jobs s)))"

definition recover_interrupted_jobs :: "timestamp \<Rightarrow> store \<Rightarrow> store_error + store" where
  "recover_interrupted_jobs now s = recover_jobs now (recoverable_jobs s) s"

section \<open>What a transition does\<close>

lemma job_row_count:
  assumes "table_wf t"
  shows "snd (update_where (\<lambda>k j. k = i \<and> P j) f t) =
    (case find_row i t of Some j \<Rightarrow> if P j then 1 else 0 | None \<Rightarrow> 0)"
  using matching_key [OF assms, of i P] by (simp add: update_where_def)

text \<open>The new row of a job, with its generation counted up.\<close>

definition advanced_job :: "timestamp \<Rightarrow> job_state \<Rightarrow> cancellation_state \<Rightarrow> string \<Rightarrow>
    job_checkpoint option \<Rightarrow> job \<Rightarrow> job" where
  "advanced_job now next cancellation summary checkpoint j = j\<lparr>job_state := next,
     job_cancellation := cancellation, job_summary := summary,
     job_checkpoint := (case checkpoint of Some c \<Rightarrow> Some c | None \<Rightarrow> job_checkpoint j),
     job_updated_at := now, job_generation := job_generation j + 1\<rparr>"

lemma advanced_job_simps [simp]:
  "job_state (advanced_job now n c m k j) = n"
  "job_generation (advanced_job now n c m k j) = job_generation j + 1"
  "job_summary (advanced_job now n c m k j) = m"
  "job_id (advanced_job now n c m k j) = job_id j"
  "job_kind (advanced_job now n c m k j) = job_kind j"
  "job_task_id (advanced_job now n c m k j) = job_task_id j"
  by (simp_all add: advanced_job_def)

lemma transition_job_granted:
  assumes wf: "table_wf (st_jobs s)"
    and t: "transition_job now i expected next c summary checkpoint s = Inr (s', True)"
  obtains j where "find_row i (st_jobs s) = Some j" "job_state j = expected"
    "job_permits expected next" "is_summary (trim summary)" "unat (job_generation j + 1) < 2 ^ 63"
    "find_row k (st_jobs s') =
      (if k = i then Some (advanced_job now next c (trim summary) checkpoint j) else find_row k (st_jobs s))"
    "st_job_events s' = st_job_events s @ [job_event_of i next (trim summary)
      (job_checkpoint (advanced_job now next c (trim summary) checkpoint j)) now]"
    "table_wf (st_jobs s')"
proof -
  from t have p: "job_permits expected next" and m: "is_summary (trim summary)"
    by (auto simp: transition_job_def result_simps valid_simps split: if_splits)
  from t p m obtain j where j: "find_row i (st_jobs s) = Some j" "job_state j = expected"
      "unat (job_generation j + 1) < 2 ^ 63"
    by (auto simp: transition_job_def result_simps valid_simps Let_def split: option.splits if_splits)
  have v: "validate_summary summary = Inr (trim summary)" using m by (simp add: valid_simps)
  have n: "snd (update_where (\<lambda>k j'. k = i \<and> job_state j' = expected \<and> job_generation j' = job_generation j)
      f (st_jobs s)) = 1" for f
    using job_row_count [OF wf, of i "\<lambda>j'. job_state j' = expected \<and> job_generation j' = job_generation j"] j
    by simp
  have s': "s' = s\<lparr>st_jobs := fst (update_where
        (\<lambda>k j'. k = i \<and> job_state j' = expected \<and> job_generation j' = job_generation j)
        (\<lambda>j'. j'\<lparr>job_state := next, job_cancellation := c, job_summary := trim summary,
           job_checkpoint := (case checkpoint of Some c \<Rightarrow> Some c | None \<Rightarrow> job_checkpoint j),
           job_updated_at := now, job_generation := job_generation j + 1\<rparr>) (st_jobs s)),
      st_job_events := st_job_events s @ [job_event_of i next (trim summary)
        (case checkpoint of Some c \<Rightarrow> Some c | None \<Rightarrow> job_checkpoint j) now]\<rparr>"
    using t p j by (simp add: transition_job_def v Let_def split_def n sql_u64_def)
  show ?thesis
    by (rule that [OF j(1,2) p m j(3)])
      (use j in \<open>auto simp: s' advanced_job_def wf option.map_ident\<close>)
qed

lemma transition_job_refused:
  assumes wf: "table_wf (st_jobs s)"
    and t: "transition_job now i expected next c summary checkpoint s = Inr (s', False)"
  shows "s' = s \<and> (\<forall>j. find_row i (st_jobs s) = Some j \<longrightarrow> job_state j \<noteq> expected)"
proof -
  have n: "snd (update_where (\<lambda>k j'. k = i \<and> job_state j' = expected \<and> job_generation j' = job_generation j)
      f (st_jobs s)) = 1" if "find_row i (st_jobs s) = Some j" "job_state j = expected" for f j
    using job_row_count [OF wf, of i "\<lambda>j'. job_state j' = expected \<and> job_generation j' = job_generation j"] that
    by simp
  show ?thesis using t
    by (auto simp: transition_job_def result_simps Let_def split_def n split: option.splits if_splits)
qed

lemma recover_job_wf: "table_wf (st_jobs s) \<Longrightarrow> recover_job now r s = Inr s' \<Longrightarrow> table_wf (st_jobs s')"
  by (auto simp: recover_job_def split_def Let_def result_simps)

text \<open>The row of a job after one recovery step.\<close>

definition recovered :: "timestamp \<Rightarrow> job \<Rightarrow> job" where
  "recovered now j = (if recoverable (job_state j) then j\<lparr>job_state := JobInterrupted,
     job_summary := restart_summary, job_updated_at := now, job_generation := job_generation j + 1\<rparr> else j)"

lemma recover_job_row:
  assumes "recover_job now (i, g) s = Inr s'"
  shows "find_row k (st_jobs s') = map_option
    (\<lambda>j. if k = i \<and> job_generation j = g then recovered now j else j) (find_row k (st_jobs s))"
  using assms by (auto simp: recover_job_def split_def Let_def result_simps recovered_def
      option.map_comp comp_def intro!: option.map_cong)

lemma recovered_not_recoverable [simp]: "\<not> recoverable (job_state (recovered now j))"
  by (simp add: recovered_def recoverable_def)

lemma recovered_idem [simp]: "recovered now (recovered now j) = recovered now j"
  by (simp add: recovered_def recoverable_def)

lemma recover_job_events:
  assumes wf: "table_wf (st_jobs s)" and r: "recover_job now (i, g) s = Inr s'"
  shows "st_job_events s' = st_job_events s @ (case find_row i (st_jobs s) of
      Some j \<Rightarrow> if job_generation j = g \<and> recoverable (job_state j)
        then [job_event_of i JobInterrupted restart_summary (job_checkpoint j) now] else []
    | None \<Rightarrow> [])"
proof -
  have n: "snd (update_where (\<lambda>k j. k = i \<and> job_generation j = g \<and> recoverable (job_state j)) f (st_jobs s))
      = (case find_row i (st_jobs s) of
          Some j \<Rightarrow> if job_generation j = g \<and> recoverable (job_state j) then 1 else 0 | None \<Rightarrow> 0)" for f
    by (rule job_row_count [OF wf])
  from r show ?thesis
    by (auto simp: recover_job_def split_def Let_def result_simps n split: option.splits if_splits)
qed

lemma recover_jobs_wf: "table_wf (st_jobs s) \<Longrightarrow> recover_jobs now rs s = Inr s' \<Longrightarrow> table_wf (st_jobs s')"
  by (induction rs arbitrary: s) (auto simp: result_simps dest: recover_job_wf)

lemma recover_jobs_row:
  "recover_jobs now rs s = Inr s' \<Longrightarrow> distinct (map fst rs) \<Longrightarrow>
     find_row k (st_jobs s') = map_option
       (\<lambda>j. if (k, job_generation j) \<in> set rs then recovered now j else j) (find_row k (st_jobs s))"
proof (induction rs arbitrary: s)
  case Nil
  then show ?case by (simp add: option.map_ident)
next
  case (Cons r rs)
  obtain i g where r: "r = (i, g)" by (cases r)
  from Cons.prems(1) obtain s1 where s1: "recover_job now (i, g) s = Inr s1" "recover_jobs now rs s1 = Inr s'"
    by (auto simp: r result_simps)
  have "(i, x) \<notin> set rs" for x using Cons.prems(2) by (force simp: r)
  then show ?case
    using Cons.IH [OF s1(2)] Cons.prems(2) recover_job_row [OF s1(1), of k]
    by (cases "find_row k (st_jobs s)") (auto simp: r)
qed

lemma recoverable_jobs_fst:
  "map fst (recoverable_jobs s) =
     map fst (sort_key fst (matching (\<lambda>_ j. recoverable (job_state j)) (st_jobs s)))"
  by (simp add: recoverable_jobs_def split_def comp_def)

lemma recoverable_jobs_distinct:
  assumes "table_wf (st_jobs s)"
  shows "distinct (map fst (recoverable_jobs s))"
proof -
  have "mset (map fst (recoverable_jobs s)) =
      mset (map fst (matching (\<lambda>_ j. recoverable (job_state j)) (st_jobs s)))"
    unfolding recoverable_jobs_fst by simp
  moreover have "distinct (map fst (matching (\<lambda>_ j. recoverable (job_state j)) (st_jobs s)))"
    using assms by (simp add: table_wf_def matching_def distinct_map_filter)
  ultimately show ?thesis using mset_eq_imp_distinct_iff by blast
qed

lemma recoverable_jobs_iff:
  assumes "table_wf (st_jobs s)" "find_row k (st_jobs s) = Some j"
  shows "(k, job_generation j) \<in> set (recoverable_jobs s) \<longleftrightarrow> recoverable (job_state j)"
proof -
  have "(k, g) \<in> set (recoverable_jobs s) \<longleftrightarrow>
      (\<exists>j'. (k, j') \<in> set (st_jobs s) \<and> recoverable (job_state j') \<and> g = job_generation j')" for g
    by (force simp: recoverable_jobs_def matching_def)
  moreover have "(k, j') \<in> set (st_jobs s) \<longleftrightarrow> j' = j" for j'
    using in_find_row [OF assms(1), of k j'] find_row_in [OF assms(2)] assms(2) by auto
  ultimately show ?thesis by auto
qed

lemma recover_interrupted_row:
  assumes "table_wf (st_jobs s)" "recover_interrupted_jobs now s = Inr s'"
  shows "find_row k (st_jobs s') = map_option (recovered now) (find_row k (st_jobs s))"
proof -
  have "find_row k (st_jobs s') = map_option
      (\<lambda>j. if (k, job_generation j) \<in> set (recoverable_jobs s) then recovered now j else j)
      (find_row k (st_jobs s))"
    using assms recover_jobs_row recoverable_jobs_distinct
    unfolding recover_interrupted_jobs_def by blast
  then show ?thesis
    using recoverable_jobs_iff [OF assms(1), of k]
    by (cases "find_row k (st_jobs s)") (auto simp: recovered_def)
qed

section \<open>The history of a job\<close>

definition job_history :: "uuid \<Rightarrow> store \<Rightarrow> job_state list" where
  "job_history i s = map je_state (filter (\<lambda>e. je_job_id e = i) (st_job_events s))"

text \<open>
  The event log of a job is a path of the state machine from the queued state to the state of its
  row, as long as the generation says.
\<close>

definition job_log_ok :: "store \<Rightarrow> uuid \<Rightarrow> bool" where
  "job_log_ok s i \<longleftrightarrow> (case find_row i (st_jobs s) of
       None \<Rightarrow> job_history i s = []
     | Some j \<Rightarrow> job_history i s \<noteq> [] \<and> hd (job_history i s) = JobQueued \<and>
         successively job_permits (job_history i s) \<and>
         last (job_history i s) = job_state j \<and>
         length (job_history i s) = Suc (unat (job_generation j)) \<and> unat (job_generation j) < 2 ^ 63)"

definition jobs_inv :: "store \<Rightarrow> bool" where
  "jobs_inv s \<longleftrightarrow> table_wf (st_jobs s) \<and> (\<forall>i. job_log_ok s i)"

text \<open>The runs of the store's job operations, from the empty store.\<close>

inductive jobs_reachable :: "store \<Rightarrow> bool" where
  none: "jobs_reachable empty_store"
| created: "jobs_reachable s \<Longrightarrow> job_new fresh now kind task summary = Inr j \<Longrightarrow>
     create_job j s = Inr s' \<Longrightarrow> jobs_reachable s'"
| moved: "jobs_reachable s \<Longrightarrow>
     transition_job now i expected next c summary checkpoint s = Inr (s', granted) \<Longrightarrow> jobs_reachable s'"
| restarted: "jobs_reachable s \<Longrightarrow> recover_interrupted_jobs now s = Inr s' \<Longrightarrow> jobs_reachable s'"

lemma unat_next_generation:
  "unat (g::u64) < 2 ^ 63 \<Longrightarrow> unat (g + 1) = Suc (unat g)"
  by (simp add: unat_word_ariths)

text \<open>One step of one job: a row with the next generation, and one event.\<close>

lemma job_log_ok_step:
  assumes j: "find_row i (st_jobs s) = Some j" and ok: "job_log_ok s i"
    and j': "find_row i (st_jobs s') = Some j'" "job_generation j' = job_generation j + 1"
    and p: "job_permits (job_state j) (job_state j')" and b: "unat (job_generation j + 1) < 2 ^ 63"
    and h: "job_history i s' = job_history i s @ [job_state j']"
  shows "job_log_ok s' i"
  using ok b p unat_next_generation [of "job_generation j"]
  by (auto simp: job_log_ok_def j j' h successively_append_iff)

lemma job_log_ok_frame:
  "find_row i (st_jobs s') = find_row i (st_jobs s) \<Longrightarrow> job_history i s' = job_history i s \<Longrightarrow>
     job_log_ok s' i = job_log_ok s i"
  by (simp add: job_log_ok_def split: option.splits)

lemma create_job_inv:
  assumes inv: "jobs_inv s" and n: "job_new fresh now kind task summary = Inr j"
    and c: "create_job j s = Inr s'"
  shows "jobs_inv s'"
proof -
  have q: "job_state j = JobQueued" "job_generation j = 0" using n by (auto simp: job_new_def result_simps)
  have r: "\<not> has_row (job_id j) (st_jobs s)" and s': "st_jobs s' = st_jobs s @ [(job_id j, j)]"
    "st_job_events s' = st_job_events s @
      [job_event_of (job_id j) (job_state j) (job_summary j) (job_checkpoint j) (job_created_at j)]"
    using c by (auto simp: create_job_def result_simps)
  have f: "find_row (job_id j) (st_jobs s) = None" using r by (simp add: has_row_def)
  have "job_log_ok s' i" for i
  proof (cases "i = job_id j")
    case True
    have "job_log_ok s (job_id j)" using inv by (simp add: jobs_inv_def)
    then have "job_history i s = []" using f by (simp add: job_log_ok_def True)
    then have "job_history i s' = [JobQueued]" by (simp add: job_history_def s' job_event_of_def True q)
    then show ?thesis using f by (simp add: job_log_ok_def s' find_row_append_new True q)
  next
    case False
    then have "job_log_ok s' i = job_log_ok s i"
      by (intro job_log_ok_frame)
        (simp_all add: s' find_row_append_new job_history_def job_event_of_def split: option.splits)
    then show ?thesis using inv by (simp add: jobs_inv_def)
  qed
  then show ?thesis using inv r by (auto simp: jobs_inv_def s')
qed

lemma transition_job_inv:
  assumes inv: "jobs_inv s"
    and t: "transition_job now i expected next c summary checkpoint s = Inr (s', granted)"
  shows "jobs_inv s'"
proof (cases granted)
  case True
  have wf: "table_wf (st_jobs s)" using inv by (simp add: jobs_inv_def)
  have t': "transition_job now i expected next c summary checkpoint s = Inr (s', True)"
    using t True by simp
  from transition_job_granted [OF wf t'] obtain j where
    j: "find_row i (st_jobs s) = Some j" "job_state j = expected" "job_permits expected next"
      "unat (job_generation j + 1) < 2 ^ 63" by metis
  have rows: "find_row k (st_jobs s') = (if k = i then
      Some (advanced_job now next c (trim summary) checkpoint j) else find_row k (st_jobs s))"
    and ev: "st_job_events s' = st_job_events s @ [job_event_of i next (trim summary)
      (job_checkpoint (advanced_job now next c (trim summary) checkpoint j)) now]"
    and wf': "table_wf (st_jobs s')" for k
    using transition_job_granted [OF wf t'] j(1) by (metis option.inject)+
  have "job_log_ok s' k" for k
  proof (cases "k = i")
    case True
    show ?thesis unfolding True
      by (rule job_log_ok_step [OF j(1), of _ "advanced_job now next c (trim summary) checkpoint j"])
        (use inv j in \<open>simp_all add: rows ev jobs_inv_def job_history_def job_event_of_def\<close>)
  next
    case False
    then have "job_log_ok s' k = job_log_ok s k"
      by (intro job_log_ok_frame) (simp_all add: rows ev job_history_def job_event_of_def)
    then show ?thesis using inv by (simp add: jobs_inv_def)
  qed
  then show ?thesis using wf' by (simp add: jobs_inv_def)
next
  case False
  have wf: "table_wf (st_jobs s)" using inv by (simp add: jobs_inv_def)
  have "s' = s" using transition_job_refused [OF wf, of now i expected "next" c summary checkpoint s']
      t False by simp
  then show ?thesis using inv by simp
qed

lemma recover_job_inv:
  assumes inv: "jobs_inv s" and r: "recover_job now (i, g) s = Inr s'"
  shows "jobs_inv s'"
proof -
  have wf: "table_wf (st_jobs s)" using inv by (simp add: jobs_inv_def)
  have b: "unat (g + 1) < 2 ^ 63" using r by (auto simp: recover_job_def result_simps)
  note rows = recover_job_row [OF r] and ev = recover_job_events [OF wf r]
  have "job_log_ok s' k" for k
  proof (cases "\<exists>j. k = i \<and> find_row i (st_jobs s) = Some j \<and> job_generation j = g \<and>
      recoverable (job_state j)")
    case True
    then obtain j where j: "k = i" "find_row i (st_jobs s) = Some j" "job_generation j = g"
      "recoverable (job_state j)" by blast
    have p: "job_permits (job_state j) JobInterrupted"
      using j(4) by (auto simp: recoverable_def job_permits_def)
    show ?thesis unfolding j(1)
      by (rule job_log_ok_step [OF j(2), of _ "recovered now j"])
        (use inv j b p in \<open>simp_all add: rows ev recovered_def jobs_inv_def job_history_def job_event_of_def\<close>)
  next
    case False
    then have "job_log_ok s' k = job_log_ok s k"
      by (intro job_log_ok_frame)
        (use False in \<open>auto simp: rows ev recovered_def job_history_def job_event_of_def
          split: option.splits intro!: option.map_ident_strong\<close>)
    then show ?thesis using inv by (simp add: jobs_inv_def)
  qed
  then show ?thesis using recover_job_wf [OF wf r] by (simp add: jobs_inv_def)
qed

lemma recover_jobs_inv: "jobs_inv s \<Longrightarrow> recover_jobs now rs s = Inr s' \<Longrightarrow> jobs_inv s'"
proof (induction rs arbitrary: s)
  case Nil
  then show ?case by simp
next
  case (Cons r rs)
  obtain i g where r: "r = (i, g)" by (cases r)
  from Cons.prems obtain s1 where "recover_job now (i, g) s = Inr s1" "recover_jobs now rs s1 = Inr s'"
    by (auto simp: r result_simps)
  then show ?case using Cons.IH Cons.prems(1) recover_job_inv by blast
qed

lemma jobs_reachable_inv: "jobs_reachable s \<Longrightarrow> jobs_inv s"
proof (induction rule: jobs_reachable.induct)
  case none
  show ?case by (simp add: jobs_inv_def job_log_ok_def empty_store_def find_row_def job_history_def)
next
  case created
  then show ?case using create_job_inv by blast
next
  case moved
  then show ?case using transition_job_inv by blast
next
  case restarted
  then show ?case using recover_jobs_inv by (auto simp: recover_interrupted_jobs_def)
qed

end
