(* ===== verification/Store_Open.thy ===== *)
theory Store_Open
  imports Store_Claims Store_Jobs
begin

text \<open>
  \<open>EventStore::open\<close> and \<open>apply_migrations\<close> of \<open>crates/patchwright-engine/src/store.rs\<close>: the
  migrations that are not recorded yet run in order in one transaction, then the preparations and
  the jobs that a stopped process left open are closed as interrupted. The SQL of a migration is an
  argument: the effect of its version on the schema.
\<close>

definition migration_versions :: "nat list" where
  "migration_versions = [1..<12]"

primrec run_migrations :: "(nat \<Rightarrow> 'db \<Rightarrow> 'e + 'db) \<Rightarrow> nat list \<Rightarrow> nat list \<Rightarrow> 'db \<Rightarrow> 'e + nat list \<times> 'db" where
  "run_migrations sql [] applied db = Inr (applied, db)"
| "run_migrations sql (v # vs) applied db =
     (if v \<in> set applied then run_migrations sql vs applied db
      else and_then (sql v db) (\<lambda>db. run_migrations sql vs (applied @ [v]) db))"

definition apply_migrations :: "(nat \<Rightarrow> 'db \<Rightarrow> 'e + 'db) \<Rightarrow> nat list \<Rightarrow> 'db \<Rightarrow> 'e + nat list \<times> 'db" where
  "apply_migrations sql applied db = run_migrations sql migration_versions applied db"

definition schema_versions :: "nat list \<Rightarrow> nat list" where
  "schema_versions applied = sort applied"

definition open_store :: "timestamp \<Rightarrow> store \<Rightarrow> store_error + store" where
  "open_store now s = recover_interrupted_jobs now (recover_interrupted_preparations now s)"

section \<open>Lemmas\<close>

lemma run_migrations_applied:
  "run_migrations sql vs applied db = Inr (applied', db') \<Longrightarrow> set applied' = set applied \<union> set vs"
  by (induction vs arbitrary: applied db) (auto simp: and_then_eq_Inr split: if_splits)

lemma run_migrations_done: "set vs \<subseteq> set applied \<Longrightarrow> run_migrations sql vs applied db = Inr (applied, db)"
  by (induction vs) auto

lemma recover_preparations_row:
  "find_row k (st_preparations (recover_interrupted_preparations now s)) = map_option
     (\<lambda>c. if pc_completed_at c = None
       then c\<lparr>pc_result := Some ''interrupted'', pc_completed_at := Some now\<rparr> else c)
     (find_row k (st_preparations s))"
  by (simp add: recover_interrupted_preparations_def)

lemma recover_preparations_idle: "\<not> preparation_active i (recover_interrupted_preparations now s)"
  by (auto simp: preparation_active_def recover_interrupted_preparations_def update_where_def
      list_ex_iff split: if_splits)

lemma recover_job_frame:
  "recover_job now r s = Inr s' \<Longrightarrow> st_preparations s' = st_preparations s \<and> st_deliveries s' = st_deliveries s \<and>
     st_approvals s' = st_approvals s \<and> st_tasks s' = st_tasks s"
  by (auto simp: recover_job_def split_def Let_def and_then_eq_Inr)

lemma recover_jobs_frame:
  "recover_jobs now rs s = Inr s' \<Longrightarrow> st_preparations s' = st_preparations s \<and>
     st_deliveries s' = st_deliveries s \<and> st_approvals s' = st_approvals s \<and> st_tasks s' = st_tasks s"
  by (induction rs arbitrary: s) (auto simp: and_then_eq_Inr dest: recover_job_frame)

end
