(* ===== verification/Store_Codex.thy ===== *)
theory Store_Codex
  imports Store
begin

text \<open>
  The Codex tables of \<open>crates/patchwright-engine/src/store.rs\<close>: sessions, their numbered events,
  runtime approvals, and the guarded step of a task into implementation. The sequence numbers of a
  task's events are shown to be \<open>1, 2, ..., n\<close>, with the session's counter at \<open>n\<close>.
\<close>

definition upsert_codex_session :: "codex_session \<Rightarrow> store \<Rightarrow> store_error + store" where
  "upsert_codex_session c s = and_then (sql_u64 (cs_last_sequence c)) (\<lambda>_.
     Inr (s\<lparr>st_codex_sessions := upsert (cs_task_id c) c (st_codex_sessions s)\<rparr>))"

definition task_events_of :: "uuid \<Rightarrow> store \<Rightarrow> codex_event list" where
  "task_events_of i s = map snd (filter (\<lambda>((t, _), _). t = i) (st_codex_events s))"

text \<open>\<open>COALESCE(MAX(sequence), 0) + 1\<close>, an integer column that leaves its range at \<open>2 ^ 63\<close>.\<close>

definition max_sequence :: "uuid \<Rightarrow> store \<Rightarrow> u64" where
  "max_sequence i s = fold max (map (\<lambda>((_, n), _). n) (filter (\<lambda>((t, _), _). t = i) (st_codex_events s))) 0"

definition append_codex_event ::
  "timestamp \<Rightarrow> codex_session \<Rightarrow> codex_event_draft \<Rightarrow> store \<Rightarrow> store_error + store \<times> codex_session" where
  "append_codex_event now session draft s =
     and_then (map_err StoreMessage (validate_codex_event_kind (ed_kind draft))) (\<lambda>kind.
     and_then (map_err StoredMetadata (validate_summary (ed_summary draft))) (\<lambda>summary.
     and_then (map_err StoreMessage (transpose_map validate_codex_event_content (ed_content draft))) (\<lambda>content.
     and_then (map_err StoreMessage (collect (\<lambda>(v, field). case v of
         None \<Rightarrow> Inr () | Some v \<Rightarrow> validate_codex_identity v field)
       [(ed_thread_id draft, ''thread id''), (ed_turn_id draft, ''turn id''),
        (ed_item_id draft, ''item id'')])) (\<lambda>_.
     and_then (sql_u64 (max_sequence (cs_task_id session) s + 1)) (\<lambda>next_sequence.
     let next_session = session\<lparr>cs_last_sequence := next_sequence, cs_updated_at := now\<rparr>;
         event = \<lparr>ce_task_id = cs_task_id session,
           ce_process_generation = cs_process_generation session, ce_sequence = next_sequence,
           ce_kind = kind, ce_summary = summary, ce_thread_id = ed_thread_id draft,
           ce_turn_id = ed_turn_id draft, ce_item_id = ed_item_id draft, ce_content = content,
           ce_occurred_at = now\<rparr> in
     and_then (upsert_codex_session next_session s) (\<lambda>s.
     and_then (insert_new (ce_task_id event, ce_sequence event) event (st_codex_events s)) (\<lambda>rows.
     Inr (s\<lparr>st_codex_events := rows\<rparr>, next_session))))))))"

definition checkpoint_codex_session ::
  "timestamp \<Rightarrow> codex_session \<Rightarrow> string \<Rightarrow> string \<Rightarrow> store \<Rightarrow> store_error + store \<times> codex_session" where
  "checkpoint_codex_session now session kind summary s =
     append_codex_event now session (status_draft kind summary) s"

definition load_codex_session :: "uuid \<Rightarrow> store \<Rightarrow> codex_session option" where
  "load_codex_session i s = find_row i (st_codex_sessions s)"

definition codex_events :: "uuid \<Rightarrow> u64 \<Rightarrow> store \<Rightarrow> store_error + codex_event list" where
  "codex_events i after s = and_then (sql_u64 after) (\<lambda>after.
     Inr (sort_key ce_sequence (filter (\<lambda>e. after < ce_sequence e) (task_events_of i s))))"

text \<open>The unique index over task, generation and request binds an id that is new to the table; a
  row that is there keeps these columns and takes the new payload.\<close>

definition runtime_row_of :: "codex_runtime_approval \<Rightarrow> runtime_row" where
  "runtime_row_of a = \<lparr>rw_task_id = ra_task_id a, rw_process_generation = ra_process_generation a,
     rw_request_id = ra_request_id a, rw_payload = a\<rparr>"

definition runtime_request :: "runtime_row \<Rightarrow> uuid \<times> uuid \<times> request_id" where
  "runtime_request r = (rw_task_id r, rw_process_generation r, rw_request_id r)"

definition save_codex_runtime_approval :: "codex_runtime_approval \<Rightarrow> store \<Rightarrow> store_error + store" where
  "save_codex_runtime_approval a s =
     (if \<not> has_row (ra_id a) (st_runtime_approvals s) \<and>
         list_ex (\<lambda>(_, r). runtime_request r = runtime_request (runtime_row_of a)) (st_runtime_approvals s)
      then Inl ConstraintViolation
      else Inr (s\<lparr>st_runtime_approvals := upsert_with (ra_id a) (runtime_row_of a)
        (\<lambda>r. r\<lparr>rw_payload := a\<rparr>) (st_runtime_approvals s)\<rparr>))"

definition codex_runtime_approval :: "uuid \<Rightarrow> store \<Rightarrow> codex_runtime_approval option" where
  "codex_runtime_approval i s = map_option rw_payload (find_row i (st_runtime_approvals s))"

definition codex_runtime_approvals :: "uuid \<Rightarrow> store \<Rightarrow> codex_runtime_approval list" where
  "codex_runtime_approvals i s = map rw_payload (map snd (sort_by
     (\<lambda>a b. then_with (cmp (ra_expires_at (rw_payload (snd a))) (ra_expires_at (rw_payload (snd b)))) (cmp (fst a) (fst b)))
     (matching (\<lambda>_ r. rw_task_id r = i) (st_runtime_approvals s))))"

definition enter_implementing_with_codex ::
  "task \<Rightarrow> task_checkpoint \<Rightarrow> codex_session \<Rightarrow> store \<Rightarrow> store_error + store" where
  "enter_implementing_with_codex t c session s =
     and_then (ensure_msg (task_id t = cp_task_id c) ''checkpoint task does not match'') (\<lambda>_.
     and_then (ensure_msg (task_state t = cp_state c) ''checkpoint state does not match'') (\<lambda>_.
     and_then (ensure_msg (task_state t = Implementing) ''task is not entering implementing'') (\<lambda>_.
     and_then (ensure_msg (cs_task_id session = task_id t) ''Codex session task does not match'') (\<lambda>_.
     and_then (ensure_msg (cs_status session = SessionReady \<and> cs_thread_id session \<noteq> None)
       ''Codex session is not ready'') (\<lambda>_.
     and_then (map_err StoredMetadata (validate_summary (cp_summary c))) (\<lambda>_.
     and_then (ok_or (load_task (task_id t) s) RowMissing) (\<lambda>persisted.
     and_then (ensure_msg (task_state persisted = Preparing) ''persisted task is not prepared'') (\<lambda>_.
     and_then (ok_or (load_codex_session (task_id t) s) RowMissing) (\<lambda>stored.
     and_then (ensure_msg (cs_process_generation stored = cs_process_generation session \<and>
         cs_status stored = SessionReady \<and> cs_thread_id stored = cs_thread_id session)
       ''persisted Codex session does not match the ready generation'') (\<lambda>_.
     insert_checkpoint c (record_task t (cp_summary c) s)))))))))))"

section \<open>Numbered events\<close>

lemma load_codex_session_upsert:
  "upsert_codex_session c s = Inr s' \<Longrightarrow>
     load_codex_session i s' = (if i = cs_task_id c then Some c else load_codex_session i s)"
  by (auto simp: upsert_codex_session_def load_codex_session_def result_simps)

definition sequences :: "uuid \<Rightarrow> store \<Rightarrow> u64 list" where
  "sequences i s = map (\<lambda>((_, n), _). n) (filter (\<lambda>((t, _), _). t = i) (st_codex_events s))"

lemma max_sequence_eq: "max_sequence i s = fold max (sequences i s) 0"
  by (simp add: max_sequence_def sequences_def)

text \<open>The events of a task are numbered from one without gaps, and the session has the last number.\<close>

definition numbered :: "uuid \<Rightarrow> store \<Rightarrow> bool" where
  "numbered i s \<longleftrightarrow> map unat (sequences i s) = map Suc [0..<length (sequences i s)] \<and>
     length (sequences i s) < 2 ^ 63 \<and>
     (\<forall>c. load_codex_session i s = Some c \<longrightarrow> unat (cs_last_sequence c) = length (sequences i s))"

definition codex_wf :: "store \<Rightarrow> bool" where
  "codex_wf s \<longleftrightarrow> (\<forall>i. numbered i s) \<and>
     (\<forall>k e. (k, e) \<in> set (st_codex_events s) \<longrightarrow> k = (ce_task_id e, ce_sequence e))"

lemma fold_max_upto:
  assumes "map unat ns = map Suc [0..<length ns]"
  shows "unat (fold max ns (0::u64)) = length ns"
proof (cases "ns = []")
  case True
  then show ?thesis by simp
next
  case False
  have s: "unat ` set ns = Suc ` {0..<length ns}" using assms by (metis set_map set_upt)
  have m: "fold max ns 0 = Max (insert 0 (set ns))" using Max.set_eq_fold [of 0 ns] by simp
  have "length ns \<in> unat ` set ns" using s False by (cases "length ns") auto
  then obtain n where n: "n \<in> set ns" "unat n = length ns" by auto
  have "x \<le> n" if "x \<in> insert 0 (set ns)" for x
  proof -
    have "x = 0 \<or> unat x \<in> Suc ` {0..<length ns}" using that s by blast
    then have "unat x \<le> length ns" by auto
    then show ?thesis using n by (simp add: word_le_nat_alt)
  qed
  then have "Max (insert 0 (set ns)) = n" using n by (intro Max_eqI) auto
  then show ?thesis using m n by simp
qed

text \<open>The event an accepted call adds, read off the resulting table.\<close>

definition last_event :: "store \<Rightarrow> codex_event" where
  "last_event s = snd (last (st_codex_events s))"

lemma append_codex_event_ok:
  assumes "append_codex_event now session draft s = Inr (s', session')"
    and "n = max_sequence (cs_task_id session) s + 1"
  shows "unat n < 2 ^ 63 \<and> session' = session\<lparr>cs_last_sequence := n, cs_updated_at := now\<rparr> \<and>
    ce_task_id (last_event s') = cs_task_id session \<and> ce_sequence (last_event s') = n \<and>
    ce_process_generation (last_event s') = cs_process_generation session \<and>
    ce_summary (last_event s') = trim (ed_summary draft) \<and> is_summary (trim (ed_summary draft)) \<and>
    st_codex_events s' = st_codex_events s @ [((cs_task_id session, n), last_event s')] \<and>
    st_codex_sessions s' = upsert (cs_task_id session) session' (st_codex_sessions s) \<and>
    \<not> has_row (cs_task_id session, n) (st_codex_events s)"
  using assms
  by (auto simp: append_codex_event_def upsert_codex_session_def result_simps valid_simps Let_def
      last_event_def)

lemma append_codex_event_wf:
  assumes wf: "codex_wf s" and a: "append_codex_event now session draft s = Inr (s', session')"
  shows "codex_wf s'"
proof -
  define n where "n = max_sequence (cs_task_id session) s + 1"
  define e where "e = last_event s'"
  have n: "n = max_sequence (cs_task_id session) s + 1" "unat n < 2 ^ 63"
    and session': "session' = session\<lparr>cs_last_sequence := n, cs_updated_at := now\<rparr>"
    and e: "ce_task_id e = cs_task_id session" "ce_sequence e = n"
    and ev: "st_codex_events s' = st_codex_events s @ [((cs_task_id session, n), e)]"
    and ses: "st_codex_sessions s' = upsert (cs_task_id session) session' (st_codex_sessions s)"
    using append_codex_event_ok [OF a n_def] by (auto simp: n_def e_def)
  have "numbered i s'" for i
  proof (cases "i = cs_task_id session")
    case True
    have old: "map unat (sequences i s) = map Suc [0..<length (sequences i s)]" "length (sequences i s) < 2 ^ 63"
      using wf by (simp_all add: codex_wf_def numbered_def)
    have u: "unat n = Suc (length (sequences i s))"
      using old n(1) fold_max_upto [OF old(1)]
      by (simp add: max_sequence_eq True unat_word_ariths)
    have seq: "sequences (cs_task_id session) s' = sequences (cs_task_id session) s @ [n]" by (simp add: sequences_def ev True)
    show ?thesis using old u n(2) unfolding True
      by (simp add: numbered_def seq load_codex_session_def ses session')
  next
    case False
    then have "sequences i s' = sequences i s" "load_codex_session i s' = load_codex_session i s"
      by (simp_all add: sequences_def ev load_codex_session_def ses)
    then show ?thesis using wf by (simp add: codex_wf_def numbered_def)
  qed
  moreover have "k = (ce_task_id x, ce_sequence x)" if "(k, x) \<in> set (st_codex_events s')" for k x
    using that wf e by (cases k) (auto simp: ev codex_wf_def)
  ultimately show ?thesis by (simp add: codex_wf_def)
qed

lemma codex_wf_empty: "codex_wf empty_store"
  by (simp add: codex_wf_def numbered_def sequences_def empty_store_def load_codex_session_def find_row_def)

lemma enter_implementing_ok [result_simps]:
  "enter_implementing_with_codex t c session s = Inr s' \<longleftrightarrow>
     task_id t = cp_task_id c \<and> cp_state c = Implementing \<and> task_state t = Implementing \<and>
     cs_task_id session = task_id t \<and> cs_status session = SessionReady \<and>
     cs_thread_id session \<noteq> None \<and> is_summary (trim (cp_summary c)) \<and>
     (\<exists>p. load_task (task_id t) s = Some p \<and> task_state p = Preparing) \<and>
     (\<exists>r. load_codex_session (task_id t) s = Some r \<and>
        cs_process_generation r = cs_process_generation session \<and> cs_status r = SessionReady \<and>
        cs_thread_id r = cs_thread_id session) \<and>
     \<not> has_row (cp_id c) (st_checkpoints s) \<and>
     s' = (record_task t (cp_summary c) s)\<lparr>st_checkpoints := st_checkpoints s @ [(cp_id c, c)]\<rparr>"
  by (auto simp: enter_implementing_with_codex_def result_simps valid_simps)

text \<open>One runtime approval for each request of a process.\<close>

definition runtime_unique :: "store \<Rightarrow> bool" where
  "runtime_unique s \<longleftrightarrow> table_wf (st_runtime_approvals s) \<and>
     inj_on (\<lambda>(_, r). runtime_request r) (set (st_runtime_approvals s))"

lemma runtime_unique_rows:
  assumes "table_wf (st_runtime_approvals s)"
  shows "runtime_unique s \<longleftrightarrow>
     (\<forall>i a j b. find_row i (st_runtime_approvals s) = Some a \<longrightarrow> find_row j (st_runtime_approvals s) = Some b \<longrightarrow>
        runtime_request a = runtime_request b \<longrightarrow> i = j)"
proof -
  have row: "(k, r) \<in> set (st_runtime_approvals s) \<longleftrightarrow> find_row k (st_runtime_approvals s) = Some r" for k r
    using in_find_row [OF assms] find_row_in by metis
  have "inj_on (\<lambda>(_, r). runtime_request r) (set (st_runtime_approvals s)) \<longleftrightarrow>
     (\<forall>i a j b. find_row i (st_runtime_approvals s) = Some a \<longrightarrow> find_row j (st_runtime_approvals s) = Some b \<longrightarrow>
        runtime_request a = runtime_request b \<longrightarrow> i = j \<and> a = b)"
    by (simp add: inj_on_def Ball_def split_paired_all row)
  moreover have "i = j \<and> a = b \<longleftrightarrow> i = j"
    if "find_row i (st_runtime_approvals s) = Some a" "find_row j (st_runtime_approvals s) = Some b" for i a j b
    using that by auto
  ultimately show ?thesis using assms unfolding runtime_unique_def by (simp cong: imp_cong)
qed

lemma save_runtime_row:
  assumes "save_codex_runtime_approval a s = Inr s'"
  shows "find_row k (st_runtime_approvals s') = (if k = ra_id a
      then Some (case find_row k (st_runtime_approvals s) of None \<Rightarrow> runtime_row_of a | Some r \<Rightarrow> r\<lparr>rw_payload := a\<rparr>)
      else find_row k (st_runtime_approvals s))"
    and "find_row (ra_id a) (st_runtime_approvals s) = None \<Longrightarrow> find_row k (st_runtime_approvals s) = Some r \<Longrightarrow>
      runtime_request r \<noteq> runtime_request (runtime_row_of a)"
    and "table_wf (st_runtime_approvals s) \<Longrightarrow> table_wf (st_runtime_approvals s')"
  using assms
  by (auto simp: save_codex_runtime_approval_def has_row_def list_ex_iff dest: find_row_in split: if_splits)

lemma save_runtime_unique:
  assumes u: "runtime_unique s" and a: "save_codex_runtime_approval a s = Inr s'"
  shows "runtime_unique s'"
proof -
  have wf: "table_wf (st_runtime_approvals s)" using u by (simp add: runtime_unique_def)
  have old: "i = j" if "find_row i (st_runtime_approvals s) = Some x" "find_row j (st_runtime_approvals s) = Some y"
    "runtime_request x = runtime_request y" for i j x y
    using u that unfolding runtime_unique_rows [OF wf] by blast
  have new: "map_option runtime_request (find_row k (st_runtime_approvals s')) =
      (if k = ra_id a \<and> find_row k (st_runtime_approvals s) = None then Some (runtime_request (runtime_row_of a))
       else map_option runtime_request (find_row k (st_runtime_approvals s)))" for k
    by (auto simp: save_runtime_row(1) [OF a] runtime_request_def split: option.splits)
  have fresh: "runtime_request y \<noteq> runtime_request (runtime_row_of a)"
    if "find_row (ra_id a) (st_runtime_approvals s) = None" "find_row j (st_runtime_approvals s) = Some y" for j y
    using save_runtime_row(2) [OF a] that .
  have "i = j" if x: "find_row i (st_runtime_approvals s') = Some x" and y: "find_row j (st_runtime_approvals s') = Some y"
    and eq: "runtime_request x = runtime_request y" for i j x y
  proof (cases "(i = ra_id a \<or> j = ra_id a) \<and> find_row (ra_id a) (st_runtime_approvals s) = None")
    case True
    then show ?thesis using new [of i] new [of j] x y eq fresh
      by (cases "find_row i (st_runtime_approvals s)"; cases "find_row j (st_runtime_approvals s)")
        (auto split: if_splits)
  next
    case False
    then have "map_option runtime_request (find_row i (st_runtime_approvals s)) = Some (runtime_request x)"
      "map_option runtime_request (find_row j (st_runtime_approvals s)) = Some (runtime_request x)"
      using new [of i] new [of j] x y eq by (auto split: if_splits)
    then show ?thesis using old [of i _ j] by auto
  qed
  then show ?thesis
    using runtime_unique_rows [OF save_runtime_row(3) [OF a wf]] by blast
qed

end
