(* ===== verification/Store_GitHub.thy ===== *)
theory Store_GitHub
  imports Store
begin

text \<open>
  The GitHub tables of \<open>crates/patchwright-engine/src/store.rs\<close>: the account and snapshots, the
  persisted queue, the monitors, and the webhook deliveries that wake them. \<open>parse_rfc3339\<close> stands
  for chrono's parser. A webhook is ingested once for each delivery id, and it wakes exactly the
  pending monitors of its repository (and pull request, when it names one).
\<close>

section \<open>Account and snapshots\<close>

definition save_github_account :: "github_account \<Rightarrow> store \<Rightarrow> store" where
  "save_github_account a s = s\<lparr>st_account := Some a\<rparr>"

definition replace_github_snapshot :: "timestamp \<Rightarrow> github_repository_snapshot \<Rightarrow> store \<Rightarrow> store" where
  "replace_github_snapshot now snap s = s\<lparr>st_snapshots := upsert (gr_full_name (gs_repository snap))
     \<lparr>sw_repository = gs_repository snap, sw_snapshot = snap, sw_synced_at = now\<rparr> (st_snapshots s)\<rparr>"

text \<open>\<open>ORDER BY full_name COLLATE NOCASE\<close> folds the 26 ASCII letters.\<close>

definition snapshots_in_order :: "store \<Rightarrow> snapshot_row list" where
  "snapshots_in_order s = map snd
     (sort_by (\<lambda>a b. cmp (to_ascii_lowercase (fst a)) (to_ascii_lowercase (fst b))) (st_snapshots s))"

definition github_repositories :: "store \<Rightarrow> github_repository list" where
  "github_repositories s = map sw_repository (snapshots_in_order s)"

definition work_item_order :: "github_work_item \<Rightarrow> github_work_item \<Rightarrow> ordering" where
  "work_item_order a b =
     then_with (then_with (cmp (wi_repository_full_name a) (wi_repository_full_name b))
       (cmp (wi_number a) (wi_number b))) (cmp (wi_id a) (wi_id b))"

definition github_work_items :: "store \<Rightarrow> github_work_item list" where
  "github_work_items s =
     sort_by work_item_order (concat (map (gs_work_items \<circ> sw_snapshot) (snapshots_in_order s)))"

definition github_last_synced_at :: "store \<Rightarrow> timestamp option" where
  "github_last_synced_at s = (case map (sw_synced_at \<circ> snd) (st_snapshots s) of
       [] \<Rightarrow> None | t # ts \<Rightarrow> Some (fold max ts t))"

definition load_github_repository :: "string \<Rightarrow> store \<Rightarrow> github_repository_snapshot option" where
  "load_github_repository name s = map_option sw_snapshot (find_row name (st_snapshots s))"

definition github_repository_with_snapshot_at ::
  "string \<Rightarrow> store \<Rightarrow> (github_repository_snapshot \<times> timestamp) option" where
  "github_repository_with_snapshot_at name s =
     map_option (\<lambda>r. (sw_snapshot r, sw_synced_at r)) (find_row name (st_snapshots s))"

section \<open>The persisted queue\<close>

primrec insert_decisions :: "nat \<Rightarrow> queue_decision list \<Rightarrow>
    (string \<times> u64, nat \<times> queue_decision) table \<Rightarrow>
    store_error + (string \<times> u64, nat \<times> queue_decision) table" where
  "insert_decisions position [] rows = Inr rows"
| "insert_decisions position (d # ds) rows =
     and_then (sql_u64 (qd_number d)) (\<lambda>_.
     and_then (insert_new (qd_repository_full_name d, qd_number d) (position, d) rows) (\<lambda>rows.
     insert_decisions (Suc position) ds rows))"

definition replace_queue_decisions :: "queue_decision list \<Rightarrow> store \<Rightarrow> store_error + store" where
  "replace_queue_decisions ds s =
     and_then (insert_decisions 0 ds []) (\<lambda>rows. Inr (s\<lparr>st_queue := rows\<rparr>))"

definition queue_decisions :: "store \<Rightarrow> queue_decision list" where
  "queue_decisions s = map (snd \<circ> snd) (sort_key (fst \<circ> snd) (st_queue s))"

section \<open>Monitors\<close>

definition monitor_row_of :: "monitor_record \<Rightarrow> monitor_row" where
  "monitor_row_of m = \<lparr>mw_task_id = mon_task_id m,
     mw_repository_full_name = mon_repository_full_name m,
     mw_pull_request_number = mon_pull_request_number m, mw_state = mon_state m,
     mw_next_attempt_at = mon_next_attempt_at m, mw_payload = m, mw_updated_at = mon_updated_at m\<rparr>"

text \<open>An update of the row keeps the columns of the task, the repository and the pull request.\<close>

definition set_monitor :: "monitor_record \<Rightarrow> monitor_row \<Rightarrow> monitor_row" where
  "set_monitor m r = r\<lparr>mw_state := mon_state m, mw_next_attempt_at := mon_next_attempt_at m,
     mw_payload := m, mw_updated_at := mon_updated_at m\<rparr>"

definition save_monitor :: "monitor_record \<Rightarrow> store \<Rightarrow> store_error + store" where
  "save_monitor m s =
     and_then (sql_u64 (mon_pull_request_number m)) (\<lambda>_.
     Inr (s\<lparr>st_monitors := upsert_with (mon_id m) (monitor_row_of m) (set_monitor m) (st_monitors s)\<rparr>))"

definition save_monitor_with_task_event ::
  "monitor_record \<Rightarrow> task \<Rightarrow> string \<Rightarrow> store \<Rightarrow> store_error + store" where
  "save_monitor_with_task_event m t summary s =
     and_then (ensure_msg (mon_task_id m = task_id t) ''monitor task does not match event task'') (\<lambda>_.
     and_then (save_monitor m s) (\<lambda>s. Inr (record_task t summary s)))"

definition load_monitor :: "uuid \<Rightarrow> store \<Rightarrow> monitor_record option" where
  "load_monitor i s = map_option mw_payload (find_row i (st_monitors s))"

definition task_monitors :: "uuid \<Rightarrow> store \<Rightarrow> monitor_record list" where
  "task_monitors i s = map (mw_payload \<circ> snd) (sort_by
     (\<lambda>a b. then_with (reverse (cmp (mw_updated_at (snd a)) (mw_updated_at (snd b)))) (cmp (fst a) (fst b)))
     (matching (\<lambda>_ r. mw_task_id r = i) (st_monitors s)))"

section \<open>Webhooks\<close>

record webhook_envelope =
  we_schema_version :: u32
  we_event :: string
  we_action :: string
  we_repository_id :: "u64 option"
  we_repository_full_name :: "string option"
  we_entity_number :: "u64 option"
  we_entity_id :: "u64 option"

record forwarded_webhook =
  fw_delivery_id :: string
  fw_envelope :: webhook_envelope
  fw_payload_sha256 :: string
  fw_received_at :: string

definition token_ok :: "string \<Rightarrow> nat \<Rightarrow> bool" where
  "token_ok v n \<longleftrightarrow> v \<noteq> [] \<and> length v \<le> n \<and> \<not> any_char is_control v"

definition webhook_repository_ok :: "string \<Rightarrow> bool" where
  "webhook_repository_ok repository = (case split_once CHR ''/'' repository of
       None \<Rightarrow> False
     | Some (owner, name) \<Rightarrow> owner \<noteq> [] \<and> name \<noteq> [] \<and> CHR ''/'' \<notin> set name \<and>
         length repository \<le> 255 \<and> \<not> any_char is_whitespace repository)"

definition validate_forwarded_webhook ::
  "(string \<Rightarrow> timestamp option) \<Rightarrow> forwarded_webhook \<Rightarrow> store_error + unit" where
  "validate_forwarded_webhook parse_rfc3339 d = (let e = fw_envelope d in
     and_then (ensure_msg (token_ok (fw_delivery_id d) 128) ''invalid GitHub webhook delivery ID'') (\<lambda>_.
     and_then (ensure_msg (we_schema_version e = 1) ''unsupported webhook schema'') (\<lambda>_.
     and_then (ensure_msg (token_ok (we_event e) 64) ''invalid webhook event'') (\<lambda>_.
     and_then (ensure_msg (token_ok (we_action e) 64) ''invalid webhook action'') (\<lambda>_.
     and_then (ensure_msg (we_event e = ''ping'' \<or>
         we_repository_id e \<noteq> None \<and> we_repository_full_name e \<noteq> None)
       ''webhook repository identity is missing'') (\<lambda>_.
     and_then (ensure_msg (case we_repository_full_name e of None \<Rightarrow> True
         | Some r \<Rightarrow> webhook_repository_ok r) ''invalid webhook repository identity'') (\<lambda>_.
     and_then (ensure_msg (we_entity_number e \<noteq> Some 0 \<and> we_entity_id e \<noteq> Some 0)
       ''invalid webhook entity identity'') (\<lambda>_.
     and_then (ensure_msg (length (fw_payload_sha256 d) = 64 \<and>
         list_all is_ascii_hexdigit (fw_payload_sha256 d)) ''invalid webhook payload digest'') (\<lambda>_.
     and_then (ok_or (parse_rfc3339 (fw_received_at d)) (StoreMessage ''invalid webhook receive time'')) (\<lambda>_.
     Inr ()))))))))))"

text \<open>The columns by which a webhook selects its monitors.\<close>

definition webhook_selects :: "webhook_envelope \<Rightarrow> monitor_row \<Rightarrow> bool" where
  "webhook_selects e r \<longleftrightarrow> mw_state r = MonPending \<and>
     Some (mw_repository_full_name r) = we_repository_full_name e \<and>
     (case we_entity_number e of None \<Rightarrow> True | Some n \<Rightarrow> mw_pull_request_number r = n)"

definition selected_monitors :: "webhook_envelope \<Rightarrow> store \<Rightarrow> monitor_record list" where
  "selected_monitors e s =
     map (mw_payload \<circ> snd) (sort_key fst (matching (\<lambda>_ r. webhook_selects e r) (st_monitors s)))"

definition wake_monitor :: "timestamp \<Rightarrow> monitor_record \<Rightarrow>
    (uuid, monitor_row) table \<times> nat \<Rightarrow> (uuid, monitor_row) table \<times> nat" where
  "wake_monitor now m = (\<lambda>(rows, woken). let (awake, m') = monitor_wake now m in
     if awake
     then (fst (update_where (\<lambda>k r. k = mon_id m' \<and> mw_state r = MonPending) (set_monitor m') rows),
       woken + 1)
     else (rows, woken))"

definition ingest_github_webhook :: "(string \<Rightarrow> timestamp option) \<Rightarrow> timestamp \<Rightarrow> forwarded_webhook \<Rightarrow>
    store \<Rightarrow> store_error + store \<times> bool \<times> nat" where
  "ingest_github_webhook parse_rfc3339 now d s =
     and_then (validate_forwarded_webhook parse_rfc3339 d) (\<lambda>_.
     and_then (transpose_map sql_u64 (we_entity_number (fw_envelope d))) (\<lambda>_.
     let e = fw_envelope d;
         (rows, inserted) = insert_ignore (fw_delivery_id d) \<lparr>ww_event = we_event e,
           ww_action = we_action e, ww_repository_full_name = we_repository_full_name e,
           ww_entity_number = we_entity_number e, ww_payload_sha256 = fw_payload_sha256 d,
           ww_received_at = fw_received_at d, ww_ingested_at = now\<rparr> (st_webhooks s) in
     if \<not> inserted then Inr (s, False, 0)
     else let (monitors, woken) = fold (wake_monitor now) (selected_monitors e s) (st_monitors s, 0) in
       Inr (s\<lparr>st_webhooks := rows, st_monitors := monitors\<rparr>, True, woken)))"

definition github_webhook_delivery_count :: "store \<Rightarrow> nat" where
  "github_webhook_delivery_count s = length (st_webhooks s)"

section \<open>Lemmas\<close>

lemma snapshot_replaced [simp]:
  "load_github_repository n (replace_github_snapshot now snap s) =
     (if n = gr_full_name (gs_repository snap) then Some snap else load_github_repository n s)"
  by (simp add: load_github_repository_def replace_github_snapshot_def)

interpretation snapshot_rows: keyed_rows load_github_repository
  "\<lambda>(now, snap). replace_github_snapshot now snap" "\<lambda>(now, snap). gr_full_name (gs_repository snap)" snd
  by unfold_locales (simp add: split_def)

text \<open>Persisted decisions are read back in their order.\<close>

lemma insert_decisions_ok:
  "insert_decisions p ds rows = Inr rows' \<Longrightarrow>
     map snd rows' = map snd rows @ zip [p..<p + length ds] ds"
proof (induction ds arbitrary: p rows)
  case Nil
  then show ?case by simp
next
  case (Cons d ds)
  then have "map snd rows' = map snd (rows @ [((qd_repository_full_name d, qd_number d), (p, d))]) @
      zip [Suc p..<Suc p + length ds] ds"
    by (auto simp: result_simps)
  then show ?case by (simp add: upt_conv_Cons del: upt_Suc)
qed

lemma queue_decisions_saved:
  assumes "replace_queue_decisions ds s = Inr s'"
  shows "queue_decisions s' = ds"
proof -
  have r: "map snd (st_queue s') = zip [0..<length ds] ds"
    using assms insert_decisions_ok [of 0 ds "[]"]
    by (auto simp: replace_queue_decisions_def result_simps)
  then have "map (fst \<circ> snd) (st_queue s') = [0..<length ds]" "map (snd \<circ> snd) (st_queue s') = ds"
    by (metis map_map map_fst_zip length_upt minus_nat.diff_0, metis map_map map_snd_zip length_upt minus_nat.diff_0)
  moreover then have "sort_key (fst \<circ> snd) (st_queue s') = st_queue s'"
    by (intro sort_key_id_if_sorted) simp
  ultimately show ?thesis by (simp add: queue_decisions_def)
qed

text \<open>The columns of a monitor row repeat its payload.\<close>

definition monitor_row_ok :: "uuid \<Rightarrow> monitor_row \<Rightarrow> bool" where
  "monitor_row_ok k r \<longleftrightarrow> mon_id (mw_payload r) = k \<and> r = monitor_row_of (mw_payload r)"

definition monitors_wf :: "store \<Rightarrow> bool" where
  "monitors_wf s \<longleftrightarrow> table_wf (st_monitors s) \<and>
     (\<forall>k r. find_row k (st_monitors s) = Some r \<longrightarrow> monitor_row_ok k r)"

lemma monitor_row_ok_state: "monitor_row_ok k r \<Longrightarrow> mw_state r = mon_state (mw_payload r)"
  by (cases r) (simp add: monitor_row_ok_def monitor_row_of_def)

lemma set_monitor_same_target:
  "monitor_row_ok k r \<Longrightarrow> same_target (mw_payload r) m \<Longrightarrow> set_monitor m r = monitor_row_of m"
  by (cases r) (simp add: monitor_row_ok_def monitor_row_of_def set_monitor_def same_target_def)

lemma save_monitor_ok [result_simps]:
  "save_monitor m s = Inr s' \<longleftrightarrow> unat (mon_pull_request_number m) < 2 ^ 63 \<and>
     s' = s\<lparr>st_monitors := upsert_with (mon_id m) (monitor_row_of m) (set_monitor m) (st_monitors s)\<rparr>"
  by (auto simp: save_monitor_def result_simps)

lemma load_monitor_saved:
  "save_monitor m s = Inr s' \<Longrightarrow>
     load_monitor i s' = (if i = mon_id m then Some m else load_monitor i s)"
  by (auto simp: result_simps load_monitor_def set_monitor_def monitor_row_of_def split: option.splits)

lemma save_monitor_wf:
  assumes "monitors_wf s" "save_monitor m s = Inr s'"
    and "\<And>m0. load_monitor (mon_id m) s = Some m0 \<Longrightarrow> same_target m0 m"
  shows "monitors_wf s'"
proof -
  have "monitor_row_ok k r" if "find_row k (st_monitors s') = Some r" for k r
  proof (cases "k = mon_id m")
    case True
    have "r = monitor_row_of m"
    proof (cases "find_row (mon_id m) (st_monitors s)")
      case None
      then show ?thesis using that assms(2) True by (auto simp: result_simps)
    next
      case (Some r0)
      then have "monitor_row_ok (mon_id m) r0" "same_target (mw_payload r0) m"
        using assms(1,3) by (auto simp: monitors_wf_def load_monitor_def)
      then have "set_monitor m r0 = monitor_row_of m" by (rule set_monitor_same_target)
      then show ?thesis using that assms(2) True Some by (auto simp: result_simps)
    qed
    then show ?thesis using True by (simp add: monitor_row_ok_def monitor_row_of_def)
  next
    case False
    then show ?thesis using that assms by (auto simp: result_simps monitors_wf_def)
  qed
  then show ?thesis using assms by (auto simp: monitors_wf_def result_simps)
qed

text \<open>What a round of wake-ups does to the rows.\<close>

definition woken_row :: "timestamp \<Rightarrow> monitor_row \<Rightarrow> monitor_row" where
  "woken_row now r = set_monitor (snd (monitor_wake now (mw_payload r))) r"

lemma wake_all:
  assumes "distinct (map mon_id ms)" "\<And>m. m \<in> set ms \<Longrightarrow> mon_state m = MonPending"
    and "\<And>m r. m \<in> set ms \<Longrightarrow> find_row (mon_id m) rows = Some r \<Longrightarrow> mw_payload r = m \<and> mw_state r = MonPending"
  shows "snd (fold (wake_monitor now) ms (rows, n)) = n + length ms"
    and "find_row k (fst (fold (wake_monitor now) ms (rows, n))) =
      map_option (\<lambda>r. if k \<in> mon_id ` set ms then woken_row now r else r) (find_row k rows)"
proof -
  have "snd (fold (wake_monitor now) ms (rows, n)) = n + length ms \<and>
    find_row k (fst (fold (wake_monitor now) ms (rows, n))) =
      map_option (\<lambda>r. if k \<in> mon_id ` set ms then woken_row now r else r) (find_row k rows)"
    using assms
  proof (induction ms arbitrary: rows n)
    case Nil
    then show ?case by (simp add: option.map_ident)
  next
    case (Cons m ms)
    have p: "mon_state m = MonPending" using Cons.prems(2) by simp
    define rows1 where "rows1 = fst (update_where (\<lambda>k r. k = mon_id m \<and> mw_state r = MonPending)
      (set_monitor (snd (monitor_wake now m))) rows)"
    have step: "wake_monitor now m (rows, n) = (rows1, n + 1)"
      using p by (simp add: wake_monitor_def monitor_wake_def rows1_def)
    have other: "find_row j rows1 = find_row j rows" if "j \<noteq> mon_id m" for j
      using that by (simp add: rows1_def option.map_ident)
    have same: "find_row (mon_id m) rows1 = map_option (woken_row now) (find_row (mon_id m) rows)"
      using Cons.prems(3) [of m]
      by (cases "find_row (mon_id m) rows") (auto simp: rows1_def woken_row_def)
    have "mon_id x \<noteq> mon_id m" if "x \<in> set ms" for x using Cons.prems(1) that by (auto simp: image_iff)
    then have ih: "snd (fold (wake_monitor now) ms (rows1, n + 1)) = n + 1 + length ms \<and>
      find_row k (fst (fold (wake_monitor now) ms (rows1, n + 1))) =
        map_option (\<lambda>r. if k \<in> mon_id ` set ms then woken_row now r else r) (find_row k rows1)"
      using Cons.prems by (intro Cons.IH) (auto simp: other)
    show ?case
    proof (cases "k = mon_id m")
      case True
      have "k \<notin> mon_id ` set ms" using Cons.prems(1) True by simp
      then show ?thesis using ih by (simp add: step True same option.map_ident)
    next
      case False
      then show ?thesis using ih by (simp add: step other)
    qed
  qed
  then show "snd (fold (wake_monitor now) ms (rows, n)) = n + length ms"
    and "find_row k (fst (fold (wake_monitor now) ms (rows, n))) =
      map_option (\<lambda>r. if k \<in> mon_id ` set ms then woken_row now r else r) (find_row k rows)" by blast+
qed

lemma in_matching_iff: "(k, r) \<in> set (matching P t) \<longleftrightarrow> (k, r) \<in> set t \<and> P k r"
  by (auto simp: matching_def)

lemma selected_monitors_sound:
  assumes wf: "monitors_wf s"
  shows "distinct (map mon_id (selected_monitors e s))"
    and "m \<in> set (selected_monitors e s) \<longleftrightarrow>
      (\<exists>r. find_row (mon_id m) (st_monitors s) = Some r \<and> webhook_selects e r \<and> mw_payload r = m)"
proof -
  have t: "table_wf (st_monitors s)" using wf by (simp add: monitors_wf_def)
  have row: "(k, r) \<in> set (st_monitors s) \<longleftrightarrow> find_row k (st_monitors s) = Some r" for k r
    using in_find_row [OF t] find_row_in by metis
  have ident: "mon_id (mw_payload r) = k" if "(k, r) \<in> set (st_monitors s)" for k r
    using that wf by (simp add: row monitors_wf_def monitor_row_ok_def)
  have "map mon_id (selected_monitors e s) =
      map fst (sort_key fst (matching (\<lambda>_ r. webhook_selects e r) (st_monitors s)))"
    using ident by (force simp: selected_monitors_def in_matching_iff)
  moreover have "distinct (map fst (sort_key fst (matching (\<lambda>_ r. webhook_selects e r) (st_monitors s))))"
    by (rule mset_eq_imp_distinct_iff [THEN iffD1, of "map fst (matching (\<lambda>_ r. webhook_selects e r) (st_monitors s))"])
      (use t in \<open>simp_all add: table_wf_def matching_def distinct_map_filter\<close>)
  ultimately show "distinct (map mon_id (selected_monitors e s))" by simp
  have "m \<in> set (selected_monitors e s) \<longleftrightarrow>
      (\<exists>k r. (k, r) \<in> set (st_monitors s) \<and> webhook_selects e r \<and> mw_payload r = m)"
    by (auto simp: selected_monitors_def image_iff Bex_def in_matching_iff)
  then show "m \<in> set (selected_monitors e s) \<longleftrightarrow>
      (\<exists>r. find_row (mon_id m) (st_monitors s) = Some r \<and> webhook_selects e r \<and> mw_payload r = m)"
    using ident by (auto simp: row)
qed

lemma ingest_ok:
  assumes "ingest_github_webhook parse now d s = Inr (s', inserted, woken)"
  shows "is_ok (validate_forwarded_webhook parse d) \<and>
    inserted = (\<not> has_row (fw_delivery_id d) (st_webhooks s)) \<and>
    (\<not> inserted \<longrightarrow> s' = s \<and> woken = 0) \<and>
    (inserted \<longrightarrow> has_row (fw_delivery_id d) (st_webhooks s') \<and>
      (st_monitors s', woken) =
        fold (wake_monitor now) (selected_monitors (fw_envelope d) s) (st_monitors s, 0))"
  using assms
  by (auto simp: ingest_github_webhook_def result_simps Let_def insert_ignore_def is_ok_iff
      split: if_splits prod.splits)

lemma ingest_wakes_selected:
  assumes wf: "monitors_wf s" and i: "ingest_github_webhook parse now d s = Inr (s', True, woken)"
  shows "woken = length (selected_monitors (fw_envelope d) s)"
    and "find_row k (st_monitors s') = map_option
      (\<lambda>r. if webhook_selects (fw_envelope d) r then woken_row now r else r) (find_row k (st_monitors s))"
proof -
  let ?ms = "selected_monitors (fw_envelope d) s"
  have fold: "(st_monitors s', woken) = fold (wake_monitor now) ?ms (st_monitors s, 0)"
    using ingest_ok [OF i] by simp
  have pending: "mon_state m = MonPending" if "m \<in> set ?ms" for m
  proof -
    obtain r where r: "find_row (mon_id m) (st_monitors s) = Some r"
      "webhook_selects (fw_envelope d) r" "mw_payload r = m"
      using \<open>m \<in> set ?ms\<close> unfolding selected_monitors_sound(2) [OF wf] by blast
    then have "mw_state r = mon_state m" using wf monitor_row_ok_state by (auto simp: monitors_wf_def)
    then show ?thesis using r(2) by (simp add: webhook_selects_def)
  qed
  have stored: "mw_payload r = m \<and> mw_state r = MonPending"
    if "m \<in> set ?ms" "find_row (mon_id m) (st_monitors s) = Some r" for m r
    using that by (auto simp: selected_monitors_sound(2) [OF wf] webhook_selects_def)
  note dist = selected_monitors_sound(1) [OF wf]
  have "snd (fold (wake_monitor now) ?ms (st_monitors s, 0)) = 0 + length ?ms"
    by (rule wake_all(1) [OF dist]) (use pending stored in blast)+
  then show "woken = length ?ms" using fold by (metis add_0 snd_conv)
  have rows: "find_row k (fst (fold (wake_monitor now) ?ms (st_monitors s, 0))) =
      map_option (\<lambda>r. if k \<in> mon_id ` set ?ms then woken_row now r else r) (find_row k (st_monitors s))"
    by (rule wake_all(2) [OF dist]) (use pending stored in blast)+
  have s': "st_monitors s' = fst (fold (wake_monitor now) ?ms (st_monitors s, 0))"
    using fold by (metis fst_conv)
  have "k \<in> mon_id ` set ?ms \<longleftrightarrow> webhook_selects (fw_envelope d) r"
    if r: "find_row k (st_monitors s) = Some r" for r
  proof -
    have k: "mon_id (mw_payload r) = k" using r wf by (simp add: monitors_wf_def monitor_row_ok_def)
    have "webhook_selects (fw_envelope d) r \<Longrightarrow> mw_payload r \<in> set ?ms"
      using r k by (auto simp: selected_monitors_sound(2) [OF wf])
    then show ?thesis using r k by (auto simp: selected_monitors_sound(2) [OF wf])
  qed
  then show "find_row k (st_monitors s') = map_option
      (\<lambda>r. if webhook_selects (fw_envelope d) r then woken_row now r else r) (find_row k (st_monitors s))"
    unfolding s' rows by (cases "find_row k (st_monitors s)") auto
qed

text \<open>The register of webhook deliveries: one ingestion for each delivery id.\<close>

definition ingest :: "(string \<Rightarrow> timestamp option) \<Rightarrow> timestamp \<times> forwarded_webhook \<Rightarrow> store \<Rightarrow> store \<times> bool" where
  "ingest parse = (\<lambda>(now, d) s. case ingest_github_webhook parse now d s of
       Inl _ \<Rightarrow> (s, False) | Inr (s', inserted, _) \<Rightarrow> (s', inserted))"

lemma ingest_webhooks:
  "ingest_github_webhook parse now d s = Inr (s', inserted, woken) \<Longrightarrow>
     has_row k (st_webhooks s') \<longleftrightarrow> has_row k (st_webhooks s) \<or> inserted \<and> k = fw_delivery_id d"
  by (auto simp: ingest_github_webhook_def result_simps Let_def insert_ignore_def
      split: if_splits prod.splits)

interpretation webhook_register: claim_register "ingest parse" "\<lambda>a. fw_delivery_id (snd a)"
    "\<lambda>k s. has_row k (st_webhooks s)" "\<lambda>s. True" for parse
  by unfold_locales
    (auto simp: ingest_def ingest_webhooks dest: ingest_ok split: sum.splits prod.splits)

end
