(* ===== verification/Store_Properties.thy ===== *)
theory Store_Properties
  imports Store_Open Store_Codex Store_GitHub Samples
begin

text \<open>
  The properties of the event store (\<open>crates/patchwright-engine/src/store.rs\<close>) over runs of its
  operations, with their witnesses: the log of tasks, approvals, claims, jobs and their recovery,
  Codex events, and webhooks.
\<close>

section \<open>Tasks and their log\<close>

text \<open>The operations of the store that write tasks, from the empty store; the other operations leave
  the tables of tasks and their events alone.\<close>

inductive task_writes :: "store \<Rightarrow> bool" where
  empty: "task_writes empty_store"
| saved: "task_writes s \<Longrightarrow> task_writes (save_task t summary s)"
| logged: "task_writes s \<Longrightarrow> task_writes (save_task_events events s)"
| checkpointed: "task_writes s \<Longrightarrow> save_task_with_checkpoint t summary c s = Inr s' \<Longrightarrow> task_writes s'"
| converted: "task_writes s \<Longrightarrow> create_converted_task t key s = Inr (s', t', created) \<Longrightarrow> task_writes s'"
| implementing: "task_writes s \<Longrightarrow> enter_implementing_with_codex t c session s = Inr s' \<Longrightarrow> task_writes s'"
| claimed: "task_writes s \<Longrightarrow> claim_delivery_with_task_event js now key ev s = (s', granted) \<Longrightarrow> task_writes s'"
| delivered: "task_writes s \<Longrightarrow> complete_delivery_with_task_events now key result events s = Inr s' \<Longrightarrow> task_writes s'"
| rejected: "task_writes s \<Longrightarrow> complete_failed_merge_delivery now key result t summary s = Inr s' \<Longrightarrow> task_writes s'"
| monitored: "task_writes s \<Longrightarrow> save_monitor_with_task_event m t summary s = Inr s' \<Longrightarrow> task_writes s'"
| elsewhere: "task_writes s \<Longrightarrow> st_tasks s' = st_tasks s \<Longrightarrow> st_task_events s' = st_task_events s \<Longrightarrow> task_writes s'"

lemma set_delivery_tasks:
  "set_delivery key result completed s = Inr s' \<Longrightarrow> st_tasks s' = st_tasks s \<and> st_task_events s' = st_task_events s"
  by (auto simp: set_delivery_def split_def Let_def and_then_eq_Inr)

lemma set_delivery_log: "set_delivery key result completed s = Inr s' \<Longrightarrow> log_wf s' = log_wf s"
  using set_delivery_tasks log_wf_cong by blast

lemma invalidate_log [simp]: "log_wf (fst (invalidate_task_approvals now i s)) = log_wf s"
  by (simp add: invalidate_task_approvals_def split_def Let_def)

lemma task_writes_log: "task_writes s \<Longrightarrow> log_wf s"
proof (induction rule: task_writes.induct)
  case (claimed s js now key ev s' granted)
  then show ?case
    by (auto simp: claim_delivery_with_task_event_def split_def Let_def split: if_splits option.splits)
next
  case (delivered s now key result events s')
  then show ?case by (auto simp: complete_delivery_with_task_events_def and_then_eq_Inr dest: set_delivery_log)
next
  case (rejected s now key result t summary s')
  then show ?case by (auto simp: complete_failed_merge_delivery_def and_then_eq_Inr dest: set_delivery_log)
next
  case (elsewhere s s')
  then show ?case using log_wf_cong by blast
qed (auto simp: save_task_def create_converted_task_def save_monitor_with_task_event_def result_simps
    split: option.splits if_splits)

text \<open>C31: Event sourcing. However the store is written, the row of a task is the task of its last
  logged event, a task without events does not exist, and so every task on record has a history.\<close>

theorem task_row_replays_log:
  assumes "task_writes s"
  shows "load_task i s = (case timeline i s of [] \<Rightarrow> None | t # ts \<Rightarrow> Some (last (t # ts)))"
proof -
  have "load_task i s = replay i (st_task_events s)"
    using task_writes_log [OF assms] by (simp add: log_wf_def)
  then show ?thesis
    by (cases "filter (\<lambda>e. te_task_id e = i) (st_task_events s)")
      (auto simp: timeline_def replay_def last_map)
qed

theorem task_row_replays_log_witness:
  "load_task 7 (save_task (sample_task\<lparr>task_state := Assessing\<rparr>) ''moved''
     (save_task sample_task ''created'' empty_store)) = Some (sample_task\<lparr>task_state := Assessing\<rparr>)"
  using task_row_replays_log [OF task_writes.saved [OF task_writes.saved [OF task_writes.empty]],
      of 7 "sample_task\<lparr>task_state := Assessing\<rparr>" "''moved''" sample_task "''created''"]
  by (simp add: timeline_def save_task_def empty_store_def sample_task_def)

section \<open>Approvals\<close>

lemma revoked_saves:
  "approval_revoked i s \<Longrightarrow> approval_revoked i (fold (save_approval digest) as s)"
  by (induction as arbitrary: s) (auto intro: save_approval_revoked)

text \<open>C3: Revocation is final. Invalidating the approvals of a task withdraws every approval the task
  has, leaves the approvals of other tasks available, and no approval that was withdrawn becomes
  available again, whatever approvals are saved later, under the same identifiers or others.\<close>

theorem revocation_final:
  assumes "find_row j (st_approvals s) = Some r"
  shows "(aw_task_id r = i \<longrightarrow>
      load_approval j (fold (save_approval digest) as (fst (invalidate_task_approvals now i s))) = None) \<and>
    (aw_task_id r \<noteq> i \<longrightarrow> load_approval j (fst (invalidate_task_approvals now i s)) = load_approval j s)"
proof -
  have "approval_revoked j (fst (invalidate_task_approvals now i s))" if "aw_task_id r = i"
    using assms that by (cases "aw_invalidated_at r") (auto simp: approval_revoked_def invalidate_rows)
  then show ?thesis
    using assms approval_revoked_unavailable [OF revoked_saves]
    by (auto simp: invalidate_task_approvals_spec)
qed

definition sample_approval :: approval where
  "sample_approval = \<lparr>ap_id = 1, ap_class = Merge, ap_capability = CapMergePullRequest,
     ap_fingerprint = \<lparr>fp_task_id = 7, fp_github_repository_id = 11, fp_repository_full_name = ''o/r'',
       fp_action_kind = capability_action_kind CapMergePullRequest, fp_pull_request_number = Some 4,
       fp_branch = None, fp_head_sha = Some sha_a, fp_base_sha = None, fp_payload_sha256 = sha256_c,
       fp_policy_sha256 = sha256_c, fp_instruction_sha256 = sha256_c, fp_invalidation_generation = 1\<rparr>,
     ap_approved_by = ''who'', ap_approved_at = 0, ap_expires_at = 9\<rparr>"

definition approval_store :: store where
  "approval_store = empty_store\<lparr>st_approvals := [(1, \<lparr>aw_task_id = 7, aw_capability = CapMergePullRequest,
     aw_action_digest = [], aw_payload = sample_approval, aw_expires_at = 9, aw_invalidated_at = None\<rparr>)]\<rparr>"

theorem revocation_final_witness:
  "load_approval 1 approval_store = Some sample_approval \<and>
   load_approval 1 (fst (invalidate_task_approvals 5 7 approval_store)) = None"
  using revocation_final [of 1 approval_store _ 7 "\<lambda>_. []" "[]" 5]
  by (simp add: approval_store_def find_row_def load_approval_def)

section \<open>Claims\<close>

text \<open>Preparations. However many requests to prepare arrive, at most one is granted for an
  approval and at most one for a task while none completes; a request is granted exactly when its
  approval is valid for it, was not used before, and the task has no preparation under way.\<close>

theorem one_preparation:
  "grants fst aid (snd (claim_all (prepare jd) requests s)) \<le> 1 \<and>
   grants (\<lambda>a. fst (snd a)) tid (snd (claim_all (prepare jd) requests s)) \<le> 1 \<and>
   (snd (prepare jd (aid, tid, digest, now) s) \<longleftrightarrow>
      preparation_approval_ok jd aid tid digest now s \<and>
      \<not> has_row aid (st_preparations s) \<and> \<not> preparation_active tid s)"
  using approval_register.at_most_one_grant [where s = s and k = aid and as = requests and jd = jd]
    preparation_register.at_most_one_grant [where s = s and k = tid and as = requests and jd = jd]
  by (simp add: prepare_eq)

text \<open>Conversions. A source is converted into a task at most once; asking again returns the task
  it became, and changes nothing.\<close>

theorem converted_once:
  assumes "create_converted_task t key s = Inr (s', t', created)"
  shows "grants snd key (snd (claim_all convert requests s)) \<le> 1 \<and>
    (created \<longrightarrow> t' = t \<and> load_task (task_id t) s' = Some t \<and> \<not> has_row key (st_task_sources s)) \<and>
    create_converted_task u key s' = Inr (s', t', False)"
proof -
  have "created \<longrightarrow> t' = t \<and> load_task (task_id t) s' = Some t \<and> \<not> has_row key (st_task_sources s)"
    and "create_converted_task u key s' = Inr (s', t', False)"
    using assms
    by (auto simp: create_converted_task_def result_simps has_row_def find_row_append_new load_task_def
        ensure_msg_def split: option.splits if_splits)
  then show ?thesis
    using source_register.at_most_one_grant [where s = s and k = key and as = requests] by blast
qed

theorem converted_once_witness:
  "\<exists>s. create_converted_task sample_task ''k'' empty_store = Inr (s, sample_task, True) \<and>
     create_converted_task merge_task ''k'' s = Inr (s, sample_task, False)"
proof -
  obtain s where c: "create_converted_task sample_task ''k'' empty_store = Inr (s, sample_task, True)"
    by (auto simp: create_converted_task_def ensure_msg_def find_row_def has_row_def empty_store_def)
  with converted_once [OF c, of "[]" merge_task] show ?thesis by blast
qed

section \<open>Jobs and restarts\<close>

text \<open>C32: Jobs. In every run of the store, with restarts, the logged states of a job are a path of its
  state machine from the queue to the state of its row, the generation counts the steps, and a job
  that succeeded, failed or was cancelled is moved by no transition and by no restart.\<close>

theorem job_history_path:
  assumes "jobs_reachable s" and "find_row i (st_jobs s) = Some j"
  shows "hd (job_history i s) = JobQueued \<and> last (job_history i s) = job_state j \<and>
    successively job_permits (job_history i s) \<and>
    length (job_history i s) = Suc (unat (job_generation j)) \<and>
    (job_final (job_state j) \<longrightarrow>
      (transition_job now i expected target c summary checkpoint s = Inr (s', granted) \<longrightarrow>
         \<not> granted \<and> s' = s) \<and>
      (recover_interrupted_jobs now s = Inr s'' \<longrightarrow> find_row i (st_jobs s'') = Some j))"
proof -
  have inv: "jobs_inv s" using jobs_reachable_inv [OF assms(1)] .
  then have wf: "table_wf (st_jobs s)" and ok: "job_log_ok s i" by (simp_all add: jobs_inv_def)
  have stays: "\<not> granted \<and> s' = s"
    if f: "job_final (job_state j)" and t: "transition_job now i expected target c summary checkpoint s = Inr (s', granted)"
  proof (cases granted)
    case True
    with t have "transition_job now i expected target c summary checkpoint s = Inr (s', True)" by simp
    from transition_job_granted [OF wf this] obtain j' where
      "find_row i (st_jobs s) = Some j'" "job_state j' = expected" "job_permits expected target" by metis
    then have "job_permits (job_state j) target" using assms(2) by simp
    then show ?thesis using f job_permits_final by blast
  next
    case False
    then show ?thesis
      using t transition_job_refused [OF wf, of now i expected target c summary checkpoint s'] by simp
  qed
  have "find_row i (st_jobs s'') = Some j" if "job_final (job_state j)" "recover_interrupted_jobs now s = Inr s''"
    using recover_interrupted_row [OF wf that(2), of i] that(1) assms(2)
    by (auto simp: recovered_def recoverable_def job_final_def)
  with stays ok assms(2) show ?thesis by (auto simp: job_log_ok_def)
qed

definition sample_job :: job where
  "sample_job = \<lparr>job_id = 1, job_kind = GitHubSync, job_task_id = None, job_state = JobQueued,
     job_cancellation = NotRequested, job_summary = ''Fix'', job_checkpoint = None, job_created_at = 0,
     job_updated_at = 0, job_generation = 0\<rparr>"

lemma sample_summary: "is_summary ''Fix''"
  by (simp add: is_summary_def max_summary_bytes_def summary_markers_def contains_sub_short)

lemma sample_job_new: "job_new 1 0 GitHubSync None ''Fix'' = Inr sample_job"
  by (simp add: job_new_def validate_summary_ok [of _ "''Fix''", THEN iffD2] sample_summary sample_job_def)

definition job_store :: store where
  "job_store = empty_store\<lparr>st_jobs := [(1, sample_job)], st_job_events := [job_event_of 1 JobQueued ''Fix'' None 0]\<rparr>"

lemma job_store_reachable: "jobs_reachable job_store"
proof (rule jobs_reachable.created [OF jobs_reachable.none sample_job_new])
  show "create_job sample_job empty_store = Inr job_store"
    by (simp add: create_job_def insert_new_def has_row_def find_row_def sql_u64_def sample_job_def
        job_store_def empty_store_def)
qed

theorem job_history_path_witness:
  "job_history 1 job_store = [JobQueued] \<and> last (job_history 1 job_store) = job_state sample_job"
proof -
  have "find_row 1 (st_jobs job_store) = Some sample_job" by (simp add: job_store_def find_row_def)
  from job_history_path [OF job_store_reachable this, of 0 JobQueued JobRunning NotRequested "[]" None job_store False job_store]
  show ?thesis by (simp add: job_history_def job_store_def job_event_of_def)
qed

text \<open>Restart. Opening a store closes every preparation that was under way, interrupts exactly
  the jobs that were running or being cancelled, and leaves tasks, approvals and delivery claims as
  they were, so a claimed delivery is not made again; opening it once more changes no job.\<close>

theorem reopened_store:
  assumes "table_wf (st_jobs s)" and "open_store now s = Inr s'"
  shows "\<not> preparation_active i s' \<and>
    (find_row k (st_jobs s') = map_option (recovered now) (find_row k (st_jobs s))) \<and>
    (\<forall>j. find_row k (st_jobs s') = Some j \<longrightarrow> job_state j \<noteq> JobRunning \<and> job_state j \<noteq> JobCancelling) \<and>
    st_tasks s' = st_tasks s \<and> st_approvals s' = st_approvals s \<and> st_deliveries s' = st_deliveries s \<and>
    (open_store later s' = Inr s'' \<longrightarrow> find_row k (st_jobs s'') = find_row k (st_jobs s'))"
proof -
  let ?r = "recover_interrupted_preparations now s"
  have o: "recover_interrupted_jobs now ?r = Inr s'" using assms(2) by (simp add: open_store_def)
  have frame: "st_preparations s' = st_preparations ?r" "st_deliveries s' = st_deliveries ?r"
    "st_approvals s' = st_approvals ?r" "st_tasks s' = st_tasks ?r"
    using o recover_jobs_frame unfolding recover_interrupted_jobs_def by blast+
  have same: "st_jobs ?r = st_jobs s" "st_deliveries ?r = st_deliveries s" "st_approvals ?r = st_approvals s"
    "st_tasks ?r = st_tasks s" by (simp_all add: recover_interrupted_preparations_def)
  have rows: "find_row k (st_jobs s') = map_option (recovered now) (find_row k (st_jobs s))" for k
    using recover_interrupted_row [OF _ o] assms(1) same by simp
  have wf': "table_wf (st_jobs s')"
    using recover_jobs_wf [of "recover_interrupted_preparations now s" now _ s'] o assms(1) same
    by (simp add: recover_interrupted_jobs_def)
  have again: "find_row k (st_jobs s'') = find_row k (st_jobs s')" if "open_store later s' = Inr s''"
  proof -
    have r: "st_jobs (recover_interrupted_preparations later s') = st_jobs s'"
      by (simp add: recover_interrupted_preparations_def)
    have "find_row k (st_jobs s'') = map_option (recovered later) (find_row k (st_jobs s'))"
      using recover_interrupted_row [of "recover_interrupted_preparations later s'" later s''] that wf'
      by (simp add: open_store_def r)
    then show ?thesis
      using recovered_not_recoverable by (auto simp: rows option.map_comp recovered_def [of later] intro!: option.map_cong)
  qed
  have "\<not> preparation_active i s'"
    using recover_preparations_idle frame(1) by (simp add: preparation_active_def)
  moreover have "\<forall>j. find_row k (st_jobs s') = Some j \<longrightarrow> job_state j \<noteq> JobRunning \<and> job_state j \<noteq> JobCancelling"
    using recovered_not_recoverable by (auto simp: rows recoverable_def)
  ultimately show ?thesis using rows frame same again by simp
qed

theorem reopened_store_witness:
  "\<exists>s. open_store 5 job_store = Inr s \<and> find_row 1 (st_jobs s) = Some sample_job"
proof -
  have wf: "table_wf (st_jobs job_store)" by (simp add: job_store_def table_wf_def)
  obtain s where o: "open_store 5 job_store = Inr s"
    by (auto simp: open_store_def recover_interrupted_jobs_def recover_interrupted_preparations_def
        recoverable_jobs_def matching_def recoverable_def job_store_def sample_job_def)
  from reopened_store [OF wf o, of 1 1] show ?thesis
    using o by (auto simp: job_store_def find_row_def recovered_def recoverable_def sample_job_def)
qed

section \<open>Codex sessions\<close>

text \<open>Runs of the operations that write the Codex tables.\<close>

inductive codex_life :: "store \<Rightarrow> bool" where
  empty: "codex_life empty_store"
| appended: "codex_life s \<Longrightarrow> append_codex_event now session draft s = Inr (s', session') \<Longrightarrow> codex_life s'"
| checkpointed: "codex_life s \<Longrightarrow> checkpoint_codex_session now session kind summary s = Inr (s', session') \<Longrightarrow>
     codex_life s'"
| approved: "codex_life s \<Longrightarrow> save_codex_runtime_approval a s = Inr s' \<Longrightarrow> codex_life s'"
| elsewhere: "codex_life s \<Longrightarrow> st_codex_events s' = st_codex_events s \<Longrightarrow>
     st_codex_sessions s' = st_codex_sessions s \<Longrightarrow> st_runtime_approvals s' = st_runtime_approvals s \<Longrightarrow>
     codex_life s'"

lemma codex_wf_cong:
  "st_codex_events s' = st_codex_events s \<Longrightarrow> st_codex_sessions s' = st_codex_sessions s \<Longrightarrow> codex_wf s' = codex_wf s"
  by (simp add: codex_wf_def numbered_def sequences_def load_codex_session_def)

lemma append_keeps_approvals:
  "append_codex_event now session draft s = Inr (s', session') \<Longrightarrow> st_runtime_approvals s' = st_runtime_approvals s"
  by (auto simp: append_codex_event_def upsert_codex_session_def and_then_eq_Inr Let_def)

lemma runtime_unique_cong: "st_runtime_approvals s' = st_runtime_approvals s \<Longrightarrow> runtime_unique s' = runtime_unique s"
  by (simp add: runtime_unique_def)

lemma codex_life_inv: "codex_life s \<Longrightarrow> codex_wf s \<and> runtime_unique s"
proof (induction rule: codex_life.induct)
  case empty
  then show ?case by (simp add: codex_wf_empty) (simp add: runtime_unique_def empty_store_def)
next
  case (appended s now session draft s' session')
  then show ?case
    using append_codex_event_wf append_keeps_approvals runtime_unique_cong by blast
next
  case (checkpointed s now session kind summary s' session')
  then show ?case
    unfolding checkpoint_codex_session_def
    using append_codex_event_wf append_keeps_approvals runtime_unique_cong by blast
next
  case (approved s a s')
  then have "st_codex_events s' = st_codex_events s" "st_codex_sessions s' = st_codex_sessions s"
    by (auto simp: save_codex_runtime_approval_def split: if_splits)
  then show ?case using approved save_runtime_unique codex_wf_cong by blast
next
  case (elsewhere s s')
  then show ?case using codex_wf_cong runtime_unique_cong by blast
qed

lemma events_sequences:
  assumes "codex_wf s"
  shows "map ce_sequence (task_events_of i s) = sequences i s"
proof -
  have "ce_sequence e = n" if "((t, n), e) \<in> set (st_codex_events s)" for t n e
    using assms that by (fastforce simp: codex_wf_def)
  then show ?thesis by (auto simp: task_events_of_def sequences_def)
qed

lemma filter_greater_upt: "filter (\<lambda>n. k < n) (map Suc [0..<m]) = [Suc k..<Suc m]"
proof (induction m)
  case (Suc m)
  then show ?case by (cases "k < Suc m") auto
qed simp

text \<open>C36: The event log of a session. In every run, reading the events of a task after number \<open>k\<close> gives
  exactly the events numbered from \<open>k + 1\<close> to the number the session's record has, in order and
  without a gap; and no two runtime approvals are for the same request of the same process.\<close>

theorem codex_log_complete:
  assumes "codex_life s" and "load_codex_session i s = Some c" and "codex_events i after s = Inr es"
  shows "map (unat \<circ> ce_sequence) es = [Suc (unat after)..<Suc (unat (cs_last_sequence c))] \<and>
    inj_on (\<lambda>(_, r). runtime_request r) (set (st_runtime_approvals s))"
proof -
  have wf: "codex_wf s" "runtime_unique s" using codex_life_inv [OF assms(1)] by auto
  let ?n = "length (sequences i s)" and ?es = "task_events_of i s"
  have seq: "map unat (sequences i s) = map Suc [0..<?n]" "unat (cs_last_sequence c) = ?n"
    using wf(1) assms(2) by (simp_all add: codex_wf_def numbered_def)
  have m: "map (unat \<circ> ce_sequence) ?es = map Suc [0..<?n]"
    using seq(1) unfolding events_sequences [OF wf(1), symmetric] by simp
  have "sorted (map unat (map ce_sequence ?es))" using m by (simp add: sorted_map comp_def)
  then have "sorted (map ce_sequence ?es)"
    by (simp add: sorted_map word_le_nat_alt)
  then have sorted: "sorted (map ce_sequence (filter (\<lambda>e. after < ce_sequence e) ?es))"
    by (rule sorted_filter)
  have "es = filter (\<lambda>e. after < ce_sequence e) ?es"
    using assms(3) sort_key_id_if_sorted [OF sorted] by (auto simp: codex_events_def and_then_eq_Inr sql_u64_ok)
  then have "map (unat \<circ> ce_sequence) es = filter (\<lambda>n. unat after < n) (map (unat \<circ> ce_sequence) ?es)"
    by (simp add: filter_map comp_def word_less_nat_alt)
  then show ?thesis using wf(2) m seq(2) filter_greater_upt by (simp add: runtime_unique_def)
qed

definition sample_session :: codex_session where
  "sample_session = \<lparr>cs_task_id = 7, cs_process_generation = 1, cs_protocol_version = ''2'',
     cs_executable_version = ''1'', cs_account_state = SignedIn, cs_thread_id = Some ''t'',
     cs_last_turn_id = None, cs_last_sequence = 0, cs_status = SessionReady, cs_updated_at = 0\<rparr>"

theorem codex_log_complete_witness:
  "\<exists>s c es. append_codex_event 5 sample_session (status_draft ''ready'' ''Fix'') empty_store = Inr (s, c) \<and>
     codex_events 7 0 s = Inr es \<and> map (unat \<circ> ce_sequence) es = [1]"
proof -
  have m: "max_sequence 7 empty_store = 0" by (simp add: max_sequence_def empty_store_def)
  have "trim ''ready'' = ''ready''" "\<not> any_char is_control ''ready''"
    by (rule trim_word graphic_clean; simp add: is_ascii_graphic_def)+
  then have k: "validate_codex_event_kind ''ready'' = Inr ''ready''" "validate_summary ''Fix'' = Inr ''Fix''"
    using sample_summary by (simp_all add: valid_simps)
  have "\<exists>r. append_codex_event 5 sample_session (status_draft ''ready'' ''Fix'') empty_store = Inr r"
    by (simp add: append_codex_event_def status_draft_def sample_session_def m k
        sql_u64_def upsert_codex_session_def insert_new_def has_row_def Let_def)
      (simp add: empty_store_def find_row_def)
  then obtain s c where a: "append_codex_event 5 sample_session (status_draft ''ready'' ''Fix'') empty_store = Inr (s, c)"
    by (metis surj_pair)
  note ok = append_codex_event_ok [OF a refl]
  have c: "load_codex_session 7 s = Some c" "unat (cs_last_sequence c) = 1"
    using ok m by (simp_all add: load_codex_session_def sample_session_def)
  obtain es where es: "codex_events 7 0 s = Inr es" by (simp add: codex_events_def sql_u64_def)
  from codex_log_complete [OF codex_life.appended [OF codex_life.empty a] c(1) es] c(2) a es
  show ?thesis by (auto simp: upt_rec)
qed

text \<open>Entering implementation. A task is moved into implementing by this operation exactly when
  its row is preparing and a ready session of the same process and thread is on record for it; the
  new row and its checkpoint are then stored together, and the operation cannot be repeated.\<close>

theorem implementing_gate:
  "(is_ok (enter_implementing_with_codex t c session s) \<longleftrightarrow>
      task_state t = Implementing \<and> cp_task_id c = task_id t \<and> cp_state c = Implementing \<and>
      is_summary (trim (cp_summary c)) \<and> \<not> has_row (cp_id c) (st_checkpoints s) \<and>
      map_option task_state (load_task (task_id t) s) = Some Preparing \<and>
      cs_task_id session = task_id t \<and> cs_status session = SessionReady \<and> cs_thread_id session \<noteq> None \<and>
      map_option (\<lambda>r. (cs_process_generation r, cs_status r, cs_thread_id r)) (load_codex_session (task_id t) s) =
        Some (cs_process_generation session, SessionReady, cs_thread_id session)) \<and>
   (case enter_implementing_with_codex t c session s of Inl _ \<Rightarrow> True
    | Inr s' \<Rightarrow> load_task (task_id t) s' = Some t \<and> find_row (cp_id c) (st_checkpoints s') = Some c \<and>
        st_codex_sessions s' = st_codex_sessions s \<and> st_approvals s' = st_approvals s \<and>
        (task_id u = task_id t \<longrightarrow> \<not> is_ok (enter_implementing_with_codex u d other s')))"
proof -
  have "is_ok (enter_implementing_with_codex t c session s) \<longleftrightarrow>
      task_state t = Implementing \<and> cp_task_id c = task_id t \<and> cp_state c = Implementing \<and>
      is_summary (trim (cp_summary c)) \<and> \<not> has_row (cp_id c) (st_checkpoints s) \<and>
      map_option task_state (load_task (task_id t) s) = Some Preparing \<and>
      cs_task_id session = task_id t \<and> cs_status session = SessionReady \<and> cs_thread_id session \<noteq> None \<and>
      map_option (\<lambda>r. (cs_process_generation r, cs_status r, cs_thread_id r)) (load_codex_session (task_id t) s) =
        Some (cs_process_generation session, SessionReady, cs_thread_id session)"
    by (auto simp: is_ok_iff enter_implementing_ok)
  moreover have "load_task (task_id t) s' = Some t \<and> find_row (cp_id c) (st_checkpoints s') = Some c \<and>
      st_codex_sessions s' = st_codex_sessions s \<and> st_approvals s' = st_approvals s \<and>
      (task_id u = task_id t \<longrightarrow> \<not> is_ok (enter_implementing_with_codex u d other s'))"
    if "enter_implementing_with_codex t c session s = Inr s'" for s'
    using that by (auto simp: enter_implementing_ok is_ok_iff load_task_def has_row_def find_row_append_new)
  ultimately show ?thesis by (auto split: sum.split)
qed

definition prepared_store :: store where
  "prepared_store = empty_store\<lparr>st_tasks := [(7, sample_task\<lparr>task_state := Preparing\<rparr>)],
     st_codex_sessions := [(7, sample_session)]\<rparr>"

definition implementing_checkpoint :: task_checkpoint where
  "implementing_checkpoint = \<lparr>cp_id = 1, cp_task_id = 7, cp_state = Implementing, cp_summary = ''Fix'',
     cp_occurred_at = 0\<rparr>"

theorem implementing_gate_witness:
  "\<exists>s. enter_implementing_with_codex (sample_task\<lparr>task_state := Implementing\<rparr>) implementing_checkpoint
      sample_session prepared_store = Inr s \<and>
     \<not> is_ok (enter_implementing_with_codex (sample_task\<lparr>task_state := Implementing\<rparr>) implementing_checkpoint
       sample_session s)"
proof -
  let ?enter = "enter_implementing_with_codex (sample_task\<lparr>task_state := Implementing\<rparr>) implementing_checkpoint sample_session"
  note gate = implementing_gate [of "sample_task\<lparr>task_state := Implementing\<rparr>" implementing_checkpoint
      sample_session prepared_store "sample_task\<lparr>task_state := Implementing\<rparr>" implementing_checkpoint sample_session]
  have "is_ok (?enter prepared_store)"
    using gate sample_summary
    by (simp add: prepared_store_def implementing_checkpoint_def sample_session_def sample_task_def
        load_task_def load_codex_session_def find_row_def has_row_def empty_store_def)
  then obtain s where s: "?enter prepared_store = Inr s" by (auto simp: is_ok_iff)
  then show ?thesis using gate by simp
qed

section \<open>Webhooks\<close>

lemma wake_keys: "map fst (fst (fold (wake_monitor now) ms (rows, n))) = map fst rows"
proof (induction ms arbitrary: rows n)
  case (Cons m ms)
  obtain rows' n' where w: "wake_monitor now m (rows, n) = (rows', n')" by (metis surj_pair)
  then have "map fst rows' = map fst rows"
    by (auto simp: wake_monitor_def split: if_splits prod.splits)
  then show ?case using Cons.IH by (simp add: w)
qed simp

lemma woken_row_ok: "monitor_row_ok k r \<Longrightarrow> monitor_row_ok k (woken_row now r)"
proof -
  assume r: "monitor_row_ok k r"
  have t: "same_target (mw_payload r) (snd (monitor_wake now (mw_payload r)))"
    by (simp add: monitor_wake_def same_target_def)
  then have "woken_row now r = monitor_row_of (snd (monitor_wake now (mw_payload r)))"
    unfolding woken_row_def using set_monitor_same_target [OF r] by blast
  then show ?thesis using r t by (simp add: monitor_row_ok_def monitor_row_of_def same_target_def)
qed

text \<open>Webhooks. A forwarded webhook is ingested at most once for each delivery id; an ingestion
  makes due exactly the pending monitors of its repository and, when it names one, of its pull
  request, counts them, changes no other monitor and no task, and keeps the rows in agreement with
  the monitors they hold; a repeated or refused one changes nothing.\<close>

theorem webhook_wakes:
  assumes "monitors_wf s" and "ingest_github_webhook parse now d s = Inr (s', inserted, woken)"
  shows "grants (\<lambda>a. fw_delivery_id (snd a)) i (snd (claim_all (ingest parse) requests s)) \<le> 1 \<and>
    (inserted \<longleftrightarrow> \<not> has_row (fw_delivery_id d) (st_webhooks s)) \<and>
    (if inserted then
       woken = length (filter (\<lambda>(_, r). webhook_selects (fw_envelope d) r) (st_monitors s)) \<and>
       load_monitor k s' = map_option (\<lambda>m. if webhook_selects (fw_envelope d) (monitor_row_of m)
         then snd (monitor_wake now m) else m) (load_monitor k s) \<and>
       st_tasks s' = st_tasks s \<and> monitors_wf s'
     else s' = s \<and> woken = 0)"
proof -
  note wf = assms(1)
  have t: "table_wf (st_monitors s)" using wf by (simp add: monitors_wf_def)
  have c1: "grants (\<lambda>a. fw_delivery_id (snd a)) i (snd (claim_all (ingest parse) requests s)) \<le> 1"
    by (rule webhook_register.at_most_one_grant) simp
  note ok = ingest_ok [OF assms(2)]
  have c2: "woken = length (filter (\<lambda>(_, r). webhook_selects (fw_envelope d) r) (st_monitors s)) \<and>
       load_monitor k s' = map_option (\<lambda>m. if webhook_selects (fw_envelope d) (monitor_row_of m)
         then snd (monitor_wake now m) else m) (load_monitor k s) \<and>
       st_tasks s' = st_tasks s \<and> monitors_wf s'" if inserted
  proof -
    have i: "ingest_github_webhook parse now d s = Inr (s', True, woken)" using assms(2) that by simp
    note w = ingest_wakes_selected [OF wf i]
    have row: "r = monitor_row_of (mw_payload r)" if "find_row k (st_monitors s) = Some r" for r k
      using wf that by (simp add: monitors_wf_def monitor_row_ok_def)
    have "load_monitor k s' = map_option (\<lambda>m. if webhook_selects (fw_envelope d) (monitor_row_of m)
         then snd (monitor_wake now m) else m) (load_monitor k s)"
      using row [of k] w(2) [of k]
      by (cases "find_row k (st_monitors s)") (auto simp: load_monitor_def woken_row_def set_monitor_def)
    moreover have "woken = length (filter (\<lambda>(_, r). webhook_selects (fw_envelope d) r) (st_monitors s))"
      using w(1) by (simp add: selected_monitors_def matching_def)
    moreover have "st_tasks s' = st_tasks s"
      using i by (auto simp: ingest_github_webhook_def and_then_eq_Inr Let_def split: if_splits prod.splits)
    moreover have "map fst (st_monitors s') = map fst (st_monitors s)"
      using ok that wake_keys by (metis fst_conv)
    then have "table_wf (st_monitors s')" using t by (simp add: table_wf_def)
    then have "monitors_wf s'"
      using wf w(2) woken_row_ok by (auto simp: monitors_wf_def)
    ultimately show ?thesis by blast
  qed
  show ?thesis using c1 c2 ok by auto
qed

definition sample_webhook :: forwarded_webhook where
  "sample_webhook = \<lparr>fw_delivery_id = ''main'', fw_envelope = \<lparr>we_schema_version = 1, we_event = ''make'',
     we_action = ''test'', we_repository_id = Some 11, we_repository_full_name = Some ''o/r'',
     we_entity_number = Some 4, we_entity_id = None\<rparr>, fw_payload_sha256 = sha256_c, fw_received_at = ''t''\<rparr>"

lemma sample_webhook_valid: "validate_forwarded_webhook (\<lambda>_. Some 0) sample_webhook = Inr ()"
proof -
  have "split_once CHR ''/'' ''o/r'' = Some (''o'', ''r'')" by (simp add: split_once_Some)
  moreover have "\<not> any_char is_whitespace ''o/r''" by (rule graphic_clean(1)) (simp add: is_ascii_graphic_def)
  ultimately show ?thesis
    by (simp add: validate_forwarded_webhook_def sample_webhook_def token_ok_def webhook_repository_ok_def
        ensure_msg_def Let_def)
qed

definition watched_store :: store where
  "watched_store = empty_store\<lparr>st_monitors := [(9, monitor_row_of sample_monitor)]\<rparr>"

theorem webhook_wakes_witness:
  "\<exists>s. ingest_github_webhook (\<lambda>_. Some 0) 5 sample_webhook watched_store = Inr (s, True, 1) \<and>
     map_option mon_next_attempt_at (load_monitor 9 s) = Some (Some 5)"
proof -
  have wf: "monitors_wf watched_store"
    by (auto simp: monitors_wf_def watched_store_def monitor_row_ok_def monitor_row_of_def sample_monitor_def
        table_wf_def find_row_def)
  have "\<exists>r. ingest_github_webhook (\<lambda>_. Some 0) 5 sample_webhook watched_store = Inr r"
    using sample_webhook_valid
    by (simp add: ingest_github_webhook_def sample_webhook_def Let_def split_def sql_u64_def)
      (metis (full_types))
  then obtain s inserted woken where
    i: "ingest_github_webhook (\<lambda>_. Some 0) 5 sample_webhook watched_store = Inr (s, inserted, woken)"
    by (metis surj_pair)
  have "webhook_selects (fw_envelope sample_webhook) (monitor_row_of sample_monitor)"
    by (simp add: webhook_selects_def sample_webhook_def monitor_row_of_def sample_monitor_def)
  moreover have "mon_state sample_monitor = MonPending" by (simp add: sample_monitor_def)
  moreover have "load_monitor 9 watched_store = Some sample_monitor" "\<not> has_row k (st_webhooks watched_store)" for k
    by (simp_all add: load_monitor_def watched_store_def find_row_def has_row_def monitor_row_of_def empty_store_def)
  moreover have "st_monitors watched_store = [(9, monitor_row_of sample_monitor)]" by (simp add: watched_store_def)
  ultimately have "inserted" "woken = 1" "map_option mon_next_attempt_at (load_monitor 9 s) = Some (Some 5)"
    using webhook_wakes [OF wf i, of "''main''" "[]" 9] by (auto simp: monitor_wake_def)
  with i show ?thesis by simp
qed

end
