(* ===== verification/Delivery.thy ===== *)
theory Delivery
  imports Store_Claims GitHub_Actions
begin

text \<open>
  \<open>crates/patchwright-engine/src/delivery.rs\<close>: the delivery of an approved action to GitHub, from
  the preview and its approval to the claim, the outcome and the reconciliation with a fresh
  snapshot. What is not under the sources is the record \<open>delivery_env\<close>: SHA-256 and the JSON
  encoders, the reading of a stored result's state, the printing of a task id, the head that
  \<open>RepositoryService::inspect\<close> reads with git, and the environment variable of the kill switch. The
  clock is read once in an operation (\<open>now\<close>).
\<close>

datatype reconcile_result = ReconcileFailed string | ReconcileSucceeded "string option"

record delivery_env =
  sha256 :: "string \<Rightarrow> string"
  json_digests :: "instruction_digest list \<Rightarrow> string option"
  fingerprint_digest :: "action_fingerprint \<Rightarrow> string"
  show_task_id :: "uuid \<Rightarrow> string"
  inspect_head :: "string \<Rightarrow> string option"
  json_state :: "string \<Rightarrow> string option"
  pick_row :: "string list \<Rightarrow> string"
  json_result :: "reconcile_result \<Rightarrow> string"
  kill_switch :: "string option"

datatype delivery_error =
    DeliveryTaskMissing | DeliveryContractMissing | DeliveryTaskStateInvalid
  | DeliveryCapabilityNotDeclared | DeliveryBindingMissing | DeliveryBindingMismatch
  | DeliveryRemoteMismatch | DeliveryActionTargetMismatch | DeliveryBranchMismatch
  | DeliveryPreconditionMismatch | DeliverySourceMismatch | DeliveryRemoteItemMissing
  | DeliveryRemoteNotCompleted | DeliveryFingerprintInvalid | DeliveryPreviewStale
  | DeliveryApprovalMissing | DeliveryApprovalInvalid | DeliveryPolicyDenied
  | DeliveryAlreadyClaimed | DeliverySerialization
  | DeliveryStore store_error | DeliveryTask validation_error | DeliveryUnreconcilable task_state

record delivery_preview =
  dp_task_id :: uuid
  dp_action :: github_action_preview
  dp_fingerprint :: action_fingerprint

section \<open>The preview\<close>

definition merges :: "capability \<Rightarrow> bool" where
  "merges c \<longleftrightarrow> c = CapMergePullRequest \<or> c = CapEnqueuePullRequest"

definition expected_task_state :: "capability \<Rightarrow> task_state" where
  "expected_task_state c = (if merges c then AwaitingMergeApproval else AwaitingDeliveryApproval)"

text \<open>An action about an existing item may only target an item of its kind.\<close>

definition item_action :: "github_action \<Rightarrow> bool" where
  "item_action a = (case a of
       Comment _ _ \<Rightarrow> True | Review _ _ _ _ _ \<Rightarrow> True | ResolveReviewThread _ _ _ \<Rightarrow> True
     | UpdatePullRequestBranch _ _ \<Rightarrow> True | ReadyPullRequest _ _ \<Rightarrow> True
     | ClosePullRequest _ _ \<Rightarrow> True | CloseIssue _ \<Rightarrow> True | EnqueuePullRequest _ _ \<Rightarrow> True
     | MergePullRequest _ _ _ \<Rightarrow> True | _ \<Rightarrow> False)"

definition action_fits_source :: "github_action \<Rightarrow> task_source \<Rightarrow> bool" where
  "action_fits_source a source = (case source of
       GitHubIssue _ \<Rightarrow> (case a of CloseIssue _ \<Rightarrow> True | Comment _ _ \<Rightarrow> True | _ \<Rightarrow> \<not> item_action a)
     | GitHubPullRequest _ \<Rightarrow> (case a of CloseIssue _ \<Rightarrow> False | _ \<Rightarrow> True)
     | _ \<Rightarrow> \<not> item_action a)"

definition prepared_branch :: "delivery_env \<Rightarrow> uuid \<Rightarrow> string" where
  "prepared_branch env i = ''patchwright/'' @ show_task_id env i"

definition validate_action_target :: "delivery_env \<Rightarrow> task_contract \<Rightarrow> repository_binding \<Rightarrow> uuid \<Rightarrow>
    github_action \<Rightarrow> delivery_error + unit" where
  "validate_action_target env contract binding i a =
     (let source_number = source_item_number (tc_source contract);
          action_number = action_pull_request_number a in
      if action_number \<noteq> None \<and> action_number \<noteq> source_number
      then Inl DeliveryActionTargetMismatch
      else if \<not> action_fits_source a (tc_source contract) then Inl DeliveryActionTargetMismatch
      else if (case action_branch a of None \<Rightarrow> False | Some b \<Rightarrow> b \<noteq> prepared_branch env i)
      then Inl DeliveryBranchMismatch
      else case a of
        DraftPullRequest _ _ base _ _ _ \<Rightarrow>
          if base \<noteq> rb_default_branch binding then Inl DeliveryBranchMismatch else Inr ()
      | _ \<Rightarrow> Inr ())"

definition bound_matches :: "string option \<Rightarrow> string option \<Rightarrow> string option \<Rightarrow> bool" where
  "bound_matches expected bound contract_sha = (case expected of
       Some sha \<Rightarrow> bound = Some sha \<and> (contract_sha = None \<or> contract_sha = Some sha)
     | None \<Rightarrow> bound = None)"

definition validate_bound_preconditions ::
  "github_action_preview \<Rightarrow> task_contract \<Rightarrow> delivery_error + unit" where
  "validate_bound_preconditions p contract =
     (if bound_matches (action_expected_head_sha (gp_action p))
           (rp_expected_head_sha (gp_precondition p)) (tc_head_sha contract) \<and>
         bound_matches (action_expected_base_sha (gp_action p))
           (rp_expected_base_sha (gp_precondition p)) (tc_base_sha contract)
      then Inr () else Inl DeliveryPreconditionMismatch)"

definition validate_action_sha ::
  "delivery_env \<Rightarrow> task \<Rightarrow> task_contract \<Rightarrow> github_action \<Rightarrow> delivery_error + unit" where
  "validate_action_sha env t contract a = (case a of
       CreateBranch _ from_sha \<Rightarrow>
         ensure (tc_base_sha contract = Some from_sha) DeliveryPreconditionMismatch
     | CheckRun _ head_sha _ _ \<Rightarrow>
         and_then (case tc_head_sha contract of Some head \<Rightarrow> Inr head
           | None \<Rightarrow> ok_or (inspect_head env (task_repository_path t)) DeliveryPreconditionMismatch)
           (\<lambda>expected. ensure (head_sha = expected) DeliveryPreconditionMismatch)
     | _ \<Rightarrow> Inr ())"

definition preview_fingerprint ::
  "delivery_env \<Rightarrow> uuid \<Rightarrow> github_action_preview \<Rightarrow> string \<Rightarrow> action_fingerprint" where
  "preview_fingerprint env i p digests = \<lparr>fp_task_id = i,
     fp_github_repository_id = ri_repository_id (gp_remote p),
     fp_repository_full_name = ri_repository_full_name (gp_remote p),
     fp_action_kind = action_kind (gp_action p),
     fp_pull_request_number = action_pull_request_number (gp_action p),
     fp_branch = action_branch (gp_action p),
     fp_head_sha = rp_expected_head_sha (gp_precondition p),
     fp_base_sha = rp_expected_base_sha (gp_precondition p),
     fp_payload_sha256 = gp_payload_sha256 p,
     fp_policy_sha256 = sha256 env ''patchwright-policy-v1'',
     fp_instruction_sha256 = sha256 env digests,
     fp_invalidation_generation = rp_snapshot_generation (gp_precondition p)\<rparr>"

definition preview_delivery ::
  "delivery_env \<Rightarrow> uuid \<Rightarrow> github_action_preview \<Rightarrow> store \<Rightarrow> delivery_error + delivery_preview" where
  "preview_delivery env i p s =
     and_then (ok_or (load_task i s) DeliveryTaskMissing) (\<lambda>t.
     and_then (map_err DeliveryStore (load_task_contract i s)) (\<lambda>c.
     and_then (ok_or c DeliveryContractMissing) (\<lambda>contract.
     let c = action_capability (gp_action p) in
     and_then (ensure (task_state t = expected_task_state c) DeliveryTaskStateInvalid) (\<lambda>_.
     and_then (ensure (c \<in> set (tc_required_capabilities contract)) DeliveryCapabilityNotDeclared) (\<lambda>_.
     and_then (ok_or (task_repository_binding_id t) DeliveryBindingMissing) (\<lambda>binding_id.
     and_then (ensure (binding_id = tc_repository_binding_id contract) DeliveryBindingMismatch) (\<lambda>_.
     and_then (ok_or (repository_binding binding_id s) DeliveryBindingMissing) (\<lambda>binding.
     and_then (ensure (ri_repository_id (gp_remote p) = rb_github_repository_id binding \<and>
         ri_installation_id (gp_remote p) = rb_installation_id binding \<and>
         ri_repository_full_name (gp_remote p) = rb_full_name binding) DeliveryRemoteMismatch) (\<lambda>_.
     and_then (ensure (source_repository_id (tc_source contract) \<in> {None, Some (rb_github_repository_id binding)} \<and>
         source_repository_full_name (tc_source contract) \<in> {None, Some (rb_full_name binding)})
       DeliverySourceMismatch) (\<lambda>_.
     and_then (validate_action_target env contract binding i (gp_action p)) (\<lambda>_.
     and_then (validate_bound_preconditions p contract) (\<lambda>_.
     and_then (validate_action_sha env t contract (gp_action p)) (\<lambda>_.
     and_then (ok_or (json_digests env (tc_instruction_digests contract)) DeliverySerialization) (\<lambda>digests.
     and_then (map_err (\<lambda>_. DeliveryFingerprintInvalid)
       (fingerprint_try_from (preview_fingerprint env i p digests))) (\<lambda>fp.
     Inr \<lparr>dp_task_id = i, dp_action = p, dp_fingerprint = fp\<rparr>)))))))))))))))"

section \<open>Approval and execution\<close>

definition approve_delivery :: "delivery_env \<Rightarrow> uuid \<Rightarrow> timestamp \<Rightarrow> delivery_preview \<Rightarrow> string \<Rightarrow>
    store \<Rightarrow> delivery_error + store \<times> approval" where
  "approve_delivery env fresh now preview approved_by s =
     and_then (preview_delivery env (dp_task_id preview) (dp_action preview) s) (\<lambda>current.
     and_then (ensure (current = preview) DeliveryPreviewStale) (\<lambda>_.
     let c = action_capability (gp_action (dp_action preview));
         cls = (if merges c then Merge else GitHubDelivery) in
     and_then (map_err (\<lambda>_. DeliveryApprovalInvalid)
       (new_approval fresh cls c (dp_fingerprint preview) approved_by now (now + minutes 10))) (\<lambda>a.
     Inr (save_approval (fingerprint_digest env) a s, a))))"

definition decision_result :: "policy_decision \<Rightarrow> delivery_error + unit" where
  "decision_result decision = (case decision of
       Allowed \<Rightarrow> Inr ()
     | ApprovalRequired _ \<Rightarrow> Inl DeliveryApprovalInvalid
     | Denied _ \<Rightarrow> Inl DeliveryPolicyDenied)"

definition authorize_execution :: "delivery_env \<Rightarrow> timestamp \<Rightarrow> delivery_preview \<Rightarrow> uuid \<Rightarrow> store \<Rightarrow>
    delivery_error + store \<times> string" where
  "authorize_execution env now preview approval_id s =
     and_then (preview_delivery env (dp_task_id preview) (dp_action preview) s) (\<lambda>current.
     and_then (ensure (current = preview) DeliveryPreviewStale) (\<lambda>_.
     and_then (ok_or (load_approval approval_id s) DeliveryApprovalMissing) (\<lambda>a.
     let c = action_capability (gp_action (dp_action preview)) in
     and_then (decision_result
       (authorize (policy_default (kill_switch env)) c (dp_fingerprint preview) (Some a) now)) (\<lambda>_.
     let key = gp_idempotency_sha256 (dp_action preview) in
     and_then (if merges c
         then and_then (ok_or (load_task (dp_task_id preview) s) DeliveryTaskMissing) (\<lambda>t.
           and_then (map_err DeliveryTask (transition now Merging t)) (\<lambda>t.
           Inr (Some (t, ''Approved merge execution started''))))
         else Inr None) (\<lambda>task_event.
     let (s', claimed) = claim_delivery_with_task_event (json_state env) now key task_event s in
     and_then (ensure claimed DeliveryAlreadyClaimed) (\<lambda>_. Inr (s', key)))))))"

section \<open>Outcomes\<close>

text \<open>Steps of a lifecycle from the task's state on, each a task event.\<close>

primrec advance_through ::
  "timestamp \<Rightarrow> (task_state \<times> string) list \<Rightarrow> task \<Rightarrow> validation_error + (task \<times> string) list" where
  "advance_through now [] t = Inr []"
| "advance_through now (step # steps) t =
     and_then (transition now (fst step) t) (\<lambda>t'.
     and_then (advance_through now steps t') (\<lambda>events. Inr ((t', snd step) # events)))"

definition merge_lifecycle :: "(task_state \<times> task_state \<times> string) list" where
  "merge_lifecycle = [(Merging, Completed, ''GitHub confirmed the approved merge completed'')]"

definition close_lifecycle :: "(task_state \<times> task_state \<times> string) list" where
  "close_lifecycle =
     [(AwaitingDeliveryApproval, Delivering, ''Approved terminal GitHub delivery started''),
      (Delivering, Monitoring, ''GitHub accepted the terminal delivery; reconciling remote state''),
      (Monitoring, Completed, ''GitHub confirmed the closed task outcome completed'')]"

definition monitoring_lifecycle :: "(task_state \<times> task_state \<times> string) list" where
  "monitoring_lifecycle =
     [(AwaitingDeliveryApproval, Delivering, ''Approved GitHub delivery started''),
      (Delivering, Monitoring,
       ''GitHub accepted the delivery; fresh CI and review evidence is required'')]"

definition terminal_delivery :: "capability \<Rightarrow> bool \<Rightarrow> bool" where
  "terminal_delivery c merged \<longleftrightarrow> c = CapCloseIssue \<or> c = CapClosePullRequest \<or>
     (c = CapMergePullRequest \<and> merged)"

definition enters_monitoring :: "capability \<Rightarrow> bool" where
  "enters_monitoring c \<longleftrightarrow> c \<in> set [CreatePullRequest, PostReview, CapUpdatePullRequestBranch,
     CapReadyPullRequest]"

definition delivery_lifecycle :: "capability \<Rightarrow> (task_state \<times> task_state \<times> string) list" where
  "delivery_lifecycle c = (if c = CapMergePullRequest then merge_lifecycle
     else if enters_monitoring c then monitoring_lifecycle else close_lifecycle)"

text \<open>The steps from the first one that leaves state \<open>st\<close>; none when no step does.\<close>

definition steps_from ::
  "task_state \<Rightarrow> (task_state \<times> task_state \<times> string) list \<Rightarrow> (task_state \<times> string) list" where
  "steps_from st path = map snd (dropWhile (\<lambda>(from, _). from \<noteq> st) path)"

definition complete_successful_delivery :: "timestamp \<Rightarrow> delivery_preview \<Rightarrow> string \<Rightarrow> string \<Rightarrow>
    bool \<Rightarrow> store \<Rightarrow> delivery_error + store" where
  "complete_successful_delivery now preview key encoded merged s =
     (let c = action_capability (gp_action (dp_action preview)) in
      if \<not> terminal_delivery c merged \<and> \<not> enters_monitoring c
      then map_err DeliveryStore (complete_delivery now key encoded s)
      else and_then (ok_or (load_task (dp_task_id preview) s) DeliveryTaskMissing) (\<lambda>t.
        if task_state t = Completed
        then map_err DeliveryStore (complete_delivery_with_task_events now key encoded [] s)
        else let steps = steps_from (task_state t) (delivery_lifecycle c) in
          if steps = [] then map_err DeliveryStore (complete_delivery now key encoded s)
          else and_then (map_err DeliveryTask (advance_through now steps t)) (\<lambda>events.
            map_err DeliveryStore (complete_delivery_with_task_events now key encoded events s))))"

definition complete_failed_delivery ::
  "timestamp \<Rightarrow> delivery_preview \<Rightarrow> string \<Rightarrow> string \<Rightarrow> store \<Rightarrow> delivery_error + store" where
  "complete_failed_delivery now preview key encoded s =
     (if \<not> merges (action_capability (gp_action (dp_action preview)))
      then map_err DeliveryStore (complete_delivery now key encoded s)
      else and_then (ok_or (load_task (dp_task_id preview) s) DeliveryTaskMissing) (\<lambda>t.
        if task_state t \<noteq> Merging then map_err DeliveryStore (complete_delivery now key encoded s)
        else and_then (map_err DeliveryTask (transition now AwaitingMergeApproval t)) (\<lambda>t.
          map_err DeliveryStore (complete_failed_merge_delivery now key encoded t
            ''GitHub definitively rejected the merge; fresh merge approval is required'' s))))"

definition record_ambiguous_delivery :: "string \<Rightarrow> string \<Rightarrow> store \<Rightarrow> delivery_error + store" where
  "record_ambiguous_delivery key encoded s =
     map_err DeliveryStore (mark_delivery_ambiguous key encoded s)"

section \<open>Reconciliation\<close>

definition completion_lifecycle :: "(task_state \<times> task_state \<times> string) list" where
  "completion_lifecycle = map (\<lambda>(from, to). (from, to,
     if to = Completed then ''GitHub confirmed the task outcome is complete''
     else ''GitHub completion reconciled into the durable task lifecycle''))
     [(AwaitingDeliveryApproval, Delivering), (Delivering, Monitoring),
      (Monitoring, AwaitingMergeApproval), (AwaitingMergeApproval, Merging), (Merging, Completed)]"

definition completion_events :: "timestamp \<Rightarrow> task \<Rightarrow> delivery_error + (task \<times> string) list" where
  "completion_events now t = (let steps = steps_from (task_state t) completion_lifecycle in
     if steps = [] then Inl (DeliveryUnreconcilable (task_state t))
     else map_err DeliveryTask (advance_through now steps t))"

text \<open>Whether the item shows the task's outcome; a moved head of a pull request is refused.\<close>

definition item_completed :: "task \<Rightarrow> github_work_item \<Rightarrow> delivery_error + bool" where
  "item_completed t item = (case wi_kind item of
       PullRequestItem \<Rightarrow>
         if source_head_sha (task_source t) \<noteq> wi_head_sha item then Inl DeliveryPreconditionMismatch
         else Inr (wi_merged item = Some True)
     | IssueItem \<Rightarrow>
         Inr (wi_state item = ''closed'' \<and> wi_state_reason item \<noteq> Some ''not_planned''))"

text \<open>The decision once the item is found: retry, nothing to do, or completion.\<close>

definition reconcile_outcome :: "delivery_env \<Rightarrow> timestamp \<Rightarrow> uuid \<Rightarrow> task \<Rightarrow> github_work_item \<Rightarrow>
    bool \<Rightarrow> store \<Rightarrow> delivery_error + store \<times> task" where
  "reconcile_outcome env now i t item completed s =
     (let ambiguous_key = (if task_state t = Merging
        then ambiguous_delivery_for_task (json_state env) (pick_row env) i s else None) in
      if \<not> completed then (case ambiguous_key of
          None \<Rightarrow> Inl DeliveryRemoteNotCompleted
        | Some key \<Rightarrow>
            if wi_kind item \<noteq> PullRequestItem then Inl DeliveryRemoteNotCompleted
            else and_then (map_err DeliveryTask (transition now AwaitingMergeApproval t)) (\<lambda>retry.
              and_then (map_err DeliveryStore (complete_failed_merge_delivery now key
                (json_result env (ReconcileFailed
                  ''fresh GitHub reconciliation confirmed the approved merge did not complete''))
                retry ''Fresh GitHub reconciliation found no merge; fresh merge approval is required'' s))
              (\<lambda>s. Inr (s, retry))))
      else if task_state t = Completed then Inr (s, t)
      else and_then (completion_events now t) (\<lambda>events.
        and_then (case ambiguous_key of
            Some key \<Rightarrow> map_err DeliveryStore (complete_delivery_with_task_events now key
              (json_result env (ReconcileSucceeded (wi_merge_commit_sha item))) events s)
          | None \<Rightarrow> Inr (save_task_events events s)) (\<lambda>s.
        if events = [] then Inl DeliveryTaskMissing else Inr (s, fst (last events)))))"

definition reconcile_completed_task_from_snapshot :: "delivery_env \<Rightarrow> timestamp \<Rightarrow> uuid \<Rightarrow>
    github_repository_snapshot \<Rightarrow> store \<Rightarrow> delivery_error + store \<times> task" where
  "reconcile_completed_task_from_snapshot env now i snap s =
     and_then (ok_or (load_task i s) DeliveryTaskMissing) (\<lambda>t.
     and_then (ok_or (source_repository_id (task_source t)) DeliverySourceMismatch) (\<lambda>repository_id.
     and_then (ok_or (source_repository_full_name (task_source t)) DeliverySourceMismatch) (\<lambda>full_name.
     and_then (ok_or (source_item_number (task_source t)) DeliverySourceMismatch) (\<lambda>number.
     and_then (ensure (gr_id (gs_repository snap) = repository_id \<and>
         gr_full_name (gs_repository snap) = full_name) DeliverySourceMismatch) (\<lambda>_.
     and_then (ok_or (List.find (\<lambda>item. wi_number item = number) (gs_work_items snap))
       DeliveryRemoteItemMissing) (\<lambda>item.
     and_then (item_completed t item) (\<lambda>completed.
     reconcile_outcome env now i t item completed s)))))))"

section \<open>What a preview establishes\<close>

lemma preview_delivery_ok:
  "preview_delivery env i p s = Inr d \<longleftrightarrow>
     (\<exists>t contract binding digests fp.
        load_task i s = Some t \<and> load_task_contract i s = Inr (Some contract) \<and>
        task_state t = expected_task_state (action_capability (gp_action p)) \<and>
        action_capability (gp_action p) \<in> set (tc_required_capabilities contract) \<and>
        task_repository_binding_id t = Some (tc_repository_binding_id contract) \<and>
        repository_binding (tc_repository_binding_id contract) s = Some binding \<and>
        ri_repository_id (gp_remote p) = rb_github_repository_id binding \<and>
        ri_installation_id (gp_remote p) = rb_installation_id binding \<and>
        ri_repository_full_name (gp_remote p) = rb_full_name binding \<and>
        source_repository_id (tc_source contract) \<in> {None, Some (rb_github_repository_id binding)} \<and>
        source_repository_full_name (tc_source contract) \<in> {None, Some (rb_full_name binding)} \<and>
        validate_action_target env contract binding i (gp_action p) = Inr () \<and>
        validate_bound_preconditions p contract = Inr () \<and>
        validate_action_sha env t contract (gp_action p) = Inr () \<and>
        json_digests env (tc_instruction_digests contract) = Some digests \<and>
        fingerprint_try_from (preview_fingerprint env i p digests) = Inr fp \<and>
        d = \<lparr>dp_task_id = i, dp_action = p, dp_fingerprint = fp\<rparr>)"
  unfolding preview_delivery_def Let_def
  by (simp only: and_then_eq_Inr ok_or_eq_Inr map_err_eq_Inr ensure_eq_Inr) auto

lemma trim_action_kind: "trim (capability_action_kind c) = capability_action_kind c"
  by (rule trim_word) (cases c; simp add: capability_action_kind_def is_ascii_graphic_def)

lemma preview_delivery_parts:
  assumes "preview_delivery env i p s = Inr d"
  shows "dp_task_id d = i" "dp_action d = p" "fp_task_id (dp_fingerprint d) = i"
    "fp_action_kind (dp_fingerprint d) = capability_action_kind (action_capability (gp_action p))"
proof -
  from assms obtain digests fp where
    fp: "fingerprint_try_from (preview_fingerprint env i p digests) = Inr fp" and
    d: "d = \<lparr>dp_task_id = i, dp_action = p, dp_fingerprint = fp\<rparr>"
    unfolding preview_delivery_ok by blast
  show "dp_task_id d = i" "dp_action d = p" by (simp_all add: d)
  show "fp_task_id (dp_fingerprint d) = i"
    "fp_action_kind (dp_fingerprint d) = capability_action_kind (action_capability (gp_action p))"
    using fp by (auto simp: d fingerprint_try_from_ok validated_text_ok preview_fingerprint_def
        action_kind_def trim_action_kind)
qed

text \<open>A preview reads the tables of tasks, contracts and bindings only.\<close>

lemma preview_delivery_cong:
  "st_tasks s' = st_tasks s \<Longrightarrow> st_contracts s' = st_contracts s \<Longrightarrow> st_bindings s' = st_bindings s \<Longrightarrow>
     preview_delivery env i p s' = preview_delivery env i p s"
  by (simp add: preview_delivery_def load_task_def load_task_contract_def repository_binding_def)

section \<open>What an execution requires\<close>

text \<open>The task event of an authorized execution: the start of a merge, nothing for the others.\<close>

definition execution_event :: "timestamp \<Rightarrow> capability \<Rightarrow> task \<Rightarrow> (task \<times> string) option" where
  "execution_event now c t = (if merges c
     then Some (t\<lparr>task_state := Merging, task_updated_at := now\<rparr>, ''Approved merge execution started'')
     else None)"

lemma decision_result_ok: "decision_result r = Inr u \<longleftrightarrow> r = Allowed"
  by (simp add: decision_result_def split: policy_decision.split)

lemma authorize_execution_ok:
  assumes wf: "table_wf (st_deliveries s)"
  shows "authorize_execution env now d aid s = Inr (s', key) \<longleftrightarrow>
    preview_delivery env (dp_task_id d) (dp_action d) s = Inr d \<and>
    key = gp_idempotency_sha256 (dp_action d) \<and> reclaimable (json_state env) key s \<and>
    (\<exists>a t. load_approval aid s = Some a \<and> load_task (dp_task_id d) s = Some t \<and>
       authorize (policy_default (kill_switch env)) (action_capability (gp_action (dp_action d)))
         (dp_fingerprint d) (Some a) now = Allowed \<and>
       s' = fst (claim_delivery_with_task_event (json_state env) now key
         (execution_event now (action_capability (gp_action (dp_action d))) t) s))"
    (is "?lhs \<longleftrightarrow> ?rhs")
proof -
  let ?c = "action_capability (gp_action (dp_action d))"
  have granted: "snd (claim_delivery_with_task_event (json_state env) now k ev s) \<longleftrightarrow>
      reclaimable (json_state env) k s" for k ev
    by (rule claim_delivery_granted [OF wf])
  have ev: "(if merges ?c
      then and_then (ok_or (load_task (dp_task_id d) s) DeliveryTaskMissing) (\<lambda>t.
        and_then (map_err DeliveryTask (transition now Merging t)) (\<lambda>t.
        Inr (Some (t, ''Approved merge execution started''))))
      else Inr None) = Inr (execution_event now ?c t)"
    if "preview_delivery env (dp_task_id d) (dp_action d) s = Inr d" "load_task (dp_task_id d) s = Some t" for t
    using that by (auto simp: preview_delivery_ok expected_task_state_def execution_event_def
        transition_def permits_def)
  have loaded: "\<exists>t. load_task (dp_task_id d) s = Some t"
    if "preview_delivery env (dp_task_id d) (dp_action d) s = Inr d"
    using that by (auto simp: preview_delivery_ok)
  show ?thesis
  proof
    assume ?lhs
    then have p: "preview_delivery env (dp_task_id d) (dp_action d) s = Inr d"
      by (auto simp: authorize_execution_def result_simps)
    then obtain t where t: "load_task (dp_task_id d) s = Some t" using loaded by blast
    from \<open>?lhs\<close> show ?rhs
      unfolding authorize_execution_def p Let_def split_def
      by (simp only: and_then_eq_Inr and_then_Inr ensure_eq_Inr ok_or_eq_Inr decision_result_ok
          granted t ev [OF p t, unfolded t] prod.inject sum.inject) (auto simp: t)
  next
    assume r: ?rhs
    then have p: "preview_delivery env (dp_task_id d) (dp_action d) s = Inr d" by blast
    from r obtain t where t: "load_task (dp_task_id d) s = Some t" by blast
    from r show ?lhs
      unfolding authorize_execution_def p Let_def split_def
      by (simp only: and_then_eq_Inr and_then_Inr ensure_eq_Inr ok_or_eq_Inr decision_result_ok
          granted t ev [OF p t, unfolded t] prod.inject sum.inject option.inject) (auto simp: t)
  qed
qed

text \<open>Executions form a register over the idempotency keys.\<close>

definition execute ::
  "delivery_env \<Rightarrow> timestamp \<times> delivery_preview \<times> uuid \<Rightarrow> store \<Rightarrow> store \<times> bool" where
  "execute env = (\<lambda>(now, d, aid) s. case authorize_execution env now d aid s of
       Inl _ \<Rightarrow> (s, False) | Inr (s', _) \<Rightarrow> (s', True))"

lemma execute_cases:
  assumes "table_wf (st_deliveries s)"
  obtains (refused) "execute env (now, d, aid) s = (s, False)"
  | (granted) ev where "execute env (now, d, aid) s =
        deliver (json_state env) (now, gp_idempotency_sha256 (dp_action d), ev) s"
      "reclaimable (json_state env) (gp_idempotency_sha256 (dp_action d)) s"
proof (cases "authorize_execution env now d aid s")
  case (Inl e)
  then show ?thesis using refused by (simp add: execute_def)
next
  case (Inr r)
  obtain s' key where r: "r = (s', key)" by (cases r)
  from Inr [unfolded r] obtain t where k: "key = gp_idempotency_sha256 (dp_action d)"
    "reclaimable (json_state env) key s"
    "s' = fst (claim_delivery_with_task_event (json_state env) now key
         (execution_event now (action_capability (gp_action (dp_action d))) t) s)"
    unfolding authorize_execution_ok [OF assms] by blast
  have "deliver (json_state env) (now, key, ev) s =
      (fst (claim_delivery_with_task_event (json_state env) now key ev s), True)" for ev
    using claim_delivery_granted [OF assms, of "json_state env" now key ev] k(2)
    by (simp add: deliver_def prod_eq_iff)
  then show ?thesis using granted k Inr r by (simp add: execute_def)
qed

interpretation execution_register: claim_register "execute env"
    "\<lambda>a. gp_idempotency_sha256 (dp_action (fst (snd a)))" "delivery_taken (json_state env)"
    "\<lambda>s. table_wf (st_deliveries s)" for env
proof unfold_locales
  fix s s' :: store and a :: "timestamp \<times> delivery_preview \<times> uuid" and r k
  assume wf: "table_wf (st_deliveries s)"
  obtain now d aid where a: "a = (now, d, aid)" by (cases a)
  show "execute env a s = (s', r) \<Longrightarrow> table_wf (st_deliveries s')"
    unfolding a using execute_cases [OF wf, of env now d aid] delivery_register.ok_kept wf
    by (metis prod.inject)
  show "execute env a s = (s', True) \<Longrightarrow>
      delivery_taken (json_state env) (gp_idempotency_sha256 (dp_action (fst (snd a)))) s'"
    unfolding a using execute_cases [OF wf, of env now d aid]
      delivery_register.granted_taken [OF wf] by (metis fst_conv snd_conv prod.inject)
  show "delivery_taken (json_state env) (gp_idempotency_sha256 (dp_action (fst (snd a)))) s \<Longrightarrow>
      execute env a s = (s, False)"
    unfolding a using execute_cases [OF wf, of env now d aid]
    by (metis delivery_taken_def fst_conv snd_conv)
  show "execute env a s = (s', r) \<Longrightarrow> delivery_taken (json_state env) k s \<Longrightarrow>
      delivery_taken (json_state env) k s'"
    unfolding a using execute_cases [OF wf, of env now d aid] delivery_register.taken_kept [OF wf]
    by (metis prod.inject)
qed

section \<open>Lifecycles never fail half-way\<close>

primrec steps_ok :: "task_state \<Rightarrow> (task_state \<times> string) list \<Rightarrow> bool" where
  "steps_ok st [] \<longleftrightarrow> True"
| "steps_ok st (step # steps) \<longleftrightarrow> permits st (fst step) \<and> steps_ok (fst step) steps"

text \<open>A task moved along a lifecycle keeps its identity.\<close>

definition same_task :: "task \<Rightarrow> task \<Rightarrow> bool" where
  "same_task t u \<longleftrightarrow> task_id u = task_id t \<and> task_source u = task_source t \<and>
     task_title u = task_title t \<and> task_repository_path u = task_repository_path t \<and>
     task_repository_binding_id u = task_repository_binding_id t"

lemma same_task_refl [simp]: "same_task t t"
  by (simp add: same_task_def)

lemma transition_same_task: "transition now st t = Inr u \<Longrightarrow> same_task t u"
  by (auto simp: transition_ok same_task_def)

lemma advance_through_ok:
  assumes "steps_ok (task_state t) steps"
  shows "\<exists>es. advance_through now steps t = Inr es \<and> map (\<lambda>e. task_state (fst e)) es = map fst steps \<and>
    (\<forall>u\<in>set (map fst es). same_task t u \<and> (task_wf t \<longrightarrow> task_wf u))"
  using assms
proof (induction steps arbitrary: t)
  case Nil
  show ?case by simp
next
  case (Cons x xs)
  obtain u where u: "transition now (fst x) t = Inr u" "task_state u = fst x"
    using Cons.prems by (auto simp: transition_def)
  obtain es where es: "advance_through now xs u = Inr es" "map (\<lambda>e. task_state (fst e)) es = map fst xs"
    "\<forall>v\<in>set (map fst es). same_task u v \<and> (task_wf u \<longrightarrow> task_wf v)"
    using Cons.IH [of u] Cons.prems u(2) by auto
  have "same_task t u" "task_wf t \<longrightarrow> task_wf u"
    using transition_same_task [OF u(1)] transition_wf u(1) by blast+
  then have "\<forall>v\<in>set (map fst ((u, snd x) # es)). same_task t v \<and> (task_wf t \<longrightarrow> task_wf v)"
    using es(3) by (auto simp: same_task_def)
  then show ?case using u es(1,2) by auto
qed

lemmas lifecycle_defs = steps_from_def delivery_lifecycle_def merge_lifecycle_def
  close_lifecycle_def monitoring_lifecycle_def completion_lifecycle_def

lemma delivery_steps_ok: "steps_ok st (steps_from st (delivery_lifecycle c))"
  by (cases st) (simp_all add: lifecycle_defs permits_def)

lemma completion_steps_ok: "steps_ok st (steps_from st completion_lifecycle)"
  by (cases st) (simp_all add: lifecycle_defs permits_def)

lemma completion_last: "steps_from st completion_lifecycle \<noteq> [] \<Longrightarrow>
    fst (last (steps_from st completion_lifecycle)) = Completed"
  by (cases st) (simp_all add: lifecycle_defs)

lemma events_last:
  assumes "steps_ok (task_state t) steps" "advance_through now steps t = Inr es" "steps \<noteq> []"
  shows "es \<noteq> []" "task_state (fst (last es)) = fst (last steps)" "same_task t (fst (last es))"
proof -
  have m: "map (\<lambda>e. task_state (fst e)) es = map fst steps" and same: "\<forall>u\<in>set (map fst es). same_task t u"
    using advance_through_ok [OF assms(1), of now] assms(2) by auto
  show ne: "es \<noteq> []" using m assms(3) by auto
  show "task_state (fst (last es)) = fst (last steps)"
    using m ne assms(3) last_map [of es "\<lambda>e. task_state (fst e)"] last_map [of steps fst] by simp
  show "same_task t (fst (last es))" using same ne by simp
qed

section \<open>Outcomes\<close>

lemma set_delivery_frame:
  assumes "set_delivery key result completed s = Inr s'"
  shows "st_tasks s' = st_tasks s" "st_task_events s' = st_task_events s"
    "st_approvals s' = st_approvals s" "st_contracts s' = st_contracts s"
    "st_bindings s' = st_bindings s" "load_task i s' = load_task i s" "log_wf s' = log_wf s"
  using assms by (auto simp: set_delivery_def split_def Let_def result_simps log_wf_def)

text \<open>A definitive failure makes the key reclaimable; every other result keeps it taken.\<close>

lemma set_delivery_reclaimable:
  assumes "table_wf (st_deliveries s)" "set_delivery key result completed s = Inr s'"
  shows "reclaimable js key s' \<longleftrightarrow> js result = Some ''failed''"
    and "k \<noteq> key \<Longrightarrow> reclaimable js k s' \<longleftrightarrow> reclaimable js k s"
  using set_delivery_row [OF assms] assms
  by (auto simp: reclaimable_def delivery_failed_def set_delivery_ok [OF assms(1)] has_row_def
      split: option.splits)

lemma complete_successful_merge:
  assumes wf: "table_wf (st_deliveries s)"
    and c: "action_capability (gp_action (dp_action d)) = CapMergePullRequest"
    and t: "load_task (dp_task_id d) s = Some t" "task_state t = Merging"
    and key: "delivery_claimed key s"
  shows "\<exists>s'. complete_successful_delivery now d key encoded True s = Inr s' \<and>
    load_task (task_id t) s' = Some (t\<lparr>task_state := Completed, task_updated_at := now\<rparr>) \<and>
    delivery_result key s' = Some (Some encoded)"
proof -
  have k: "has_row key (st_deliveries s)" using key by (simp add: delivery_claimed_def)
  then obtain s1 where s1: "set_delivery key encoded (Some (datetime_now now)) s = Inr s1"
    using set_delivery_ok [OF wf] by blast
  have steps: "steps_from Merging (delivery_lifecycle CapMergePullRequest) =
      [(Completed, ''GitHub confirmed the approved merge completed'')]"
    by (simp add: lifecycle_defs)
  have "complete_successful_delivery now d key encoded True s = Inr (record_task
      (t\<lparr>task_state := Completed, task_updated_at := now\<rparr>)
      ''GitHub confirmed the approved merge completed'' s1)"
    using t c by (simp add: complete_successful_delivery_def terminal_delivery_def steps
        transition_def permits_def complete_delivery_with_task_events_def s1)
  moreover have "find_row key (st_deliveries s1) \<noteq> None" "find_row key (st_deliveries s1) =
      map_option (\<lambda>r. r\<lparr>dl_result := Some encoded, dl_completed_at := Some (datetime_now now)\<rparr>)
        (find_row key (st_deliveries s))"
    using set_delivery_row [OF wf s1, of key] k by (auto simp: has_row_def)
  ultimately show ?thesis by (auto simp: delivery_result_def)
qed

text \<open>A rejected merge: the task waits again and none of its approvals is left.\<close>

lemma complete_failed_merge:
  assumes "complete_failed_delivery now d key encoded s = Inr s'"
    and "merges (action_capability (gp_action (dp_action d)))"
    and "load_task (dp_task_id d) s = Some t" "task_state t = Merging"
  shows "load_task (task_id t) s' = Some (t\<lparr>task_state := AwaitingMergeApproval, task_updated_at := now\<rparr>)"
    and "\<forall>aid r. find_row aid (st_approvals s) = Some r \<longrightarrow> aw_task_id r = task_id t \<longrightarrow>
      load_approval aid s' = None"
proof -
  obtain s1 where s1: "set_delivery key encoded (Some (datetime_now now)) s = Inr s1"
    and s': "s' = record_task (t\<lparr>task_state := AwaitingMergeApproval, task_updated_at := now\<rparr>)
      ''GitHub definitively rejected the merge; fresh merge approval is required''
      (fst (invalidate_task_approvals now (task_id t) s1))"
    using assms by (auto simp: complete_failed_delivery_def complete_failed_merge_delivery_def
        result_simps transition_def permits_def)
  show "load_task (task_id t) s' = Some (t\<lparr>task_state := AwaitingMergeApproval, task_updated_at := now\<rparr>)"
    by (simp add: s')
  show "\<forall>aid r. find_row aid (st_approvals s) = Some r \<longrightarrow> aw_task_id r = task_id t \<longrightarrow>
      load_approval aid s' = None"
    using set_delivery_frame(3) [OF s1]
    by (auto simp: s' load_approval_def invalidate_rows split: option.splits)
qed

section \<open>What a reconciliation establishes\<close>

text \<open>The snapshot is of the task's repository and shows the item of its source.\<close>

definition source_item ::
  "task \<Rightarrow> github_repository_snapshot \<Rightarrow> github_work_item \<Rightarrow> bool" where
  "source_item t snap item \<longleftrightarrow>
     source_repository_id (task_source t) = Some (gr_id (gs_repository snap)) \<and>
     source_repository_full_name (task_source t) = Some (gr_full_name (gs_repository snap)) \<and>
     source_item_number (task_source t) = Some (wi_number item) \<and> item \<in> set (gs_work_items snap)"

lemma completion_events_ok:
  assumes "completion_events now t = Inr es"
  shows "es \<noteq> []" "task_state (fst (last es)) = Completed" "same_task t (fst (last es))"
proof -
  let ?steps = "steps_from (task_state t) completion_lifecycle"
  have ne: "?steps \<noteq> []" and a: "advance_through now ?steps t = Inr es"
    using assms by (auto simp: completion_events_def Let_def map_err_eq_Inr split: if_splits)
  show "es \<noteq> []" "same_task t (fst (last es))" "task_state (fst (last es)) = Completed"
    using events_last [OF completion_steps_ok a ne] completion_last [OF ne] by simp_all
qed

lemma reconcile_item:
  assumes "reconcile_completed_task_from_snapshot env now i snap s = Inr (s', t')"
  obtains t item c where "load_task i s = Some t" "source_item t snap item"
    "item_completed t item = Inr c" "reconcile_outcome env now i t item c s = Inr (s', t')"
proof -
  from assms obtain t item n c where "load_task i s = Some t"
    "source_repository_id (task_source t) = Some (gr_id (gs_repository snap))"
    "source_repository_full_name (task_source t) = Some (gr_full_name (gs_repository snap))"
    "source_item_number (task_source t) = Some n"
    "List.find (\<lambda>item. wi_number item = n) (gs_work_items snap) = Some item"
    "item_completed t item = Inr c" "reconcile_outcome env now i t item c s = Inr (s', t')"
    by (auto simp: reconcile_completed_task_from_snapshot_def and_then_eq_Inr ok_or_eq_Inr ensure_eq_Inr)
  moreover then have "source_item t snap item" by (auto simp: source_item_def find_Some_iff)
  ultimately show ?thesis using that by blast
qed

text \<open>A completed item: the task is completed, and an ambiguous delivery is settled as succeeded.\<close>

lemma reconcile_completed:
  assumes "reconcile_outcome env now i t item True s = Inr (s', t')"
  shows "task_state t' = Completed \<and> same_task t t' \<and>
    (s' = s \<and> t' = t \<or> (\<exists>es. completion_events now t = Inr es \<and> t' = fst (last es) \<and>
      (s' = save_task_events es s \<or> (\<exists>key. task_state t = Merging \<and>
         ambiguous_delivery_for_task (json_state env) (pick_row env) i s = Some key \<and>
         complete_delivery_with_task_events now key
           (json_result env (ReconcileSucceeded (wi_merge_commit_sha item))) es s = Inr s'))))"
  using assms completion_events_ok [of now t]
  by (auto simp: reconcile_outcome_def Let_def and_then_eq_Inr map_err_eq_Inr
      split: if_splits option.splits)

text \<open>An item that is not completed: only an ambiguous merge is settled, as failed.\<close>

lemma reconcile_retry:
  assumes "reconcile_outcome env now i t item False s = Inr (s', t')"
  obtains key where "task_state t = Merging"
    "ambiguous_delivery_for_task (json_state env) (pick_row env) i s = Some key"
    "wi_kind item = PullRequestItem"
    "t' = t\<lparr>task_state := AwaitingMergeApproval, task_updated_at := now\<rparr>"
    "complete_failed_merge_delivery now key (json_result env (ReconcileFailed
         ''fresh GitHub reconciliation confirmed the approved merge did not complete'')) t'
         ''Fresh GitHub reconciliation found no merge; fresh merge approval is required'' s = Inr s'"
  using assms
  by (auto simp: reconcile_outcome_def Let_def and_then_eq_Inr map_err_eq_Inr transition_ok
      split: if_splits option.splits)

end
