(* ===== verification/Rpc_Delivery.thy ===== *)
theory Rpc_Delivery
  imports Delivery
begin

text \<open>
  \<open>delivery_execute\<close> of \<open>crates/patchwright-engine/src/rpc.rs\<close>: authorize and claim, call GitHub
  once, record the outcome. The remote call is an argument of the handler (its outcome); between the
  claim and the record the store is unlocked, so a run may interleave with others or stop there: the
  step relation \<open>deliveries\<close> has the claim and the record as separate steps and counts the remote
  calls made under each idempotency key.
\<close>

text \<open>The result of \<open>execute_github_action\<close>; \<open>merged\<close> is the field of a successful result.\<close>

datatype mutation_outcome =
    MutationSucceeded "bool option" string
  | MutationAmbiguous string
  | MutationFailed string

definition record_outcome :: "timestamp \<Rightarrow> delivery_preview \<Rightarrow> string \<Rightarrow> mutation_outcome \<Rightarrow> store \<Rightarrow>
    delivery_error + store" where
  "record_outcome now preview key outcome s = (case outcome of
       MutationSucceeded merged encoded \<Rightarrow>
         complete_successful_delivery now preview key encoded (merged = Some True) s
     | MutationAmbiguous encoded \<Rightarrow> record_ambiguous_delivery key encoded s
     | MutationFailed encoded \<Rightarrow> complete_failed_delivery now preview key encoded s)"

definition delivery_execute :: "delivery_env \<Rightarrow> timestamp \<Rightarrow> delivery_preview \<Rightarrow> uuid \<Rightarrow> mutation_outcome \<Rightarrow>
    store \<Rightarrow> store \<times> (delivery_error + string)" where
  "delivery_execute env now preview aid outcome s =
     (case authorize_execution env now preview aid s of
        Inl e \<Rightarrow> (s, Inl e)
      | Inr (s1, key) \<Rightarrow> (case record_outcome now preview key outcome s1 of
            Inl e \<Rightarrow> (s1, Inl e)
          | Inr s2 \<Rightarrow> (s2, Inr key)))"

section \<open>Runs of deliveries\<close>

text \<open>The encoded results name their state, as the literals of the handler do.\<close>

definition outcome_state :: "delivery_env \<Rightarrow> mutation_outcome \<Rightarrow> bool" where
  "outcome_state env outcome \<longleftrightarrow> (case outcome of
       MutationSucceeded _ encoded \<Rightarrow> json_state env encoded = Some ''succeeded''
     | MutationAmbiguous encoded \<Rightarrow> json_state env encoded = Some ''ambiguous''
     | MutationFailed encoded \<Rightarrow> json_state env encoded = Some ''failed'')"

definition is_failure :: "mutation_outcome \<Rightarrow> bool" where
  "is_failure outcome = (case outcome of MutationFailed _ \<Rightarrow> True | _ \<Rightarrow> False)"

text \<open>
  A run: the store, the keys under which GitHub was called (in order), and the keys whose call was
  definitively rejected and recorded so. Other operations may change the other tables between the
  steps, and a process may stop after a claim.
\<close>

inductive deliveries :: "delivery_env \<Rightarrow> store \<Rightarrow> string list \<Rightarrow> string list \<Rightarrow> bool" for env where
  start: "st_deliveries s = [] \<Longrightarrow> deliveries env s [] []"
| called: "deliveries env s calls fails \<Longrightarrow> authorize_execution env now d aid s = Inr (s', key) \<Longrightarrow>
     deliveries env s' (key # calls) fails"
| recorded: "deliveries env s calls fails \<Longrightarrow> outcome_state env outcome \<Longrightarrow>
     record_outcome now d key outcome s = Inr s' \<Longrightarrow>
     deliveries env s' calls (if is_failure outcome then key # fails else fails)"
| reconciled: "deliveries env s calls fails \<Longrightarrow>
     reconcile_completed_task_from_snapshot env now i snap s = Inr (s', t) \<Longrightarrow>
     deliveries env s' calls (if task_state t = AwaitingMergeApproval
       then the (ambiguous_delivery_for_task (json_state env) (pick_row env) i s) # fails else fails)"
| elsewhere: "deliveries env s calls fails \<Longrightarrow> st_deliveries s' = st_deliveries s \<Longrightarrow>
     deliveries env s' calls fails"

text \<open>The encoders name the state of a reconciled result.\<close>

definition reconcile_encoding :: "delivery_env \<Rightarrow> bool" where
  "reconcile_encoding env \<longleftrightarrow> (\<forall>e. json_state env (json_result env (ReconcileFailed e)) = Some ''failed'') \<and>
     (\<forall>sha. json_state env (json_result env (ReconcileSucceeded sha)) = Some ''succeeded'')"

definition encoded_of :: "mutation_outcome \<Rightarrow> string" where
  "encoded_of outcome = (case outcome of MutationSucceeded _ e \<Rightarrow> e | MutationAmbiguous e \<Rightarrow> e
     | MutationFailed e \<Rightarrow> e)"

lemma save_and_invalidate_frame [simp]:
  "st_deliveries (record_task t m s) = st_deliveries s"
  "st_deliveries (fst (invalidate_task_approvals now i s)) = st_deliveries s"
  by (simp_all add: invalidate_task_approvals_def split_def Let_def)

lemma record_outcome_delivery:
  assumes "record_outcome now d key outcome s = Inr s'"
  shows "\<exists>completed s1. set_delivery key (encoded_of outcome) completed s = Inr s1 \<and>
    st_deliveries s' = st_deliveries s1"
  using assms
  by (cases outcome)
    (auto simp: record_outcome_def encoded_of_def complete_successful_delivery_def
      record_ambiguous_delivery_def complete_failed_delivery_def complete_delivery_def
      mark_delivery_ambiguous_def complete_delivery_with_task_events_def
      complete_failed_merge_delivery_def and_then_eq_Inr map_err_eq_Inr Let_def
      split: if_splits, blast+)

lemma taken_iff: "delivery_taken js k s \<longleftrightarrow> \<not> reclaimable js k s"
  by (simp add: delivery_taken_def)

lemma reclaimable_cong: "st_deliveries s' = st_deliveries s \<Longrightarrow> reclaimable js k s' = reclaimable js k s"
  by (simp add: reclaimable_def)

text \<open>A settled row: taken unless its result is a definitive failure; the other keys keep theirs.\<close>

lemma settled:
  assumes "table_wf (st_deliveries s)" "set_delivery key result completed s = Inr s1"
    "st_deliveries s' = st_deliveries s1"
  shows "table_wf (st_deliveries s')"
    "delivery_taken js k s' \<longleftrightarrow> (if k = key then js result \<noteq> Some ''failed'' else delivery_taken js k s)"
proof -
  show "table_wf (st_deliveries s')"
    using assms by (auto simp: set_delivery_ok)
  show "delivery_taken js k s' \<longleftrightarrow> (if k = key then js result \<noteq> Some ''failed'' else delivery_taken js k s)"
    using set_delivery_reclaimable(1) [OF assms(1,2), where js = js]
      set_delivery_reclaimable(2) [OF assms(1,2), where js = js and k = k]
      reclaimable_cong [OF assms(3), where js = js]
    by (auto simp: taken_iff)
qed

definition calls_bounded :: "delivery_env \<Rightarrow> store \<Rightarrow> string list \<Rightarrow> string list \<Rightarrow> bool" where
  "calls_bounded env s calls fails \<longleftrightarrow> table_wf (st_deliveries s) \<and>
     (\<forall>k. count_list calls k \<le> count_list fails k + of_bool (delivery_taken (json_state env) k s))"

lemma calls_bounded_settled:
  assumes b: "calls_bounded env s calls fails" and set: "set_delivery key result completed s = Inr s1"
    and same: "st_deliveries s' = st_deliveries s1"
    and f: "fails' = (if json_state env result = Some ''failed'' then key # fails else fails)"
  shows "calls_bounded env s' calls fails'"
proof -
  have wf: "table_wf (st_deliveries s)" using b by (simp add: calls_bounded_def)
  note settled = settled [OF wf set same]
  have "count_list calls k \<le> count_list fails' k + of_bool (delivery_taken (json_state env) k s')" for k
  proof -
    have "count_list calls k \<le> count_list fails k + of_bool (delivery_taken (json_state env) k s)"
      using b by (simp add: calls_bounded_def)
    then show ?thesis by (auto simp: settled(2) f of_bool_def split: if_splits)
  qed
  then show ?thesis using settled(1) by (simp add: calls_bounded_def)
qed

lemma calls_bounded_call:
  assumes b: "calls_bounded env s calls fails"
    and a: "authorize_execution env now d aid s = Inr (s', key)"
  shows "calls_bounded env s' (key # calls) fails"
proof -
  have wf: "table_wf (st_deliveries s)" using b by (simp add: calls_bounded_def)
  obtain ev where r: "reclaimable (json_state env) key s" and
    s': "s' = fst (claim_delivery_with_task_event (json_state env) now key ev s)"
    using a unfolding authorize_execution_ok [OF wf] by blast
  have row: "find_row k (st_deliveries s') =
    (if k = key then Some (claimed_row now ev (find_row key (st_deliveries s)))
     else find_row k (st_deliveries s))" for k
    unfolding s' by (rule claim_delivery_rows [OF wf r])
  have "delivery_taken (json_state env) k s' \<longleftrightarrow> k = key \<or> delivery_taken (json_state env) k s" for k
    by (simp add: taken_iff reclaimable_def row claimed_row_not_failed)
  moreover have "\<not> delivery_taken (json_state env) key s" using r by (simp add: taken_iff)
  moreover have "table_wf (st_deliveries s')" unfolding s' by (rule claim_delivery_wf [OF wf])
  moreover have "count_list calls k \<le> count_list fails k + of_bool (delivery_taken (json_state env) k s)" for k
    using b by (simp add: calls_bounded_def)
  moreover have "count_list calls key \<le> count_list fails key"
    using calculation(2) calculation(4) [of key] by simp
  ultimately show ?thesis by (auto simp: calls_bounded_def)
qed

lemma reconcile_delivery:
  assumes "reconcile_completed_task_from_snapshot env now i snap s = Inr (s', t')"
  shows "st_deliveries s' = st_deliveries s \<and> task_state t' = Completed \<or>
    (\<exists>key result completed s1. ambiguous_delivery_for_task (json_state env) (pick_row env) i s = Some key \<and>
       set_delivery key result completed s = Inr s1 \<and> st_deliveries s' = st_deliveries s1 \<and>
       (task_state t' = Completed \<and> (\<exists>sha. result = json_result env (ReconcileSucceeded sha)) \<or>
        task_state t' = AwaitingMergeApproval \<and> (\<exists>e. result = json_result env (ReconcileFailed e))))"
proof -
  from assms obtain t item c where o: "reconcile_outcome env now i t item c s = Inr (s', t')"
    by (rule reconcile_item)
  show ?thesis
  proof (cases c)
    case True
    then show ?thesis using reconcile_completed [of env now i t item s s' t'] o
      by (auto simp: complete_delivery_with_task_events_def and_then_eq_Inr) blast
  next
    case False
    then have "reconcile_outcome env now i t item False s = Inr (s', t')" using o by simp
    then show ?thesis
      by (rule reconcile_retry)
        (auto simp: complete_failed_merge_delivery_def and_then_eq_Inr; blast)
  qed
qed

text \<open>What may happen after a store, in the same terms: the calls and the failures since then.\<close>

inductive work_since :: "delivery_env \<Rightarrow> store \<Rightarrow> store \<Rightarrow> string list \<Rightarrow> string list \<Rightarrow> bool" for env s0 where
  none: "work_since env s0 s0 [] []"
| called: "work_since env s0 s calls fails \<Longrightarrow> authorize_execution env now d aid s = Inr (s', key) \<Longrightarrow>
     work_since env s0 s' (key # calls) fails"
| recorded: "work_since env s0 s calls fails \<Longrightarrow> outcome_state env outcome \<Longrightarrow>
     record_outcome now d key outcome s = Inr s' \<Longrightarrow>
     work_since env s0 s' calls (if is_failure outcome then key # fails else fails)"
| reconciled: "work_since env s0 s calls fails \<Longrightarrow>
     reconcile_completed_task_from_snapshot env now i snap s = Inr (s', t) \<Longrightarrow>
     work_since env s0 s' calls (if task_state t = AwaitingMergeApproval
       then the (ambiguous_delivery_for_task (json_state env) (pick_row env) i s) # fails else fails)"
| elsewhere: "work_since env s0 s calls fails \<Longrightarrow> st_deliveries s' = st_deliveries s \<Longrightarrow>
     work_since env s0 s' calls fails"

lemma work_since_bounded:
  assumes "reconcile_encoding env" "work_since env s0 s calls fails" "calls_bounded env s0 c0 f0"
  shows "calls_bounded env s (calls @ c0) (fails @ f0)"
  using assms(2)
proof (induction rule: work_since.induct)
  case none
  then show ?case using assms(3) by simp
next
  case (called s calls fails now d aid s' key)
  then show ?case using calls_bounded_call by fastforce
next
  case (recorded s calls fails outcome now d key s')
  obtain completed s1 where set: "set_delivery key (encoded_of outcome) completed s = Inr s1"
    and same: "st_deliveries s' = st_deliveries s1" using record_outcome_delivery [OF recorded(3)] by blast
  have "is_failure outcome \<longleftrightarrow> json_state env (encoded_of outcome) = Some ''failed''"
    using recorded(2) by (cases outcome) (auto simp: is_failure_def outcome_state_def encoded_of_def)
  then show ?case by (intro calls_bounded_settled [OF recorded(4) set same]) simp
next
  case (reconciled s calls fails now i snap s' t)
  from reconcile_delivery [OF reconciled(2)] show ?case
  proof (elim disjE exE conjE)
    assume "st_deliveries s' = st_deliveries s" "task_state t = Completed"
    then show ?thesis using reconciled(3) by (simp add: calls_bounded_def taken_iff reclaimable_def)
  next
    fix key result completed s1 sha
    assume "set_delivery key result completed s = Inr s1" "st_deliveries s' = st_deliveries s1"
      "task_state t = Completed" "result = json_result env (ReconcileSucceeded sha)"
    then show ?thesis using assms(1)
      by (intro calls_bounded_settled [OF reconciled(3)]) (auto simp: reconcile_encoding_def)
  next
    fix key result completed s1 e
    assume "ambiguous_delivery_for_task (json_state env) (pick_row env) i s = Some key"
      "set_delivery key result completed s = Inr s1" "st_deliveries s' = st_deliveries s1"
      "task_state t = AwaitingMergeApproval" "result = json_result env (ReconcileFailed e)"
    then show ?thesis using assms(1)
      by (intro calls_bounded_settled [OF reconciled(3)]) (auto simp: reconcile_encoding_def)
  qed
next
  case (elsewhere s calls fails s')
  then show ?case by (simp add: calls_bounded_def taken_iff reclaimable_def)
qed

text \<open>A key that is taken stays taken until a failure is recorded under it.\<close>

lemma taken_since:
  assumes "reconcile_encoding env" "work_since env s0 s calls fails" "table_wf (st_deliveries s0)"
    "delivery_taken (json_state env) k s0" "k \<notin> set fails"
  shows "table_wf (st_deliveries s)" "delivery_taken (json_state env) k s" "k \<notin> set calls"
proof -
  have "calls_bounded env s0 [k] []" using assms(3,4) by (auto simp: calls_bounded_def)
  then have b: "calls_bounded env s (calls @ [k]) fails" using work_since_bounded [OF assms(1,2)] by fastforce
  then have "count_list (calls @ [k]) k \<le> count_list fails k + of_bool (delivery_taken (json_state env) k s)"
    unfolding calls_bounded_def by blast
  moreover have "count_list fails k = 0" using assms(5) by (simp add: count_list_0_iff)
  ultimately have "count_list calls k = 0 \<and> delivery_taken (json_state env) k s"
    by (cases "delivery_taken (json_state env) k s") auto
  then show "delivery_taken (json_state env) k s" "k \<notin> set calls" by (auto simp: count_list_0_iff)
  show "table_wf (st_deliveries s)" using b by (simp add: calls_bounded_def)
qed

lemma deliveries_bounded:
  assumes "reconcile_encoding env" "deliveries env s calls fails"
  shows "calls_bounded env s calls fails"
proof -
  from assms(2) have "\<exists>s0. st_deliveries s0 = [] \<and> work_since env s0 s calls fails"
  proof (induction rule: deliveries.induct)
    case (start s)
    then show ?case using work_since.none by blast
  next
    case called
    then show ?case using work_since.called by blast
  next
    case recorded
    then show ?case using work_since.recorded by blast
  next
    case reconciled
    then show ?case using work_since.reconciled by blast
  next
    case elsewhere
    then show ?case using work_since.elsewhere by blast
  qed
  then obtain s0 where "st_deliveries s0 = []" "work_since env s0 s calls fails" by blast
  then show ?thesis
    using work_since_bounded [OF assms(1), of s0 s calls fails "[]" "[]"] by (simp add: calls_bounded_def)
qed

end
