(* ===== verification/Delivery_Properties.thy ===== *)
theory Delivery_Properties
  imports Core_Properties Rpc_Delivery
begin

text \<open>
  The properties of the delivery of approved actions (\<open>crates/patchwright-engine/src/delivery.rs\<close>
  and \<open>delivery_execute\<close> of \<open>rpc.rs\<close>): what an execution requires, how often GitHub is called, what
  the outcomes do to the task and its approvals, and what a reconciliation may conclude.
\<close>

section \<open>A concrete delivery for the witnesses\<close>

text \<open>An encoder under which a result is the name of its state.\<close>

definition sample_env :: delivery_env where
  "sample_env = \<lparr>sha256 = (\<lambda>_. sha256_c), json_digests = (\<lambda>_. Some []), fingerprint_digest = (\<lambda>_. []),
     show_task_id = (\<lambda>_. ''t''), inspect_head = (\<lambda>_. None), json_state = Some, pick_row = hd,
     json_result = (\<lambda>r. case r of ReconcileFailed _ \<Rightarrow> ''failed'' | ReconcileSucceeded _ \<Rightarrow> ''succeeded''),
     kill_switch = None\<rparr>"

definition sample_action :: github_action_preview where
  "sample_action = \<lparr>gp_remote = sample_remote, gp_action = merge_action,
     gp_precondition = sample_precondition 1, gp_payload_sha256 = sha256_c,
     gp_idempotency_sha256 = ''key'', gp_required_permissions = permissions_for merge_action\<rparr>"

definition sample_preview :: delivery_preview where
  "sample_preview = \<lparr>dp_task_id = 7, dp_action = sample_action,
     dp_fingerprint = preview_fingerprint sample_env 7 sample_action []\<rparr>"

definition delivery_store :: store where
  "delivery_store = empty_store\<lparr>st_tasks := [(7, merge_task)],
     st_bindings := [(3, \<lparr>bw_full_name = ''o/r'', bw_payload = sample_binding, bw_updated_at = 0\<rparr>)],
     st_contracts := [(7, \<lparr>cw_binding_id = 3, cw_version = 2, cw_payload = CurrentShape sample_contract,
       cw_updated_at = 0\<rparr>)]\<rparr>"

lemma sample_encoding: "reconcile_encoding sample_env"
  by (simp add: reconcile_encoding_def sample_env_def)

lemma delivery_store_rows [simp]:
  "load_task 7 delivery_store = Some merge_task"
  "repository_binding 3 delivery_store = Some sample_binding"
  "st_deliveries delivery_store = []" "st_approvals delivery_store = []"
  by (simp_all add: delivery_store_def load_task_def repository_binding_def find_row_def empty_store_def)

lemma sample_action_fields [simp]:
  "gp_action sample_action = merge_action" "gp_remote sample_action = sample_remote"
  "gp_precondition sample_action = sample_precondition 1" "gp_payload_sha256 sample_action = sha256_c"
  "gp_idempotency_sha256 sample_action = ''key''" "dp_action sample_preview = sample_action"
  "dp_task_id sample_preview = 7" "action_capability merge_action = CapMergePullRequest"
  by (simp_all add: sample_action_def sample_preview_def merge_action_def action_capability_def)

lemma delivery_store_contract: "load_task_contract 7 delivery_store = Inr (Some sample_contract)"
  using decode_wf_contract [OF sample_contract_wf]
  by (simp add: delivery_store_def load_task_contract_def find_row_def json_as_contract_def)

lemma merge_action_parts:
  "action_kind merge_action = capability_action_kind CapMergePullRequest"
  "action_pull_request_number merge_action = Some 4" "action_branch merge_action = None"
  "action_expected_head_sha merge_action = Some sha_a" "action_expected_base_sha merge_action = None"
  by (simp_all add: action_kind_def) (simp_all add: merge_action_def action_pull_request_number_def
      action_branch_def action_expected_head_sha_def action_expected_base_sha_def)

lemma sample_fingerprint_ok:
  "fingerprint_try_from (preview_fingerprint sample_env 7 sample_action []) =
     Inr (preview_fingerprint sample_env 7 sample_action [])"
proof -
  have "split_once CHR ''/'' ''o/r'' = Some (''o'', ''r'')" by (simp add: split_once_Some)
  moreover have "\<not> any_char (\<lambda>ch. is_whitespace ch \<or> is_control ch) ''o/r''"
    "\<not> any_char is_control (capability_action_kind CapMergePullRequest)"
    "capability_action_kind CapMergePullRequest \<noteq> []"
    by (rule graphic_clean, simp add: is_ascii_graphic_def, rule graphic_clean)
      (simp_all add: is_ascii_graphic_def capability_action_kind_def)
  ultimately show ?thesis
    by (simp add: fingerprint_try_from_ok approval_repository_name_def preview_fingerprint_def
        sample_remote_def sample_precondition_def trim_action_kind validated_text_ok
        sample_env_def validated_optional_text_ok merge_action_parts)
qed

lemma sample_fits:
  "action_fits_source merge_action (GitHubPullRequest sample_pull_request)"
  "(case merge_action of DraftPullRequest h t base c d e \<Rightarrow> f base | _ \<Rightarrow> Inr ()) = Inr ()"
  "(case merge_action of CreateBranch h i \<Rightarrow> g i | CheckRun a b c d \<Rightarrow> k b | _ \<Rightarrow> Inr ()) = Inr ()"
  by (simp_all add: merge_action_def action_fits_source_def)

lemma sample_preview_ok: "preview_delivery sample_env 7 sample_action delivery_store = Inr sample_preview"
  unfolding preview_delivery_ok
proof (intro exI conjI)
  show "load_task 7 delivery_store = Some merge_task" by simp
  show "load_task_contract 7 delivery_store = Inr (Some sample_contract)" by (rule delivery_store_contract)
  show "repository_binding (tc_repository_binding_id sample_contract) delivery_store = Some sample_binding"
    by (simp add: sample_contract_def)
  show "json_digests sample_env (tc_instruction_digests sample_contract) = Some []" by (simp add: sample_env_def)
qed (use sample_fingerprint_ok in \<open>simp_all add: merge_task_def sample_task_def expected_task_state_def merges_def
    sample_contract_def sample_remote_def sample_binding_def sample_pull_request_def sample_preview_def
    source_repository_id_def source_repository_full_name_def source_item_number_def
    validate_action_target_def validate_bound_preconditions_def validate_action_sha_def bound_matches_def
    merge_action_parts sample_precondition_def sample_fits [unfolded sample_pull_request_def]\<close>)

section \<open>What an execution requires and does\<close>

lemma action_needs_approval: "\<not> needs_no_approval (action_capability a)"
  by (cases a) (simp_all add: action_capability_def needs_no_approval_def)

lemma claim_delivery_tasks:
  assumes "snd (claim_delivery_with_task_event js now key ev s)"
  shows "load_task i (fst (claim_delivery_with_task_event js now key ev s)) =
    (case ev of Some (t, m) \<Rightarrow> if i = task_id t then Some t else load_task i s | None \<Rightarrow> load_task i s)"
  using assms
  by (auto simp: claim_delivery_with_task_event_def split_def Let_def load_task_def split: option.splits)

text \<open>C28: Execution is authorized. A delivery is executed only on a stored approval that was not
  withdrawn, minted for exactly the fingerprint, capability and class of the action and not expired,
  with the kill switch off, on a task in the state that awaits this approval, for a capability that
  the contract declares, and when the preview computed afresh is the one approved; its key was free,
  and taking it moves the task into merging exactly for a merge.\<close>

theorem execution_authorized:
  assumes "table_wf (st_deliveries s)" and "authorize_execution env now d aid s = Inr (s', key)"
  shows "\<exists>t contract a. load_task (dp_task_id d) s = Some t \<and>
    load_task_contract (dp_task_id d) s = Inr (Some contract) \<and> load_approval aid s = Some a \<and>
    (let c = action_capability (gp_action (dp_action d)) in
      task_state t = expected_task_state c \<and> c \<in> set (tc_required_capabilities contract) \<and>
      is_valid_for a (required_class c) c (dp_fingerprint d) now \<and>
      kill_switch env \<noteq> Some ''1'' \<and>
      preview_delivery env (dp_task_id d) (dp_action d) s = Inr d \<and>
      \<not> delivery_taken (json_state env) key s \<and> delivery_taken (json_state env) key s' \<and>
      (\<forall>i. load_task i s' = (if merges c \<and> i = task_id t
        then Some (t\<lparr>task_state := Merging, task_updated_at := now\<rparr>) else load_task i s)))"
proof -
  let ?c = "action_capability (gp_action (dp_action d))"
  note ok = assms(2) [unfolded authorize_execution_ok [OF assms(1)]]
  then obtain a t where p: "preview_delivery env (dp_task_id d) (dp_action d) s = Inr d"
    and r: "reclaimable (json_state env) key s" and a: "load_approval aid s = Some a"
    and t: "load_task (dp_task_id d) s = Some t"
    and allowed: "authorize (policy_default (kill_switch env)) ?c (dp_fingerprint d) (Some a) now = Allowed"
    and s': "s' = fst (claim_delivery_with_task_event (json_state env) now key (execution_event now ?c t) s)"
    by blast
  obtain contract where c: "load_task_contract (dp_task_id d) s = Inr (Some contract)"
    "task_state t = expected_task_state ?c" "?c \<in> set (tc_required_capabilities contract)"
    using p t by (auto simp: preview_delivery_ok)
  have "kill_switch env \<noteq> Some ''1''"
    using allowed action_needs_approval by (auto simp: authorize_Allowed_iff policy_default_def needs_no_approval_def)
  moreover have "delivery_taken (json_state env) key s'"
    using claim_delivery_rows [OF assms(1) r] by (simp add: s' taken_iff reclaimable_def claimed_row_not_failed)
  moreover have "\<not> delivery_taken (json_state env) key s" using r by (simp add: taken_iff)
  moreover have "\<forall>i. load_task i s' = (if merges ?c \<and> i = task_id t
      then Some (t\<lparr>task_state := Merging, task_updated_at := now\<rparr>) else load_task i s)"
    using claim_delivery_granted [OF assms(1), of "json_state env" now key "execution_event now ?c t"] r
    by (auto simp: s' claim_delivery_tasks execution_event_def)
  moreover have "is_valid_for a (required_class ?c) ?c (dp_fingerprint d) now"
    using allowed action_needs_approval by (auto simp: authorize_Allowed_iff)
  ultimately show ?thesis using p a t c by (auto simp: Let_def)
qed

text \<open>The approval of a delivery, and the execution that follows it in time.\<close>

lemma class_of_delivery:
  "(if merges (action_capability a) then Merge else GitHubDelivery) = required_class (action_capability a)"
  by (cases a) (simp_all add: action_capability_def merges_def required_class_def)

lemma approve_delivery_ok:
  "approve_delivery env fresh now d who s = Inr (s', a) \<longleftrightarrow>
     preview_delivery env (dp_task_id d) (dp_action d) s = Inr d \<and>
     trim who \<noteq> [] \<and> \<not> any_char is_control (trim who) \<and>
     a = \<lparr>ap_id = fresh, ap_class = required_class (action_capability (gp_action (dp_action d))),
       ap_capability = action_capability (gp_action (dp_action d)), ap_fingerprint = dp_fingerprint d,
       ap_approved_by = trim who, ap_approved_at = now, ap_expires_at = now + minutes 10\<rparr> \<and>
     s' = save_approval (fingerprint_digest env) a s"
proof -
  have "class_supports (required_class (action_capability c)) (action_capability c)" for c
    by (cases c) (simp_all add: action_capability_def class_supports_def required_class_def)
  moreover have "0 < minutes 10" "minutes 10 \<le> max_approval_duration"
    by (simp_all add: minutes_def seconds_def max_approval_duration_def)
  moreover have "fp_action_kind (dp_fingerprint d) = capability_action_kind (action_capability (gp_action (dp_action d)))"
    if "preview_delivery env (dp_task_id d) (dp_action d) s = Inr d"
    using preview_delivery_parts(4) [OF that] .
  ultimately show ?thesis
    unfolding approve_delivery_def Let_def class_of_delivery
    by (auto simp: and_then_eq_Inr ensure_eq_Inr map_err_eq_Inr new_approval_ok)
qed

lemma approved_row:
  assumes "find_row (ap_id a) (st_approvals s) = None"
  shows "load_approval (ap_id a) (save_approval digest a s) = Some a"
  using assms by (simp add: save_approval_def load_approval_def)

lemma find_row_empty: "find_row k [] = None"
  by (simp add: find_row_def)

text \<open>The approved sample: its approval, the store with it, and its execution after a second.\<close>

lemma sample_approved:
  obtains s a where "approve_delivery sample_env 1 0 sample_preview ''who'' delivery_store = Inr (s, a)"
    "load_approval 1 s = Some a"
    "\<And>r i. find_row i (st_approvals s) = Some r \<Longrightarrow> i = 1 \<and> aw_task_id r = 7"
    "st_deliveries s = []" "load_task 7 s = Some merge_task"
    "preview_delivery sample_env 7 sample_action s = Inr sample_preview"
proof -
  define a where "a = \<lparr>ap_id = 1, ap_class = required_class CapMergePullRequest,
       ap_capability = CapMergePullRequest, ap_fingerprint = dp_fingerprint sample_preview,
       ap_approved_by = ''who'', ap_approved_at = 0, ap_expires_at = minutes 10\<rparr>"
  define s where "s = save_approval (fingerprint_digest sample_env) a delivery_store"
  have "approve_delivery sample_env 1 0 sample_preview ''who'' delivery_store = Inr (s, a)"
    unfolding approve_delivery_ok using sample_preview_ok by (simp add: a_def s_def)
  moreover have "load_approval 1 s = Some a"
    using approved_row [of a delivery_store] by (simp add: s_def a_def find_row_def)
  moreover have "find_row i (st_approvals s) = Some r \<Longrightarrow> i = 1 \<and> aw_task_id r = 7" for i r
    using preview_delivery_parts(3) [OF sample_preview_ok]
    by (auto simp: s_def save_approval_def a_def find_row_empty split: if_splits)
  moreover have "preview_delivery sample_env 7 sample_action s = Inr sample_preview"
    using preview_delivery_cong [of s delivery_store] sample_preview_ok by (simp add: s_def save_approval_def)
  moreover have "st_deliveries s = []" "load_task 7 s = Some merge_task"
    using delivery_store_rows(1) by (simp_all add: s_def save_approval_def load_task_def)
  ultimately show thesis using that by blast
qed

lemma claim_delivery_approvals:
  "st_approvals (fst (claim_delivery_with_task_event js now key ev s)) = st_approvals s"
  by (auto simp: claim_delivery_with_task_event_def split_def Let_def split: option.splits)

lemma sample_executed:
  obtains s a s' where "approve_delivery sample_env 1 0 sample_preview ''who'' delivery_store = Inr (s, a)"
    "authorize_execution sample_env (seconds 1) sample_preview 1 s = Inr (s', ''key'')"
    "table_wf (st_deliveries s)" "st_deliveries s = []" "table_wf (st_deliveries s')"
    "delivery_claimed ''key'' s'"
    "load_task 7 s' = Some (merge_task\<lparr>task_state := Merging, task_updated_at := seconds 1\<rparr>)"
    "find_row 1 (st_approvals s') \<noteq> None"
    "\<And>r i. find_row i (st_approvals s') = Some r \<Longrightarrow> i = 1 \<and> aw_task_id r = 7"
proof -
  obtain s a where s: "approve_delivery sample_env 1 0 sample_preview ''who'' delivery_store = Inr (s, a)"
    "load_approval 1 s = Some a" "st_deliveries s = []" "load_task 7 s = Some merge_task"
    "preview_delivery sample_env 7 sample_action s = Inr sample_preview"
    "\<And>r i. find_row i (st_approvals s) = Some r \<Longrightarrow> i = 1 \<and> aw_task_id r = 7"
    using sample_approved by metis
  have wf: "table_wf (st_deliveries s)" by (simp add: s)
  have r: "reclaimable (json_state sample_env) ''key'' s" by (simp add: reclaimable_def s find_row_empty)
  have a: "ap_fingerprint a = dp_fingerprint sample_preview" "ap_capability a = CapMergePullRequest"
    "ap_class a = required_class CapMergePullRequest" "ap_approved_at a = 0" "ap_expires_at a = minutes 10"
    using s(1) by (auto simp: approve_delivery_ok)
  have "authorize (policy_default (kill_switch sample_env)) CapMergePullRequest (dp_fingerprint sample_preview)
      (Some a) (seconds 1) = Allowed"
    using preview_delivery_parts(4) [OF sample_preview_ok] a
    by (simp add: authorize_Allowed_iff is_valid_for_def policy_default_def sample_env_def minutes_def seconds_def)
  moreover define ev where "ev = execution_event (seconds 1) CapMergePullRequest merge_task"
  moreover define s' where "s' = fst (claim_delivery_with_task_event (json_state sample_env) (seconds 1) ''key'' ev s)"
  ultimately have e: "authorize_execution sample_env (seconds 1) sample_preview 1 s = Inr (s', ''key'')"
    using authorize_execution_ok [OF wf, of sample_env "seconds 1" sample_preview 1] s r by simp
  have t: "load_task 7 s' = Some (merge_task\<lparr>task_state := Merging, task_updated_at := seconds 1\<rparr>)"
    using claim_delivery_granted [OF wf] r
    by (simp add: s'_def claim_delivery_tasks ev_def execution_event_def merges_def merge_task_def sample_task_def)
  have c: "delivery_claimed ''key'' s'"
    using claim_delivery_rows [OF wf r, of "''key''"] by (simp add: s'_def delivery_claimed_def has_row_def)
  have wf': "table_wf (st_deliveries s')" unfolding s'_def by (rule claim_delivery_wf [OF wf])
  have ap: "st_approvals s' = st_approvals s" by (simp add: s'_def claim_delivery_approvals)
  have f: "find_row 1 (st_approvals s') \<noteq> None"
    using s(2) by (auto simp: ap load_approval_def split: option.splits)
  show thesis by (rule that [OF s(1) e wf s(3) wf' c t f]) (use s(6) ap in simp)
qed

lemma executed_taken:
  assumes wf: "table_wf (st_deliveries s)" and e: "authorize_execution env now d aid s = Inr (s', key)"
  shows "table_wf (st_deliveries s')" "delivery_taken (json_state env) key s'"
proof -
  obtain ev where r: "reclaimable (json_state env) key s"
    and s': "s' = fst (claim_delivery_with_task_event (json_state env) now key ev s)"
    using e unfolding authorize_execution_ok [OF wf] by blast
  show "table_wf (st_deliveries s')" unfolding s' by (rule claim_delivery_wf [OF wf])
  show "delivery_taken (json_state env) key s'"
    using claim_delivery_rows [OF wf r] by (simp add: s' taken_iff reclaimable_def claimed_row_not_failed)
qed

lemma ambiguous_recorded:
  assumes wf: "table_wf (st_deliveries s)" and e: "authorize_execution env now d aid s = Inr (s', key)"
  shows "\<exists>s2. record_outcome now d key (MutationAmbiguous encoded) s' = Inr s2"
proof -
  obtain ev where r: "reclaimable (json_state env) key s"
    and s': "s' = fst (claim_delivery_with_task_event (json_state env) now key ev s)"
    using e unfolding authorize_execution_ok [OF wf] by blast
  have "has_row key (st_deliveries s')"
    using claim_delivery_rows [OF wf r, of key] by (simp add: s' has_row_def)
  then show ?thesis
    using executed_taken(1) [OF wf e]
    by (auto simp: record_outcome_def record_ambiguous_delivery_def mark_delivery_ambiguous_def set_delivery_ok
        map_err_eq_Inr has_row_def delivery_claimed_def)
qed

text \<open>C29: Approve, then execute. A delivery approved under a fresh identifier is executed at any
  time in the ten minutes that follow and at no time after them, when the kill switch is off, its
  approval stands, its key is free and the tasks, contracts and bindings are as they were at the
  approval; and once it is executed its key is not executed again, for this delivery or any other and
  under this approval or any other, whatever executions, recorded outcomes, reconciliations and
  other work follow, until a failure is recorded under the key.\<close>

theorem approve_then_execute:
  assumes encoding: "reconcile_encoding env" and on: "kill_switch env \<noteq> Some ''1''"
    and fresh: "find_row fresh (st_approvals s) = None"
    and ok: "approve_delivery env fresh now d who s = Inr (s', a)"
    and same: "st_tasks s1 = st_tasks s'" "st_contracts s1 = st_contracts s'" "st_bindings s1 = st_bindings s'"
    and stands: "find_row fresh (st_approvals s1) = find_row fresh (st_approvals s')"
    and wf: "table_wf (st_deliveries s1)"
    and free: "\<not> delivery_taken (json_state env) (gp_idempotency_sha256 (dp_action d)) s1"
  shows "((\<exists>s2 key. authorize_execution env later d fresh s1 = Inr (s2, key)) \<longleftrightarrow>
      now \<le> later \<and> later < now + minutes 10) \<and>
    (authorize_execution env later d fresh s1 = Inr (s2, key) \<longrightarrow>
      work_since env s2 s3 calls fails \<longrightarrow> key \<notin> set fails \<longrightarrow>
      key \<notin> set calls \<and> (\<nexists>s4. authorize_execution env later' d' aid s3 = Inr (s4, key)) \<and>
      (\<nexists>r. authorize_execution env later' d aid s3 = Inr r))"
proof -
  note a = ok [unfolded approve_delivery_ok]
  let ?key = "gp_idempotency_sha256 (dp_action d)" and ?c = "action_capability (gp_action (dp_action d))"
  have "st_tasks s1 = st_tasks s" "st_contracts s1 = st_contracts s" "st_bindings s1 = st_bindings s"
    using a same by (simp_all add: save_approval_def)
  then have p: "preview_delivery env (dp_task_id d) (dp_action d) s1 = Inr d"
    using a preview_delivery_cong [of s1 s] by simp
  have la: "load_approval fresh s1 = Some a"
    using a approved_row [of a s] fresh stands by (simp add: load_approval_def)
  have r: "reclaimable (json_state env) ?key s1" using free by (simp add: taken_iff)
  obtain t where t: "load_task (dp_task_id d) s1 = Some t" using p by (auto simp: preview_delivery_ok)
  have "authorize (policy_default (kill_switch env)) ?c (dp_fingerprint d) (Some a) later = Allowed \<longleftrightarrow>
      now \<le> later \<and> later < now + minutes 10"
    using a on action_needs_approval preview_delivery_parts(4) [OF p]
    by (auto simp: authorize_Allowed_iff is_valid_for_def policy_default_def)
      (cases "gp_action (dp_action d)"; simp add: action_capability_def)
  then have "(\<exists>s2 key. authorize_execution env later d fresh s1 = Inr (s2, key)) \<longleftrightarrow>
      now \<le> later \<and> later < now + minutes 10"
    unfolding authorize_execution_ok [OF wf] using p la r t by auto
  moreover have "key \<notin> set calls \<and> (\<nexists>s4. authorize_execution env later' d' aid s3 = Inr (s4, key)) \<and>
      (\<nexists>r. authorize_execution env later' d aid s3 = Inr r)"
    if e: "authorize_execution env later d fresh s1 = Inr (s2, key)"
      and since: "work_since env s2 s3 calls fails" "key \<notin> set fails"
  proof -
    have key: "key = ?key" using e unfolding authorize_execution_ok [OF wf] by blast
    note taken = taken_since [OF encoding since(1) executed_taken [OF wf e] since(2)]
    have no: "\<nexists>s4. authorize_execution env later' x aid s3 = Inr (s4, key)" for x
      using taken(2) unfolding authorize_execution_ok [OF taken(1)] by (simp add: taken_iff)
    have "\<nexists>r. authorize_execution env later' d aid s3 = Inr r"
    proof
      assume "\<exists>r. authorize_execution env later' d aid s3 = Inr r"
      then obtain s4 k where x: "authorize_execution env later' d aid s3 = Inr (s4, k)" by (metis surj_pair)
      then have "k = ?key" unfolding authorize_execution_ok [OF taken(1)] by blast
      with x no [of d] show False unfolding key by blast
    qed
    with taken(3) no show ?thesis by blast
  qed
  ultimately show ?thesis by blast
qed

theorem execution_authorized_witness:
  "\<exists>s s' t. authorize_execution sample_env (seconds 1) sample_preview 1 s = Inr (s', ''key'') \<and>
     load_task 7 s = Some t \<and> load_task (task_id t) s' = Some (t\<lparr>task_state := Merging, task_updated_at := seconds 1\<rparr>)"
proof -
  obtain s s' where e: "authorize_execution sample_env (seconds 1) sample_preview 1 s = Inr (s', ''key'')"
    "table_wf (st_deliveries s)" using sample_executed by metis
  then obtain t where "load_task 7 s = Some t"
    "load_task (task_id t) s' = Some (t\<lparr>task_state := Merging, task_updated_at := seconds 1\<rparr>)"
    using execution_authorized [OF e(2,1)] by (auto simp: Let_def merges_def)
  with e show ?thesis by blast
qed

theorem approve_then_execute_witness:
  "\<exists>s a s1 s2 key. approve_delivery sample_env 1 0 sample_preview ''who'' delivery_store = Inr (s, a) \<and>
     authorize_execution sample_env (minutes 9) sample_preview 1 s = Inr (s1, key) \<and>
     record_outcome (minutes 9) sample_preview key (MutationAmbiguous ''ambiguous'') s1 = Inr s2 \<and>
     (\<nexists>r. authorize_execution sample_env (minutes 9) sample_preview 1 s2 = Inr r)"
proof -
  obtain s a where ok: "approve_delivery sample_env 1 0 sample_preview ''who'' delivery_store = Inr (s, a)"
    and s: "st_deliveries s = []" using sample_approved by metis
  have facts: "table_wf (st_deliveries s)" "\<not> delivery_taken (json_state sample_env) (gp_idempotency_sha256 (dp_action sample_preview)) s"
    "kill_switch sample_env \<noteq> Some ''1''" "find_row 1 (st_approvals delivery_store) = None"
    by (simp_all add: s sample_env_def taken_iff reclaimable_def find_row_def)
  note run = approve_then_execute [OF sample_encoding facts(3,4) ok refl refl refl refl facts(1,2)]
  obtain s1 key where e: "authorize_execution sample_env (minutes 9) sample_preview 1 s = Inr (s1, key)"
  proof -
    have "\<exists>s1 key. authorize_execution sample_env (minutes 9) sample_preview 1 s = Inr (s1, key)"
      by (rule run [THEN conjunct1, THEN iffD2]) (simp add: minutes_def seconds_def)
    then show thesis using that by blast
  qed
  obtain s2 where o: "record_outcome (minutes 9) sample_preview key (MutationAmbiguous ''ambiguous'') s1 = Inr s2"
    using ambiguous_recorded [OF facts(1) e] by blast
  have "work_since sample_env s1 s2 [] []"
    using work_since.recorded [OF work_since.none _ o]
    by (simp add: outcome_state_def sample_env_def is_failure_def)
  then have "\<nexists>r. authorize_execution sample_env (minutes 9) sample_preview 1 s2 = Inr r"
    using run [of "minutes 9" s1 key s2 "[]" "[]" "minutes 9" sample_preview 1] e by simp
  with ok e o show ?thesis by (intro exI conjI)
qed

section \<open>How often GitHub is called\<close>

text \<open>C1: No repeated effect. In every run of executions, recorded outcomes, reconciliations and other
  work, with processes stopping anywhere, GitHub is called under an idempotency key at most once more
  than the calls under this key that were recorded as definitely rejected: never again while a call
  is in flight, ambiguous or successful.\<close>

theorem remote_calls_bounded:
  assumes "reconcile_encoding env" and "deliveries env s calls fails"
  shows "count_list calls k \<le> count_list fails k + 1 \<and>
    (authorize_execution env now d aid s = Inr (s', k) \<longrightarrow> count_list calls k \<le> count_list fails k)"
proof -
  have b: "calls_bounded env s calls fails" using deliveries_bounded assms by blast
  then have wf: "table_wf (st_deliveries s)" by (simp add: calls_bounded_def)
  have le: "count_list calls k \<le> count_list fails k + of_bool (delivery_taken (json_state env) k s)"
    using b by (simp add: calls_bounded_def)
  have "\<not> delivery_taken (json_state env) k s" if "authorize_execution env now d aid s = Inr (s', k)"
    using that unfolding authorize_execution_ok [OF wf] taken_iff not_not by (elim conjE)
  with le show ?thesis by (cases "delivery_taken (json_state env) k s") auto
qed

theorem remote_calls_bounded_witness:
  "\<exists>s. deliveries sample_env s [''key''] [] \<and> (\<nexists>s'. authorize_execution sample_env (seconds 2) sample_preview 1 s = Inr (s', ''key''))"
proof -
  obtain s s' where "st_deliveries s = []"
    "authorize_execution sample_env (seconds 1) sample_preview 1 s = Inr (s', ''key'')"
    using sample_executed by metis
  then have run: "deliveries sample_env s' [''key''] []"
    by (blast intro: deliveries.start deliveries.called)
  with remote_calls_bounded [OF sample_encoding run, of "''key''" "seconds 2" sample_preview 1]
  show ?thesis by auto
qed

section \<open>Outcomes\<close>

text \<open>C33: A rejected merge needs a fresh approval. When GitHub definitely rejects a merge that was
  started, recording it returns the task to waiting for a merge approval and withdraws every approval
  the task had; no execution succeeds under any of them any more, though the key is free again.\<close>

theorem rejected_merge:
  assumes wf: "table_wf (st_deliveries s)" and "outcome_state env (MutationFailed encoded)"
    and "record_outcome now d key (MutationFailed encoded) s = Inr s'"
    and "merges (action_capability (gp_action (dp_action d)))"
    and "load_task (dp_task_id d) s = Some t" and "task_state t = Merging"
    and "find_row aid (st_approvals s) = Some r" and "aw_task_id r = task_id t"
  shows "load_task (task_id t) s' = Some (t\<lparr>task_state := AwaitingMergeApproval, task_updated_at := now\<rparr>) \<and>
    load_approval aid s' = None \<and> (\<nexists>x. authorize_execution env later d' aid s' = Inr x) \<and>
    \<not> delivery_taken (json_state env) key s'"
proof -
  have f: "complete_failed_delivery now d key encoded s = Inr s'"
    using assms(3) by (simp add: record_outcome_def)
  note after = complete_failed_merge [OF f assms(4-6)]
  have none: "load_approval aid s' = None" using after(2) assms(7,8) by blast
  have "\<nexists>x. authorize_execution env later d' aid s' = Inr x"
    by (auto simp: authorize_execution_def and_then_eq_Inr ok_or_eq_Inr none)
  moreover obtain completed s1 where "set_delivery key encoded completed s = Inr s1" "st_deliveries s' = st_deliveries s1"
    using record_outcome_delivery [OF assms(3)] by (auto simp: encoded_of_def)
  then have "\<not> delivery_taken (json_state env) key s'"
    using settled(2) [OF wf] assms(2) by (simp add: outcome_state_def)
  ultimately show ?thesis using after(1) none by blast
qed

theorem rejected_merge_witness:
  "\<exists>s s' t. authorize_execution sample_env (seconds 1) sample_preview 1 s = Inr (s', ''key'') \<and>
     record_outcome (seconds 2) sample_preview ''key'' (MutationFailed ''failed'') s' = Inr t \<and>
     load_approval 1 t = None \<and> \<not> delivery_taken Some ''key'' t"
proof -
  obtain s s' where s: "authorize_execution sample_env (seconds 1) sample_preview 1 s = Inr (s', ''key'')"
    "table_wf (st_deliveries s')" "delivery_claimed ''key'' s'" "find_row 1 (st_approvals s') \<noteq> None"
    "load_task 7 s' = Some (merge_task\<lparr>task_state := Merging, task_updated_at := seconds 1\<rparr>)"
    "\<And>r i. find_row i (st_approvals s') = Some r \<Longrightarrow> i = 1 \<and> aw_task_id r = 7" using sample_executed by metis
  obtain r where r: "find_row 1 (st_approvals s') = Some r" using s(4) by blast
  have i: "task_id merge_task = 7" by (simp add: merge_task_def sample_task_def)
  obtain t where t: "record_outcome (seconds 2) sample_preview ''key'' (MutationFailed ''failed'') s' = Inr t"
    using s(2,3,5)
    by (auto simp: record_outcome_def complete_failed_delivery_def complete_failed_merge_delivery_def
        set_delivery_ok delivery_claimed_def merges_def transition_def permits_def and_then_eq_Inr map_err_eq_Inr)
  have "outcome_state sample_env (MutationFailed ''failed'')" by (simp add: outcome_state_def sample_env_def)
  from rejected_merge [OF s(2) this t _ _ _ r, of _ 0 sample_preview] s(5) s(6) [OF r] i
  show ?thesis using s(1) t by (auto simp: merges_def sample_env_def)
qed

text \<open>A successful merge. Recording that GitHub merged the pull request completes the task, keeps
  the result under its key and keeps the key taken; a success without the merge flag, and a merge
  that was only enqueued, leave the task in merging.\<close>

theorem successful_merge:
  assumes wf: "table_wf (st_deliveries s)" and "delivery_claimed key s"
    and "outcome_state env (MutationSucceeded merged encoded)"
    and "merges (action_capability (gp_action (dp_action d)))"
    and "load_task (dp_task_id d) s = Some t" and "task_state t = Merging" and "task_id t = dp_task_id d"
  shows "\<exists>s'. record_outcome now d key (MutationSucceeded merged encoded) s = Inr s' \<and>
    load_task (task_id t) s' = Some (if merged = Some True \<and>
        action_capability (gp_action (dp_action d)) = CapMergePullRequest
      then t\<lparr>task_state := Completed, task_updated_at := now\<rparr> else t) \<and>
    delivery_result key s' = Some (Some encoded) \<and> delivery_taken (json_state env) key s'"
proof -
  let ?c = "action_capability (gp_action (dp_action d))"
  have taken: "delivery_taken (json_state env) key s'"
    if ok: "record_outcome now d key (MutationSucceeded merged encoded) s = Inr s'" for s'
  proof -
    obtain completed s1 where "set_delivery key encoded completed s = Inr s1" "st_deliveries s' = st_deliveries s1"
      using record_outcome_delivery [OF ok, unfolded encoded_of_def mutation_outcome.case] by blast
    then show ?thesis using settled(2) [OF wf] assms(3) by (simp add: outcome_state_def)
  qed
  show ?thesis
  proof (cases "merged = Some True \<and> ?c = CapMergePullRequest")
    case True
    then show ?thesis
      using complete_successful_merge [OF wf _ assms(5,6,2), of now encoded] taken
      by (auto simp: record_outcome_def)
  next
    case False
    obtain s1 where s1: "set_delivery key encoded (Some (datetime_now now)) s = Inr s1"
      using assms(2) set_delivery_ok [OF wf] by (auto simp: delivery_claimed_def)
    have "\<not> terminal_delivery ?c (merged = Some True)" "\<not> enters_monitoring ?c"
      using False assms(4) by (auto simp: terminal_delivery_def enters_monitoring_def merges_def)
    then have r: "record_outcome now d key (MutationSucceeded merged encoded) s = Inr s1"
      using s1 by (simp add: record_outcome_def complete_successful_delivery_def complete_delivery_def)
    moreover have "delivery_result key s1 = Some (Some encoded)"
      using set_delivery_row [OF wf s1, of key] assms(2)
      by (auto simp: delivery_result_def delivery_claimed_def has_row_def)
    moreover have "load_task (task_id t) s1 = Some t"
      using set_delivery_frame(6) [OF s1] assms(5,7) by simp
    ultimately show ?thesis using taken [OF r] False by auto
  qed
qed

theorem successful_merge_witness:
  "\<exists>s t. record_outcome (seconds 2) sample_preview ''key'' (MutationSucceeded (Some True) ''succeeded'') s = Inr t \<and>
     map_option task_state (load_task 7 s) = Some Merging \<and> map_option task_state (load_task 7 t) = Some Completed"
proof -
  obtain s where s: "table_wf (st_deliveries s)" "delivery_claimed ''key'' s"
    "load_task 7 s = Some (merge_task\<lparr>task_state := Merging, task_updated_at := seconds 1\<rparr>)"
    using sample_executed by metis
  have "outcome_state sample_env (MutationSucceeded (Some True) ''succeeded'')"
    by (simp add: outcome_state_def sample_env_def)
  with successful_merge [OF s(1,2), of sample_env "Some True" "''succeeded''" sample_preview _ "seconds 2"] s(3)
  obtain t where "record_outcome (seconds 2) sample_preview ''key'' (MutationSucceeded (Some True) ''succeeded'') s = Inr t"
    "load_task 7 t = Some (merge_task\<lparr>task_state := Completed, task_updated_at := seconds 2\<rparr>)"
    by (auto simp: merges_def merge_task_def sample_task_def)
  with s(3) show ?thesis by (intro exI [of _ s] exI [of _ t]) simp
qed

section \<open>Reconciliation\<close>

text \<open>The item shows the outcome of the task: its pull request merged at the head the task knows, or
  its issue closed, and not as not planned.\<close>

definition outcome_shown :: "task \<Rightarrow> github_work_item \<Rightarrow> bool" where
  "outcome_shown t item \<longleftrightarrow> (case wi_kind item of
       PullRequestItem \<Rightarrow> wi_head_sha item = source_head_sha (task_source t) \<and> wi_merged item = Some True
     | IssueItem \<Rightarrow> wi_state item = ''closed'' \<and> wi_state_reason item \<noteq> Some ''not_planned'')"

definition merge_not_shown :: "task \<Rightarrow> github_work_item \<Rightarrow> bool" where
  "merge_not_shown t item \<longleftrightarrow> wi_kind item = PullRequestItem \<and>
     wi_head_sha item = source_head_sha (task_source t) \<and> wi_merged item \<noteq> Some True"

lemma item_completed_ok:
  "item_completed t item = Inr c \<Longrightarrow> (c \<longleftrightarrow> outcome_shown t item) \<and>
     (\<not> c \<and> wi_kind item = PullRequestItem \<longrightarrow> merge_not_shown t item)"
  by (cases "wi_kind item") (auto simp: item_completed_def outcome_shown_def merge_not_shown_def split: if_splits)

lemma completion_events_load:
  assumes "completion_events now t = Inr es"
  shows "load_task (task_id t) (save_task_events es s) = Some (fst (last es))"
proof -
  let ?steps = "steps_from (task_state t) completion_lifecycle"
  have ne: "es \<noteq> []" using completion_events_ok(1) [OF assms] .
  have a: "advance_through now ?steps t = Inr es"
    using assms by (auto simp: completion_events_def Let_def map_err_eq_Inr split: if_splits)
  then have "\<forall>u\<in>set (map fst es). same_task t u"
    using advance_through_ok [OF completion_steps_ok [of "task_state t"], of now] by auto
  then show ?thesis by (intro load_task_events [OF ne]) (force simp: same_task_def)
qed

text \<open>C34: Reconciliation goes by the evidence. A reconciliation only moves the task that the snapshot
  is about: to completed when the item of its source shows its outcome at the head the task knows, or
  from merging back to waiting for a merge approval when the pull request shows no merge and the
  task's delivery was left ambiguous, and then it withdraws every approval of the task.\<close>

theorem reconciled_by_evidence:
  assumes "reconcile_completed_task_from_snapshot env now i snap s = Inr (s', t')"
    and "\<And>t. load_task i s = Some t \<Longrightarrow> task_id t = i"
  shows "load_task i s' = Some t' \<and> (\<exists>t item. load_task i s = Some t \<and> source_item t snap item \<and>
    same_task t t' \<and>
    (task_state t' = Completed \<and> outcome_shown t item \<or>
     task_state t = Merging \<and> task_state t' = AwaitingMergeApproval \<and> merge_not_shown t item \<and>
     ambiguous_delivery_for_task (json_state env) (pick_row env) i s \<noteq> None \<and>
     (\<forall>aid r. find_row aid (st_approvals s) = Some r \<longrightarrow> aw_task_id r = i \<longrightarrow> load_approval aid s' = None)))"
proof -
  from assms(1) obtain t item c where t: "load_task i s = Some t" and item: "source_item t snap item"
    and c: "item_completed t item = Inr c" and o: "reconcile_outcome env now i t item c s = Inr (s', t')"
    by (rule reconcile_item)
  have i: "task_id t = i" using assms(2) t .
  show ?thesis
  proof (cases c)
    case True
    have r: "task_state t' = Completed" "same_task t t'"
      and w: "s' = s \<and> t' = t \<or> (\<exists>es. completion_events now t = Inr es \<and> t' = fst (last es) \<and>
        (s' = save_task_events es s \<or> (\<exists>key result. complete_delivery_with_task_events now key result es s = Inr s')))"
      using reconcile_completed [of env now i t item s s' t'] o unfolding eqTrueI [OF True] by blast+
    have "load_task i s' = Some t'"
      using w t completion_events_load [of now t] i by (auto simp: complete_delivery_with_task_events_def and_then_eq_Inr)
    then show ?thesis using r t item item_completed_ok [OF c] True by blast
  next
    case False
    then have "reconcile_outcome env now i t item False s = Inr (s', t')" using o by simp
    then obtain key result where r: "task_state t = Merging"
      "ambiguous_delivery_for_task (json_state env) (pick_row env) i s = Some key"
      "wi_kind item = PullRequestItem" "t' = t\<lparr>task_state := AwaitingMergeApproval, task_updated_at := now\<rparr>"
      "\<exists>m. complete_failed_merge_delivery now key result t' m s = Inr s'"
      by (rule reconcile_retry) blast
    obtain s1 m where s1: "set_delivery key result (Some (datetime_now now)) s = Inr s1"
      and s': "s' = record_task t' m (fst (invalidate_task_approvals now (task_id t') s1))"
      using r(5) by (auto simp: complete_failed_merge_delivery_def and_then_eq_Inr)
    have id: "task_id t' = i" using r(4) i by simp
    have gone: "load_approval aid s' = None" if "find_row aid (st_approvals s) = Some a" "aw_task_id a = i" for aid a
      using that set_delivery_frame(3) [OF s1]
      by (auto simp: s' id load_approval_def invalidate_rows split: option.splits)
    have "load_task i s' = Some t'" using id by (simp add: s')
    moreover have "same_task t t'" "task_state t' = AwaitingMergeApproval" using r(4) by (simp_all add: same_task_def)
    ultimately show ?thesis using r(1,2,3) t item item_completed_ok [OF c] False gone by blast
  qed
qed

definition monitored_store :: store where
  "monitored_store = empty_store\<lparr>st_tasks := [(7, merge_task\<lparr>task_state := Monitoring\<rparr>)]\<rparr>"

theorem reconciled_by_evidence_witness:
  "\<exists>s t. reconcile_completed_task_from_snapshot sample_env 5 7 (sample_snapshot True) monitored_store = Inr (s, t) \<and>
     load_task 7 s = Some t \<and> task_state t = Completed"
proof -
  have m: "load_task 7 monitored_store = Some (merge_task\<lparr>task_state := Monitoring\<rparr>)"
    by (simp add: monitored_store_def load_task_def find_row_def)
  have "\<exists>r. reconcile_completed_task_from_snapshot sample_env 5 7 (sample_snapshot True) monitored_store = Inr r"
    by (simp add: reconcile_completed_task_from_snapshot_def m merge_task_def sample_task_def sample_snapshot_def
        source_repository_id_def source_repository_full_name_def source_item_number_def sample_pull_request_def
        sample_repository_def sample_item_def item_completed_def source_head_sha_def reconcile_outcome_def Let_def
        completion_events_def lifecycle_defs transition_def permits_def)
  then obtain s t where r: "reconcile_completed_task_from_snapshot sample_env 5 7 (sample_snapshot True) monitored_store = Inr (s, t)"
    by (metis surj_pair)
  have "load_task 7 s = Some t" "task_state t = Completed"
    using reconciled_by_evidence [OF r] m by (auto simp: merge_task_def sample_task_def)
  with r show ?thesis by blast
qed

end
