(* ===== verification/Text_More.thy ===== *)
theory Text_More
  imports Rust_Text
begin

text \<open>
  More of Rust's standard library on strings: reading and printing of unsigned integers, which are
  inverse to each other, UTF-8 validity (\<open>str::from_utf8\<close>), prefixes, ASCII words and path joins.
\<close>

section \<open>Numbers\<close>

text \<open>\<open>u64::from_str\<close>: an optional plus sign, then decimal digits whose value fits.\<close>

definition digit_value :: "char \<Rightarrow> nat" where
  "digit_value c = of_char c - 48"

definition is_digit :: "char \<Rightarrow> bool" where
  "is_digit c \<longleftrightarrow> (let b = (of_char c :: nat) in 48 \<le> b \<and> b \<le> 57)"

definition parse_u64 :: "string \<Rightarrow> u64 option" where
  "parse_u64 v =
     (let digits = (case v of [] \<Rightarrow> v | c # cs \<Rightarrow> if c = CHR ''+'' then cs else v);
          value = foldl (\<lambda>n c. n * 10 + digit_value c) 0 digits in
      if digits = [] \<or> \<not> list_all is_digit digits \<or> 2 ^ 64 \<le> value then None
      else Some (of_nat value))"

definition strip_prefix :: "string \<Rightarrow> string \<Rightarrow> string option" where
  "strip_prefix p v = (if starts_with p v then Some (drop (length p) v) else None)"

lemma digit_char:
  assumes "n < 10"
  shows "of_char (char_of (48 + n) :: char) = (48 + n :: nat)" "digit_value (char_of (48 + n)) = n"
    "is_digit (char_of (48 + n))"
proof -
  show c: "of_char (char_of (48 + n) :: char) = (48 + n :: nat)" using assms by simp
  show "digit_value (char_of (48 + n)) = n" using c by (simp add: digit_value_def)
  show "is_digit (char_of (48 + n))" using c assms by (simp add: is_digit_def Let_def)
qed

text \<open>A decimal numeral: not empty, all digits, of the value printed.\<close>

lemma decimal_digits: "decimal n \<noteq> [] \<and> list_all is_digit (decimal n)"
proof (induction n rule: decimal.induct)
  case (1 n)
  show ?case
  proof (cases "n < 10")
    case True
    then show ?thesis using digit_char(3) [of n] by (simp add: decimal.simps [of n])
  next
    case False
    then show ?thesis using 1 digit_char(3) [of "n mod 10"] by (simp add: decimal.simps [of n])
  qed
qed

definition digits_value :: "string \<Rightarrow> nat" where
  "digits_value v = foldl (\<lambda>n c. n * 10 + digit_value c) 0 v"

lemma digits_value_decimal: "digits_value (decimal n) = n"
proof (induction n rule: decimal.induct)
  case (1 n)
  show ?case
  proof (cases "n < 10")
    case True
    then show ?thesis using digit_char(2) [of n] by (simp add: decimal.simps [of n] digits_value_def)
  next
    case False
    then have "digits_value (decimal n) = digits_value (decimal (n div 10)) * 10 + n mod 10"
      using digit_char(2) [of "n mod 10"] by (simp add: decimal.simps [of n] digits_value_def)
    then show ?thesis using 1 [OF False] by simp
  qed
qed

lemma decimal_inject [simp]: "decimal m = decimal n \<longleftrightarrow> m = n"
  using digits_value_decimal by metis

lemma digit_no_plus: "is_digit c \<Longrightarrow> c \<noteq> CHR ''+'' \<and> c \<noteq> CHR '':''"
  by (auto simp: is_digit_def Let_def)

lemma decimal_no_colon: "CHR '':'' \<notin> set (decimal n)"
  using decimal_digits [of n] digit_no_plus by (auto simp: list_all_iff)

theorem parse_decimal: "parse_u64 (decimal (unat n)) = Some n"
proof -
  have d: "decimal (unat n) \<noteq> []" "list_all is_digit (decimal (unat n))" using decimal_digits by auto
  then obtain c cs where c: "decimal (unat n) = c # cs" "is_digit c" by (cases "decimal (unat n)") auto
  have "unat n < 2 ^ 64" using unsigned_less [of n, where 'a = nat] by simp
  moreover have "foldl (\<lambda>n c. n * 10 + digit_value c) 0 (decimal (unat n)) = unat n"
    using digits_value_decimal [of "unat n"] by (simp add: digits_value_def)
  ultimately show ?thesis
    using d c(1) digit_no_plus [OF c(2)] by (simp add: parse_u64_def Let_def del: foldl_Cons)
qed

text \<open>Splitting at the first colon separates a numeral from what follows.\<close>

lemma append_colon_inject:
  assumes "CHR '':'' \<notin> set a" "CHR '':'' \<notin> set b"
  shows "a @ CHR '':'' # x = b @ CHR '':'' # y \<longleftrightarrow> a = b \<and> x = y"
  using assms by (induction a arbitrary: b) (case_tac b; auto)+

section \<open>UTF-8\<close>

text \<open>The range of the second byte after a leading byte, and the number of bytes after that; overlong
  forms, surrogates and values above 10FFFF are refused.\<close>

definition utf8_second :: "nat \<Rightarrow> (nat \<times> nat \<times> nat) option" where
  "utf8_second b =
     (if 0xC2 \<le> b \<and> b \<le> 0xDF then Some (0x80, 0xBF, 0)
      else if b = 0xE0 then Some (0xA0, 0xBF, 1)
      else if b = 0xED then Some (0x80, 0x9F, 1)
      else if 0xE1 \<le> b \<and> b \<le> 0xEF then Some (0x80, 0xBF, 1)
      else if b = 0xF0 then Some (0x90, 0xBF, 2)
      else if 0xF1 \<le> b \<and> b \<le> 0xF3 then Some (0x80, 0xBF, 2)
      else if b = 0xF4 then Some (0x80, 0x8F, 2)
      else None)"

fun utf8_from :: "(nat \<times> nat \<times> nat) option \<Rightarrow> string \<Rightarrow> bool" where
  "utf8_from None [] = True"
| "utf8_from (Some _) [] = False"
| "utf8_from None (c # cs) = (let b = of_char c in
     if b < 0x80 then utf8_from None cs
     else case utf8_second b of None \<Rightarrow> False | Some r \<Rightarrow> utf8_from (Some r) cs)"
| "utf8_from (Some (lo, hi, n)) (c # cs) = (let b = of_char c in
     lo \<le> b \<and> b \<le> hi \<and> utf8_from (if n = 0 then None else Some (0x80, 0xBF, n - 1)) cs)"

definition utf8_valid :: "string \<Rightarrow> bool" where
  "utf8_valid v = utf8_from None v"

lemma utf8_from_append: "utf8_from st v \<Longrightarrow> utf8_from None w \<Longrightarrow> utf8_from st (v @ w)"
proof (induction st v rule: utf8_from.induct)
  case (3 c cs)
  then show ?case by (auto simp: Let_def split: if_splits option.splits)
qed (auto simp: Let_def split: if_splits)

lemma ascii_utf8: "list_all (\<lambda>c. of_char c < (0x80 :: nat)) v \<Longrightarrow> utf8_valid v"
  unfolding utf8_valid_def by (induction v) auto

section \<open>Words and paths\<close>

definition is_ascii_whitespace :: "char \<Rightarrow> bool" where
  "is_ascii_whitespace c \<longleftrightarrow> of_char c \<in> {0x20, 0x09, 0x0A, 0x0C, 0x0D :: nat}"

text \<open>\<open>split_ascii_whitespace().next().unwrap_or_default()\<close>.\<close>

definition first_ascii_word :: "string \<Rightarrow> string" where
  "first_ascii_word v = takeWhile (\<lambda>c. \<not> is_ascii_whitespace c) (dropWhile is_ascii_whitespace v)"

text \<open>\<open>Path::join\<close>: an absolute path replaces the base.\<close>

definition path_join :: "string \<Rightarrow> string \<Rightarrow> string" where
  "path_join base p = (if path_is_absolute p then p
     else if base = [] \<or> ends_with_char CHR ''/'' base then base @ p else base @ ''/'' @ p)"

lemma path_join_word: "\<not> path_is_absolute p \<Longrightarrow> base \<noteq> [] \<Longrightarrow> \<not> ends_with_char CHR ''/'' base \<Longrightarrow>
    path_join base p = base @ ''/'' @ p"
  by (simp add: path_join_def)

end
