(* ===== verification/Json.thy ===== *)
theory Json
  imports Text_More
begin

text \<open>
  \<open>serde_json::Value\<close> with the accessors the sources use, the parameters of a JSON-RPC request and
  its error replies (\<open>crates/patchwright-engine/src/rpc.rs\<close>). An object is the list of its members,
  each key once; a number is the integer it holds, or a float, which no accessor here reads. An error
  reply is its code and message; the texts of details are not modelled.
\<close>

section \<open>Values\<close>

datatype json_number = PosInt u64 | NegInt i64 | FloatNumber

datatype json =
    JNull | JBool bool | JNumber json_number | JString string | JArray "json list"
  | JObject "(string \<times> json) list"

definition json_get :: "string \<Rightarrow> json \<Rightarrow> json option" where
  "json_get k v = (case v of JObject members \<Rightarrow> map_of members k | _ \<Rightarrow> None)"

definition as_str :: "json \<Rightarrow> string option" where
  "as_str v = (case v of JString t \<Rightarrow> Some t | _ \<Rightarrow> None)"

definition as_bool :: "json \<Rightarrow> bool option" where
  "as_bool v = (case v of JBool b \<Rightarrow> Some b | _ \<Rightarrow> None)"

definition as_u64 :: "json \<Rightarrow> u64 option" where
  "as_u64 v = (case v of JNumber (PosInt n) \<Rightarrow> Some n | _ \<Rightarrow> None)"

definition as_array :: "json \<Rightarrow> json list option" where
  "as_array v = (case v of JArray vs \<Rightarrow> Some vs | _ \<Rightarrow> None)"

text \<open>\<open>Value::pointer\<close> along member names (the sources' pointers go through objects only).\<close>

fun pointer :: "string list \<Rightarrow> json \<Rightarrow> json option" where
  "pointer [] v = Some v"
| "pointer (k # ks) v = (case json_get k v of None \<Rightarrow> None | Some w \<Rightarrow> pointer ks w)"

definition str_at :: "string list \<Rightarrow> json \<Rightarrow> string option" where
  "str_at ks v = Option.bind (pointer ks v) as_str"

definition bool_at :: "string list \<Rightarrow> json \<Rightarrow> bool option" where
  "bool_at ks v = Option.bind (pointer ks v) as_bool"

definition u64_at :: "string list \<Rightarrow> json \<Rightarrow> u64 option" where
  "u64_at ks v = Option.bind (pointer ks v) as_u64"

section \<open>Replies\<close>

datatype rpc_error = RpcError int string

definition persistence_failure :: rpc_error where
  "persistence_failure = RpcError (- 32000) ''persistence failure''"

definition invalid_parameters :: rpc_error where
  "invalid_parameters = RpcError (- 32602) ''invalid parameters''"

section \<open>Parameters\<close>

definition filter_option :: "('a \<Rightarrow> bool) \<Rightarrow> 'a option \<Rightarrow> 'a option" where
  "filter_option P x = (case x of Some a \<Rightarrow> if P a then Some a else None | None \<Rightarrow> None)"

definition required_string :: "json \<Rightarrow> string \<Rightarrow> string option" where
  "required_string params key =
     filter_option (\<lambda>v. v \<noteq> [] \<and> length v \<le> 4096) (map_option trim (str_at [key] params))"

definition optional_string :: "json \<Rightarrow> string \<Rightarrow> string option" where
  "optional_string params key = required_string params key"

text \<open>A positive number given as a string only (\<open>itemNumber\<close>, \<open>installationId\<close>).\<close>

definition positive_number_text :: "json \<Rightarrow> string \<Rightarrow> u64 option" where
  "positive_number_text params key = filter_option (\<lambda>n. n \<noteq> 0) (Option.bind (str_at [key] params) parse_u64)"

definition text_or_empty :: "json \<Rightarrow> string \<Rightarrow> string" where
  "text_or_empty params key = (case str_at [key] params of Some t \<Rightarrow> t | None \<Rightarrow> [])"

text \<open>\<open>TaskId::from_str\<close> and \<open>Uuid::parse_str\<close> are the argument \<open>parse_uuid\<close>.\<close>

definition uuid_parameter :: "(string \<Rightarrow> uuid option) \<Rightarrow> string \<Rightarrow> json \<Rightarrow> uuid option" where
  "uuid_parameter parse_uuid key params = Option.bind (str_at [key] params) parse_uuid"

definition required_task_id :: "(string \<Rightarrow> uuid option) \<Rightarrow> json \<Rightarrow> uuid option" where
  "required_task_id parse_uuid params = uuid_parameter parse_uuid ''taskId'' params"

text \<open>A value of a type with a \<open>Deserialize\<close>: \<open>decode_text\<close> reads it from the text of a JSON string,
  \<open>decode\<close> from the value itself.\<close>

definition encoded_parameter ::
  "(string \<Rightarrow> 'a option) \<Rightarrow> (json \<Rightarrow> 'a option) \<Rightarrow> string \<Rightarrow> json \<Rightarrow> 'a option" where
  "encoded_parameter decode_text decode key params = (case json_get key params of None \<Rightarrow> None
     | Some v \<Rightarrow> (case as_str v of Some t \<Rightarrow> decode_text t | None \<Rightarrow> decode v))"

definition number_parameter :: "json \<Rightarrow> string \<Rightarrow> u64 option" where
  "number_parameter params key = (case json_get key params of None \<Rightarrow> None
     | Some v \<Rightarrow> (case as_u64 v of Some n \<Rightarrow> Some n | None \<Rightarrow> Option.bind (as_str v) parse_u64))"

definition positive_u64 :: "json \<Rightarrow> string \<Rightarrow> u64 option" where
  "positive_u64 params key = filter_option (\<lambda>n. n \<noteq> 0) (number_parameter params key)"

definition bounded_limit :: "json \<Rightarrow> string \<Rightarrow> nat \<Rightarrow> nat \<Rightarrow> nat" where
  "bounded_limit params key standard maximum = (let n = (case number_parameter params key of
       Some n \<Rightarrow> unat n | None \<Rightarrow> standard) in max 1 (min n maximum))"

definition github_sync_parameters :: "json \<Rightarrow> nat \<times> nat" where
  "github_sync_parameters params =
     (bounded_limit params ''repositoryLimit'' 100 100, bounded_limit params ''resourceLimit'' 100 100)"

lemma bounded_limit_range: "1 \<le> maximum \<Longrightarrow> 1 \<le> bounded_limit params key standard maximum \<and>
    bounded_limit params key standard maximum \<le> maximum"
  by (simp add: bounded_limit_def Let_def)

lemma filter_option_Some [result_simps]: "filter_option P x = Some a \<longleftrightarrow> x = Some a \<and> P a"
  by (auto simp: filter_option_def split: option.splits)

lemma required_string_ok:
  "required_string params key = Some v \<Longrightarrow> v \<noteq> [] \<and> length v \<le> 4096"
  by (simp add: required_string_def result_simps)

end
