(* ===== verification/Rpc_Monitoring.thy ===== *)
theory Rpc_Monitoring
  imports Store_GitHub Json
begin

text \<open>
  The monitoring handlers of \<open>crates/patchwright-engine/src/rpc.rs\<close>: a monitor is created only on
  a fresh snapshot whose pull request is the task's own, and an observation reads the stored
  snapshot, never the caller's word. Errors are the code and the message of the JSON-RPC reply; the
  texts of their details are not modelled. A handler runs under the lock of the store; its writes
  are separate transactions, so an error reply comes with the store they left.
\<close>

definition max_monitor_snapshot_age :: int where
  "max_monitor_snapshot_age = minutes 5"

definition fresh_github_snapshot ::
  "string \<Rightarrow> timestamp \<Rightarrow> store \<Rightarrow> string + github_repository_snapshot \<times> timestamp" where
  "fresh_github_snapshot name now s =
     and_then (ok_or (github_repository_with_snapshot_at name s)
       ''repository is missing from the GitHub snapshot'') (\<lambda>(snap, snapshot_at).
     let age = now - snapshot_at in
     if age < 0 \<or> max_monitor_snapshot_age < age
     then Inl ''GitHub snapshot is stale; sync the repository before monitoring''
     else Inr (snap, snapshot_at))"

definition find_pull_request ::
  "string \<Rightarrow> u64 \<Rightarrow> github_repository_snapshot \<Rightarrow> github_work_item option" where
  "find_pull_request name number snap = List.find (\<lambda>item. wi_kind item = PullRequestItem \<and>
     wi_repository_full_name item = name \<and> wi_number item = number) (gs_work_items snap)"

definition observation_from_github_item :: "github_work_item \<Rightarrow> timestamp \<Rightarrow> string + remote_observation" where
  "observation_from_github_item item observed_at =
     and_then (ok_or (wi_head_sha item) ''pull request head SHA is missing'') (\<lambda>head_sha.
     and_then (ok_or (wi_base_sha item) ''pull request base SHA is missing'') (\<lambda>base_sha.
     and_then (if wi_ci_health item = Some ''passing'' then Inr CISuccess
         else if wi_ci_health item = Some ''failing'' then Inr CIFailure
         else if wi_ci_health item \<in> {Some ''pending'', Some ''unknown'', None} then Inr CIPending
         else Inl ''pull request CI state is unsupported'') (\<lambda>ci.
     and_then (if wi_review_decision item = Some ''approved'' then Inr RevApproved
         else if wi_review_decision item = Some ''changesRequested'' then Inr RevChangesRequested
         else if wi_review_decision item = Some ''approvalDismissed'' then Inr RevApprovalDismissed
         else if wi_review_decision item \<in> {Some ''reviewRequired'', None} then Inr RevPending
         else Inl ''pull request review state is unsupported'') (\<lambda>rev.
     let merge = (if wi_has_conflicts item = Some True then Conflicting
       else case wi_mergeable item of Some True \<Rightarrow> Mergeable | Some False \<Rightarrow> Conflicting
         | None \<Rightarrow> MergeUnknown) in
     Inr \<lparr>ob_observed_at = observed_at, ob_head_sha = head_sha, ob_base_sha = base_sha, ob_ci = ci,
       ob_review = rev, ob_mergeability = merge, ob_repository_accessible = True,
       ob_network_available = True, ob_rate_limited_until = None\<rparr>))))"

section \<open>Starting a monitor\<close>

record monitor_start_request =
  ms_task_id :: uuid
  ms_repository_full_name :: string
  ms_pull_request_number :: u64
  ms_expected_head_sha :: string
  ms_expected_base_sha :: string
  ms_repair_budget :: u32

datatype monitor_start_failure =
  StartRejected string | StartInvalid monitoring_error | StartPersistence store_error

definition validate_monitor_target ::
  "(uuid \<Rightarrow> string) \<Rightarrow> task \<Rightarrow> github_work_item \<Rightarrow> monitor_start_request \<Rightarrow> string + unit" where
  "validate_monitor_target show_id t item r =
     (if wi_head_sha item \<noteq> Some (ms_expected_head_sha r) \<or> wi_base_sha item \<noteq> Some (ms_expected_base_sha r)
      then Inl ''monitor SHA identity does not match the fresh pull request''
      else case task_source t of
        GitHubPullRequest _ \<Rightarrow>
          if source_repository_full_name (task_source t) \<noteq> Some (ms_repository_full_name r) \<or>
             source_item_number (task_source t) \<noteq> Some (ms_pull_request_number r) \<or>
             source_head_sha (task_source t) \<noteq> Some (ms_expected_head_sha r) \<or>
             source_base_sha (task_source t) \<noteq> Some (ms_expected_base_sha r)
          then Inl ''monitor target does not match the task pull-request source'' else Inr ()
      | GitHubIssue _ \<Rightarrow>
          if source_repository_full_name (task_source t) \<noteq> Some (ms_repository_full_name r)
          then Inl ''monitor repository does not match the task issue source''
          else if wi_head_ref item \<noteq> Some (''patchwright/'' @ show_id (task_id t))
          then Inl ''monitor pull request is not the task's prepared branch'' else Inr ()
      | LocalRequest \<Rightarrow>
          if wi_head_ref item \<noteq> Some (''patchwright/'' @ show_id (task_id t))
          then Inl ''monitor pull request is not the task's prepared branch'' else Inr ())"

definition create_verified_monitor :: "(uuid \<Rightarrow> string) \<Rightarrow> uuid \<Rightarrow> timestamp \<Rightarrow> monitor_start_request \<Rightarrow>
    store \<Rightarrow> monitor_start_failure + monitor_record" where
  "create_verified_monitor show_id fresh now r s =
     and_then (ok_or (load_task (ms_task_id r) s) (StartRejected ''task is missing'')) (\<lambda>t.
     and_then (ensure (task_state t = Monitoring) (StartRejected ''task is not in the monitoring state'')) (\<lambda>_.
     and_then (map_err StartPersistence (load_task_contract (task_id t) s)) (\<lambda>c.
     and_then (ok_or c (StartRejected ''task contract is missing'')) (\<lambda>contract.
     and_then (ensure (tc_source contract = task_source t)
       (StartRejected ''task source no longer matches its contract'')) (\<lambda>_.
     and_then (ensure (task_repository_binding_id t = Some (tc_repository_binding_id contract))
       (StartRejected ''task repository binding no longer matches its contract'')) (\<lambda>_.
     and_then (ok_or (repository_binding (tc_repository_binding_id contract) s)
       (StartRejected ''task repository binding is missing'')) (\<lambda>binding.
     and_then (ensure (rb_full_name binding = ms_repository_full_name r)
       (StartRejected ''monitor repository does not match the task binding'')) (\<lambda>_.
     and_then (map_err StartRejected (fresh_github_snapshot (ms_repository_full_name r) now s)) (\<lambda>(snap, snapshot_at).
     and_then (ok_or (find_pull_request (ms_repository_full_name r) (ms_pull_request_number r) snap)
       (StartRejected ''pull request is missing from the fresh GitHub snapshot'')) (\<lambda>item.
     and_then (map_err StartRejected (validate_monitor_target show_id t item r)) (\<lambda>_.
     map_err StartInvalid (monitor_new fresh (ms_task_id r) (ms_repository_full_name r)
       (ms_pull_request_number r) (ms_expected_head_sha r) (ms_expected_base_sha r) snapshot_at
       (ms_repair_budget r)))))))))))))"

section \<open>The handlers\<close>

definition monitor_start_handler :: "(uuid \<Rightarrow> string) \<Rightarrow> uuid \<Rightarrow> timestamp \<Rightarrow> monitor_start_request \<Rightarrow>
    store \<Rightarrow> store \<times> (rpc_error + monitor_record)" where
  "monitor_start_handler show_id fresh now r s = (case create_verified_monitor show_id fresh now r s of
       Inl (StartRejected _) \<Rightarrow> (s, Inl (RpcError (- 32070) ''monitor start failed''))
     | Inl (StartInvalid _) \<Rightarrow> (s, Inl (RpcError (- 32602) ''invalid parameters''))
     | Inl (StartPersistence _) \<Rightarrow> (s, Inl persistence_failure)
     | Inr m \<Rightarrow> (case save_monitor m s of
           Inl _ \<Rightarrow> (s, Inl persistence_failure)
         | Inr s' \<Rightarrow> (s', Inr m)))"

definition observation_rejected :: rpc_error where
  "observation_rejected = RpcError (- 32072) ''monitor observation rejected''"

definition save_observed :: "monitor_record \<Rightarrow> monitor_outcome \<Rightarrow> timestamp \<Rightarrow> store \<Rightarrow>
    store \<times> (rpc_error + monitor_record \<times> monitor_outcome)" where
  "save_observed m out now s =
     (if mo_state out = MonSucceeded
      then (case load_task (mon_task_id m) s of
          None \<Rightarrow> (s, Inl (RpcError (- 32040) ''task is missing''))
        | Some t \<Rightarrow>
            if task_state t \<noteq> Monitoring then (s, Inl observation_rejected)
            else (case transition now AwaitingMergeApproval t of
                Inl _ \<Rightarrow> (s, Inl observation_rejected)
              | Inr t' \<Rightarrow> (case save_monitor_with_task_event m t'
                    ''GitHub evidence satisfied monitoring; merge approval is required'' s of
                  Inl _ \<Rightarrow> (s, Inl persistence_failure)
                | Inr s' \<Rightarrow> (s', Inr (m, out)))))
      else (case save_monitor m s of
          Inl _ \<Rightarrow> (s, Inl persistence_failure)
        | Inr s' \<Rightarrow> (s', Inr (m, out))))"

definition monitor_observe_handler :: "(timestamp \<Rightarrow> string) \<Rightarrow> timestamp \<Rightarrow> uuid \<Rightarrow> store \<Rightarrow>
    store \<times> (rpc_error + monitor_record \<times> monitor_outcome)" where
  "monitor_observe_handler rfc3339 now i s = (case load_monitor i s of
       None \<Rightarrow> (s, Inl (RpcError (- 32071) ''monitor is missing''))
     | Some m \<Rightarrow> (case fresh_github_snapshot (mon_repository_full_name m) now s of
         Inl _ \<Rightarrow> (s, Inl observation_rejected)
       | Inr (snap, snapshot_at) \<Rightarrow>
           (case find_pull_request (mon_repository_full_name m) (mon_pull_request_number m) snap of
             None \<Rightarrow> (s, Inl observation_rejected)
           | Some item \<Rightarrow> (case observation_from_github_item item snapshot_at of
               Inl _ \<Rightarrow> (s, Inl observation_rejected)
             | Inr ob \<Rightarrow> (case monitor_observe rfc3339 ob now m of
                 Inl _ \<Rightarrow> (s, Inl observation_rejected)
               | Inr (m', out) \<Rightarrow> save_observed m' out now
                   (if mo_invalidate_approvals out
                    then fst (invalidate_task_approvals now (mon_task_id m') s) else s))))))"

definition mutate_monitor :: "(monitor_record \<Rightarrow> bool \<times> monitor_record) \<Rightarrow> uuid \<Rightarrow> store \<Rightarrow>
    store \<times> (rpc_error + bool \<times> monitor_record)" where
  "mutate_monitor f i s = (case load_monitor i s of
       None \<Rightarrow> (s, Inl (RpcError (- 32071) ''monitor is missing''))
     | Some m \<Rightarrow> (let (changed, m') = f m in
         if changed then (case save_monitor m' s of
             Inl _ \<Rightarrow> (s, Inl persistence_failure) | Inr s' \<Rightarrow> (s', Inr (changed, m')))
         else (s, Inr (changed, m'))))"

definition monitor_wake_handler :: "timestamp \<Rightarrow> uuid \<Rightarrow> store \<Rightarrow> store \<times> (rpc_error + bool \<times> monitor_record)" where
  "monitor_wake_handler now = mutate_monitor (monitor_wake now)"

definition monitor_cancel_handler :: "timestamp \<Rightarrow> uuid \<Rightarrow> store \<Rightarrow> store \<times> (rpc_error + bool \<times> monitor_record)" where
  "monitor_cancel_handler now = mutate_monitor (monitor_cancel now)"

section \<open>What the handlers establish\<close>

lemma fresh_snapshot_ok [result_simps]:
  "fresh_github_snapshot name now s = Inr (snap, at) \<longleftrightarrow>
     github_repository_with_snapshot_at name s = Some (snap, at) \<and> at \<le> now \<and> now \<le> at + minutes 5"
  by (cases "github_repository_with_snapshot_at name s")
    (auto simp: fresh_github_snapshot_def Let_def max_monitor_snapshot_age_def split_def)

lemma find_pull_request_ok:
  "find_pull_request name n snap = Some item \<Longrightarrow> item \<in> set (gs_work_items snap) \<and>
     wi_kind item = PullRequestItem \<and> wi_repository_full_name item = name \<and> wi_number item = n"
  by (auto simp: find_pull_request_def find_Some_iff)

text \<open>What the item itself says when its observation is merge evidence.\<close>

definition item_mergeable :: "monitor_record \<Rightarrow> github_work_item \<Rightarrow> bool" where
  "item_mergeable m item \<longleftrightarrow> wi_head_sha item = Some (mon_expected_head_sha m) \<and>
     wi_base_sha item = Some (mon_expected_base_sha m) \<and> wi_mergeable item = Some True \<and>
     wi_has_conflicts item \<noteq> Some True \<and> wi_ci_health item = Some ''passing'' \<and>
     wi_review_decision item = Some ''approved''"

lemma observation_merge_evidence:
  assumes "observation_from_github_item item at = Inr ob"
  shows "merge_evidence m ob \<longleftrightarrow> item_mergeable m item" "\<not> rate_limited ob now"
  using assms
  by (auto simp: observation_from_github_item_def result_simps Let_def merge_evidence_def
      item_mergeable_def rate_limited_def split: if_splits option.splits bool.splits)

lemma create_verified_monitor_ok:
  assumes "create_verified_monitor show_id fresh now r s = Inr m"
  obtains t contract snap at item where
    "load_task (ms_task_id r) s = Some t" "task_state t = Monitoring"
    "load_task_contract (task_id t) s = Inr (Some contract)" "tc_source contract = task_source t"
    "github_repository_with_snapshot_at (ms_repository_full_name r) s = Some (snap, at)"
    "at \<le> now" "now \<le> at + minutes 5"
    "find_pull_request (ms_repository_full_name r) (ms_pull_request_number r) snap = Some item"
    "validate_monitor_target show_id t item r = Inr ()"
    "monitor_new fresh (ms_task_id r) (ms_repository_full_name r) (ms_pull_request_number r)
       (ms_expected_head_sha r) (ms_expected_base_sha r) at (ms_repair_budget r) = Inr m"
  using assms
  by (auto simp: create_verified_monitor_def and_then_eq_Inr ok_or_eq_Inr map_err_eq_Inr
      ensure_eq_Inr fresh_snapshot_ok split: prod.splits)

end
