(* ===== verification/Rpc_Queue.thy ===== *)
theory Rpc_Queue
  imports Store_GitHub Rpc_Monitoring Text_More
begin

text \<open>
  \<open>github_queue_assess\<close> of \<open>crates/patchwright-engine/src/rpc.rs\<close>: the open pull requests of the
  stored snapshots become queue candidates (their labels \<open>depends-on:#n\<close> the dependencies), the
  queue is assessed and replaced in one transaction.
\<close>

definition dependency_labels :: "string list \<Rightarrow> u64 list" where
  "dependency_labels labels = List.map_filter
     (\<lambda>label. case strip_prefix ''depends-on:#'' label of None \<Rightarrow> None | Some v \<Rightarrow> parse_u64 v) labels"

definition candidate_of_item ::
  "(string \<Rightarrow> timestamp option) \<Rightarrow> github_work_item \<Rightarrow> queue_candidate option" where
  "candidate_of_item parse_rfc3339 item = map_option
     (\<lambda>updated_at. \<lparr>qc_repository_full_name = wi_repository_full_name item,
        qc_number = wi_number item, qc_title = wi_title item, qc_draft = wi_draft item,
        qc_ci_health = wi_ci_health item, qc_review_decision = wi_review_decision item,
        qc_has_conflicts = wi_has_conflicts item, qc_updated_at = updated_at,
        qc_labels = wi_labels item, qc_dependency_numbers = dependency_labels (wi_labels item),
        qc_changed_paths = [], qc_manual_priority = None, qc_pinned = False\<rparr>)
     (parse_rfc3339 (wi_updated_at item))"

definition queue_candidates :: "(string \<Rightarrow> timestamp option) \<Rightarrow> store \<Rightarrow> queue_candidate list" where
  "queue_candidates parse_rfc3339 s = List.map_filter (candidate_of_item parse_rfc3339)
     (filter (\<lambda>item. wi_kind item = PullRequestItem \<and> wi_state item = ''open'') (github_work_items s))"

text \<open>The preset's name in JSON; no preset in the parameters means quick wins.\<close>

definition parse_preset :: "string \<Rightarrow> workflow_preset option" where
  "parse_preset v = map_of
     [(''quickWins'', QuickWins), (''ciRescue'', CiRescue), (''reviewClosure'', ReviewClosure),
      (''conflictRecovery'', ConflictRecovery), (''dependencyChain'', DependencyChain),
      (''securityFirst'', SecurityFirst), (''releaseTrain'', ReleaseTrain),
      (''stalePullRequestTriage'', StalePullRequestTriage), (''draftCompletion'', DraftCompletion),
      (''postMergeWatch'', PostMergeWatch), (''reviewLoadBalancing'', ReviewLoadBalancing),
      (''duplicateOverlapDetection'', DuplicateOverlapDetection)] v"

definition github_queue_assess :: "(string \<Rightarrow> timestamp option) \<Rightarrow>
    (queue_candidate \<times> workflow_preset \<Rightarrow> string) \<Rightarrow> timestamp \<Rightarrow> string option \<Rightarrow> store \<Rightarrow>
    store \<times> (rpc_error + queue_decision list)" where
  "github_queue_assess parse_rfc3339 digest now preset s =
     (case parse_preset (case preset of None \<Rightarrow> ''quickWins'' | Some v \<Rightarrow> v) of
        None \<Rightarrow> (s, Inl (RpcError (- 32602) ''invalid parameters''))
      | Some preset \<Rightarrow> (case assess_queue digest (queue_candidates parse_rfc3339 s) preset now of
          Inl _ \<Rightarrow> (s, Inl (RpcError (- 32030) ''queue assessment failed''))
        | Inr decisions \<Rightarrow> (case replace_queue_decisions decisions s of
            Inl _ \<Rightarrow> (s, Inl persistence_failure)
          | Inr s' \<Rightarrow> (s', Inr decisions))))"

end
