(* ===== verification/Rpc_Properties.thy ===== *)
theory Rpc_Properties
  imports Delivery_Properties Triage_Properties Rpc_Monitoring Rpc_Queue
begin

text \<open>
  The properties of the handlers of \<open>crates/patchwright-engine/src/rpc.rs\<close> that compose the store
  with the records of the core: the observation and the start of a monitor, and the assessment of
  the queue.
\<close>

section \<open>Observing a monitor\<close>

text \<open>An observation that reached its last step; the others reply with an error and change nothing.\<close>

lemma monitor_observe_handler_cases:
  assumes "monitor_observe_handler rf now i s = (s', r)"
  obtains (refused) e where "s' = s" "r = Inl e"
  | (observed) m snap at item ob m' out where
      "load_monitor i s = Some m" "fresh_github_snapshot (mon_repository_full_name m) now s = Inr (snap, at)"
      "find_pull_request (mon_repository_full_name m) (mon_pull_request_number m) snap = Some item"
      "observation_from_github_item item at = Inr ob" "monitor_observe rf ob now m = Inr (m', out)"
      "save_observed m' out now (if mo_invalidate_approvals out
         then fst (invalidate_task_approvals now (mon_task_id m') s) else s) = (s', r)"
  using assms by (auto simp: monitor_observe_handler_def split: option.splits sum.splits)

lemma invalidate_keeps:
  "load_task j (fst (invalidate_task_approvals now i s)) = load_task j s"
  "st_tasks (fst (invalidate_task_approvals now i s)) = st_tasks s"
  by (simp_all add: invalidate_task_approvals_def split_def Let_def load_task_def)

lemma save_monitor_frame:
  assumes "save_monitor m s = Inr s'"
  shows "load_task j s' = load_task j s" "load_approval a s' = load_approval a s" "st_approvals s' = st_approvals s"
  using assms by (auto simp: save_monitor_ok load_task_def load_approval_def)

lemma save_observed_task:
  assumes "save_observed m out now s = (s', r)"
  shows "load_task j s' \<noteq> load_task j s \<Longrightarrow> mo_state out = MonSucceeded \<and>
      (\<exists>t. load_task (mon_task_id m) s = Some t \<and> task_state t = Monitoring \<and> task_id t = mon_task_id m \<and>
         j = mon_task_id m \<and> load_task j s' = Some (t\<lparr>task_state := AwaitingMergeApproval, task_updated_at := now\<rparr>))"
    and "load_approval a s' = load_approval a s"
    and "r = Inr (m', out') \<Longrightarrow> m' = m \<and> out' = out \<and> load_monitor (mon_id m) s' = Some m \<and>
      (mo_state out = MonSucceeded \<longrightarrow> (\<exists>t. load_task (mon_task_id m) s = Some t \<and>
         load_task (mon_task_id m) s' = Some (t\<lparr>task_state := AwaitingMergeApproval, task_updated_at := now\<rparr>)))"
  using assms
  by (auto simp: save_observed_def save_monitor_with_task_event_def and_then_eq_Inr ensure_msg_ok
      transition_def permits_def load_monitor_def save_monitor_ok set_monitor_def monitor_row_of_def
      load_approval_def load_task_def split: if_splits option.splits sum.splits)

text \<open>What the item itself says when an observation of it blocks the monitor or asks for a repair.\<close>

definition item_refuted :: "monitor_record \<Rightarrow> github_work_item \<Rightarrow> bool" where
  "item_refuted m item \<longleftrightarrow> wi_head_sha item \<noteq> Some (mon_expected_head_sha m) \<or>
     wi_base_sha item \<noteq> Some (mon_expected_base_sha m) \<or>
     wi_has_conflicts item = Some True \<or> wi_mergeable item = Some False \<or>
     wi_ci_health item = Some ''failing'' \<or>
     wi_review_decision item \<in> {Some ''changesRequested'', Some ''approvalDismissed''}"

lemma monitor_decide_refuted:
  assumes "mon_state (fst (monitor_decide rf ob now m)) \<in> {MonBlocked, MonRepairNeeded}"
  shows "\<not> ob_repository_accessible ob \<or> ob_head_sha ob \<noteq> mon_expected_head_sha m \<or>
    ob_base_sha ob \<noteq> mon_expected_base_sha m \<or> ob_mergeability ob \<in> {Conflicting, InaccessibleFork} \<or>
    ob_ci ob = CIFailure \<or> ob_review ob \<in> {RevChangesRequested, RevApprovalDismissed}"
  using assms
  by (auto simp: monitor_decide_def monitor_step_defs repair_reason_def
      split: option.splits mergeability.splits if_splits)

lemma observation_refuted:
  assumes "observation_from_github_item item at = Inr ob"
    "\<not> ob_repository_accessible ob \<or> ob_head_sha ob \<noteq> mon_expected_head_sha m \<or>
      ob_base_sha ob \<noteq> mon_expected_base_sha m \<or> ob_mergeability ob \<in> {Conflicting, InaccessibleFork} \<or>
      ob_ci ob = CIFailure \<or> ob_review ob \<in> {RevChangesRequested, RevApprovalDismissed}"
  shows "item_refuted m item"
  using assms
  by (auto simp: observation_from_github_item_def result_simps Let_def item_refuted_def
      split: if_splits option.splits bool.splits)

text \<open>C35: Only evidence advances a monitored task. When observing a monitor changes the row of a task,
  this is the monitor's task, it was monitoring and now awaits its merge approval, and the stored
  snapshot, at most five minutes old, shows its pull request at the expected head and base,
  mergeable, without conflicts, with passing CI and approved. An approval changes only by being
  withdrawn, only for the monitor's task, and only when the pull request in that snapshot has moved
  from the expected head or base, has conflicts, fails its CI, or has a review that requests changes
  or was dismissed; a reply with the monitor blocked or needing a repair means that they are
  withdrawn, and a reply with the monitor pending or succeeded that no approval changed.\<close>

theorem monitored_task_advances:
  assumes "monitor_observe_handler rf now i s = (s', r)"
  shows "(load_task j s' \<noteq> load_task j s \<longrightarrow> (\<exists>m snap at item t. load_monitor i s = Some m \<and>
      j = mon_task_id m \<and> load_task j s = Some t \<and> task_state t = Monitoring \<and>
      load_task j s' = Some (t\<lparr>task_state := AwaitingMergeApproval, task_updated_at := now\<rparr>) \<and>
      github_repository_with_snapshot_at (mon_repository_full_name m) s = Some (snap, at) \<and>
      at \<le> now \<and> now \<le> at + minutes 5 \<and>
      find_pull_request (mon_repository_full_name m) (mon_pull_request_number m) snap = Some item \<and>
      item_mergeable m item)) \<and>
    (load_approval a s' \<noteq> load_approval a s \<longrightarrow> load_approval a s' = None \<and>
      (\<exists>m snap at item. load_monitor i s = Some m \<and>
        aw_task_id (the (find_row a (st_approvals s))) = mon_task_id m \<and>
        github_repository_with_snapshot_at (mon_repository_full_name m) s = Some (snap, at) \<and>
        at \<le> now \<and> now \<le> at + minutes 5 \<and>
        find_pull_request (mon_repository_full_name m) (mon_pull_request_number m) snap = Some item \<and>
        item_refuted m item)) \<and>
    (r = Inr (m', out) \<longrightarrow> (if mon_state m' \<in> {MonBlocked, MonRepairNeeded}
      then \<forall>x. find_row a (st_approvals s) = Some x \<longrightarrow> aw_task_id x = mon_task_id m' \<longrightarrow> load_approval a s' = None
      else load_approval a s' = load_approval a s))"
  using assms
proof (cases rule: monitor_observe_handler_cases)
  case (refused e)
  then show ?thesis by simp
next
  case (observed m snap at item ob m2 out2)
  define s1 where "s1 = (if mo_invalidate_approvals out2
    then fst (invalidate_task_approvals now (mon_task_id m2) s) else s)"
  have saved: "save_observed m2 out2 now s1 = (s', r)" using observed(6) by (simp add: s1_def)
  have d: "monitor_decide rf ob now (observed ob now m) = (m2, out2)"
    using observe_decides [OF observed(5)] by simp
  have target: "mon_task_id m2 = mon_task_id m"
    using monitor_observe_target [OF observed(5)] by (simp add: same_target_def)
  have tasks: "load_task j s1 = load_task j s" for j by (simp add: s1_def invalidate_keeps)
  have state: "mo_state out2 = mon_state m2"
    "mo_invalidate_approvals out2 \<longleftrightarrow> mon_state m2 \<in> {MonBlocked, MonRepairNeeded}"
    using monitor_decide_outcome [of rf ob now "observed ob now m"] d by simp_all
  have approvals: "load_approval a s' = load_approval a s1" using save_observed_task(2) [OF saved] .
  have fresh: "github_repository_with_snapshot_at (mon_repository_full_name m) s = Some (snap, at)"
    "at \<le> now" "now \<le> at + minutes 5" using observed(2) by (simp_all add: fresh_snapshot_ok)
  have "item_mergeable m item" if "mo_state out2 = MonSucceeded"
    using that monitor_decide_succeeded [of rf ob now "observed ob now m"] d state(1)
      observation_merge_evidence(1) [OF observed(4)] by simp
  then have c1: "load_task j s' \<noteq> load_task j s \<longrightarrow> (\<exists>m snap at item t. load_monitor i s = Some m \<and>
      j = mon_task_id m \<and> load_task j s = Some t \<and> task_state t = Monitoring \<and>
      load_task j s' = Some (t\<lparr>task_state := AwaitingMergeApproval, task_updated_at := now\<rparr>) \<and>
      github_repository_with_snapshot_at (mon_repository_full_name m) s = Some (snap, at) \<and>
      at \<le> now \<and> now \<le> at + minutes 5 \<and>
      find_pull_request (mon_repository_full_name m) (mon_pull_request_number m) snap = Some item \<and>
      item_mergeable m item)"
    using save_observed_task(1) [OF saved, of j] observed(1,3) fresh target tasks by auto
  have refuted: "item_refuted m item" if "mo_invalidate_approvals out2"
    using that state d monitor_decide_refuted [of rf ob now "observed ob now m"]
      observation_refuted [OF observed(4), of m] by (simp add: observed_def)
  have c2: "load_approval a s' \<noteq> load_approval a s \<longrightarrow> load_approval a s' = None \<and>
      mo_invalidate_approvals out2 \<and> aw_task_id (the (find_row a (st_approvals s))) = mon_task_id m"
    unfolding approvals using target
    by (auto simp: s1_def load_approval_def invalidate_rows split: option.splits if_splits)
  have c3: "r = Inr (m', out) \<longrightarrow> (if mon_state m' \<in> {MonBlocked, MonRepairNeeded}
      then \<forall>x. find_row a (st_approvals s) = Some x \<longrightarrow> aw_task_id x = mon_task_id m' \<longrightarrow> load_approval a s' = None
      else load_approval a s' = load_approval a s)"
    unfolding approvals using save_observed_task(3) [OF saved, of m' out] state
    by (auto simp: s1_def load_approval_def invalidate_rows split: option.splits)
  show ?thesis using c1 c2 c3 refuted observed(1,3) fresh by blast
qed

definition observed_store :: store where
  "observed_store = empty_store\<lparr>st_tasks := [(7, merge_task\<lparr>task_state := Monitoring\<rparr>)],
     st_monitors := [(9, monitor_row_of sample_monitor)],
     st_snapshots := [(''o/r'', \<lparr>sw_repository = sample_repository, sw_snapshot = sample_snapshot False,
       sw_synced_at = 0\<rparr>)]\<rparr>"

lemma observed_store_rows [simp]:
  "load_task 7 observed_store = Some (merge_task\<lparr>task_state := Monitoring\<rparr>)"
  "load_monitor 9 observed_store = Some sample_monitor"
  "github_repository_with_snapshot_at ''o/r'' observed_store = Some (sample_snapshot False, 0)"
  by (simp_all add: observed_store_def load_task_def load_monitor_def monitor_row_of_def
      github_repository_with_snapshot_at_def find_row_def)

lemma sample_found: "find_pull_request ''o/r'' 4 (sample_snapshot m) = Some (sample_item m)"
  by (simp add: find_pull_request_def sample_snapshot_def sample_item_def)

lemma sample_item_observation:
  "observation_from_github_item (sample_item False) 0 = Inr (sample_observation CISuccess)"
  by (simp add: observation_from_github_item_def sample_item_def sample_observation_def)

lemma sample_observe_saves:
  obtains m out where "mon_task_id m = 7" "mo_state out = MonSucceeded"
    "monitor_observe_handler (\<lambda>_. []) 5 9 observed_store = save_observed m out 5 observed_store"
    "mon_pull_request_number m = 4"
proof -
  obtain m out where o: "monitor_observe (\<lambda>_. []) (sample_observation CISuccess) 5 sample_monitor = Inr (m, out)"
    using sample_observed by blast
  have "merge_evidence sample_monitor (sample_observation CISuccess)" "\<not> rate_limited (sample_observation CISuccess) 5"
    by (simp_all add: merge_evidence_def rate_limited_def sample_observation_def sample_monitor_def)
  then have st: "mo_state out = MonSucceeded" "\<not> mo_invalidate_approvals out"
    using observe_decides [OF o] monitor_decide_succeeded [of "\<lambda>_. []" "sample_observation CISuccess" 5
        "observed (sample_observation CISuccess) 5 sample_monitor"]
      monitor_decide_outcome [of "\<lambda>_. []" "sample_observation CISuccess" 5
        "observed (sample_observation CISuccess) 5 sample_monitor"] by simp_all
  have fields: "mon_repository_full_name sample_monitor = ''o/r''" "mon_pull_request_number sample_monitor = 4"
    "mon_task_id sample_monitor = 7" by (simp_all add: sample_monitor_def)
  have "fresh_github_snapshot ''o/r'' 5 observed_store = Inr (sample_snapshot False, 0)"
    by (simp add: fresh_snapshot_ok minutes_def seconds_def)
  then have "monitor_observe_handler (\<lambda>_. []) 5 9 observed_store = save_observed m out 5 observed_store"
    using st(2) by (simp add: monitor_observe_handler_def fields sample_found sample_item_observation o)
  moreover have "mon_task_id m = 7" "mon_pull_request_number m = 4"
    using monitor_observe_target [OF o] fields by (simp_all add: same_target_def)
  ultimately show thesis using that st(1) by blast
qed

theorem monitored_task_advances_witness:
  "map_option task_state (load_task 7 (fst (monitor_observe_handler (\<lambda>_. []) 5 9 observed_store))) =
     Some AwaitingMergeApproval"
proof -
  obtain m out where m: "mon_task_id m = 7" "mo_state out = MonSucceeded" "mon_pull_request_number m = 4"
    and h: "monitor_observe_handler (\<lambda>_. []) 5 9 observed_store = save_observed m out 5 observed_store"
    using sample_observe_saves by metis
  obtain s r where sr: "monitor_observe_handler (\<lambda>_. []) 5 9 observed_store = (s, r)" by (metis surj_pair)
  have "load_task 7 s \<noteq> load_task 7 observed_store"
    using sr m unfolding h
    by (auto simp: save_observed_def transition_def permits_def save_monitor_with_task_event_def
        ensure_msg_def save_monitor_def sql_u64_def merge_task_def sample_task_def)
  then show ?thesis using sr monitored_task_advances [OF sr, of 7] by auto
qed

section \<open>Starting a monitor\<close>

text \<open>A monitor watches the task's own pull request. A started monitor is of a task that is
  monitoring and whose contract has its source; it is about a pull request found in a snapshot at
  most five minutes old, at the head and base it was started with, and this is the pull request of
  the task's source or comes from the branch prepared for the task; and it is saved well-formed and
  due at once.\<close>

theorem monitor_started:
  assumes "monitor_start_handler show_id fresh now r s = (s', Inr m)"
  shows "load_monitor (mon_id m) s' = Some m \<and> monitor_wf m \<and> mon_state m = MonPending \<and>
    (\<exists>t contract snap at item. load_task (ms_task_id r) s = Some t \<and> task_state t = Monitoring \<and>
      load_task_contract (task_id t) s = Inr (Some contract) \<and> tc_source contract = task_source t \<and>
      github_repository_with_snapshot_at (ms_repository_full_name r) s = Some (snap, at) \<and>
      at \<le> now \<and> now \<le> at + minutes 5 \<and> mon_next_attempt_at m = Some at \<and>
      item \<in> set (gs_work_items snap) \<and> wi_kind item = PullRequestItem \<and>
      wi_number item = mon_pull_request_number m \<and>
      wi_repository_full_name item = mon_repository_full_name m \<and>
      wi_head_sha item = Some (mon_expected_head_sha m) \<and> wi_base_sha item = Some (mon_expected_base_sha m) \<and>
      (case task_source t of
         GitHubPullRequest p \<Rightarrow> pr_number p = mon_pull_request_number m \<and> pr_head_sha p = mon_expected_head_sha m
       | _ \<Rightarrow> wi_head_ref item = Some (''patchwright/'' @ show_id (task_id t))))"
proof -
  from assms have c: "create_verified_monitor show_id fresh now r s = Inr m" and w: "save_monitor m s = Inr s'"
    by (auto simp: monitor_start_handler_def split: sum.splits monitor_start_failure.splits)
  from c obtain t contract snap at item where t: "load_task (ms_task_id r) s = Some t" "task_state t = Monitoring"
    "load_task_contract (task_id t) s = Inr (Some contract)" "tc_source contract = task_source t"
    "github_repository_with_snapshot_at (ms_repository_full_name r) s = Some (snap, at)"
    "at \<le> now" "now \<le> at + minutes 5"
    and f: "find_pull_request (ms_repository_full_name r) (ms_pull_request_number r) snap = Some item"
    and v: "validate_monitor_target show_id t item r = Inr ()"
    and m: "monitor_new fresh (ms_task_id r) (ms_repository_full_name r) (ms_pull_request_number r)
       (ms_expected_head_sha r) (ms_expected_base_sha r) at (ms_repair_budget r) = Inr m"
    by (rule create_verified_monitor_ok)
  have fields: "mon_state m = MonPending" "mon_next_attempt_at m = Some at"
    "mon_pull_request_number m = ms_pull_request_number r" "mon_repository_full_name m = ms_repository_full_name r"
    "mon_expected_head_sha m = ms_expected_head_sha r" "mon_expected_base_sha m = ms_expected_base_sha r"
    using m by (auto simp: monitor_new_def and_then_eq_Inr split: if_splits)
  have target: "wi_head_sha item = Some (mon_expected_head_sha m) \<and> wi_base_sha item = Some (mon_expected_base_sha m) \<and>
    (case task_source t of
       GitHubPullRequest p \<Rightarrow> pr_number p = mon_pull_request_number m \<and> pr_head_sha p = mon_expected_head_sha m
     | _ \<Rightarrow> wi_head_ref item = Some (''patchwright/'' @ show_id (task_id t)))"
    using v fields by (auto simp: validate_monitor_target_def source_item_number_def source_head_sha_def
        split: if_splits task_source.splits)
  have "item \<in> set (gs_work_items snap)" "wi_kind item = PullRequestItem"
    "wi_number item = mon_pull_request_number m" "wi_repository_full_name item = mon_repository_full_name m"
    using find_pull_request_ok [OF f] fields by simp_all
  moreover have "load_monitor (mon_id m) s' = Some m" using load_monitor_saved [OF w] by simp
  ultimately show ?thesis using monitor_new_wf [OF m] t fields(1,2) target by blast
qed

definition start_request :: monitor_start_request where
  "start_request = \<lparr>ms_task_id = 7, ms_repository_full_name = ''o/r'', ms_pull_request_number = 4,
     ms_expected_head_sha = sha_a, ms_expected_base_sha = sha_b, ms_repair_budget = 2\<rparr>"

definition startable_store :: store where
  "startable_store = delivery_store\<lparr>st_tasks := [(7, merge_task\<lparr>task_state := Monitoring\<rparr>)],
     st_snapshots := st_snapshots observed_store\<rparr>"

lemma startable_store_rows [simp]:
  "load_task 7 startable_store = Some (merge_task\<lparr>task_state := Monitoring\<rparr>)"
  "repository_binding 3 startable_store = Some sample_binding"
  "load_task_contract 7 startable_store = Inr (Some sample_contract)"
  "github_repository_with_snapshot_at ''o/r'' startable_store = Some (sample_snapshot False, 0)"
  using delivery_store_rows(2) delivery_store_contract observed_store_rows(3)
  by (simp_all add: startable_store_def load_task_def repository_binding_def load_task_contract_def
      github_repository_with_snapshot_at_def find_row_def)

theorem monitor_started_witness:
  "\<exists>s. monitor_start_handler (\<lambda>_. []) 9 5 start_request startable_store = (s, Inr sample_monitor) \<and>
     load_monitor 9 s = Some sample_monitor"
proof -
  have "fresh_github_snapshot ''o/r'' 5 startable_store = Inr (sample_snapshot False, 0)"
    by (simp add: fresh_snapshot_ok minutes_def seconds_def)
  moreover have "validate_monitor_target (\<lambda>_. []) (merge_task\<lparr>task_state := Monitoring\<rparr>) (sample_item False) start_request = Inr ()"
    by (simp add: validate_monitor_target_def start_request_def sample_item_def merge_task_def sample_task_def
        sample_pull_request_def source_repository_full_name_def source_item_number_def source_head_sha_def
        source_base_sha_def)
  ultimately have "create_verified_monitor (\<lambda>_. []) 9 5 start_request startable_store = Inr sample_monitor"
    using sample_monitor_new sample_found [of False]
    by (simp add: create_verified_monitor_def start_request_def merge_task_def sample_task_def
        sample_contract_def sample_binding_def)
  then obtain s where s: "monitor_start_handler (\<lambda>_. []) 9 5 start_request startable_store = (s, Inr sample_monitor)"
    by (auto simp: monitor_start_handler_def save_monitor_def sql_u64_def sample_monitor_def)
  from s monitor_started [OF s] show ?thesis by (auto simp: sample_monitor_def)
qed

section \<open>The assessment of the queue\<close>

text \<open>The persisted queue. Assessing the queue replies with exactly the queue that a reader of the
  store sees afterwards; an error leaves the store, and so the queue before, as it was; and nothing
  but the queue is changed.\<close>

theorem queue_persisted:
  "case github_queue_assess parse digest now preset s of (s', r) \<Rightarrow>
     (case r of Inr ds \<Rightarrow> queue_decisions s' = ds | Inl _ \<Rightarrow> s' = s) \<and> s'\<lparr>st_queue := st_queue s\<rparr> = s"
  using queue_decisions_saved
  by (auto simp: github_queue_assess_def replace_queue_decisions_def and_then_eq_Inr
      split: option.splits sum.splits)

text \<open>One label stops the queue. When an open pull request of the stored snapshots, with an update
  time that parses, bears a label that names the pull request itself as its dependency, every
  assessment fails, whatever the other pull requests are.\<close>

theorem self_dependency_stops_queue:
  assumes "item \<in> set (github_work_items s)" and "wi_kind item = PullRequestItem" and "wi_state item = ''open''"
    and "parse (wi_updated_at item) \<noteq> None" and "wi_number item \<in> set (dependency_labels (wi_labels item))"
  shows "\<exists>e. github_queue_assess parse digest now preset s = (s, Inl e)"
proof -
  obtain c where c: "candidate_of_item parse item = Some c" "qc_number c \<in> set (qc_dependency_numbers c)"
    using assms(4,5) by (auto simp: candidate_of_item_def)
  then have "c \<in> set (queue_candidates parse s)"
    using assms(1-3) by (auto simp: queue_candidates_def List.map_filter_def image_iff intro!: bexI [of _ item])
  moreover have "invalid_candidate c" using c(2) by (simp add: invalid_candidate_def)
  ultimately have "\<nexists>ds. assess_queue digest (queue_candidates parse s) p now = Inr ds" for p
    by (auto simp: assess_queue_ok validate_candidates_ok)
  then show ?thesis
    by (auto simp: github_queue_assess_def split: option.splits sum.splits)
qed

definition looping_item :: github_work_item where
  "looping_item = (sample_item False)\<lparr>wi_labels := [''depends-on:#4'']\<rparr>"

definition looping_store :: store where
  "looping_store = empty_store\<lparr>st_snapshots := [(''o/r'', \<lparr>sw_repository = sample_repository,
     sw_snapshot = (sample_snapshot False)\<lparr>gs_work_items := [looping_item]\<rparr>, sw_synced_at = 0\<rparr>)]\<rparr>"

lemma dependency_on_four: "dependency_labels [''depends-on:#4''] = [4]"
  by (simp add: dependency_labels_def map_filter_simps strip_prefix_def starts_with_def parse_u64_def
      is_digit_def digit_value_def)

theorem self_dependency_stops_queue_witness:
  "\<exists>e. github_queue_assess (\<lambda>_. Some 0) (\<lambda>_. []) 5 None looping_store = (looping_store, Inl e)"
proof (rule self_dependency_stops_queue)
  show "looping_item \<in> set (github_work_items looping_store)"
    by (simp add: github_work_items_def snapshots_in_order_def looping_store_def)
qed (simp_all add: looping_item_def sample_item_def dependency_on_four)

end
