(* ===== verification/Preparation.thy ===== *)
theory Preparation
  imports Store_Claims Text_More
begin

text \<open>
  \<open>crates/patchwright-engine/src/preparation.rs\<close>: the preview of a worktree, its approval, and the
  authorization that consumes the approval by claiming it in the store. The arguments of the record
  \<open>preparation_env\<close> are SHA-256 in hex, the JSON encoders, the printing of a task id, the value of
  the kill switch and SQLite's \<open>julianday\<close>. The clock is read once in an operation.
\<close>

record preparation_payload =
  py_task_id :: uuid
  py_repository_binding_id :: uuid
  py_repository_full_name :: string
  py_repository_path :: string
  py_source_sha :: string
  py_worktree_path :: string
  py_branch :: string
  py_invalidation_generation :: u64
  py_contract_sha256 :: string

record preparation_env =
  pe_sha256_hex :: "string \<Rightarrow> string"
  pe_json_digests :: "instruction_digest list \<Rightarrow> string option"
  pe_json_contract :: "task_contract \<Rightarrow> string option"
  pe_json_payload :: "preparation_payload \<Rightarrow> string option"
  pe_json_fingerprint :: "action_fingerprint \<Rightarrow> string"
  pe_show_task_id :: "uuid \<Rightarrow> string"
  pe_kill_switch :: "string option"
  pe_julianday :: "timestamp \<Rightarrow> int"

record preparation_preview =
  pv_task_id :: uuid
  pv_repository_binding_id :: uuid
  pv_repository_full_name :: string
  pv_repository_path :: string
  pv_source_sha :: string
  pv_worktree_path :: string
  pv_branch :: string
  pv_invalidation_generation :: u64
  pv_policy_sha256 :: string
  pv_instruction_sha256 :: string
  pv_contract :: task_contract
  pv_fingerprint :: action_fingerprint

datatype preparation_error =
    PrepTaskMissing | PrepTaskStateInvalid | PrepBindingMissing | PrepContractMissing
  | PrepBindingMismatch | PrepSourceShaMissing | PrepRepositoryUnavailable | PrepFingerprintInvalid
  | PrepPreviewStale | PrepApprovalMissing | PrepApprovalInvalid | PrepApprovalAlreadyUsed
  | PrepTaskActive | PrepPolicyDenied | PrepSerialization | PrepPersistence store_error

text \<open>\<open>timestamp_micros().unsigned_abs()\<close>.\<close>

definition invalidation_generation :: "timestamp \<Rightarrow> u64" where
  "invalidation_generation t = word_of_int \<bar>t div 1000\<bar>"

definition preparation_fingerprint :: "preparation_env \<Rightarrow> task \<Rightarrow> repository_binding \<Rightarrow> string \<Rightarrow> string \<Rightarrow>
    string \<Rightarrow> action_fingerprint" where
  "preparation_fingerprint env t b source_sha payload digests = \<lparr>fp_task_id = task_id t,
     fp_github_repository_id = rb_github_repository_id b, fp_repository_full_name = rb_full_name b,
     fp_action_kind = capability_action_kind PrepareWorktree, fp_pull_request_number = None,
     fp_branch = Some (''patchwright/'' @ pe_show_task_id env (task_id t)),
     fp_head_sha = Some source_sha, fp_base_sha = None,
     fp_payload_sha256 = pe_sha256_hex env payload,
     fp_policy_sha256 = pe_sha256_hex env ''patchwright-preparation-policy-v1'',
     fp_instruction_sha256 = pe_sha256_hex env digests,
     fp_invalidation_generation = invalidation_generation (task_updated_at t)\<rparr>"

text \<open>The preview of a task whose rows were found; \<open>task_id\<close> of the argument and of the row agree, as
  the row is stored under its id.\<close>

definition preview_of :: "preparation_env \<Rightarrow> task \<Rightarrow> repository_binding \<Rightarrow> task_contract \<Rightarrow>
    preparation_error + preparation_preview" where
  "preview_of env t b contract =
     and_then (ok_or (case tc_head_sha contract of Some sha \<Rightarrow> Some sha | None \<Rightarrow> tc_base_sha contract)
       PrepSourceShaMissing) (\<lambda>source_sha.
     and_then (ok_or (case rb_managed_clone b of Some p \<Rightarrow> Some p | None \<Rightarrow> rb_user_checkout b)
       PrepRepositoryUnavailable) (\<lambda>repository_path.
     let worktree_path = path_join (rb_worktree_root b) (pe_show_task_id env (task_id t));
         branch = ''patchwright/'' @ pe_show_task_id env (task_id t);
         generation = invalidation_generation (task_updated_at t) in
     and_then (ok_or (pe_json_digests env (tc_instruction_digests contract)) PrepSerialization) (\<lambda>digests.
     and_then (ok_or (pe_json_contract env contract) PrepSerialization) (\<lambda>contract_json.
     and_then (ok_or (pe_json_payload env \<lparr>py_task_id = task_id t, py_repository_binding_id = rb_id b,
         py_repository_full_name = rb_full_name b, py_repository_path = repository_path,
         py_source_sha = source_sha, py_worktree_path = worktree_path, py_branch = branch,
         py_invalidation_generation = generation,
         py_contract_sha256 = pe_sha256_hex env contract_json\<rparr>) PrepSerialization) (\<lambda>payload.
     and_then (map_err (\<lambda>_. PrepFingerprintInvalid)
       (fingerprint_try_from (preparation_fingerprint env t b source_sha payload digests))) (\<lambda>fp.
     Inr \<lparr>pv_task_id = task_id t, pv_repository_binding_id = rb_id b,
       pv_repository_full_name = rb_full_name b, pv_repository_path = repository_path,
       pv_source_sha = source_sha, pv_worktree_path = worktree_path, pv_branch = branch,
       pv_invalidation_generation = generation,
       pv_policy_sha256 = pe_sha256_hex env ''patchwright-preparation-policy-v1'',
       pv_instruction_sha256 = pe_sha256_hex env digests, pv_contract = contract,
       pv_fingerprint = fp\<rparr>))))))"

definition preview_preparation ::
  "preparation_env \<Rightarrow> uuid \<Rightarrow> store \<Rightarrow> preparation_error + preparation_preview" where
  "preview_preparation env i s =
     and_then (ok_or (load_task i s) PrepTaskMissing) (\<lambda>t.
     and_then (ensure (task_state t = AwaitingPreparationApproval) PrepTaskStateInvalid) (\<lambda>_.
     and_then (ok_or (task_repository_binding_id t) PrepBindingMissing) (\<lambda>binding_id.
     and_then (ok_or (repository_binding binding_id s) PrepBindingMissing) (\<lambda>b.
     and_then (map_err PrepPersistence (load_task_contract i s)) (\<lambda>c.
     and_then (ok_or c PrepContractMissing) (\<lambda>contract.
     and_then (ensure (tc_repository_binding_id contract = binding_id \<and> tc_task_id contract = task_id t)
       PrepBindingMismatch) (\<lambda>_.
     preview_of env t b contract)))))))"

definition approve_preparation :: "preparation_env \<Rightarrow> uuid \<Rightarrow> timestamp \<Rightarrow> preparation_preview \<Rightarrow> string \<Rightarrow>
    store \<Rightarrow> preparation_error + store \<times> approval" where
  "approve_preparation env fresh now preview approved_by s =
     and_then (preview_preparation env (pv_task_id preview) s) (\<lambda>current.
     and_then (ensure (current = preview) PrepPreviewStale) (\<lambda>_.
     and_then (map_err (\<lambda>_. PrepApprovalInvalid) (new_approval fresh Preparation PrepareWorktree
       (pv_fingerprint preview) approved_by now (now + minutes 10))) (\<lambda>a.
     Inr (save_approval (digest_sha256 (pe_json_fingerprint env) (pe_sha256_hex env)) a s, a))))"

definition preparation_decision :: "policy_decision \<Rightarrow> preparation_error + unit" where
  "preparation_decision decision = (case decision of
       Allowed \<Rightarrow> Inr ()
     | ApprovalRequired _ \<Rightarrow> Inl PrepApprovalInvalid
     | Denied _ \<Rightarrow> Inl PrepPolicyDenied)"

definition claim_result :: "preparation_claim_outcome \<Rightarrow> preparation_error + unit" where
  "claim_result outcome = (case outcome of
       PrepClaimed \<Rightarrow> Inr ()
     | PrepApprovalUnavailable \<Rightarrow> Inl PrepApprovalInvalid
     | PrepAlreadyClaimed \<Rightarrow> Inl PrepApprovalAlreadyUsed
     | PrepTaskInProgress \<Rightarrow> Inl PrepTaskActive)"

definition authorize_preparation :: "preparation_env \<Rightarrow> timestamp \<Rightarrow> preparation_preview \<Rightarrow> uuid \<Rightarrow>
    store \<Rightarrow> preparation_error + store" where
  "authorize_preparation env now preview approval_id s =
     and_then (preview_preparation env (pv_task_id preview) s) (\<lambda>current.
     and_then (ensure (current = preview) PrepPreviewStale) (\<lambda>_.
     and_then (ok_or (load_approval approval_id s) PrepApprovalMissing) (\<lambda>a.
     and_then (preparation_decision (authorize (policy_default (pe_kill_switch env)) PrepareWorktree
       (pv_fingerprint preview) (Some a) now)) (\<lambda>_.
     let (s', outcome) = claim_preparation (pe_julianday env) approval_id (pv_task_id preview)
       (digest_sha256 (pe_json_fingerprint env) (pe_sha256_hex env) (pv_fingerprint preview)) now s in
     and_then (claim_result outcome) (\<lambda>_. Inr s')))))"

section \<open>Lemmas\<close>

lemma preparation_decision_ok [result_simps]: "preparation_decision r = Inr u \<longleftrightarrow> r = Allowed"
  by (simp add: preparation_decision_def split: policy_decision.split)

lemma claim_result_ok [result_simps]: "claim_result r = Inr u \<longleftrightarrow> r = PrepClaimed"
  by (simp add: claim_result_def split: preparation_claim_outcome.split)

lemma preview_preparation_ok:
  "preview_preparation env i s = Inr p \<longleftrightarrow> (\<exists>t b contract. load_task i s = Some t \<and>
     task_state t = AwaitingPreparationApproval \<and>
     task_repository_binding_id t = Some (tc_repository_binding_id contract) \<and>
     repository_binding (tc_repository_binding_id contract) s = Some b \<and>
     load_task_contract i s = Inr (Some contract) \<and> tc_task_id contract = task_id t \<and>
     preview_of env t b contract = Inr p)"
  unfolding preview_preparation_def
  by (simp only: and_then_eq_Inr ok_or_eq_Inr map_err_eq_Inr ensure_eq_Inr) auto

lemma capability_kind_trim: "trim (capability_action_kind PrepareWorktree) = capability_action_kind PrepareWorktree"
  by (rule trim_word) (simp add: capability_action_kind_def is_ascii_graphic_def)

lemma preview_of_parts:
  assumes "preview_of env t b contract = Inr p"
  shows "pv_task_id p = task_id t" "pv_contract p = contract"
    "fp_task_id (pv_fingerprint p) = task_id t"
    "fp_action_kind (pv_fingerprint p) = capability_action_kind PrepareWorktree"
    "fp_head_sha (pv_fingerprint p) = Some (pv_source_sha p)" "is_git_sha (pv_source_sha p)"
    "Some (pv_source_sha p) = (case tc_head_sha contract of Some sha \<Rightarrow> Some sha | None \<Rightarrow> tc_base_sha contract)"
    "pv_worktree_path p = path_join (rb_worktree_root b) (pe_show_task_id env (task_id t))"
  using assms
  by (auto simp: preview_of_def result_simps preparation_fingerprint_def validated_text_ok
      capability_kind_trim Let_def)

text \<open>A preview reads the tables of tasks, contracts and bindings only.\<close>

lemma preview_preparation_cong:
  "st_tasks s' = st_tasks s \<Longrightarrow> st_contracts s' = st_contracts s \<Longrightarrow> st_bindings s' = st_bindings s \<Longrightarrow>
     preview_preparation env i s' = preview_preparation env i s"
  by (simp add: preview_preparation_def load_task_def load_task_contract_def repository_binding_def)

definition preparation_digest :: "preparation_env \<Rightarrow> action_fingerprint \<Rightarrow> string" where
  "preparation_digest env = digest_sha256 (pe_json_fingerprint env) (pe_sha256_hex env)"

text \<open>The claim is granted exactly when the policy, the row of the approval and the registers allow.\<close>

lemma authorize_preparation_ok:
  "authorize_preparation env now p aid s = Inr s' \<longleftrightarrow>
     preview_preparation env (pv_task_id p) s = Inr p \<and>
     (\<exists>a. load_approval aid s = Some a \<and> authorize (policy_default (pe_kill_switch env)) PrepareWorktree
        (pv_fingerprint p) (Some a) now = Allowed) \<and>
     preparation_approval_ok (pe_julianday env) aid (pv_task_id p) (preparation_digest env (pv_fingerprint p)) now s \<and>
     \<not> has_row aid (st_preparations s) \<and> \<not> preparation_active (pv_task_id p) s \<and>
     s' = fst (claim_preparation (pe_julianday env) aid (pv_task_id p)
       (preparation_digest env (pv_fingerprint p)) now s)"
  by (auto simp: authorize_preparation_def and_then_eq_Inr ok_or_eq_Inr ensure_eq_Inr
      preparation_decision_ok claim_result_ok preparation_digest_def claim_preparation_def
      split: if_splits prod.splits)

text \<open>Authorized preparations form registers over the approvals and over the tasks.\<close>

definition authorize_claim ::
  "preparation_env \<Rightarrow> timestamp \<times> preparation_preview \<times> uuid \<Rightarrow> store \<Rightarrow> store \<times> bool" where
  "authorize_claim env = (\<lambda>(now, p, aid) s. case authorize_preparation env now p aid s of
       Inl _ \<Rightarrow> (s, False) | Inr s' \<Rightarrow> (s', True))"

lemma authorize_claim_eq:
  "authorize_claim env (now, p, aid) s =
     (if is_ok (authorize_preparation env now p aid s)
      then prepare (pe_julianday env) (aid, pv_task_id p, preparation_digest env (pv_fingerprint p), now) s
      else (s, False))"
proof (cases "authorize_preparation env now p aid s")
  case (Inl e)
  then show ?thesis by (simp add: authorize_claim_def)
next
  case (Inr s')
  then show ?thesis
    using Inr [unfolded authorize_preparation_ok] by (simp add: authorize_claim_def prepare_eq)
qed

interpretation used_approvals: claim_register "authorize_claim env" "\<lambda>a. snd (snd a)"
    "\<lambda>i s. has_row i (st_preparations s)" "\<lambda>s. True" for env
  by unfold_locales
    (auto simp: authorize_claim_eq prepare_eq claim_preparation_def authorize_preparation_ok is_ok_iff split: if_splits)

interpretation prepared_tasks: claim_register "authorize_claim env" "\<lambda>a. pv_task_id (fst (snd a))"
    preparation_active "\<lambda>s. True" for env
  by unfold_locales
    (auto simp: authorize_claim_eq prepare_eq claim_preparation_def authorize_preparation_ok is_ok_iff
      preparation_active_def split: if_splits)

end
