(* ===== verification/Planning.thy ===== *)
theory Planning
  imports Contract Domain Text_More
begin

text \<open>
  \<open>crates/patchwright-engine/src/planning.rs\<close> and the inspection of a repository in
  \<open>repository.rs\<close>: a task contract is planned from the evidence in the captured commit, read with
  git. Git, the canonicalization of paths, SHA-256 in hex and the JSON encoder of the source are the
  arguments in the record \<open>planning_env\<close>; the texts of errors are not modelled.
\<close>

section \<open>Git and the inspection of a repository\<close>

text \<open>A run of git: it could not be started, or it ended with a status and an output.\<close>

datatype git_result = GitUnavailable | GitExit bool string

record planning_env =
  git :: "string \<Rightarrow> string list \<Rightarrow> git_result"
  canonicalize :: "string \<Rightarrow> string option"
  pl_sha256_hex :: "string \<Rightarrow> string"
  json_source :: "task_source \<times> string \<Rightarrow> string option"

record repository_inspection =
  ri_root :: string
  ri_branch :: string
  ri_head_sha :: string
  ri_dirty :: bool

datatype planning_error =
    PlanBindingMismatch | PlanSourceShaMissing | PlanUnsupportedSource | PlanUnsupportedRepository
  | PlanIncompleteEvidence string string | PlanRepositoryDirty | PlanSourceChanged | PlanRepository
  | PlanEvidence string string | PlanContract

definition git_text :: "planning_env \<Rightarrow> string \<Rightarrow> string list \<Rightarrow> planning_error + string" where
  "git_text env repository args = (case git env repository args of
       GitExit True out \<Rightarrow> if utf8_valid out then Inr out else Inl PlanRepository
     | _ \<Rightarrow> Inl PlanRepository)"

definition inspect :: "planning_env \<Rightarrow> string \<Rightarrow> planning_error + repository_inspection" where
  "inspect env path =
     and_then (git_text env path [''rev-parse'', ''--show-toplevel'']) (\<lambda>root_output.
     and_then (ok_or (canonicalize env (trim root_output)) PlanRepository) (\<lambda>root.
     and_then (git_text env root [''branch'', ''--show-current'']) (\<lambda>branch.
     and_then (git_text env root [''rev-parse'', ''HEAD'']) (\<lambda>head_sha.
     and_then (git_text env root [''status'', ''--porcelain=v1'']) (\<lambda>status.
     Inr \<lparr>ri_root = root, ri_branch = trim branch, ri_head_sha = trim head_sha,
       ri_dirty = (trim status \<noteq> [])\<rparr>)))))"

section \<open>Evidence in the captured commit\<close>

definition max_evidence_bytes :: u64 where
  "max_evidence_bytes = 4 * 1024 * 1024"

definition git_output :: "planning_env \<Rightarrow> string \<Rightarrow> string list \<Rightarrow> planning_error + string" where
  "git_output env root args = (case git env root args of
       GitExit True out \<Rightarrow> Inr out | _ \<Rightarrow> Inl PlanRepository)"

definition commit_exists :: "planning_env \<Rightarrow> string \<Rightarrow> string \<Rightarrow> planning_error + bool" where
  "commit_exists env root sha = (case git env root [''cat-file'', ''-e'', sha @ ''^{commit}''] of
       GitUnavailable \<Rightarrow> Inl PlanRepository | GitExit success _ \<Rightarrow> Inr success)"

definition tree_mode :: "string \<Rightarrow> string \<Rightarrow> planning_error + string" where
  "tree_mode path tree =
     (if CHR 0x09 \<notin> set tree then Inl (PlanEvidence path ''invalid git tree entry'')
      else let header = takeWhile (\<lambda>c. c \<noteq> CHR 0x09) tree in
        if utf8_valid header then Inr (first_ascii_word header)
        else Inl (PlanEvidence path ''utf-8''))"

definition read_regular_evidence_at_commit ::
  "planning_env \<Rightarrow> string \<Rightarrow> string \<Rightarrow> string \<Rightarrow> planning_error + string option" where
  "read_regular_evidence_at_commit env root sha path =
     and_then (git_output env root [''ls-tree'', ''-z'', sha, ''--'', path]) (\<lambda>tree.
     if tree = [] then Inr None
     else and_then (tree_mode path tree) (\<lambda>mode.
       and_then (ensure (mode \<in> set [''100644'', ''100755''])
         (PlanEvidence path ''must be a regular file in the captured commit'')) (\<lambda>_.
       let object = sha @ '':'' @ path in
       and_then (git_output env root [''cat-file'', ''-s'', object]) (\<lambda>size.
       and_then (ok_or (if utf8_valid size then parse_u64 (trim size) else None)
         (PlanEvidence path ''invalid blob size'')) (\<lambda>size.
       and_then (ensure (size \<le> max_evidence_bytes)
         (PlanEvidence path ''file exceeds the evidence size limit'')) (\<lambda>_.
       and_then (git_output env root [''cat-file'', ''blob'', object]) (\<lambda>content.
       and_then (ensure (of_nat (length content) = size)
         (PlanEvidence path ''blob size changed while assessing'')) (\<lambda>_.
       Inr (Some content)))))))))"

record detected_boundary =
  db_evidence :: "(string \<times> string) list"
  db_commands :: "verification_command list"
  db_sensitive_paths :: "sensitive_path list"

definition no_boundary :: detected_boundary where
  "no_boundary = \<lparr>db_evidence = [], db_commands = [], db_sensitive_paths = []\<rparr>"

definition lockfile_reason :: string where
  "lockfile_reason = ''Dependency resolution is part of the verification boundary''"

definition detect_pair :: "planning_env \<Rightarrow> string \<Rightarrow> string \<Rightarrow> string \<Rightarrow> string \<Rightarrow> verification_command \<Rightarrow>
    detected_boundary \<Rightarrow> planning_error + detected_boundary" where
  "detect_pair env root sha manifest lockfile command detected =
     and_then (read_regular_evidence_at_commit env root sha manifest) (\<lambda>m.
     and_then (read_regular_evidence_at_commit env root sha lockfile) (\<lambda>l.
     case (m, l) of
       (None, None) \<Rightarrow> Inr detected
     | (Some mc, Some lc) \<Rightarrow>
         and_then (map_err (\<lambda>_. PlanContract) (sensitive_path_new lockfile lockfile_reason)) (\<lambda>path.
         Inr \<lparr>db_evidence = db_evidence detected @ [(manifest, mc), (lockfile, lc)],
           db_commands = db_commands detected @ [command],
           db_sensitive_paths = db_sensitive_paths detected @ [path]\<rparr>)
     | _ \<Rightarrow> Inl (PlanIncompleteEvidence manifest lockfile)))"

text \<open>\<open>usize::to_be_bytes\<close> on 64 bits, and what the hasher is fed.\<close>

definition be_bytes :: "nat \<Rightarrow> string" where
  "be_bytes n = map (\<lambda>i. char_of (n div 256 ^ i mod 256)) (rev [0..<8])"

definition evidence_bytes :: "(string \<times> string) list \<Rightarrow> string" where
  "evidence_bytes evidence = concat (map (\<lambda>(name, content).
     be_bytes (length name) @ name @ be_bytes (length content) @ content) evidence)"

definition digest_evidence :: "planning_env \<Rightarrow> (string \<times> string) list \<Rightarrow> string" where
  "digest_evidence env evidence = pl_sha256_hex env (evidence_bytes evidence)"

section \<open>The contract\<close>

definition issue_capabilities :: "capability list" where
  "issue_capabilities = [CapCreateBranch, PushBranch, CreatePullRequest, PostComment, CreateCheckRun, CapCloseIssue]"

definition pull_request_capabilities :: "capability list" where
  "pull_request_capabilities = [PushBranch, PostComment, PostReview, ResolveThread, CreateCheckRun,
     CapUpdatePullRequestBranch, CapReadyPullRequest, CapClosePullRequest, CapEnqueuePullRequest,
     CapMergePullRequest]"

definition contract_intent :: "task \<Rightarrow> planning_error + string \<times> string list \<times> capability list" where
  "contract_intent t =
     and_then (ok_or (source_repository_full_name (task_source t)) PlanUnsupportedSource) (\<lambda>repository.
     and_then (ok_or (source_item_number (task_source t)) PlanUnsupportedSource) (\<lambda>number.
     case task_source t of
       GitHubIssue _ \<Rightarrow> Inr (''Resolve GitHub issue #'' @ decimal (unat number) @ '' in '' @ repository @
           '': '' @ task_title t,
         [''The issue outcome is implemented and every captured verification command passes.''],
         issue_capabilities)
     | GitHubPullRequest _ \<Rightarrow> Inr (''Complete GitHub pull request #'' @ decimal (unat number) @ '' in '' @
           repository @ '': '' @ task_title t,
         [''Requested changes are complete and every captured verification command passes.''],
         pull_request_capabilities)
     | LocalRequest \<Rightarrow> Inl PlanUnsupportedSource))"

definition is_bound_managed_source :: "planning_env \<Rightarrow> string \<Rightarrow> repository_binding \<Rightarrow> bool" where
  "is_bound_managed_source env root b = (case rb_managed_clone b of None \<Rightarrow> False
     | Some path \<Rightarrow> canonicalize env path = Some root)"

definition first_some :: "'a option list \<Rightarrow> 'a option" where
  "first_some xs = (case filter (\<lambda>x. x \<noteq> None) xs of [] \<Rightarrow> None | x # _ \<Rightarrow> x)"

definition detect_boundary :: "planning_env \<Rightarrow> string \<Rightarrow> string \<Rightarrow> planning_error + detected_boundary" where
  "detect_boundary env root sha =
     and_then (map_err (\<lambda>_. PlanContract) (verification_command_new ''cargo'' [''test'', ''--workspace''])) (\<lambda>cargo.
     and_then (detect_pair env root sha ''Cargo.toml'' ''Cargo.lock'' cargo no_boundary) (\<lambda>detected.
     and_then (map_err (\<lambda>_. PlanContract) (verification_command_new ''swift'' [''test''])) (\<lambda>swift.
     and_then (detect_pair env root sha ''Package.swift'' ''Package.resolved'' swift detected) (\<lambda>detected.
     and_then (ensure (db_commands detected \<noteq> []) PlanUnsupportedRepository) (\<lambda>_.
     Inr detected)))))"

definition plan_digests :: "planning_env \<Rightarrow> string \<Rightarrow> string \<Rightarrow> planning_error + instruction_digest list" where
  "plan_digests env root sha =
     and_then (read_regular_evidence_at_commit env root sha ''AGENTS.md'') (\<lambda>content.
     map_err (\<lambda>_. PlanContract) (case content of
         Some content \<Rightarrow> and_then (instruction_digest_new ''AGENTS.md'' (pl_sha256_hex env content) 1)
           (\<lambda>d. Inr [d])
       | None \<Rightarrow> and_then (instruction_digest_new ''resolvedInstructions'' (pl_sha256_hex env ''[]'') 0)
           (\<lambda>d. Inr [d])))"

definition assess :: "planning_env \<Rightarrow> task \<Rightarrow> repository_binding \<Rightarrow> planning_error + task_contract" where
  "assess env t b =
     and_then (ensure (task_repository_binding_id t = Some (rb_id b)) PlanBindingMismatch) (\<lambda>_.
     and_then (ok_or (first_some [source_head_sha (task_source t), source_base_sha (task_source t),
         rb_default_branch_sha b]) PlanSourceShaMissing) (\<lambda>sha.
     and_then (inspect env (task_repository_path t)) (\<lambda>inspection.
     and_then (ensure (\<not> (ri_dirty inspection \<and> \<not> is_bound_managed_source env (ri_root inspection) b))
       PlanRepositoryDirty) (\<lambda>_.
     and_then (commit_exists env (ri_root inspection) sha) (\<lambda>found.
     and_then (ensure found PlanSourceChanged) (\<lambda>_.
     and_then (detect_boundary env (ri_root inspection) sha) (\<lambda>detected.
     and_then (plan_digests env (ri_root inspection) sha) (\<lambda>digests.
     and_then (ok_or (json_source env (task_source t, sha)) PlanContract) (\<lambda>source_json.
     and_then (contract_intent t) (\<lambda>(goal, criteria, capabilities).
     map_err (\<lambda>_. PlanContract) (task_contract_try_from \<lparr>tc_task_id = task_id t,
       tc_source = task_source t, tc_repository_binding_id = rb_id b, tc_goal = goal,
       tc_acceptance_criteria = criteria,
       tc_base_sha = first_some [source_base_sha (task_source t), rb_default_branch_sha b],
       tc_head_sha = source_head_sha (task_source t),
       tc_source_sha256 = pl_sha256_hex env source_json,
       tc_repository_sha256 = digest_evidence env (db_evidence detected),
       tc_instruction_digests = digests, tc_verification_commands = db_commands detected,
       tc_required_capabilities = capabilities, tc_risk = Moderate,
       tc_sensitive_paths = db_sensitive_paths detected, tc_dependencies = []\<rparr>)))))))))))"

section \<open>What is read as evidence\<close>

lemma git_output_ok [result_simps]: "git_output env root args = Inr out \<longleftrightarrow> git env root args = GitExit True out"
  by (simp add: git_output_def split: git_result.splits bool.splits)

lemma commit_exists_ok [result_simps]:
  "commit_exists env root sha = Inr r \<longleftrightarrow> (\<exists>out. git env root [''cat-file'', ''-e'', sha @ ''^{commit}''] = GitExit r out)"
  by (simp add: commit_exists_def split: git_result.splits)

text \<open>A regular file of the commit, of a size within the limit.\<close>

definition regular_blob :: "planning_env \<Rightarrow> string \<Rightarrow> string \<Rightarrow> string \<Rightarrow> string \<Rightarrow> bool" where
  "regular_blob env root sha path content \<longleftrightarrow>
     (\<exists>tree mode size. git env root [''ls-tree'', ''-z'', sha, ''--'', path] = GitExit True tree \<and>
        tree_mode path tree = Inr mode \<and> mode \<in> set [''100644'', ''100755''] \<and>
        git env root [''cat-file'', ''-s'', sha @ '':'' @ path] = GitExit True size \<and>
        parse_u64 (trim size) = Some (of_nat (length content))) \<and>
     git env root [''cat-file'', ''blob'', sha @ '':'' @ path] = GitExit True content \<and>
     (of_nat (length content) :: u64) \<le> max_evidence_bytes"

lemma read_evidence_blob:
  "read_regular_evidence_at_commit env root sha path = Inr (Some content) \<Longrightarrow> regular_blob env root sha path content"
  unfolding read_regular_evidence_at_commit_def regular_blob_def
  by (auto simp: result_simps Let_def split: if_splits; blast)

lemma read_evidence_absent:
  "read_regular_evidence_at_commit env root sha path = Inr None \<longleftrightarrow>
     git env root [''ls-tree'', ''-z'', sha, ''--'', path] = GitExit True []"
  unfolding read_regular_evidence_at_commit_def
  by (auto simp: result_simps Let_def split: if_splits)

text \<open>What a pair of files adds to the boundary: nothing, or the pair and its command together.\<close>

lemma detect_pair_ok:
  assumes "detect_pair env root sha manifest lockfile command d = Inr d'"
  obtains (absent) "d' = d"
  | (present) m l p where "regular_blob env root sha manifest m" "regular_blob env root sha lockfile l"
      "sensitive_path_new lockfile lockfile_reason = Inr p"
      "d' = \<lparr>db_evidence = db_evidence d @ [(manifest, m), (lockfile, l)],
         db_commands = db_commands d @ [command], db_sensitive_paths = db_sensitive_paths d @ [p]\<rparr>"
proof -
  obtain m l where r: "read_regular_evidence_at_commit env root sha manifest = Inr m"
    "read_regular_evidence_at_commit env root sha lockfile = Inr l"
    using assms by (auto simp: detect_pair_def result_simps)
  show thesis
  proof (cases "m = None \<and> l = None")
    case True
    then show ?thesis using assms r by (intro absent) (simp add: detect_pair_def)
  next
    case False
    then obtain mc lc p where "m = Some mc" "l = Some lc" "sensitive_path_new lockfile lockfile_reason = Inr p"
      "d' = \<lparr>db_evidence = db_evidence d @ [(manifest, mc), (lockfile, lc)],
         db_commands = db_commands d @ [command], db_sensitive_paths = db_sensitive_paths d @ [p]\<rparr>"
      using assms r by (auto simp: detect_pair_def result_simps split: option.splits)
    then show ?thesis using r by (intro present [of mc lc p]) (auto dest: read_evidence_blob)
  qed
qed

text \<open>The two kinds of repository the planner knows, by manifest, lockfile and command.\<close>

definition trusted_pairs :: "(string \<times> string \<times> verification_command) list" where
  "trusted_pairs = [(''Cargo.toml'', ''Cargo.lock'', \<lparr>vc_program = ''cargo'', vc_args = [''test'', ''--workspace'']\<rparr>),
     (''Package.swift'', ''Package.resolved'', \<lparr>vc_program = ''swift'', vc_args = [''test'']\<rparr>)]"

definition backed :: "planning_env \<Rightarrow> string \<Rightarrow> string \<Rightarrow> verification_command \<Rightarrow> bool" where
  "backed env root sha command \<longleftrightarrow> (\<exists>manifest lockfile m l. (manifest, lockfile, command) \<in> set trusted_pairs \<and>
     regular_blob env root sha manifest m \<and> regular_blob env root sha lockfile l)"

lemma verification_command_new_eq:
  "verification_command_new p a = Inr c \<Longrightarrow> c = \<lparr>vc_program = p, vc_args = a\<rparr>"
  by (auto simp: verification_command_new_def result_simps split: if_splits)

lemma detect_boundary_ok:
  assumes "detect_boundary env root sha = Inr d"
  shows "db_commands d \<noteq> [] \<and> (\<forall>c \<in> set (db_commands d). backed env root sha c) \<and>
    length (db_commands d) \<le> 2 \<and> length (db_sensitive_paths d) = length (db_commands d) \<and>
    length (db_evidence d) = 2 * length (db_commands d)"
proof -
  obtain cargo d1 swift where c: "verification_command_new ''cargo'' [''test'', ''--workspace''] = Inr cargo"
    "detect_pair env root sha ''Cargo.toml'' ''Cargo.lock'' cargo no_boundary = Inr d1"
    "verification_command_new ''swift'' [''test''] = Inr swift"
    "detect_pair env root sha ''Package.swift'' ''Package.resolved'' swift d1 = Inr d" "db_commands d \<noteq> []"
    using assms unfolding detect_boundary_def
    by (simp only: and_then_eq_Inr ensure_eq_Inr map_err_eq_Inr) blast
  note eqs = verification_command_new_eq [OF c(1)] verification_command_new_eq [OF c(3)]
  have "(\<forall>x \<in> set (db_commands d1). backed env root sha x) \<and> length (db_commands d1) \<le> 1 \<and>
    length (db_sensitive_paths d1) = length (db_commands d1) \<and>
    length (db_evidence d1) = 2 * length (db_commands d1)"
    using c(2) by (cases rule: detect_pair_ok)
      (auto simp: no_boundary_def eqs backed_def trusted_pairs_def)
  with c(4,5) show ?thesis
    by (cases rule: detect_pair_ok) (auto simp: eqs backed_def trusted_pairs_def)
qed

section \<open>The digest of the evidence\<close>

text \<open>The length prefixes make the bytes that are hashed determine the files.\<close>

lemma length_be_bytes [simp]: "length (be_bytes n) = 8"
  by (simp add: be_bytes_def)

lemma be_bytes_digit:
  assumes "be_bytes m = be_bytes n" "i < 8"
  shows "m div 256 ^ i mod 256 = n div 256 ^ i mod (256 :: nat)"
proof -
  have "(char_of (m div 256 ^ i mod 256) :: char) = char_of (n div 256 ^ i mod 256)"
    using assms by (simp add: be_bytes_def)
  then have "(of_char (char_of (m div 256 ^ i mod 256) :: char) :: nat) =
    of_char (char_of (n div 256 ^ i mod 256) :: char)" by simp
  then show ?thesis by (simp only: of_char_of) simp
qed

lemma digits_determine:
  assumes "m < 256 ^ k" "n < 256 ^ k" "\<And>i. i < k \<Longrightarrow> m div 256 ^ i mod 256 = n div 256 ^ i mod (256 :: nat)"
  shows "m = n"
  using assms
proof (induction k arbitrary: m n)
  case 0
  then show ?case by simp
next
  case (Suc k)
  have "m div 256 = n div 256"
  proof (rule Suc.IH)
    show "m div 256 < 256 ^ k" "n div 256 < 256 ^ k"
      using Suc.prems(1,2) by (simp_all add: less_mult_imp_div_less mult.commute)
    show "m div 256 div 256 ^ i mod 256 = n div 256 div 256 ^ i mod 256" if "i < k" for i
      using Suc.prems(3) [of "Suc i"] that by (simp add: div_mult2_eq)
  qed
  moreover have "m mod 256 = n mod 256" using Suc.prems(3) [of 0] by simp
  ultimately show ?case by (metis div_mult_mod_eq)
qed

lemma be_bytes_inject: "m < 2 ^ 64 \<Longrightarrow> n < 2 ^ 64 \<Longrightarrow> be_bytes m = be_bytes n \<longleftrightarrow> m = n"
  using digits_determine [of m 8 n] be_bytes_digit [of m n] by auto

definition sized :: "(string \<times> string) list \<Rightarrow> bool" where
  "sized evidence \<longleftrightarrow> list_all (\<lambda>(name, content). length name < 2 ^ 64 \<and> length content < 2 ^ 64) evidence"

lemma prefixed_inject:
  assumes "be_bytes (length a) @ a @ u = be_bytes (length b) @ b @ v" "length a < 2 ^ 64" "length b < 2 ^ 64"
  shows "a = b \<and> u = v"
proof -
  have "be_bytes (length a) = be_bytes (length b)" "a @ u = b @ v"
    using assms(1) by (simp_all add: append_eq_append_conv)
  then show ?thesis using be_bytes_inject [OF assms(2,3)] by (simp add: append_eq_append_conv)
qed

lemma evidence_bytes_Cons:
  "evidence_bytes ((n, c) # es) = be_bytes (length n) @ n @ be_bytes (length c) @ c @ evidence_bytes es"
  by (simp add: evidence_bytes_def)

lemma evidence_bytes_Nil: "evidence_bytes es = [] \<longleftrightarrow> es = []"
  by (cases es) (auto simp: evidence_bytes_def be_bytes_def)

lemma evidence_bytes_inject:
  "sized es \<Longrightarrow> sized fs \<Longrightarrow> evidence_bytes es = evidence_bytes fs \<Longrightarrow> es = fs"
proof (induction es arbitrary: fs)
  case Nil
  then show ?case using evidence_bytes_Nil [of fs] by (simp add: evidence_bytes_def)
next
  case (Cons e es)
  obtain n c where e: "e = (n, c)" by (cases e)
  from Cons.prems(3) evidence_bytes_Nil [of fs] evidence_bytes_Nil [of "e # es"]
  obtain m d gs where fs: "fs = (m, d) # gs" by (cases fs) auto
  have l: "length n < 2 ^ 64" "length m < 2 ^ 64" "length c < 2 ^ 64" "length d < 2 ^ 64"
    using Cons.prems(1,2) by (auto simp: e fs sized_def)
  have "n = m \<and> be_bytes (length c) @ c @ evidence_bytes es = be_bytes (length d) @ d @ evidence_bytes gs"
    using Cons.prems(3) l(1,2) unfolding e fs evidence_bytes_Cons by (intro prefixed_inject)
  then have "n = m" "c = d \<and> evidence_bytes es = evidence_bytes gs"
    using prefixed_inject [OF _ l(3,4)] by blast+
  then show ?case using Cons.IH [of gs] Cons.prems(1,2) by (simp add: e fs sized_def)
qed

section \<open>What a plan holds\<close>

lemma first_some_cases: "first_some xs = Some x \<Longrightarrow> Some x \<in> set xs"
  by (auto simp: first_some_def split: list.splits dest!: arg_cong [where f = set])

lemma contract_intent_ok:
  assumes "contract_intent t = Inr (goal, criteria, capabilities)"
  shows "(\<exists>i. task_source t = GitHubIssue i) \<and> capabilities = issue_capabilities \<or>
    (\<exists>p. task_source t = GitHubPullRequest p) \<and> capabilities = pull_request_capabilities"
  using assms by (cases "task_source t") (auto simp: contract_intent_def result_simps)

text \<open>The steps of an assessment that succeeds, and the contract it makes of them.\<close>

lemma assess_parts:
  assumes "assess env t b = Inr c"
  obtains sha i detected digests source_json goal criteria capabilities where
    "task_repository_binding_id t = Some (rb_id b)"
    "first_some [source_head_sha (task_source t), source_base_sha (task_source t), rb_default_branch_sha b] = Some sha"
    "inspect env (task_repository_path t) = Inr i" "ri_dirty i \<longrightarrow> is_bound_managed_source env (ri_root i) b"
    "commit_exists env (ri_root i) sha = Inr True" "detect_boundary env (ri_root i) sha = Inr detected"
    "plan_digests env (ri_root i) sha = Inr digests" "json_source env (task_source t, sha) = Some source_json"
    "contract_intent t = Inr (goal, criteria, capabilities)"
    "task_contract_try_from \<lparr>tc_task_id = task_id t,
       tc_source = task_source t, tc_repository_binding_id = rb_id b, tc_goal = goal,
       tc_acceptance_criteria = criteria,
       tc_base_sha = first_some [source_base_sha (task_source t), rb_default_branch_sha b],
       tc_head_sha = source_head_sha (task_source t),
       tc_source_sha256 = pl_sha256_hex env source_json,
       tc_repository_sha256 = digest_evidence env (db_evidence detected),
       tc_instruction_digests = digests, tc_verification_commands = db_commands detected,
       tc_required_capabilities = capabilities, tc_risk = Moderate,
       tc_sensitive_paths = db_sensitive_paths detected, tc_dependencies = []\<rparr> = Inr c"
proof -
  obtain sha i found u v detected digests source_json r where
    a: "task_repository_binding_id t = Some (rb_id b)"
    "first_some [source_head_sha (task_source t), source_base_sha (task_source t), rb_default_branch_sha b] = Some sha"
    "inspect env (task_repository_path t) = Inr i" "\<not> (ri_dirty i \<and> \<not> is_bound_managed_source env (ri_root i) b)"
    "commit_exists env (ri_root i) sha = Inr found" found "detect_boundary env (ri_root i) sha = Inr detected"
    "plan_digests env (ri_root i) sha = Inr digests" "json_source env (task_source t, sha) = Some source_json"
    "contract_intent t = Inr r"
    and c: "(case r of (goal, criteria, capabilities) \<Rightarrow> map_err (\<lambda>_. PlanContract)
      (task_contract_try_from \<lparr>tc_task_id = task_id t,
       tc_source = task_source t, tc_repository_binding_id = rb_id b, tc_goal = goal,
       tc_acceptance_criteria = criteria,
       tc_base_sha = first_some [source_base_sha (task_source t), rb_default_branch_sha b],
       tc_head_sha = source_head_sha (task_source t),
       tc_source_sha256 = pl_sha256_hex env source_json,
       tc_repository_sha256 = digest_evidence env (db_evidence detected),
       tc_instruction_digests = digests, tc_verification_commands = db_commands detected,
       tc_required_capabilities = capabilities, tc_risk = Moderate,
       tc_sensitive_paths = db_sensitive_paths detected, tc_dependencies = []\<rparr>)) = Inr c"
    using assms unfolding assess_def and_then_eq_Inr ensure_eq_Inr ok_or_eq_Inr
    by (elim exE conjE) blast
  obtain goal criteria capabilities where r: "r = (goal, criteria, capabilities)" by (cases r)
  show thesis
    using a c [unfolded r prod.case map_err_eq_Inr] by (intro that) (simp_all add: r)
qed

end
