(* ===== verification/Verification.thy ===== *)
theory Verification
  imports Store Planning
begin

text \<open>
  \<open>crates/patchwright-engine/src/command.rs\<close> and \<open>verification.rs\<close>: the commands of a contract run in
  the worktree of the task, each leaves a row of evidence, and the task awaits its delivery approval
  when all passed at an unchanged commit. The file system, the processes and git are arguments, per
  command where they may change between two; so is what other clients do to the store while it is
  unlocked (\<open>others\<close>). The texts of \<open>anyhow\<close> errors are modelled as the code classifies by them.
\<close>

unbundle bit_operations_syntax

section \<open>Commands\<close>

text \<open>\<open>fs_canonicalize\<close> resolves a path, \<open>fs_metadata\<close> follows links to (is a file, mode), and
  \<open>fs_variables\<close> is the environment of the engine.\<close>

record file_system =
  fs_canonicalize :: "string \<Rightarrow> string option"
  fs_metadata :: "string \<Rightarrow> (bool \<times> u32) option"
  fs_variables :: "(string \<times> string) list"

record command_spec =
  cmd_executable :: string
  cmd_arguments :: "string list"
  cmd_working_directory :: string

record command_output =
  out_success :: bool
  out_exit_code :: "u32 option"
  out_stdout :: string
  out_stderr :: string

text \<open>What a spawned process does: the errors of the system calls, the end of its time, or its end
  with a status, a code and the bytes it wrote to its two pipes.\<close>

datatype process_run =
    SpawnFailed | NoProcessId | WaitFailed | ReadFailed | Running
  | Exited bool "u32 option" string string

definition max_command_output_bytes :: nat where
  "max_command_output_bytes = 1024 * 1024"

definition command_timeout_ms :: nat where
  "command_timeout_ms = 5 * 60 * 1000"

definition validate_executable :: "file_system \<Rightarrow> string \<Rightarrow> string + string" where
  "validate_executable fs path =
     and_then (ok_or (fs_canonicalize fs path) (''resolve command executable '' @ path)) (\<lambda>resolved.
     and_then (ok_or (fs_metadata fs resolved) (''inspect command executable '' @ resolved)) (\<lambda>(is_file, mode).
     if \<not> is_file \<or> mode AND 0x49 = 0
     then Inl ''command executable is not an executable regular file''
     else Inr path))"

definition trusted_roots :: "file_system \<Rightarrow> string list" where
  "trusted_roots fs = (case map_of (fs_variables fs) ''HOME'' of Some home \<Rightarrow> [path_join home ''.cargo/bin''] | None \<Rightarrow> []) @
     [''/opt/homebrew/bin'', ''/usr/local/bin'', ''/usr/bin'', ''/bin'', ''/usr/sbin'', ''/sbin'']"

definition resolve_executable :: "file_system \<Rightarrow> string \<Rightarrow> string + string" where
  "resolve_executable fs program =
     (if trim program \<noteq> program \<or> program = [] \<or> any_char is_control program
      then Inl ''command executable is invalid''
      else if path_is_absolute program then validate_executable fs program
      else if length (path_components program) \<noteq> 1
      then Inl ''relative command executable must be a basename''
      else case List.find (\<lambda>candidate. fs_metadata fs candidate \<noteq> None)
          (map (\<lambda>root. path_join root program) (trusted_roots fs)) of
        None \<Rightarrow> Inl ''command executable is not in the trusted tool paths''
      | Some candidate \<Rightarrow> validate_executable fs candidate)"

text \<open>The environment of a command: \<open>PATH\<close> from the trusted roots (\<open>env::join_paths\<close> fails on a colon)
  and the variables that are let through.\<close>

definition join_paths :: "string list \<Rightarrow> string option" where
  "join_paths paths = (if list_ex (\<lambda>p. CHR '':'' \<in> set p) paths then None
     else Some (concat (map (\<lambda>p. p @ '':'') (butlast paths)) @ last paths))"

definition passed_variables :: "string list" where
  "passed_variables = [''HOME'', ''CARGO_HOME'', ''RUSTUP_HOME'', ''TMPDIR'', ''DEVELOPER_DIR'', ''SDKROOT'',
     ''SSL_CERT_FILE'', ''SSL_CERT_DIR'', ''LANG'', ''LC_ALL'']"

definition verification_environment :: "file_system \<Rightarrow> (string \<times> string) list" where
  "verification_environment fs =
     (''PATH'', case join_paths (trusted_roots fs) of Some p \<Rightarrow> p | None \<Rightarrow> ''/usr/bin:/bin'') #
     concat (map (\<lambda>k. case map_of (fs_variables fs) k of Some v \<Rightarrow> [(k, v)] | None \<Rightarrow> []) passed_variables)"

definition read_bounded :: "string \<Rightarrow> string + string" where
  "read_bounded written = (let bytes = take (max_command_output_bytes + 1) written in
     if length bytes > max_command_output_bytes
     then Inl ''verification command output exceeded the byte limit'' else Inr bytes)"

definition run_command ::
  "file_system \<Rightarrow> (command_spec \<Rightarrow> (string \<times> string) list \<Rightarrow> process_run) \<Rightarrow> command_spec \<Rightarrow>
    string + command_output" where
  "run_command fs process spec =
     and_then (validate_executable fs (cmd_executable spec)) (\<lambda>executable.
     and_then (ok_or (fs_canonicalize fs (cmd_working_directory spec))
       ''canonicalize command working directory'') (\<lambda>directory.
     case process (spec\<lparr>cmd_executable := executable, cmd_working_directory := directory\<rparr>)
       (verification_environment fs) of
       SpawnFailed \<Rightarrow> Inl ''start verification command''
     | NoProcessId \<Rightarrow> Inl ''verification command has no process id''
     | WaitFailed \<Rightarrow> Inl ''wait for verification command''
     | ReadFailed \<Rightarrow> Inl ''read verification command output''
     | Running \<Rightarrow> Inl (''command timed out after '' @ decimal command_timeout_ms @ '' ms'')
     | Exited success code out err \<Rightarrow>
         and_then (read_bounded out) (\<lambda>out.
         and_then (read_bounded err) (\<lambda>err.
         Inr \<lparr>out_success = success, out_exit_code = code, out_stdout = out, out_stderr = err\<rparr>))))"

section \<open>Running the commands of a contract\<close>

record verify_env =
  vn_sha256_hex :: "string \<Rightarrow> string"
  vn_json_command :: "string \<times> string list \<Rightarrow> string"
  vn_resolving :: "nat \<Rightarrow> file_system"
  vn_running :: "nat \<Rightarrow> file_system"
  vn_process :: "nat \<Rightarrow> command_spec \<Rightarrow> (string \<times> string) list \<Rightarrow> process_run"
  vn_started :: "nat \<Rightarrow> timestamp"
  vn_completed :: "nat \<Rightarrow> timestamp"
  vn_others :: "nat \<Rightarrow> store \<Rightarrow> store"
  vn_git_before :: planning_env
  vn_git_after :: planning_env

datatype verification_error =
    VerTaskMissing | VerContractMissing | EmptyVerificationPlan | VerInvalidState task_state
  | DirtyWorktree | CommandFailed u32 | StaleResult | VerInternal

definition command_digest :: "verify_env \<Rightarrow> verification_command \<Rightarrow> string" where
  "command_digest env c = vn_sha256_hex env (vn_json_command env (vc_program c, vc_args c))"

definition failed_evidence :: "verify_env \<Rightarrow> uuid \<Rightarrow> uuid \<Rightarrow> nat \<Rightarrow> u32 \<Rightarrow> verification_command \<Rightarrow> string \<Rightarrow>
    string \<Rightarrow> verification_evidence" where
  "failed_evidence env run_id i k ordinal c failure_kind error = \<lparr>ve_run_id = run_id, ve_task_id = i,
     ve_ordinal = ordinal, ve_command_sha256 = command_digest env c, ve_program = vc_program c,
     ve_success = False, ve_exit_code = None, ve_stdout_sha256 = vn_sha256_hex env [],
     ve_stdout_bytes = 0, ve_stderr_sha256 = vn_sha256_hex env error,
     ve_stderr_bytes = of_nat (length error), ve_failure_kind = Some failure_kind,
     ve_started_at = vn_started env k, ve_completed_at = vn_completed env k\<rparr>"

definition output_evidence :: "verify_env \<Rightarrow> uuid \<Rightarrow> uuid \<Rightarrow> nat \<Rightarrow> u32 \<Rightarrow> verification_command \<Rightarrow>
    command_output \<Rightarrow> verification_evidence" where
  "output_evidence env run_id i k ordinal c out = \<lparr>ve_run_id = run_id, ve_task_id = i,
     ve_ordinal = ordinal, ve_command_sha256 = command_digest env c, ve_program = vc_program c,
     ve_success = out_success out, ve_exit_code = out_exit_code out,
     ve_stdout_sha256 = vn_sha256_hex env (out_stdout out), ve_stdout_bytes = of_nat (length (out_stdout out)),
     ve_stderr_sha256 = vn_sha256_hex env (out_stderr out), ve_stderr_bytes = of_nat (length (out_stderr out)),
     ve_failure_kind = (if \<not> out_success out then Some ''nonzeroExit'' else None),
     ve_started_at = vn_started env k, ve_completed_at = vn_completed env k\<rparr>"

definition failure_kind_of :: "string \<Rightarrow> string" where
  "failure_kind_of error = (if contains_sub ''timed out'' error then ''timeout''
     else if contains_sub ''byte limit'' error then ''outputLimit'' else ''runnerError'')"

text \<open>The evidence of the command number \<open>k\<close> and whether it passed.\<close>

definition run_one :: "verify_env \<Rightarrow> uuid \<Rightarrow> uuid \<Rightarrow> string \<Rightarrow> nat \<Rightarrow> u32 \<Rightarrow> verification_command \<Rightarrow>
    verification_evidence \<times> bool" where
  "run_one env run_id i worktree k ordinal c =
     (case resolve_executable (vn_resolving env k) (vc_program c) of
        Inl error \<Rightarrow> (failed_evidence env run_id i k ordinal c ''executableResolution'' error, False)
      | Inr executable \<Rightarrow>
          (case run_command (vn_running env k) (vn_process env k) \<lparr>cmd_executable = executable,
              cmd_arguments = vc_args c, cmd_working_directory = worktree\<rparr> of
             Inl error \<Rightarrow> (failed_evidence env run_id i k ordinal c (failure_kind_of error) error, False)
           | Inr out \<Rightarrow> (output_evidence env run_id i k ordinal c out, out_success out)))"

text \<open>The loop from the index \<open>k\<close> on; \<open>u32::try_from(index + 1)\<close> fails from \<open>2 ^ 32\<close> on.\<close>

fun run_commands :: "verify_env \<Rightarrow> uuid \<Rightarrow> uuid \<Rightarrow> string \<Rightarrow> nat \<Rightarrow> verification_command list \<Rightarrow> store \<Rightarrow>
    store \<times> (verification_error + unit)" where
  "run_commands env run_id i worktree k [] s = (s, Inr ())"
| "run_commands env run_id i worktree k (c # cs) s =
     (if 2 ^ 32 \<le> k + 1 then (s, Inl VerInternal)
      else let (evidence, passed) = run_one env run_id i worktree k (of_nat (k + 1)) c in
        then_do (transact (\<lambda>_. VerInternal) (save_verification_evidence evidence) (vn_others env k s)) (\<lambda>_ s.
        if \<not> passed then (s, Inl (CommandFailed (of_nat (k + 1))))
        else run_commands env run_id i worktree (k + 1) cs s))"

section \<open>Verification of a task\<close>

text \<open>\<open>task.transition(next)?\<close> and the save that follows it.\<close>

definition advance_task :: "timestamp \<Rightarrow> task_state \<Rightarrow> string \<Rightarrow> task \<Rightarrow> store \<Rightarrow>
    store \<times> (verification_error + task)" where
  "advance_task now to_state summary t s = (case transition now to_state t of
       Inl _ \<Rightarrow> (s, Inl VerInternal)
     | Inr t' \<Rightarrow> (save_task t' summary s, Inr t'))"

text \<open>The first locked section: the task on its way to \<open>Verifying\<close>, with its contract.\<close>

definition begin_verification :: "timestamp \<Rightarrow> uuid \<Rightarrow> store \<Rightarrow>
    store \<times> (verification_error + task + task \<times> task_contract)" where
  "begin_verification now i s = (case load_task i s of
       None \<Rightarrow> (s, Inl VerTaskMissing)
     | Some t \<Rightarrow>
         if task_state t = AwaitingDeliveryApproval then (s, Inr (Inl t))
         else
         then_do (if task_state t = Preparing then advance_task now Implementing
             ''Prepared worktree was explicitly submitted for verification'' t s else (s, Inr t)) (\<lambda>t s.
         then_do (if task_state t = Implementing then advance_task now Verifying
             ''Implementation submitted for verification'' t s else (s, Inr t)) (\<lambda>t s.
         if task_state t \<noteq> Verifying then (s, Inl (VerInvalidState (task_state t)))
         else case load_task_contract i s of
           Inl _ \<Rightarrow> (s, Inl VerInternal)
         | Inr None \<Rightarrow> (s, Inl VerContractMissing)
         | Inr (Some contract) \<Rightarrow>
             if tc_verification_commands contract = [] then (s, Inl EmptyVerificationPlan)
             else (s, Inr (Inr (t, contract))))))"

text \<open>The last locked section: the task must be the one that was verified.\<close>

definition finish_verification :: "timestamp \<Rightarrow> uuid \<Rightarrow> uuid \<Rightarrow> task \<Rightarrow> store \<Rightarrow>
    store \<times> (verification_error + task)" where
  "finish_verification now fresh i t s =
     (if load_task i s \<noteq> Some t then (s, Inl StaleResult)
      else
      then_do (advance_task now Reviewing ''Contract verification commands passed at the captured commit'' t s) (\<lambda>t s.
      case transition now AwaitingDeliveryApproval t of
        Inl _ \<Rightarrow> (s, Inl VerInternal)
      | Inr t \<Rightarrow> (case task_checkpoint_new fresh now (task_id t) (task_state t)
            ''Verified commit is awaiting exact GitHub delivery approval'' of
            Inl _ \<Rightarrow> (s, Inl VerInternal)
          | Inr checkpoint \<Rightarrow> let t = t\<lparr>task_checkpoint_id := Some (cp_id checkpoint)\<rparr> in
              then_do (transact (\<lambda>_. VerInternal) (save_task_with_checkpoint t
                ''Task is ready for approval-bound GitHub delivery'' checkpoint) s) (\<lambda>_ s. (s, Inr t)))))"

text \<open>The whole operation: \<open>start\<close> and \<open>finish\<close> are the clocks of the locked sections, \<open>run_id\<close> and
  \<open>fresh\<close> the identifiers it draws.\<close>

definition verify_task_for_delivery :: "verify_env \<Rightarrow> timestamp \<Rightarrow> timestamp \<Rightarrow> uuid \<Rightarrow> uuid \<Rightarrow> uuid \<Rightarrow> store \<Rightarrow>
    store \<times> (verification_error + task)" where
  "verify_task_for_delivery env start finish run_id fresh i s =
     then_do (begin_verification start i s) (\<lambda>r s. case r of
       Inl t \<Rightarrow> (s, Inr t)
     | Inr (t, contract) \<Rightarrow>
         (case inspect (vn_git_before env) (task_repository_path t) of
            Inl _ \<Rightarrow> (s, Inl VerInternal)
          | Inr before \<Rightarrow>
              if ri_dirty before then (s, Inl DirtyWorktree)
              else
              then_do (run_commands env run_id i (task_repository_path t) 0
                (tc_verification_commands contract) s) (\<lambda>_ s.
              case inspect (vn_git_after env) (task_repository_path t) of
                Inl _ \<Rightarrow> (s, Inl VerInternal)
              | Inr after \<Rightarrow>
                  if ri_dirty after \<or> ri_head_sha after \<noteq> ri_head_sha before then (s, Inl StaleResult)
                  else finish_verification finish fresh i t
                    (vn_others env (length (tc_verification_commands contract)) s))))"

section \<open>The evidence of a run\<close>

text \<open>
  What the other clients leave alone: the evidence under the run's own identifier, which is fresh
  (rows of evidence are only ever inserted, under the identifier of their run).
\<close>

definition undisturbed :: "verify_env \<Rightarrow> uuid \<Rightarrow> uuid \<Rightarrow> bool" where
  "undisturbed env run_id i \<longleftrightarrow> (\<forall>k s ordinal. find_row (i, run_id, ordinal) (st_evidence (vn_others env k s)) =
     find_row (i, run_id, ordinal) (st_evidence s))"

definition evidence_of :: "verify_env \<Rightarrow> uuid \<Rightarrow> uuid \<Rightarrow> string \<Rightarrow> nat \<Rightarrow> verification_command \<Rightarrow> verification_evidence" where
  "evidence_of env run_id i worktree k c = fst (run_one env run_id i worktree k (of_nat (k + 1)) c)"

definition passes :: "verify_env \<Rightarrow> uuid \<Rightarrow> uuid \<Rightarrow> string \<Rightarrow> nat \<Rightarrow> verification_command \<Rightarrow> bool" where
  "passes env run_id i worktree k c = snd (run_one env run_id i worktree k (of_nat (k + 1)) c)"

lemma run_one_key:
  "ve_task_id (evidence_of env r i w k c) = i" "ve_run_id (evidence_of env r i w k c) = r"
  "ve_ordinal (evidence_of env r i w k c) = of_nat (k + 1)"
  "ve_success (evidence_of env r i w k c) = passes env r i w k c"
  by (auto simp: evidence_of_def passes_def run_one_def failed_evidence_def output_evidence_def split: sum.splits)

lemma save_evidence_ok [result_simps]:
  "save_verification_evidence e s = Inr s' \<longleftrightarrow> \<not> has_row (ve_task_id e, ve_run_id e, ve_ordinal e) (st_evidence s) \<and>
     s' = s\<lparr>st_evidence := st_evidence s @ [((ve_task_id e, ve_run_id e, ve_ordinal e), e)]\<rparr>"
  by (auto simp: save_verification_evidence_def result_simps)

lemma run_commands_Cons:
  "run_commands env r i w k (c # cs) s =
     (if 2 ^ 32 \<le> k + 1 then (s, Inl VerInternal)
      else then_do (transact (\<lambda>_. VerInternal) (save_verification_evidence (evidence_of env r i w k c)) (vn_others env k s))
        (\<lambda>_ s. if passes env r i w k c then run_commands env r i w (k + 1) cs s
          else (s, Inl (CommandFailed (of_nat (k + 1))))))"
  by (simp add: evidence_of_def passes_def split_def Let_def del: of_nat_Suc of_nat_add) (intro impI arg_cong2 [where f = then_do] refl ext; simp)

declare run_commands.simps(2) [simp del]

text \<open>A run that succeeds: every command passed.\<close>

lemma run_commands_passed:
  "run_commands env r i w k cs s = (s', Inr ()) \<Longrightarrow> j < length cs \<Longrightarrow> passes env r i w (k + j) (cs ! j)"
proof (induction cs arbitrary: k s j)
  case Nil
  then show ?case by simp
next
  case (Cons c cs)
  then obtain s1 where p: "passes env r i w k c" and r: "run_commands env r i w (k + 1) cs s1 = (s', Inr ())"
    by (auto simp: run_commands_Cons result_simps split: if_splits)
  show ?case
  proof (cases j)
    case 0
    then show ?thesis using p by simp
  next
    case (Suc j')
    then show ?thesis using Cons.IH [OF r, of j'] Cons.prems(2) by simp
  qed
qed

text \<open>The rows a run leaves stay what they are.\<close>

lemma run_commands_keeps:
  assumes u: "undisturbed env r i"
  shows "run_commands env r i w k cs s = (s', res) \<Longrightarrow> find_row (i, r, ordinal) (st_evidence s) = Some e \<Longrightarrow>
    find_row (i, r, ordinal) (st_evidence s') = Some e"
proof (induction cs arbitrary: k s)
  case Nil
  then show ?case by simp
next
  case (Cons c cs)
  have o: "find_row (i, r, ordinal) (st_evidence (vn_others env k s)) = Some e"
    using u Cons.prems(2) by (simp add: undisturbed_def)
  show ?case
  proof (cases "2 ^ 32 \<le> k + 1 \<or>
      \<not> is_ok (save_verification_evidence (evidence_of env r i w k c) (vn_others env k s))")
    case True
    then show ?thesis using Cons.prems o
      by (cases "save_verification_evidence (evidence_of env r i w k c) (vn_others env k s)")
        (auto simp: run_commands_Cons transact_def split: if_splits)
  next
    case False
    then obtain s1 where s1: "save_verification_evidence (evidence_of env r i w k c) (vn_others env k s) = Inr s1"
      by (auto simp: is_ok_iff)
    then have "find_row (i, r, ordinal) (st_evidence s1) = Some e"
      using o by (auto simp: save_evidence_ok find_row_append_new)
    then show ?thesis
      using Cons.IH [of "k + 1" s1] Cons.prems(1) False s1
      by (auto simp: run_commands_Cons transact_def split: if_splits)
  qed
qed

text \<open>A run under a fresh identifier: its outcome is decided by the first command that does not pass,
  and there is a row of evidence for every command up to it.\<close>

definition first_failure :: "verify_env \<Rightarrow> uuid \<Rightarrow> uuid \<Rightarrow> string \<Rightarrow> nat \<Rightarrow> verification_command list \<Rightarrow> nat" where
  "first_failure env r i w k cs = length (takeWhile (\<lambda>(j, c). passes env r i w j c) (enumerate k cs))"

lemma first_failure_simps [simp]:
  "first_failure env r i w k [] = 0"
  "first_failure env r i w k (c # cs) = (if passes env r i w k c then Suc (first_failure env r i w (Suc k) cs) else 0)"
  by (simp_all add: first_failure_def)

lemma of_nat_ordinal: "m < 2 ^ 32 \<Longrightarrow> unat (of_nat m :: u32) = m"
  by (simp add: unat_of_nat)

lemma run_commands_outcome:
  assumes u: "undisturbed env r i"
  shows "k + length cs < 2 ^ 32 \<Longrightarrow> (\<And>ordinal. has_row (i, r, ordinal) (st_evidence s) \<Longrightarrow> unat ordinal \<le> k) \<Longrightarrow>
    run_commands env r i w k cs s = (s', res) \<Longrightarrow>
    res = (let j = first_failure env r i w k cs in
      if j < length cs then Inl (CommandFailed (of_nat (k + j + 1))) else Inr ()) \<and>
    (\<forall>j. j < length cs \<and> j \<le> first_failure env r i w k cs \<longrightarrow>
      find_row (i, r, of_nat (k + j + 1)) (st_evidence s') = Some (evidence_of env r i w (k + j) (cs ! j)))"
proof (induction cs arbitrary: k s)
  case Nil
  then show ?case by simp
next
  case (Cons c cs)
  let ?e = "evidence_of env r i w k c" and ?o = "of_nat (k + 1) :: u32"
  let ?s1 = "(vn_others env k s)\<lparr>st_evidence := st_evidence (vn_others env k s) @ [((i, r, ?o), ?e)]\<rparr>"
  have k: "k + 1 < 2 ^ 32" using Cons.prems(1) by simp
  have rows: "has_row (i, r, ordinal) (st_evidence (vn_others env k s)) \<longleftrightarrow> has_row (i, r, ordinal) (st_evidence s)" for ordinal
    using u by (simp add: has_row_def undisturbed_def)
  have new: "\<not> has_row (i, r, ?o) (st_evidence (vn_others env k s))"
    using Cons.prems(2) [of ?o] of_nat_ordinal [OF k] rows by fastforce
  then have saved: "save_verification_evidence ?e (vn_others env k s) = Inr ?s1"
    by (simp add: save_evidence_ok run_one_key del: of_nat_Suc of_nat_add)
  have row: "find_row (i, r, ?o) (st_evidence ?s1) = Some ?e"
    using new by (simp add: find_row_append_new has_row_def)
  have step: "run_commands env r i w k (c # cs) s = (if passes env r i w k c
      then run_commands env r i w (k + 1) cs ?s1 else (?s1, Inl (CommandFailed ?o)))"
    using k saved by (simp add: run_commands_Cons transact_def del: of_nat_Suc of_nat_add)
  show ?case
  proof (cases "passes env r i w k c")
    case False
    then have e: "s' = ?s1" "res = Inl (CommandFailed ?o)" using step Cons.prems(3) by auto
    show ?thesis using False row unfolding e by simp
  next
    case True
    then have run: "run_commands env r i w (k + 1) cs ?s1 = (s', res)" using step Cons.prems(3) by simp
    have old: "unat ordinal \<le> k + 1" if h: "has_row (i, r, ordinal) (st_evidence ?s1)" for ordinal
    proof (cases "ordinal = ?o")
      case True
      then show ?thesis using of_nat_ordinal [OF k] by simp
    next
      case False
      then show ?thesis using h Cons.prems(2) [of ordinal] rows [of ordinal] by auto
    qed
    have l: "k + 1 + length cs < 2 ^ 32" using Cons.prems(1) by simp
    note IH = Cons.IH [OF l old run]
    have first: "find_row (i, r, of_nat (k + 0 + 1)) (st_evidence s') = Some (evidence_of env r i w (k + 0) ((c # cs) ! 0))"
      using run_commands_keeps [OF u run row] by simp
    have "find_row (i, r, of_nat (k + j + 1)) (st_evidence s') = Some (evidence_of env r i w (k + j) ((c # cs) ! j))"
      if "j < length (c # cs) \<and> j \<le> first_failure env r i w k (c # cs)" for j
    proof (cases j)
      case 0
      then show ?thesis using first by simp
    next
      case (Suc j')
      then have "find_row (i, r, of_nat (k + 1 + j' + 1)) (st_evidence s') = Some (evidence_of env r i w (k + 1 + j') (cs ! j'))"
        using that True conjunct2 [OF IH, rule_format, of j'] by simp
      then show ?thesis using Suc by simp
    qed
    then show ?thesis using conjunct1 [OF IH] True by (simp add: Let_def)
  qed
qed

section \<open>What the operation does\<close>

lemma advance_task_ok [result_simps]:
  "advance_task now st m t s = (s', Inr t') \<longleftrightarrow> permits (task_state t) st \<and>
     t' = t\<lparr>task_state := st, task_updated_at := now\<rparr> \<and> s' = record_task t' m s"
  by (auto simp: advance_task_def result_simps save_task_def transition_def)

text \<open>The task a verification works on, and the contract: the row of the task is left in \<open>Verifying\<close>.\<close>

lemma begin_verification_ok:
  assumes "begin_verification now i s = (s', Inr r)"
  obtains (ready) t where "r = Inl t" "load_task i s = Some t" "task_state t = AwaitingDeliveryApproval" "s' = s"
  | (work) t0 t contract where "r = Inr (t, contract)" "load_task i s = Some t0"
      "task_state t0 \<in> {Preparing, Implementing, Verifying}" "task_state t = Verifying"
      "task_id t = task_id t0" "task_repository_path t = task_repository_path t0"
      "load_task_contract i s = Inr (Some contract)" "tc_verification_commands contract \<noteq> []"
      "st_evidence s' = st_evidence s"
proof -
  obtain t0 where t0: "load_task i s = Some t0"
    using assms by (auto simp: begin_verification_def split: option.splits)
  show thesis
  proof (cases "task_state t0 = AwaitingDeliveryApproval")
    case True
    then show ?thesis using assms t0 by (intro ready) (auto simp: begin_verification_def)
  next
    case False
    then obtain t1 s1 t s2 where
      one: "(if task_state t0 = Preparing then advance_task now Implementing
        ''Prepared worktree was explicitly submitted for verification'' t0 s else (s, Inr t0)) = (s1, Inr t1)"
      and two: "(if task_state t1 = Implementing then advance_task now Verifying
        ''Implementation submitted for verification'' t1 s1 else (s1, Inr t1)) = (s2, Inr t)"
      and rest: "(if task_state t \<noteq> Verifying then (s2, Inl (VerInvalidState (task_state t)))
         else case load_task_contract i s2 of
           Inl _ \<Rightarrow> (s2, Inl VerInternal)
         | Inr None \<Rightarrow> (s2, Inl VerContractMissing)
         | Inr (Some contract) \<Rightarrow>
             if tc_verification_commands contract = [] then (s2, Inl EmptyVerificationPlan)
             else (s2, Inr (Inr (t, contract)))) = (s', Inr r)"
      using assms t0 unfolding begin_verification_def by (auto simp del: advance_task_ok simp: then_do_ok)
    have s1: "task_state t1 \<in> {task_state t0, Implementing}" "task_id t1 = task_id t0"
      "task_repository_path t1 = task_repository_path t0" "st_contracts s1 = st_contracts s" "st_evidence s1 = st_evidence s"
      using one by (auto simp: result_simps split: if_splits)
    have s2: "task_state t \<in> {task_state t1, Verifying}" "task_id t = task_id t1"
      "task_repository_path t = task_repository_path t1" "st_contracts s2 = st_contracts s1" "st_evidence s2 = st_evidence s1"
      using two by (auto simp: result_simps split: if_splits)
    have v: "task_state t = Verifying" using rest by (auto split: if_splits)
    obtain contract where c: "load_task_contract i s2 = Inr (Some contract)" "tc_verification_commands contract \<noteq> []"
      "r = Inr (t, contract)" "s' = s2"
      using rest v by (auto split: sum.splits option.splits if_splits)
    have "task_state t0 \<in> {Preparing, Implementing, Verifying}"
      using one two v by (auto simp: result_simps split: if_splits)
    moreover have "load_task_contract i s = Inr (Some contract)"
      using c(1) s1(4) s2(4) by (simp add: load_task_contract_def)
    ultimately show ?thesis using s1 s2 c v t0 by (intro work [of t contract t0]) auto
  qed
qed

lemma checkpoint_new_fields:
  "task_checkpoint_new fresh now i st m = Inr c \<Longrightarrow> cp_id c = fresh \<and> cp_task_id c = i \<and> cp_state c = st"
  by (auto simp: task_checkpoint_new_def result_simps)

lemma finish_verification_ok:
  assumes "finish_verification now fresh i t s = (s', Inr t')"
  shows "load_task i s = Some t \<and> task_state t' = AwaitingDeliveryApproval \<and> task_id t' = task_id t \<and>
    task_checkpoint_id t' = Some fresh \<and> load_task (task_id t) s' = Some t' \<and> st_evidence s' = st_evidence s"
  using assms
  by (auto simp: finish_verification_def result_simps save_task_with_checkpoint_def insert_checkpoint_def
      Let_def dest: checkpoint_new_fields split: if_splits sum.splits)

end
