(* ===== verification/Worktrees.thy ===== *)
theory Worktrees
  imports Planning
begin

text \<open>
  \<open>crates/patchwright-engine/src/worktree.rs\<close>: cloning a managed repository, pushing the branch of a
  task and creating its worktree. The commands that carry the installation token are values here
  (\<open>invocation\<close>: the arguments and the whole environment of the git process), so that what they
  expose can be stated. The file system, git and the environment of the engine are the fields of
  \<open>git_world\<close>; texts of errors are not modelled, but their kinds are.
\<close>

section \<open>Git as a process\<close>

text \<open>An environment: the last binding of a key wins.\<close>

type_synonym environment = "(string \<times> string) list"

definition env_set :: "string \<Rightarrow> string \<Rightarrow> environment \<Rightarrow> environment" where
  "env_set k v e = filter (\<lambda>(k', _). k' \<noteq> k) e @ [(k, v)]"

definition env_remove :: "string \<Rightarrow> environment \<Rightarrow> environment" where
  "env_remove k e = filter (\<lambda>(k', _). k' \<noteq> k) e"

record invocation =
  inv_arguments :: "string list"
  inv_environment :: environment

text \<open>The askpass helper on disk: absent, or a file that may be a link, with its content when it can
  be read.\<close>

datatype askpass_state = NoAskpass | AskpassFile bool "string option"

record git_world =
  gw_exists :: "string \<Rightarrow> bool"
  gw_make_parent :: "string \<Rightarrow> bool"
  gw_make_dir :: "string \<Rightarrow> bool"
  gw_askpass :: "string \<Rightarrow> askpass_state"
  gw_create_file :: "string \<Rightarrow> string \<Rightarrow> bool"
  gw_restrict :: "string \<Rightarrow> bool"
  gw_environment :: environment
  gw_run :: "invocation \<Rightarrow> bool option"
  gw_git :: planning_env

datatype worktree_error =
    EmptyToken | CloneUrlMismatch | DestinationExists | NoParent | ParentFailed | AskpassFailed
  | AskpassUntrusted | GitNotStarted | GitFailed | InvalidBranch | InvalidExpectedHead
  | InspectionFailed | WorktreeDirty | HeadChanged | OriginMismatch | InvalidStartPoint

definition newline :: string where
  "newline = [CHR 0x0A]"

definition askpass_script :: string where
  "askpass_script = ''#!/bin/sh'' @ newline @ ''case \"$1\" in'' @ newline @
     ''  *Username*) exec /usr/bin/printf '' @ [CHR 0x27] @ ''%s'' @ [CHR 0x5C] @ ''n'' @ [CHR 0x27] @ '' \"$PATCHWRIGHT_GIT_USERNAME\" ;;'' @ newline @
     ''  *) exec /usr/bin/printf '' @ [CHR 0x27] @ ''%s'' @ [CHR 0x5C] @ ''n'' @ [CHR 0x27] @ '' \"$PATCHWRIGHT_GIT_TOKEN\" ;;'' @ newline @
     ''esac'' @ newline"

text \<open>\<open>isolated_credential_git_command\<close>: no hooks, no credential helper, no extra header, and none of
  the configuration that git takes from its environment.\<close>

definition isolated_arguments :: "string list" where
  "isolated_arguments = [''-c'', ''core.hooksPath=/dev/null'', ''-c'', ''credential.helper='', ''-c'', ''http.extraHeader='']"

definition isolated_environment :: "environment \<Rightarrow> environment" where
  "isolated_environment e =
     env_remove ''GIT_TEMPLATE_DIR''
       (env_set ''GIT_ATTR_NOSYSTEM'' ''1''
       (env_set ''GIT_CONFIG_GLOBAL'' ''/dev/null''
       (env_set ''GIT_CONFIG_NOSYSTEM'' ''1''
       (filter (\<lambda>(k, _). \<not> (starts_with ''GIT_CONFIG_'' k \<or> k = ''GIT_CONFIG_PARAMETERS'')) e))))"

definition credential_environment :: "string \<Rightarrow> string \<Rightarrow> environment \<Rightarrow> environment" where
  "credential_environment askpass token e =
     env_set ''PATCHWRIGHT_GIT_TOKEN'' token
       (env_set ''PATCHWRIGHT_GIT_USERNAME'' ''x-access-token''
       (env_set ''GIT_TERMINAL_PROMPT'' ''0''
       (env_set ''GIT_ASKPASS_REQUIRE'' ''force''
       (env_set ''GIT_ASKPASS'' askpass (isolated_environment e)))))"

definition prepare_askpass :: "git_world \<Rightarrow> string \<Rightarrow> worktree_error + string" where
  "prepare_askpass w state_root =
     and_then (ensure (gw_make_dir w state_root) AskpassFailed) (\<lambda>_.
     let path = path_join state_root ''git-askpass.sh'' in
     and_then (case gw_askpass w path of
         NoAskpass \<Rightarrow> ensure (gw_create_file w path askpass_script) AskpassFailed
       | AskpassFile symlink content \<Rightarrow>
           if symlink then Inl AskpassUntrusted
           else and_then (ok_or content AskpassFailed) (\<lambda>content.
             ensure (content = askpass_script) AskpassUntrusted)) (\<lambda>_.
     and_then (ensure (gw_restrict w path) AskpassFailed) (\<lambda>_. Inr path)))"

definition finish_git :: "bool option \<Rightarrow> worktree_error + unit" where
  "finish_git r = (case r of None \<Rightarrow> Inl GitNotStarted | Some False \<Rightarrow> Inl GitFailed | Some True \<Rightarrow> Inr ())"

text \<open>\<open>Path::parent\<close> is \<open>None\<close> for the root and for the empty path.\<close>

definition has_parent :: "string \<Rightarrow> bool" where
  "has_parent path \<longleftrightarrow> path_components path \<noteq> [] \<and> last (path_components path) \<noteq> RootDir"

section \<open>Clone, push and worktree\<close>

text \<open>Each operation gives the git process it would start with the token, once its checks passed.\<close>

definition clone_invocation ::
  "git_world \<Rightarrow> string \<Rightarrow> string \<Rightarrow> string \<Rightarrow> string \<Rightarrow> string \<Rightarrow> worktree_error + invocation" where
  "clone_invocation w clone_url full_name destination state_root token =
     and_then (ensure (token \<noteq> []) EmptyToken) (\<lambda>_.
     and_then (ensure (clone_url = ''https://github.com/'' @ full_name @ ''.git'') CloneUrlMismatch) (\<lambda>_.
     and_then (ensure (\<not> gw_exists w destination) DestinationExists) (\<lambda>_.
     and_then (ensure (has_parent destination) NoParent) (\<lambda>_.
     and_then (ensure (gw_make_parent w destination) ParentFailed) (\<lambda>_.
     and_then (prepare_askpass w state_root) (\<lambda>askpass.
     Inr \<lparr>inv_arguments = isolated_arguments @ [''clone'', ''--no-checkout'', ''--origin'', ''origin'', clone_url, destination],
       inv_environment = credential_environment askpass token (gw_environment w)\<rparr>))))))"

definition clone_repository ::
  "git_world \<Rightarrow> string \<Rightarrow> string \<Rightarrow> string \<Rightarrow> string \<Rightarrow> string \<Rightarrow> worktree_error + unit" where
  "clone_repository w clone_url full_name destination state_root token =
     and_then (clone_invocation w clone_url full_name destination state_root token)
       (\<lambda>i. finish_git (gw_run w i))"

definition invalid_branch :: "string \<Rightarrow> bool" where
  "invalid_branch branch \<longleftrightarrow> trim branch = [] \<or> starts_with ''-'' branch \<or> any_char is_whitespace branch"

definition is_sha1_hex :: "string \<Rightarrow> bool" where
  "is_sha1_hex v \<longleftrightarrow> length v = 40 \<and> list_all is_ascii_hexdigit v"

definition push_invocation ::
  "git_world \<Rightarrow> string \<Rightarrow> string \<Rightarrow> string \<Rightarrow> string \<Rightarrow> string \<Rightarrow> string \<Rightarrow> worktree_error + invocation" where
  "push_invocation w repository branch expected_head_sha expected_origin_url state_root token =
     and_then (ensure (\<not> invalid_branch branch) InvalidBranch) (\<lambda>_.
     and_then (ensure (is_sha1_hex expected_head_sha) InvalidExpectedHead) (\<lambda>_.
     and_then (map_err (\<lambda>_. InspectionFailed) (inspect (gw_git w) repository)) (\<lambda>inspection.
     and_then (ensure (\<not> ri_dirty inspection) WorktreeDirty) (\<lambda>_.
     and_then (ensure (ri_head_sha inspection = expected_head_sha) HeadChanged) (\<lambda>_.
     and_then (case git (gw_git w) repository [''remote'', ''get-url'', ''origin''] of
         GitUnavailable \<Rightarrow> Inl GitNotStarted
       | GitExit success out \<Rightarrow> ensure (success \<and> trim out = expected_origin_url) OriginMismatch) (\<lambda>_.
     and_then (prepare_askpass w state_root) (\<lambda>askpass.
     Inr \<lparr>inv_arguments = isolated_arguments @ [''-C'', repository, ''push'', ''--no-verify'', ''origin'',
         ''HEAD:refs/heads/'' @ branch],
       inv_environment = credential_environment askpass token (gw_environment w)\<rparr>)))))))"

definition push_branch ::
  "git_world \<Rightarrow> string \<Rightarrow> string \<Rightarrow> string \<Rightarrow> string \<Rightarrow> string \<Rightarrow> string \<Rightarrow> worktree_error + unit" where
  "push_branch w repository branch expected_head_sha expected_origin_url state_root token =
     and_then (push_invocation w repository branch expected_head_sha expected_origin_url state_root token)
       (\<lambda>i. finish_git (gw_run w i))"

definition worktree_invocation ::
  "git_world \<Rightarrow> string \<Rightarrow> string \<Rightarrow> string \<Rightarrow> string option \<Rightarrow> worktree_error + invocation" where
  "worktree_invocation w repository destination branch start_point =
     and_then (ensure (\<not> invalid_branch branch) InvalidBranch) (\<lambda>_.
     and_then (ensure (\<not> gw_exists w destination) DestinationExists) (\<lambda>_.
     and_then (ensure (has_parent destination \<longrightarrow> gw_make_parent w destination) ParentFailed) (\<lambda>_.
     and_then (case start_point of Some p \<Rightarrow> ensure (is_sha1_hex p) InvalidStartPoint | None \<Rightarrow> Inr ()) (\<lambda>_.
     Inr \<lparr>inv_arguments = [''-C'', repository, ''worktree'', ''add'', ''-b'', branch, destination] @
         (case start_point of Some p \<Rightarrow> [p] | None \<Rightarrow> []),
       inv_environment = gw_environment w\<rparr>))))"

definition prepare_at ::
  "git_world \<Rightarrow> string \<Rightarrow> string \<Rightarrow> string \<Rightarrow> string option \<Rightarrow> worktree_error + unit" where
  "prepare_at w repository destination branch start_point =
     and_then (worktree_invocation w repository destination branch start_point)
       (\<lambda>i. finish_git (gw_run w i))"

section \<open>What the commands expose\<close>

lemma env_set_get [simp]: "map_of (env_set k v e) k' = (if k' = k then Some v else map_of e k')"
proof (induction e)
  case Nil
  then show ?case by (simp add: env_set_def)
next
  case (Cons p e)
  then show ?case by (cases p) (auto simp: env_set_def)
qed

lemma env_remove_get [simp]: "map_of (env_remove k e) k' = (if k' = k then None else map_of e k')"
  by (induction e) (auto simp: env_remove_def)

lemma env_filter_get: "map_of (filter (\<lambda>(k, _). P k) e) k = (if P k then map_of e k else None)"
  by (induction e) auto

text \<open>What git sees of its own configuration variables: the three the code sets.\<close>

lemma credential_environment_config:
  assumes "starts_with ''GIT_CONFIG_'' k"
  shows "map_of (credential_environment askpass token e) k =
    (if k = ''GIT_CONFIG_GLOBAL'' then Some ''/dev/null'' else if k = ''GIT_CONFIG_NOSYSTEM'' then Some ''1'' else None)"
proof -
  have "map_of (filter (\<lambda>(k, _). \<not> (starts_with ''GIT_CONFIG_'' k \<or> k = ''GIT_CONFIG_PARAMETERS'')) e) k = None"
    using assms by (simp add: env_filter_get)
  moreover have "k \<noteq> m" if "take 11 m \<noteq> ''GIT_CONFIG_''" for m
    using assms that by (auto simp: starts_with_def numeral_eq_Suc)
  then have "k \<noteq> ''GIT_ATTR_NOSYSTEM''" "k \<noteq> ''GIT_ASKPASS''" "k \<noteq> ''GIT_ASKPASS_REQUIRE''"
    "k \<noteq> ''GIT_TERMINAL_PROMPT''" "k \<noteq> ''PATCHWRIGHT_GIT_USERNAME''" "k \<noteq> ''PATCHWRIGHT_GIT_TOKEN''"
    "k \<noteq> ''GIT_TEMPLATE_DIR''"
    by simp_all
  ultimately show ?thesis
    unfolding credential_environment_def isolated_environment_def env_set_get env_remove_get
    by (simp only: if_False if_cancel cong: if_cong)
qed

lemma credential_environment_token:
  "map_of (credential_environment askpass token e) ''PATCHWRIGHT_GIT_TOKEN'' = Some token"
  "map_of (credential_environment askpass token e) ''GIT_ASKPASS'' = Some askpass"
  by (simp_all add: credential_environment_def)

lemma prepare_askpass_ok:
  assumes "prepare_askpass w root = Inr path"
  shows "path = path_join root ''git-askpass.sh'' \<and>
    (gw_askpass w path = NoAskpass \<and> gw_create_file w path askpass_script \<or>
     gw_askpass w path = AskpassFile False (Some askpass_script))"
  using assms by (auto simp: prepare_askpass_def result_simps Let_def split: askpass_state.splits if_splits)

lemma push_invocation_ok:
  "push_invocation w repository branch sha origin root token = Inr i \<Longrightarrow>
    (\<exists>inspection askpass out. \<not> invalid_branch branch \<and> is_sha1_hex sha \<and>
       inspect (gw_git w) repository = Inr inspection \<and> \<not> ri_dirty inspection \<and> ri_head_sha inspection = sha \<and>
       git (gw_git w) repository [''remote'', ''get-url'', ''origin''] = GitExit True out \<and> trim out = origin \<and>
       prepare_askpass w root = Inr askpass \<and>
       i = \<lparr>inv_arguments = isolated_arguments @ [''-C'', repository, ''push'', ''--no-verify'', ''origin'',
           ''HEAD:refs/heads/'' @ branch],
         inv_environment = credential_environment askpass token (gw_environment w)\<rparr>)"
  unfolding push_invocation_def
  by (auto simp: result_simps split: git_result.splits)

lemma clone_invocation_ok:
  "clone_invocation w url full_name destination root token = Inr i \<Longrightarrow>
    (\<exists>askpass. token \<noteq> [] \<and> url = ''https://github.com/'' @ full_name @ ''.git'' \<and>
       \<not> gw_exists w destination \<and> prepare_askpass w root = Inr askpass \<and>
       i = \<lparr>inv_arguments = isolated_arguments @ [''clone'', ''--no-checkout'', ''--origin'', ''origin'', url, destination],
         inv_environment = credential_environment askpass token (gw_environment w)\<rparr>)"
  unfolding clone_invocation_def by (auto simp: result_simps)

lemma finish_git_ok: "finish_git r = Inr u \<longleftrightarrow> r = Some True"
  by (simp add: finish_git_def split: option.split bool.split)

lemma invocation_of_push:
  "push_branch w repository branch sha origin root token = Inr () \<longleftrightarrow>
     (\<exists>i. push_invocation w repository branch sha origin root token = Inr i \<and> gw_run w i = Some True)"
  unfolding push_branch_def and_then_eq_Inr finish_git_ok ..

end
