(* ===== verification/Rpc_Tasks.thy ===== *)
theory Rpc_Tasks
  imports Preparation Verification Worktrees Json
begin

text \<open>
  The handlers of tasks in \<open>crates/patchwright-engine/src/rpc.rs\<close>: creation, planning, preparation
  and verification. A handler gives the store it leaves and the reply. Where the code releases the
  lock of the store, what the other clients do meanwhile is an argument (\<open>others\<close>), and so are the
  installation token, git and the file system.
\<close>

type_synonym 'a reply = "store \<times> (rpc_error + 'a)"

section \<open>Creation and reading\<close>

definition create_task :: "uuid \<Rightarrow> timestamp \<Rightarrow> json \<Rightarrow> store \<Rightarrow> task reply" where
  "create_task fresh now params s =
     (case new_task fresh now (text_or_empty params ''title'') (text_or_empty params ''repositoryPath'') of
        Inl _ \<Rightarrow> (s, Inl invalid_parameters)
      | Inr t \<Rightarrow> (save_task t ''task created'' s, Inr t))"

definition list_tasks :: "store \<Rightarrow> task list" where
  "list_tasks s = tasks s"

definition task_timeline :: "(string \<Rightarrow> uuid option) \<Rightarrow> json \<Rightarrow> store \<Rightarrow> rpc_error + task list" where
  "task_timeline parse_uuid params s =
     and_then (ok_or (required_task_id parse_uuid params) invalid_parameters) (\<lambda>i. Inr (timeline i s))"

definition task_worktree :: "(string \<Rightarrow> uuid option) \<Rightarrow> planning_env \<Rightarrow> json \<Rightarrow> store \<Rightarrow>
    rpc_error + repository_inspection" where
  "task_worktree parse_uuid git_env params s =
     and_then (ok_or (required_task_id parse_uuid params) invalid_parameters) (\<lambda>i.
     and_then (ok_or (load_task i s) (RpcError (- 32040) ''task is missing'')) (\<lambda>t.
     map_err (\<lambda>_. RpcError (- 32044) ''task worktree is unavailable'')
       (inspect git_env (task_repository_path t))))"

definition task_contract_reply :: "(string \<Rightarrow> uuid option) \<Rightarrow> json \<Rightarrow> store \<Rightarrow>
    rpc_error + task_contract_snapshot" where
  "task_contract_reply parse_uuid params s =
     and_then (ok_or (required_task_id parse_uuid params) invalid_parameters) (\<lambda>i.
     and_then (map_err (\<lambda>_. persistence_failure) (load_task_contract_snapshot i s)) (\<lambda>c.
     ok_or c (RpcError (- 32045) ''task contract is missing'')))"

section \<open>Planning\<close>

text \<open>What planning meets outside the store.\<close>

record planning_world =
  pw_git_start :: planning_env
  pw_repository_exists :: bool
  pw_token :: "(u64 \<times> string) option"
  pw_clone :: git_world
  pw_git :: planning_env
  pw_others :: "store \<Rightarrow> store"

definition planning_failed :: rpc_error where
  "planning_failed = RpcError (- 32041) ''task planning failed''"

definition not_plannable :: rpc_error where
  "not_plannable = RpcError (- 32041) ''task cannot be planned from its current state''"

definition ensure_planning_repository :: "planning_world \<Rightarrow> task \<Rightarrow> repository_binding \<Rightarrow> string + unit" where
  "ensure_planning_repository w t b =
     (if is_ok (inspect (pw_git_start w) (task_repository_path t)) then Inr ()
      else if pw_repository_exists w \<or> rb_managed_clone b \<noteq> Some (task_repository_path t)
      then Inl ''bound repository is unavailable or invalid''
      else and_then (ok_or (pw_token w) ''managed repository authentication failed'') (\<lambda>(installation, token).
        and_then (ensure (installation = rb_installation_id b) ''GitHub App installation identity mismatch'') (\<lambda>_.
        map_err (\<lambda>_. ''managed repository clone failed'') (clone_repository (pw_clone w) (rb_clone_url b)
          (rb_full_name b) (task_repository_path t) (rb_state_root b) token))))"

definition planning_steps :: "(task_state \<times> string) list" where
  "planning_steps = [(Assessing, ''Task source and repository assessed''),
     (Planned, ''Typed task contract planned''),
     (AwaitingPreparationApproval, ''Task is awaiting preparation approval'')]"

text \<open>The loop over the steps: each is a transaction of its own.\<close>

fun save_steps :: "timestamp \<Rightarrow> (task_state \<times> string) list \<Rightarrow> task \<Rightarrow> store \<Rightarrow> task reply" where
  "save_steps now [] t s = (s, Inr t)"
| "save_steps now ((next_state, summary) # steps) t s = (case transition now next_state t of
       Inl _ \<Rightarrow> (s, Inl planning_failed)
     | Inr t' \<Rightarrow> save_steps now steps t' (save_task t' summary s))"

text \<open>The first locked section: the task and its binding, or the reply when it is planned already.\<close>

definition begin_planning :: "uuid \<Rightarrow> store \<Rightarrow> rpc_error + task + task \<times> repository_binding" where
  "begin_planning i s =
     and_then (ok_or (load_task i s) (RpcError (- 32040) ''task is missing'')) (\<lambda>t.
     if task_state t = AwaitingPreparationApproval
     then and_then (map_err (\<lambda>_. persistence_failure) (load_task_contract i s)) (\<lambda>c.
       and_then (ok_or c (RpcError (- 32045) ''task contract is missing'')) (\<lambda>_. Inr (Inl t)))
     else and_then (ensure (task_state t = Discovered) not_plannable) (\<lambda>_.
       and_then (ok_or (task_repository_binding_id t) planning_failed) (\<lambda>binding_id.
       and_then (ok_or (repository_binding binding_id s) planning_failed) (\<lambda>b. Inr (Inr (t, b))))))"

text \<open>The second one: the contract is saved for the task it was planned for.\<close>

definition commit_plan :: "timestamp \<Rightarrow> uuid \<Rightarrow> task \<Rightarrow> task_contract \<Rightarrow> store \<Rightarrow> task reply" where
  "commit_plan now i t contract s = (case load_task i s of
       None \<Rightarrow> (s, Inl (RpcError (- 32040) ''task is missing''))
     | Some fresh \<Rightarrow>
         if fresh \<noteq> t then (s, Inl (RpcError (- 32041) ''task changed while planning''))
         else save_steps now planning_steps (t\<lparr>task_contract_version := tc_version contract\<rparr>)
           (save_task_contract now contract s))"

definition task_plan :: "planning_world \<Rightarrow> timestamp \<Rightarrow> uuid \<Rightarrow> store \<Rightarrow> task reply" where
  "task_plan w now i s = (case begin_planning i s of
       Inl e \<Rightarrow> (s, Inl e)
     | Inr (Inl t) \<Rightarrow> (s, Inr t)
     | Inr (Inr (t, b)) \<Rightarrow> (case ensure_planning_repository w t b of
           Inl _ \<Rightarrow> (pw_others w s, Inl planning_failed)
         | Inr _ \<Rightarrow> (case assess (pw_git w) t b of
               Inl _ \<Rightarrow> (pw_others w s, Inl planning_failed)
             | Inr contract \<Rightarrow> commit_plan now i t contract (pw_others w s))))"

section \<open>Preparation\<close>

definition task_preparation_preview :: "(string \<Rightarrow> uuid option) \<Rightarrow> preparation_env \<Rightarrow> json \<Rightarrow> store \<Rightarrow>
    rpc_error + preparation_preview" where
  "task_preparation_preview parse_uuid env params s =
     and_then (ok_or (required_task_id parse_uuid params) invalid_parameters) (\<lambda>i.
     map_err (\<lambda>_. RpcError (- 32042) ''preparation preview failed'') (preview_preparation env i s))"

definition task_preparation_approve :: "(string \<Rightarrow> preparation_preview option) \<Rightarrow>
    (json \<Rightarrow> preparation_preview option) \<Rightarrow> preparation_env \<Rightarrow> uuid \<Rightarrow> timestamp \<Rightarrow> json \<Rightarrow> store \<Rightarrow>
    approval reply" where
  "task_preparation_approve decode_text decode env fresh now params s =
     (case encoded_parameter decode_text decode ''preview'' params of
        None \<Rightarrow> (s, Inl invalid_parameters)
      | Some preview \<Rightarrow> (case approve_preparation env fresh now preview (text_or_empty params ''approvedBy'') s of
            Inl _ \<Rightarrow> (s, Inl (RpcError (- 32045) ''preparation approval failed''))
          | Inr (s', a) \<Rightarrow> (s', Inr a)))"

text \<open>
  What the preparation of a worktree meets outside the store; the other clients may act after the
  authorization (\<open>ww_before\<close>), while the worktree is made (\<open>ww_others\<close>) and before the claim is
  completed (\<open>ww_after\<close>).
\<close>

record preparation_world =
  ww_repository_is_dir :: bool
  ww_token :: "(u64 \<times> string) option"
  ww_clone :: git_world
  ww_worktree_exists :: bool
  ww_git :: planning_env
  ww_prepare :: git_world
  ww_before :: "store \<Rightarrow> store"
  ww_others :: "store \<Rightarrow> store"
  ww_after :: "store \<Rightarrow> store"

definition worktree_failed :: "string \<Rightarrow> rpc_error" where
  "worktree_failed message = RpcError (- 32043) message"

definition ensure_managed_clone :: "preparation_world \<Rightarrow> repository_binding \<Rightarrow> preparation_preview \<Rightarrow>
    rpc_error + unit" where
  "ensure_managed_clone w b preview =
     (if ww_repository_is_dir w then Inr ()
      else and_then (ok_or (ww_token w) (worktree_failed ''managed repository authentication failed'')) (\<lambda>(installation, token).
        and_then (ensure (installation = rb_installation_id b)
          (worktree_failed ''GitHub App installation identity mismatch'')) (\<lambda>_.
        map_err (\<lambda>_. worktree_failed ''managed repository clone failed'') (clone_repository (ww_clone w)
          (rb_clone_url b) (rb_full_name b) (pv_repository_path preview) (rb_state_root b) token))))"

definition ensure_worktree :: "preparation_world \<Rightarrow> preparation_preview \<Rightarrow> rpc_error + unit" where
  "ensure_worktree w preview =
     (if ww_worktree_exists w
      then and_then (map_err (\<lambda>_. worktree_failed ''task worktree is invalid'')
          (inspect (ww_git w) (pv_worktree_path preview))) (\<lambda>inspection.
        ensure (ri_branch inspection = pv_branch preview \<and> ri_head_sha inspection = pv_source_sha preview)
          (worktree_failed ''existing task worktree does not match''))
      else map_err (\<lambda>_. worktree_failed ''task worktree preparation failed'') (prepare_at (ww_prepare w)
        (pv_repository_path preview) (pv_worktree_path preview) (pv_branch preview)
        (Some (pv_source_sha preview))))"

definition begin_preparation :: "preparation_env \<Rightarrow> uuid \<Rightarrow> preparation_preview \<Rightarrow> store \<Rightarrow>
    rpc_error + task \<times> repository_binding" where
  "begin_preparation env i preview s =
     and_then (map_err (\<lambda>_. RpcError (- 32046) ''preparation preview is stale'') (preview_preparation env i s)) (\<lambda>fresh.
     and_then (ensure (fresh = preview) (RpcError (- 32046) ''preparation preview is stale'')) (\<lambda>_.
     and_then (ok_or (load_task i s) (RpcError (- 32040) ''task is missing'')) (\<lambda>t.
     and_then (ensure (task_state t = AwaitingPreparationApproval)
       (RpcError (- 32042) ''task is not awaiting preparation approval'')) (\<lambda>_.
     and_then (ok_or (task_repository_binding_id t) (RpcError (- 32042) ''task repository binding is missing'')) (\<lambda>binding_id.
     and_then (ok_or (repository_binding binding_id s) (RpcError (- 32042) ''task repository binding is missing'')) (\<lambda>b.
     Inr (t, b)))))))"

definition commit_preparation :: "uuid \<Rightarrow> timestamp \<Rightarrow> preparation_preview \<Rightarrow> task \<Rightarrow> store \<Rightarrow> task reply" where
  "commit_preparation fresh now preview t s =
     (case transition now Preparing (t\<lparr>task_repository_path := pv_worktree_path preview\<rparr>) of
        Inl _ \<Rightarrow> (s, Inl (RpcError (- 32042) ''task preparation failed''))
      | Inr t \<Rightarrow> (case task_checkpoint_new fresh now (task_id t) (task_state t)
            ''Approved isolated worktree prepared at captured source SHA'' of
            Inl _ \<Rightarrow> (s, Inl (RpcError (- 32042) ''task preparation failed''))
          | Inr checkpoint \<Rightarrow> let t = t\<lparr>task_checkpoint_id := Some (cp_id checkpoint)\<rparr> in
              then_do (transact (\<lambda>_. persistence_failure)
                (save_task_with_checkpoint t ''Task preparation approved'' checkpoint) s) (\<lambda>_ s. (s, Inr t))))"

definition task_prepare_claimed :: "preparation_env \<Rightarrow> preparation_world \<Rightarrow> uuid \<Rightarrow> timestamp \<Rightarrow> uuid \<Rightarrow>
    preparation_preview \<Rightarrow> store \<Rightarrow> task reply" where
  "task_prepare_claimed env w fresh now i preview s = (case begin_preparation env i preview s of
       Inl e \<Rightarrow> (s, Inl e)
     | Inr (t, b) \<Rightarrow> (case and_then (ensure_managed_clone w b preview) (\<lambda>_. ensure_worktree w preview) of
           Inl e \<Rightarrow> (ww_others w s, Inl e)
         | Inr _ \<Rightarrow> commit_preparation fresh now preview t (ww_others w s)))"

definition task_prepare :: "preparation_env \<Rightarrow> preparation_world \<Rightarrow> uuid \<Rightarrow> timestamp \<Rightarrow> timestamp \<Rightarrow> uuid \<Rightarrow>
    preparation_preview \<Rightarrow> uuid \<Rightarrow> store \<Rightarrow> task reply" where
  "task_prepare env w fresh now later i preview aid s =
     (if pv_task_id preview \<noteq> i then (s, Inl invalid_parameters)
      else case authorize_preparation env now preview aid s of
        Inl _ \<Rightarrow> (s, Inl (RpcError (- 32046) ''preparation authorization failed''))
      | Inr s1 \<Rightarrow> (case task_prepare_claimed env w fresh now i preview (ww_before w s1) of
            (s2, response) \<Rightarrow>
              then_do (transact (\<lambda>_. persistence_failure) (complete_preparation_claim later aid
                (if is_ok response then ''succeeded'' else ''failed'')) (ww_after w s2)) (\<lambda>_ s. (s, response))))"

section \<open>Verification\<close>

definition task_ready_for_delivery :: "verify_env \<Rightarrow> timestamp \<Rightarrow> timestamp \<Rightarrow> uuid \<Rightarrow> uuid \<Rightarrow> uuid \<Rightarrow> store \<Rightarrow>
    task reply" where
  "task_ready_for_delivery env start finish run_id fresh i s =
     (case verify_task_for_delivery env start finish run_id fresh i s of
        (s', Inl _) \<Rightarrow> (s', Inl (RpcError (- 32045) ''verification failed''))
      | (s', Inr t) \<Rightarrow> (s', Inr t))"

section \<open>Lemmas\<close>

lemma begin_planning_ok:
  "begin_planning i s = Inr (Inr (t, b)) \<longleftrightarrow> load_task i s = Some t \<and> task_state t = Discovered \<and>
     (\<exists>binding_id. task_repository_binding_id t = Some binding_id \<and> repository_binding binding_id s = Some b)"
  by (cases "load_task i s") (auto simp: begin_planning_def and_then_eq_Inr ok_or_eq_Inr ensure_eq_Inr split: if_splits)

text \<open>The three transactions that follow the saved contract.\<close>

definition planned_task :: "timestamp \<Rightarrow> task_contract \<Rightarrow> task_state \<Rightarrow> task \<Rightarrow> task" where
  "planned_task now contract st t =
     t\<lparr>task_contract_version := tc_version contract, task_state := st, task_updated_at := now\<rparr>"

definition planned_store :: "timestamp \<Rightarrow> task_contract \<Rightarrow> task \<Rightarrow> (task_state \<times> string) list \<Rightarrow> store \<Rightarrow> store" where
  "planned_store now contract t steps s =
     fold (\<lambda>(st, m). record_task (planned_task now contract st t) m) steps (save_task_contract now contract s)"

lemma save_steps_planning:
  assumes "task_state t = Discovered" "n \<le> 3"
  shows "save_steps now (take n planning_steps) (t\<lparr>task_contract_version := tc_version contract\<rparr>)
      (save_task_contract now contract s) =
    (planned_store now contract t (take n planning_steps) s,
     Inr (if n = 0 then t\<lparr>task_contract_version := tc_version contract\<rparr>
       else planned_task now contract (fst (planning_steps ! (n - 1))) t))"
proof -
  consider "n = 0" | "n = 1" | "n = 2" | "n = 3" using assms(2) by linarith
  then show ?thesis
    using assms(1)
    by cases (simp_all add: planning_steps_def planned_store_def transition_def permits_def save_task_def
        planned_task_def take_Cons')
qed

lemma commit_plan_ok:
  assumes "task_state t = Discovered"
  shows "commit_plan now i t contract s = (s', Inr t') \<longleftrightarrow> load_task i s = Some t \<and>
    s' = planned_store now contract t planning_steps s \<and>
    t' = planned_task now contract AwaitingPreparationApproval t"
  using save_steps_planning [OF assms, of 3 now contract s]
  by (auto simp: commit_plan_def planning_steps_def split: option.splits if_splits)

text \<open>A plan that was made: on the task as it was when the planning began.\<close>

lemma task_plan_ok:
  assumes "load_task i s = Some t" "task_state t = Discovered"
  shows "task_plan w now i s = (s', Inr t') \<longleftrightarrow> (\<exists>binding_id b contract.
    task_repository_binding_id t = Some binding_id \<and> repository_binding binding_id s = Some b \<and>
    ensure_planning_repository w t b = Inr () \<and> assess (pw_git w) t b = Inr contract \<and>
    load_task i (pw_others w s) = Some t \<and>
    s' = planned_store now contract t planning_steps (pw_others w s) \<and>
    t' = planned_task now contract AwaitingPreparationApproval t)"
proof (cases "\<exists>b. begin_planning i s = Inr (Inr (t, b))")
  case True
  then obtain b where b: "begin_planning i s = Inr (Inr (t, b))" by blast
  note ok = b [unfolded begin_planning_ok]
  have "task_plan w now i s = (s', Inr t') \<longleftrightarrow> ensure_planning_repository w t b = Inr () \<and>
    (\<exists>contract. assess (pw_git w) t b = Inr contract \<and>
      commit_plan now i t contract (pw_others w s) = (s', Inr t'))"
    by (auto simp: task_plan_def b split: sum.split)
  then show ?thesis using ok by (auto simp: commit_plan_ok assms(2))
next
  case False
  have "begin_planning i s = Inl e \<Longrightarrow> task_plan w now i s \<noteq> (s', Inr t')" for e
    by (simp add: task_plan_def)
  moreover have "\<exists>e. begin_planning i s = Inl e"
    using False assms by (auto simp: begin_planning_def and_then_def ok_or_def split: sum.splits option.splits)
  moreover have "\<not> (\<exists>binding_id b. task_repository_binding_id t = Some binding_id \<and> repository_binding binding_id s = Some b)"
    using False assms by (auto simp: begin_planning_ok)
  ultimately show ?thesis by blast
qed

lemma planned_store_rows:
  "st_bindings (planned_store now c t steps s) = st_bindings s"
  "st_contracts (planned_store now c t steps s) = st_contracts (save_task_contract now c s)"
  "load_task i (planned_store now c t steps s) = (if i = task_id t \<and> steps \<noteq> []
     then Some (planned_task now c (fst (last steps)) t) else load_task i s)"
  "st_task_events (planned_store now c t steps s) = st_task_events s @
     map (\<lambda>(st, m). \<lparr>te_task_id = task_id t, te_summary = m, te_payload = planned_task now c st t,
       te_occurred_at = now\<rparr>) steps"
proof (induction steps rule: rev_induct)
  case Nil
  {
    case 1 show ?case by (simp add: planned_store_def save_task_contract_def)
  next
    case 2 show ?case by (simp add: planned_store_def)
  next
    case 3 show ?case by (simp add: planned_store_def save_task_contract_def load_task_def)
  next
    case 4 show ?case by (simp add: planned_store_def save_task_contract_def)
  }
next
  case (snoc x steps)
  have step: "planned_store now c t (steps @ [x]) s =
    record_task (planned_task now c (fst x) t) (snd x) (planned_store now c t steps s)"
    by (simp add: planned_store_def split_def)
  have i: "task_id (planned_task now c st t) = task_id t" "task_updated_at (planned_task now c st t) = now" for st
    by (simp_all add: planned_task_def)
  {
    case 1 show ?case by (simp add: step snoc)
  next
    case 2 show ?case by (simp add: step snoc)
  next
    case 3 show ?case by (simp add: step snoc i)
  next
    case 4 show ?case by (simp add: step snoc i split_def)
  }
qed

lemma contract_saved:
  assumes "contract_wf c" "st_contracts s = st_contracts (save_task_contract now c s0)"
  shows "load_task_contract (tc_task_id c) s = Inr (Some c)"
  using decode_wf_contract [OF assms(1)]
  by (simp add: load_task_contract_def assms(2) save_task_contract_def json_as_contract_def)

text \<open>The preparation of a worktree that succeeds.\<close>

lemma begin_preparation_ok:
  "begin_preparation env i p s = Inr (t, b) \<Longrightarrow> preview_preparation env i s = Inr p \<and> load_task i s = Some t \<and>
     task_state t = AwaitingPreparationApproval \<and>
     (\<exists>binding_id. task_repository_binding_id t = Some binding_id \<and> repository_binding binding_id s = Some b)"
  by (auto simp: begin_preparation_def and_then_eq_Inr ok_or_eq_Inr ensure_eq_Inr map_err_eq_Inr)

definition prepared_task :: "timestamp \<Rightarrow> uuid \<Rightarrow> preparation_preview \<Rightarrow> task \<Rightarrow> task" where
  "prepared_task now fresh p t = t\<lparr>task_repository_path := pv_worktree_path p, task_state := Preparing,
     task_updated_at := now, task_checkpoint_id := Some fresh\<rparr>"

lemma commit_preparation_ok:
  "commit_preparation fresh now p t s = (s', Inr t') \<Longrightarrow> permits (task_state t) Preparing \<and>
    t' = prepared_task now fresh p t \<and> (\<exists>c. s' = (record_task t' ''Task preparation approved'' s)
      \<lparr>st_checkpoints := st_checkpoints s @ [(fresh, c)]\<rparr> \<and> cp_id c = fresh)"
  by (auto simp: commit_preparation_def Let_def then_do_ok transact_ok save_task_with_checkpoint_def
      insert_checkpoint_def and_then_eq_Inr ensure_msg_ok insert_new_ok prepared_task_def transition_def
      dest: checkpoint_new_fields split: sum.splits if_splits)

lemma task_prepare_claimed_ok:
  assumes "task_prepare_claimed env w fresh now i p s = (s', Inr t')"
  obtains t b where "preview_preparation env i s = Inr p" "load_task i s = Some t"
    "task_state t = AwaitingPreparationApproval" "ensure_managed_clone w b p = Inr ()"
    "ensure_worktree w p = Inr ()" "commit_preparation fresh now p t (ww_others w s) = (s', Inr t')"
proof -
  obtain t b where b: "begin_preparation env i p s = Inr (t, b)"
    using assms by (auto simp: task_prepare_claimed_def split: sum.splits)
  moreover have "ensure_managed_clone w b p = Inr () \<and> ensure_worktree w p = Inr () \<and>
    commit_preparation fresh now p t (ww_others w s) = (s', Inr t')"
    using assms b by (auto simp: task_prepare_claimed_def and_then_eq_Inr split: sum.splits)
  ultimately show thesis using begin_preparation_ok [OF b] by (intro that) auto
qed

end
