(* ===== verification/Conversion.thy ===== *)
theory Conversion
  imports Store_Claims Store_GitHub Text_More
begin

text \<open>
  \<open>crates/patchwright-engine/src/conversion.rs\<close>: a GitHub item of a stored snapshot becomes a task.
  The preview reads the snapshot and the repository binding; the creation builds the source of the
  task from the same item and stores it under a key that names the repository, the kind and the
  number. chrono's parser is an argument; the texts of invalid contracts are not modelled.
\<close>

record conversion_request =
  cr_repository_full_name :: string
  cr_item_number :: u64
  cr_expected_updated_at :: string

record conversion_preview =
  cv_repository_full_name :: string
  cv_repository_id :: u64
  cv_repository_binding_id :: uuid
  cv_item_number :: u64
  cv_source_kind :: work_item_kind
  cv_title :: string
  cv_goal :: string
  cv_acceptance_criteria :: "string list"
  cv_repository_path :: string
  cv_base_sha :: "string option"
  cv_head_sha :: "string option"
  cv_source_updated_at :: timestamp
  cv_snapshot_at :: timestamp
  cv_requires_confirmation :: bool

record conversion_outcome =
  co_preview :: conversion_preview
  co_task :: task
  co_created :: bool

datatype conversion_error =
    SnapshotMissing | ItemMissing | SnapshotStale | RepositoryBindingMissing
  | RepositoryBindingMismatch | IncompletePullRequest | IncompleteRepository | ForkInaccessible
  | InvalidRequest string | InvalidContract | ConversionPersistence store_error

definition parse_timestamp ::
  "(string \<Rightarrow> timestamp option) \<Rightarrow> string \<Rightarrow> string \<Rightarrow> conversion_error + timestamp" where
  "parse_timestamp parse_rfc3339 value field = ok_or (parse_rfc3339 value) (InvalidRequest field)"

definition validate_request ::
  "(string \<Rightarrow> timestamp option) \<Rightarrow> conversion_request \<Rightarrow> conversion_error + unit" where
  "validate_request parse_rfc3339 r =
     (if cr_repository_full_name r = [] \<or> length (cr_repository_full_name r) > 200
      then Inl (InvalidRequest ''repositoryFullName'')
      else if cr_item_number r = 0 then Inl (InvalidRequest ''itemNumber'')
      else if parse_rfc3339 (cr_expected_updated_at r) = None
      then Inl (InvalidRequest ''expectedUpdatedAt'')
      else Inr ())"

definition validate_pull_request_access ::
  "github_work_item \<Rightarrow> string \<Rightarrow> conversion_error + unit" where
  "validate_pull_request_access item base_repository =
     (if wi_kind item \<noteq> PullRequestItem then Inr ()
      else if wi_base_ref item = None \<or> wi_base_sha item = None \<or> wi_head_ref item = None \<or>
        wi_head_sha item = None \<or> wi_head_repository_full_name item = None
      then Inl IncompletePullRequest
      else if wi_head_repository_fork item \<and> wi_head_repository_full_name item \<noteq> Some base_repository \<and>
        \<not> wi_maintainer_can_modify item
      then Inl ForkInaccessible
      else Inr ())"

text \<open>The checkout a task works in: the managed clone, else the user's, else the state root.\<close>

definition binding_path :: "repository_binding \<Rightarrow> string" where
  "binding_path b = (case rb_managed_clone b of Some p \<Rightarrow> p
     | None \<Rightarrow> (case rb_user_checkout b of Some p \<Rightarrow> p | None \<Rightarrow> rb_state_root b))"

definition conversion_goal :: "work_item_kind \<Rightarrow> u64 \<Rightarrow> string \<Rightarrow> string \<Rightarrow> string" where
  "conversion_goal kind number repository title = (case kind of
       IssueItem \<Rightarrow> ''Resolve GitHub issue #'' @ decimal (unat number) @ '' in '' @ repository @ '': '' @ title
     | PullRequestItem \<Rightarrow>
         ''Complete GitHub pull request #'' @ decimal (unat number) @ '' in '' @ repository @ '': '' @ title)"

definition conversion_criteria :: "work_item_kind \<Rightarrow> string list" where
  "conversion_criteria kind = (case kind of
       IssueItem \<Rightarrow> [''The issue outcome is implemented and verified against the captured source snapshot.'']
     | PullRequestItem \<Rightarrow> [''Requested changes, review feedback, checks, and conflicts are assessed against the captured pull request head.''])"

definition find_item :: "u64 \<Rightarrow> github_repository_snapshot \<Rightarrow> github_work_item option" where
  "find_item number snap = List.find (\<lambda>item. wi_number item = number) (gs_work_items snap)"

definition preview_conversion ::
  "(string \<Rightarrow> timestamp option) \<Rightarrow> conversion_request \<Rightarrow> store \<Rightarrow> conversion_error + conversion_preview" where
  "preview_conversion parse r s =
     and_then (validate_request parse r) (\<lambda>_.
     and_then (ok_or (github_repository_with_snapshot_at (cr_repository_full_name r) s) SnapshotMissing)
       (\<lambda>(snap, snapshot_at).
     and_then (ok_or (find_item (cr_item_number r) snap) ItemMissing) (\<lambda>item.
     and_then (parse_timestamp parse (cr_expected_updated_at r) ''expectedUpdatedAt'') (\<lambda>expected.
     and_then (parse_timestamp parse (wi_updated_at item) ''sourceUpdatedAt'') (\<lambda>updated.
     and_then (ensure (updated = expected) SnapshotStale) (\<lambda>_.
     and_then (ok_or (repository_binding_by_full_name (cr_repository_full_name r) s)
       RepositoryBindingMissing) (\<lambda>b.
     and_then (ensure (rb_github_repository_id b = gr_id (gs_repository snap) \<and>
         rb_full_name b = gr_full_name (gs_repository snap)) RepositoryBindingMismatch) (\<lambda>_.
     and_then (validate_pull_request_access item (gr_full_name (gs_repository snap))) (\<lambda>_.
     and_then (case wi_kind item of
         IssueItem \<Rightarrow> and_then (ok_or (gr_default_branch_sha (gs_repository snap)) IncompleteRepository)
           (\<lambda>sha. Inr (Some sha))
       | PullRequestItem \<Rightarrow> Inr (wi_base_sha item)) (\<lambda>base_sha.
     Inr \<lparr>cv_repository_full_name = gr_full_name (gs_repository snap),
       cv_repository_id = gr_id (gs_repository snap), cv_repository_binding_id = rb_id b,
       cv_item_number = wi_number item, cv_source_kind = wi_kind item, cv_title = wi_title item,
       cv_goal = conversion_goal (wi_kind item) (wi_number item) (gr_full_name (gs_repository snap)) (wi_title item),
       cv_acceptance_criteria = conversion_criteria (wi_kind item),
       cv_repository_path = binding_path b, cv_base_sha = base_sha, cv_head_sha = wi_head_sha item,
       cv_source_updated_at = updated, cv_snapshot_at = snapshot_at,
       cv_requires_confirmation = True\<rparr>))))))))))"

definition item_source ::
  "github_work_item \<Rightarrow> u64 \<Rightarrow> timestamp \<Rightarrow> conversion_error + task_source" where
  "item_source item repository_id snapshot_at = (case wi_kind item of
       IssueItem \<Rightarrow> map_err (\<lambda>_. InvalidContract) (github_issue \<lparr>iss_repository_id = repository_id,
         iss_repository_full_name = wi_repository_full_name item, iss_number = wi_number item,
         iss_html_url = wi_html_url item, iss_snapshot_at = snapshot_at\<rparr>)
     | PullRequestItem \<Rightarrow>
         and_then (ok_or (wi_base_ref item) IncompletePullRequest) (\<lambda>base_ref.
         and_then (ok_or (wi_base_sha item) IncompletePullRequest) (\<lambda>base_sha.
         and_then (ok_or (wi_head_ref item) IncompletePullRequest) (\<lambda>head_ref.
         and_then (ok_or (wi_head_sha item) IncompletePullRequest) (\<lambda>head_sha.
         map_err (\<lambda>_. InvalidContract) (github_pull_request \<lparr>pr_repository_id = repository_id,
           pr_repository_full_name = wi_repository_full_name item, pr_number = wi_number item,
           pr_html_url = wi_html_url item, pr_snapshot_at = snapshot_at, pr_base_ref = base_ref,
           pr_base_sha = base_sha, pr_head_ref = head_ref, pr_head_sha = head_sha\<rparr>))))))"

definition source_kind_key :: "work_item_kind \<Rightarrow> string" where
  "source_kind_key kind = (case kind of IssueItem \<Rightarrow> ''issue'' | PullRequestItem \<Rightarrow> ''pullRequest'')"

definition source_key :: "u64 \<Rightarrow> work_item_kind \<Rightarrow> u64 \<Rightarrow> string" where
  "source_key repository_id kind number = ''github:'' @ decimal (unat repository_id) @ '':'' @
     source_kind_key kind @ '':'' @ decimal (unat number)"

definition create_conversion :: "(string \<Rightarrow> timestamp option) \<Rightarrow> uuid \<Rightarrow> timestamp \<Rightarrow> conversion_request \<Rightarrow>
    store \<Rightarrow> conversion_error + store \<times> conversion_outcome" where
  "create_conversion parse fresh now r s =
     and_then (preview_conversion parse r s) (\<lambda>preview.
     and_then (ok_or (load_github_repository (cr_repository_full_name r) s) SnapshotMissing) (\<lambda>snap.
     and_then (ok_or (find_item (cr_item_number r) snap) ItemMissing) (\<lambda>item.
     and_then (item_source item (cv_repository_id preview) (cv_snapshot_at preview)) (\<lambda>source.
     and_then (map_err (\<lambda>_. InvalidContract)
       (new_task fresh now (cv_title preview) (cv_repository_path preview))) (\<lambda>t.
     let t = t\<lparr>task_source := source, task_repository_binding_id := Some (cv_repository_binding_id preview)\<rparr>;
         key = source_key (cv_repository_id preview) (cv_source_kind preview) (cv_item_number preview) in
     and_then (map_err ConversionPersistence (create_converted_task t key s)) (\<lambda>(s', t, created).
     Inr (s', \<lparr>co_preview = preview, co_task = t, co_created = created\<rparr>)))))))"

section \<open>Lemmas\<close>

lemma source_key_inject:
  "source_key r k n = source_key r' k' n' \<longleftrightarrow> r = r' \<and> k = k' \<and> n = n'"
proof -
  have kind: "CHR '':'' \<notin> set (source_kind_key k)" for k by (cases k) (simp_all add: source_kind_key_def)
  have "source_key r k n = source_key r' k' n' \<longleftrightarrow>
      decimal (unat r) = decimal (unat r') \<and> source_kind_key k = source_kind_key k' \<and>
      decimal (unat n) = decimal (unat n')"
    using append_colon_inject [OF decimal_no_colon decimal_no_colon] append_colon_inject [OF kind kind]
    by (simp add: source_key_def)
  also have "\<dots> \<longleftrightarrow> r = r' \<and> k = k' \<and> n = n'"
    by (cases k; cases k') (auto simp: source_kind_key_def word_unat_eq_iff)
  finally show ?thesis .
qed

lemma preview_conversion_ok:
  assumes "preview_conversion parse r s = Inr p"
  obtains snap item b where
    "github_repository_with_snapshot_at (cr_repository_full_name r) s = Some (snap, cv_snapshot_at p)"
    "find_item (cr_item_number r) snap = Some item"
    "parse (cr_expected_updated_at r) = Some (cv_source_updated_at p)"
    "parse (wi_updated_at item) = Some (cv_source_updated_at p)"
    "repository_binding_by_full_name (cr_repository_full_name r) s = Some b"
    "rb_github_repository_id b = gr_id (gs_repository snap)" "rb_full_name b = gr_full_name (gs_repository snap)"
    "validate_pull_request_access item (rb_full_name b) = Inr ()"
    "cv_repository_id p = rb_github_repository_id b" "cv_repository_binding_id p = rb_id b"
    "cv_source_kind p = wi_kind item" "cv_item_number p = wi_number item" "cv_title p = wi_title item"
    "cv_repository_path p = binding_path b" "cv_head_sha p = wi_head_sha item"
  using assms
  by (auto simp: preview_conversion_def parse_timestamp_def result_simps split: prod.splits)

lemma item_source_fields:
  assumes "item_source item repository_id at = Inr source"
  shows "source_wf source \<and> source_repository_id source = Some repository_id \<and>
    source_repository_full_name source = Some (wi_repository_full_name item) \<and>
    source_item_number source = Some (wi_number item) \<and>
    (wi_kind item = PullRequestItem \<longrightarrow> source_head_sha source = wi_head_sha item \<and>
       source_base_sha source = wi_base_sha item)"
proof (cases "wi_kind item")
  case IssueItem
  then show ?thesis
    using assms by (auto simp: item_source_def result_simps valid_simps source_wf_def revalidate_task_source_def is_ok_iff)
next
  case PullRequestItem
  then obtain p where p: "github_pull_request p = Inr source" "pr_repository_id p = repository_id"
    "pr_repository_full_name p = wi_repository_full_name item" "pr_number p = wi_number item"
    "wi_head_sha item = Some (pr_head_sha p)" "wi_base_sha item = Some (pr_base_sha p)"
    using assms by (auto simp: item_source_def result_simps)
  have "source = GitHubPullRequest p" using github_pull_request_ok [OF p(1)] .
  then show ?thesis using p PullRequestItem by (simp add: source_wf_def revalidate_task_source_def)
qed

text \<open>A preview reads the tables of snapshots and bindings only.\<close>

lemma preview_conversion_cong:
  "st_snapshots s' = st_snapshots s \<Longrightarrow> st_bindings s' = st_bindings s \<Longrightarrow>
     preview_conversion parse r s' = preview_conversion parse r s"
  by (simp add: preview_conversion_def github_repository_with_snapshot_at_def repository_binding_by_full_name_def)

end
