(* ===== verification/Task_Properties.thy ===== *)
theory Task_Properties
  imports Rpc_Tasks Conversion Samples
begin

text \<open>
  The properties of the way of a task from a GitHub item to its delivery approval: conversion,
  planning, preparation and verification (\<open>conversion.rs\<close>, \<open>planning.rs\<close>, \<open>preparation.rs\<close>,
  \<open>verification.rs\<close>, \<open>worktree.rs\<close> and their handlers in \<open>rpc.rs\<close>), with their witnesses.
\<close>

section \<open>Conversion\<close>

lemma create_converted_new:
  assumes "create_converted_task t key s = Inr (s', t', True)"
  shows "t' = t \<and> load_task (task_id t) s' = Some t \<and> find_row key (st_task_sources s') = Some (task_id t) \<and>
    st_snapshots s' = st_snapshots s \<and> st_bindings s' = st_bindings s \<and> key \<noteq> []"
  using assms
  by (auto simp: create_converted_task_def and_then_eq_Inr ensure_msg_ok find_row_append_new has_row_def
      load_task_def record_task_def split: option.splits if_splits)

lemma create_converted_again:
  assumes "key \<noteq> []" "find_row key (st_task_sources s) = Some i" "load_task i s = Some t"
  shows "create_converted_task u key s = Inr (s, t, False)"
  using assms by (simp add: create_converted_task_def ensure_msg_def)

lemma item_source_exact:
  assumes "item_source item repository_id at = Inr source"
  shows "case wi_kind item of
      IssueItem \<Rightarrow> source = GitHubIssue \<lparr>iss_repository_id = repository_id,
        iss_repository_full_name = wi_repository_full_name item, iss_number = wi_number item,
        iss_html_url = wi_html_url item, iss_snapshot_at = at\<rparr>
    | PullRequestItem \<Rightarrow> \<exists>base_ref base_sha head_ref head_sha. wi_base_ref item = Some base_ref \<and> wi_base_sha item = Some base_sha \<and>
        wi_head_ref item = Some head_ref \<and> wi_head_sha item = Some head_sha \<and>
        source = GitHubPullRequest \<lparr>pr_repository_id = repository_id,
          pr_repository_full_name = wi_repository_full_name item, pr_number = wi_number item,
          pr_html_url = wi_html_url item, pr_snapshot_at = at, pr_base_ref = base_ref,
          pr_base_sha = base_sha, pr_head_ref = head_ref, pr_head_sha = head_sha\<rparr>"
  using assms
  by (auto simp: item_source_def result_simps github_issue_ok dest!: github_pull_request_ok split: work_item_kind.splits)

lemma preview_conversion_same:
  "github_repository_with_snapshot_at (cr_repository_full_name r) s' = github_repository_with_snapshot_at (cr_repository_full_name r) s \<Longrightarrow>
   repository_binding_by_full_name (cr_repository_full_name r) s' = repository_binding_by_full_name (cr_repository_full_name r) s \<Longrightarrow>
     preview_conversion parse r s' = preview_conversion parse r s"
  by (simp add: preview_conversion_def)


definition convertible_item :: github_work_item where
  "convertible_item = (sample_item False)\<lparr>wi_head_repository_full_name := Some ''o/r''\<rparr>"

definition conversion_store :: store where
  "conversion_store = empty_store\<lparr>
     st_bindings := [(3, \<lparr>bw_full_name = ''o/r'', bw_payload = sample_binding, bw_updated_at = 0\<rparr>)],
     st_snapshots := [(''o/r'', \<lparr>sw_repository = sample_repository,
       sw_snapshot = (sample_snapshot False)\<lparr>gs_work_items := [convertible_item]\<rparr>, sw_synced_at = 0\<rparr>)]\<rparr>"

definition sample_request :: conversion_request where
  "sample_request = \<lparr>cr_repository_full_name = ''o/r'', cr_item_number = 4, cr_expected_updated_at = ''t''\<rparr>"

lemma sample_pull_request_valid:
  "github_pull_request sample_pull_request = Inr (GitHubPullRequest sample_pull_request)"
  using sample_source_wf by (auto simp: source_wf_def revalidate_task_source_def is_ok_iff dest: github_pull_request_ok)

lemma sample_pull_request_fields:
  "\<lparr>pr_repository_id = 11, pr_repository_full_name = ''o/r'', pr_number = 4, pr_html_url = ''https://h/4'',
     pr_snapshot_at = 0, pr_base_ref = ''main'', pr_base_sha = sha_b, pr_head_ref = ''work'',
     pr_head_sha = sha_a\<rparr> = sample_pull_request"
  by (simp add: sample_pull_request_def)

definition converted_preview :: conversion_preview where
  "converted_preview = \<lparr>cv_repository_full_name = ''o/r'', cv_repository_id = 11, cv_repository_binding_id = 3,
     cv_item_number = 4, cv_source_kind = PullRequestItem, cv_title = ''Fix'',
     cv_goal = conversion_goal PullRequestItem 4 ''o/r'' ''Fix'',
     cv_acceptance_criteria = conversion_criteria PullRequestItem, cv_repository_path = ''/c'',
     cv_base_sha = Some sha_b, cv_head_sha = Some sha_a, cv_source_updated_at = 0, cv_snapshot_at = 0,
     cv_requires_confirmation = True\<rparr>"

lemma sample_conversion_preview: "preview_conversion (\<lambda>_. Some 0) sample_request conversion_store = Inr converted_preview"
  by (simp add: preview_conversion_def validate_request_def sample_request_def conversion_store_def
      github_repository_with_snapshot_at_def find_row_def find_item_def convertible_item_def sample_item_def
      sample_snapshot_def sample_repository_def repository_binding_by_full_name_def sample_binding_def
      parse_timestamp_def validate_pull_request_access_def binding_path_def converted_preview_def)

lemma sample_conversion:
  "\<exists>s' out. create_conversion (\<lambda>_. Some 0) 7 0 sample_request conversion_store = Inr (s', out) \<and> co_created out"
proof -
  obtain t where t: "new_task 7 0 (cv_title converted_preview) (cv_repository_path converted_preview) = Inr t"
    by (simp add: converted_preview_def new_task_def path_is_absolute_def starts_with_def)
  have source: "item_source convertible_item (cv_repository_id converted_preview) (cv_snapshot_at converted_preview) =
      Inr (GitHubPullRequest sample_pull_request)"
    by (simp add: item_source_def convertible_item_def sample_item_def sample_pull_request_valid
        sample_pull_request_fields converted_preview_def)
  have create: "\<exists>s'. create_converted_task u key conversion_store = Inr (s', u, True)" if "key \<noteq> []" for u key
    using that by (simp add: create_converted_task_def ensure_msg_def conversion_store_def empty_store_def
        has_row_def find_row_def)
  have key: "source_key r k n \<noteq> []" for r k n by (simp add: source_key_def)
  have snap: "load_github_repository (cr_repository_full_name sample_request) conversion_store =
      Some ((sample_snapshot False)\<lparr>gs_work_items := [convertible_item]\<rparr>)"
    by (simp add: load_github_repository_def conversion_store_def find_row_def sample_request_def)
  have item: "find_item (cr_item_number sample_request)
      ((sample_snapshot False)\<lparr>gs_work_items := [convertible_item]\<rparr>) = Some convertible_item"
    by (simp add: find_item_def sample_request_def convertible_item_def sample_item_def)
  let ?u = "t\<lparr>task_source := GitHubPullRequest sample_pull_request,
    task_repository_binding_id := Some (cv_repository_binding_id converted_preview)\<rparr>"
  obtain s' where c: "create_converted_task ?u (source_key (cv_repository_id converted_preview)
      (cv_source_kind converted_preview) (cv_item_number converted_preview)) conversion_store = Inr (s', ?u, True)"
    using create [OF key] by blast
  have "create_conversion (\<lambda>_. Some 0) 7 0 sample_request conversion_store =
      Inr (s', \<lparr>co_preview = converted_preview, co_task = ?u, co_created = True\<rparr>)"
    unfolding create_conversion_def Let_def sample_conversion_preview and_then_Inr snap item ok_or_simps source t
      map_err_simps c prod.case ..
  then show ?thesis by fastforce
qed


section \<open>Planning\<close>

lemma planned_contract_fields:
  assumes "assess env t b = Inr c"
  shows "tc_task_id c = task_id t" "tc_source c = task_source t" "tc_repository_binding_id c = rb_id b"
    "task_repository_binding_id t = Some (rb_id b)" "contract_wf c" "tc_version c = current_task_contract_version"
proof -
  show "tc_task_id c = task_id t" "tc_source c = task_source t" "tc_repository_binding_id c = rb_id b"
    "task_repository_binding_id t = Some (rb_id b)" "tc_version c = current_task_contract_version"
    by (rule assess_parts [OF assms], simp add: task_contract_try_from_ok normalized_def)+
  show "contract_wf c" by (rule assess_parts [OF assms]) (rule try_from_wf)
qed

text \<open>C25: A plan promises only what the captured commit shows. A contract that planning makes is valid
  and is the task's own (its id, source and binding). The captured commit is the head of the pull request,
  or for an issue the bound commit of the default branch; it is the commit that the contract names as head
  (for an issue, as base), and it exists in the repository. Each of the contract's commands is one of the two the planner trusts, backed by a manifest and a lockfile that are regular
  files of at most 4 MiB of that very commit; a dirty checkout was refused unless it is the bound clone; and
  it requires the capabilities of its kind of source alone: only a pull request can come to a merge.\<close>

theorem plan_sound:
  assumes "assess env t b = Inr c"
  shows "contract_wf c \<and> tc_task_id c = task_id t \<and> tc_source c = task_source t \<and>
    tc_repository_binding_id c = rb_id b \<and> task_repository_binding_id t = Some (rb_id b) \<and>
    (\<exists>sha i. (case task_source t of
        GitHubPullRequest p \<Rightarrow> sha = pr_head_sha p \<and> tc_head_sha c = Some sha \<and> tc_base_sha c = Some (pr_base_sha p)
      | _ \<Rightarrow> rb_default_branch_sha b = Some sha \<and> tc_head_sha c = None \<and> tc_base_sha c = Some sha) \<and>
      inspect env (task_repository_path t) = Inr i \<and> commit_exists env (ri_root i) sha = Inr True \<and>
      (\<not> ri_dirty i \<or> is_bound_managed_source env (ri_root i) b) \<and>
      (\<forall>command \<in> set (tc_verification_commands c). backed env (ri_root i) sha command)) \<and>
    tc_verification_commands c \<noteq> [] \<and>
    (tc_required_capabilities c = issue_capabilities \<and> (\<exists>issue. task_source t = GitHubIssue issue) \<or>
     tc_required_capabilities c = pull_request_capabilities \<and> (\<exists>p. task_source t = GitHubPullRequest p)) \<and>
    (CapMergePullRequest \<in> set (tc_required_capabilities c) \<longleftrightarrow> (\<exists>p. task_source t = GitHubPullRequest p))"
  using assms
proof (rule assess_parts)
  fix sha i detected digests source_json goal criteria capabilities
  assume sha: "first_some [source_head_sha (task_source t), source_base_sha (task_source t), rb_default_branch_sha b] = Some sha"
    and i: "inspect env (task_repository_path t) = Inr i" "ri_dirty i \<longrightarrow> is_bound_managed_source env (ri_root i) b"
      "commit_exists env (ri_root i) sha = Inr True"
    and d: "detect_boundary env (ri_root i) sha = Inr detected"
    and intent: "contract_intent t = Inr (goal, criteria, capabilities)"
    and c: "task_contract_try_from \<lparr>tc_task_id = task_id t,
       tc_source = task_source t, tc_repository_binding_id = rb_id b, tc_goal = goal,
       tc_acceptance_criteria = criteria,
       tc_base_sha = first_some [source_base_sha (task_source t), rb_default_branch_sha b],
       tc_head_sha = source_head_sha (task_source t),
       tc_source_sha256 = pl_sha256_hex env source_json,
       tc_repository_sha256 = digest_evidence env (db_evidence detected),
       tc_instruction_digests = digests, tc_verification_commands = db_commands detected,
       tc_required_capabilities = capabilities, tc_risk = Moderate,
       tc_sensitive_paths = db_sensitive_paths detected, tc_dependencies = []\<rparr> = Inr c"
  have commands: "tc_verification_commands c = db_commands detected" "tc_required_capabilities c = capabilities"
    "tc_head_sha c = source_head_sha (task_source t)"
    "tc_base_sha c = first_some [source_base_sha (task_source t), rb_default_branch_sha b]"
    using c by (simp_all add: task_contract_try_from_ok normalized_def)
  have source: "capabilities = issue_capabilities \<and> (\<exists>issue. task_source t = GitHubIssue issue) \<or>
    capabilities = pull_request_capabilities \<and> (\<exists>p. task_source t = GitHubPullRequest p)"
    using contract_intent_ok [OF intent] by blast
  have merge: "CapMergePullRequest \<notin> set issue_capabilities" "CapMergePullRequest \<in> set pull_request_capabilities"
    by (simp_all add: issue_capabilities_def pull_request_capabilities_def)
  have "case task_source t of
        GitHubPullRequest p \<Rightarrow> sha = pr_head_sha p \<and> tc_head_sha c = Some sha \<and> tc_base_sha c = Some (pr_base_sha p)
      | _ \<Rightarrow> rb_default_branch_sha b = Some sha \<and> tc_head_sha c = None \<and> tc_base_sha c = Some sha"
    using sha by (cases "task_source t"; cases "rb_default_branch_sha b") (simp_all add: commands first_some_def)
  moreover have "db_commands detected \<noteq> [] \<and> (\<forall>x \<in> set (db_commands detected). backed env (ri_root i) sha x)"
    using detect_boundary_ok [OF d] by blast
  ultimately show ?thesis
    using planned_contract_fields [OF assms] commands(1,2) source merge i by auto
qed

text \<open>A repository with a manifest and a lockfile of Cargo, each of one byte.\<close>

definition sample_git :: "string \<Rightarrow> string list \<Rightarrow> git_result" where
  "sample_git root args = (let command = hd args; subject = last args in
     if command = ''rev-parse'' then GitExit True (if subject = ''HEAD'' then sha_a else ''/c'')
     else if command = ''branch'' then GitExit True ''main''
     else if command = ''status'' then GitExit True []
     else if command = ''remote'' then GitExit True ''https://h/r''
     else if command = ''ls-tree'' then GitExit True
       (if subject = ''Cargo.toml'' \<or> subject = ''Cargo.lock'' then ''100644 blob 1'' @ [CHR 0x09] @ subject else [])
     else if args ! 1 = ''-e'' then GitExit True []
     else GitExit True (if args ! 1 = ''-s'' then ''1'' else ''x''))"

definition sample_planning :: planning_env where
  "sample_planning = \<lparr>git = sample_git, canonicalize = Some, pl_sha256_hex = (\<lambda>_. sha256_c),
     json_source = (\<lambda>_. Some [])\<rparr>"

definition plan_task :: task where
  "plan_task = merge_task\<lparr>task_state := Discovered\<rparr>"

lemma trim_more [simp]: "trim ''/c'' = ''/c''" "trim ''1'' = ''1''" "trim [] = []" "trim sha_a = sha_a"
proof -
  show "trim ''/c'' = ''/c''" "trim ''1'' = ''1''" by (rule trim_word; simp add: is_ascii_graphic_def)+
  show "trim [] = []" by (rule trim_word) simp
  show "trim sha_a = sha_a" by (rule trim_word) (simp add: sha_a_def is_ascii_graphic_def list_all_iff)
qed

lemma sample_inspect:
  "inspect sample_planning path = Inr \<lparr>ri_root = ''/c'', ri_branch = ''main'', ri_head_sha = sha_a, ri_dirty = False\<rparr>"
proof -
  have u: "utf8_valid ''/c''" "utf8_valid ''main''" "utf8_valid []" by (rule ascii_utf8; simp)+
  have v: "utf8_valid sha_a" by (rule ascii_utf8) (simp add: sha_a_def list_all_iff)
  show ?thesis
    by (simp add: inspect_def git_text_def sample_planning_def sample_git_def u v Let_def)
qed

lemma sample_read:
  "read_regular_evidence_at_commit sample_planning ''/c'' sha path =
     Inr (if path = ''Cargo.toml'' \<or> path = ''Cargo.lock'' then Some ''x'' else None)"
proof (cases "path = ''Cargo.toml'' \<or> path = ''Cargo.lock''")
  case True
  have u: "utf8_valid ''100644 blob 1''" "utf8_valid ''1''" by (rule ascii_utf8; simp)+
  have t: "tree_mode path (''100644 blob 1'' @ [CHR 0x09] @ path) = Inr ''100644''"
    using u by (simp add: tree_mode_def first_ascii_word_def is_ascii_whitespace_def)
  have n: "parse_u64 ''1'' = Some 1"
    by (simp add: parse_u64_def digit_value_def is_digit_def Let_def)
  show ?thesis
    using True t n u(2)
    by (auto simp: read_regular_evidence_at_commit_def git_output_def sample_planning_def sample_git_def
        Let_def max_evidence_bytes_def)
next
  case False
  then show ?thesis
    by (simp add: read_regular_evidence_at_commit_def git_output_def sample_planning_def sample_git_def Let_def)
qed

definition cargo_command :: verification_command where
  "cargo_command = \<lparr>vc_program = ''cargo'', vc_args = [''test'', ''--workspace'']\<rparr>"

definition cargo_lock_path :: sensitive_path where
  "cargo_lock_path = \<lparr>sp_path = ''Cargo.lock'', sp_reason = lockfile_reason\<rparr>"

lemma sample_words:
  "trim ''cargo'' = ''cargo''" "trim ''swift'' = ''swift''" "trim ''Cargo.lock'' = ''Cargo.lock''"
  "trim ''resolvedInstructions'' = ''resolvedInstructions''"
  "\<not> any_char is_control ''cargo''" "\<not> any_char is_control ''swift''" "\<not> any_char is_control ''--workspace''"
  by (rule trim_word graphic_clean(2); simp add: is_ascii_graphic_def)+

lemma sample_commands:
  "verification_command_new ''cargo'' [''test'', ''--workspace''] = Inr cargo_command"
  "verification_command_new ''swift'' [''test''] = Inr \<lparr>vc_program = ''swift'', vc_args = [''test'']\<rparr>"
  by (simp_all add: verification_command_new_def nonempty_def sample_words cargo_command_def)

lemma sample_path: "sensitive_path_new ''Cargo.lock'' lockfile_reason = Inr cargo_lock_path"
proof -
  have "trim lockfile_reason = lockfile_reason"
    by (rule trim_printable) (simp_all add: lockfile_reason_def is_ascii_printable_def is_ascii_graphic_def)
  then have "nonempty lockfile_reason f = Inr ()" for f by (simp add: nonempty_def lockfile_reason_def)
  then show ?thesis
    by (simp add: sensitive_path_new_def sample_words path_is_absolute_def starts_with_def path_components_def
        cargo_lock_path_def)
qed

lemma sample_boundary:
  "detect_boundary sample_planning ''/c'' sha = Inr \<lparr>db_evidence = [(''Cargo.toml'', ''x''), (''Cargo.lock'', ''x'')],
     db_commands = [cargo_command], db_sensitive_paths = [cargo_lock_path]\<rparr>"
  by (simp add: detect_boundary_def sample_commands detect_pair_def sample_read sample_path no_boundary_def)

definition sample_digests :: "instruction_digest list" where
  "sample_digests = [\<lparr>dig_source = ''resolvedInstructions'', dig_sha256 = sha256_c, dig_precedence = 0\<rparr>]"

lemma sample_plan_digests: "plan_digests sample_planning ''/c'' sha = Inr sample_digests"
proof -
  have "pl_sha256_hex sample_planning v = sha256_c" for v by (simp add: sample_planning_def)
  moreover have "validate_sha256 sha256_c f = Inr ()" for f by (simp add: valid_simps)
  ultimately show ?thesis
    by (simp add: plan_digests_def sample_read instruction_digest_new_def nonempty_def sample_words sample_digests_def)
qed

definition sample_goal :: string where
  "sample_goal = ''Complete GitHub pull request #'' @ decimal 4 @ '' in '' @ ''o/r'' @ '': '' @ ''Fix''"

definition sample_criterion :: string where
  "sample_criterion = ''Requested changes are complete and every captured verification command passes.''"

lemma sample_texts: "trim sample_goal = sample_goal" "sample_goal \<noteq> []"
  "trim sample_criterion = sample_criterion" "sample_criterion \<noteq> []"
proof -
  show "trim sample_goal = sample_goal"
    by (rule trim_printable) (simp_all add: sample_goal_def decimal.simps is_ascii_printable_def is_ascii_graphic_def)
  show "trim sample_criterion = sample_criterion"
    by (rule trim_printable) (simp_all add: sample_criterion_def is_ascii_printable_def is_ascii_graphic_def)
qed (simp_all add: sample_goal_def sample_criterion_def)

lemma sample_intent: "contract_intent plan_task = Inr (sample_goal, [sample_criterion], pull_request_capabilities)"
  by (simp add: contract_intent_def plan_task_def merge_task_def sample_task_def sample_pull_request_def
      source_repository_full_name_def source_item_number_def sample_goal_def sample_criterion_def)

definition planned_contract :: task_contract where
  "planned_contract = \<lparr>tc_task_id = 7, tc_source = GitHubPullRequest sample_pull_request,
     tc_repository_binding_id = 3, tc_goal = sample_goal, tc_acceptance_criteria = [sample_criterion],
     tc_base_sha = Some sha_b, tc_head_sha = Some sha_a, tc_source_sha256 = sha256_c,
     tc_repository_sha256 = sha256_c, tc_instruction_digests = sample_digests,
     tc_verification_commands = [cargo_command], tc_required_capabilities = pull_request_capabilities,
     tc_risk = Moderate, tc_sensitive_paths = [cargo_lock_path], tc_dependencies = [], tc_version = 2\<rparr>"

lemma sample_parts_ok:
  "recheck_command cargo_command = Inr cargo_command" "recheck_path cargo_lock_path = Inr cargo_lock_path"
  "list_all (\<lambda>x. is_ok (recheck_digest x)) sample_digests"
  using sample_commands(1) sample_path
  by (simp_all add: recheck_command_def cargo_command_def recheck_path_def cargo_lock_path_def recheck_digest_def
      sample_digests_def instruction_digest_new_def nonempty_def sample_words valid_simps is_ok_iff result_simps)

lemma sample_draft_ok: "draft_ok planned_contract" "normalized 2 planned_contract = planned_contract"
proof -
  show "draft_ok planned_contract"
    using sample_source_wf sample_parts_ok
    by (simp add: draft_ok_def planned_contract_def sample_texts sample_texts(4) [symmetric] sample_pull_request_def)
  show "normalized 2 planned_contract = planned_contract"
    by (simp add: normalized_def planned_contract_def sample_texts)
qed

lemma sample_assess: "assess sample_planning plan_task sample_binding = Inr planned_contract"
proof -
  have t: "task_id plan_task = 7" "task_source plan_task = GitHubPullRequest sample_pull_request"
    "task_repository_binding_id plan_task = Some 3"
    by (simp_all add: plan_task_def merge_task_def sample_task_def)
  have shas: "source_head_sha (GitHubPullRequest sample_pull_request) = Some sha_a"
    "source_base_sha (GitHubPullRequest sample_pull_request) = Some sha_b" "rb_id sample_binding = 3"
    "pr_head_sha sample_pull_request = sha_a" "pr_base_sha sample_pull_request = sha_b"
    by (simp_all add: source_head_sha_def source_base_sha_def sample_pull_request_def sample_binding_def)
  have env: "json_source sample_planning x = Some []" "pl_sha256_hex sample_planning v = sha256_c"
    "digest_evidence sample_planning e = sha256_c" "commit_exists sample_planning ''/c'' sha_a = Inr True" for x v e
    by (simp_all add: sample_planning_def digest_evidence_def commit_exists_def sample_git_def Let_def)
  have "task_contract_try_from (task_contract_draft.truncate planned_contract) = Inr planned_contract"
  proof -
    have "draft_ok (task_contract_draft.truncate planned_contract)"
      using sample_draft_ok(1) by (simp add: draft_ok_def task_contract_draft.truncate_def)
    moreover have "normalized 2 (task_contract_draft.truncate planned_contract) = planned_contract"
      using sample_draft_ok(2) by (simp add: normalized_def task_contract_draft.truncate_def)
    ultimately show ?thesis by (simp add: task_contract_try_from_ok current_task_contract_version_def)
  qed
  then show ?thesis
    by (simp add: assess_def t shas env first_some_def sample_inspect sample_boundary sample_plan_digests
        sample_intent task_contract_draft.truncate_def planned_contract_def)
qed

theorem plan_sound_witness:
  "contract_wf planned_contract \<and> CapMergePullRequest \<in> set (tc_required_capabilities planned_contract) \<and>
    (\<exists>sha. commit_exists sample_planning ''/c'' sha = Inr True \<and>
      (\<forall>command \<in> set (tc_verification_commands planned_contract). backed sample_planning ''/c'' sha command))"
proof -
  note plan = plan_sound [OF sample_assess]
  obtain sha where "commit_exists sample_planning ''/c'' sha = Inr True"
    "\<forall>command \<in> set (tc_verification_commands planned_contract). backed sample_planning ''/c'' sha command"
    using plan by (auto simp: sample_inspect)
  with plan show ?thesis by (auto simp: plan_task_def merge_task_def)
qed

text \<open>The digest of a contract pins its evidence. Two lists of evidence of the same digest are the
  same files with the same contents in the same order, or else they show two different inputs on which
  SHA-256 collides: the length prefixes leave no two readings of the hashed bytes.\<close>

theorem evidence_pinned:
  assumes "sized es" "sized fs" "digest_evidence env es = digest_evidence env fs"
  shows "es = fs \<or> evidence_bytes es \<noteq> evidence_bytes fs \<and>
    pl_sha256_hex env (evidence_bytes es) = pl_sha256_hex env (evidence_bytes fs)"
  using assms evidence_bytes_inject [of es fs] by (auto simp: digest_evidence_def)

theorem evidence_pinned_witness:
  "digest_evidence (sample_planning\<lparr>pl_sha256_hex := \<lambda>v. v\<rparr>) [(''a'', ''bc'')] \<noteq>
     digest_evidence (sample_planning\<lparr>pl_sha256_hex := \<lambda>v. v\<rparr>) [(''ab'', ''c'')]"
proof
  assume e: "digest_evidence (sample_planning\<lparr>pl_sha256_hex := \<lambda>v. v\<rparr>) [(''a'', ''bc'')] =
    digest_evidence (sample_planning\<lparr>pl_sha256_hex := \<lambda>v. v\<rparr>) [(''ab'', ''c'')]"
  show False using evidence_pinned [OF _ _ e] by (simp add: sized_def)
qed

section \<open>The planning handler\<close>

text \<open>C26: A plan is committed to the task it was made for. When the planning of a new task succeeds, the
  task had not changed while the store was unlocked; the contract is the one assessed, stored so that it
  reads back; the task awaits the approval of its preparation with the contract's version; and the log
  has gained exactly the three steps in their order.\<close>

theorem plan_committed:
  assumes "load_task i s = Some t" "task_state t = Discovered" "task_plan w now i s = (s', Inr t')"
  shows "load_task i (pw_others w s) = Some t \<and>
    (\<exists>b c es. repository_binding (rb_id b) s = Some b \<and> assess (pw_git w) t b = Inr c \<and>
      load_task_contract (task_id t) s' = Inr (Some c) \<and>
      t' = t\<lparr>task_contract_version := current_task_contract_version,
        task_state := AwaitingPreparationApproval, task_updated_at := now\<rparr> \<and>
      load_task (task_id t) s' = Some t' \<and>
      st_task_events s' = st_task_events (pw_others w s) @ es \<and>
      map (\<lambda>e. (task_state (te_payload e), te_summary e)) es = planning_steps)"
proof -
  obtain binding_id b c where p: "task_repository_binding_id t = Some binding_id" "repository_binding binding_id s = Some b"
    "assess (pw_git w) t b = Inr c" "load_task i (pw_others w s) = Some t"
    "s' = planned_store now c t planning_steps (pw_others w s)"
    "t' = planned_task now c AwaitingPreparationApproval t"
    using assms(3) unfolding task_plan_ok [OF assms(1,2)] by blast
  note f = planned_contract_fields [OF p(3)]
  have b: "binding_id = rb_id b" using p(1) f(4) by simp
  have stored: "load_task_contract (task_id t) s' = Inr (Some c)"
    using contract_saved [OF f(5)] planned_store_rows(2) unfolding p(5) f(1) [symmetric] by blast
  have t': "t' = t\<lparr>task_contract_version := current_task_contract_version,
      task_state := AwaitingPreparationApproval, task_updated_at := now\<rparr>"
    using p(6) f(6) by (simp add: planned_task_def)
  have row: "load_task (task_id t) s' = Some t'"
    unfolding p(5,6) planned_store_rows(3) by (simp add: planning_steps_def)
  have events: "\<exists>es. st_task_events s' = st_task_events (pw_others w s) @ es \<and>
      map (\<lambda>e. (task_state (te_payload e), te_summary e)) es = planning_steps"
    unfolding p(5) planned_store_rows(4) by (rule exI, rule conjI [OF refl])
      (simp add: planning_steps_def planned_task_def)
  show ?thesis using p(2,3,4) b stored t' row events by blast
qed

definition planning_store :: store where
  "planning_store = empty_store\<lparr>st_tasks := [(7, plan_task)],
     st_bindings := [(3, \<lparr>bw_full_name = ''o/r'', bw_payload = sample_binding, bw_updated_at = 0\<rparr>)]\<rparr>"

text \<open>A world in which files can be made and git succeeds.\<close>

definition sample_git_world :: git_world where
  "sample_git_world = \<lparr>gw_exists = (\<lambda>_. False), gw_make_parent = (\<lambda>_. True), gw_make_dir = (\<lambda>_. True),
     gw_askpass = (\<lambda>_. NoAskpass), gw_create_file = (\<lambda>_ _. True), gw_restrict = (\<lambda>_. True),
     gw_environment = [(''GIT_CONFIG_COUNT'', ''1''), (''HOME'', ''/h'')], gw_run = (\<lambda>_. Some True),
     gw_git = sample_planning\<rparr>"

definition sample_planning_world :: planning_world where
  "sample_planning_world = \<lparr>pw_git_start = sample_planning, pw_repository_exists = True, pw_token = None,
     pw_clone = sample_git_world, pw_git = sample_planning, pw_others = (\<lambda>s. s)\<rparr>"

lemma planning_store_rows [simp]: "load_task 7 planning_store = Some plan_task" "task_state plan_task = Discovered"
  "task_repository_binding_id plan_task = Some 3" "repository_binding 3 planning_store = Some sample_binding"
  "task_id plan_task = 7"
  by (simp_all add: planning_store_def load_task_def repository_binding_def find_row_def empty_store_def
      plan_task_def merge_task_def sample_task_def)

lemma sample_task_plan: "task_plan sample_planning_world 5 7 planning_store =
    (planned_store 5 planned_contract plan_task planning_steps planning_store,
     Inr (planned_task 5 planned_contract AwaitingPreparationApproval plan_task))"
  unfolding task_plan_ok [OF planning_store_rows(1,2)]
  by (simp add: sample_planning_world_def ensure_planning_repository_def sample_inspect sample_assess)

theorem plan_committed_witness:
  "\<exists>s' t'. task_plan sample_planning_world 5 7 planning_store = (s', Inr t') \<and>
     load_task 7 s' = Some t' \<and> task_state t' = AwaitingPreparationApproval \<and> length (st_task_events s') = 3"
proof -
  note p = plan_committed [OF planning_store_rows(1,2) sample_task_plan]
  obtain s' t' where s: "s' = planned_store 5 planned_contract plan_task planning_steps planning_store"
    "t' = planned_task 5 planned_contract AwaitingPreparationApproval plan_task" by blast
  have "st_task_events (pw_others sample_planning_world planning_store) = []"
    by (simp add: sample_planning_world_def planning_store_def empty_store_def)
  then have "load_task 7 s' = Some t' \<and> task_state t' = AwaitingPreparationApproval \<and> length (st_task_events s') = 3"
    using p unfolding s [symmetric] by (auto simp: planning_steps_def dest: arg_cong [where f = length])
  then show ?thesis using sample_task_plan s by blast
qed

text \<open>An interrupted plan is never resumed. The three steps are saved one by one; when the engine
  stops after the first or the second, the task is left assessing or planned, and from then on every
  request to plan it, however the repository looks, is refused and changes nothing.\<close>

theorem interrupted_plan_stuck:
  assumes "load_task (task_id t) s = Some t" "task_state t = Discovered" "n = 1 \<or> n = 2"
    and "save_steps now (take n planning_steps) (t\<lparr>task_contract_version := tc_version c\<rparr>)
      (save_task_contract now c s) = (s', Inr t')"
  shows "load_task (task_id t) s' = Some t' \<and> task_state t' = (if n = 1 then Assessing else Planned) \<and>
    task_plan w later (task_id t) s' = (s', Inl not_plannable)"
proof -
  have r: "s' = planned_store now c t (take n planning_steps) s"
    "t' = planned_task now c (fst (planning_steps ! (n - 1))) t"
    using assms(4) save_steps_planning [OF assms(2), of n now c s] assms(3) by auto
  have st: "task_state t' = (if n = 1 then Assessing else Planned)"
    using assms(3) by (auto simp: r(2) planned_task_def planning_steps_def)
  have row: "load_task (task_id t) s' = Some t'"
    using assms(3) unfolding r planned_store_rows(3) by (auto simp: planning_steps_def)
  then show ?thesis using st by (simp add: task_plan_def begin_planning_def)
qed

theorem interrupted_plan_stuck_witness:
  "\<exists>s' t'. save_steps 5 (take 1 planning_steps) (plan_task\<lparr>task_contract_version := 2\<rparr>)
      (save_task_contract 5 planned_contract planning_store) = (s', Inr t') \<and>
     task_plan sample_planning_world 6 7 s' = (s', Inl not_plannable)"
proof -
  have v: "tc_version planned_contract = 2" by (simp add: planned_contract_def)
  have i: "load_task (task_id plan_task) planning_store = Some plan_task" by simp
  note step = save_steps_planning [OF planning_store_rows(2), of 1 5 planned_contract planning_store, simplified]
  note stuck = interrupted_plan_stuck [OF i planning_store_rows(2), of 1 5 planned_contract, simplified]
  show ?thesis using step stuck [OF step] v by auto
qed

end
