(* ===== verification/Preparation_Properties.thy ===== *)
theory Preparation_Properties
  imports Task_Properties
begin

text \<open>
  The properties of the preparation of a worktree, of the commands that carry the installation token,
  and of the verification before delivery (\<open>preparation.rs\<close>, \<open>worktree.rs\<close>, \<open>command.rs\<close>,
  \<open>verification.rs\<close>), with their witnesses.
\<close>

section \<open>Approval and preparation\<close>

lemma approve_preparation_ok:
  "approve_preparation env fresh now p who s = Inr (s', a) \<longleftrightarrow>
     preview_preparation env (pv_task_id p) s = Inr p \<and>
     new_approval fresh Preparation PrepareWorktree (pv_fingerprint p) who now (now + minutes 10) = Inr a \<and>
     s' = save_approval (preparation_digest env) a s"
  by (auto simp: approve_preparation_def and_then_eq_Inr ensure_eq_Inr map_err_eq_Inr preparation_digest_def)

lemma preview_preparation_id:
  assumes "preview_preparation env i s = Inr p" "load_task i s = Some t"
  shows "pv_task_id p = task_id t" "fp_task_id (pv_fingerprint p) = task_id t"
  using assms preview_of_parts by (auto simp: preview_preparation_ok)

text \<open>The claim that an approval allows.\<close>

lemma approved_claim:
  assumes "approve_preparation env fresh now p who s = Inr (s1, a)"
    and "\<not> has_row fresh (st_approvals s)" "\<not> has_row fresh (st_preparations s)"
    and "\<not> preparation_active (pv_task_id p) s" "pe_kill_switch env \<noteq> Some ''1''"
    and "now \<le> later" "later < now + minutes 10" "pe_julianday env later < pe_julianday env (now + minutes 10)"
  shows "authorize_preparation env later p fresh s1 = Inr (fst (claim_preparation (pe_julianday env) fresh
      (pv_task_id p) (preparation_digest env (pv_fingerprint p)) later s1))"
proof -
  note a = assms(1) [unfolded approve_preparation_ok]
  then have a1: "preview_preparation env (pv_task_id p) s = Inr p"
    and new: "new_approval fresh Preparation PrepareWorktree (pv_fingerprint p) who now (now + minutes 10) = Inr a"
    and s1: "s1 = save_approval (preparation_digest env) a s" by auto
  have fields: "ap_id a = fresh" "ap_fingerprint a = pv_fingerprint p" "ap_expires_at a = now + minutes 10"
    "is_valid_for a Preparation PrepareWorktree (pv_fingerprint p) later"
    using new assms(6,7) by (auto simp: new_approval_ok is_valid_for_def)
  have same: "st_tasks s1 = st_tasks s" "st_contracts s1 = st_contracts s" "st_bindings s1 = st_bindings s"
    "st_preparations s1 = st_preparations s"
    by (simp_all add: s1 save_approval_def)
  obtain t where t: "load_task (pv_task_id p) s = Some t" using a1 by (auto simp: preview_preparation_ok)
  have tid: "fp_task_id (pv_fingerprint p) = pv_task_id p" "fp_action_kind (pv_fingerprint p) = capability_action_kind PrepareWorktree"
    using preview_preparation_id [OF a1 t] a1 preview_of_parts(4) by (auto simp: preview_preparation_ok)
  have row: "find_row fresh (st_approvals s1) = Some \<lparr>aw_task_id = pv_task_id p, aw_capability = PrepareWorktree,
      aw_action_digest = preparation_digest env (pv_fingerprint p), aw_payload = a,
      aw_expires_at = now + minutes 10, aw_invalidated_at = None\<rparr>"
    using assms(2) new tid by (auto simp: s1 save_approval_def has_row_def new_approval_ok)
  have "preview_preparation env (pv_task_id p) s1 = Inr p"
    using a1 preview_preparation_cong [OF same(1,2,3)] by simp
  moreover have "load_approval fresh s1 = Some a" using row by (simp add: load_approval_def)
  moreover have "authorize (policy_default (pe_kill_switch env)) PrepareWorktree (pv_fingerprint p) (Some a) later = Allowed"
    using fields(4) tid(2) assms(5) by (simp add: authorize_Allowed_iff policy_default_def required_class_def)
  moreover have "preparation_approval_ok (pe_julianday env) fresh (pv_task_id p) (preparation_digest env (pv_fingerprint p)) later s1"
    using row assms(8) by (simp add: preparation_approval_ok_def)
  moreover have "\<not> has_row fresh (st_preparations s1)" "\<not> preparation_active (pv_task_id p) s1"
    using assms(3,4) same(4) by (simp_all add: preparation_active_def)
  ultimately show ?thesis
    unfolding authorize_preparation_ok by blast
qed

text \<open>An approved preparation goes through, once. The operator's approval of a preview lets the
  preparation of exactly this preview be claimed at any time within ten minutes, unless the kill switch
  is set, a preparation of the task is under way or the task, its contract or its binding have changed;
  and the claim uses the approval up: no second claim with it succeeds, at any time.\<close>

theorem approve_then_prepare:
  assumes "approve_preparation env fresh now p who s = Inr (s1, a)"
    and "\<not> has_row fresh (st_approvals s)" "\<not> has_row fresh (st_preparations s)"
    and "\<not> preparation_active (pv_task_id p) s" "pe_kill_switch env \<noteq> Some ''1''"
    and "now \<le> later" "later < now + minutes 10" "pe_julianday env later < pe_julianday env (now + minutes 10)"
  shows "\<exists>s2. authorize_preparation env later p fresh s1 = Inr s2 \<and>
    (\<forall>even_later q. \<exists>e. authorize_preparation env even_later q fresh s2 = Inl e)"
proof -
  let ?s2 = "fst (claim_preparation (pe_julianday env) fresh (pv_task_id p)
    (preparation_digest env (pv_fingerprint p)) later s1)"
  have ok: "authorize_preparation env later p fresh s1 = Inr ?s2" using approved_claim [OF assms] .
  have "authorize_claim env (later, p, fresh) s1 = (?s2, True)"
    using ok by (simp add: authorize_claim_def)
  then have no: "authorize_claim env (even_later, q, fresh) ?s2 = (?s2, False)" for even_later q
    by (rule used_approvals.second_refused [OF TrueI]) simp
  have "\<exists>e. authorize_preparation env even_later q fresh ?s2 = Inl e" for even_later q
    using no [of even_later q]
    by (cases "authorize_preparation env even_later q fresh ?s2") (auto simp: authorize_claim_def)
  with ok show ?thesis by blast
qed

text \<open>A preparation on the store that the planning of the sample leaves.\<close>

definition sample_preparation :: preparation_env where
  "sample_preparation = \<lparr>pe_sha256_hex = (\<lambda>_. sha256_c), pe_json_digests = (\<lambda>_. Some []),
     pe_json_contract = (\<lambda>_. Some []), pe_json_payload = (\<lambda>_. Some []), pe_json_fingerprint = (\<lambda>_. []),
     pe_show_task_id = (\<lambda>_. ''t''), pe_kill_switch = None, pe_julianday = (\<lambda>t. t)\<rparr>"

definition awaiting_task :: task where
  "awaiting_task = plan_task\<lparr>task_contract_version := 2, task_state := AwaitingPreparationApproval\<rparr>"

definition preparation_store :: store where
  "preparation_store = planning_store\<lparr>st_tasks := [(7, awaiting_task)],
     st_contracts := [(7, \<lparr>cw_binding_id = 3, cw_version = 2, cw_payload = CurrentShape planned_contract,
       cw_updated_at = 0\<rparr>)]\<rparr>"

definition preparation_sample :: preparation_preview where
  "preparation_sample = \<lparr>pv_task_id = 7, pv_repository_binding_id = 3, pv_repository_full_name = ''o/r'',
     pv_repository_path = ''/c'', pv_source_sha = sha_a, pv_worktree_path = ''/w/t'', pv_branch = ''patchwright/t'',
     pv_invalidation_generation = 0, pv_policy_sha256 = sha256_c, pv_instruction_sha256 = sha256_c,
     pv_contract = planned_contract,
     pv_fingerprint = preparation_fingerprint sample_preparation awaiting_task sample_binding sha_a [] []\<rparr>"

lemma awaiting_fields [simp]: "task_id awaiting_task = 7" "task_state awaiting_task = AwaitingPreparationApproval"
  "task_repository_binding_id awaiting_task = Some 3" "task_updated_at awaiting_task = 0"
  by (simp_all add: awaiting_task_def plan_task_def merge_task_def sample_task_def)

lemma contract_fields [simp]: "tc_task_id planned_contract = 7" "tc_repository_binding_id planned_contract = 3"
  "tc_head_sha planned_contract = Some sha_a"
  by (simp_all add: planned_contract_def)

lemma preparation_rows: "load_task 7 preparation_store = Some awaiting_task"
  "repository_binding 3 preparation_store = Some sample_binding"
  "load_task_contract 7 preparation_store = Inr (Some planned_contract)"
  "st_approvals preparation_store = []" "st_preparations preparation_store = []"
proof -
  have "contract_wf planned_contract" using planned_contract_fields(5) [OF sample_assess] .
  then have "decode_task_contract planned_contract = Inr planned_contract" by (rule decode_wf_contract)
  then show "load_task_contract 7 preparation_store = Inr (Some planned_contract)"
    by (simp add: preparation_store_def load_task_contract_def find_row_def json_as_contract_def)
qed (simp_all add: preparation_store_def planning_store_def load_task_def repository_binding_def find_row_def empty_store_def)

lemma sample_preparation_fingerprint:
  "fingerprint_try_from (preparation_fingerprint sample_preparation awaiting_task sample_binding sha_a [] []) =
     Inr (preparation_fingerprint sample_preparation awaiting_task sample_binding sha_a [] [])"
proof -
  have "split_once CHR ''/'' ''o/r'' = Some (''o'', ''r'')" by (simp add: split_once_Some)
  moreover have "\<not> any_char (\<lambda>ch. is_whitespace ch \<or> is_control ch) ''o/r''"
    "\<not> any_char is_control (capability_action_kind PrepareWorktree)" "capability_action_kind PrepareWorktree \<noteq> []"
    "\<not> any_char is_control ''patchwright/t''"
    by (rule graphic_clean, simp add: is_ascii_graphic_def, rule graphic_clean)
      (simp_all add: is_ascii_graphic_def capability_action_kind_def graphic_clean)
  moreover have "trim ''patchwright/t'' = ''patchwright/t''" by (rule trim_word) (simp add: is_ascii_graphic_def)
  ultimately show ?thesis
    by (simp add: fingerprint_try_from_ok approval_repository_name_def preparation_fingerprint_def
        capability_kind_trim validated_text_ok sample_preparation_def validated_optional_text_ok sample_binding_def)
qed

lemma sample_preparation_preview: "preview_preparation sample_preparation 7 preparation_store = Inr preparation_sample"
proof -
  have b: "rb_id sample_binding = 3" "rb_full_name sample_binding = ''o/r''" "rb_managed_clone sample_binding = Some ''/c''"
    "rb_worktree_root sample_binding = ''/w''"
    by (simp_all add: sample_binding_def)
  have e: "pe_show_task_id sample_preparation i = ''t''" "pe_json_digests sample_preparation d = Some []"
    "pe_json_contract sample_preparation c = Some []" "pe_json_payload sample_preparation y = Some []"
    "pe_sha256_hex sample_preparation v = sha256_c" for i d c y v
    by (simp_all add: sample_preparation_def)
  have path: "path_join ''/w'' ''t'' = ''/w/t''"
    by (simp add: path_join_def path_is_absolute_def starts_with_def ends_with_char_def)
  have g: "invalidation_generation 0 = 0" by (simp add: invalidation_generation_def)
  have "preview_of sample_preparation awaiting_task sample_binding planned_contract = Inr preparation_sample"
    by (simp add: preview_of_def b e path g Let_def sample_preparation_fingerprint preparation_sample_def)
  then show ?thesis by (simp add: preview_preparation_ok preparation_rows)
qed

definition sample_preparation_approval :: approval where
  "sample_preparation_approval = \<lparr>ap_id = 40, ap_class = Preparation, ap_capability = PrepareWorktree,
     ap_fingerprint = pv_fingerprint preparation_sample, ap_approved_by = ''who'', ap_approved_at = 0,
     ap_expires_at = minutes 10\<rparr>"

definition approved_store :: store where
  "approved_store = save_approval (preparation_digest sample_preparation) sample_preparation_approval preparation_store"

lemma sample_preparation_approved:
  "approve_preparation sample_preparation 40 0 preparation_sample ''who'' preparation_store =
     Inr (approved_store, sample_preparation_approval)"
proof -
  have "fp_action_kind (pv_fingerprint preparation_sample) = capability_action_kind PrepareWorktree"
    "pv_task_id preparation_sample = 7"
    by (simp_all add: preparation_sample_def preparation_fingerprint_def)
  then show ?thesis
    by (simp add: approve_preparation_ok sample_preparation_preview new_approval_ok approved_store_def
        sample_preparation_approval_def class_supports_def max_approval_duration_def minutes_def seconds_def)
qed

lemma sample_conditions:
  "\<not> has_row 40 (st_approvals preparation_store)" "\<not> has_row 40 (st_preparations preparation_store)"
  "\<not> preparation_active (pv_task_id preparation_sample) preparation_store"
  "pe_kill_switch sample_preparation \<noteq> Some ''1''" "(0 :: timestamp) \<le> 1" "1 < (0 :: timestamp) + minutes 10"
  "pe_julianday sample_preparation 1 < pe_julianday sample_preparation (0 + minutes 10)"
  by (simp_all add: preparation_rows has_row_def find_row_def preparation_active_def sample_preparation_def
      minutes_def seconds_def)

theorem approve_then_prepare_witness:
  "\<exists>s1 a s2. approve_preparation sample_preparation 40 0 preparation_sample ''who'' preparation_store = Inr (s1, a) \<and>
     authorize_preparation sample_preparation 1 preparation_sample 40 s1 = Inr s2 \<and>
     (\<exists>e. authorize_preparation sample_preparation 2 preparation_sample 40 s2 = Inl e)"
proof -
  show ?thesis
    using approve_then_prepare [OF sample_preparation_approved sample_conditions] sample_preparation_approved by blast
qed


section \<open>The worktree\<close>

lemma complete_preparation_used:
  assumes "complete_preparation_claim now aid result s = Inr s'"
  shows "has_row aid (st_preparations s')"
proof -
  have "snd (update_where (\<lambda>k c. k = aid \<and> pc_completed_at c = None) f (st_preparations s)) = 1 \<Longrightarrow>
      has_row aid (st_preparations s)" for f
    by (auto simp: update_where_def matching_def has_row_iff length_Suc_conv filter_eq_Cons_iff)
  then show ?thesis
    using assms by (auto simp: complete_preparation_claim_def and_then_eq_Inr ensure_msg_ok split_def Let_def)
qed

text \<open>C24: A task is prepared as it was approved. When the preparation of a task succeeds, the preview
  still held when the worktree was made; the worktree stands on the approved branch at the approved
  commit, either found so or added there by git; the task, which awaited this, is in preparation in
  that worktree, as the reply says and as the store holds it unless another client changes the task while
  the claim is settled; and the approval is used up.\<close>

theorem prepared_as_approved:
  assumes "task_prepare env w fresh now later i p aid s = (s', Inr t')"
  shows "\<exists>s1 t. authorize_preparation env now p aid s = Inr s1 \<and>
    preview_preparation env i (ww_before w s1) = Inr p \<and> load_task i (ww_before w s1) = Some t \<and>
    task_state t = AwaitingPreparationApproval \<and>
    t' = t\<lparr>task_repository_path := pv_worktree_path p, task_state := Preparing, task_updated_at := now,
      task_checkpoint_id := Some fresh\<rparr> \<and>
    ((\<forall>s. st_tasks (ww_after w s) = st_tasks s) \<longrightarrow> load_task i s' = Some t') \<and>
    (if ww_worktree_exists w
     then (\<exists>found. inspect (ww_git w) (pv_worktree_path p) = Inr found \<and> ri_branch found = pv_branch p \<and>
       ri_head_sha found = pv_source_sha p)
     else gw_run (ww_prepare w) \<lparr>inv_arguments = [''-C'', pv_repository_path p, ''worktree'', ''add'', ''-b'', pv_branch p,
         pv_worktree_path p, pv_source_sha p], inv_environment = gw_environment (ww_prepare w)\<rparr> = Some True) \<and>
    (\<forall>any_time q. \<exists>e. authorize_preparation env any_time q aid s' = Inl e)"
proof -
  obtain s1 where i: "pv_task_id p = i" and s1: "authorize_preparation env now p aid s = Inr s1"
    using assms by (auto simp: task_prepare_def split: if_splits sum.splits)
  obtain s2 response where r: "task_prepare_claimed env w fresh now i p (ww_before w s1) = (s2, response)"
    by (cases "task_prepare_claimed env w fresh now i p (ww_before w s1)")
  then have completed: "complete_preparation_claim later aid (if is_ok response then ''succeeded'' else ''failed'')
      (ww_after w s2) = Inr s'" "response = Inr t'"
    using assms i s1 by (auto simp: task_prepare_def then_do_ok transact_ok)
  have "has_row aid (st_preparations s')" using complete_preparation_used [OF completed(1)] .
  then have used: "\<exists>e. authorize_preparation env any_time q aid s' = Inl e" for any_time q
    by (cases "authorize_preparation env any_time q aid s'") (auto simp: authorize_preparation_ok)
  from r completed(2) obtain t b where t: "preview_preparation env i (ww_before w s1) = Inr p"
    "load_task i (ww_before w s1) = Some t" "task_state t = AwaitingPreparationApproval"
    and wt: "ensure_worktree w p = Inr ()"
    and c: "commit_preparation fresh now p t (ww_others w (ww_before w s1)) = (s2, Inr t')"
    by (auto elim: task_prepare_claimed_ok)
  have "task_id t = i" using preview_preparation_id(1) [OF t(1,2)] i by simp
  then have "t' = t\<lparr>task_repository_path := pv_worktree_path p, task_state := Preparing, task_updated_at := now,
      task_checkpoint_id := Some fresh\<rparr>" "load_task i s2 = Some t'"
    using commit_preparation_ok [OF c] by (auto simp: prepared_task_def load_task_def record_task_def)
  moreover have "st_tasks s' = st_tasks (ww_after w s2)"
    using completed(1) by (auto simp: complete_preparation_claim_def and_then_eq_Inr ensure_msg_ok split_def Let_def)
  then have "(\<forall>s. st_tasks (ww_after w s) = st_tasks s) \<longrightarrow> load_task i s' = load_task i s2"
    by (simp add: load_task_def)
  moreover have "if ww_worktree_exists w
     then (\<exists>found. inspect (ww_git w) (pv_worktree_path p) = Inr found \<and> ri_branch found = pv_branch p \<and>
       ri_head_sha found = pv_source_sha p)
     else gw_run (ww_prepare w) \<lparr>inv_arguments = [''-C'', pv_repository_path p, ''worktree'', ''add'', ''-b'', pv_branch p,
         pv_worktree_path p, pv_source_sha p], inv_environment = gw_environment (ww_prepare w)\<rparr> = Some True"
    using wt by (auto simp: ensure_worktree_def and_then_eq_Inr map_err_eq_Inr ensure_eq_Inr prepare_at_def
        finish_git_ok worktree_invocation_def)
  ultimately show ?thesis using s1 t used by auto
qed

definition sample_preparation_world :: preparation_world where
  "sample_preparation_world = \<lparr>ww_repository_is_dir = True, ww_token = None, ww_clone = sample_git_world,
     ww_worktree_exists = False, ww_git = sample_planning, ww_prepare = sample_git_world, ww_before = (\<lambda>s. s),
     ww_others = (\<lambda>s. s), ww_after = (\<lambda>s. s)\<rparr>"

lemma sample_prepare:
  "\<exists>s' t'. task_prepare sample_preparation sample_preparation_world 50 1 2 7 preparation_sample 40 approved_store = (s', Inr t')"
proof -
  have p: "pv_task_id preparation_sample = 7" "pv_branch preparation_sample = ''patchwright/t''"
    "pv_source_sha preparation_sample = sha_a" "pv_worktree_path preparation_sample = ''/w/t''"
    by (simp_all add: preparation_sample_def)
  have ok: "preparation_approval_ok (pe_julianday sample_preparation) 40 7
      (preparation_digest sample_preparation (pv_fingerprint preparation_sample)) 1 approved_store \<and>
      st_preparations approved_store = []"
    using approved_claim [OF sample_preparation_approved sample_conditions] p
    by (auto simp: authorize_preparation_ok approved_store_def save_approval_def preparation_rows)
  let ?claim = "\<lparr>pc_task_id = 7, pc_action_digest = preparation_digest sample_preparation (pv_fingerprint preparation_sample),
    pc_claimed_at = 1, pc_result = None, pc_completed_at = None\<rparr>"
  let ?s1 = "approved_store\<lparr>st_preparations := [(40, ?claim)]\<rparr>"
  have s1: "authorize_preparation sample_preparation 1 preparation_sample 40 approved_store = Inr ?s1"
    using approved_claim [OF sample_preparation_approved sample_conditions] ok p
    by (simp add: claim_preparation_def has_row_def find_row_def preparation_active_def)
  have same: "preview_preparation sample_preparation 7 ?s1 = Inr preparation_sample"
    "load_task 7 ?s1 = Some awaiting_task" "repository_binding 3 ?s1 = Some sample_binding" "st_checkpoints ?s1 = []"
    using sample_preparation_preview preparation_rows(1,2)
      preview_preparation_cong [of ?s1 preparation_store sample_preparation 7]
    by (simp_all add: approved_store_def save_approval_def load_task_def repository_binding_def)
      (simp add: preparation_store_def planning_store_def empty_store_def)
  have wt: "ensure_worktree sample_preparation_world preparation_sample = Inr ()"
  proof -
    have "\<not> invalid_branch ''patchwright/t''"
      using graphic_clean(1) [of "''patchwright/t''"] trim_word [of "''patchwright/t''"]
      by (simp add: invalid_branch_def is_ascii_graphic_def starts_with_def)
    then show ?thesis
      by (simp add: ensure_worktree_def sample_preparation_world_def prepare_at_def worktree_invocation_def p
          sample_git_world_def is_sha1_hex_def finish_git_def)
  qed
  have summary: "validate_summary ''Approved isolated worktree prepared at captured source SHA'' =
      Inr ''Approved isolated worktree prepared at captured source SHA''"
  proof -
    have "trim ''Approved isolated worktree prepared at captured source SHA'' =
        ''Approved isolated worktree prepared at captured source SHA''"
      by (rule trim_printable) (simp_all add: is_ascii_printable_def is_ascii_graphic_def)
    then show ?thesis
      by (simp add: validate_summary_def Let_def summary_markers_def max_summary_bytes_def to_ascii_lowercase_def
          ascii_lower_def starts_with_def)
  qed
  have world: "ww_before sample_preparation_world s = s" "ww_others sample_preparation_world s = s"
    "ww_after sample_preparation_world s = s" "ww_repository_is_dir sample_preparation_world" for s
    by (simp_all add: sample_preparation_world_def)
  have first: "begin_preparation sample_preparation 7 preparation_sample ?s1 = Inr (awaiting_task, sample_binding)"
    by (simp add: begin_preparation_def same)
  obtain t' s2 where c: "commit_preparation 50 1 preparation_sample awaiting_task ?s1 = (s2, Inr t')"
    "st_preparations s2 = [(40, ?claim)]"
    using same(4) by (simp add: commit_preparation_def transition_def permits_def task_checkpoint_new_def summary
        save_task_with_checkpoint_def insert_checkpoint_def insert_new_def has_row_def find_row_def Let_def
        transact_def ensure_msg_def)
  have "task_prepare_claimed sample_preparation sample_preparation_world 50 1 7 preparation_sample ?s1 = (s2, Inr t')"
    by (simp add: task_prepare_claimed_def first ensure_managed_clone_def world wt c(1))
  moreover have "\<exists>s'. complete_preparation_claim 2 40 ''succeeded'' s2 = Inr s'"
    by (simp add: complete_preparation_claim_def c(2) ensure_msg_def update_where_def matching_def)
  ultimately show ?thesis by (auto simp: task_prepare_def p s1 world transact_def)
qed

theorem prepared_as_approved_witness:
  "\<exists>s' t'. task_prepare sample_preparation sample_preparation_world 50 1 2 7 preparation_sample 40 approved_store = (s', Inr t') \<and>
     load_task 7 s' = Some t' \<and> task_state t' = Preparing \<and> task_repository_path t' = ''/w/t'' \<and>
     (\<exists>e. authorize_preparation sample_preparation 3 preparation_sample 40 s' = Inl e)"
proof -
  obtain s' t' where r: "task_prepare sample_preparation sample_preparation_world 50 1 2 7 preparation_sample 40
      approved_store = (s', Inr t')" using sample_prepare by blast
  then show ?thesis using prepared_as_approved [OF r] by (auto simp: preparation_sample_def sample_preparation_world_def)
qed

section \<open>The commands that carry the token\<close>

text \<open>C23: A push sends the verified commit and nothing of the environment. The git process that pushes
  is started only on a valid branch name, from a clean worktree whose head is the approved commit and
  whose origin is the approved repository. Its arguments are exactly those below: the head of that worktree
  goes to the branch of that name at the origin, not forced, with hooks, credential helpers and extra
  headers off. Of the variables \<open>GIT_CONFIG_\<dots>\<close> by which git is configured it sees two, which turn the
  system's and the user's configuration off; the token is in its environment alone, its arguments do not
  depend on it; and its askpass helper is the engine's own script.\<close>

theorem push_isolated:
  assumes "push_invocation w repository branch sha origin root token = Inr i"
  shows "(\<exists>found. inspect (gw_git w) repository = Inr found \<and> \<not> ri_dirty found \<and> ri_head_sha found = sha) \<and>
    (\<exists>out. git (gw_git w) repository [''remote'', ''get-url'', ''origin''] = GitExit True out \<and> trim out = origin) \<and>
    \<not> invalid_branch branch \<and> is_sha1_hex sha \<and>
    inv_arguments i = [''-c'', ''core.hooksPath=/dev/null'', ''-c'', ''credential.helper='', ''-c'', ''http.extraHeader='',
      ''-C'', repository, ''push'', ''--no-verify'', ''origin'', ''HEAD:refs/heads/'' @ branch] \<and>
    (\<forall>k v. starts_with ''GIT_CONFIG_'' k \<longrightarrow> (map_of (inv_environment i) k = Some v \<longleftrightarrow>
      (k, v) \<in> {(''GIT_CONFIG_GLOBAL'', ''/dev/null''), (''GIT_CONFIG_NOSYSTEM'', ''1'')})) \<and>
    map_of (inv_environment i) ''PATCHWRIGHT_GIT_TOKEN'' = Some token \<and>
    (\<forall>token' i'. push_invocation w repository branch sha origin root token' = Inr i' \<longrightarrow>
      inv_arguments i' = inv_arguments i) \<and>
    (\<exists>askpass. map_of (inv_environment i) ''GIT_ASKPASS'' = Some askpass \<and>
      (gw_askpass w askpass = NoAskpass \<and> gw_create_file w askpass askpass_script \<or>
       gw_askpass w askpass = AskpassFile False (Some askpass_script)))"
proof -
  obtain found askpass out where p: "\<not> invalid_branch branch" "is_sha1_hex sha"
    "inspect (gw_git w) repository = Inr found" "\<not> ri_dirty found" "ri_head_sha found = sha"
    "git (gw_git w) repository [''remote'', ''get-url'', ''origin''] = GitExit True out" "trim out = origin"
    "prepare_askpass w root = Inr askpass"
    and i: "i = \<lparr>inv_arguments = isolated_arguments @ [''-C'', repository, ''push'', ''--no-verify'', ''origin'',
        ''HEAD:refs/heads/'' @ branch], inv_environment = credential_environment askpass token (gw_environment w)\<rparr>"
    using push_invocation_ok [OF assms] by blast
  have args: "inv_arguments i' = inv_arguments i"
    if "push_invocation w repository branch sha origin root token' = Inr i'" for token' i'
    using push_invocation_ok [OF that] i by auto
  have config: "map_of (inv_environment i) k = Some v \<longleftrightarrow>
      (k, v) \<in> {(''GIT_CONFIG_GLOBAL'', ''/dev/null''), (''GIT_CONFIG_NOSYSTEM'', ''1'')}"
    if "starts_with ''GIT_CONFIG_'' k" for k v
    using credential_environment_config [OF that] i by auto
  have all_arguments: "inv_arguments i = [''-c'', ''core.hooksPath=/dev/null'', ''-c'', ''credential.helper='', ''-c'',
      ''http.extraHeader='', ''-C'', repository, ''push'', ''--no-verify'', ''origin'', ''HEAD:refs/heads/'' @ branch]"
    by (simp add: i isolated_arguments_def)
  have token: "map_of (inv_environment i) ''PATCHWRIGHT_GIT_TOKEN'' = Some token"
    "map_of (inv_environment i) ''GIT_ASKPASS'' = Some askpass"
    using credential_environment_token by (simp_all only: i invocation.select_convs)
  show ?thesis
    using p args config all_arguments token prepare_askpass_ok [OF p(8)] by blast
qed

lemma sample_push: "\<exists>i. push_invocation sample_git_world ''/c'' ''work'' sha_a ''https://h/r'' ''/s'' ''secret'' = Inr i"
proof -
  have b: "\<not> invalid_branch ''work''"
    using graphic_clean(1) [of "''work''"] trim_word [of "''work''"]
    by (simp add: invalid_branch_def is_ascii_graphic_def starts_with_def)
  have g: "git (gw_git sample_git_world) ''/c'' [''remote'', ''get-url'', ''origin''] = GitExit True ''https://h/r''"
    "gw_git sample_git_world = sample_planning"
    by (simp_all add: sample_git_world_def sample_planning_def sample_git_def Let_def)
  have url: "trim ''https://h/r'' = ''https://h/r''" by (rule trim_word) (simp add: is_ascii_graphic_def)
  have "\<exists>path. prepare_askpass sample_git_world ''/s'' = Inr path"
    by (simp add: prepare_askpass_def sample_git_world_def Let_def)
  then show ?thesis
    using g by (auto simp: push_invocation_def b sample_inspect url is_sha1_hex_def)
qed

theorem push_isolated_witness:
  "\<exists>i. push_invocation sample_git_world ''/c'' ''work'' sha_a ''https://h/r'' ''/s'' ''secret'' = Inr i \<and>
     map_of (inv_environment i) ''PATCHWRIGHT_GIT_TOKEN'' = Some ''secret'' \<and>
     drop 8 (inv_arguments i) = [''push'', ''--no-verify'', ''origin'', ''HEAD:refs/heads/work'']"
proof -
  obtain i where i: "push_invocation sample_git_world ''/c'' ''work'' sha_a ''https://h/r'' ''/s'' ''secret'' = Inr i"
    using sample_push by blast
  then show ?thesis using push_isolated [OF i] by (auto intro!: exI [of _ i])
qed

section \<open>Verification\<close>

text \<open>What it takes to pass: a trusted executable that ends with success within the output limits.\<close>

lemma read_bounded_ok: "read_bounded x = Inr y \<longleftrightarrow> y = x \<and> length x \<le> max_command_output_bytes"
  by (auto simp: read_bounded_def Let_def)

lemma validate_executable_same: "validate_executable fs p = Inr q \<Longrightarrow> q = p"
  by (auto simp: validate_executable_def and_then_eq_Inr ok_or_eq_Inr split: if_splits prod.splits)

lemma run_command_ok:
  "run_command fs process spec = Inr out \<longleftrightarrow> validate_executable fs (cmd_executable spec) = Inr (cmd_executable spec) \<and>
     (\<exists>directory. fs_canonicalize fs (cmd_working_directory spec) = Some directory \<and>
       process (spec\<lparr>cmd_working_directory := directory\<rparr>) (verification_environment fs) = Exited (out_success out) (out_exit_code out) (out_stdout out) (out_stderr out)) \<and>
     length (out_stdout out) \<le> max_command_output_bytes \<and> length (out_stderr out) \<le> max_command_output_bytes"
proof (cases "validate_executable fs (cmd_executable spec)")
  case (Inl e)
  then show ?thesis by (simp add: run_command_def)
next
  case (Inr q)
  then have q: "validate_executable fs (cmd_executable spec) = Inr (cmd_executable spec)"
    using validate_executable_same by blast
  show ?thesis
  proof (cases "fs_canonicalize fs (cmd_working_directory spec)")
    case None
    then show ?thesis by (simp add: run_command_def q)
  next
    case (Some d)
    then show ?thesis
      by (cases out; cases "process (spec\<lparr>cmd_working_directory := d\<rparr>) (verification_environment fs)")
        (auto simp: run_command_def q and_then_eq_Inr read_bounded_ok)
  qed
qed

lemma passes_iff:
  "passes env r i w k c \<longleftrightarrow> (\<exists>executable directory code out err.
     resolve_executable (vn_resolving env k) (vc_program c) = Inr executable \<and>
     validate_executable (vn_running env k) executable = Inr executable \<and>
     fs_canonicalize (vn_running env k) w = Some directory \<and>
     vn_process env k \<lparr>cmd_executable = executable, cmd_arguments = vc_args c, cmd_working_directory = directory\<rparr>
       (verification_environment (vn_running env k)) = Exited True code out err \<and>
     length out \<le> max_command_output_bytes \<and> length err \<le> max_command_output_bytes)"
proof (cases "resolve_executable (vn_resolving env k) (vc_program c)")
  case (Inl e)
  then show ?thesis by (simp add: passes_def run_one_def)
next
  case (Inr executable)
  let ?spec = "\<lparr>cmd_executable = executable, cmd_arguments = vc_args c, cmd_working_directory = w\<rparr>"
  have "passes env r i w k c \<longleftrightarrow>
      (\<exists>out. run_command (vn_running env k) (vn_process env k) ?spec = Inr out \<and> out_success out)"
    by (simp add: passes_def run_one_def Inr split: sum.split)
  also have "\<dots> \<longleftrightarrow> (\<exists>directory code out err. validate_executable (vn_running env k) executable = Inr executable \<and>
     fs_canonicalize (vn_running env k) w = Some directory \<and>
     vn_process env k \<lparr>cmd_executable = executable, cmd_arguments = vc_args c, cmd_working_directory = directory\<rparr>
       (verification_environment (vn_running env k)) = Exited True code out err \<and>
     length out \<le> max_command_output_bytes \<and> length err \<le> max_command_output_bytes)" (is "?l \<longleftrightarrow> ?r")
  proof
    show "?l \<Longrightarrow> ?r" by (fastforce simp: run_command_ok)
    assume ?r
    then obtain directory code out err where "run_command (vn_running env k) (vn_process env k) ?spec =
        Inr \<lparr>out_success = True, out_exit_code = code, out_stdout = out, out_stderr = err\<rparr>"
      by (auto simp: run_command_ok)
    then show ?l by fastforce
  qed
  finally show ?thesis by (auto simp: Inr)
qed

lemma first_failure_passes:
  "first_failure env r i w m cs < length cs \<Longrightarrow> k \<le> first_failure env r i w m cs \<Longrightarrow>
     passes env r i w (m + k) (cs ! k) \<longleftrightarrow> k < first_failure env r i w m cs"
proof (induction cs arbitrary: m k)
  case Nil
  then show ?case by simp
next
  case (Cons c cs)
  then show ?case using Cons.IH [of "Suc m" "k - 1"] by (cases k) (auto split: if_splits)
qed

lemma run_one_program: "ve_program (evidence_of env r i w k c) = vc_program c"
  by (auto simp: evidence_of_def run_one_def failed_evidence_def output_evidence_def split: sum.splits)

text \<open>What passing says of the executable and of its process, in terms of the world.\<close>

lemma trusted_rootsD: "root \<in> set (trusted_roots fs) \<Longrightarrow>
    root \<in> {''/opt/homebrew/bin'', ''/usr/local/bin'', ''/usr/bin'', ''/bin'', ''/usr/sbin'', ''/sbin''} \<or>
    (\<exists>home. map_of (fs_variables fs) ''HOME'' = Some home \<and> root = path_join home ''.cargo/bin'')"
  by (cases "map_of (fs_variables fs) ''HOME''") (simp_all only: trusted_roots_def option.case set_append list.set, auto)

lemma find_in: "List.find P (map f xs) = Some y \<Longrightarrow> \<exists>x \<in> set xs. y = f x"
  by (induction xs) (auto split: if_splits)

lemma resolved_executable:
  assumes "resolve_executable fs program = Inr executable"
  shows "if starts_with ''/'' program then executable = program
     else length (path_components program) = 1 \<and> (\<exists>root. executable = path_join root program \<and>
       (root \<in> {''/opt/homebrew/bin'', ''/usr/local/bin'', ''/usr/bin'', ''/bin'', ''/usr/sbin'', ''/sbin''} \<or>
        (\<exists>home. map_of (fs_variables fs) ''HOME'' = Some home \<and> root = path_join home ''.cargo/bin'')))"
proof (cases "path_is_absolute program")
  case True
  then have "validate_executable fs program = Inr executable"
    using assms by (simp add: resolve_executable_def split: if_splits)
  then show ?thesis using True validate_executable_same by (simp add: path_is_absolute_def)
next
  case False
  then obtain candidate where l: "length (path_components program) = 1"
    and c: "List.find (\<lambda>p. fs_metadata fs p \<noteq> None) (map (\<lambda>root. path_join root program) (trusted_roots fs)) = Some candidate"
      "validate_executable fs candidate = Inr executable"
    using assms unfolding resolve_executable_def
    by (cases "List.find (\<lambda>p. fs_metadata fs p \<noteq> None) (map (\<lambda>root. path_join root program) (trusted_roots fs))")
      (simp_all split: if_splits)
  obtain root where root: "root \<in> set (trusted_roots fs)" "executable = path_join root program"
    using find_in [OF c(1)] validate_executable_same [OF c(2)] by blast
  have "\<not> starts_with ''/'' program" using False by (simp add: path_is_absolute_def)
  then show ?thesis
    by (simp only: if_False) (rule conjI [OF l], rule exI [of _ root], rule conjI [OF root(2) trusted_rootsD [OF root(1)]])
qed

lemma validated_executable:
  "validate_executable fs p = Inr p \<Longrightarrow>
    \<exists>file mode. fs_canonicalize fs p = Some file \<and> fs_metadata fs file = Some (True, mode) \<and> mode AND 0x49 \<noteq> 0"
  by (auto simp: validate_executable_def and_then_eq_Inr ok_or_eq_Inr split: if_splits)

lemma passed_command:
  assumes "passes env r i w k c"
  shows "\<exists>program executable directory code out err. program = vc_program c \<and>
      (if starts_with ''/'' program then executable = program
       else length (path_components program) = 1 \<and> (\<exists>root. executable = path_join root program \<and>
         (root \<in> {''/opt/homebrew/bin'', ''/usr/local/bin'', ''/usr/bin'', ''/bin'', ''/usr/sbin'', ''/sbin''} \<or>
          (\<exists>home. map_of (fs_variables (vn_resolving env k)) ''HOME'' = Some home \<and>
            root = path_join home ''.cargo/bin'')))) \<and>
      (\<exists>file mode. fs_canonicalize (vn_running env k) executable = Some file \<and>
        fs_metadata (vn_running env k) file = Some (True, mode) \<and> mode AND 0x49 \<noteq> 0) \<and>
      fs_canonicalize (vn_running env k) w = Some directory \<and>
      vn_process env k \<lparr>cmd_executable = executable, cmd_arguments = vc_args c,
        cmd_working_directory = directory\<rparr> (verification_environment (vn_running env k)) = Exited True code out err \<and>
      length out \<le> 1048576 \<and> length err \<le> 1048576"
proof -
  obtain executable directory code out err where
    e: "resolve_executable (vn_resolving env k) (vc_program c) = Inr executable"
      "validate_executable (vn_running env k) executable = Inr executable"
      and rest: "fs_canonicalize (vn_running env k) w = Some directory"
      "vn_process env k \<lparr>cmd_executable = executable, cmd_arguments = vc_args c, cmd_working_directory = directory\<rparr>
        (verification_environment (vn_running env k)) = Exited True code out err"
      "length out \<le> max_command_output_bytes" "length err \<le> max_command_output_bytes"
    using assms [unfolded passes_iff] by blast
  show ?thesis
    by (rule exI [of _ "vc_program c"], rule exI [of _ executable], rule exI [of _ directory], rule exI [of _ code],
      rule exI [of _ out], rule exI [of _ err], rule conjI [OF refl], rule conjI [OF resolved_executable [OF e(1)]],
      rule conjI [OF validated_executable [OF e(2)]], rule conjI [OF rest(1)], rule conjI [OF rest(2)])
      (use rest(3,4) in \<open>simp add: max_command_output_bytes_def\<close>)
qed


text \<open>A world in which every tool is there and every command ends with success.\<close>

definition sample_files :: file_system where
  "sample_files = \<lparr>fs_canonicalize = Some, fs_metadata = (\<lambda>_. Some (True, 0x49)), fs_variables = []\<rparr>"

definition sample_verification :: "bool \<Rightarrow> verify_env" where
  "sample_verification success = \<lparr>vn_sha256_hex = (\<lambda>_. sha256_c), vn_json_command = (\<lambda>_. []),
     vn_resolving = (\<lambda>_. sample_files), vn_running = (\<lambda>_. sample_files),
     vn_process = (\<lambda>_ _ _. Exited success (Some (if success then 0 else 101)) [] []), vn_started = (\<lambda>_. 3),
     vn_completed = (\<lambda>_. 4), vn_others = (\<lambda>_ s. s), vn_git_before = sample_planning, vn_git_after = sample_planning\<rparr>"

definition verifying_task :: task where
  "verifying_task = awaiting_task\<lparr>task_state := Verifying\<rparr>"

definition verification_store :: store where
  "verification_store = preparation_store\<lparr>st_tasks := [(7, verifying_task)]\<rparr>"

lemma verification_rows [simp]: "load_task 7 verification_store = Some verifying_task"
  "load_task_contract 7 verification_store = Inr (Some planned_contract)"
  "task_state verifying_task = Verifying" "st_evidence verification_store = []" "st_checkpoints verification_store = []"
  "tc_verification_commands planned_contract = [cargo_command]" "task_id verifying_task = 7"
  using preparation_rows(3)
  by (simp_all add: verification_store_def load_task_def find_row_def load_task_contract_def verifying_task_def
      preparation_store_def planning_store_def empty_store_def planned_contract_def)

lemma sample_begin: "begin_verification 1 7 verification_store = (verification_store, Inr (Inr (verifying_task, planned_contract)))"
  by (simp add: begin_verification_def)

lemma sample_files_simps: "fs_canonicalize sample_files p = Some p" "fs_metadata sample_files p = Some (True, 0x49)"
  "fs_variables sample_files = []"
  by (simp_all add: sample_files_def)

lemma sample_passes: "passes (sample_verification success) r i w k cargo_command \<longleftrightarrow> success"
proof -
  have bits: "(0x49 :: u32) AND 0x49 \<noteq> 0" by simp
  have valid: "validate_executable sample_files p = Inr p" for p
    using bits by (simp add: validate_executable_def sample_files_simps)
  have "\<not> path_is_absolute ''cargo''" "length (path_components ''cargo'') = 1"
    by (simp_all add: path_is_absolute_def starts_with_def path_components_def)
  then have "resolve_executable sample_files ''cargo'' = Inr ''/opt/homebrew/bin/cargo''"
    using valid
    by (simp add: resolve_executable_def sample_words trusted_roots_def sample_files_simps path_join_def
        path_is_absolute_def starts_with_def ends_with_char_def)
  then show ?thesis
    by (simp add: passes_iff sample_verification_def cargo_command_def valid sample_files_simps)
qed


text \<open>Verification stops at the first failure and shows it. Under a fresh run identifier, when some
  command of the contract does not pass, the verification ends with the number of the first such command;
  every command before it has a row of evidence that says it succeeded, it has one that says it failed,
  and the task does not become ready for delivery.\<close>

theorem verification_stops_at_failure:
  assumes "load_task i s = Some t" "task_state t = Verifying" "load_task_contract i s = Inr (Some c)"
    and "inspect (vn_git_before env) (task_repository_path t) = Inr before" "\<not> ri_dirty before"
    and "undisturbed env run_id i" "\<And>ordinal. \<not> has_row (i, run_id, ordinal) (st_evidence s)"
    and "length (tc_verification_commands c) < 2 ^ 32"
    and "j = first_failure env run_id i (task_repository_path t) 0 (tc_verification_commands c)"
    and "j < length (tc_verification_commands c)"
    and "verify_task_for_delivery env start finish run_id fresh i s = (s', r)"
  shows "r = Inl (CommandFailed (of_nat (j + 1))) \<and>
    (\<forall>k \<le> j. \<exists>e. find_row (i, run_id, of_nat (k + 1)) (st_evidence s') = Some e \<and>
      ve_task_id e = i \<and> ve_program e = vc_program (tc_verification_commands c ! k) \<and> (ve_success e \<longleftrightarrow> k < j))"
proof -
  let ?cs = "tc_verification_commands c" and ?p = "task_repository_path t"
  have ne: "?cs \<noteq> []" using assms(10) by auto
  then have b: "begin_verification start i s = (s, Inr (Inr (t, c)))"
    using assms(1,2,3) by (simp add: begin_verification_def)
  obtain s1 res where run: "run_commands env run_id i ?p 0 ?cs s = (s1, res)"
    by (cases "run_commands env run_id i ?p 0 ?cs s")
  have l: "0 + length ?cs < 2 ^ 32" using assms(8) by simp
  note out = run_commands_outcome [OF assms(6) l _ run]
  have res: "res = Inl (CommandFailed (of_nat (j + 1)))"
    and rows: "\<And>k. k \<le> j \<Longrightarrow> find_row (i, run_id, of_nat (k + 1)) (st_evidence s1) = Some (evidence_of env run_id i ?p k (?cs ! k))"
    using out assms(7,9,10) by (auto simp: Let_def)
  have s': "s' = s1" "r = Inl (CommandFailed (of_nat (j + 1)))"
    using assms(4,5,11) run by (auto simp: verify_task_for_delivery_def b res)
  have "passes env run_id i ?p k (?cs ! k) \<longleftrightarrow> k < j" if "k \<le> j" for k
    using first_failure_passes [OF assms(10) [unfolded assms(9)], of k] that assms(9) by simp
  then show ?thesis
    using rows res run_one_key(1,4) unfolding s' by (auto simp: run_one_program)
qed

theorem verification_stops_at_failure_witness:
  "\<exists>s'. verify_task_for_delivery (sample_verification False) 1 2 60 61 7 verification_store = (s', Inl (CommandFailed 1)) \<and>
     (\<exists>e. find_row (7, 60, 1) (st_evidence s') = Some e \<and> ve_program e = ''cargo'' \<and> \<not> ve_success e)"
proof -
  have env: "vn_git_before (sample_verification False) = sample_planning" "undisturbed (sample_verification False) 60 7"
    by (simp_all add: sample_verification_def undisturbed_def)
  obtain before where b: "inspect (vn_git_before (sample_verification False)) (task_repository_path verifying_task) = Inr before"
    "\<not> ri_dirty before" by (simp add: env(1) sample_inspect)
  obtain s' r where v: "verify_task_for_delivery (sample_verification False) 1 2 60 61 7 verification_store = (s', r)"
    by (cases "verify_task_for_delivery (sample_verification False) 1 2 60 61 7 verification_store")
  have first: "0 = first_failure (sample_verification False) 60 7 (task_repository_path verifying_task) 0
      (tc_verification_commands planned_contract)"
    by (simp add: sample_passes)
  have "r = Inl (CommandFailed (of_nat (0 + 1))) \<and>
    (\<forall>k \<le> 0. \<exists>e. find_row (7, 60, of_nat (k + 1)) (st_evidence s') = Some e \<and> ve_task_id e = 7 \<and>
      ve_program e = vc_program (tc_verification_commands planned_contract ! k) \<and> (ve_success e \<longleftrightarrow> k < 0))"
    by (rule verification_stops_at_failure [OF verification_rows(1) _ verification_rows(2) b env(2) _ _ first _ v])
      (simp_all add: has_row_def find_row_def)
  with v show ?thesis by (auto simp: cargo_command_def)
qed

end
