(* ===== verification/Http.thy ===== *)
theory Http
  imports Json
begin

text \<open>
  Requests to GitHub as the clients of \<open>crates/patchwright-relay\<close> make them with \<open>reqwest\<close>. A client's
  asynchronous operation is an interaction tree: it ends with a value or asks one request and goes on
  from the reply, whatever that is. The network is thus universally quantified in every theorem about
  \<open>conversation\<close>, and \<open>converse\<close> runs an operation against a server with a state of its own. A request
  that could not be sent or answered is \<open>SendFailed\<close>; a reply has its status, the two headers that the
  clients read and its body as JSON, if it is one. The crate \<open>url\<close> is an argument (\<open>url_library\<close>).
\<close>

section \<open>Requests and replies\<close>

datatype http_method = GET | POST | PUT | PATCH

text \<open>\<open>RequestEffect\<close>: what the client takes the request to do.\<close>

datatype request_effect = ReadEffect | MutationEffect

record http_request =
  rq_method :: http_method
  rq_url :: string
  rq_bearer :: string
  rq_body :: "json option"

datatype http_reply =
    SendFailed
  | Reply (rp_status: nat) (rp_retry_after: "string option") (rp_request_id: "string option")
      (rp_json: "json option")

text \<open>\<open>StatusCode::is_success\<close>.\<close>

definition is_success :: "nat \<Rightarrow> bool" where
  "is_success status \<longleftrightarrow> 200 \<le> status \<and> status < 300"

definition replied_success :: "http_reply \<Rightarrow> bool" where
  "replied_success r = (case r of SendFailed \<Rightarrow> False | Reply status _ _ _ \<Rightarrow> is_success status)"

text \<open>\<open>Url::parse\<close> with its scheme and host, \<open>Url::join\<close>, and whether \<open>reqwest\<close> builds a client.\<close>

record url_library =
  ul_parse :: "string \<Rightarrow> (string \<times> string option) option"
  ul_join :: "string \<Rightarrow> string \<Rightarrow> string option"
  ul_client_builds :: bool

section \<open>Interaction trees\<close>

datatype 'a call = Done 'a | Ask http_request request_effect "http_reply \<Rightarrow> 'a call"

primrec bind_call :: "'a call \<Rightarrow> ('a \<Rightarrow> 'b call) \<Rightarrow> 'b call" where
  "bind_call (Done a) f = f a"
| "bind_call (Ask rq eff k) f = Ask rq eff (\<lambda>r. bind_call (k r) f)"

text \<open>\<open>.await?\<close>\<close>

definition await :: "('e + 'a) call \<Rightarrow> ('a \<Rightarrow> ('e + 'b) call) \<Rightarrow> ('e + 'b) call" where
  "await c f = bind_call c (\<lambda>r. case r of Inl e \<Rightarrow> Done (Inl e) | Inr a \<Rightarrow> f a)"

text \<open>\<open>?\<close> on a result that needs no request.\<close>

definition try_then :: "'e + 'a \<Rightarrow> ('a \<Rightarrow> ('e + 'b) call) \<Rightarrow> ('e + 'b) call" where
  "try_then r f = (case r of Inl e \<Rightarrow> Done (Inl e) | Inr a \<Rightarrow> f a)"

type_synonym exchange = "http_request \<times> request_effect \<times> http_reply"

text \<open>All the ways an operation may go, and what it exchanged.\<close>

inductive conversation :: "'a call \<Rightarrow> exchange list \<Rightarrow> 'a \<Rightarrow> bool" where
  finished: "conversation (Done a) [] a"
| asked: "conversation (k r) es a \<Longrightarrow> conversation (Ask rq eff k) ((rq, eff, r) # es) a"

inductive_simps conversation_Done [simp]: "conversation (Done a) es b"
inductive_simps conversation_Ask: "conversation (Ask rq eff k) es b"

text \<open>Against a server: \<open>answer\<close> is its behaviour.\<close>

primrec converse :: "('s \<Rightarrow> http_request \<Rightarrow> 's \<times> http_reply) \<Rightarrow> 'a call \<Rightarrow> 's \<Rightarrow> 's \<times> exchange list \<times> 'a" where
  "converse answer (Done a) s = (s, [], a)"
| "converse answer (Ask rq eff k) s =
     (case answer s rq of (s', r) \<Rightarrow>
      case converse answer (k r) s' of (s'', es, a) \<Rightarrow> (s'', (rq, eff, r) # es, a))"

lemma converse_conversation: "converse answer c s = (s', es, a) \<Longrightarrow> conversation c es a"
proof (induction c arbitrary: s es)
  case (Done b)
  then show ?case by simp
next
  case (Ask rq eff k)
  obtain t r where r: "answer s rq = (t, r)" by fastforce
  obtain u fs b where "converse answer (k r) t = (u, fs, b)" by (metis prod_cases3)
  with Ask r show ?case by (auto simp: conversation_Ask)
qed

lemma conversation_bindI:
  "conversation c es1 a \<Longrightarrow> conversation (f a) es2 b \<Longrightarrow> conversation (bind_call c f) (es1 @ es2) b"
  by (induction rule: conversation.induct) (simp_all add: conversation.asked)

lemma conversation_bindE:
  assumes "conversation (bind_call c f) es b"
  obtains es1 a es2 where "conversation c es1 a" "conversation (f a) es2 b" "es = es1 @ es2"
  using assms
proof (induction c arbitrary: es thesis)
  case (Done a)
  show ?case by (rule Done.prems(1) [of "[]" a es]) (use Done.prems(2) in simp_all)
next
  case (Ask rq eff k)
  obtain r fs where r: "es = (rq, eff, r) # fs" "conversation (bind_call (k r) f) fs b"
    using Ask.prems(2) by (auto simp: conversation_Ask)
  obtain es1 a es2 where "conversation (k r) es1 a" "conversation (f a) es2 b" "fs = es1 @ es2"
    using Ask.IH [OF rangeI _ r(2)] by blast
  then show ?case
    by (intro Ask.prems(1) [of "(rq, eff, r) # es1" a es2]) (simp_all add: r(1) conversation.asked)
qed

lemma conversation_await:
  "conversation (await c f) es r \<longleftrightarrow>
     (\<exists>e. r = Inl e \<and> conversation c es (Inl e)) \<or>
     (\<exists>es1 a es2. conversation c es1 (Inr a) \<and> conversation (f a) es2 r \<and> es = es1 @ es2)"
  (is "?l \<longleftrightarrow> ?r")
proof
  assume ?l
  then obtain es1 x es2 where c: "conversation c es1 x" "es = es1 @ es2"
    "conversation (case x of Inl e \<Rightarrow> Done (Inl e) | Inr a \<Rightarrow> f a) es2 r"
    unfolding await_def by (rule conversation_bindE)
  then show ?r by (cases x) auto
next
  assume ?r
  then show ?l
  proof (elim disjE exE conjE)
    fix e assume e: "r = Inl e" "conversation c es (Inl e)"
    show ?l using conversation_bindI [OF e(2), of "case_sum (\<lambda>e. Done (Inl e)) f" "[]" r]
      by (simp add: await_def e(1))
  next
    fix es1 a es2 assume a: "conversation c es1 (Inr a)" "conversation (f a) es2 r" "es = es1 @ es2"
    show ?l using conversation_bindI [OF a(1), of "case_sum (\<lambda>e. Done (Inl e)) f" es2 r] a(2,3)
      by (simp add: await_def)
  qed
qed

lemma await_Done [simp]: "await (Done r) f = try_then r f"
  by (simp add: await_def try_then_def)

lemma await_Ask [simp]: "await (Ask rq eff k) f = Ask rq eff (\<lambda>r. await (k r) f)"
  by (simp add: await_def)

lemma try_then_simps [simp]: "try_then (Inl e) f = Done (Inl e)" "try_then (Inr a) f = f a"
  by (simp_all add: try_then_def)

lemma await_assoc: "await (await c f) g = await c (\<lambda>a. await (f a) g)"
  by (induction c) (auto simp: try_then_def split: sum.split)

lemma try_then_Done: "try_then r (\<lambda>a. Done (f a)) = Done (and_then r f)"
  by (cases r) simp_all

lemma conversation_try:
  "conversation (try_then r f) es b \<longleftrightarrow> (\<exists>e. r = Inl e \<and> es = [] \<and> b = Inl e) \<or>
     (\<exists>a. r = Inr a \<and> conversation (f a) es b)"
  by (cases r) auto

section \<open>The requests of a conversation\<close>

text \<open>Every request that an operation can come to make, whatever the replies.\<close>

primrec all_requests :: "(http_request \<Rightarrow> request_effect \<Rightarrow> bool) \<Rightarrow> 'a call \<Rightarrow> bool" where
  "all_requests P (Done a) = True"
| "all_requests P (Ask rq eff k) = (P rq eff \<and> (\<forall>r. all_requests P (k r)))"

lemma all_requests_bind: "all_requests P c \<Longrightarrow> (\<And>a. all_requests P (f a)) \<Longrightarrow> all_requests P (bind_call c f)"
  by (induction c) auto

lemma all_requests_await [intro!]:
  "all_requests P c \<Longrightarrow> (\<And>a. all_requests P (f a)) \<Longrightarrow> all_requests P (await c f)"
  unfolding await_def by (rule all_requests_bind) (auto split: sum.split)

lemma all_requests_try [intro!]: "(\<And>a. all_requests P (f a)) \<Longrightarrow> all_requests P (try_then r f)"
  by (cases r) auto

lemma conversation_requests:
  "conversation c es a \<Longrightarrow> all_requests P c \<Longrightarrow> (rq, eff, rep) \<in> set es \<Longrightarrow> P rq eff"
  by (induction rule: conversation.induct) auto

text \<open>The requests meant to change something, with their replies.\<close>

definition mutations :: "exchange list \<Rightarrow> (http_request \<times> http_reply) list" where
  "mutations es = map (\<lambda>(rq, _, r). (rq, r)) (filter (\<lambda>(_, eff, _). eff = MutationEffect) es)"

lemma mutations_simps [simp]:
  "mutations [] = []"
  "mutations ((rq, ReadEffect, r) # es) = mutations es"
  "mutations ((rq, MutationEffect, r) # es) = (rq, r) # mutations es"
  "mutations (es @ fs) = mutations es @ mutations fs"
  by (simp_all add: mutations_def)

lemma mutations_in: "(rq, rep) \<in> set (mutations es) \<longleftrightarrow> (rq, MutationEffect, rep) \<in> set es"
  by (force simp: mutations_def)

end
