(* ===== verification/Mutations.thy ===== *)
theory Mutations
  imports Http GitHub_Actions
begin

text \<open>
  \<open>crates/patchwright-relay/src/mutations.rs\<close>: the client that carries out one approved action on
  GitHub. It tells three ends of a change apart: it is confirmed by the reply, it is definitively
  rejected, or it is ambiguous and must be reconciled before it is tried again.
\<close>

datatype mutation_error =
    MutInvalidTarget | MissingToken | GitTransportRequired | GitTransportFailed
  | DefaultBranchPushProhibited | MergeQueueRequired | ReviewThreadMismatch | RemoteCommitChanged
  | ReviewThreadNotResolvable | GraphQlRejected | AmbiguousTransport
  | MutRejected nat "u64 option" "string option" | MutInvalidResponse | MutClientError

record mutation_result =
  mr_id :: "u64 option"
  mr_number :: "u64 option"
  mr_html_url :: "string option"
  mr_sha :: "string option"
  mr_merged :: "bool option"
  mr_node_id :: "string option"
  mr_resolved :: "bool option"

definition no_result :: mutation_result where
  "no_result = \<lparr>mr_id = None, mr_number = None, mr_html_url = None, mr_sha = None, mr_merged = None,
     mr_node_id = None, mr_resolved = None\<rparr>"

section \<open>The client\<close>

record mutation_client =
  mc_urls :: url_library
  mc_base_url :: string
  mc_token :: string

definition with_transport_policy ::
  "url_library \<Rightarrow> string \<Rightarrow> string \<Rightarrow> bool \<Rightarrow> mutation_error + mutation_client" where
  "with_transport_policy urls base_url token allow_loopback_http =
     and_then (ok_or (ul_parse urls base_url) MutInvalidTarget) (\<lambda>(scheme, host).
     let secure = (scheme = ''https'');
         loopback = (scheme = ''http'' \<and> host \<in> {Some ''localhost'', Some ''127.0.0.1''}) in
     and_then (ensure (secure \<or> allow_loopback_http \<and> loopback) MutInvalidTarget) (\<lambda>_.
     and_then (ensure (trim token \<noteq> []) MissingToken) (\<lambda>_.
     and_then (ensure (ul_client_builds urls) MutClientError) (\<lambda>_.
     Inr \<lparr>mc_urls = urls, mc_base_url = base_url, mc_token = token\<rparr>))))"

definition mutation_client_new :: "url_library \<Rightarrow> string \<Rightarrow> string \<Rightarrow> mutation_error + mutation_client" where
  "mutation_client_new urls base_url token = with_transport_policy urls base_url token False"

definition valid_sha :: "string \<Rightarrow> bool" where
  "valid_sha v \<longleftrightarrow> length v = 40 \<and> list_all is_ascii_hexdigit v"

definition require_sha :: "string option \<Rightarrow> string \<Rightarrow> mutation_error + unit" where
  "require_sha actual expected = (case actual of
       Some a \<Rightarrow> if a = expected then Inr () else if valid_sha a then Inl RemoteCommitChanged
         else Inl MutInvalidResponse
     | None \<Rightarrow> Inl MutInvalidResponse)"

definition review_event_text :: "review_event \<Rightarrow> string" where
  "review_event_text e = (case e of Approve \<Rightarrow> ''APPROVE'' | RequestChanges \<Rightarrow> ''REQUEST_CHANGES''
     | CommentEvent \<Rightarrow> ''COMMENT'' | PendingEvent \<Rightarrow> [])"

definition merge_method_text :: "merge_method \<Rightarrow> string" where
  "merge_method_text m = (case m of MergeCommit \<Rightarrow> ''merge'' | Squash \<Rightarrow> ''squash'' | Rebase \<Rightarrow> ''rebase'')"

definition validate_component :: "string \<Rightarrow> mutation_error + unit" where
  "validate_component v =
     (if v = [] \<or> 100 < length v \<or>
         \<not> list_all (\<lambda>b. is_ascii_alphanumeric b \<or> b = CHR ''-'' \<or> b = CHR ''_'' \<or> b = CHR ''.'') v
      then Inl MutInvalidTarget else Inr ())"

definition nonempty_string :: "json \<Rightarrow> string option" where
  "nonempty_string v = filter_option (\<lambda>t. trim t \<noteq> []) (as_str v)"

section \<open>What a reply must show\<close>

definition decode_value :: "json \<Rightarrow> mutation_result" where
  "decode_value v = \<lparr>mr_id = u64_at [''id''] v, mr_number = u64_at [''number''] v,
     mr_html_url = str_at [''html_url''] v, mr_sha = str_at [''sha''] v,
     mr_merged = bool_at [''merged''] v, mr_node_id = str_at [''node_id''] v,
     mr_resolved = bool_at [''isResolved''] v\<rparr>"

datatype mutation_expectation =
    CreatedRef string string | Resource | ExpectPullRequest | UpdateBranch | Closed u64 | Merged

definition present :: "('a \<Rightarrow> bool) \<Rightarrow> 'a option \<Rightarrow> bool" where
  "present P x = (case x of Some a \<Rightarrow> P a | None \<Rightarrow> False)"

definition expectation_met :: "mutation_expectation \<Rightarrow> json \<Rightarrow> bool" where
  "expectation_met x v = (let d = decode_value v; url_given = present (\<lambda>u. u \<noteq> []) (mr_html_url d) in
     case x of
       CreatedRef reference sha \<Rightarrow> str_at [''ref''] v = Some reference \<and> str_at [''object'', ''sha''] v = Some sha
     | Resource \<Rightarrow> present (\<lambda>n. n > 0) (mr_id d) \<and> url_given
     | ExpectPullRequest \<Rightarrow> present (\<lambda>n. n > 0) (mr_number d) \<and> url_given
     | UpdateBranch \<Rightarrow> Option.bind (json_get ''message'' v) nonempty_string \<noteq> None \<and>
         Option.bind (json_get ''url'' v) nonempty_string \<noteq> None
     | Closed number \<Rightarrow> mr_number d = Some number \<and> str_at [''state''] v = Some ''closed'' \<and> url_given
     | Merged \<Rightarrow> mr_merged d = Some True \<and> present valid_sha (mr_sha d))"

definition expectation_decode :: "mutation_expectation \<Rightarrow> json \<Rightarrow> mutation_result option" where
  "expectation_decode x v =
     (if expectation_met x v
      then Some (case x of CreatedRef _ sha \<Rightarrow> (decode_value v)\<lparr>mr_sha := Some sha\<rparr> | _ \<Rightarrow> decode_value v)
      else None)"

section \<open>One request\<close>

definition lost :: "request_effect \<Rightarrow> mutation_error \<Rightarrow> mutation_error" where
  "lost eff e = (case eff of ReadEffect \<Rightarrow> e | MutationEffect \<Rightarrow> AmbiguousTransport)"

definition read_reply :: "request_effect \<Rightarrow> http_reply \<Rightarrow> mutation_error + json" where
  "read_reply eff r = (case r of
       SendFailed \<Rightarrow> Inl (lost eff MutClientError)
     | Reply status retry_after request_id body \<Rightarrow>
         if \<not> is_success status then Inl (MutRejected status (Option.bind retry_after parse_u64) request_id)
         else ok_or body (lost eff MutInvalidResponse))"

definition http_request_of :: "mutation_client \<Rightarrow> http_method \<Rightarrow> string \<Rightarrow> json option \<Rightarrow> http_request" where
  "http_request_of c m url body = \<lparr>rq_method = m, rq_url = url, rq_bearer = mc_token c, rq_body = body\<rparr>"

definition request_value :: "mutation_client \<Rightarrow> http_method \<Rightarrow> string \<Rightarrow> json option \<Rightarrow> request_effect \<Rightarrow>
    (mutation_error + json) call" where
  "request_value c m path body eff =
     try_then (ok_or (ul_join (mc_urls c) (mc_base_url c) path) MutInvalidTarget) (\<lambda>url.
     Ask (http_request_of c m url body) eff (\<lambda>r. Done (read_reply eff r)))"

definition request :: "mutation_client \<Rightarrow> http_method \<Rightarrow> string \<Rightarrow> json \<Rightarrow> mutation_expectation \<Rightarrow>
    (mutation_error + mutation_result) call" where
  "request c m path body expectation =
     await (request_value c m path (Some body) MutationEffect) (\<lambda>v.
     Done (ok_or (expectation_decode expectation v) AmbiguousTransport))"

definition require_ref_sha :: "mutation_client \<Rightarrow> string \<Rightarrow> string \<Rightarrow> string \<Rightarrow> (mutation_error + unit) call" where
  "require_ref_sha c prefix reference expected =
     await (request_value c GET (prefix @ ''/git/ref/heads/'' @ reference) None ReadEffect) (\<lambda>v.
     Done (require_sha (str_at [''object'', ''sha''] v) expected))"

section \<open>The actions\<close>

definition thread_query :: string where
  "thread_query = ''query ReviewThreadIdentity($threadId: ID!) { node(id: $threadId) { ... on PullRequestReviewThread { id isResolved viewerCanResolve pullRequest { number headRefOid repository { nameWithOwner } } } } }''"

definition resolve_mutation :: string where
  "resolve_mutation = ''mutation ResolveReviewThread($threadId: ID!) { resolveReviewThread(input: {threadId: $threadId}) { thread { id isResolved } } }''"

definition ready_mutation :: string where
  "ready_mutation = ''mutation MarkReady($pullRequestId: ID!) { markPullRequestReadyForReview(input: {pullRequestId: $pullRequestId}) { pullRequest { databaseId number url isDraft } } }''"

definition graphql :: "string \<Rightarrow> string \<Rightarrow> string \<Rightarrow> json" where
  "graphql query variable v = JObject [(''query'', JString query),
     (''variables'', JObject [(variable, JString v)])]"

definition json_of_u64 :: "u64 \<Rightarrow> json" where
  "json_of_u64 n = JNumber (PosInt n)"

definition json_of_comment :: "inline_review_comment \<Rightarrow> json" where
  "json_of_comment c = JObject [(''path'', JString (irc_path c)), (''line'', json_of_u64 (irc_line c)),
     (''side'', JString ''RIGHT''), (''body'', JString (irc_body c))]"

definition review_payload :: "string \<Rightarrow> review_event \<Rightarrow> string \<Rightarrow> inline_review_comment list \<Rightarrow> json" where
  "review_payload sha event body comments = JObject ([(''body'', JString body),
     (''comments'', JArray (map json_of_comment comments)), (''commit_id'', JString sha)] @
     (if event \<noteq> PendingEvent then [(''event'', JString (review_event_text event))] else []))"

definition resolved_result :: "string \<Rightarrow> mutation_result" where
  "resolved_result thread_id = no_result\<lparr>mr_node_id := Some thread_id, mr_resolved := Some True\<rparr>"

definition check_thread :: "string \<Rightarrow> u64 \<Rightarrow> string \<Rightarrow> string \<Rightarrow> json \<Rightarrow> mutation_error + json" where
  "check_thread full_name pull_request_number thread_id expected_head_sha identity =
     and_then (ensure (json_get ''errors'' identity = None) GraphQlRejected) (\<lambda>_.
     and_then (ok_or (pointer [''data'', ''node''] identity) MutInvalidResponse) (\<lambda>thread.
     and_then (ensure (str_at [''id''] thread = Some thread_id \<and>
         u64_at [''pullRequest'', ''number''] thread = Some pull_request_number \<and>
         str_at [''pullRequest'', ''repository'', ''nameWithOwner''] thread = Some full_name)
       ReviewThreadMismatch) (\<lambda>_.
     and_then (require_sha (str_at [''pullRequest'', ''headRefOid''] thread) expected_head_sha) (\<lambda>_.
     Inr thread))))"

definition check_resolved :: "string \<Rightarrow> json \<Rightarrow> mutation_error + mutation_result" where
  "check_resolved thread_id response =
     and_then (ensure (json_get ''errors'' response = None) GraphQlRejected) (\<lambda>_.
     and_then (ok_or (pointer [''data'', ''resolveReviewThread'', ''thread''] response) AmbiguousTransport) (\<lambda>resolved.
     and_then (ensure (str_at [''id''] resolved = Some thread_id \<and> bool_at [''isResolved''] resolved = Some True)
       AmbiguousTransport) (\<lambda>_.
     Inr (resolved_result thread_id))))"

definition resolve_thread :: "mutation_client \<Rightarrow> string \<Rightarrow> u64 \<Rightarrow> string \<Rightarrow> string \<Rightarrow>
    (mutation_error + mutation_result) call" where
  "resolve_thread c full_name pull_request_number thread_id expected_head_sha =
     await (request_value c POST ''graphql'' (Some (graphql thread_query ''threadId'' thread_id)) ReadEffect) (\<lambda>identity.
     try_then (check_thread full_name pull_request_number thread_id expected_head_sha identity) (\<lambda>thread.
     if bool_at [''isResolved''] thread = Some True then Done (Inr (resolved_result thread_id))
     else try_then (ensure (bool_at [''viewerCanResolve''] thread = Some True) ReviewThreadNotResolvable) (\<lambda>_.
     await (request_value c POST ''graphql'' (Some (graphql resolve_mutation ''threadId'' thread_id)) MutationEffect) (\<lambda>response.
     Done (check_resolved thread_id response)))))"

definition check_ready :: "u64 \<Rightarrow> json \<Rightarrow> mutation_error + mutation_result" where
  "check_ready number response =
     and_then (ensure (json_get ''errors'' response = None) GraphQlRejected) (\<lambda>_.
     and_then (ok_or (pointer [''data'', ''markPullRequestReadyForReview'', ''pullRequest''] response) AmbiguousTransport) (\<lambda>ready.
     and_then (ensure (present (\<lambda>n. n \<noteq> 0) (u64_at [''databaseId''] ready) \<and> u64_at [''number''] ready = Some number \<and>
         Option.bind (json_get ''url'' ready) nonempty_string \<noteq> None \<and> bool_at [''isDraft''] ready = Some False)
       AmbiguousTransport) (\<lambda>_.
     Inr (no_result\<lparr>mr_id := u64_at [''databaseId''] ready, mr_number := u64_at [''number''] ready,
       mr_html_url := str_at [''url''] ready\<rparr>))))"

definition ready_pull_request :: "mutation_client \<Rightarrow> string \<Rightarrow> u64 \<Rightarrow> string \<Rightarrow>
    (mutation_error + mutation_result) call" where
  "ready_pull_request c prefix number expected_head_sha =
     await (request_value c GET (prefix @ ''/pulls/'' @ decimal (unat number)) None ReadEffect) (\<lambda>pull.
     try_then (require_sha (str_at [''head'', ''sha''] pull) expected_head_sha) (\<lambda>_.
     if bool_at [''draft''] pull = Some False then Done (Inr (decode_value pull))
     else try_then (ok_or (str_at [''node_id''] pull) MutInvalidResponse) (\<lambda>pull_request_id.
     await (request_value c POST ''graphql'' (Some (graphql ready_mutation ''pullRequestId'' pull_request_id)) MutationEffect) (\<lambda>response.
     Done (check_ready number response)))))"

definition close_pull_request_call :: "mutation_client \<Rightarrow> string \<Rightarrow> u64 \<Rightarrow> string \<Rightarrow>
    (mutation_error + mutation_result) call" where
  "close_pull_request_call c prefix number expected_head_sha =
     (let path = prefix @ ''/pulls/'' @ decimal (unat number) in
     await (request_value c GET path None ReadEffect) (\<lambda>pull.
     try_then (require_sha (str_at [''head'', ''sha''] pull) expected_head_sha) (\<lambda>_.
     request c PATCH path (JObject [(''state'', JString ''closed'')]) (Closed number))))"

definition draft_pull_request_call :: "mutation_client \<Rightarrow> string \<Rightarrow> string \<Rightarrow> string \<Rightarrow> string \<Rightarrow> string \<Rightarrow>
    string \<Rightarrow> string \<Rightarrow> (mutation_error + mutation_result) call" where
  "draft_pull_request_call c prefix title head base body expected_head_sha expected_base_sha =
     await (require_ref_sha c prefix head expected_head_sha) (\<lambda>_.
     await (require_ref_sha c prefix base expected_base_sha) (\<lambda>_.
     request c POST (prefix @ ''/pulls'') (JObject [(''title'', JString title), (''head'', JString head),
       (''base'', JString base), (''body'', JString body), (''draft'', JBool True)]) ExpectPullRequest))"

definition execute_action :: "mutation_client \<Rightarrow> string \<Rightarrow> string \<Rightarrow> github_action \<Rightarrow>
    (mutation_error + mutation_result) call" where
  "execute_action c prefix full_name action = (case action of
       CreateBranch branch from_sha \<Rightarrow> (let reference = ''refs/heads/'' @ branch in
         request c POST (prefix @ ''/git/refs'')
           (JObject [(''ref'', JString reference), (''sha'', JString from_sha)]) (CreatedRef reference from_sha))
     | PushIntent _ _ \<Rightarrow> Done (Inl GitTransportRequired)
     | Comment number body \<Rightarrow> request c POST (prefix @ ''/issues/'' @ decimal (unat number) @ ''/comments'')
         (JObject [(''body'', JString body)]) Resource
     | Review number sha event body comments \<Rightarrow>
         request c POST (prefix @ ''/pulls/'' @ decimal (unat number) @ ''/reviews'')
           (review_payload sha event body comments) Resource
     | ResolveReviewThread number thread_id sha \<Rightarrow> resolve_thread c full_name number thread_id sha
     | CheckRun name sha status conclusion \<Rightarrow> request c POST (prefix @ ''/check-runs'')
         (JObject [(''name'', JString name), (''head_sha'', JString sha), (''status'', JString status),
           (''conclusion'', case conclusion of None \<Rightarrow> JNull | Some t \<Rightarrow> JString t)]) Resource
     | DraftPullRequest title head base body head_sha base_sha \<Rightarrow>
         draft_pull_request_call c prefix title head base body head_sha base_sha
     | UpdatePullRequestBranch number sha \<Rightarrow>
         request c PUT (prefix @ ''/pulls/'' @ decimal (unat number) @ ''/update-branch'')
           (JObject [(''expected_head_sha'', JString sha)]) UpdateBranch
     | ReadyPullRequest number sha \<Rightarrow> ready_pull_request c prefix number sha
     | ClosePullRequest number sha \<Rightarrow> close_pull_request_call c prefix number sha
     | CloseIssue number \<Rightarrow> request c PATCH (prefix @ ''/issues/'' @ decimal (unat number))
         (JObject [(''state'', JString ''closed''), (''state_reason'', JString ''completed'')]) (Closed number)
     | EnqueuePullRequest _ _ \<Rightarrow> Done (Inl MergeQueueRequired)
     | MergePullRequest number sha merge \<Rightarrow>
         request c PUT (prefix @ ''/pulls/'' @ decimal (unat number) @ ''/merge'')
           (JObject [(''sha'', JString sha), (''merge_method'', JString (merge_method_text merge))]) Merged)"

definition execute_mutation :: "mutation_client \<Rightarrow> string \<Rightarrow> string \<Rightarrow> github_action \<Rightarrow>
    (mutation_error + mutation_result) call" where
  "execute_mutation c owner repository action =
     try_then (validate_component owner) (\<lambda>_.
     try_then (validate_component repository) (\<lambda>_.
     execute_action c (''repos/'' @ owner @ ''/'' @ repository) (owner @ ''/'' @ repository) action))"

section \<open>Lemmas\<close>

lemma request_value_conversation:
  "conversation (request_value c m path body eff) es r \<longleftrightarrow>
     ul_join (mc_urls c) (mc_base_url c) path = None \<and> es = [] \<and> r = Inl MutInvalidTarget \<or>
     (\<exists>url rep. ul_join (mc_urls c) (mc_base_url c) path = Some url \<and>
       es = [(http_request_of c m url body, eff, rep)] \<and> r = read_reply eff rep)"
  by (cases "ul_join (mc_urls c) (mc_base_url c) path")
    (auto simp: request_value_def conversation_Ask)

lemma read_reply_lost: "read_reply ReadEffect rep \<noteq> Inl AmbiguousTransport"
  by (cases rep) (auto simp: read_reply_def lost_def ok_or_def split: option.splits)

lemma read_reply_ok:
  "read_reply eff rep = Inr v \<longleftrightarrow> (\<exists>status ra i. rep = Reply status ra i (Some v) \<and> is_success status)"
  by (cases rep) (auto simp: read_reply_def ok_or_def split: option.splits)

text \<open>What a reply of success tells (\<open>refused\<close>, \<open>shown\<close> say what its body holds), and how a change ends:
  nothing was sent, where success needs \<open>seen\<close>, or it was the last request and its reply decides.\<close>

definition told :: "(json \<Rightarrow> bool) \<Rightarrow> (json \<Rightarrow> bool) \<Rightarrow> json \<Rightarrow> mutation_error + mutation_result \<Rightarrow> bool" where
  "told refused shown v r \<longleftrightarrow> (if refused v then r = Inl GraphQlRejected else if shown v then is_ok r
     else r = Inl AmbiguousTransport)"

definition ended :: "(json \<Rightarrow> bool) \<Rightarrow> (json \<Rightarrow> bool) \<Rightarrow> http_reply \<Rightarrow> mutation_error + mutation_result \<Rightarrow> bool" where
  "ended refused shown rep r \<longleftrightarrow> (case rep of SendFailed \<Rightarrow> r = Inl AmbiguousTransport
     | Reply status ra i body \<Rightarrow>
         if \<not> is_success status then r = Inl (MutRejected status (Option.bind ra parse_u64) i)
         else case body of None \<Rightarrow> r = Inl AmbiguousTransport | Some v \<Rightarrow> told refused shown v r)"

definition settles :: "(json \<Rightarrow> bool) \<Rightarrow> (json \<Rightarrow> bool) \<Rightarrow> bool \<Rightarrow> exchange list \<Rightarrow> mutation_error + mutation_result \<Rightarrow>
    bool" where
  "settles refused shown seen es r \<longleftrightarrow>
     mutations es = [] \<and> (case r of Inl e \<Rightarrow> e \<noteq> AmbiguousTransport | Inr _ \<Rightarrow> seen) \<or>
     (\<exists>reads rq rep. es = reads @ [(rq, MutationEffect, rep)] \<and> mutations reads = [] \<and> ended refused shown rep r)"

text \<open>A document that was read, with success.\<close>

definition read_value :: "json \<Rightarrow> exchange list \<Rightarrow> bool" where
  "read_value v es \<longleftrightarrow> (\<exists>rq status ra i. (rq, ReadEffect, Reply status ra i (Some v)) \<in> set es \<and> is_success status)"

lemma settles_unsent: "mutations es = [] \<Longrightarrow> e \<noteq> AmbiguousTransport \<Longrightarrow> settles refused shown seen es (Inl e)"
  by (simp add: settles_def)

lemma settles_seen: "mutations es = [] \<Longrightarrow> seen \<Longrightarrow> settles refused shown seen es (Inr x)"
  by (simp add: settles_def)

lemma settles_mono: "settles refused shown seen es r \<Longrightarrow> (seen \<Longrightarrow> seen') \<Longrightarrow> settles refused shown seen' es r"
  by (auto simp: settles_def split: sum.splits)

lemma settles_after:
  "mutations es1 = [] \<Longrightarrow> settles refused shown seen es2 r \<Longrightarrow> settles refused shown seen (es1 @ es2) r"
  by (auto simp: settles_def)

lemma settles_last:
  assumes "r = and_then (read_reply MutationEffect rep) f" "\<And>v. told refused shown v (f v)"
  shows "settles refused shown seen [(rq, MutationEffect, rep)] r"
proof -
  have "ended refused shown rep r"
    using assms by (cases rep) (auto simp: ended_def read_reply_def lost_def ok_or_def split: option.splits)
  then show ?thesis unfolding settles_def by (intro disjI2 exI [of _ "[]"] exI [of _ rq] exI [of _ rep]) simp
qed

lemma await_last:
  "conversation (await (request_value c m path body eff) (\<lambda>v. Done (f v))) es r \<longleftrightarrow>
     ul_join (mc_urls c) (mc_base_url c) path = None \<and> es = [] \<and> r = Inl MutInvalidTarget \<or>
     (\<exists>url rep. ul_join (mc_urls c) (mc_base_url c) path = Some url \<and>
       es = [(http_request_of c m url body, eff, rep)] \<and> r = and_then (read_reply eff rep) f)"
  by (cases "ul_join (mc_urls c) (mc_base_url c) path")
    (auto simp: request_value_def conversation_Ask try_then_Done)

lemma await_mutation_settles:
  assumes "conversation (await (request_value c m path body MutationEffect) (\<lambda>v. Done (f v))) es r"
    and f: "\<And>v. told refused shown v (f v)"
  shows "settles refused shown seen es r"
  using assms(1) unfolding await_last
proof (elim disjE exE conjE)
  fix url rep
  assume es: "es = [(http_request_of c m url body, MutationEffect, rep)]"
    and r: "r = and_then (read_reply MutationEffect rep) f"
  show ?thesis unfolding es by (rule settles_last [OF r f])
qed (simp add: settles_unsent)

lemma request_settles:
  "conversation (request c m path body x) es r \<Longrightarrow> settles (\<lambda>_. False) (expectation_met x) seen es r"
  unfolding request_def
  by (erule await_mutation_settles) (simp add: told_def expectation_decode_def ok_or_def)

lemma await_read_settles:
  assumes "conversation (await (request_value c m path body ReadEffect) f) es r"
    and "\<And>v es r. conversation (f v) es r \<Longrightarrow> settles refused shown (seen v) es r"
  shows "settles refused shown (\<exists>v. read_value v es \<and> seen v) es r"
  using assms(1) unfolding conversation_await
proof (elim disjE exE conjE)
  fix e assume e: "r = Inl e" "conversation (request_value c m path body ReadEffect) es (Inl e)"
  have "e \<noteq> AmbiguousTransport"
    using e(2) read_reply_lost unfolding request_value_conversation by (metis mutation_error.distinct sum.inject(1))
  with e show ?thesis by (auto simp: request_value_conversation intro!: settles_unsent)
next
  fix es1 v es2
  assume c: "conversation (request_value c m path body ReadEffect) es1 (Inr v)" "conversation (f v) es2 r" "es = es1 @ es2"
  then obtain url rep where es1: "es1 = [(http_request_of c m url body, ReadEffect, rep)]" "Inr v = read_reply ReadEffect rep"
    by (auto simp: request_value_conversation)
  then have "read_value v es" unfolding c(3) read_value_def by (auto simp: read_reply_ok dest!: sym [of "Inr v"]) blast
  moreover have "settles refused shown (seen v) (es1 @ es2) r"
    using es1(1) by (intro settles_after assms(2) c(2)) simp
  ultimately show ?thesis unfolding c(3) by (auto elim: settles_mono)
qed

lemma try_settles:
  assumes "conversation (try_then x f) es r" "x \<noteq> Inl AmbiguousTransport"
    and "\<And>a es r. x = Inr a \<Longrightarrow> conversation (f a) es r \<Longrightarrow> settles refused shown seen es r"
  shows "settles refused shown seen es r"
  using assms by (cases x) (auto simp: settles_unsent)

end
