(* ===== verification/App_Auth.thy ===== *)
theory App_Auth
  imports Http
begin

text \<open>
  The identity of the GitHub application (\<open>crates/patchwright-relay/src/app_auth.rs\<close>): where its private
  key lies, its configuration and the short token it signs. The file system, the system's key chain, the
  reading of an RSA key and its signature are arguments (\<open>key_world\<close>); a secret is its bytes.
\<close>

datatype key_reference = ProtectedFile string | Keychain string string

datatype github_app_error =
    AppInvalidConfiguration | AppInvalidKeyReference | KeyUnavailable | InsecureKeyFile
  | UnsupportedKeyProvider | InvalidPrivateKey | JwtSigning | KeychainWrite

definition parse_key_reference :: "string \<Rightarrow> github_app_error + key_reference" where
  "parse_key_reference v = (case strip_prefix ''file:'' v of
       Some path \<Rightarrow> Inr (ProtectedFile path)
     | None \<Rightarrow> (case strip_prefix ''keychain:'' v of
         Some reference \<Rightarrow> (case split_once CHR ''/'' reference of
             Some (service, account) \<Rightarrow>
               if service = [] \<or> account = [] then Inl AppInvalidKeyReference
               else Inr (Keychain service account)
           | None \<Rightarrow> Inl AppInvalidKeyReference)
       | None \<Rightarrow> Inl AppInvalidKeyReference))"

section \<open>Configuration\<close>

record github_app_configuration =
  ac_app_id :: u64
  ac_client_id :: string
  ac_key_reference :: key_reference
  ac_api_base_url :: string

definition trim_end_matches :: "char \<Rightarrow> string \<Rightarrow> string" where
  "trim_end_matches c v = rev (dropWhile (\<lambda>x. x = c) (rev v))"

definition app_configuration_new :: "url_library \<Rightarrow> u64 \<Rightarrow> string \<Rightarrow> key_reference \<Rightarrow> string \<Rightarrow>
    github_app_error + github_app_configuration" where
  "app_configuration_new urls app_id client_id reference api_base_url =
     and_then (ensure (app_id \<noteq> 0 \<and> trim client_id \<noteq> []) AppInvalidConfiguration) (\<lambda>_.
     and_then (ok_or (ul_parse urls api_base_url) AppInvalidConfiguration) (\<lambda>(scheme, host).
     and_then (ensure (scheme = ''https'' \<and> host \<noteq> None) AppInvalidConfiguration) (\<lambda>_.
     and_then (ensure (case reference of ProtectedFile path \<Rightarrow> path_is_absolute path
         | Keychain service account \<Rightarrow> trim service \<noteq> [] \<and> trim account \<noteq> []) AppInvalidKeyReference) (\<lambda>_.
     Inr \<lparr>ac_app_id = app_id, ac_client_id = client_id, ac_key_reference = reference,
       ac_api_base_url = trim_end_matches CHR ''/'' api_base_url\<rparr>))))"

section \<open>The private key\<close>

record file_status =
  fs_symlink :: bool
  fs_regular :: bool
  fs_mode :: u32

record key_world =
  kw_symlink_metadata :: "string \<Rightarrow> file_status option"
  kw_read :: "string \<Rightarrow> string option"
  kw_keychain :: "string \<Rightarrow> string \<Rightarrow> string option"
  kw_rsa_pem :: "string \<Rightarrow> bool"
  kw_sign :: "string \<Rightarrow> i64 \<times> i64 \<times> string \<Rightarrow> string option"

unbundle bit_operations_syntax

text \<open>\<open>mode & 0o077\<close>\<close>

definition shared_bits :: "u32 \<Rightarrow> u32" where
  "shared_bits mode = mode AND 63"

definition validate_protected_key_file :: "key_world \<Rightarrow> string \<Rightarrow> github_app_error + unit" where
  "validate_protected_key_file w path =
     and_then (ok_or (kw_symlink_metadata w path) KeyUnavailable) (\<lambda>m.
     and_then (ensure (\<not> fs_symlink m \<and> fs_regular m) InsecureKeyFile) (\<lambda>_.
     ensure (shared_bits (fs_mode m) = 0) InsecureKeyFile))"

text \<open>\<open>ProtectedFileKeyProvider\<close>, \<open>KeychainKeyProvider\<close> and the provider that picks one.\<close>

definition load_protected_file :: "key_world \<Rightarrow> key_reference \<Rightarrow> github_app_error + string" where
  "load_protected_file w r = (case r of
       ProtectedFile path \<Rightarrow> and_then (validate_protected_key_file w path) (\<lambda>_.
         ok_or (kw_read w path) KeyUnavailable)
     | Keychain _ _ \<Rightarrow> Inl UnsupportedKeyProvider)"

definition load_keychain :: "key_world \<Rightarrow> key_reference \<Rightarrow> github_app_error + string" where
  "load_keychain w r = (case r of
       Keychain service account \<Rightarrow> ok_or (kw_keychain w service account) KeyUnavailable
     | ProtectedFile _ \<Rightarrow> Inl UnsupportedKeyProvider)"

definition load_configured :: "key_world \<Rightarrow> key_reference \<Rightarrow> github_app_error + string" where
  "load_configured w r = (case r of ProtectedFile _ \<Rightarrow> load_protected_file w r
     | Keychain _ _ \<Rightarrow> load_keychain w r)"

text \<open>Importing a key: \<open>put\<close> is the key chain's own write, which may fail.\<close>

definition import_private_key_to_keychain ::
  "(string \<Rightarrow> string \<Rightarrow> string \<Rightarrow> 'k \<Rightarrow> 'k option) \<Rightarrow> key_world \<Rightarrow> string \<Rightarrow> string \<Rightarrow> string \<Rightarrow> 'k \<Rightarrow>
    github_app_error + key_reference \<times> 'k" where
  "import_private_key_to_keychain put w service account pem chain =
     and_then (ensure (trim service \<noteq> [] \<and> trim account \<noteq> []) AppInvalidKeyReference) (\<lambda>_.
     and_then (ensure (kw_rsa_pem w pem) InvalidPrivateKey) (\<lambda>_.
     and_then (ok_or (put service account pem chain) KeychainWrite) (\<lambda>chain.
     Inr (Keychain service account, chain))))"

section \<open>The application's token\<close>

record app_authenticator =
  aa_configuration :: github_app_configuration
  aa_key :: string

definition app_authenticator_new :: "(key_reference \<Rightarrow> github_app_error + string) \<Rightarrow> key_world \<Rightarrow>
    github_app_configuration \<Rightarrow> github_app_error + app_authenticator" where
  "app_authenticator_new load w configuration =
     and_then (load (ac_key_reference configuration)) (\<lambda>secret.
     and_then (ensure (kw_rsa_pem w secret) InvalidPrivateKey) (\<lambda>_.
     Inr \<lparr>aa_configuration = configuration, aa_key = secret\<rparr>))"

definition app_claims :: "app_authenticator \<Rightarrow> i64 \<Rightarrow> i64 \<times> i64 \<times> string" where
  "app_claims a now = (now - 60, now + 540, decimal (unat (ac_app_id (aa_configuration a))))"

definition app_jwt :: "key_world \<Rightarrow> app_authenticator \<Rightarrow> i64 \<Rightarrow> github_app_error + string" where
  "app_jwt w a now = ok_or (kw_sign w (aa_key a) (app_claims a now)) JwtSigning"

section \<open>Lemmas\<close>

lemma configured_key_protected:
  "load_configured w (ProtectedFile path) = Inr key \<longleftrightarrow> (\<exists>m. kw_symlink_metadata w path = Some m \<and>
     \<not> fs_symlink m \<and> fs_regular m \<and> shared_bits (fs_mode m) = 0 \<and> kw_read w path = Some key)"
  by (auto simp: load_configured_def load_protected_file_def validate_protected_key_file_def result_simps)

text \<open>A reference that the configuration accepts is read back from its text.\<close>

definition show_key_reference :: "key_reference \<Rightarrow> string" where
  "show_key_reference r = (case r of ProtectedFile path \<Rightarrow> ''file:'' @ path
     | Keychain service account \<Rightarrow> ''keychain:'' @ service @ ''/'' @ account)"

lemma parse_show_key_reference:
  assumes "case r of ProtectedFile _ \<Rightarrow> True | Keychain service account \<Rightarrow>
    service \<noteq> [] \<and> account \<noteq> [] \<and> CHR ''/'' \<notin> set service"
  shows "parse_key_reference (show_key_reference r) = Inr r"
proof (cases r)
  case (ProtectedFile path)
  then show ?thesis by (simp add: parse_key_reference_def show_key_reference_def strip_prefix_def starts_with_def)
next
  case (Keychain service account)
  with assms have s: "CHR ''/'' \<notin> set service" "service \<noteq> []" "account \<noteq> []" by simp_all
  then have "takeWhile (\<lambda>x. x \<noteq> CHR ''/'') service = service" "dropWhile (\<lambda>x. x \<noteq> CHR ''/'') service = []"
    by (auto simp: takeWhile_eq_all_conv dropWhile_eq_Nil_conv)
  with s show ?thesis
    by (simp add: Keychain parse_key_reference_def show_key_reference_def strip_prefix_def starts_with_def
      split_once_def takeWhile_append dropWhile_append)
qed

lemma claims_window:
  assumes "0 \<le> sint now" "sint now < 2 ^ 62"
  shows "sint (fst (app_claims a now)) = sint now - 60" "sint (fst (snd (app_claims a now))) = sint now + 540"
  using assms by (simp_all add: app_claims_def sint_word_ariths signed_take_bit_int_eq_self)

end
