(* ===== verification/Installation.thy ===== *)
theory Installation
  imports App_Auth Tables
begin

text \<open>
  Tokens of the GitHub application for one repository (\<open>crates/patchwright-relay/src/installation.rs\<close>):
  the broker finds the installation, has a token minted for the one repository and the permissions asked,
  and keeps it while it is valid for another minute. The cache is locked during a request, so a request is
  one step on it. The requests change nothing in a repository and are marked as reads.
\<close>

type_synonym installation_permissions = "(string \<times> string) list"

definition ingestion_permissions :: installation_permissions where
  "ingestion_permissions = [(''actions'', ''read''), (''checks'', ''read''), (''contents'', ''read''),
     (''issues'', ''read''), (''metadata'', ''read''), (''pull_requests'', ''read'')]"

definition delivery_permissions :: installation_permissions where
  "delivery_permissions = [(''checks'', ''write''), (''contents'', ''write''), (''issues'', ''write''),
     (''metadata'', ''read''), (''pull_requests'', ''write'')]"

record installation_token =
  it_token :: string
  it_installation_id :: u64
  it_repository_ids :: "u64 list"
  it_permissions :: installation_permissions
  it_expires_at :: i64

record cache_key =
  ck_owner :: string
  ck_repository :: string
  ck_repository_id :: u64
  ck_permissions :: installation_permissions

type_synonym token_cache = "(cache_key, installation_token) table"

datatype broker_error =
    BrokerApp github_app_error | BrokerInvalidApiUrl | BrokerInvalidRepository | BrokerTransport
  | BrokerRejected nat "u64 option" | BrokerInvalidResponse

text \<open>The broker and its surroundings; \<open>parse_rfc3339\<close> is chrono's parser.\<close>

record installation_broker =
  ib_authenticator :: app_authenticator
  ib_urls :: url_library
  ib_api_base_url :: string
  ib_keys :: key_world
  ib_parse_rfc3339 :: "string \<Rightarrow> timestamp option"

definition installation_broker_new :: "url_library \<Rightarrow> key_world \<Rightarrow> (string \<Rightarrow> timestamp option) \<Rightarrow>
    app_authenticator \<Rightarrow> string \<Rightarrow> broker_error + installation_broker" where
  "installation_broker_new urls w parse a api_base_url =
     and_then (ok_or (ul_parse urls api_base_url) BrokerInvalidApiUrl) (\<lambda>(scheme, host).
     and_then (ensure (scheme = ''https'' \<or> scheme = ''http'' \<and> host \<in> {Some ''127.0.0.1'', Some ''localhost''})
       BrokerInvalidApiUrl) (\<lambda>_.
     and_then (ensure (ul_client_builds urls) BrokerTransport) (\<lambda>_.
     Inr \<lparr>ib_authenticator = a, ib_urls = urls, ib_api_base_url = api_base_url, ib_keys = w,
       ib_parse_rfc3339 = parse\<rparr>)))"

definition validate_name :: "string \<Rightarrow> broker_error + unit" where
  "validate_name v =
     (if v = [] \<or> 100 < length v \<or>
         \<not> list_all (\<lambda>b. is_ascii_alphanumeric b \<or> b = CHR ''-'' \<or> b = CHR ''_'' \<or> b = CHR ''.'') v
      then Inl BrokerInvalidRepository else Inr ())"

text \<open>\<open>parse_response\<close>, then the fields that the caller decodes.\<close>

definition parse_response :: "http_reply \<Rightarrow> broker_error + json" where
  "parse_response r = (case r of
       SendFailed \<Rightarrow> Inl BrokerTransport
     | Reply status retry_after _ body \<Rightarrow>
         if \<not> is_success status then Inl (BrokerRejected status (Option.bind retry_after parse_u64))
         else ok_or body BrokerInvalidResponse)"

definition broker_request :: "installation_broker \<Rightarrow> http_method \<Rightarrow> string \<Rightarrow> string \<Rightarrow> json option \<Rightarrow>
    (broker_error + json) call" where
  "broker_request b m path jwt body =
     try_then (ok_or (ul_join (ib_urls b) (ib_api_base_url b) path) BrokerInvalidApiUrl) (\<lambda>url.
     Ask \<lparr>rq_method = m, rq_url = url, rq_bearer = jwt, rq_body = body\<rparr> ReadEffect (\<lambda>r. Done (parse_response r)))"

definition discover_installation :: "installation_broker \<Rightarrow> string \<Rightarrow> string \<Rightarrow> string \<Rightarrow>
    (broker_error + u64) call" where
  "discover_installation b owner repository jwt =
     await (broker_request b GET (''repos/'' @ owner @ ''/'' @ repository @ ''/installation'') jwt None) (\<lambda>v.
     Done (ok_or (u64_at [''id''] v) BrokerInvalidResponse))"

definition mint_body :: "u64 \<Rightarrow> installation_permissions \<Rightarrow> json" where
  "mint_body repository_id permissions = JObject [
     (''repository_ids'', JArray [JNumber (PosInt repository_id)]),
     (''permissions'', JObject (map (\<lambda>(k, v). (k, JString v)) permissions))]"

text \<open>\<open>DateTime::timestamp\<close>: whole seconds, rounded down.\<close>

definition epoch_seconds :: "timestamp \<Rightarrow> i64" where
  "epoch_seconds t = word_of_int (t div 1000000000)"

definition minted :: "installation_broker \<Rightarrow> u64 \<Rightarrow> u64 \<Rightarrow> installation_permissions \<Rightarrow> json \<Rightarrow>
    broker_error + installation_token" where
  "minted b installation_id repository_id permissions v =
     and_then (ok_or (str_at [''token''] v) BrokerInvalidResponse) (\<lambda>token.
     and_then (ok_or (str_at [''expires_at''] v) BrokerInvalidResponse) (\<lambda>expires.
     and_then (ok_or (ib_parse_rfc3339 b expires) BrokerInvalidResponse) (\<lambda>at.
     Inr \<lparr>it_token = token, it_installation_id = installation_id, it_repository_ids = [repository_id],
       it_permissions = permissions, it_expires_at = epoch_seconds at\<rparr>)))"

definition mint_token :: "installation_broker \<Rightarrow> u64 \<Rightarrow> u64 \<Rightarrow> installation_permissions \<Rightarrow> string \<Rightarrow>
    (broker_error + installation_token) call" where
  "mint_token b installation_id repository_id permissions jwt =
     await (broker_request b POST (''app/installations/'' @ decimal (unat installation_id) @ ''/access_tokens'')
       jwt (Some (mint_body repository_id permissions))) (\<lambda>v.
     Done (minted b installation_id repository_id permissions v))"

definition cache_safety_seconds :: i64 where
  "cache_safety_seconds = 60"

definition still_valid :: "i64 \<Rightarrow> installation_token \<Rightarrow> bool" where
  "still_valid now t \<longleftrightarrow> sint now < sint (it_expires_at t - cache_safety_seconds)"

definition fresh_token_call :: "installation_broker \<Rightarrow> token_cache \<Rightarrow> cache_key \<Rightarrow> i64 \<Rightarrow>
    (broker_error + installation_token \<times> token_cache) call" where
  "fresh_token_call b cache key now =
     try_then (map_err BrokerApp (app_jwt (ib_keys b) (ib_authenticator b) now)) (\<lambda>jwt.
     await (discover_installation b (ck_owner key) (ck_repository key) jwt) (\<lambda>installation_id.
     await (mint_token b installation_id (ck_repository_id key) (ck_permissions key) jwt) (\<lambda>t.
     Done (Inr (t, upsert key t cache)))))"

definition token_for_repository :: "installation_broker \<Rightarrow> token_cache \<Rightarrow> string \<Rightarrow> string \<Rightarrow> u64 \<Rightarrow>
    installation_permissions \<Rightarrow> i64 \<Rightarrow> (broker_error + installation_token \<times> token_cache) call" where
  "token_for_repository b cache owner repository repository_id permissions now =
     try_then (validate_name owner) (\<lambda>_.
     try_then (validate_name repository) (\<lambda>_.
     try_then (ensure (repository_id \<noteq> 0) BrokerInvalidRepository) (\<lambda>_.
     let key = \<lparr>ck_owner = owner, ck_repository = repository, ck_repository_id = repository_id,
         ck_permissions = permissions\<rparr> in
     case find_row key cache of
       Some t \<Rightarrow> if still_valid now t then Done (Inr (t, cache)) else fresh_token_call b cache key now
     | None \<Rightarrow> fresh_token_call b cache key now)))"

definition revoke_cached_tokens :: "token_cache \<Rightarrow> token_cache" where
  "revoke_cached_tokens cache = []"

section \<open>The life of a broker\<close>

text \<open>The requests for tokens with the time of each and what it exchanged, since the cache was last emptied;
  a request that fails leaves the cache as it is.\<close>

inductive broker_life :: "installation_broker \<Rightarrow> token_cache \<Rightarrow> (i64 \<times> exchange list) list \<Rightarrow> bool" for b where
  new: "broker_life b [] []"
| asked: "broker_life b cache log \<Longrightarrow>
     conversation (token_for_repository b cache owner repository repository_id permissions now) es (Inr (t, cache')) \<Longrightarrow>
     broker_life b cache' ((now, es) # log)"
| refused: "broker_life b cache log \<Longrightarrow>
     conversation (token_for_repository b cache owner repository repository_id permissions now) es (Inl e) \<Longrightarrow>
     broker_life b cache ((now, es) # log)"
| revoked: "broker_life b cache log \<Longrightarrow> broker_life b (revoke_cached_tokens cache) []"

lemma broker_request_conversation:
  "conversation (broker_request b m path jwt body) es r \<longleftrightarrow>
     ul_join (ib_urls b) (ib_api_base_url b) path = None \<and> es = [] \<and> r = Inl BrokerInvalidApiUrl \<or>
     (\<exists>url rep. ul_join (ib_urls b) (ib_api_base_url b) path = Some url \<and>
       es = [(\<lparr>rq_method = m, rq_url = url, rq_bearer = jwt, rq_body = body\<rparr>, ReadEffect, rep)] \<and>
       r = parse_response rep)"
  by (cases "ul_join (ib_urls b) (ib_api_base_url b) path")
    (auto simp: broker_request_def conversation_Ask)

lemma parse_response_ok:
  "parse_response rep = Inr v \<longleftrightarrow> (\<exists>status ra i. rep = Reply status ra i (Some v) \<and> is_success status)"
  by (cases rep) (auto simp: parse_response_def result_simps)

lemma minted_ok:
  "minted b i n p v = Inr t \<Longrightarrow> str_at [''token''] v = Some (it_token t) \<and> it_installation_id t = i \<and>
     it_repository_ids t = [n] \<and> it_permissions t = p \<and> (\<exists>expires at. str_at [''expires_at''] v = Some expires \<and>
       ib_parse_rfc3339 b expires = Some at \<and> it_expires_at t = epoch_seconds at)"
  by (auto simp: minted_def result_simps)

text \<open>The two exchanges that a token comes from: the installation of the very repository was found, and a
  token for this one repository and these permissions was asked of it; the token is what GitHub replied, and
  it expires when GitHub said, in whole seconds.\<close>

definition mint_exchange :: "installation_broker \<Rightarrow> string \<Rightarrow> string \<Rightarrow> string \<Rightarrow> u64 \<Rightarrow> installation_permissions \<Rightarrow>
    installation_token \<Rightarrow> exchange list \<Rightarrow> bool" where
  "mint_exchange b jwt owner repository repository_id permissions t es \<longleftrightarrow>
     (\<exists>found mint s1 r1 i1 v1 s2 r2 i2 v2 expires at. es = [(found, ReadEffect, Reply s1 r1 i1 (Some v1)),
        (mint, ReadEffect, Reply s2 r2 i2 (Some v2))] \<and> is_success s1 \<and> is_success s2 \<and>
      rq_method found = GET \<and> rq_bearer found = jwt \<and>
      ul_join (ib_urls b) (ib_api_base_url b) (''repos/'' @ owner @ ''/'' @ repository @ ''/installation'') = Some (rq_url found) \<and>
      rq_method mint = POST \<and> rq_bearer mint = jwt \<and>
      ul_join (ib_urls b) (ib_api_base_url b) (''app/installations/'' @ decimal (unat (it_installation_id t)) @
        ''/access_tokens'') = Some (rq_url mint) \<and>
      rq_body mint = Some (JObject [(''repository_ids'', JArray [JNumber (PosInt repository_id)]),
        (''permissions'', JObject (map (\<lambda>(k, v). (k, JString v)) permissions))]) \<and>
      u64_at [''id''] v1 = Some (it_installation_id t) \<and> str_at [''token''] v2 = Some (it_token t) \<and>
      it_repository_ids t = [repository_id] \<and> it_permissions t = permissions \<and>
      str_at [''expires_at''] v2 = Some expires \<and> ib_parse_rfc3339 b expires = Some at \<and>
      it_expires_at t = word_of_int (at div 10 ^ 9))"

lemma broker_reply:
  assumes "conversation (await (broker_request b m path jwt body) f) es (Inr a)"
  obtains url status ra i v es2 where "is_success status" "conversation (f v) es2 (Inr a)"
    "ul_join (ib_urls b) (ib_api_base_url b) path = Some url"
    "es = (\<lparr>rq_method = m, rq_url = url, rq_bearer = jwt, rq_body = body\<rparr>, ReadEffect,
       Reply status ra i (Some v)) # es2"
proof -
  obtain es1 v es2 where c: "conversation (broker_request b m path jwt body) es1 (Inr v)"
    and f: "conversation (f v) es2 (Inr a)" "es = es1 @ es2"
    using assms by (auto simp: conversation_await)
  from c obtain url rep where
    es1: "es1 = [(\<lparr>rq_method = m, rq_url = url, rq_bearer = jwt, rq_body = body\<rparr>, ReadEffect, rep)]"
    and url: "ul_join (ib_urls b) (ib_api_base_url b) path = Some url"
    and rep: "parse_response rep = Inr v" by (auto simp: broker_request_conversation)
  from rep obtain status ra i where "rep = Reply status ra i (Some v)" "is_success status"
    unfolding parse_response_ok by blast
  with f es1 url show ?thesis by (intro that) simp_all
qed

lemma fresh_token:
  assumes "conversation (await (discover_installation b owner repository jwt) (\<lambda>i.
      await (mint_token b i n p jwt) (\<lambda>t. Done (Inr (t, upsert key t cache))))) es (Inr (t, cache'))"
  shows "mint_exchange b jwt owner repository n p t es" "cache' = upsert key t cache"
proof -
  have "conversation (await (broker_request b GET (''repos/'' @ owner @ ''/'' @ repository @ ''/installation'') jwt None)
      (\<lambda>v. try_then (ok_or (u64_at [''id''] v) BrokerInvalidResponse) (\<lambda>i.
        await (mint_token b i n p jwt) (\<lambda>t. Done (Inr (t, upsert key t cache)))))) es (Inr (t, cache'))"
    using assms by (simp add: discover_installation_def await_assoc)
  then obtain url1 s1 r1 i1 v1 es1 i where first: "is_success s1" "u64_at [''id''] v1 = Some i"
    "ul_join (ib_urls b) (ib_api_base_url b) (''repos/'' @ owner @ ''/'' @ repository @ ''/installation'') = Some url1"
    "es = (\<lparr>rq_method = GET, rq_url = url1, rq_bearer = jwt, rq_body = None\<rparr>, ReadEffect, Reply s1 r1 i1 (Some v1)) # es1"
    and rest: "conversation (await (mint_token b i n p jwt) (\<lambda>t. Done (Inr (t, upsert key t cache)))) es1 (Inr (t, cache'))"
    by (elim broker_reply) (auto simp: conversation_try result_simps)
  from rest have "conversation (await (broker_request b POST (''app/installations/'' @ decimal (unat i) @ ''/access_tokens'')
      jwt (Some (mint_body n p)))
      (\<lambda>v. try_then (minted b i n p v) (\<lambda>t. Done (Inr (t, upsert key t cache))))) es1 (Inr (t, cache'))"
    by (simp add: mint_token_def await_assoc)
  then obtain url2 s2 r2 i2 v2 where second: "is_success s2" "minted b i n p v2 = Inr t" "cache' = upsert key t cache"
    "ul_join (ib_urls b) (ib_api_base_url b) (''app/installations/'' @ decimal (unat i) @ ''/access_tokens'') = Some url2"
    "es1 = [(\<lparr>rq_method = POST, rq_url = url2, rq_bearer = jwt, rq_body = Some (mint_body n p)\<rparr>, ReadEffect,
       Reply s2 r2 i2 (Some v2))]"
    by (elim broker_reply) (auto simp: conversation_try)
  note t = minted_ok [OF second(2)]
  show "mint_exchange b jwt owner repository n p t es"
    unfolding mint_exchange_def first(4) second(5) using first(1,2,3) second(1,4) t
    by (auto simp: mint_body_def epoch_seconds_def)
  show "cache' = upsert key t cache" by (rule second(3))
qed

lemma token_for_repository_ok:
  assumes "conversation (token_for_repository b cache owner repository n p now) es (Inr (t, cache'))"
  defines "key \<equiv> \<lparr>ck_owner = owner, ck_repository = repository, ck_repository_id = n, ck_permissions = p\<rparr>"
  shows "find_row key cache = Some t \<and> still_valid now t \<and> es = [] \<and> cache' = cache \<or>
    (\<exists>jwt. app_jwt (ib_keys b) (ib_authenticator b) now = Inr jwt \<and> mint_exchange b jwt owner repository n p t es \<and>
      cache' = upsert key t cache)"
proof -
  have conv: "conversation (case find_row key cache of
      Some t \<Rightarrow> if still_valid now t then Done (Inr (t, cache)) else fresh_token_call b cache key now
    | None \<Rightarrow> fresh_token_call b cache key now) es (Inr (t, cache'))"
    using assms(1) unfolding token_for_repository_def Let_def key_def by (auto simp: conversation_try)
  show ?thesis
  proof (cases "\<exists>u. find_row key cache = Some u \<and> still_valid now u")
    case True
    then show ?thesis using conv by auto
  next
    case False
    with conv have "conversation (fresh_token_call b cache key now) es (Inr (t, cache'))" by (auto split: option.splits)
    then obtain jwt where "app_jwt (ib_keys b) (ib_authenticator b) now = Inr jwt"
      "conversation (await (discover_installation b owner repository jwt) (\<lambda>i.
        await (mint_token b i n p jwt) (\<lambda>t. Done (Inr (t, upsert key t cache))))) es (Inr (t, cache'))"
      by (auto simp: fresh_token_call_def conversation_try result_simps key_def)
    then show ?thesis using fresh_token [of b owner repository jwt n p key cache es t cache']
      by auto
  qed
qed

text \<open>What the cache holds was minted in the life of the broker, for the key it stands under.\<close>

definition minted_in :: "installation_broker \<Rightarrow> (i64 \<times> exchange list) list \<Rightarrow> cache_key \<Rightarrow> installation_token \<Rightarrow> bool" where
  "minted_in b log k t \<longleftrightarrow> (\<exists>earlier es jwt. (earlier, es) \<in> set log \<and> app_jwt (ib_keys b) (ib_authenticator b) earlier = Inr jwt \<and>
     mint_exchange b jwt (ck_owner k) (ck_repository k) (ck_repository_id k) (ck_permissions k) t es)"

lemma minted_in_later: "minted_in b log k t \<Longrightarrow> minted_in b (x # log) k t"
  by (auto simp: minted_in_def)

lemma cached_minted: "broker_life b cache log \<Longrightarrow> find_row k cache = Some t \<Longrightarrow> minted_in b log k t"
proof (induction arbitrary: k t rule: broker_life.induct)
  case (asked cache log owner repository n p now es u cache')
  let ?key = "\<lparr>ck_owner = owner, ck_repository = repository, ck_repository_id = n, ck_permissions = p\<rparr>"
  from token_for_repository_ok [OF asked.hyps(2)] show ?case
  proof (elim disjE exE conjE)
    assume "cache' = cache"
    then show ?thesis using asked.IH asked.prems minted_in_later by simp
  next
    fix jwt
    assume m: "app_jwt (ib_keys b) (ib_authenticator b) now = Inr jwt" "mint_exchange b jwt owner repository n p u es"
      and c: "cache' = upsert ?key u cache"
    show ?thesis
    proof (cases "k = ?key")
      case True
      then have "t = u" using asked.prems c by simp
      then show ?thesis using m True by (auto simp: minted_in_def)
    next
      case False
      then have "find_row k cache = Some t" using asked.prems c by simp
      then show ?thesis using asked.IH minted_in_later by blast
    qed
  qed
qed (auto simp: revoke_cached_tokens_def find_row_def intro: minted_in_later)

end
