(* ===== verification/Rpc_Actions.thy ===== *)
theory Rpc_Actions
  imports Rpc_Delivery Mutations Installation Worktrees
begin

text \<open>
  \<open>execute_github_action\<close> of \<open>crates/patchwright-engine/src/rpc.rs\<close>: what a claimed delivery does on
  GitHub. It reads the configuration of the application, has a token minted for the one repository and
  then pushes the branch with git or lets the mutation client carry the action out. Its end decides what
  \<open>delivery_execute\<close> records. The environment, the files and the parser of JSON are arguments.
\<close>

section \<open>The application's configuration\<close>

record runtime_configuration =
  rc_app_id :: u64
  rc_client_id :: string
  rc_key_reference :: string
  rc_api_base_url :: string

record app_world =
  aw_variable :: "string \<Rightarrow> string option"
  aw_home :: "string option"
  aw_keys :: key_world
  aw_parse_json :: "string \<Rightarrow> json option"
  aw_urls :: url_library
  aw_parse_rfc3339 :: "string \<Rightarrow> timestamp option"

definition default_github_api_url :: string where
  "default_github_api_url = ''https://api.github.com''"

text \<open>The derived decoder: \<open>apiBaseUrl\<close> has a default, and is refused when it is no string.\<close>

definition decode_runtime_configuration :: "json \<Rightarrow> runtime_configuration option" where
  "decode_runtime_configuration v =
     (case (u64_at [''appId''] v, str_at [''clientId''] v, str_at [''keyReference''] v,
         case json_get ''apiBaseUrl'' v of None \<Rightarrow> Some default_github_api_url | Some u \<Rightarrow> as_str u) of
       (Some app_id, Some client_id, Some reference, Some url) \<Rightarrow>
         Some \<lparr>rc_app_id = app_id, rc_client_id = client_id, rc_key_reference = reference, rc_api_base_url = url\<rparr>
     | _ \<Rightarrow> None)"

definition load_runtime_configuration :: "app_world \<Rightarrow> string \<Rightarrow> runtime_configuration option" where
  "load_runtime_configuration w path =
     Option.bind (kw_symlink_metadata (aw_keys w) path) (\<lambda>m.
     if fs_symlink m \<or> shared_bits (fs_mode m) \<noteq> 0 then None
     else Option.bind (kw_read (aw_keys w) path) (\<lambda>bytes.
       Option.bind (aw_parse_json w bytes) decode_runtime_configuration))"

definition runtime_configuration_of :: "app_world \<Rightarrow> runtime_configuration option" where
  "runtime_configuration_of w =
     (case (aw_variable w ''PATCHWRIGHT_GITHUB_APP_ID'', aw_variable w ''PATCHWRIGHT_GITHUB_APP_CLIENT_ID'',
         aw_variable w ''PATCHWRIGHT_GITHUB_APP_KEY_REFERENCE'') of
       (Some app_id, Some client_id, Some reference) \<Rightarrow>
         map_option (\<lambda>n. \<lparr>rc_app_id = n, rc_client_id = client_id, rc_key_reference = reference,
           rc_api_base_url = (case aw_variable w ''PATCHWRIGHT_GITHUB_API_URL'' of Some u \<Rightarrow> u
             | None \<Rightarrow> default_github_api_url)\<rparr>) (parse_u64 app_id)
     | _ \<Rightarrow> Option.bind (aw_home w) (\<lambda>home.
         load_runtime_configuration w (path_join home ''.patchwright/github-app.json'')))"

text \<open>From the configuration to a broker, with the key that it names.\<close>

definition configured_broker :: "app_world \<Rightarrow> runtime_configuration \<Rightarrow> installation_broker option" where
  "configured_broker w rc = (case
     and_then (map_err BrokerApp (parse_key_reference (rc_key_reference rc))) (\<lambda>reference.
     and_then (map_err BrokerApp (app_configuration_new (aw_urls w) (rc_app_id rc) (rc_client_id rc) reference
       (rc_api_base_url rc))) (\<lambda>configuration.
     and_then (map_err BrokerApp (app_authenticator_new (load_configured (aw_keys w)) (aw_keys w) configuration)) (\<lambda>a.
     installation_broker_new (aw_urls w) (aw_keys w) (aw_parse_rfc3339 w) a (rc_api_base_url rc))))
     of Inl _ \<Rightarrow> None | Inr b \<Rightarrow> Some b)"

section \<open>The action\<close>

definition mapped_call :: "('a \<Rightarrow> 'b) \<Rightarrow> 'a call \<Rightarrow> 'b call" where
  "mapped_call f c = bind_call c (\<lambda>a. Done (f a))"

text \<open>The push reads the task and the binding from the store as it is by then.\<close>

definition push_from_store :: "git_world \<Rightarrow> store \<Rightarrow> uuid \<Rightarrow> string \<Rightarrow> string \<Rightarrow> string \<Rightarrow>
    mutation_error + mutation_result" where
  "push_from_store g s i branch head_sha token =
     and_then (ok_or (load_task i s) MutInvalidTarget) (\<lambda>t.
     and_then (ok_or (task_repository_binding_id t) MutInvalidTarget) (\<lambda>binding_id.
     and_then (ok_or (repository_binding binding_id s) MutInvalidTarget) (\<lambda>b.
     and_then (ensure (branch \<noteq> rb_default_branch b) DefaultBranchPushProhibited) (\<lambda>_.
     and_then (map_err (\<lambda>_. GitTransportFailed) (push_branch g (task_repository_path t) branch head_sha
       (rb_clone_url b) (rb_state_root b) token)) (\<lambda>_.
     Inr (no_result\<lparr>mr_sha := Some head_sha\<rparr>))))))"

definition perform_action :: "app_world \<Rightarrow> git_world \<Rightarrow> store \<Rightarrow> delivery_preview \<Rightarrow> string \<Rightarrow> string \<Rightarrow> string \<Rightarrow>
    installation_token \<Rightarrow> (mutation_error + mutation_result) call" where
  "perform_action w g s p api_url owner repository t = (case gp_action (dp_action p) of
       PushIntent branch head_sha \<Rightarrow> Done (push_from_store g s (dp_task_id p) branch head_sha (it_token t))
     | action \<Rightarrow> try_then (mutation_client_new (aw_urls w) api_url (it_token t)) (\<lambda>c.
         execute_mutation c owner repository action))"

definition execute_github_action :: "app_world \<Rightarrow> git_world \<Rightarrow> i64 \<Rightarrow> store \<Rightarrow> delivery_preview \<Rightarrow>
    (mutation_error + mutation_result) call" where
  "execute_github_action w g now s p =
     (let remote = gp_remote (dp_action p) in
     try_then (ok_or (runtime_configuration_of w) MissingToken) (\<lambda>rc.
     try_then (ok_or (configured_broker w rc) MissingToken) (\<lambda>b.
     try_then (ok_or (split_once CHR ''/'' (ri_repository_full_name remote)) MutInvalidTarget) (\<lambda>(owner, repository).
     await (mapped_call (map_err (\<lambda>_. MissingToken)) (token_for_repository b [] owner repository
       (ri_repository_id remote) delivery_permissions now)) (\<lambda>(t, _).
     try_then (ensure (it_installation_id t = ri_installation_id remote) MutInvalidTarget) (\<lambda>_.
     perform_action w g s p (rc_api_base_url rc) owner repository t))))))"

text \<open>\<open>github_app_installation_token\<close>, for the readers of a repository.\<close>

definition github_app_installation_token :: "app_world \<Rightarrow> i64 \<Rightarrow> string \<Rightarrow> u64 \<Rightarrow> installation_permissions \<Rightarrow>
    (unit + installation_token) call" where
  "github_app_installation_token w now full_name repository_id permissions =
     try_then (ok_or (split_once CHR ''/'' full_name) ()) (\<lambda>(owner, name).
     try_then (ensure (owner \<noteq> [] \<and> name \<noteq> [] \<and> CHR ''/'' \<notin> set name) ()) (\<lambda>_.
     try_then (ok_or (runtime_configuration_of w) ()) (\<lambda>rc.
     try_then (ok_or (configured_broker w rc) ()) (\<lambda>b.
     await (mapped_call (map_err (\<lambda>_. ())) (token_for_repository b [] owner name repository_id permissions now)) (\<lambda>(t, _).
     Done (Inr t))))))"

section \<open>What is recorded\<close>

text \<open>The branches of \<open>delivery_execute\<close> after the action: each records a document that names its state,
  with the result or the error; \<open>encode\<close> is \<open>serde_json::to_string\<close> on these documents.\<close>

definition outcome_of :: "(string \<times> (mutation_error + mutation_result) \<Rightarrow> string) \<Rightarrow> mutation_error + mutation_result \<Rightarrow>
    mutation_outcome" where
  "outcome_of encode r = (case r of
       Inr result \<Rightarrow> MutationSucceeded (mr_merged result) (encode (''succeeded'', r))
     | Inl e \<Rightarrow> if e = AmbiguousTransport then MutationAmbiguous (encode (''ambiguous'', r))
         else MutationFailed (encode (''failed'', r)))"

section \<open>Lemmas\<close>

lemma conversation_mapped:
  "conversation (mapped_call f c) es b \<longleftrightarrow> (\<exists>a. conversation c es a \<and> b = f a)"
  unfolding mapped_call_def
  using conversation_bindI [of c es _ "\<lambda>a. Done (f a)" "[]"]
  by (auto elim!: conversation_bindE)

lemma token_reads: "all_requests (\<lambda>_ eff. eff = ReadEffect) (token_for_repository b cache owner repository n p now)"
  unfolding token_for_repository_def Let_def fresh_token_call_def discover_installation_def mint_token_def
    broker_request_def
  by (intro all_requests_try) (auto split: option.split)

lemma reads_no_mutations:
  "conversation c es a \<Longrightarrow> all_requests (\<lambda>_ eff. eff = ReadEffect) c \<Longrightarrow> mutations es = []"
  using conversation_requests [of c es a "\<lambda>_ eff. eff = ReadEffect"]
  by (auto simp: mutations_def filter_empty_conv)

end
