(* ===== verification/Relay_Properties.thy ===== *)
theory Relay_Properties
  imports Rpc_Actions Delivery_Properties
begin

text \<open>
  Properties of the relay's clients, over all the replies that GitHub may give.
\<close>

section \<open>The mutation client\<close>

text \<open>What GitHub's reply to each action must hold for the change to be seen in it, as GitHub documents the
  replies of its endpoints; and when a reply of success is a refusal (GraphQL reports errors so).\<close>

definition given_url :: "string list \<Rightarrow> json \<Rightarrow> bool" where
  "given_url ks v \<longleftrightarrow> (\<exists>u. str_at ks v = Some u \<and> u \<noteq> [])"

definition given_text :: "string list \<Rightarrow> json \<Rightarrow> bool" where
  "given_text ks v \<longleftrightarrow> (\<exists>u. str_at ks v = Some u \<and> trim u \<noteq> [])"

definition positive :: "string list \<Rightarrow> json \<Rightarrow> bool" where
  "positive ks v \<longleftrightarrow> (\<exists>n. u64_at ks v = Some n \<and> n > 0)"

definition change_shown :: "github_action \<Rightarrow> json \<Rightarrow> bool" where
  "change_shown action v = (case action of
       CreateBranch branch s \<Rightarrow> str_at [''ref''] v = Some (''refs/heads/'' @ branch) \<and> str_at [''object'', ''sha''] v = Some s
     | Comment _ _ \<Rightarrow> positive [''id''] v \<and> given_url [''html_url''] v
     | Review _ _ _ _ _ \<Rightarrow> positive [''id''] v \<and> given_url [''html_url''] v
     | CheckRun _ _ _ _ \<Rightarrow> positive [''id''] v \<and> given_url [''html_url''] v
     | DraftPullRequest _ _ _ _ _ _ \<Rightarrow> positive [''number''] v \<and> given_url [''html_url''] v
     | UpdatePullRequestBranch _ _ \<Rightarrow> given_text [''message''] v \<and> given_text [''url''] v
     | ClosePullRequest n _ \<Rightarrow> u64_at [''number''] v = Some n \<and> str_at [''state''] v = Some ''closed'' \<and> given_url [''html_url''] v
     | CloseIssue n \<Rightarrow> u64_at [''number''] v = Some n \<and> str_at [''state''] v = Some ''closed'' \<and> given_url [''html_url''] v
     | MergePullRequest _ _ _ \<Rightarrow> bool_at [''merged''] v = Some True \<and>
         (\<exists>m. str_at [''sha''] v = Some m \<and> length m = 40 \<and> list_all is_ascii_hexdigit m)
     | ResolveReviewThread _ t _ \<Rightarrow> str_at [''data'', ''resolveReviewThread'', ''thread'', ''id''] v = Some t \<and>
         bool_at [''data'', ''resolveReviewThread'', ''thread'', ''isResolved''] v = Some True
     | ReadyPullRequest n _ \<Rightarrow> u64_at [''data'', ''markPullRequestReadyForReview'', ''pullRequest'', ''number''] v = Some n \<and>
         bool_at [''data'', ''markPullRequestReadyForReview'', ''pullRequest'', ''isDraft''] v = Some False \<and>
         positive [''data'', ''markPullRequestReadyForReview'', ''pullRequest'', ''databaseId''] v \<and>
         given_text [''data'', ''markPullRequestReadyForReview'', ''pullRequest'', ''url''] v
     | _ \<Rightarrow> False)"

definition graphql_refused :: "github_action \<Rightarrow> json \<Rightarrow> bool" where
  "graphql_refused action v \<longleftrightarrow> (case action of ResolveReviewThread _ _ _ \<Rightarrow> True | ReadyPullRequest _ _ \<Rightarrow> True
     | _ \<Rightarrow> False) \<and> json_get ''errors'' v \<noteq> None"

text \<open>What the client may have read that makes the change needless.\<close>

definition already_done :: "github_action \<Rightarrow> json \<Rightarrow> bool" where
  "already_done action v = (case action of
       ResolveReviewThread _ t s \<Rightarrow> str_at [''data'', ''node'', ''id''] v = Some t \<and>
         str_at [''data'', ''node'', ''pullRequest'', ''headRefOid''] v = Some s \<and>
         bool_at [''data'', ''node'', ''isResolved''] v = Some True
     | ReadyPullRequest _ s \<Rightarrow> str_at [''head'', ''sha''] v = Some s \<and> bool_at [''draft''] v = Some False
     | _ \<Rightarrow> False)"

lemma pointer_append: "pointer (ks @ ls) v = Option.bind (pointer ks v) (pointer ls)"
  by (induction ks arbitrary: v) (auto split: option.split)

lemma under_pointer:
  assumes "pointer ks v = Some w"
  shows "str_at (ks @ ls) v = str_at ls w" "bool_at (ks @ ls) v = bool_at ls w" "u64_at (ks @ ls) v = u64_at ls w"
  using assms by (simp_all add: str_at_def bool_at_def u64_at_def pointer_append)

lemma no_pointer:
  assumes "pointer ks v = None"
  shows "str_at (ks @ ls) v = None" "bool_at (ks @ ls) v = None" "u64_at (ks @ ls) v = None"
  using assms by (simp_all add: str_at_def bool_at_def u64_at_def pointer_append)

lemma present_iff: "present P x \<longleftrightarrow> (\<exists>a. x = Some a \<and> P a)"
  by (simp add: present_def split: option.split)

lemma nonempty_given: "(\<exists>y. Option.bind (json_get k v) nonempty_string = Some y) \<longleftrightarrow> given_text [k] v"
  by (cases "json_get k v") (auto simp: given_text_def str_at_def nonempty_string_def filter_option_def split: option.splits)

lemma u64_positive: "(n :: u64) \<noteq> 0 \<longleftrightarrow> n > 0"
  using word_neq_0_conv by blast

lemma expectation_shows:
  "expectation_met (CreatedRef (''refs/heads/'' @ branch) s) = change_shown (CreateBranch branch s)"
  "expectation_met Resource = change_shown (Comment n body)"
  "expectation_met Resource = change_shown (Review n s event body comments)"
  "expectation_met Resource = change_shown (CheckRun name s status conclusion)"
  "expectation_met ExpectPullRequest = change_shown (DraftPullRequest title head base body hs bs)"
  "expectation_met UpdateBranch = change_shown (UpdatePullRequestBranch n s)"
  "expectation_met (Closed n) = change_shown (ClosePullRequest n s)"
  "expectation_met (Closed n) = change_shown (CloseIssue n)"
  "expectation_met Merged = change_shown (MergePullRequest n s m)"
  by (auto simp: fun_eq_iff expectation_met_def decode_value_def change_shown_def present_iff nonempty_given
    positive_def given_url_def valid_sha_def Let_def)

lemma check_resolved_told:
  "told (graphql_refused (ResolveReviewThread n t s)) (change_shown (ResolveReviewThread n t s)) v (check_resolved t v)"
  using under_pointer [of "[''data'', ''resolveReviewThread'', ''thread'']" v] no_pointer [of "[''data'', ''resolveReviewThread'', ''thread'']" v]
  by (cases "pointer [''data'', ''resolveReviewThread'', ''thread''] v")
    (auto simp: told_def graphql_refused_def change_shown_def check_resolved_def ensure_def)

lemma check_ready_told:
  "told (graphql_refused (ReadyPullRequest n s)) (change_shown (ReadyPullRequest n s)) v (check_ready n v)"
  using under_pointer [of "[''data'', ''markPullRequestReadyForReview'', ''pullRequest'']" v]
    no_pointer [of "[''data'', ''markPullRequestReadyForReview'', ''pullRequest'']" v]
  by (cases "pointer [''data'', ''markPullRequestReadyForReview'', ''pullRequest''] v")
    (auto simp: told_def graphql_refused_def change_shown_def check_ready_def ensure_def nonempty_given
      present_iff positive_def given_text_def u64_positive)

lemma checks_not_ambiguous:
  "require_sha a s \<noteq> Inl AmbiguousTransport" "ok_or x MutInvalidResponse \<noteq> Inl AmbiguousTransport"
  "ensure b ReviewThreadNotResolvable \<noteq> Inl AmbiguousTransport"
  "check_thread n i t s v \<noteq> Inl AmbiguousTransport" "validate_component w \<noteq> Inl AmbiguousTransport"
  by (auto simp: require_sha_def ok_or_def ensure_def check_thread_def validate_component_def and_then_def
      split: option.splits sum.splits)

lemma require_sha_ok: "require_sha a s = Inr u \<longleftrightarrow> a = Some s"
  by (auto simp: require_sha_def split: option.splits)

lemma check_thread_ok:
  assumes "check_thread full_name n t s v = Inr thread"
  shows "str_at [''data'', ''node'', ''id''] v = Some t" "u64_at [''data'', ''node'', ''pullRequest'', ''number''] v = Some n"
    "str_at [''data'', ''node'', ''pullRequest'', ''repository'', ''nameWithOwner''] v = Some full_name"
    "str_at [''data'', ''node'', ''pullRequest'', ''headRefOid''] v = Some s"
    "bool_at [''isResolved''] thread = bool_at [''data'', ''node'', ''isResolved''] v"
    "bool_at [''viewerCanResolve''] thread = bool_at [''data'', ''node'', ''viewerCanResolve''] v"
proof -
  have p: "pointer [''data'', ''node''] v = Some thread" using assms by (auto simp: check_thread_def result_simps)
  have t: "str_at [''id''] thread = Some t" "u64_at [''pullRequest'', ''number''] thread = Some n"
    "str_at [''pullRequest'', ''repository'', ''nameWithOwner''] thread = Some full_name"
    "str_at [''pullRequest'', ''headRefOid''] thread = Some s"
    using assms by (auto simp: check_thread_def result_simps require_sha_ok)
  note u = under_pointer [OF p]
  show "str_at [''data'', ''node'', ''id''] v = Some t" using u(1) [of "[''id'']"] t by simp
  show "u64_at [''data'', ''node'', ''pullRequest'', ''number''] v = Some n"
    using u(3) [of "[''pullRequest'', ''number'']"] t by simp
  show "str_at [''data'', ''node'', ''pullRequest'', ''repository'', ''nameWithOwner''] v = Some full_name"
    using u(1) [of "[''pullRequest'', ''repository'', ''nameWithOwner'']"] t by simp
  show "str_at [''data'', ''node'', ''pullRequest'', ''headRefOid''] v = Some s"
    using u(1) [of "[''pullRequest'', ''headRefOid'']"] t by simp
  show "bool_at [''isResolved''] thread = bool_at [''data'', ''node'', ''isResolved''] v"
    "bool_at [''viewerCanResolve''] thread = bool_at [''data'', ''node'', ''viewerCanResolve''] v"
    using u(2) [of "[''isResolved'']"] u(2) [of "[''viewerCanResolve'']"] by simp_all
qed

lemma resolve_thread_settles:
  assumes "conversation (resolve_thread c full_name n t s) es r"
  shows "settles (graphql_refused (ResolveReviewThread n t s)) (change_shown (ResolveReviewThread n t s))
    (\<exists>v. read_value v es \<and> already_done (ResolveReviewThread n t s) v) es r"
  using assms unfolding resolve_thread_def
proof (rule await_read_settles)
  fix v es r
  assume a: "conversation (try_then (check_thread full_name n t s v) (\<lambda>thread.
       if bool_at [''isResolved''] thread = Some True then Done (Inr (resolved_result t))
       else try_then (ensure (bool_at [''viewerCanResolve''] thread = Some True) ReviewThreadNotResolvable) (\<lambda>_.
         await (request_value c POST ''graphql'' (Some (graphql resolve_mutation ''threadId'' t)) MutationEffect)
           (\<lambda>response. Done (check_resolved t response))))) es r"
  show "settles (graphql_refused (ResolveReviewThread n t s)) (change_shown (ResolveReviewThread n t s))
    (already_done (ResolveReviewThread n t s) v) es r"
    using a
  proof (rule try_settles [OF _ checks_not_ambiguous(4)])
    fix thread es r
    assume ok: "check_thread full_name n t s v = Inr thread"
      and b: "conversation (if bool_at [''isResolved''] thread = Some True then Done (Inr (resolved_result t))
       else try_then (ensure (bool_at [''viewerCanResolve''] thread = Some True) ReviewThreadNotResolvable) (\<lambda>_.
         await (request_value c POST ''graphql'' (Some (graphql resolve_mutation ''threadId'' t)) MutationEffect)
           (\<lambda>response. Done (check_resolved t response)))) es r"
    show "settles (graphql_refused (ResolveReviewThread n t s)) (change_shown (ResolveReviewThread n t s))
      (already_done (ResolveReviewThread n t s) v) es r"
    proof (cases "bool_at [''isResolved''] thread = Some True")
      case True
      then show ?thesis using b check_thread_ok [OF ok] by (auto simp: already_done_def intro!: settles_seen)
    next
      case False
      then show ?thesis using b
        by (auto elim!: try_settles [OF _ checks_not_ambiguous(3)] await_mutation_settles intro: check_resolved_told)
    qed
  qed
qed

lemma ready_pull_request_settles:
  assumes "conversation (ready_pull_request c prefix n s) es r"
  shows "settles (graphql_refused (ReadyPullRequest n s)) (change_shown (ReadyPullRequest n s))
    (\<exists>v. read_value v es \<and> already_done (ReadyPullRequest n s) v) es r"
  using assms unfolding ready_pull_request_def
proof (rule await_read_settles)
  fix v es r
  assume a: "conversation (try_then (require_sha (str_at [''head'', ''sha''] v) s) (\<lambda>_.
       if bool_at [''draft''] v = Some False then Done (Inr (decode_value v))
       else try_then (ok_or (str_at [''node_id''] v) MutInvalidResponse) (\<lambda>pull_request_id.
         await (request_value c POST ''graphql'' (Some (graphql ready_mutation ''pullRequestId'' pull_request_id))
           MutationEffect) (\<lambda>response. Done (check_ready n response))))) es r"
  show "settles (graphql_refused (ReadyPullRequest n s)) (change_shown (ReadyPullRequest n s))
    (already_done (ReadyPullRequest n s) v) es r"
    using a
  proof (rule try_settles [OF _ checks_not_ambiguous(1)])
    fix u es r
    assume ok: "require_sha (str_at [''head'', ''sha''] v) s = Inr u"
      and b: "conversation (if bool_at [''draft''] v = Some False then Done (Inr (decode_value v))
       else try_then (ok_or (str_at [''node_id''] v) MutInvalidResponse) (\<lambda>pull_request_id.
         await (request_value c POST ''graphql'' (Some (graphql ready_mutation ''pullRequestId'' pull_request_id))
           MutationEffect) (\<lambda>response. Done (check_ready n response)))) es r"
    show "settles (graphql_refused (ReadyPullRequest n s)) (change_shown (ReadyPullRequest n s))
      (already_done (ReadyPullRequest n s) v) es r"
    proof (cases "bool_at [''draft''] v = Some False")
      case True
      then show ?thesis using b ok by (auto simp: already_done_def require_sha_ok intro!: settles_seen)
    next
      case False
      then show ?thesis using b
        by (auto elim!: try_settles [OF _ checks_not_ambiguous(2)] await_mutation_settles intro: check_ready_told)
    qed
  qed
qed

lemma close_pull_request_settles:
  "conversation (close_pull_request_call c prefix n s) es r \<Longrightarrow>
     settles (\<lambda>_. False) (change_shown (ClosePullRequest n s)) seen es r"
  unfolding close_pull_request_call_def Let_def
  by (rule settles_mono [OF await_read_settles [where seen = "\<lambda>_. False"]], assumption)
    (auto elim!: try_settles [OF _ checks_not_ambiguous(1)] request_settles
      simp: expectation_shows(7) [of n s, symmetric])

lemma draft_pull_request_settles:
  "conversation (draft_pull_request_call c prefix t h b body hs bs) es r \<Longrightarrow>
     settles (\<lambda>_. False) (change_shown (DraftPullRequest t h b body hs bs)) seen es r"
  unfolding draft_pull_request_call_def require_ref_sha_def await_assoc await_Done
    expectation_shows(5) [of t h b body hs bs, symmetric]
  by (rule settles_mono [OF await_read_settles [where seen = "\<lambda>_. False"]], assumption)
    (auto elim!: try_settles [OF _ checks_not_ambiguous(1)] settles_mono [OF await_read_settles [where seen = "\<lambda>_. False"]]
      request_settles)

lemma graphql_refused_rest:
  "graphql_refused (CreateBranch branch s) = (\<lambda>_. False)" "graphql_refused (Comment n body) = (\<lambda>_. False)"
  "graphql_refused (Review n s event body comments) = (\<lambda>_. False)" "graphql_refused (CheckRun t s x y) = (\<lambda>_. False)"
  "graphql_refused (DraftPullRequest t h b body hs bs) = (\<lambda>_. False)"
  "graphql_refused (UpdatePullRequestBranch n s) = (\<lambda>_. False)" "graphql_refused (ClosePullRequest n s) = (\<lambda>_. False)"
  "graphql_refused (CloseIssue n) = (\<lambda>_. False)" "graphql_refused (MergePullRequest n s m) = (\<lambda>_. False)"
  by (simp_all add: graphql_refused_def fun_eq_iff)

definition action_settles :: "github_action \<Rightarrow> exchange list \<Rightarrow> mutation_error + mutation_result \<Rightarrow> bool" where
  "action_settles action es r \<longleftrightarrow> settles (graphql_refused action) (change_shown action)
     (\<exists>v. read_value v es \<and> already_done action v) es r"

lemma execute_action_settles:
  assumes "conversation (execute_action c prefix n action) es r"
  shows "action_settles action es r"
  unfolding action_settles_def using assms
  by (cases action) (auto simp: execute_action_def graphql_refused_rest Let_def expectation_shows [symmetric]
    intro: request_settles settles_unsent resolve_thread_settles ready_pull_request_settles
      close_pull_request_settles [unfolded expectation_shows(7) [symmetric]]
      draft_pull_request_settles [unfolded expectation_shows(5) [symmetric]])

text \<open>A client whose requests join the base address and the path, and a merge whose reply is lost.\<close>

definition sample_urls_library :: url_library where
  "sample_urls_library = \<lparr>ul_parse = (\<lambda>_. Some (''https'', Some ''h'')), ul_join = (\<lambda>b p. Some (b @ p)),
     ul_client_builds = True\<rparr>"

definition sample_client :: mutation_client where
  "sample_client = \<lparr>mc_urls = sample_urls_library, mc_base_url = ''https://h/'', mc_token = ''t''\<rparr>"

definition merge_request :: http_request where
  "merge_request = \<lparr>rq_method = PUT, rq_url = ''https://h/repos/o/r/pulls/'' @ decimal 4 @ ''/merge'', rq_bearer = ''t'',
     rq_body = Some (JObject [(''sha'', JString sha_a), (''merge_method'', JString ''squash'')])\<rparr>"

lemma sample_lost_merge:
  "conversation (execute_mutation sample_client ''o'' ''r'' merge_action)
     [(merge_request, MutationEffect, SendFailed)] (Inl AmbiguousTransport)"
  by (simp add: execute_mutation_def validate_component_def is_ascii_alphanumeric_def merge_action_def
    execute_action_def request_def await_last sample_client_def sample_urls_library_def merge_request_def
    http_request_of_def merge_method_text_def read_reply_def lost_def)

text \<open>The requests that only read: \<open>GET\<close>, and a GraphQL document that is a query.\<close>

definition only_reads :: "http_request \<Rightarrow> bool" where
  "only_reads rq \<longleftrightarrow> rq_method rq = GET \<or>
     (\<exists>document. Option.bind (rq_body rq) (str_at [''query'']) = Some document \<and> starts_with ''query '' document)"

lemma reads_request_value:
  "(\<And>url. eff = ReadEffect \<longleftrightarrow> only_reads (http_request_of c m url body)) \<Longrightarrow>
     all_requests (\<lambda>rq eff. eff = ReadEffect \<longleftrightarrow> only_reads rq) (request_value c m path body eff)"
  unfolding request_value_def by (cases "ul_join (mc_urls c) (mc_base_url c) path") auto

lemma reads_get: "only_reads (http_request_of c GET url body)"
  by (simp add: only_reads_def http_request_of_def)

lemma reads_graphql: "only_reads (http_request_of c POST url (Some (graphql document variable t))) \<longleftrightarrow> starts_with ''query '' document"
  by (simp add: only_reads_def http_request_of_def graphql_def str_at_def json_get_def as_str_def)

lemma reads_plain: "m \<noteq> GET \<Longrightarrow> str_at [''query''] body = None \<Longrightarrow> \<not> only_reads (http_request_of c m url (Some body))"
  by (simp add: only_reads_def http_request_of_def)

lemma reads_request:
  "m \<noteq> GET \<Longrightarrow> str_at [''query''] body = None \<Longrightarrow>
     all_requests (\<lambda>rq eff. eff = ReadEffect \<longleftrightarrow> only_reads rq) (request c m path body x)"
  unfolding request_def by (intro all_requests_await reads_request_value) (simp_all add: reads_plain)

lemma documents: "starts_with ''query '' thread_query" "\<not> starts_with ''query '' resolve_mutation"
  "\<not> starts_with ''query '' ready_mutation"
  by (simp_all add: thread_query_def resolve_mutation_def ready_mutation_def starts_with_def)

lemma execute_action_reads:
  "all_requests (\<lambda>rq eff. eff = ReadEffect \<longleftrightarrow> only_reads rq) (execute_action c prefix n action)"
  by (cases action) (auto simp: execute_action_def Let_def resolve_thread_def ready_pull_request_def
    close_pull_request_call_def draft_pull_request_call_def require_ref_sha_def reads_get reads_graphql documents
    review_payload_def str_at_def json_get_def as_str_def intro!: reads_request_value reads_request)

lemma execute_mutation_settles:
  "conversation (execute_mutation c owner repository action) es r \<Longrightarrow> action_settles action es r"
  using checks_not_ambiguous(5) unfolding execute_mutation_def conversation_try
  by (auto simp: action_settles_def intro: execute_action_settles [unfolded action_settles_def] intro!: settles_unsent)

text \<open>C8: A change is sent once and its end is told truly. Whatever GitHub replies, a conversation holds at
  most one request that changes anything (the others are \<open>GET\<close>s and GraphQL queries), and it is the last.
  When no reply came to it, the end is reported as ambiguous; a status that is no success is reported as
  GitHub's refusal with that status, and so are GraphQL errors. Of a reply of success, the client reports
  success when its body shows the change that the action asked for (the created branch at its commit, the
  closed number, the merge with its commit, the resolved thread, the pull request that is no draft, a
  resource with its number and address), and otherwise, as when the body is no JSON, an ambiguous end. When
  nothing was sent, it is not ambiguous, and it is a success only when the client had read that the thread
  was already resolved or the pull request no draft.\<close>

theorem mutation_end_told:
  assumes "conversation (execute_mutation c owner repository action) es r"
  shows "(\<forall>(rq, eff, rep) \<in> set es. eff = ReadEffect \<longleftrightarrow> only_reads rq) \<and>
    (mutations es = [] \<and> (case r of Inl e \<Rightarrow> e \<noteq> AmbiguousTransport
       | Inr _ \<Rightarrow> \<exists>v. read_value v es \<and> already_done action v) \<or>
     (\<exists>reads rq rep. es = reads @ [(rq, MutationEffect, rep)] \<and> mutations reads = [] \<and>
       (case rep of SendFailed \<Rightarrow> r = Inl AmbiguousTransport
        | Reply status retry_after request_id body \<Rightarrow>
            if status < 200 \<or> 300 \<le> status
            then r = Inl (MutRejected status (Option.bind retry_after parse_u64) request_id)
            else case body of None \<Rightarrow> r = Inl AmbiguousTransport
              | Some v \<Rightarrow> if graphql_refused action v then r = Inl GraphQlRejected
                  else if change_shown action v then \<exists>result. r = Inr result
                  else r = Inl AmbiguousTransport)))"
proof -
  have "all_requests (\<lambda>rq eff. eff = ReadEffect \<longleftrightarrow> only_reads rq) (execute_mutation c owner repository action)"
    unfolding execute_mutation_def by (intro all_requests_try execute_action_reads)
  note reads = conversation_requests [OF assms this]
  have "action_settles action es r" by (rule execute_mutation_settles [OF assms])
  moreover have "ended (graphql_refused action) (change_shown action) rep r \<longleftrightarrow>
      (case rep of SendFailed \<Rightarrow> r = Inl AmbiguousTransport
        | Reply status retry_after request_id body \<Rightarrow>
            if status < 200 \<or> 300 \<le> status
            then r = Inl (MutRejected status (Option.bind retry_after parse_u64) request_id)
            else case body of None \<Rightarrow> r = Inl AmbiguousTransport
              | Some v \<Rightarrow> if graphql_refused action v then r = Inl GraphQlRejected
                  else if change_shown action v then \<exists>result. r = Inr result
                  else r = Inl AmbiguousTransport)" for rep
    by (auto simp: ended_def told_def is_success_def is_ok_iff split: http_reply.split option.split)
  ultimately show ?thesis using reads unfolding action_settles_def settles_def by (simp only:) blast
qed

theorem mutation_end_told_witness:
  "\<exists>es. conversation (execute_mutation sample_client ''o'' ''r'' merge_action) es (Inl AmbiguousTransport) \<and>
     mutations es = [(merge_request, SendFailed)]"
  using mutation_end_told [OF sample_lost_merge] sample_lost_merge by auto

text \<open>How each change is pinned. A request is sent with the client's token, to the path of its action.\<close>

definition sends :: "mutation_client \<Rightarrow> http_method \<Rightarrow> string \<Rightarrow> http_request \<Rightarrow> bool" where
  "sends c m path rq \<longleftrightarrow> rq_method rq = m \<and> rq_bearer rq = mc_token c \<and>
     ul_join (mc_urls c) (mc_base_url c) path = Some (rq_url rq)"

definition field :: "string list \<Rightarrow> http_request \<Rightarrow> string option" where
  "field ks rq = Option.bind (rq_body rq) (str_at ks)"

text \<open>The document was read at the path, in a successful reply (for GraphQL, to a query on the node).\<close>

definition read_at :: "mutation_client \<Rightarrow> string \<Rightarrow> exchange list \<Rightarrow> json \<Rightarrow> bool" where
  "read_at c path es v \<longleftrightarrow> (\<exists>rq status ra i. (rq, ReadEffect, Reply status ra i (Some v)) \<in> set es \<and>
     is_success status \<and> sends c GET path rq)"

definition thread_read :: "mutation_client \<Rightarrow> string \<Rightarrow> exchange list \<Rightarrow> json \<Rightarrow> bool" where
  "thread_read c t es v \<longleftrightarrow> (\<exists>rq status ra i. (rq, ReadEffect, Reply status ra i (Some v)) \<in> set es \<and>
     is_success status \<and> sends c POST ''graphql'' rq \<and> field [''variables'', ''threadId''] rq = Some t)"

definition pinned :: "mutation_client \<Rightarrow> string \<Rightarrow> string \<Rightarrow> github_action \<Rightarrow> exchange list \<Rightarrow> http_request \<Rightarrow> bool" where
  "pinned c owner repository action es rq \<longleftrightarrow> (let prefix = ''repos/'' @ owner @ ''/'' @ repository;
       pull = (\<lambda>n. prefix @ ''/pulls/'' @ decimal (unat n)); issue = (\<lambda>n. prefix @ ''/issues/'' @ decimal (unat n)) in
     case action of
       CreateBranch branch s \<Rightarrow> sends c POST (prefix @ ''/git/refs'') rq \<and>
         field [''ref''] rq = Some (''refs/heads/'' @ branch) \<and> field [''sha''] rq = Some s
     | Comment n body \<Rightarrow> sends c POST (issue n @ ''/comments'') rq \<and> field [''body''] rq = Some body
     | Review n s event body _ \<Rightarrow> sends c POST (pull n @ ''/reviews'') rq \<and> field [''commit_id''] rq = Some s \<and>
         field [''body''] rq = Some body \<and>
         field [''event''] rq = (case event of Approve \<Rightarrow> Some ''APPROVE'' | RequestChanges \<Rightarrow> Some ''REQUEST_CHANGES''
           | CommentEvent \<Rightarrow> Some ''COMMENT'' | PendingEvent \<Rightarrow> None)
     | CheckRun name s status conclusion \<Rightarrow> sends c POST (prefix @ ''/check-runs'') rq \<and> field [''head_sha''] rq = Some s \<and>
         field [''name''] rq = Some name \<and> field [''status''] rq = Some status \<and> field [''conclusion''] rq = conclusion
     | UpdatePullRequestBranch n s \<Rightarrow> sends c PUT (pull n @ ''/update-branch'') rq \<and> field [''expected_head_sha''] rq = Some s
     | MergePullRequest n s m \<Rightarrow> sends c PUT (pull n @ ''/merge'') rq \<and> field [''sha''] rq = Some s \<and>
         field [''merge_method''] rq = Some (case m of MergeCommit \<Rightarrow> ''merge'' | Squash \<Rightarrow> ''squash'' | Rebase \<Rightarrow> ''rebase'')
     | CloseIssue n \<Rightarrow> sends c PATCH (issue n) rq \<and> field [''state''] rq = Some ''closed''
     | ClosePullRequest n s \<Rightarrow> sends c PATCH (pull n) rq \<and> field [''state''] rq = Some ''closed'' \<and>
         (\<exists>v. read_at c (pull n) es v \<and> str_at [''head'', ''sha''] v = Some s)
     | ReadyPullRequest n s \<Rightarrow> sends c POST ''graphql'' rq \<and> (\<exists>v node. read_at c (pull n) es v \<and>
         str_at [''head'', ''sha''] v = Some s \<and> str_at [''node_id''] v = Some node \<and>
         field [''variables'', ''pullRequestId''] rq = Some node)
     | DraftPullRequest title head base body hs bs \<Rightarrow> sends c POST (prefix @ ''/pulls'') rq \<and>
         field [''title''] rq = Some title \<and> field [''head''] rq = Some head \<and> field [''base''] rq = Some base \<and>
         field [''body''] rq = Some body \<and> Option.bind (rq_body rq) (bool_at [''draft'']) = Some True \<and>
         (\<exists>v. read_at c (prefix @ ''/git/ref/heads/'' @ head) es v \<and> str_at [''object'', ''sha''] v = Some hs) \<and>
         (\<exists>v. read_at c (prefix @ ''/git/ref/heads/'' @ base) es v \<and> str_at [''object'', ''sha''] v = Some bs)
     | ResolveReviewThread n t s \<Rightarrow> sends c POST ''graphql'' rq \<and> field [''variables'', ''threadId''] rq = Some t \<and>
         (\<exists>v. thread_read c t es v \<and> str_at [''data'', ''node'', ''id''] v = Some t \<and>
           u64_at [''data'', ''node'', ''pullRequest'', ''number''] v = Some n \<and>
           str_at [''data'', ''node'', ''pullRequest'', ''repository'', ''nameWithOwner''] v = Some (owner @ ''/'' @ repository) \<and>
           str_at [''data'', ''node'', ''pullRequest'', ''headRefOid''] v = Some s \<and>
           bool_at [''data'', ''node'', ''viewerCanResolve''] v = Some True)
     | _ \<Rightarrow> False)"

lemma checked_read:
  assumes "conversation (await (request_value c m path body ReadEffect) (\<lambda>v. try_then (g v) (f v))) es r"
  obtains (unsent) "mutations es = []"
  | (checked) url status ra i v es2 a where
      "es = (http_request_of c m url body, ReadEffect, Reply status ra i (Some v)) # es2"
      "ul_join (mc_urls c) (mc_base_url c) path = Some url"
      "is_success status" "g v = Inr a" "conversation (f v a) es2 r"
proof (cases "ul_join (mc_urls c) (mc_base_url c) path")
  case None
  then show ?thesis using assms by (intro unsent) (simp add: request_value_def)
next
  case (Some url)
  then obtain rep es2 where es: "es = (http_request_of c m url body, ReadEffect, rep) # es2"
    and rest: "conversation (try_then (read_reply ReadEffect rep) (\<lambda>v. try_then (g v) (f v))) es2 r"
    using assms by (auto simp: request_value_def conversation_Ask)
  show ?thesis
  proof (cases "read_reply ReadEffect rep")
    case (Inl e)
    then show ?thesis using rest by (intro unsent) (simp add: es)
  next
    case (Inr v)
    then obtain status ra i where "rep = Reply status ra i (Some v)" "is_success status"
      unfolding read_reply_ok by blast
    with Inr rest es Some show ?thesis by (cases "g v") (auto intro: unsent checked)
  qed
qed

lemma sends_request: "ul_join (mc_urls c) (mc_base_url c) path = Some url \<Longrightarrow> sends c m path (http_request_of c m url body)"
  by (simp add: sends_def http_request_of_def)

lemma field_request: "field ks (http_request_of c m url (Some body)) = str_at ks body"
  by (simp add: field_def http_request_of_def)

lemma sent_once:
  assumes "conversation (request c m path body x) es r" "(rq, rep) \<in> set (mutations es)"
  shows "sends c m path rq \<and> rq_body rq = Some body"
  using assms unfolding request_def await_last by (auto simp: http_request_of_def sends_def)

lemma sent_value:
  assumes "conversation (await (request_value c m path body MutationEffect) (\<lambda>v. Done (f v))) es r"
    "(rq, rep) \<in> set (mutations es)"
  shows "sends c m path rq \<and> rq_body rq = body"
  using assms unfolding await_last by (auto simp: http_request_of_def sends_def)

lemmas read_fields = field_def str_at_def bool_at_def json_get_def as_str_def as_bool_def graphql_def

lemma read_at_first:
  "is_success status \<Longrightarrow> ul_join (mc_urls c) (mc_base_url c) path = Some url \<Longrightarrow>
     read_at c path ((http_request_of c GET url body, ReadEffect, Reply status ra i (Some v)) # es) v"
  unfolding read_at_def using sends_request by (metis list.set_intros(1))

lemma read_at_later: "read_at c path es v \<Longrightarrow> read_at c path (x # es) v"
  unfolding read_at_def by (metis list.set_intros(2))

lemma thread_pinned:
  assumes "conversation (resolve_thread c (owner @ ''/'' @ repository) n t s) es r" "(rq, rep) \<in> set (mutations es)"
  shows "pinned c owner repository (ResolveReviewThread n t s) es rq"
  using assms(1) unfolding resolve_thread_def
proof (cases rule: checked_read)
  case (checked url status ra i v es2 thread)
  note ok = check_thread_ok [OF checked(4)]
  have two: "(rq, rep) \<in> set (mutations es2)" using assms(2) checked(1) by simp
  then have b: "bool_at [''viewerCanResolve''] thread = Some True"
    and rest: "conversation (await (request_value c POST ''graphql'' (Some (graphql resolve_mutation ''threadId'' t)) MutationEffect)
      (\<lambda>response. Done (check_resolved t response))) es2 r"
    using checked(5) by (auto simp: conversation_try ensure_eq_Inr split: if_splits)
  have "thread_read c t es v"
    unfolding thread_read_def checked(1) using checked(2,3)
    by (intro exI [of _ "http_request_of c POST url (Some (graphql thread_query ''threadId'' t))"] exI [of _ status] exI [of _ ra]
        exI [of _ i]) (simp add: sends_request field_request, simp add: read_fields)
  moreover have "sends c POST ''graphql'' rq" "field [''variables'', ''threadId''] rq = Some t"
    using sent_value [OF rest two] by (simp_all add: read_fields)
  ultimately show ?thesis using ok b by (auto simp: pinned_def)
qed (use assms(2) in simp)

lemma ready_pinned:
  assumes "conversation (ready_pull_request c (''repos/'' @ owner @ ''/'' @ repository) n s) es r"
    "(rq, rep) \<in> set (mutations es)"
  shows "pinned c owner repository (ReadyPullRequest n s) es rq"
  using assms(1) unfolding ready_pull_request_def
proof (cases rule: checked_read)
  case (checked url status ra i v es2 u)
  have two: "(rq, rep) \<in> set (mutations es2)" using assms(2) checked(1) by simp
  then obtain node where node: "str_at [''node_id''] v = Some node"
    and rest: "conversation (await (request_value c POST ''graphql'' (Some (graphql ready_mutation ''pullRequestId'' node))
      MutationEffect) (\<lambda>response. Done (check_ready n response))) es2 r"
    using checked(5) by (auto simp: conversation_try ok_or_eq_Inr split: if_splits)
  have "read_at c ((''repos/'' @ owner @ ''/'' @ repository) @ ''/pulls/'' @ decimal (unat n)) es v"
    unfolding checked(1) by (rule read_at_first [OF checked(3,2)])
  moreover have "sends c POST ''graphql'' rq" "field [''variables'', ''pullRequestId''] rq = Some node"
    using sent_value [OF rest two] by (simp_all add: read_fields)
  ultimately show ?thesis using checked(4) node by (auto simp: pinned_def require_sha_ok Let_def)
qed (use assms(2) in simp)

lemma close_pinned:
  assumes "conversation (close_pull_request_call c (''repos/'' @ owner @ ''/'' @ repository) n s) es r"
    "(rq, rep) \<in> set (mutations es)"
  shows "pinned c owner repository (ClosePullRequest n s) es rq"
  using assms(1) unfolding close_pull_request_call_def Let_def
proof (cases rule: checked_read)
  case (checked url status ra i v es2 u)
  have two: "(rq, rep) \<in> set (mutations es2)" using assms(2) checked(1) by simp
  have "read_at c ((''repos/'' @ owner @ ''/'' @ repository) @ ''/pulls/'' @ decimal (unat n)) es v"
    unfolding checked(1) by (rule read_at_first [OF checked(3,2)])
  then show ?thesis using sent_once [OF checked(5) two] checked(4)
    by (auto simp: pinned_def require_sha_ok Let_def) (simp add: read_fields)
qed (use assms(2) in simp)

lemma draft_pinned:
  assumes "conversation (draft_pull_request_call c (''repos/'' @ owner @ ''/'' @ repository) t h b body hs bs) es r"
    "(rq, rep) \<in> set (mutations es)"
  shows "pinned c owner repository (DraftPullRequest t h b body hs bs) es rq"
proof -
  let ?prefix = "''repos/'' @ owner @ ''/'' @ repository"
  let ?get = "\<lambda>ref. request_value c GET (?prefix @ ''/git/ref/heads/'' @ ref) None ReadEffect"
  let ?post = "request c POST (?prefix @ ''/pulls'') (JObject [(''title'', JString t), (''head'', JString h),
       (''base'', JString b), (''body'', JString body), (''draft'', JBool True)]) ExpectPullRequest"
  let ?base = "await (?get b) (\<lambda>v. try_then (require_sha (str_at [''object'', ''sha''] v) bs) (\<lambda>_. ?post))"
  have conv: "conversation (await (?get h) (\<lambda>v. try_then (require_sha (str_at [''object'', ''sha''] v) hs)
      (\<lambda>_. ?base))) es r"
    using assms(1) by (simp only: draft_pull_request_call_def require_ref_sha_def await_assoc await_Done)
  from conv show ?thesis
  proof (cases rule: checked_read)
    case (checked url status ra i v es2 u)
    note first = checked
    have head: "read_at c (?prefix @ ''/git/ref/heads/'' @ h) es v" "str_at [''object'', ''sha''] v = Some hs"
      using read_at_first [OF first(3,2)] first(4) unfolding first(1) require_sha_ok by blast+
    from first(5) show ?thesis
    proof (cases rule: checked_read)
      case (checked url2 status2 ra2 i2 v2 es3 u2)
      have base: "read_at c (?prefix @ ''/git/ref/heads/'' @ b) es v2" "str_at [''object'', ''sha''] v2 = Some bs"
        using read_at_later [OF read_at_first [OF checked(3,2)]] checked(4) unfolding first(1) checked(1) require_sha_ok
        by blast+
      have "(rq, rep) \<in> set (mutations es3)" using assms(2) first(1) checked(1) by simp
      note sent = sent_once [OF checked(5) this]
      then have "field [''title''] rq = Some t" "field [''head''] rq = Some h" "field [''base''] rq = Some b"
        "field [''body''] rq = Some body" "Option.bind (rq_body rq) (bool_at [''draft'']) = Some True"
        by (simp_all add: read_fields)
      then show ?thesis using sent head base unfolding pinned_def Let_def github_action.case by blast
    qed (use assms(2) first(1) in simp)
  qed (use assms(2) in simp)
qed

lemma execute_action_pinned:
  assumes "conversation (execute_action c (''repos/'' @ owner @ ''/'' @ repository) (owner @ ''/'' @ repository) action) es r"
    "(rq, rep) \<in> set (mutations es)"
  shows "pinned c owner repository action es rq"
proof (cases action)
  case (ResolveReviewThread i t sha)
  then show ?thesis using assms thread_pinned by (simp add: execute_action_def)
next
  case (DraftPullRequest t h b body hs bs)
  then show ?thesis using assms draft_pinned by (simp add: execute_action_def)
next
  case (ReadyPullRequest number sha)
  then show ?thesis using assms ready_pinned by (simp add: execute_action_def)
next
  case (ClosePullRequest number sha)
  then show ?thesis using assms close_pinned by (simp add: execute_action_def)
qed (use assms in \<open>auto simp: execute_action_def Let_def pinned_def review_payload_def read_fields review_event_text_def
    merge_method_text_def split: review_event.splits option.splits dest!: sent_once\<close>)

text \<open>The requests of one repository: its own paths, and GraphQL.\<close>

definition own_request :: "mutation_client \<Rightarrow> string \<Rightarrow> http_request \<Rightarrow> bool" where
  "own_request c prefix rq \<longleftrightarrow> rq_bearer rq = mc_token c \<and> (\<exists>path.
     ul_join (mc_urls c) (mc_base_url c) path = Some (rq_url rq) \<and>
     (path = ''graphql'' \<or> (\<exists>rest. path = prefix @ ''/'' @ rest)))"

lemma own_request_value [intro!]:
  assumes "path = ''graphql'' \<or> (\<exists>rest. path = prefix @ ''/'' @ rest)"
  shows "all_requests (\<lambda>rq _. own_request c prefix rq) (request_value c m path body eff)"
  using assms unfolding request_value_def
  by (cases "ul_join (mc_urls c) (mc_base_url c) path") (auto simp: own_request_def http_request_of_def)

lemma own_request_call [intro!]:
  "(\<exists>rest. path = prefix @ ''/'' @ rest) \<Longrightarrow>
     all_requests (\<lambda>rq _. own_request c prefix rq) (request c m path body x)"
  unfolding request_def by auto

lemma execute_action_own: "all_requests (\<lambda>rq _. own_request c prefix rq) (execute_action c prefix n action)"
  by (cases action) (auto simp: execute_action_def Let_def resolve_thread_def ready_pull_request_def
    close_pull_request_call_def draft_pull_request_call_def require_ref_sha_def)

text \<open>C9: A change is pinned to the approved repository, number and commit. Every request of a conversation
  bears the client's token and goes to a path of the action's repository or to GraphQL. The request that
  changes something goes, by the method GitHub documents, to the path of the very pull request, issue or
  collection that the action names, with the text, title, name, branch, verdict, status or merge method of the action; and the commit that the action was
  approved for is either in it under the field by which GitHub checks it (a merge, a review, a check run, an
  update of a branch, a new branch), or was read before, in a successful reply at the path of that same pull
  request (close, ready), of the heads of that same branch and base (draft) or to a query of that same thread,
  which then belongs to that pull request of that repository (resolve). Nothing else ever changes anything.\<close>

theorem mutation_pinned:
  assumes "conversation (execute_mutation c owner repository action) es r"
  shows "(\<forall>rq eff rep. (rq, eff, rep) \<in> set es \<longrightarrow> own_request c (''repos/'' @ owner @ ''/'' @ repository) rq) \<and>
    (\<forall>rq rep. (rq, rep) \<in> set (mutations es) \<longrightarrow> pinned c owner repository action es rq)"
proof (cases "es = []")
  case False
  then have conv: "conversation (execute_action c (''repos/'' @ owner @ ''/'' @ repository)
      (owner @ ''/'' @ repository) action) es r"
    using assms by (auto simp: execute_mutation_def conversation_try)
  have own: "own_request c (''repos/'' @ owner @ ''/'' @ repository) rq" if "(rq, eff, rep) \<in> set es" for rq eff rep
    using conversation_requests [OF conv execute_action_own that] .
  show ?thesis using own execute_action_pinned [OF conv] by blast
qed simp

theorem mutation_pinned_witness:
  "field [''sha''] merge_request = Some sha_a \<and>
   sends sample_client PUT (''repos/o/r/pulls/'' @ decimal (unat (4 :: u64)) @ ''/merge'') merge_request \<and>
   own_request sample_client ''repos/o/r'' merge_request"
  using mutation_pinned [OF sample_lost_merge] by (simp add: pinned_def merge_action_def Let_def)

section \<open>From the claim to the record\<close>

lemma push_not_ambiguous: "push_from_store g s i branch sha token \<noteq> Inl AmbiguousTransport"
  by (auto simp: push_from_store_def and_then_eq_Inl ok_or_def ensure_eq_Inl map_err_def
      split: option.splits sum.splits)

lemma client_not_ambiguous: "mutation_client_new urls url token \<noteq> Inl AmbiguousTransport"
  by (auto simp: mutation_client_new_def with_transport_policy_def and_then_eq_Inl ok_or_def ensure_eq_Inl
      Let_def split: option.splits)

text \<open>The whole operation: what it does before the action changes nothing and is never ambiguous.\<close>

lemma execute_github_action_ends:
  assumes "conversation (execute_github_action w g now s p) es r"
  obtains (early) e where "r = Inl e" "e \<noteq> AmbiguousTransport" "mutations es = []"
  | (action) es1 es2 url owner repository t where "es = es1 @ es2" "mutations es1 = []"
      "conversation (perform_action w g s p url owner repository t) es2 r"
proof -
  have token: thesis
    if "conversation (await (mapped_call (map_err (\<lambda>_. MissingToken)) (token_for_repository b [] owner repository n
        delivery_permissions now)) (\<lambda>(t, _). try_then (ensure (it_installation_id t = i) MutInvalidTarget)
        (\<lambda>_. perform_action w g s p url owner repository t))) es r" for b owner repository n i url
    using that unfolding conversation_await
  proof (elim disjE exE conjE)
    fix e
    assume r: "r = Inl e" and c: "conversation (mapped_call (map_err (\<lambda>_. MissingToken)) (token_for_repository b []
      owner repository n delivery_permissions now)) es (Inl e)"
    from c obtain a where a: "conversation (token_for_repository b [] owner repository n delivery_permissions now) es a"
      "Inl e = map_err (\<lambda>_. MissingToken) a" unfolding conversation_mapped by blast
    have "e = MissingToken" using a(2) by (cases a) simp_all
    then show thesis using early [OF r] reads_no_mutations [OF a(1) token_reads] by simp
  next
    fix es1 x es2
    assume "conversation (mapped_call (map_err (\<lambda>_. MissingToken)) (token_for_repository b [] owner
        repository n delivery_permissions now)) es1 (Inr x)"
      and rest: "conversation (case x of (t, _) \<Rightarrow> try_then (ensure (it_installation_id t = i) MutInvalidTarget)
        (\<lambda>_. perform_action w g s p url owner repository t)) es2 r" and es: "es = es1 @ es2"
    then have none: "mutations es1 = []"
      using reads_no_mutations [OF _ token_reads] by (auto simp: conversation_mapped)
    obtain t u where x: "x = (t, u)" by (cases x)
    from rest consider "r = Inl MutInvalidTarget" "es2 = []" | "conversation (perform_action w g s p url owner repository t) es2 r"
      by (auto simp: x conversation_try ensure_eq_Inl ensure_eq_Inr)
    then show thesis using early action [OF es none] none es by cases auto
  qed
  show thesis
    using assms unfolding execute_github_action_def Let_def conversation_try ok_or_eq_Inr
    by (auto simp: ok_or_def intro: early token split: option.splits)
qed

lemma performed:
  assumes "conversation (perform_action w g s p url owner repository t) es r"
    and "\<And>branch sha. gp_action (dp_action p) \<noteq> PushIntent branch sha"
  shows "action_settles (gp_action (dp_action p)) es r"
proof -
  have "conversation (try_then (mutation_client_new (aw_urls w) url (it_token t)) (\<lambda>c.
      execute_mutation c owner repository (gp_action (dp_action p)))) es r"
    using assms by (cases "gp_action (dp_action p)") (auto simp: perform_action_def)
  then show ?thesis
    using client_not_ambiguous [of "aw_urls w" url "it_token t"] execute_mutation_settles
    by (auto simp: conversation_try action_settles_def intro!: settles_unsent)
qed

lemma pushed:
  assumes "push_from_store g s i branch sha token = Inr x"
  shows "\<exists>t b k v. load_task i s = Some t \<and> task_repository_binding_id t = Some b \<and> repository_binding b s = Some k \<and>
    branch \<noteq> rb_default_branch k \<and> gw_run g v = Some True \<and>
    push_invocation g (task_repository_path t) branch sha (rb_clone_url k) (rb_state_root k) token = Inr v"
  using assms by (auto simp: push_from_store_def and_then_eq_Inr ok_or_eq_Inr ensure_eq_Inr map_err_eq_Inr invocation_of_push)

lemma read_value_after: "read_value v es2 \<Longrightarrow> read_value v (es1 @ es2)"
  by (auto simp: read_value_def)

text \<open>The row that a record leaves.\<close>

lemma recorded_row:
  assumes "record_outcome now d key outcome s = Inr s'" "table_wf (st_deliveries s)"
  shows "\<exists>row. find_row key (st_deliveries s') = Some row \<and> dl_result row = Some (encoded_of outcome) \<and>
    (dl_completed_at row = None \<longleftrightarrow> (\<exists>e. outcome = MutationAmbiguous e))"
proof -
  have "\<exists>completed s1. set_delivery key (encoded_of outcome) completed s = Inr s1 \<and>
      st_deliveries s' = st_deliveries s1 \<and> (completed = None \<longleftrightarrow> (\<exists>e. outcome = MutationAmbiguous e))"
  proof (cases outcome)
    case (MutationSucceeded m e)
    then show ?thesis using assms(1)
      by (auto simp: record_outcome_def encoded_of_def complete_successful_delivery_def complete_delivery_def
        complete_delivery_with_task_events_def and_then_eq_Inr map_err_eq_Inr Let_def split: if_splits) blast+
  next
    case (MutationAmbiguous e)
    then show ?thesis using assms(1)
      by (auto simp: record_outcome_def encoded_of_def record_ambiguous_delivery_def mark_delivery_ambiguous_def map_err_eq_Inr)
  next
    case (MutationFailed e)
    then show ?thesis using assms(1)
      by (auto simp: record_outcome_def encoded_of_def complete_failed_delivery_def complete_delivery_def
        complete_failed_merge_delivery_def and_then_eq_Inr map_err_eq_Inr Let_def split: if_splits) blast
  qed
  then show ?thesis using assms(2) has_row_def [of key "st_deliveries s"]
    by (auto simp: set_delivery_ok)
qed

text \<open>An application configured in the environment, and the replies that lead to its token.\<close>

definition sample_keys :: key_world where
  "sample_keys = \<lparr>kw_symlink_metadata = (\<lambda>_. None), kw_read = (\<lambda>_. None), kw_keychain = (\<lambda>_ _. Some ''k''),
     kw_rsa_pem = (\<lambda>_. True), kw_sign = (\<lambda>_ _. Some ''jwt'')\<rparr>"

definition sample_authenticator :: app_authenticator where
  "sample_authenticator = \<lparr>aa_configuration = \<lparr>ac_app_id = 2, ac_client_id = ''c'',
     ac_key_reference = Keychain ''s'' ''a'', ac_api_base_url = ''https://h''\<rparr>, aa_key = ''k''\<rparr>"

definition sample_broker :: installation_broker where
  "sample_broker = \<lparr>ib_authenticator = sample_authenticator, ib_urls = sample_urls_library,
     ib_api_base_url = ''https://h/'', ib_keys = sample_keys, ib_parse_rfc3339 = (\<lambda>_. Some 0)\<rparr>"

definition found_exchange :: exchange where
  "found_exchange = (\<lparr>rq_method = GET, rq_url = ''https://h/repos/o/r/installation'', rq_bearer = ''jwt'', rq_body = None\<rparr>,
     ReadEffect, Reply 200 None None (Some (JObject [(''id'', JNumber (PosInt 5))])))"

definition minted_exchange :: exchange where
  "minted_exchange = (\<lparr>rq_method = POST, rq_url = ''https://h/app/installations/'' @ decimal 5 @ ''/access_tokens'',
     rq_bearer = ''jwt'', rq_body = Some (mint_body 11 delivery_permissions)\<rparr>, ReadEffect,
     Reply 201 None None (Some (JObject [(''token'', JString ''t''), (''expires_at'', JString ''x'')])))"

definition sample_token :: installation_token where
  "sample_token = \<lparr>it_token = ''t'', it_installation_id = 5, it_repository_ids = [11],
     it_permissions = delivery_permissions, it_expires_at = 0\<rparr>"

lemmas sample_broker_defs = sample_broker_def sample_authenticator_def sample_keys_def sample_urls_library_def

lemmas token_steps = token_for_repository_def fresh_token_call_def discover_installation_def mint_token_def
  broker_request_def conversation_Ask validate_name_def is_ascii_alphanumeric_def find_row_def app_jwt_def
  parse_response_def is_success_def minted_def epoch_seconds_def

lemma sample_token_conversation:
  "\<exists>cache. conversation (token_for_repository sample_broker [] ''o'' ''r'' 11 delivery_permissions 0)
     [found_exchange, minted_exchange] (Inr (sample_token, cache))"
  by (simp add: token_steps sample_broker_defs found_exchange_def minted_exchange_def sample_token_def
    str_at_def u64_at_def json_get_def as_str_def as_u64_def)

definition sample_app :: app_world where
  "sample_app = \<lparr>aw_variable = (\<lambda>v. if v = ''PATCHWRIGHT_GITHUB_APP_ID'' then Some (decimal 2)
       else if v = ''PATCHWRIGHT_GITHUB_APP_CLIENT_ID'' then Some ''c''
       else if v = ''PATCHWRIGHT_GITHUB_APP_KEY_REFERENCE'' then Some ''keychain:s/a''
       else if v = ''PATCHWRIGHT_GITHUB_API_URL'' then Some ''https://h/'' else None),
     aw_home = None, aw_keys = sample_keys, aw_parse_json = (\<lambda>_. None), aw_urls = sample_urls_library,
     aw_parse_rfc3339 = (\<lambda>_. Some 0)\<rparr>"

lemma sample_configured:
  "runtime_configuration_of sample_app = Some \<lparr>rc_app_id = 2, rc_client_id = ''c'',
     rc_key_reference = ''keychain:s/a'', rc_api_base_url = ''https://h/''\<rparr>"
  "configured_broker sample_app \<lparr>rc_app_id = 2, rc_client_id = ''c'',
     rc_key_reference = ''keychain:s/a'', rc_api_base_url = ''https://h/''\<rparr> = Some sample_broker"
proof -
  have one: "parse_u64 (decimal 2) = Some 2" using parse_decimal [of 2] by simp
  have words: "trim ''c'' = ''c''" "trim ''s'' = ''s''" "trim ''a'' = ''a''"
    by (rule trim_word; simp add: is_ascii_graphic_def)+
  show "runtime_configuration_of sample_app = Some \<lparr>rc_app_id = 2, rc_client_id = ''c'',
     rc_key_reference = ''keychain:s/a'', rc_api_base_url = ''https://h/''\<rparr>"
    by (simp add: runtime_configuration_of_def sample_app_def one)
  show "configured_broker sample_app \<lparr>rc_app_id = 2, rc_client_id = ''c'',
     rc_key_reference = ''keychain:s/a'', rc_api_base_url = ''https://h/''\<rparr> = Some sample_broker"
    using words by (simp add: configured_broker_def parse_key_reference_def strip_prefix_def starts_with_def split_once_def
      app_configuration_new_def app_authenticator_new_def load_configured_def load_keychain_def
      installation_broker_new_def sample_app_def sample_broker_defs trim_end_matches_def)
qed

lemma sample_lost_delivery:
  "conversation (execute_github_action sample_app g 0 s sample_preview)
     [found_exchange, minted_exchange, (merge_request, MutationEffect, SendFailed)] (Inl AmbiguousTransport)"
proof -
  obtain cache where token: "conversation (token_for_repository sample_broker [] ''o'' ''r'' 11 delivery_permissions 0)
    [found_exchange, minted_exchange] (Inr (sample_token, cache))" using sample_token_conversation by blast
  have client: "mutation_client_new (aw_urls sample_app) ''https://h/'' (it_token sample_token) = Inr sample_client"
    using trim_word [of "''t''"] by (simp add: mutation_client_new_def with_transport_policy_def sample_app_def
      sample_urls_library_def sample_token_def sample_client_def is_ascii_graphic_def)
  have remote: "gp_remote (dp_action sample_preview) = sample_remote" "gp_action (dp_action sample_preview) = merge_action"
    by (simp_all add: sample_preview_def sample_action_def)
  have perform: "conversation (perform_action sample_app g s sample_preview ''https://h/'' ''o'' ''r'' sample_token)
      [(merge_request, MutationEffect, SendFailed)] (Inl AmbiguousTransport)"
    using sample_lost_merge client by (simp add: perform_action_def remote(2)) (simp add: merge_action_def)
  have split: "split_once CHR ''/'' ''o/r'' = Some (''o'', ''r'')" by (simp add: split_once_def)
  have mapped: "conversation (mapped_call (map_err (\<lambda>_. MissingToken)) (token_for_repository sample_broker [] ''o'' ''r'' 11
      delivery_permissions 0)) [found_exchange, minted_exchange] (Inr (sample_token, cache))"
    unfolding conversation_mapped using token by (intro exI [of _ "Inr (sample_token, cache)"]) simp
  have rest: "conversation (case (sample_token, cache) of (t, _) \<Rightarrow>
      try_then (ensure (it_installation_id t = 5) MutInvalidTarget) (\<lambda>_.
      perform_action sample_app g s sample_preview ''https://h/'' ''o'' ''r'' t))
      [(merge_request, MutationEffect, SendFailed)] (Inl AmbiguousTransport)"
    using perform by (simp add: sample_token_def)
  have "conversation (await (mapped_call (map_err (\<lambda>_. MissingToken)) (token_for_repository sample_broker [] ''o'' ''r'' 11
      delivery_permissions 0)) (\<lambda>(t, _). try_then (ensure (it_installation_id t = 5) MutInvalidTarget) (\<lambda>_.
      perform_action sample_app g s sample_preview ''https://h/'' ''o'' ''r'' t)))
      ([found_exchange, minted_exchange] @ [(merge_request, MutationEffect, SendFailed)]) (Inl AmbiguousTransport)"
    unfolding conversation_await using mapped rest by blast
  then show ?thesis
    by (simp add: execute_github_action_def remote(1) sample_remote_def sample_configured split)
qed


definition claimed_store :: store where
  "claimed_store = empty_store\<lparr>st_deliveries := [(''key'', \<lparr>dl_result = None, dl_claimed_at = 0,
     dl_completed_at = None, dl_task_id = None\<rparr>)]\<rparr>"

lemma claimed_wf: "table_wf (st_deliveries claimed_store)" "has_row ''key'' (st_deliveries claimed_store)"
  by (simp_all add: claimed_store_def table_wf_def has_row_def find_row_def)


text \<open>C15: The reply of a gateway counts as a refusal. When a status of 502 or 504, with which a gateway
  says that it does not know what became of the request, comes to the request that posts a comment, this is
  a possible end of the whole operation, it is recorded as failed like any status that is no success, and the
  key of the delivery may be claimed again, so that GitHub may be asked twice for the same comment.\<close>

theorem gateway_reply_reclaimed:
  assumes "ul_join (mc_urls c) (mc_base_url c) (''repos/'' @ owner @ ''/'' @ repository @ ''/issues/'' @
      decimal (unat n) @ ''/comments'') = Some url"
    and "validate_component owner = Inr ()" "validate_component repository = Inr ()"
    and "status \<in> {502, 504}" "table_wf (st_deliveries s)"
    and "\<And>state x. json_state env (encode (state, x)) = Some state"
  shows "\<exists>r. conversation (execute_mutation c owner repository (Comment n body))
      [(http_request_of c POST url (Some (JObject [(''body'', JString body)])), MutationEffect, Reply status ra i v)] r \<and>
    (\<forall>s'. record_outcome now d key (outcome_of encode r) s = Inr s' \<longrightarrow>
      (\<exists>row. find_row key (st_deliveries s') = Some row \<and> Option.bind (dl_result row) (json_state env) = Some ''failed'') \<and>
      reclaimable (json_state env) key s')"
proof -
  let ?r = "Inl (MutRejected status (Option.bind ra parse_u64) i) :: mutation_error + mutation_result"
  have "\<not> is_success status" using assms(4) by (auto simp: is_success_def)
  then have "conversation (execute_mutation c owner repository (Comment n body))
      [(http_request_of c POST url (Some (JObject [(''body'', JString body)])), MutationEffect, Reply status ra i v)] ?r"
    using assms(1,2,3) by (simp add: execute_mutation_def execute_action_def request_def await_last read_reply_def)
  moreover have "\<exists>row. find_row key (st_deliveries s') = Some row \<and>
      Option.bind (dl_result row) (json_state env) = Some ''failed''"
    and "reclaimable (json_state env) key s'"
    if rec: "record_outcome now d key (outcome_of encode ?r) s = Inr s'" for s'
  proof -
    have enc: "encoded_of (outcome_of encode ?r) = encode (''failed'', ?r)" by (simp add: encoded_of_def outcome_of_def)
    show "\<exists>row. find_row key (st_deliveries s') = Some row \<and> Option.bind (dl_result row) (json_state env) = Some ''failed''"
      using recorded_row [OF rec assms(5)] assms(6) by (auto simp: enc)
    obtain completed s1 where set: "set_delivery key (encode (''failed'', ?r)) completed s = Inr s1"
      "st_deliveries s' = st_deliveries s1"
      using record_outcome_delivery [OF rec] unfolding enc by (elim exE conjE) (rule that)
    show "reclaimable (json_state env) key s'"
      using settled(2) [OF assms(5) set, of "json_state env" key] by (simp add: assms(6) taken_iff)
  qed
  ultimately show ?thesis by blast
qed

theorem gateway_reply_reclaimed_witness:
  "\<exists>es r s'. conversation (execute_mutation sample_client ''o'' ''r'' (Comment 4 ''x'')) es r \<and> mutations es \<noteq> [] \<and>
     \<not> reclaimable (json_state sample_env) ''key'' claimed_store \<and>
     record_outcome 1 (sample_preview\<lparr>dp_action := sample_action\<lparr>gp_action := Comment 4 ''x''\<rparr>\<rparr>) ''key''
       (outcome_of fst r) claimed_store = Inr s' \<and> reclaimable (json_state sample_env) ''key'' s'"
proof -
  have names: "validate_component ''o'' = Inr ()" "validate_component ''r'' = Inr ()"
    by (simp_all add: validate_component_def is_ascii_alphanumeric_def)
  have join: "ul_join (mc_urls sample_client) (mc_base_url sample_client) (''repos/'' @ ''o'' @ ''/'' @ ''r'' @ ''/issues/'' @
      decimal (unat (4::u64)) @ ''/comments'') = Some (''https://h/repos/o/r/issues/'' @ decimal 4 @ ''/comments'')"
    by (simp add: sample_client_def sample_urls_library_def)
  have enc: "json_state sample_env (fst (state, x)) = Some state" for state and x :: "mutation_error + mutation_result"
    by (simp add: sample_env_def)
  let ?d = "sample_preview\<lparr>dp_action := sample_action\<lparr>gp_action := Comment 4 ''x''\<rparr>\<rparr>"
  from gateway_reply_reclaimed [OF join names _ claimed_wf(1) enc, of 504 "''x''" None None None 1 ?d "''key''"]
  obtain es r where r: "conversation (execute_mutation sample_client ''o'' ''r'' (Comment 4 ''x'')) es r" "mutations es \<noteq> []"
    "\<forall>s'. record_outcome 1 ?d ''key'' (outcome_of fst r) claimed_store = Inr s' \<longrightarrow> reclaimable (json_state sample_env) ''key'' s'"
    by auto
  have "\<not> merges (action_capability (gp_action (dp_action ?d)))"
    "\<not> terminal_delivery (action_capability (gp_action (dp_action ?d))) m"
    "\<not> enters_monitoring (action_capability (gp_action (dp_action ?d)))" for m
    by (simp_all add: merges_def action_capability_def terminal_delivery_def enters_monitoring_def)
  then have "\<exists>s'. record_outcome 1 ?d ''key'' (outcome_of fst r) claimed_store = Inr s'"
    using claimed_wf by (cases r) (auto simp: record_outcome_def outcome_of_def complete_failed_delivery_def complete_delivery_def
      complete_successful_delivery_def record_ambiguous_delivery_def mark_delivery_ambiguous_def set_delivery_ok map_err_eq_Inr)
  moreover have "\<not> reclaimable (json_state sample_env) ''key'' claimed_store"
    by (simp add: claimed_store_def reclaimable_def delivery_failed_def find_row_def)
  ultimately show ?thesis using r by blast
qed

section \<open>Installation tokens\<close>

text \<open>C11: A token is used for what it was minted for. At any point in the life of a broker, the token that
  it hands out for a repository and a set of permissions was minted by GitHub, in two exchanges under the
  application's own signed token: the first found the installation of the repository of that owner and name,
  the second asked of that installation a token for that one repository and exactly those permissions, and
  the token is the one GitHub replied with, under the expiry GitHub gave (in whole seconds). These are the
  exchanges of this very request, or of an earlier request since the cache was last emptied; then nothing is
  asked of GitHub now, and the token is valid for more than another minute.\<close>

theorem token_scoped:
  assumes "broker_life b cache log"
    and "conversation (token_for_repository b cache owner repository n p now) es (Inr (t, cache'))"
  shows "it_repository_ids t = [n] \<and> it_permissions t = p \<and>
    ((\<exists>jwt. app_jwt (ib_keys b) (ib_authenticator b) now = Inr jwt \<and> mint_exchange b jwt owner repository n p t es) \<or>
     es = [] \<and> sint now < sint (it_expires_at t - 60) \<and>
     (\<exists>earlier fs jwt. (earlier, fs) \<in> set log \<and> app_jwt (ib_keys b) (ib_authenticator b) earlier = Inr jwt \<and>
       mint_exchange b jwt owner repository n p t fs))"
  using token_for_repository_ok [OF assms(2)]
proof (elim disjE conjE exE)
  assume "find_row \<lparr>ck_owner = owner, ck_repository = repository, ck_repository_id = n, ck_permissions = p\<rparr> cache = Some t"
    and valid: "still_valid now t" "es = []"
  from cached_minted [OF assms(1) this(1)] obtain earlier fs jwt where
    m: "(earlier, fs) \<in> set log" "app_jwt (ib_keys b) (ib_authenticator b) earlier = Inr jwt"
      "mint_exchange b jwt owner repository n p t fs" by (auto simp: minted_in_def)
  then have "it_repository_ids t = [n]" "it_permissions t = p" by (auto simp: mint_exchange_def)
  then show ?thesis using m valid by (auto simp: still_valid_def cache_safety_seconds_def)
next
  fix jwt
  assume m: "app_jwt (ib_keys b) (ib_authenticator b) now = Inr jwt" "mint_exchange b jwt owner repository n p t es"
  then have "it_repository_ids t = [n]" "it_permissions t = p" by (auto simp: mint_exchange_def)
  then show ?thesis using m by blast
qed

theorem token_scoped_witness:
  "mint_exchange sample_broker ''jwt'' ''o'' ''r'' 11 delivery_permissions sample_token [found_exchange, minted_exchange]"
proof -
  obtain cache where "conversation (token_for_repository sample_broker [] ''o'' ''r'' 11 delivery_permissions 0)
    [found_exchange, minted_exchange] (Inr (sample_token, cache))" using sample_token_conversation by blast
  from token_scoped [OF broker_life.new this] show ?thesis
    by (simp add: app_jwt_def sample_broker_defs)
qed

end
