(* ===== verification/Relay_Inbox.thy ===== *)
theory Relay_Inbox
  imports Store_GitHub
begin

text \<open>
  The durable inbox of the relay (\<open>crates/patchwright-relay/src/webhook.rs\<close>): accepted deliveries wait in
  an SQLite table until the engine has acknowledged them, are retried with a growing delay, and are kept for
  a while after that, so that GitHub's own redeliveries are recognized. Rows stand in the order of their
  \<open>rowid\<close>. The texts of \<open>to_rfc3339\<close>, SQLite's \<open>julianday\<close> and the two directions of the envelope's JSON
  are arguments (\<open>relay_texts\<close>).
\<close>

record relay_texts =
  rt_rfc3339 :: "timestamp \<Rightarrow> string"
  rt_julianday :: "string \<Rightarrow> int"
  rt_encode :: "webhook_envelope \<Rightarrow> string"
  rt_decode :: "string \<Rightarrow> webhook_envelope option"

definition milliseconds :: "int \<Rightarrow> int" where
  "milliseconds n = n * 1000000"

record inbox_row =
  ir_event :: string
  ir_action :: string
  ir_payload :: string
  ir_payload_sha256 :: string
  ir_received_at :: string
  ir_attempt_count :: nat
  ir_next_attempt_at :: "string option"
  ir_last_error :: "string option"
  ir_forwarded_at :: "string option"

type_synonym inbox = "(string, inbox_row) table"

record webhook_delivery =
  wd_delivery_id :: string
  wd_event :: string
  wd_action :: string
  wd_payload :: string
  wd_payload_sha256 :: string

datatype record_outcome = Accepted | Duplicate | Full

text \<open>\<open>RelayState\<close>: the inbox and its limits.\<close>

record relay_state =
  rs_secret :: string
  rs_inbox :: inbox
  rs_queue_capacity :: nat
  rs_retention_capacity :: nat

definition default_capacity :: nat where
  "default_capacity = 10000"

definition relay_new :: "string \<Rightarrow> relay_state" where
  "relay_new secret = \<lparr>rs_secret = secret, rs_inbox = [], rs_queue_capacity = default_capacity,
     rs_retention_capacity = default_capacity\<rparr>"

section \<open>Retention\<close>

definition forwarded_retention_days :: int where
  "forwarded_retention_days = 3"

definition expired_row :: "relay_texts \<Rightarrow> timestamp \<Rightarrow> inbox_row \<Rightarrow> bool" where
  "expired_row x now r \<longleftrightarrow> ir_forwarded_at r \<noteq> None \<and>
     ir_received_at r < rt_rfc3339 x (now - days forwarded_retention_days)"

definition forwarded_rows :: "inbox \<Rightarrow> inbox" where
  "forwarded_rows rows = matching (\<lambda>_ r. ir_forwarded_at r \<noteq> None) rows"

text \<open>The oldest forwarded deliveries beyond the capacity (\<open>ORDER BY received_at, rowid LIMIT excess\<close>).\<close>

definition evicted :: "nat \<Rightarrow> inbox \<Rightarrow> string list" where
  "evicted capacity rows = (let forwarded = forwarded_rows rows in
     take (length forwarded - capacity)
       (map fst (sort_by (\<lambda>a b. cmp (ir_received_at (snd a)) (ir_received_at (snd b))) forwarded)))"

definition prune_forwarded_deliveries :: "relay_texts \<Rightarrow> nat \<Rightarrow> timestamp \<Rightarrow> inbox \<Rightarrow> inbox" where
  "prune_forwarded_deliveries x capacity now rows =
     (let kept = filter (\<lambda>(_, r). \<not> expired_row x now r) rows;
          gone = evicted capacity kept in
      filter (\<lambda>(k, _). k \<notin> set gone) kept)"

section \<open>Operations\<close>

definition delivery_count :: "relay_state \<Rightarrow> nat" where
  "delivery_count s = length (rs_inbox s)"

definition pending_rows :: "inbox \<Rightarrow> inbox" where
  "pending_rows rows = matching (\<lambda>_ r. ir_forwarded_at r = None) rows"

definition pending_delivery_count :: "relay_state \<Rightarrow> nat" where
  "pending_delivery_count s = length (pending_rows (rs_inbox s))"

definition new_row :: "string \<Rightarrow> webhook_delivery \<Rightarrow> inbox_row" where
  "new_row received d = \<lparr>ir_event = wd_event d, ir_action = wd_action d, ir_payload = wd_payload d,
     ir_payload_sha256 = wd_payload_sha256 d, ir_received_at = received, ir_attempt_count = 0,
     ir_next_attempt_at = None, ir_last_error = None, ir_forwarded_at = None\<rparr>"

definition record_delivery :: "relay_texts \<Rightarrow> timestamp \<Rightarrow> webhook_delivery \<Rightarrow> relay_state \<Rightarrow>
    relay_state \<times> record_outcome" where
  "record_delivery x now d s =
     (let rows = prune_forwarded_deliveries x (rs_retention_capacity s) now (rs_inbox s);
          s = s\<lparr>rs_inbox := rows\<rparr> in
      if has_row (wd_delivery_id d) rows then (s, Duplicate)
      else if rs_queue_capacity s \<le> length (pending_rows rows) then (s, Full)
      else (s\<lparr>rs_inbox := fst (insert_ignore (wd_delivery_id d) (new_row (rt_rfc3339 x now) d) rows)\<rparr>, Accepted))"

definition forward_batch_size :: nat where
  "forward_batch_size = 32"

definition due_row :: "relay_texts \<Rightarrow> timestamp \<Rightarrow> inbox_row \<Rightarrow> bool" where
  "due_row x now r \<longleftrightarrow> ir_forwarded_at r = None \<and> (case ir_next_attempt_at r of None \<Rightarrow> True
     | Some t \<Rightarrow> rt_julianday x t \<le> rt_julianday x (rt_rfc3339 x now))"

definition due_order :: "string \<times> inbox_row \<Rightarrow> string \<times> inbox_row \<Rightarrow> ordering" where
  "due_order a b = then_with (cmp (ir_received_at (snd a)) (ir_received_at (snd b))) (cmp (fst a) (fst b))"

text \<open>A payload that is no envelope fails the whole batch.\<close>

definition decode_row :: "relay_texts \<Rightarrow> string \<times> inbox_row \<Rightarrow> unit + forwarded_webhook" where
  "decode_row x = (\<lambda>(k, r). and_then (ok_or (rt_decode x (ir_payload r)) ()) (\<lambda>e.
     Inr \<lparr>fw_delivery_id = k, fw_envelope = e, fw_payload_sha256 = ir_payload_sha256 r,
       fw_received_at = ir_received_at r\<rparr>))"

definition due_deliveries :: "relay_texts \<Rightarrow> timestamp \<Rightarrow> relay_state \<Rightarrow> unit + forwarded_webhook list" where
  "due_deliveries x now s = collect (decode_row x)
     (take forward_batch_size (sort_by due_order (matching (\<lambda>_. due_row x now) (rs_inbox s))))"

text \<open>\<open>WHERE delivery_id = ?1 AND forwarded_at IS NULL\<close>\<close>

definition waiting :: "string \<Rightarrow> string \<Rightarrow> inbox_row \<Rightarrow> bool" where
  "waiting i k r \<longleftrightarrow> k = i \<and> ir_forwarded_at r = None"

definition mark_forwarded :: "relay_texts \<Rightarrow> timestamp \<Rightarrow> string \<Rightarrow> relay_state \<Rightarrow> unit + relay_state" where
  "mark_forwarded x now i s =
     (let (rows, updated) = update_where (waiting i)
        (\<lambda>r. r\<lparr>ir_forwarded_at := Some (rt_rfc3339 x now), ir_last_error := None\<rparr>) (rs_inbox s) in
      and_then (ensure (updated = 1) ()) (\<lambda>_.
      Inr (s\<lparr>rs_inbox := prune_forwarded_deliveries x (rs_retention_capacity s) now rows\<rparr>)))"

definition initial_retry_millis :: int where "initial_retry_millis = 200"

definition max_retry_millis :: int where "max_retry_millis = 60000"

definition backoff_millis :: "nat \<Rightarrow> int" where
  "backoff_millis attempts = min (initial_retry_millis * 2 ^ min attempts 8) max_retry_millis"

definition deferred_row :: "relay_texts \<Rightarrow> timestamp \<Rightarrow> nat \<Rightarrow> inbox_row \<Rightarrow> inbox_row" where
  "deferred_row x now attempts r = r\<lparr>ir_attempt_count := ir_attempt_count r + 1,
     ir_next_attempt_at := Some (rt_rfc3339 x (now + milliseconds (backoff_millis attempts))),
     ir_last_error := Some ''engine unavailable''\<rparr>"

definition defer_delivery :: "relay_texts \<Rightarrow> timestamp \<Rightarrow> string \<Rightarrow> relay_state \<Rightarrow> unit + relay_state" where
  "defer_delivery x now i s =
     and_then (ok_or (map_of (pending_rows (rs_inbox s)) i) ()) (\<lambda>r.
     and_then (ensure (ir_attempt_count r < 2 ^ 32) ()) (\<lambda>_.
     Inr (s\<lparr>rs_inbox := fst (update_where (waiting i)
       (deferred_row x now (ir_attempt_count r)) (rs_inbox s))\<rparr>)))"

text \<open>One batch: \<open>sent d\<close> says whether the engine acknowledged \<open>d\<close>, and the clock is read again for each.\<close>

record forward_summary =
  fs_attempted :: nat
  fs_forwarded :: nat

fun forward_each :: "relay_texts \<Rightarrow> (nat \<Rightarrow> timestamp) \<Rightarrow> (nat \<Rightarrow> forwarded_webhook \<Rightarrow> bool) \<Rightarrow> nat \<Rightarrow>
    forwarded_webhook list \<Rightarrow> nat \<Rightarrow> relay_state \<Rightarrow> relay_state \<times> (unit + nat)" where
  "forward_each x clock sent n [] forwarded s = (s, Inr forwarded)"
| "forward_each x clock sent n (d # ds) forwarded s =
     (if sent n d
      then then_do (transact id (mark_forwarded x (clock n) (fw_delivery_id d)) s)
        (\<lambda>_. forward_each x clock sent (n + 1) ds (forwarded + 1))
      else then_do (transact id (defer_delivery x (clock n) (fw_delivery_id d)) s)
        (\<lambda>_. forward_each x clock sent (n + 1) ds forwarded))"

definition forward_pending_once :: "relay_texts \<Rightarrow> (nat \<Rightarrow> timestamp) \<Rightarrow> (nat \<Rightarrow> forwarded_webhook \<Rightarrow> bool) \<Rightarrow>
    relay_state \<Rightarrow> relay_state \<times> (unit + forward_summary)" where
  "forward_pending_once x clock sent s = (case due_deliveries x (clock 0) s of
       Inl e \<Rightarrow> (s, Inl e)
     | Inr ds \<Rightarrow> then_do (forward_each x clock sent 1 ds 0 s)
         (\<lambda>n s. (s, Inr \<lparr>fs_attempted = length ds, fs_forwarded = n\<rparr>)))"

text \<open>\<open>run_forwarder_until\<close>: batches one after another until the shutdown, or until one fails.\<close>

fun run_forwarder :: "relay_texts \<Rightarrow> ((nat \<Rightarrow> timestamp) \<times> (nat \<Rightarrow> forwarded_webhook \<Rightarrow> bool)) list \<Rightarrow>
    relay_state \<Rightarrow> relay_state \<times> (unit + unit)" where
  "run_forwarder x [] s = (s, Inr ())"
| "run_forwarder x ((clock, sent) # rounds) s =
     then_do (forward_pending_once x clock sent s) (\<lambda>_. run_forwarder x rounds)"

section \<open>Lemmas on retention\<close>

lemma rows_filter:
  "pending_rows (filter P t) = filter P (pending_rows t)" "forwarded_rows (filter P t) = filter P (forwarded_rows t)"
  by (induction t) (auto simp: pending_rows_def forwarded_rows_def matching_def)

lemma evicted_forwarded: "set (evicted capacity rows) \<subseteq> fst ` set (forwarded_rows rows)"
proof
  fix k assume "k \<in> set (evicted capacity rows)"
  then have "k \<in> set (map fst (sort_by (\<lambda>a b. cmp (ir_received_at (snd a)) (ir_received_at (snd b)))
      (forwarded_rows rows)))"
    unfolding evicted_def Let_def by (rule in_set_takeD)
  then show "k \<in> fst ` set (forwarded_rows rows)" by simp
qed

lemma split_by_forwarding:
  assumes "table_wf rows" "(k, r) \<in> set (pending_rows rows)"
  shows "k \<notin> fst ` set (forwarded_rows rows)"
proof
  assume "k \<in> fst ` set (forwarded_rows rows)"
  then obtain q where "(k, q) \<in> set rows" "ir_forwarded_at q \<noteq> None"
    by (auto simp: forwarded_rows_def matching_def)
  moreover have "(k, r) \<in> set rows" "ir_forwarded_at r = None"
    using assms(2) by (auto simp: pending_rows_def matching_def)
  ultimately show False using assms(1) in_find_row by (metis option.inject)
qed

lemma table_wf_filter [simp]: "table_wf t \<Longrightarrow> table_wf (filter P t)"
  by (simp add: table_wf_def distinct_map_filter)

lemma prune_wf [simp]: "table_wf rows \<Longrightarrow> table_wf (prune_forwarded_deliveries x c now rows)"
  by (simp add: prune_forwarded_deliveries_def Let_def)

text \<open>Retention never drops what is still to be delivered, and it keeps to its capacity.\<close>

lemma prune_pending:
  assumes "table_wf rows"
  shows "pending_rows (prune_forwarded_deliveries x c now rows) = pending_rows rows"
proof -
  define kept where "kept = filter (\<lambda>(_, r). \<not> expired_row x now r) rows"
  have kept: "pending_rows kept = pending_rows rows"
    unfolding kept_def pending_rows_def matching_def by (induction rows) (auto simp: expired_row_def)
  have wf: "table_wf kept" using assms by (simp add: kept_def)
  have "k \<notin> set (evicted c kept)" if "(k, r) \<in> set (pending_rows kept)" for k r
    using split_by_forwarding [OF wf that] evicted_forwarded [of c kept] by blast
  then have "filter (\<lambda>(k, _). k \<notin> set (evicted c kept)) (pending_rows kept) = pending_rows kept"
    by (auto simp: filter_id_conv)
  then show ?thesis
    unfolding prune_forwarded_deliveries_def Let_def kept_def [symmetric] rows_filter(1) kept by simp
qed

lemma length_filter_in:
  assumes "distinct xs" "distinct ks" "set ks \<subseteq> set xs"
  shows "length (filter (\<lambda>k. k \<in> set ks) xs) = length ks"
proof -
  have "length (filter (\<lambda>k. k \<in> set ks) xs) = card (set (filter (\<lambda>k. k \<in> set ks) xs))"
    using assms(1) by (metis distinct_card distinct_filter)
  also have "set (filter (\<lambda>k. k \<in> set ks) xs) = set ks" using assms(3) by auto
  finally show ?thesis using assms(2) by (simp add: distinct_card)
qed

lemma length_filter_keys:
  assumes "distinct (map fst t)" "distinct ks" "set ks \<subseteq> fst ` set t"
  shows "length (filter (\<lambda>(k, _). k \<notin> set ks) t) = length t - length ks"
proof -
  have "length (filter (\<lambda>k. k \<notin> set ks) (map fst t)) = length t - length ks"
    using sum_length_filter_compl [of "\<lambda>k. k \<in> set ks" "map fst t"] length_filter_in [OF assms(1,2)] assms(3)
    by simp
  then show ?thesis by (simp add: filter_map split_def comp_def)
qed

lemma prune_bounded:
  assumes "table_wf rows"
  shows "length (forwarded_rows (prune_forwarded_deliveries x c now rows)) \<le> c"
proof -
  define kept where "kept = filter (\<lambda>(_, r). \<not> expired_row x now r) rows"
  have wf: "distinct (map fst (forwarded_rows kept))"
    using assms unfolding forwarded_rows_def matching_def kept_def by (simp add: table_wf_def distinct_map_filter)
  have e: "evicted c kept = take (length (forwarded_rows kept) - c)
      (map fst (sort_by (\<lambda>a b. cmp (ir_received_at (snd a)) (ir_received_at (snd b))) (forwarded_rows kept)))"
    by (simp add: evicted_def Let_def)
  have "distinct (map fst (sort_by (\<lambda>a b. cmp (ir_received_at (snd a)) (ir_received_at (snd b))) (forwarded_rows kept)))"
    using wf by (metis mset_map mset_sort_by mset_eq_imp_distinct_iff)
  then have l: "length (evicted c kept) = length (forwarded_rows kept) - c" "distinct (evicted c kept)"
    unfolding e by (simp_all add: length_sort_by)
  have "forwarded_rows (prune_forwarded_deliveries x c now rows) =
      filter (\<lambda>(k, _). k \<notin> set (evicted c kept)) (forwarded_rows kept)"
    unfolding prune_forwarded_deliveries_def Let_def kept_def [symmetric] rows_filter(2) ..
  then show ?thesis using length_filter_keys [OF wf l(2) evicted_forwarded] l(1) by simp
qed

section \<open>The inbox as a mailbox\<close>

text \<open>
  The abstract specification: a mailbox holds the letters that still have to be delivered. A new letter may
  be put in, a letter may be taken out once it is delivered, and nothing else changes it.
\<close>

type_synonym mailbox = "string \<Rightarrow> (string \<times> string \<times> string) option"

datatype inbox_event =
    Recorded timestamp webhook_delivery record_outcome | Forwarded timestamp string | Deferred timestamp string

definition mail_allows :: "inbox_event \<Rightarrow> mailbox \<Rightarrow> bool" where
  "mail_allows e box = (case e of
       Recorded _ d out \<Rightarrow> out = Accepted \<longrightarrow> box (wd_delivery_id d) = None
     | Forwarded _ i \<Rightarrow> box i \<noteq> None
     | Deferred _ i \<Rightarrow> box i \<noteq> None)"

definition mail_step :: "relay_texts \<Rightarrow> inbox_event \<Rightarrow> mailbox \<Rightarrow> mailbox" where
  "mail_step x e box = (case e of
       Recorded now d out \<Rightarrow> if out = Accepted
         then box(wd_delivery_id d \<mapsto> (wd_payload d, wd_payload_sha256 d, rt_rfc3339 x now)) else box
     | Forwarded _ i \<Rightarrow> box(i := None)
     | Deferred _ i \<Rightarrow> box)"

inductive mail_run :: "relay_texts \<Rightarrow> mailbox \<Rightarrow> inbox_event list \<Rightarrow> mailbox \<Rightarrow> bool" for x box where
  mail_start: "mail_run x box [] box"
| mail_next: "mail_run x box es b \<Longrightarrow> mail_allows e b \<Longrightarrow> mail_run x box (es @ [e]) (mail_step x e b)"

text \<open>The steps of the inbox, in any order: requests of GitHub and the forwarder share it.\<close>

inductive relay_run :: "relay_texts \<Rightarrow> relay_state \<Rightarrow> inbox_event list \<Rightarrow> relay_state \<Rightarrow> bool" for x s where
  started: "relay_run x s [] s"
| recorded: "relay_run x s es s1 \<Longrightarrow> record_delivery x now d s1 = (s2, out) \<Longrightarrow>
     relay_run x s (es @ [Recorded now d out]) s2"
| forwarded: "relay_run x s es s1 \<Longrightarrow> mark_forwarded x now i s1 = Inr s2 \<Longrightarrow>
     relay_run x s (es @ [Forwarded now i]) s2"
| deferred: "relay_run x s es s1 \<Longrightarrow> defer_delivery x now i s1 = Inr s2 \<Longrightarrow>
     relay_run x s (es @ [Deferred now i]) s2"

definition letter_of :: "inbox_row \<Rightarrow> string \<times> string \<times> string" where
  "letter_of r = (ir_payload r, ir_payload_sha256 r, ir_received_at r)"

definition mailbox_of :: "relay_state \<Rightarrow> mailbox" where
  "mailbox_of s i = map_option letter_of (find_row i (pending_rows (rs_inbox s)))"

lemma letter_of_new: "letter_of (new_row t d) = (wd_payload d, wd_payload_sha256 d, t)"
  by (simp add: letter_of_def new_row_def)

definition relay_ok :: "relay_state \<Rightarrow> bool" where
  "relay_ok s \<longleftrightarrow> table_wf (rs_inbox s) \<and> length (pending_rows (rs_inbox s)) \<le> rs_queue_capacity s \<and>
     length (forwarded_rows (rs_inbox s)) \<le> rs_retention_capacity s"

lemma find_pending:
  "table_wf rows \<Longrightarrow> find_row i (pending_rows rows) =
     (case find_row i rows of Some r \<Rightarrow> if ir_forwarded_at r = None then Some r else None | None \<Rightarrow> None)"
proof (induction rows)
  case Nil
  show ?case by (simp add: pending_rows_def matching_def find_row_def)
next
  case (Cons a rows)
  obtain k r where a: "a = (k, r)" by (cases a)
  have "find_row k rows = None"
    using Cons.prems by (auto simp: a table_wf_def find_row_def map_of_eq_None_iff)
  with Cons show ?case
    by (auto simp: a pending_rows_def matching_def find_row_def table_wf_def split: option.splits)
qed

lemma record_delivery_ok:
  assumes "relay_ok s" "record_delivery x now d s = (s', out)"
  shows "relay_ok s'" "rs_queue_capacity s' = rs_queue_capacity s" "rs_retention_capacity s' = rs_retention_capacity s"
    "rs_secret s' = rs_secret s"
    "mail_allows (Recorded now d out) (mailbox_of s)" "mailbox_of s' = mail_step x (Recorded now d out) (mailbox_of s)"
proof -
  define rows where "rows = prune_forwarded_deliveries x (rs_retention_capacity s) now (rs_inbox s)"
  have wf: "table_wf (rs_inbox s)" "table_wf rows" using assms(1) by (simp_all add: relay_ok_def rows_def)
  have pending: "pending_rows rows = pending_rows (rs_inbox s)"
    unfolding rows_def by (rule prune_pending [OF wf(1)])
  have bounded: "length (forwarded_rows rows) \<le> rs_retention_capacity s"
    unfolding rows_def by (rule prune_bounded [OF wf(1)])
  have few: "length (pending_rows rows) \<le> rs_queue_capacity s" using assms(1) by (simp add: pending relay_ok_def)
  let ?row = "new_row (rt_rfc3339 x now) d"
  have cases: "(has_row (wd_delivery_id d) rows \<and> s' = s\<lparr>rs_inbox := rows\<rparr> \<and> out = Duplicate) \<or>
      (\<not> has_row (wd_delivery_id d) rows \<and> s' = s\<lparr>rs_inbox := rows\<rparr> \<and> out = Full) \<or>
      (\<not> has_row (wd_delivery_id d) rows \<and> length (pending_rows rows) < rs_queue_capacity s \<and>
       s' = s\<lparr>rs_inbox := rows @ [(wd_delivery_id d, ?row)]\<rparr> \<and> out = Accepted)"
    using assms(2) by (auto simp: record_delivery_def Let_def rows_def [symmetric] insert_ignore_def split: if_splits)
  have added: "pending_rows (rows @ [(i, ?row)]) = pending_rows rows @ [(i, ?row)]"
    "forwarded_rows (rows @ [(i, ?row)]) = forwarded_rows rows" for i
    by (simp_all add: pending_rows_def forwarded_rows_def matching_def new_row_def)
  show "relay_ok s'" "rs_queue_capacity s' = rs_queue_capacity s" "rs_retention_capacity s' = rs_retention_capacity s"
    "rs_secret s' = rs_secret s"
    using cases wf bounded few by (auto simp: relay_ok_def added)
  have absent: "find_row (wd_delivery_id d) (pending_rows rows) = None" if "\<not> has_row (wd_delivery_id d) rows"
    using that by (simp add: find_pending [OF wf(2)] has_row_def)
  show "mail_allows (Recorded now d out) (mailbox_of s)"
    using cases absent by (auto simp: mail_allows_def mailbox_of_def pending [symmetric])
  show "mailbox_of s' = mail_step x (Recorded now d out) (mailbox_of s)"
    using cases absent
    by (auto simp: mail_step_def mailbox_of_def pending [symmetric] added find_row_append_new letter_of_new
      fun_eq_iff split: option.splits)
qed

text \<open>An update of the row of one pending delivery.\<close>

lemma waiting_eq: "waiting i = (\<lambda>k r. k = i \<and> ir_forwarded_at r = None)"
  by (simp add: fun_eq_iff waiting_def)

lemma update_pending:
  fixes rows :: inbox
  assumes wf0: "table_wf rows"
  shows "snd (update_where (waiting i) f rows) = (case find_row i (pending_rows rows) of None \<Rightarrow> 0 | Some _ \<Rightarrow> 1)"
    and "(\<And>r. ir_forwarded_at (f r) = Some t) \<Longrightarrow>
      find_row j (pending_rows (fst (update_where (waiting i) f rows))) = (if j = i then None else find_row j (pending_rows rows))"
    and "(\<And>r. ir_forwarded_at (f r) = ir_forwarded_at r) \<Longrightarrow>
      find_row j (pending_rows (fst (update_where (waiting i) f rows))) =
        map_option (\<lambda>r. if j = i then f r else r) (find_row j (pending_rows rows))"
    and "(\<And>r. ir_forwarded_at (f r) = ir_forwarded_at r) \<Longrightarrow>
      length (pending_rows (fst (update_where (waiting i) f rows))) = length (pending_rows rows) \<and>
      length (forwarded_rows (fst (update_where (waiting i) f rows))) = length (forwarded_rows rows)"
    and "(\<And>r. ir_forwarded_at (f r) = Some t) \<Longrightarrow>
      length (pending_rows (fst (update_where (waiting i) f rows))) \<le> length (pending_rows rows)"
proof -
  show "snd (update_where (waiting i) f rows) = (case find_row i (pending_rows rows) of None \<Rightarrow> 0 | Some _ \<Rightarrow> 1)"
    using matching_key [OF wf0, of i "\<lambda>r. ir_forwarded_at r = None"]
    unfolding waiting_eq [symmetric] by (simp add: update_where_def find_pending [OF wf0] split: option.splits)
  have wf: "table_wf (fst (update_where (waiting i) f rows))" using wf0 by simp
  show "find_row j (pending_rows (fst (update_where (waiting i) f rows))) = (if j = i then None else find_row j (pending_rows rows))"
    if "\<And>r. ir_forwarded_at (f r) = Some t"
    using that by (auto simp: find_pending [OF wf] find_pending [OF wf0] waiting_def split: option.splits)
  show "find_row j (pending_rows (fst (update_where (waiting i) f rows))) =
      map_option (\<lambda>r. if j = i then f r else r) (find_row j (pending_rows rows))"
    if "\<And>r. ir_forwarded_at (f r) = ir_forwarded_at r"
    using that by (auto simp: find_pending [OF wf] find_pending [OF wf0] waiting_def split: option.splits)
  show "length (pending_rows (fst (update_where (waiting i) f rows))) = length (pending_rows rows) \<and>
      length (forwarded_rows (fst (update_where (waiting i) f rows))) = length (forwarded_rows rows)"
    if "\<And>r. ir_forwarded_at (f r) = ir_forwarded_at r"
    using that by (induction rows) (auto simp: update_where_def pending_rows_def forwarded_rows_def matching_def split: if_splits)
  show "length (pending_rows (fst (update_where (waiting i) f rows))) \<le> length (pending_rows rows)"
    if "\<And>r. ir_forwarded_at (f r) = Some t"
    using that by (induction rows) (auto simp: update_where_def pending_rows_def matching_def waiting_def split: if_splits)
qed

lemma mark_forwarded_ok:
  assumes "relay_ok s" "mark_forwarded x now i s = Inr s'"
  shows "relay_ok s'" "rs_queue_capacity s' = rs_queue_capacity s" "rs_retention_capacity s' = rs_retention_capacity s"
    "rs_secret s' = rs_secret s"
    "mail_allows (Forwarded now i) (mailbox_of s)" "mailbox_of s' = mail_step x (Forwarded now i) (mailbox_of s)"
proof -
  let ?f = "\<lambda>r. r\<lparr>ir_forwarded_at := Some (rt_rfc3339 x now), ir_last_error := None\<rparr>"
  define upd where "upd = update_where (waiting i) ?f (rs_inbox s)"
  have wf: "table_wf (rs_inbox s)" using assms(1) by (simp add: relay_ok_def)
  have s': "s' = s\<lparr>rs_inbox := prune_forwarded_deliveries x (rs_retention_capacity s) now (fst upd)\<rparr>"
    and one: "snd upd = 1"
    using assms(2) by (auto simp: mark_forwarded_def upd_def [symmetric] result_simps split: prod.splits)
  have wf': "table_wf (fst upd)" using wf by (simp add: upd_def)
  have f: "ir_forwarded_at (?f r) = Some (rt_rfc3339 x now)" for r by simp
  note row = update_pending(1,2,5) [OF wf, where f = ?f and i = i, folded upd_def]
  have pending: "pending_rows (rs_inbox s') = pending_rows (fst upd)"
    unfolding s' by (simp add: prune_pending [OF wf'])
  have "length (pending_rows (fst upd)) \<le> length (pending_rows (rs_inbox s))" by (rule row(3) [OF f])
  then show "relay_ok s'" using assms(1) wf' prune_bounded [OF wf'] unfolding relay_ok_def pending
    by (simp add: s')
  show "rs_queue_capacity s' = rs_queue_capacity s" "rs_retention_capacity s' = rs_retention_capacity s"
    "rs_secret s' = rs_secret s" by (simp_all add: s')
  show "mail_allows (Forwarded now i) (mailbox_of s)"
  proof (cases "find_row i (pending_rows (rs_inbox s))")
    case None
    then show ?thesis using one row(1) by simp
  qed (simp add: mail_allows_def mailbox_of_def)
  show "mailbox_of s' = mail_step x (Forwarded now i) (mailbox_of s)"
  proof
    fix j
    show "mailbox_of s' j = mail_step x (Forwarded now i) (mailbox_of s) j"
      using row(2) [OF f, of j] by (simp add: mailbox_of_def mail_step_def pending)
  qed
qed

lemma defer_delivery_ok:
  assumes "relay_ok s" "defer_delivery x now i s = Inr s'"
  shows "relay_ok s'" "rs_queue_capacity s' = rs_queue_capacity s" "rs_retention_capacity s' = rs_retention_capacity s"
    "rs_secret s' = rs_secret s"
    "mail_allows (Deferred now i) (mailbox_of s)" "mailbox_of s' = mail_step x (Deferred now i) (mailbox_of s)"
proof -
  have wf: "table_wf (rs_inbox s)" using assms(1) by (simp add: relay_ok_def)
  obtain r where r: "find_row i (pending_rows (rs_inbox s)) = Some r"
    and s': "s' = s\<lparr>rs_inbox := fst (update_where (waiting i)
      (deferred_row x now (ir_attempt_count r)) (rs_inbox s))\<rparr>"
    using assms(2) by (auto simp: defer_delivery_def result_simps find_row_def)
  have same: "ir_forwarded_at (deferred_row x now (ir_attempt_count r) q) = ir_forwarded_at q"
    "letter_of (deferred_row x now (ir_attempt_count r) q) = letter_of q" for q
    by (simp_all add: deferred_row_def letter_of_def)
  note row = update_pending(3,4) [OF wf, where f = "deferred_row x now (ir_attempt_count r)" and i = i, OF same(1)]
  show "relay_ok s'" using assms(1) row(2) wf by (simp add: relay_ok_def s')
  show "rs_queue_capacity s' = rs_queue_capacity s" "rs_retention_capacity s' = rs_retention_capacity s"
    "rs_secret s' = rs_secret s" by (simp_all add: s')
  show "mail_allows (Deferred now i) (mailbox_of s)" using r by (simp add: mail_allows_def mailbox_of_def)
  show "mailbox_of s' = mail_step x (Deferred now i) (mailbox_of s)"
  proof
    fix j
    show "mailbox_of s' j = mail_step x (Deferred now i) (mailbox_of s) j"
      unfolding mailbox_of_def mail_step_def s' using row(1) [of j]
      by (cases "find_row j (pending_rows (rs_inbox s))") (simp_all add: same(2) mailbox_of_def)
  qed
qed

end
