(* ===== verification/Json_Decode.thy ===== *)
theory Json_Decode
  imports Json
begin

text \<open>
  The derived decoders of serde (\<open>#[derive(Deserialize)]\<close>) over the members of an object: required,
  optional and defaulted fields, aliases and lists. A struct is read from an object, the form in which
  GitHub and the engine's own encoders send it; \<open>strict_members\<close> denies unknown fields.
\<close>

text \<open>
  A field of a struct that serde reads from a value: a member of an object, or the element at its place in
  an array with as many elements as the struct has fields.
\<close>

definition struct_members :: "string list \<Rightarrow> json \<Rightarrow> (string \<times> json) list option" where
  "struct_members names v = (case v of JObject members \<Rightarrow> Some members
     | JArray vs \<Rightarrow> if length vs = length names then Some (zip names vs) else None | _ \<Rightarrow> None)"

definition struct_field :: "string list \<Rightarrow> string \<Rightarrow> json \<Rightarrow> json option" where
  "struct_field names k v = Option.bind (struct_members names v) (\<lambda>members. map_of members k)"

definition strict_members :: "string list \<Rightarrow> json \<Rightarrow> (string \<times> json) list option" where
  "strict_members names v = filter_option (\<lambda>members. set (map fst members) \<subseteq> set names) (struct_members names v)"

definition object_members :: "json \<Rightarrow> (string \<times> json) list option" where
  "object_members v = (case v of JObject members \<Rightarrow> Some members | _ \<Rightarrow> None)"

definition required_field :: "(json \<Rightarrow> 'a option) \<Rightarrow> string \<Rightarrow> (string \<times> json) list \<Rightarrow> 'a option" where
  "required_field f k members = Option.bind (map_of members k) f"

text \<open>A field of type \<open>Option\<close> may be missing or null.\<close>

definition optional_field :: "(json \<Rightarrow> 'a option) \<Rightarrow> string \<Rightarrow> (string \<times> json) list \<Rightarrow> 'a option option" where
  "optional_field f k members = (case map_of members k of None \<Rightarrow> Some None
     | Some v \<Rightarrow> if v = JNull then Some None else map_option Some (f v))"

definition defaulted_field :: "'a \<Rightarrow> (json \<Rightarrow> 'a option) \<Rightarrow> string \<Rightarrow> (string \<times> json) list \<Rightarrow> 'a option" where
  "defaulted_field standard f k members = (case map_of members k of None \<Rightarrow> Some standard | Some v \<Rightarrow> f v)"

text \<open>A field with an alias is read under either name; under both it is a duplicate, which serde refuses.\<close>

definition aliased :: "string \<Rightarrow> string \<Rightarrow> (string \<times> json) list \<Rightarrow> (string \<times> json) list option" where
  "aliased k alias members = (case map_of members alias of None \<Rightarrow> Some members
     | Some v \<Rightarrow> if map_of members k = None then Some ((k, v) # members) else None)"

definition decode_list :: "(json \<Rightarrow> 'a option) \<Rightarrow> json \<Rightarrow> 'a list option" where
  "decode_list f v = Option.bind (as_array v)
     (\<lambda>vs. case collect (\<lambda>w. ok_or (f w) ()) vs of Inl _ \<Rightarrow> None | Inr ws \<Rightarrow> Some ws)"

definition as_u32 :: "json \<Rightarrow> u32 option" where
  "as_u32 v = Option.bind (as_u64 v) (\<lambda>n. if n < 2 ^ 32 then Some (ucast n) else None)"

end
