(* ===== verification/Relay_Webhook.thy ===== *)
theory Relay_Webhook
  imports Relay_Inbox Json_Decode
begin

text \<open>
  What the relay does with a request of GitHub (\<open>github_webhook\<close> of
  \<open>crates/patchwright-relay/src/webhook.rs\<close>): check the signature, read the event, keep of its body only
  the few fields of the envelope, and put it in the inbox; and how it hands a delivery on to the engine's
  socket. HMAC-SHA256, SHA-256 and the parser of JSON are arguments; a header is its text, when it has one.
\<close>

section \<open>Signatures\<close>

definition hex_value :: "char \<Rightarrow> nat option" where
  "hex_value c = (let b = (of_char c :: nat) in
     if 48 \<le> b \<and> b \<le> 57 then Some (b - 48) else if 97 \<le> b \<and> b \<le> 102 then Some (b - 87)
     else if 65 \<le> b \<and> b \<le> 70 then Some (b - 55) else None)"

text \<open>\<open>hex::decode\<close>: pairs of digits of either case.\<close>

fun hex_decode :: "string \<Rightarrow> string option" where
  "hex_decode [] = Some []"
| "hex_decode [_] = None"
| "hex_decode (a # b # s) = (case (hex_value a, hex_value b, hex_decode s) of
     (Some h, Some l, Some rest) \<Rightarrow> Some (char_of (16 * h + l) # rest) | _ \<Rightarrow> None)"

definition verify_signature :: "(string \<Rightarrow> string \<Rightarrow> string) \<Rightarrow> string \<Rightarrow> string \<Rightarrow> string \<Rightarrow> bool" where
  "verify_signature hmac secret body signature = (case strip_prefix ''sha256='' signature of
       None \<Rightarrow> False
     | Some h \<Rightarrow> (case hex_decode h of None \<Rightarrow> False | Some expected \<Rightarrow> expected = hmac secret body))"

section \<open>Events\<close>

datatype event_validation_error = InvalidJson | UnsupportedOrIncomplete

definition incomplete :: "'a option \<Rightarrow> event_validation_error + 'a" where
  "incomplete x = ok_or x UnsupportedOrIncomplete"

definition require_action :: "string \<Rightarrow> string list \<Rightarrow> event_validation_error + string" where
  "require_action action supported =
     (if action \<in> set supported then Inr action else Inl UnsupportedOrIncomplete)"

definition require_identifier :: "u64 \<Rightarrow> event_validation_error + unit" where
  "require_identifier n = ensure (n > 0) UnsupportedOrIncomplete"

definition require_repository :: "u64 \<Rightarrow> string \<Rightarrow> event_validation_error + unit" where
  "require_repository i full_name =
     and_then (require_identifier i) (\<lambda>_.
     case split_once CHR ''/'' full_name of
       None \<Rightarrow> Inl UnsupportedOrIncomplete
     | Some (owner, name) \<Rightarrow> ensure (owner \<noteq> [] \<and> name \<noteq> [] \<and> CHR ''/'' \<notin> set name \<and>
         length full_name \<le> 255 \<and> \<not> any_char is_whitespace full_name) UnsupportedOrIncomplete)"

definition pull_request_actions :: "string list" where
  "pull_request_actions = [''assigned'', ''unassigned'', ''labeled'', ''unlabeled'', ''opened'', ''edited'',
     ''closed'', ''reopened'', ''synchronize'', ''converted_to_draft'', ''locked'', ''unlocked'', ''enqueued'',
     ''dequeued'', ''milestoned'', ''demilestoned'', ''ready_for_review'', ''review_requested'',
     ''review_request_removed'', ''auto_merge_enabled'', ''auto_merge_disabled'']"

definition edited_actions :: "string list" where
  "edited_actions = [''created'', ''edited'', ''deleted'']"

text \<open>
  The events of a repository: the member whose number is read, the member whose id is read, and the
  supported actions. A struct of the source decodes when its fields are there and have their types.
\<close>

definition event_shape :: "string \<Rightarrow> (string option \<times> string option \<times> string list) option" where
  "event_shape event =
     (if event = ''pull_request'' then Some (Some ''pull_request'', None, pull_request_actions)
      else if event = ''issue_comment'' then Some (Some ''issue'', Some ''comment'', edited_actions)
      else if event = ''pull_request_review''
        then Some (Some ''pull_request'', Some ''review'', [''submitted'', ''edited'', ''dismissed''])
      else if event = ''pull_request_review_comment''
        then Some (Some ''pull_request'', Some ''comment'', edited_actions)
      else if event = ''check_run''
        then Some (None, Some ''check_run'', [''created'', ''rerequested'', ''completed'', ''requested_action''])
      else if event = ''check_suite''
        then Some (None, Some ''check_suite'', [''completed'', ''requested'', ''rerequested''])
      else if event = ''workflow_run''
        then Some (None, Some ''workflow_run'', [''completed'', ''requested'', ''in_progress''])
      else None)"

definition event_fields :: "string option \<Rightarrow> string option \<Rightarrow> string list" where
  "event_fields numbered identified = ''action'' # (case numbered of None \<Rightarrow> [] | Some m \<Rightarrow> [m])
     @ (case identified of None \<Rightarrow> [] | Some m \<Rightarrow> [m]) @ [''repository'']"

text \<open>\<open>NumberedObject\<close> and \<open>IdentifiedObject\<close> have one field, \<open>RepositoryObject\<close> two.\<close>

definition required_u64 :: "string list \<Rightarrow> string option \<Rightarrow> string \<Rightarrow> json \<Rightarrow> event_validation_error + u64 option" where
  "required_u64 names member field v = (case member of None \<Rightarrow> Inr None
     | Some m \<Rightarrow> and_then (incomplete (Option.bind (Option.bind (struct_field names m v)
         (struct_field [field] field)) as_u64)) (\<lambda>n. Inr (Some n)))"

definition repository_object :: "json \<Rightarrow> (u64 \<times> string) option" where
  "repository_object v = Option.bind (Option.bind (struct_field [''id'', ''full_name''] ''id'' v) as_u64)
     (\<lambda>i. Option.bind (Option.bind (struct_field [''id'', ''full_name''] ''full_name'' v) as_str)
     (\<lambda>name. Some (i, name)))"

definition require_present :: "u64 option \<Rightarrow> event_validation_error + unit" where
  "require_present n = (case n of None \<Rightarrow> Inr () | Some n \<Rightarrow> require_identifier n)"

definition validate_repository_event ::
  "string option \<times> string option \<times> string list \<Rightarrow> json \<Rightarrow> event_validation_error + string" where
  "validate_repository_event = (\<lambda>(numbered, identified, actions) v.
     let names = event_fields numbered identified in
     and_then (incomplete (Option.bind (struct_field names ''action'' v) as_str)) (\<lambda>action.
     and_then (required_u64 names numbered ''number'' v) (\<lambda>number.
     and_then (required_u64 names identified ''id'' v) (\<lambda>entity.
     and_then (incomplete (Option.bind (struct_field names ''repository'' v) repository_object)) (\<lambda>(i, full_name).
     and_then (require_present number) (\<lambda>_.
     and_then (require_present entity) (\<lambda>_.
     and_then (require_repository i full_name) (\<lambda>_.
     require_action action actions))))))))"

definition validate_ping :: "json \<Rightarrow> event_validation_error + string" where
  "validate_ping v =
     and_then (incomplete (Option.bind (struct_field [''hook_id'', ''zen''] ''hook_id'' v) as_u64)) (\<lambda>i.
     and_then (incomplete (Option.bind (struct_field [''hook_id'', ''zen''] ''zen'' v) as_str)) (\<lambda>zen.
     and_then (require_identifier i) (\<lambda>_.
     and_then (ensure (trim zen \<noteq> []) UnsupportedOrIncomplete) (\<lambda>_.
     Inr ''ping''))))"

definition validate_event :: "string \<Rightarrow> json option \<Rightarrow> event_validation_error + string" where
  "validate_event event body =
     and_then (ok_or body InvalidJson) (\<lambda>v.
     case event_shape event of
       Some shape \<Rightarrow> validate_repository_event shape v
     | None \<Rightarrow> if event = ''ping'' then validate_ping v else Inl UnsupportedOrIncomplete)"

section \<open>The envelope\<close>

definition entity_number :: "string \<Rightarrow> json \<Rightarrow> u64 option" where
  "entity_number event v =
     (if event \<in> {''pull_request'', ''pull_request_review'', ''pull_request_review_comment''}
      then u64_at [''pull_request'', ''number''] v
      else if event = ''issue_comment''
      then (if pointer [''issue'', ''pull_request''] v = None then None else u64_at [''issue'', ''number''] v)
      else None)"

definition entity_id :: "string \<Rightarrow> json \<Rightarrow> u64 option" where
  "entity_id event v =
     (if event \<in> {''issue_comment'', ''pull_request_review_comment''} then u64_at [''comment'', ''id''] v
      else if event = ''pull_request_review'' then u64_at [''review'', ''id''] v
      else if event \<in> {''check_run'', ''check_suite'', ''workflow_run''} then u64_at [event, ''id''] v
      else if event = ''ping'' then u64_at [''hook_id''] v
      else None)"

definition sanitized_envelope :: "string \<Rightarrow> string \<Rightarrow> json \<Rightarrow> webhook_envelope" where
  "sanitized_envelope event action v = \<lparr>we_schema_version = 1, we_event = event, we_action = action,
     we_repository_id = u64_at [''repository'', ''id''] v,
     we_repository_full_name = str_at [''repository'', ''full_name''] v,
     we_entity_number = entity_number event v, we_entity_id = entity_id event v\<rparr>"

section \<open>The handler\<close>

record relay_library =
  rl_hmac :: "string \<Rightarrow> string \<Rightarrow> string"
  rl_sha256_hex :: "string \<Rightarrow> string"
  rl_parse_json :: "string \<Rightarrow> json option"
  rl_texts :: relay_texts

type_synonym headers = "string \<Rightarrow> string option"

definition delivery_id_header :: "headers \<Rightarrow> string option" where
  "delivery_id_header headers = filter_option (\<lambda>v. v \<noteq> [] \<and> length v \<le> 128 \<and> \<not> any_char is_control v)
     (headers ''x-github-delivery'')"

definition event_header :: "headers \<Rightarrow> string option" where
  "event_header headers = filter_option (\<lambda>v. v \<noteq> [] \<and> length v \<le> 64) (headers ''x-github-event'')"

definition accepted_delivery :: "relay_library \<Rightarrow> string \<Rightarrow> string \<Rightarrow> string \<Rightarrow> json \<Rightarrow> string \<Rightarrow> webhook_delivery" where
  "accepted_delivery lib i event action v body = \<lparr>wd_delivery_id = i, wd_event = event, wd_action = action,
     wd_payload = rt_encode (rl_texts lib) (sanitized_envelope event action v),
     wd_payload_sha256 = rl_sha256_hex lib body\<rparr>"

definition outcome_status :: "record_outcome \<Rightarrow> nat \<times> string" where
  "outcome_status out = (case out of Accepted \<Rightarrow> (202, ''accepted'') | Duplicate \<Rightarrow> (200, ''duplicate'')
     | Full \<Rightarrow> (503, ''webhook inbox full''))"

definition signature_valid :: "relay_library \<Rightarrow> relay_state \<Rightarrow> headers \<Rightarrow> string \<Rightarrow> bool" where
  "signature_valid lib s headers body = (case headers ''x-hub-signature-256'' of None \<Rightarrow> False
     | Some v \<Rightarrow> verify_signature (rl_hmac lib) (rs_secret s) body v)"

definition github_webhook :: "relay_library \<Rightarrow> timestamp \<Rightarrow> headers \<Rightarrow> string \<Rightarrow> relay_state \<Rightarrow>
    relay_state \<times> nat \<times> string" where
  "github_webhook lib now headers body s =
     (if \<not> signature_valid lib s headers body then (s, 401, ''invalid signature'')
      else case delivery_id_header headers of None \<Rightarrow> (s, 400, ''missing delivery id'')
      | Some i \<Rightarrow> (case event_header headers of None \<Rightarrow> (s, 400, ''missing event name'')
      | Some event \<Rightarrow> (case validate_event event (rl_parse_json lib body) of
            Inl InvalidJson \<Rightarrow> (s, 400, ''invalid json'')
          | Inl UnsupportedOrIncomplete \<Rightarrow> (s, 422, ''unsupported or incomplete event'')
          | Inr action \<Rightarrow> (case rl_parse_json lib body of
                None \<Rightarrow> (s, 500, ''webhook inbox unavailable'')
              | Some v \<Rightarrow> (let (s', out) = record_delivery (rl_texts lib) now
                  (accepted_delivery lib i event action v body) s in (s', outcome_status out))))))"

section \<open>Private files\<close>

unbundle bit_operations_syntax

text \<open>What the system says of a path (\<open>symlink_metadata\<close>): its kind, owner and mode.\<close>

datatype path_kind = SocketPath | DirectoryPath | RegularPath | SymlinkPath | OtherPath

record path_status =
  ps_kind :: path_kind
  ps_uid :: u32
  ps_mode :: u32

text \<open>A path is its components; an absolute one is read from the root.\<close>

record file_path =
  fp_absolute :: bool
  fp_components :: "string list"

definition parent_path :: "file_path \<Rightarrow> file_path option" where
  "parent_path p = (if fp_components p = [] then None
     else Some (p\<lparr>fp_components := butlast (fp_components p)\<rparr>))"

definition join_path :: "file_path \<Rightarrow> file_path \<Rightarrow> file_path" where
  "join_path d p = (if fp_absolute p then p else d\<lparr>fp_components := fp_components d @ fp_components p\<rparr>)"

text \<open>
  The file system: a state of some type, what can be asked of it, and the calls that change it, each of
  which may fail.
\<close>

record 'fs file_system =
  sys_status :: "'fs \<Rightarrow> file_path \<Rightarrow> path_status option"
  sys_not_found :: "'fs \<Rightarrow> file_path \<Rightarrow> bool"
  sys_exists :: "'fs \<Rightarrow> file_path \<Rightarrow> bool"
  sys_current_dir :: "'fs \<Rightarrow> file_path option"
  sys_create_dir_all :: "file_path \<Rightarrow> 'fs \<Rightarrow> 'fs option"
  sys_set_mode :: "file_path \<Rightarrow> u32 \<Rightarrow> 'fs \<Rightarrow> 'fs option"
  sys_create_new :: "file_path \<Rightarrow> u32 \<Rightarrow> 'fs \<Rightarrow> 'fs option"
  sys_euid :: u32

definition is_owner_only :: "u32 \<Rightarrow> bool" where
  "is_owner_only mode \<longleftrightarrow> mode AND 63 = 0"

definition owned_privately :: "'fs file_system \<Rightarrow> 'fs \<Rightarrow> path_kind \<Rightarrow> file_path \<Rightarrow> unit + unit" where
  "owned_privately sys fs kind p = and_then (ok_or (sys_status sys fs p) ()) (\<lambda>m.
     ensure (ps_kind m = kind \<and> ps_uid m = sys_euid sys \<and> is_owner_only (ps_mode m)) ())"

definition verify_owner_only_directory :: "'fs file_system \<Rightarrow> 'fs \<Rightarrow> file_path \<Rightarrow> unit + unit" where
  "verify_owner_only_directory sys fs p = owned_privately sys fs DirectoryPath p"

definition verify_owner_only_file :: "'fs file_system \<Rightarrow> 'fs \<Rightarrow> file_path \<Rightarrow> unit + unit" where
  "verify_owner_only_file sys fs p = owned_privately sys fs RegularPath p"

definition verify_engine_socket :: "'fs file_system \<Rightarrow> 'fs \<Rightarrow> file_path \<Rightarrow> unit + unit" where
  "verify_engine_socket sys fs p =
     and_then (owned_privately sys fs SocketPath p) (\<lambda>_.
     case parent_path p of None \<Rightarrow> Inr () | Some d \<Rightarrow> verify_owner_only_directory sys fs d)"

definition secure_parent :: "'fs file_system \<Rightarrow> file_path \<Rightarrow> 'fs \<Rightarrow> unit + 'fs" where
  "secure_parent sys d fs =
     (if sys_exists sys fs d
      then and_then (verify_owner_only_directory sys fs d) (\<lambda>_. Inr fs)
      else and_then (ok_or (sys_create_dir_all sys d fs) ()) (\<lambda>fs.
        and_then (ok_or (sys_set_mode sys d 448 fs) ()) (\<lambda>fs.
        and_then (verify_owner_only_directory sys fs d) (\<lambda>_. Inr fs))))"

definition secure_database_path :: "'fs file_system \<Rightarrow> file_path \<Rightarrow> 'fs \<Rightarrow> unit + 'fs \<times> file_path" where
  "secure_database_path sys p fs =
     and_then (if fp_absolute p then Inr p
       else and_then (ok_or (sys_current_dir sys fs) ()) (\<lambda>d. Inr (join_path d p))) (\<lambda>p.
     and_then (ok_or (parent_path p) ()) (\<lambda>d.
     and_then (secure_parent sys d fs) (\<lambda>fs.
     case sys_status sys fs p of
       Some _ \<Rightarrow> and_then (verify_owner_only_file sys fs p) (\<lambda>_. Inr (fs, p))
     | None \<Rightarrow> if sys_not_found sys fs p
         then and_then (ok_or (sys_create_new sys p 384 fs) ()) (\<lambda>fs.
           and_then (verify_owner_only_file sys fs p) (\<lambda>_. Inr (fs, p)))
         else Inl ())))"

text \<open>
  \<open>RelayState::open\<close>: SQLite opens the file, and finds the deliveries of an earlier run in it; expired ones
  are dropped. The tables and columns an older file lacks are added (\<open>initialize_inbox\<close>), which keeps its rows.
\<close>

definition inbox_columns :: "string list" where
  "inbox_columns = [''attempt_count'', ''next_attempt_at'', ''last_error'', ''forwarded_at'']"

definition ensure_column :: "string \<Rightarrow> string list \<Rightarrow> string list" where
  "ensure_column name columns = (if name \<in> set columns then columns else columns @ [name])"

definition initialize_inbox :: "relay_texts \<Rightarrow> timestamp \<Rightarrow> string list \<times> inbox \<Rightarrow> string list \<times> inbox" where
  "initialize_inbox x now = (\<lambda>(columns, rows).
     (fold ensure_column inbox_columns columns, prune_forwarded_deliveries x default_capacity now rows))"

definition relay_open :: "'fs file_system \<Rightarrow> (file_path \<Rightarrow> 'fs \<Rightarrow> ('fs \<times> string list \<times> inbox) option) \<Rightarrow> relay_texts \<Rightarrow>
    timestamp \<Rightarrow> string \<Rightarrow> file_path \<Rightarrow> 'fs \<Rightarrow> unit + 'fs \<times> file_path \<times> relay_state" where
  "relay_open sys sqlite x now secret p fs =
     and_then (ensure (secret \<noteq> []) ()) (\<lambda>_.
     and_then (secure_database_path sys p fs) (\<lambda>(fs, p).
     and_then (ok_or (sqlite p fs) ()) (\<lambda>(fs, inbox).
     and_then (verify_owner_only_file sys fs p) (\<lambda>_.
     Inr (fs, p, (relay_new secret)\<lparr>rs_inbox := snd (initialize_inbox x now inbox)\<rparr>)))))"

section \<open>Handing on to the engine\<close>

definition json_of_option :: "('a \<Rightarrow> json) \<Rightarrow> 'a option \<Rightarrow> json" where
  "json_of_option f x = (case x of None \<Rightarrow> JNull | Some a \<Rightarrow> f a)"

definition json_u64 :: "u64 \<Rightarrow> json" where
  "json_u64 n = JNumber (PosInt n)"

definition json_of_envelope :: "webhook_envelope \<Rightarrow> json" where
  "json_of_envelope e = JObject [(''schemaVersion'', json_u64 (ucast (we_schema_version e))),
     (''event'', JString (we_event e)), (''action'', JString (we_action e)),
     (''repositoryId'', json_of_option json_u64 (we_repository_id e)),
     (''repositoryFullName'', json_of_option JString (we_repository_full_name e)),
     (''entityNumber'', json_of_option json_u64 (we_entity_number e)),
     (''entityId'', json_of_option json_u64 (we_entity_id e))]"

definition json_of_forwarded :: "forwarded_webhook \<Rightarrow> json" where
  "json_of_forwarded d = JObject [(''deliveryId'', JString (fw_delivery_id d)),
     (''envelope'', json_of_envelope (fw_envelope d)), (''payloadSha256'', JString (fw_payload_sha256 d)),
     (''receivedAt'', JString (fw_received_at d))]"

definition ingest_request :: "forwarded_webhook \<Rightarrow> json" where
  "ingest_request d = JObject [(''jsonrpc'', JString ''2.0''), (''id'', JString (fw_delivery_id d)),
     (''method'', JString ''github.webhook.ingest''), (''params'', json_of_forwarded d)]"

definition max_rpc_frame_bytes :: nat where
  "max_rpc_frame_bytes = 1024 * 1024"

text \<open>
  The engine's end of the socket: the user of the peer that was reached in time, and the bytes that came back
  in time for a request, up to and with the first newline (at most one more than a frame).
\<close>

record engine_link =
  el_peer :: "u32 option"
  el_reply :: "string \<Rightarrow> string option"

definition acknowledged :: "(string \<Rightarrow> json option) \<Rightarrow> string \<Rightarrow> unit + unit" where
  "acknowledged parse response =
     and_then (ensure (response \<noteq> []) ()) (\<lambda>_.
     and_then (ensure (length response \<le> max_rpc_frame_bytes \<and> last response = CHR 10) ()) (\<lambda>_.
     and_then (ok_or (parse response) ()) (\<lambda>v.
     and_then (ensure (json_get ''error'' v = None) ()) (\<lambda>_.
     ensure (json_get ''result'' v \<noteq> None) ()))))"

definition forward_delivery :: "'fs file_system \<Rightarrow> 'fs \<Rightarrow> (json \<Rightarrow> string) \<Rightarrow> (string \<Rightarrow> json option) \<Rightarrow>
    file_path \<Rightarrow> engine_link \<Rightarrow> forwarded_webhook \<Rightarrow> unit + unit" where
  "forward_delivery sys fs print parse socket link d =
     and_then (verify_engine_socket sys fs socket) (\<lambda>_.
     and_then (ok_or (el_peer link) ()) (\<lambda>uid.
     and_then (ensure (uid = sys_euid sys) ()) (\<lambda>_.
     let request = print (ingest_request d) in
     and_then (ensure (length request < max_rpc_frame_bytes) ()) (\<lambda>_.
     and_then (ok_or (el_reply link (request @ [CHR 10])) ()) (\<lambda>response.
     acknowledged parse response)))))"

end
