(* ===== verification/Rpc_Webhook.thy ===== *)
theory Rpc_Webhook
  imports Relay_Webhook
begin

text \<open>
  The engine's end of a forwarded webhook: \<open>github.webhook.ingest\<close> of
  \<open>crates/patchwright-engine/src/rpc.rs\<close>, which reads back the delivery the relay wrote
  (\<open>ForwardedWebhook\<close>, unknown fields denied) and ingests it into the store.
\<close>

section \<open>Reading a delivery\<close>

definition envelope_of_json :: "json \<Rightarrow> webhook_envelope option" where
  "envelope_of_json v =
     Option.bind (strict_members [''schemaVersion'', ''event'', ''action'', ''repositoryId'',
       ''repositoryFullName'', ''entityNumber'', ''entityId''] v) (\<lambda>members.
     Option.bind (required_field as_u32 ''schemaVersion'' members) (\<lambda>schema.
     Option.bind (required_field as_str ''event'' members) (\<lambda>event.
     Option.bind (required_field as_str ''action'' members) (\<lambda>action.
     Option.bind (optional_field as_u64 ''repositoryId'' members) (\<lambda>repository_id.
     Option.bind (optional_field as_str ''repositoryFullName'' members) (\<lambda>full_name.
     Option.bind (optional_field as_u64 ''entityNumber'' members) (\<lambda>number.
     Option.bind (optional_field as_u64 ''entityId'' members) (\<lambda>entity.
     Some \<lparr>we_schema_version = schema, we_event = event, we_action = action, we_repository_id = repository_id,
       we_repository_full_name = full_name, we_entity_number = number, we_entity_id = entity\<rparr>))))))))"

definition forwarded_of_json :: "json \<Rightarrow> forwarded_webhook option" where
  "forwarded_of_json v =
     Option.bind (strict_members [''deliveryId'', ''envelope'', ''payloadSha256'', ''receivedAt''] v) (\<lambda>members.
     Option.bind (required_field as_str ''deliveryId'' members) (\<lambda>i.
     Option.bind (required_field envelope_of_json ''envelope'' members) (\<lambda>e.
     Option.bind (required_field as_str ''payloadSha256'' members) (\<lambda>sha.
     Option.bind (required_field as_str ''receivedAt'' members) (\<lambda>received.
     Some \<lparr>fw_delivery_id = i, fw_envelope = e, fw_payload_sha256 = sha, fw_received_at = received\<rparr>)))))"

section \<open>The handler\<close>

definition github_webhook_ingest :: "(string \<Rightarrow> timestamp option) \<Rightarrow> timestamp \<Rightarrow> json \<Rightarrow> store \<Rightarrow>
    store \<times> (rpc_error + bool \<times> nat)" where
  "github_webhook_ingest parse_rfc3339 now params s = (case forwarded_of_json params of
       None \<Rightarrow> (s, Inl invalid_parameters)
     | Some d \<Rightarrow> (case ingest_github_webhook parse_rfc3339 now d s of
           Inl _ \<Rightarrow> (s, Inl (RpcError (- 32072) ''webhook ingestion failed''))
         | Inr (s', outcome) \<Rightarrow> (s', Inr outcome)))"

section \<open>What the relay writes is read back\<close>

lemma as_u32_ucast: "as_u32 (json_u64 (ucast (n :: u32))) = Some n"
proof -
  have "uint n < 2 ^ 32" using unsigned_less [of n, where ?'a = int] by simp
  then have "uint (ucast n :: u64) < uint (2 ^ 32 :: u64)" by (simp add: unsigned_ucast_eq take_bit_int_eq_self)
  then have "(ucast n :: u64) < 2 ^ 32" by (simp only: word_less_def)
  moreover have "(ucast (ucast n :: u64) :: u32) = n"
    by (rule bit_word_eqI) (simp add: bit_simps)
  ultimately show ?thesis by (simp add: as_u32_def json_u64_def as_u64_def)
qed

lemma optional_field_of:
  assumes "map_of members k = Some (json_of_option g x)" "\<And>a. f (g a) = Some a" "\<And>a. g a \<noteq> JNull"
  shows "optional_field f k members = Some x"
  using assms by (cases x) (simp_all add: optional_field_def json_of_option_def)

lemma envelope_of_json_of: "envelope_of_json (json_of_envelope e) = Some e"
proof -
  define members where "members = [(''schemaVersion'', json_u64 (ucast (we_schema_version e))),
     (''event'', JString (we_event e)), (''action'', JString (we_action e)),
     (''repositoryId'', json_of_option json_u64 (we_repository_id e)),
     (''repositoryFullName'', json_of_option JString (we_repository_full_name e)),
     (''entityNumber'', json_of_option json_u64 (we_entity_number e)),
     (''entityId'', json_of_option json_u64 (we_entity_id e))]"
  have [simp]: "as_u64 (json_u64 n) = Some n" "json_u64 n \<noteq> JNull"
    "as_str (JString t) = Some t" for n t
    by (simp_all add: as_u64_def json_u64_def as_str_def)
  have "strict_members [''schemaVersion'', ''event'', ''action'', ''repositoryId'',
       ''repositoryFullName'', ''entityNumber'', ''entityId''] (json_of_envelope e) = Some members"
    by (simp add: strict_members_def struct_members_def json_of_envelope_def members_def filter_option_def)
  moreover have "optional_field as_u64 ''repositoryId'' members = Some (we_repository_id e)"
    "optional_field as_str ''repositoryFullName'' members = Some (we_repository_full_name e)"
    "optional_field as_u64 ''entityNumber'' members = Some (we_entity_number e)"
    "optional_field as_u64 ''entityId'' members = Some (we_entity_id e)"
    by (auto intro!: optional_field_of simp: members_def)
  moreover have "required_field as_u32 ''schemaVersion'' members = Some (we_schema_version e)"
    "required_field as_str ''event'' members = Some (we_event e)"
    "required_field as_str ''action'' members = Some (we_action e)"
    by (simp_all add: required_field_def members_def as_u32_ucast)
  ultimately show ?thesis by (simp add: envelope_of_json_def)
qed

lemma forwarded_of_json_of: "forwarded_of_json (json_of_forwarded d) = Some d"
  by (simp add: forwarded_of_json_def json_of_forwarded_def strict_members_def struct_members_def
      filter_option_def required_field_def as_str_def envelope_of_json_of)

end
