(* ===== verification/Webhook_Properties.thy ===== *)
theory Webhook_Properties
  imports Rpc_Webhook Samples
begin

text \<open>
  The properties of webhooks, from GitHub's request to the engine's store: the inbox refines a mailbox that
  loses nothing, only signed requests reach it, only acknowledged deliveries leave it, it is drained when the
  engine answers, and what the relay accepts the engine takes in.
\<close>

section \<open>Runs of the inbox\<close>

lemma relay_run_trans:
  assumes "relay_run x s1 es2 s2" "relay_run x s es1 s1"
  shows "relay_run x s (es1 @ es2) s2"
  using assms by (induction rule: relay_run.induct)
    (auto simp flip: append_assoc intro: relay_run.recorded relay_run.forwarded relay_run.deferred)

lemma relay_run_refines:
  assumes "relay_run x s es s'" "relay_ok s"
  shows "relay_ok s' \<and> rs_queue_capacity s' = rs_queue_capacity s \<and>
    rs_retention_capacity s' = rs_retention_capacity s \<and> mail_run x (mailbox_of s) es (mailbox_of s')"
  using assms
proof (induction rule: relay_run.induct)
  case started
  then show ?case by (simp add: mail_start)
next
  case (recorded es s1 now d s2 out)
  then show ?case using record_delivery_ok [of s1 x now d s2 out] mail_next by fastforce
next
  case (forwarded es s1 now i s2)
  then show ?case using mark_forwarded_ok [of s1 x now i s2] mail_next by fastforce
next
  case (deferred es s1 now i s2)
  then show ?case using defer_delivery_ok [of s1 x now i s2] mail_next by fastforce
qed

lemma mail_run_keeps:
  assumes "mail_run x box es b" "box i = Some l" "\<And>t. Forwarded t i \<notin> set es"
  shows "b i = Some l"
  using assms
proof (induction rule: mail_run.induct)
  case (mail_next es b e)
  then show ?case by (cases e) (auto simp: mail_step_def mail_allows_def)
qed simp

lemma relay_new_ok: "relay_ok (relay_new secret)"
  by (simp add: relay_ok_def relay_new_def pending_rows_def forwarded_rows_def matching_def table_wf_def)

section \<open>Batches\<close>

lemma forward_each_run:
  "forward_each x clock sent n ds f s = (s', out) \<Longrightarrow> \<exists>es. relay_run x s es s' \<and>
     (\<forall>e \<in> set es. case e of Forwarded t i \<Rightarrow> \<exists>m. \<exists>d \<in> set ds. fw_delivery_id d = i \<and> sent m d
        | Recorded _ _ _ \<Rightarrow> False | Deferred _ _ \<Rightarrow> True)"
proof (induction x clock sent n ds f s arbitrary: s' out rule: forward_each.induct)
  case (1 x clock sent n f s)
  then show ?case by (auto intro!: exI [of _ "[]"] relay_run.started)
next
  case (2 x clock sent n d ds f s)
  let ?i = "fw_delivery_id d"
  show ?case
  proof (cases "sent n d")
    case True
    show ?thesis
    proof (cases "mark_forwarded x (clock n) ?i s")
      case (Inl e)
      with 2(3) True show ?thesis by (auto simp: transact_def intro!: exI [of _ "[]"] relay_run.started)
    next
      case (Inr s1)
      then have "forward_each x clock sent (n + 1) ds (f + 1) s1 = (s', out)"
        using 2(3) True by (simp add: transact_def)
      from 2(1) [OF True this] obtain es where es: "relay_run x s1 es s'"
        "\<forall>e \<in> set es. case e of Forwarded t i \<Rightarrow> \<exists>m. \<exists>d \<in> set ds. fw_delivery_id d = i \<and> sent m d
        | Recorded _ _ _ \<Rightarrow> False | Deferred _ _ \<Rightarrow> True" by blast
      have "relay_run x s [Forwarded (clock n) ?i] s1"
        using relay_run.forwarded [OF relay_run.started Inr] by simp
      from relay_run_trans [OF es(1) this] es(2) True show ?thesis
        by (intro exI [of _ "Forwarded (clock n) ?i # es"]) (fastforce split: inbox_event.splits)
    qed
  next
    case False
    show ?thesis
    proof (cases "defer_delivery x (clock n) ?i s")
      case (Inl e)
      with 2(3) False show ?thesis by (auto simp: transact_def intro!: exI [of _ "[]"] relay_run.started)
    next
      case (Inr s1)
      then have "forward_each x clock sent (n + 1) ds f s1 = (s', out)"
        using 2(3) False by (simp add: transact_def)
      from 2(2) [OF False this] obtain es where es: "relay_run x s1 es s'"
        "\<forall>e \<in> set es. case e of Forwarded t i \<Rightarrow> \<exists>m. \<exists>d \<in> set ds. fw_delivery_id d = i \<and> sent m d
        | Recorded _ _ _ \<Rightarrow> False | Deferred _ _ \<Rightarrow> True" by blast
      have "relay_run x s [Deferred (clock n) ?i] s1"
        using relay_run.deferred [OF relay_run.started Inr] by simp
      from relay_run_trans [OF es(1) this] es(2) show ?thesis
        by (intro exI [of _ "Deferred (clock n) ?i # es"]) (fastforce split: inbox_event.splits)
    qed
  qed
qed

lemma collect_source: "collect f xs = Inr ys \<Longrightarrow> y \<in> set ys \<Longrightarrow> \<exists>x \<in> set xs. f x = Inr y"
  by (induction xs arbitrary: ys) (fastforce simp: result_simps)+

lemma due_letters:
  assumes "due_deliveries x now s = Inr ds" "table_wf (rs_inbox s)" "d \<in> set ds"
  shows "\<exists>p. mailbox_of s (fw_delivery_id d) = Some (p, fw_payload_sha256 d, fw_received_at d) \<and>
    rt_decode x p = Some (fw_envelope d)"
proof -
  obtain k r where kr: "(k, r) \<in> set (sort_by due_order (matching (\<lambda>_. due_row x now) (rs_inbox s)))"
    and d: "decode_row x (k, r) = Inr d"
    using collect_source [OF assms(1) [unfolded due_deliveries_def] assms(3)] by (auto dest: in_set_takeD)
  from kr have "(k, r) \<in> set (pending_rows (rs_inbox s))"
    by (auto simp: matching_def pending_rows_def due_row_def)
  moreover have "table_wf (pending_rows (rs_inbox s))" using assms(2) by (simp add: pending_rows_def matching_def)
  ultimately have "find_row k (pending_rows (rs_inbox s)) = Some r" using in_find_row by metis
  moreover from d have "k = fw_delivery_id d" "rt_decode x (ir_payload r) = Some (fw_envelope d)"
    "ir_payload_sha256 r = fw_payload_sha256 d" "ir_received_at r = fw_received_at d"
    by (auto simp: decode_row_def result_simps ok_or_def split: option.splits)
  ultimately show ?thesis by (simp add: mailbox_of_def letter_of_def)
qed

lemma mail_run_taken:
  assumes "mail_run x box es b" "b i \<noteq> box i"
    and "\<And>e. e \<in> set es \<Longrightarrow> case e of Recorded _ _ _ \<Rightarrow> False | _ \<Rightarrow> True"
  shows "b i = None \<and> (\<exists>t. Forwarded t i \<in> set es)"
  using assms
proof (induction rule: mail_run.induct)
  case (mail_next es b e)
  show ?case
  proof (cases e)
    case (Recorded t d out)
    then show ?thesis using mail_next.prems(2) [of e] by simp
  next
    case (Forwarded t j)
    then show ?thesis using mail_next by (cases "i = j") (auto simp: mail_step_def)
  next
    case (Deferred t j)
    then show ?thesis using mail_next by (auto simp: mail_step_def)
  qed
qed simp

lemma forward_pending_run:
  assumes "forward_pending_once x clock sent s = (s', out)" "relay_ok s"
  obtains es where "relay_run x s es s'"
    "\<And>e. e \<in> set es \<Longrightarrow> case e of Recorded _ _ _ \<Rightarrow> False | _ \<Rightarrow> True"
    "\<And>t i. Forwarded t i \<in> set es \<Longrightarrow> \<exists>m d p. fw_delivery_id d = i \<and> sent m d \<and>
      mailbox_of s i = Some (p, fw_payload_sha256 d, fw_received_at d) \<and> rt_decode x p = Some (fw_envelope d)"
proof (cases "due_deliveries x (clock 0) s")
  case (Inl e)
  with assms(1) have "s' = s" by (simp add: forward_pending_once_def)
  then show thesis using that [of "[]"] relay_run.started by simp
next
  case (Inr ds)
  obtain s1 r where "forward_each x clock sent 1 ds 0 s = (s1, r)" by (metis surj_pair)
  moreover from this assms(1) Inr have "s1 = s'"
    by (cases r) (auto simp: forward_pending_once_def)
  ultimately have each: "forward_each x clock sent 1 ds 0 s = (s', r)" by simp
  from forward_each_run [OF this] obtain es where es: "relay_run x s es s'"
    "\<And>e. e \<in> set es \<Longrightarrow> case e of Forwarded t i \<Rightarrow> \<exists>m. \<exists>d \<in> set ds. fw_delivery_id d = i \<and> sent m d
        | Recorded _ _ _ \<Rightarrow> False | Deferred _ _ \<Rightarrow> True" by blast
  have wf: "table_wf (rs_inbox s)" using assms(2) by (simp add: relay_ok_def)
  show thesis
  proof (rule that [OF es(1)])
    show "case e of Recorded _ _ _ \<Rightarrow> False | _ \<Rightarrow> True" if "e \<in> set es" for e
      using es(2) [OF that] by (cases e) auto
    show "\<exists>m d p. fw_delivery_id d = i \<and> sent m d \<and>
      mailbox_of s i = Some (p, fw_payload_sha256 d, fw_received_at d) \<and> rt_decode x p = Some (fw_envelope d)"
      if f: "Forwarded t i \<in> set es" for t i
      using es(2) [OF f] due_letters [OF Inr wf] by fastforce
  qed
qed

section \<open>Batches that the engine acknowledges\<close>

lemma pending_after_update:
  assumes "\<And>r. ir_forwarded_at (f r) = Some t"
  shows "pending_rows (fst (update_where (waiting i) f rows)) = filter (\<lambda>(k, _). k \<noteq> i) (pending_rows rows)"
  using assms by (induction rows) (auto simp: update_where_def pending_rows_def matching_def waiting_def split: if_splits)

lemma mark_forwarded_pending:
  assumes "relay_ok s" "i \<in> fst ` set (pending_rows (rs_inbox s))"
  obtains s' where "mark_forwarded x now i s = Inr s'"
    "pending_rows (rs_inbox s') = filter (\<lambda>(k, _). k \<noteq> i) (pending_rows (rs_inbox s))"
proof -
  define f where "f = (\<lambda>r :: inbox_row. r\<lparr>ir_forwarded_at := Some (rt_rfc3339 x now), ir_last_error := None\<rparr>)"
  define upd where "upd = update_where (waiting i) f (rs_inbox s)"
  have wf: "table_wf (rs_inbox s)" using assms(1) by (simp add: relay_ok_def)
  have "find_row i (pending_rows (rs_inbox s)) \<noteq> None"
    using assms(2) by (simp add: find_row_def map_of_eq_None_iff)
  with update_pending(1) [OF wf, of i f] have "snd upd = 1" by (auto simp: upd_def)
  then have m: "mark_forwarded x now i s = Inr (s\<lparr>rs_inbox := prune_forwarded_deliveries x (rs_retention_capacity s) now (fst upd)\<rparr>)"
    by (simp add: mark_forwarded_def f_def [symmetric] upd_def [symmetric] split_def ensure_def)
  have "table_wf (fst upd)" using wf by (simp add: upd_def)
  moreover have "pending_rows (fst upd) = filter (\<lambda>(k, _). k \<noteq> i) (pending_rows (rs_inbox s))"
    unfolding upd_def by (rule pending_after_update) (simp add: f_def)
  ultimately show thesis using m that by (simp add: prune_pending)
qed

lemma forward_each_acknowledged:
  assumes "relay_ok s" "distinct (map fw_delivery_id ds)"
    "fw_delivery_id ` set ds \<subseteq> fst ` set (pending_rows (rs_inbox s))"
  shows "\<exists>s'. forward_each x clock (\<lambda>_ _. True) n ds f s = (s', Inr (f + length ds)) \<and> relay_ok s' \<and>
    pending_rows (rs_inbox s') = filter (\<lambda>(k, _). k \<notin> fw_delivery_id ` set ds) (pending_rows (rs_inbox s))"
  using assms
proof (induction ds arbitrary: n f s)
  case Nil
  then show ?case by simp
next
  case (Cons d ds)
  let ?i = "fw_delivery_id d"
  have "?i \<in> fst ` set (pending_rows (rs_inbox s))" using Cons.prems(3) by simp
  then obtain s1 where m: "mark_forwarded x (clock n) ?i s = Inr s1"
    and p: "pending_rows (rs_inbox s1) = filter (\<lambda>(k, _). k \<noteq> ?i) (pending_rows (rs_inbox s))"
    by (rule mark_forwarded_pending [OF Cons.prems(1)])
  have "relay_ok s1" using mark_forwarded_ok(1) [OF Cons.prems(1) m] .
  moreover have "fw_delivery_id ` set ds \<subseteq> fst ` set (pending_rows (rs_inbox s1))"
  proof
    fix j assume j: "j \<in> fw_delivery_id ` set ds"
    then obtain r where "(j, r) \<in> set (pending_rows (rs_inbox s))" using Cons.prems(3) by auto
    moreover have "j \<noteq> ?i" using j Cons.prems(2) by (metis distinct.simps(2) list.set_map list.simps(9))
    ultimately have "(j, r) \<in> set (pending_rows (rs_inbox s1))" by (simp add: p)
    then show "j \<in> fst ` set (pending_rows (rs_inbox s1))" by (rule rev_image_eqI) simp
  qed
  ultimately obtain s2 where "forward_each x clock (\<lambda>_ _. True) (n + 1) ds (f + 1) s1 = (s2, Inr (f + 1 + length ds))"
    "relay_ok s2" "pending_rows (rs_inbox s2) = filter (\<lambda>(k, _). k \<notin> fw_delivery_id ` set ds) (pending_rows (rs_inbox s1))"
    using Cons.IH [of s1 "n + 1" "f + 1"] Cons.prems(2) by auto
  moreover have "forward_each x clock (\<lambda>_ _. True) n (d # ds) f s = forward_each x clock (\<lambda>_ _. True) (n + 1) ds (f + 1) s1"
    using m by (simp add: transact_def)
  moreover have "filter (\<lambda>(k, _). k \<notin> fw_delivery_id ` set ds) (filter (\<lambda>(k, _). k \<noteq> ?i) (pending_rows (rs_inbox s))) =
      filter (\<lambda>(k, _). k \<notin> fw_delivery_id ` set (d # ds)) (pending_rows (rs_inbox s))"
    by (auto intro: filter_cong)
  ultimately show ?case unfolding p by simp
qed

text \<open>Every row that waits is due, and its payload is an envelope.\<close>

definition ready_rows :: "relay_texts \<Rightarrow> timestamp \<Rightarrow> relay_state \<Rightarrow> bool" where
  "ready_rows x now s \<longleftrightarrow> (\<forall>(k, r) \<in> set (pending_rows (rs_inbox s)). due_row x now r \<and> rt_decode x (ir_payload r) \<noteq> None)"

lemma due_of_ready:
  assumes "ready_rows x now s" "table_wf (rs_inbox s)"
  shows "\<exists>ds. due_deliveries x now s = Inr ds \<and> distinct (map fw_delivery_id ds) \<and>
    fw_delivery_id ` set ds \<subseteq> fst ` set (pending_rows (rs_inbox s)) \<and>
    length ds = min forward_batch_size (length (pending_rows (rs_inbox s)))"
proof -
  define P where "P = pending_rows (rs_inbox s)"
  define T where "T = take forward_batch_size (sort_by due_order P)"
  have m: "matching (\<lambda>_. due_row x now) (rs_inbox s) = P"
    unfolding P_def pending_rows_def matching_def
    using assms(1) by (auto simp: ready_rows_def pending_rows_def matching_def due_row_def intro!: filter_cong)
  have sub: "set T \<subseteq> set P" unfolding T_def using set_take_subset [of _ "sort_by due_order P"] by auto
  define g where "g = (\<lambda>(k, r :: inbox_row). \<lparr>fw_delivery_id = k, fw_envelope = the (rt_decode x (ir_payload r)),
     fw_payload_sha256 = ir_payload_sha256 r, fw_received_at = ir_received_at r\<rparr>)"
  have "decode_row x a = Inr (g a)" if "a \<in> set T" for a
  proof (cases a)
    case (Pair k r)
    with that sub assms(1) obtain e where "rt_decode x (ir_payload r) = Some e"
      by (fastforce simp: ready_rows_def P_def)
    then show ?thesis by (simp add: Pair decode_row_def g_def ok_or_def)
  qed
  then have "collect (decode_row x) T = Inr (map g T)"
    by (simp add: collect_eq_Inr list_all2_conv_all_nth)
  then have "due_deliveries x now s = Inr (map g T)" by (simp add: due_deliveries_def m T_def)
  moreover have ids: "fw_delivery_id (g a) = fst a" for a by (cases a) (simp add: g_def)
  moreover have "distinct (map fst (sort_by due_order P))"
    using assms(2) by (metis P_def mset_map mset_sort_by mset_eq_imp_distinct_iff matching_def pending_rows_def
      table_wf_def table_wf_filter)
  then have "distinct (map fst T)" by (simp add: T_def take_map [symmetric])
  moreover have "length T = min forward_batch_size (length P)" by (simp add: T_def min.commute)
  ultimately show ?thesis using sub by (auto simp: comp_def P_def [symmetric] image_image)
qed

lemma forward_acknowledged:
  assumes "relay_ok s" "ready_rows x (clock 0) s"
  shows "\<exists>s' sm. forward_pending_once x clock (\<lambda>_ _. True) s = (s', Inr sm) \<and> relay_ok s' \<and>
    set (pending_rows (rs_inbox s')) \<subseteq> set (pending_rows (rs_inbox s)) \<and>
    length (pending_rows (rs_inbox s')) = length (pending_rows (rs_inbox s)) - forward_batch_size"
proof -
  have wf: "table_wf (rs_inbox s)" using assms(1) by (simp add: relay_ok_def)
  obtain ds where ds: "due_deliveries x (clock 0) s = Inr ds" "distinct (map fw_delivery_id ds)"
    "fw_delivery_id ` set ds \<subseteq> fst ` set (pending_rows (rs_inbox s))"
    "length ds = min forward_batch_size (length (pending_rows (rs_inbox s)))"
    using due_of_ready [OF assms(2) wf] by blast
  obtain s' where s': "forward_each x clock (\<lambda>_ _. True) 1 ds 0 s = (s', Inr (0 + length ds))" "relay_ok s'"
    "pending_rows (rs_inbox s') = filter (\<lambda>(k, _). k \<notin> fw_delivery_id ` set ds) (pending_rows (rs_inbox s))"
    using forward_each_acknowledged [OF assms(1) ds(2,3), of x clock 1 0] by blast
  have keys: "distinct (map fst (pending_rows (rs_inbox s)))"
    using wf by (simp add: pending_rows_def matching_def table_wf_def distinct_map_filter)
  have "length (pending_rows (rs_inbox s')) = length (pending_rows (rs_inbox s)) - length ds"
    unfolding s'(3) using length_filter_keys [OF keys ds(2)] ds(3) by simp
  then show ?thesis using s' ds by (auto simp: forward_pending_once_def)
qed

section \<open>What a validated event says\<close>

definition is_object :: "json \<Rightarrow> bool" where
  "is_object v \<longleftrightarrow> (case v of JObject _ \<Rightarrow> True | _ \<Rightarrow> False)"

text \<open>GitHub sends the body and the entities in it as objects.\<close>

definition entity_members :: "string list" where
  "entity_members = [''repository'', ''pull_request'', ''issue'', ''comment'', ''review'', ''check_run'',
     ''check_suite'', ''workflow_run'']"

definition event_objects :: "json \<Rightarrow> bool" where
  "event_objects v \<longleftrightarrow> is_object v \<and> (\<forall>k w. k \<in> set entity_members \<and> json_get k v = Some w \<longrightarrow> is_object w)"

lemma struct_field_object: "is_object v \<Longrightarrow> struct_field names k v = json_get k v"
  by (cases v) (simp_all add: is_object_def struct_field_def struct_members_def json_get_def)

lemma two_steps:
  "u64_at [m, k] v = Option.bind (Option.bind (json_get m v) (json_get k)) as_u64"
  "str_at [m, k] v = Option.bind (Option.bind (json_get m v) (json_get k)) as_str"
  by (cases "json_get m v"; cases "json_get k (the (json_get m v))";
    simp add: u64_at_def str_at_def)+

lemma required_u64_object:
  assumes "required_u64 names (Some m) k v = Inr n" "is_object v" "\<And>w. json_get m v = Some w \<Longrightarrow> is_object w"
  shows "n \<noteq> None \<and> u64_at [m, k] v = n"
  using assms by (cases "json_get m v")
    (auto simp: required_u64_def incomplete_def result_simps two_steps struct_field_object)

lemma repository_object_of:
  assumes "json_get ''repository'' v = Some w" "repository_object w = Some (i, name)" "is_object w"
  shows "u64_at [''repository'', ''id''] v = Some i" "str_at [''repository'', ''full_name''] v = Some name"
  using assms by (auto simp: repository_object_def two_steps struct_field_object bind_eq_Some_conv)

lemma require_repository_ok:
  "require_repository i name = Inr u \<Longrightarrow> i \<noteq> 0 \<and> webhook_repository_ok name"
  by (auto simp: require_repository_def require_identifier_def webhook_repository_ok_def result_simps word_gt_0
      split: option.splits)

lemma repository_event_ok:
  assumes "validate_repository_event (numbered, identified, actions) v = Inr action" "event_objects v"
    and "set_option numbered \<union> set_option identified \<subseteq> set entity_members"
  shows "action \<in> set actions"
    and "\<exists>i name. u64_at [''repository'', ''id''] v = Some i \<and> str_at [''repository'', ''full_name''] v = Some name \<and>
      webhook_repository_ok name"
    and "numbered = Some m \<Longrightarrow> \<exists>n. u64_at [m, ''number''] v = Some n \<and> n \<noteq> 0"
    and "identified = Some m \<Longrightarrow> \<exists>n. u64_at [m, ''id''] v = Some n \<and> n \<noteq> 0"
proof -
  let ?names = "event_fields numbered identified"
  have v: "is_object v" using assms(2) by (simp add: event_objects_def)
  have members: "is_object w" if "m \<in> set entity_members" "json_get m v = Some w" for m w
    using assms(2) that unfolding event_objects_def by blast
  obtain number entity w i name where
    num: "required_u64 ?names numbered ''number'' v = Inr number" "require_present number = Inr ()" and
    ent: "required_u64 ?names identified ''id'' v = Inr entity" "require_present entity = Inr ()" and
    repo: "json_get ''repository'' v = Some w" "repository_object w = Some (i, name)" "require_repository i name = Inr ()" and
    act: "require_action action actions = Inr action"
    using assms(1) by (auto simp: validate_repository_event_def Let_def incomplete_def result_simps
      struct_field_object [OF v] bind_eq_Some_conv require_action_def split: if_splits)
  show "action \<in> set actions" using act by (simp add: require_action_def split: if_splits)
  have "is_object w" using members [of "''repository''"] repo(1) by (simp add: entity_members_def)
  from repository_object_of [OF repo(1,2) this] require_repository_ok [OF repo(3)]
  show "\<exists>i name. u64_at [''repository'', ''id''] v = Some i \<and> str_at [''repository'', ''full_name''] v = Some name \<and>
      webhook_repository_ok name" by blast
  have present: "n \<noteq> Some 0" if "require_present n = Inr ()" for n
    using that by (auto simp: require_present_def require_identifier_def result_simps word_gt_0 split: option.splits)
  show "\<exists>n. u64_at [m, ''number''] v = Some n \<and> n \<noteq> 0" if m: "numbered = Some m"
  proof -
    have "m \<in> set entity_members" using assms(3) m by auto
    then show ?thesis using required_u64_object [OF num(1) [unfolded m] v] members present [OF num(2)] by auto
  qed
  show "\<exists>n. u64_at [m, ''id''] v = Some n \<and> n \<noteq> 0" if m: "identified = Some m"
  proof -
    have "m \<in> set entity_members" using assms(3) m by auto
    then show ?thesis using required_u64_object [OF ent(1) [unfolded m] v] members present [OF ent(2)] by auto
  qed
qed

lemma event_tokens:
  assumes "event_shape event = Some (numbered, identified, actions)"
  shows "token_ok event 64" "set_option numbered \<union> set_option identified \<subseteq> set entity_members"
    "\<And>action. action \<in> set actions \<Longrightarrow> token_ok action 64"
proof -
  have token: "token_ok t 64" if "list_all is_ascii_printable t" "t \<noteq> []" "length t \<le> 64" for t
    using that printable_no_control by (simp add: token_ok_def)
  show "token_ok event 64" "set_option numbered \<union> set_option identified \<subseteq> set entity_members"
    using assms by (auto simp: event_shape_def entity_members_def is_ascii_printable_def intro!: token split: if_splits)
  show "token_ok action 64" if "action \<in> set actions" for action
    using assms that by (auto simp: event_shape_def pull_request_actions_def edited_actions_def
      is_ascii_printable_def intro!: token split: if_splits)
qed

lemma accepted_envelope_ok:
  assumes "validate_event event (Some v) = Inr action" "event_objects v" "event \<noteq> ''ping''"
  shows "token_ok event 64" "token_ok action 64" "entity_number event v \<noteq> Some 0" "entity_id event v \<noteq> Some 0"
    "\<exists>i name. u64_at [''repository'', ''id''] v = Some i \<and> str_at [''repository'', ''full_name''] v = Some name \<and>
      webhook_repository_ok name"
proof -
  obtain numbered identified actions where shape: "event_shape event = Some (numbered, identified, actions)"
    and ok: "validate_repository_event (numbered, identified, actions) v = Inr action"
    using assms(1,3) by (auto simp: validate_event_def ok_or_def split: option.splits)
  note tokens = event_tokens [OF shape]
  note facts = repository_event_ok [OF ok assms(2) tokens(2)]
  show "token_ok event 64" "token_ok action 64" using tokens(1,3) facts(1) by simp_all
  show "\<exists>i name. u64_at [''repository'', ''id''] v = Some i \<and> str_at [''repository'', ''full_name''] v = Some name \<and>
      webhook_repository_ok name" by (rule facts(2))
  show "entity_number event v \<noteq> Some 0"
    using shape facts(3) by (fastforce simp: event_shape_def entity_number_def split: if_splits)
  show "entity_id event v \<noteq> Some 0"
    using shape facts(4) by (fastforce simp: event_shape_def entity_id_def split: if_splits)
qed

section \<open>A request that is accepted\<close>

lemma webhook_accepted:
  assumes "relay_ok s" "github_webhook lib now headers body s = (s', status, answer)"
    "mailbox_of s' \<noteq> mailbox_of s \<or> status = 202"
  obtains i event v action where "status = 202" "signature_valid lib s headers body"
    "delivery_id_header headers = Some i" "event_header headers = Some event" "rl_parse_json lib body = Some v"
    "validate_event event (Some v) = Inr action"
    "record_delivery (rl_texts lib) now (accepted_delivery lib i event action v body) s = (s', Accepted)"
proof -
  have sg: "signature_valid lib s headers body"
    using assms(2,3) by (cases "signature_valid lib s headers body") (auto simp: github_webhook_def)
  obtain i where i: "delivery_id_header headers = Some i"
    using assms(2,3) sg by (cases "delivery_id_header headers") (auto simp: github_webhook_def)
  obtain event where e: "event_header headers = Some event"
    using assms(2,3) sg i by (cases "event_header headers") (auto simp: github_webhook_def)
  obtain action where a: "validate_event event (rl_parse_json lib body) = Inr action"
    using assms(2,3) sg i e
    by (cases "validate_event event (rl_parse_json lib body)")
      (auto simp: github_webhook_def split: event_validation_error.splits)
  obtain v where v: "rl_parse_json lib body = Some v"
    using a by (cases "rl_parse_json lib body") (auto simp: validate_event_def ok_or_def)
  obtain s1 out where r: "record_delivery (rl_texts lib) now (accepted_delivery lib i event action v body) s = (s1, out)"
    by (metis surj_pair)
  have s1: "s' = s1" "status = fst (outcome_status out)"
    using assms(2) sg i e a v r by (simp_all add: github_webhook_def)
  have "out = Accepted"
    using assms(3) s1 record_delivery_ok(6) [OF assms(1) r]
    by (cases out) (auto simp: mail_step_def outcome_status_def)
  with that [of i event v action] sg i e a v r s1 show thesis by (simp add: outcome_status_def)
qed

section \<open>A delivery through the relay\<close>

definition sample_event :: json where
  "sample_event = JObject [(''action'', JString ''completed''), (''check_run'', JObject [(''id'', JNumber (PosInt 7))]),
     (''repository'', JObject [(''id'', JNumber (PosInt 11)), (''full_name'', JString ''o/r'')])]"

definition sample_envelope :: webhook_envelope where
  "sample_envelope = sanitized_envelope ''check_run'' ''completed'' sample_event"

definition sample_texts :: relay_texts where
  "sample_texts = \<lparr>rt_rfc3339 = (\<lambda>_. ''t''), rt_julianday = (\<lambda>_. 0), rt_encode = (\<lambda>e. if e = sample_envelope then ''e'' else ''x''),
     rt_decode = (\<lambda>t. if t = ''e'' then Some sample_envelope else None)\<rparr>"

definition sample_library :: relay_library where
  "sample_library = \<lparr>rl_hmac = (\<lambda>_ _. []), rl_sha256_hex = (\<lambda>_. sha256_c),
     rl_parse_json = (\<lambda>_. Some sample_event), rl_texts = sample_texts\<rparr>"

definition sample_headers :: headers where
  "sample_headers = [''x-hub-signature-256'' \<mapsto> ''sha256='', ''x-github-delivery'' \<mapsto> ''g'', ''x-github-event'' \<mapsto> ''check_run'']"

definition sample_row :: inbox_row where
  "sample_row = new_row ''t'' (accepted_delivery sample_library ''g'' ''check_run'' ''completed'' sample_event ''b'')"

definition sample_relay :: relay_state where
  "sample_relay = (relay_new ''k'')\<lparr>rs_inbox := [(''g'', sample_row)]\<rparr>"

lemma sample_event_valid: "validate_event ''check_run'' (Some sample_event) = Inr ''completed''"
proof -
  have "split_once CHR ''/'' ''o/r'' = Some (''o'', ''r'')" by (simp add: split_once_Some)
  moreover have "\<not> any_char is_whitespace ''o/r''" by (rule graphic_clean(1)) (simp add: is_ascii_graphic_def)
  ultimately show ?thesis
    by (simp add: validate_event_def validate_repository_event_def event_shape_def sample_event_def Let_def
      required_u64_def incomplete_def struct_field_def struct_members_def as_str_def as_u64_def event_fields_def
      repository_object_def require_present_def require_identifier_def require_repository_def require_action_def ok_or_def
      ensure_def)
qed

lemma sample_recorded:
  "record_delivery sample_texts now (accepted_delivery sample_library ''g'' ''check_run'' ''completed'' sample_event ''b'')
     (relay_new ''k'') = (sample_relay, Accepted)"
  by (simp add: record_delivery_def Let_def relay_new_def sample_relay_def prune_forwarded_deliveries_def evicted_def
    forwarded_rows_def matching_def has_row_def find_row_def accepted_delivery_def pending_rows_def
    default_capacity_def insert_ignore_def sample_row_def sample_texts_def)

lemma sample_delivered: "github_webhook sample_library now sample_headers ''b'' (relay_new ''k'') = (sample_relay, 202, ''accepted'')"
proof -
  have "\<not> any_char is_control ''g''" by (rule graphic_clean(2)) (simp add: is_ascii_graphic_def)
  then have "delivery_id_header sample_headers = Some ''g''"
    by (simp add: delivery_id_header_def filter_option_def sample_headers_def)
  moreover have "event_header sample_headers = Some ''check_run''"
    by (simp add: event_header_def filter_option_def sample_headers_def)
  moreover have "signature_valid sample_library (relay_new ''k'') sample_headers ''b''"
    by (simp add: signature_valid_def sample_headers_def verify_signature_def strip_prefix_def starts_with_def sample_library_def)
  moreover have "rl_parse_json sample_library ''b'' = Some sample_event" "rl_texts sample_library = sample_texts"
    by (simp_all add: sample_library_def)
  ultimately show ?thesis
    by (simp add: github_webhook_def sample_event_valid sample_recorded outcome_status_def)
qed

lemma sample_relay_ok: "relay_ok sample_relay"
  using record_delivery_ok(1) [OF relay_new_ok sample_recorded] .

lemma sample_pending: "pending_rows (rs_inbox sample_relay) = [(''g'', sample_row)]"
  by (simp add: sample_relay_def pending_rows_def matching_def sample_row_def new_row_def)

section \<open>Properties\<close>

text \<open>C7: Refinement. Whatever the order in which requests of GitHub and the forwarder use the inbox, what it
  holds for the engine changes as a mailbox's content does: a new letter comes in only when none with its id
  waits, a letter goes out only when it is marked forwarded, and nothing else changes it; the table never holds
  more than the capacity of waiting deliveries and the retention capacity of forwarded ones.\<close>

theorem inbox_refines_mailbox:
  assumes "relay_run x s es s'" "relay_ok s"
  shows "mail_run x (mailbox_of s) es (mailbox_of s') \<and> pending_delivery_count s' \<le> rs_queue_capacity s \<and>
    delivery_count s' \<le> rs_queue_capacity s + rs_retention_capacity s"
proof -
  have all: "length rows = length (pending_rows rows) + length (forwarded_rows rows)" for rows
    by (induction rows) (auto simp: pending_rows_def forwarded_rows_def matching_def)
  have bounds: "length (pending_rows (rs_inbox s')) \<le> rs_queue_capacity s"
    "length (forwarded_rows (rs_inbox s')) \<le> rs_retention_capacity s"
    and run: "mail_run x (mailbox_of s) es (mailbox_of s')"
    using relay_run_refines [OF assms] by (auto simp: relay_ok_def)
  show ?thesis unfolding pending_delivery_count_def delivery_count_def
    using run bounds all [of "rs_inbox s'"] by linarith
qed

lemma sample_run:
  "relay_run sample_texts (relay_new ''k'') [Recorded 0 (accepted_delivery sample_library ''g'' ''check_run'' ''completed''
     sample_event ''b'') Accepted] sample_relay"
  using relay_run.recorded [OF relay_run.started sample_recorded [of 0]] by simp

theorem inbox_refines_mailbox_witness:
  "\<exists>b. mail_run sample_texts (mailbox_of (relay_new ''k'')) [Recorded 0 (accepted_delivery sample_library ''g''
     ''check_run'' ''completed'' sample_event ''b'') Accepted] b \<and> b ''g'' = Some (''e'', sha256_c, ''t'')"
  using inbox_refines_mailbox [OF sample_run relay_new_ok]
  by (auto simp: mailbox_of_def sample_pending find_row_def sample_row_def letter_of_new accepted_delivery_def
    sample_library_def sample_texts_def sample_envelope_def)

text \<open>C13: Safety. A delivery that was answered with 202 is not lost: as long as the forwarder has not marked it,
  it waits in the inbox with the payload, the digest and the receive time it came with, whatever requests and
  batches run in between, and whatever the retention prunes.\<close>

theorem accepted_not_lost:
  assumes "relay_ok s" "record_delivery x now d s = (s1, Accepted)" "relay_run x s1 es s2"
    and "\<And>t. Forwarded t (wd_delivery_id d) \<notin> set es"
  shows "mailbox_of s2 (wd_delivery_id d) = Some (wd_payload d, wd_payload_sha256 d, rt_rfc3339 x now)"
proof -
  note ok = record_delivery_ok [OF assms(1,2)]
  have "mail_run x (mailbox_of s1) es (mailbox_of s2)" using relay_run_refines [OF assms(3) ok(1)] by simp
  then show ?thesis by (rule mail_run_keeps) (use ok(6) assms(4) in \<open>simp_all add: mail_step_def\<close>)
qed

theorem accepted_not_lost_witness:
  "mailbox_of sample_relay ''g'' = Some (''e'', sha256_c, ''t'')"
  using accepted_not_lost [OF relay_new_ok sample_recorded relay_run.started]
  by (simp add: accepted_delivery_def sample_library_def sample_texts_def sample_envelope_def)

text \<open>Safety. A batch takes a delivery out of the inbox only when the engine acknowledged it, with the
  envelope, the digest and the receive time that were stored; every other delivery stays as it is.\<close>

theorem taken_only_acknowledged:
  assumes "relay_ok s" "forward_pending_once x clock sent s = (s', out)" "mailbox_of s' i \<noteq> mailbox_of s i"
  shows "mailbox_of s' i = None \<and> (\<exists>n d p. sent n d \<and> fw_delivery_id d = i \<and>
    mailbox_of s i = Some (p, fw_payload_sha256 d, fw_received_at d) \<and> rt_decode x p = Some (fw_envelope d))"
proof -
  obtain es where es: "relay_run x s es s'" "\<And>e. e \<in> set es \<Longrightarrow> case e of Recorded _ _ _ \<Rightarrow> False | _ \<Rightarrow> True"
    "\<And>t j. Forwarded t j \<in> set es \<Longrightarrow> \<exists>m d p. fw_delivery_id d = j \<and> sent m d \<and>
      mailbox_of s j = Some (p, fw_payload_sha256 d, fw_received_at d) \<and> rt_decode x p = Some (fw_envelope d)"
    using forward_pending_run [OF assms(2,1)] by metis
  have "mail_run x (mailbox_of s) es (mailbox_of s')" using relay_run_refines [OF es(1) assms(1)] by simp
  from mail_run_taken [OF this assms(3) es(2)] obtain t where "mailbox_of s' i = None" "Forwarded t i \<in> set es" by blast
  then show ?thesis using es(3) by metis
qed

lemma sample_ready: "ready_rows sample_texts now sample_relay"
  by (simp add: ready_rows_def sample_pending due_row_def sample_row_def new_row_def sample_texts_def
    accepted_delivery_def sample_library_def sample_envelope_def)

lemma sample_mail: "mailbox_of sample_relay ''g'' = Some (''e'', sha256_c, ''t'')"
  by (simp add: mailbox_of_def sample_pending find_row_def sample_row_def letter_of_new accepted_delivery_def
    sample_library_def sample_texts_def sample_envelope_def)

lemma no_pending_mail: "pending_rows (rs_inbox s) = [] \<Longrightarrow> mailbox_of s i = None"
  by (simp add: mailbox_of_def find_row_def)

theorem taken_only_acknowledged_witness:
  "\<exists>s out. forward_pending_once sample_texts (\<lambda>_. 0) (\<lambda>_ _. True) sample_relay = (s, out) \<and>
     mailbox_of s ''g'' = None \<and> mailbox_of sample_relay ''g'' \<noteq> None"
proof -
  obtain s sm where f: "forward_pending_once sample_texts (\<lambda>_. 0) (\<lambda>_ _. True) sample_relay = (s, Inr sm)"
    "length (pending_rows (rs_inbox s)) = 1 - forward_batch_size"
    using forward_acknowledged [where clock = "\<lambda>_. 0", OF sample_relay_ok sample_ready] sample_pending by auto
  then have "mailbox_of s ''g'' \<noteq> mailbox_of sample_relay ''g''"
    using no_pending_mail [of s] sample_mail by (simp add: forward_batch_size_def)
  from taken_only_acknowledged [OF sample_relay_ok f(1) this] f(1) show ?thesis by blast
qed

text \<open>C14: Liveness. When every waiting delivery is due and holds an envelope, and the engine acknowledges what it
  is sent, the forwarder empties the inbox: a batch for each 32 deliveries is enough, and none of them fails.\<close>

theorem backlog_drained:
  assumes "relay_ok s" "\<And>clock sent. (clock, sent) \<in> set rounds \<Longrightarrow> ready_rows x (clock 0) s \<and> sent = (\<lambda>_ _. True)"
    and "pending_delivery_count s \<le> forward_batch_size * length rounds"
  shows "\<exists>s'. run_forwarder x rounds s = (s', Inr ()) \<and> pending_delivery_count s' = 0"
  using assms
proof (induction rounds arbitrary: s)
  case Nil
  then show ?case by simp
next
  case (Cons r rounds)
  obtain clock sent where r: "r = (clock, sent)" by (cases r)
  have ready: "ready_rows x (clock 0) s" and sent: "sent = (\<lambda>_ _. True)" using Cons.prems(2) r by auto
  obtain s1 sm where f: "forward_pending_once x clock sent s = (s1, Inr sm)" "relay_ok s1"
    "set (pending_rows (rs_inbox s1)) \<subseteq> set (pending_rows (rs_inbox s))"
    "length (pending_rows (rs_inbox s1)) = length (pending_rows (rs_inbox s)) - forward_batch_size"
    using forward_acknowledged [where clock = clock, OF Cons.prems(1) ready] unfolding sent by blast
  have "ready_rows x (c 0) s1 \<and> st = (\<lambda>_ _. True)" if "(c, st) \<in> set rounds" for c st
    using Cons.prems(2) [of c st] that f(3) by (auto simp: ready_rows_def)
  moreover have "pending_delivery_count s1 \<le> forward_batch_size * length rounds"
    using Cons.prems(3) f(4) by (simp add: pending_delivery_count_def algebra_simps)
  ultimately show ?case using Cons.IH [OF f(2)] f(1) by (simp add: r)
qed

theorem backlog_drained_witness:
  "pending_delivery_count sample_relay = 1 \<and>
   (\<exists>s. run_forwarder sample_texts [(\<lambda>_. 0, \<lambda>_ _. True)] sample_relay = (s, Inr ()) \<and> pending_delivery_count s = 0)"
proof -
  have one: "pending_delivery_count sample_relay = 1" by (simp add: pending_delivery_count_def sample_pending)
  show ?thesis
    using one backlog_drained [OF sample_relay_ok, of "[(\<lambda>_. 0, \<lambda>_ _. True)]" sample_texts] sample_ready
    by (simp add: forward_batch_size_def)
qed

text \<open>C12: Safety. A request changes what waits for the engine only when its body is signed with the webhook
  secret and is a valid event of the name in its header; the answer is then 202, the id in the header was
  free, and what is stored is the envelope of the event, the digest of the body and the time. An unsigned
  request is answered with 401 and leaves the relay as it was.\<close>

theorem only_signed_recorded:
  assumes "relay_ok s" "github_webhook lib now headers body s = (s', status, answer)"
  shows "(mailbox_of s' \<noteq> mailbox_of s \<longrightarrow> status = 202 \<and>
      (\<exists>h. headers ''x-hub-signature-256'' = Some (''sha256='' @ h) \<and> hex_decode h = Some (rl_hmac lib (rs_secret s) body)) \<and>
      (\<exists>i event v action. headers ''x-github-delivery'' = Some i \<and> headers ''x-github-event'' = Some event \<and>
        rl_parse_json lib body = Some v \<and> validate_event event (Some v) = Inr action \<and> mailbox_of s i = None \<and>
        mailbox_of s' = (mailbox_of s)(i \<mapsto> (rt_encode (rl_texts lib) (sanitized_envelope event action v),
          rl_sha256_hex lib body, rt_rfc3339 (rl_texts lib) now)))) \<and>
    (\<not> signature_valid lib s headers body \<longrightarrow> s' = s \<and> status = 401)"
proof -
  have unsigned: "s' = s \<and> status = 401" if "\<not> signature_valid lib s headers body"
    using assms(2) that by (simp add: github_webhook_def)
  have changed: "status = 202 \<and> signature_valid lib s headers body \<and> (\<exists>i event v action.
      headers ''x-github-delivery'' = Some i \<and> headers ''x-github-event'' = Some event \<and>
        rl_parse_json lib body = Some v \<and> validate_event event (Some v) = Inr action \<and> mailbox_of s i = None \<and>
        mailbox_of s' = (mailbox_of s)(i \<mapsto> (rt_encode (rl_texts lib) (sanitized_envelope event action v),
          rl_sha256_hex lib body, rt_rfc3339 (rl_texts lib) now)))" if c: "mailbox_of s' \<noteq> mailbox_of s"
  proof -
    have "mailbox_of s' \<noteq> mailbox_of s \<or> status = 202" using c by simp
    from webhook_accepted [OF assms this] obtain i event v action where w: "status = 202"
      "signature_valid lib s headers body" "delivery_id_header headers = Some i" "event_header headers = Some event"
      "rl_parse_json lib body = Some v" "validate_event event (Some v) = Inr action"
      "record_delivery (rl_texts lib) now (accepted_delivery lib i event action v body) s = (s', Accepted)" .
    moreover note ok = record_delivery_ok [OF assms(1) w(7)]
    moreover have "headers ''x-github-delivery'' = Some i" "headers ''x-github-event'' = Some event"
      using w(3,4) by (auto simp: delivery_id_header_def event_header_def result_simps)
    ultimately show ?thesis by (auto simp: mail_step_def mail_allows_def accepted_delivery_def)
  qed
  have "\<exists>h. headers ''x-hub-signature-256'' = Some (''sha256='' @ h) \<and> hex_decode h = Some (rl_hmac lib (rs_secret s) body)"
    if "signature_valid lib s headers body"
    using that by (auto simp: signature_valid_def verify_signature_def strip_prefix_def starts_with_iff
      split: option.splits if_splits)
  with unsigned changed show ?thesis by blast
qed

theorem only_signed_recorded_witness:
  "mailbox_of sample_relay \<noteq> mailbox_of (relay_new ''k'') \<and>
   (\<exists>h. sample_headers ''x-hub-signature-256'' = Some (''sha256='' @ h) \<and>
      hex_decode h = Some (rl_hmac sample_library ''k'' ''b''))"
proof -
  have "mailbox_of (relay_new ''k'') ''g'' = None"
    by (rule no_pending_mail) (simp add: relay_new_def pending_rows_def matching_def)
  then have "mailbox_of sample_relay \<noteq> mailbox_of (relay_new ''k'')" using sample_mail by auto
  moreover have "rs_secret (relay_new ''k'') = ''k''" by (simp add: relay_new_def)
  ultimately show ?thesis using only_signed_recorded [OF relay_new_ok sample_delivered [of 0]] by metis
qed

text \<open>C6: Composition. What the relay accepts, the engine takes in: once a signed event of a repository is answered
  with 202, the delivery that the forwarder reads back for it is decoded and ingested by the engine, whatever
  its store holds, and the store then knows the delivery. It relies on what the libraries document (an encoded
  envelope is not decoded to another, a digest is 64 hexadecimal digits, chrono parses its own texts), on GitHub's
  bodies being objects, and on a number within SQLite's integers.\<close>

theorem accepted_event_ingested:
  assumes "relay_ok s" "github_webhook lib now headers body s = (s', 202, answer)"
    and "headers ''x-github-delivery'' = Some i" "headers ''x-github-event'' = Some event" "event \<noteq> ''ping''"
    and "rl_parse_json lib body = Some v" "event_objects v" "\<And>n. entity_number event v = Some n \<Longrightarrow> unat n < 2 ^ 63"
    and "\<And>e. rt_decode (rl_texts lib) (rt_encode (rl_texts lib) e) \<in> {None, Some e}"
    and "length (rl_sha256_hex lib body) = 64" "list_all is_ascii_hexdigit (rl_sha256_hex lib body)"
    and "parse (rt_rfc3339 (rl_texts lib) now) \<noteq> None"
    and "due_deliveries (rl_texts lib) later s' = Inr ds" "d \<in> set ds" "fw_delivery_id d = i"
  shows "\<exists>st' outcome. github_webhook_ingest parse t (json_of_forwarded d) st = (st', Inr outcome) \<and>
    has_row i (st_webhooks st')"
proof -
  have "mailbox_of s' \<noteq> mailbox_of s \<or> (202 :: nat) = 202" by simp
  from webhook_accepted [OF assms(1,2) this] obtain i' event' v' action where w:
    "delivery_id_header headers = Some i'" "event_header headers = Some event'" "rl_parse_json lib body = Some v'"
    "validate_event event' (Some v') = Inr action"
    "record_delivery (rl_texts lib) now (accepted_delivery lib i' event' action v' body) s = (s', Accepted)" by metis
  have same: "i' = i" "event' = event" "v' = v"
    using w(1-3) assms(3,4,6) by (auto simp: delivery_id_header_def event_header_def result_simps)
  note valid = accepted_envelope_ok [OF w(4) [unfolded same] assms(7,5)]
  note ok = record_delivery_ok [OF assms(1) w(5)]
  have wf: "table_wf (rs_inbox s')" using ok(1) by (simp add: relay_ok_def)
  have mail: "mailbox_of s' i = Some (rt_encode (rl_texts lib) (sanitized_envelope event action v),
      rl_sha256_hex lib body, rt_rfc3339 (rl_texts lib) now)"
    using ok(6) by (simp add: mail_step_def accepted_delivery_def same)
  have d: "fw_envelope d = sanitized_envelope event action v" "fw_payload_sha256 d = rl_sha256_hex lib body"
    "fw_received_at d = rt_rfc3339 (rl_texts lib) now"
    using due_letters [OF assms(13) wf assms(14)] mail assms(9) [of "sanitized_envelope event action v"] assms(15)
    by auto
  have "token_ok i 128" using w(1) by (auto simp: delivery_id_header_def result_simps token_ok_def same)
  with valid obtain u where "validate_forwarded_webhook parse d = Inr u"
    using assms(10-12,15) d by (auto simp: validate_forwarded_webhook_def Let_def sanitized_envelope_def ensure_msg_def
      ok_or_def ensure_def)
  moreover have "\<exists>n. transpose_map sql_u64 (we_entity_number (fw_envelope d)) = Inr n"
    using assms(8) unfolding d(1) by (cases "entity_number event v") (auto simp: sanitized_envelope_def sql_u64_def)
  ultimately have "\<exists>r. ingest_github_webhook parse t d st = Inr r"
    by (auto simp: ingest_github_webhook_def Let_def split: prod.split)
  then obtain st' inserted woken where ing: "ingest_github_webhook parse t d st = Inr (st', inserted, woken)"
    by (metis surj_pair)
  have "has_row i (st_webhooks st')" using ingest_ok [OF ing] assms(15) by auto
  with ing show ?thesis by (simp add: github_webhook_ingest_def forwarded_of_json_of)
qed

definition sample_forwarded :: forwarded_webhook where
  "sample_forwarded = \<lparr>fw_delivery_id = ''g'', fw_envelope = sample_envelope, fw_payload_sha256 = sha256_c,
     fw_received_at = ''t''\<rparr>"

lemma sample_due: "due_deliveries sample_texts now sample_relay = Inr [sample_forwarded]"
  by (simp add: due_deliveries_def sample_relay_def matching_def due_row_def sample_row_def new_row_def sort_by_def
    forward_batch_size_def decode_row_def ok_or_def sample_texts_def accepted_delivery_def sample_library_def
    sample_envelope_def sample_forwarded_def)

theorem accepted_event_ingested_witness:
  "\<exists>st outcome. github_webhook_ingest (\<lambda>_. Some 0) 5 (json_of_forwarded sample_forwarded) empty_store = (st, Inr outcome) \<and>
     has_row ''g'' (st_webhooks st)"
proof (rule accepted_event_ingested [OF relay_new_ok sample_delivered [of 0], where event = "''check_run''" and
    v = sample_event and later = 0 and ds = "[sample_forwarded]"])
  show "event_objects sample_event"
    by (auto simp: event_objects_def is_object_def sample_event_def json_get_def entity_members_def)
  show "due_deliveries (rl_texts sample_library) 0 sample_relay = Inr [sample_forwarded]"
    using sample_due by (simp add: sample_library_def)
qed (auto simp: sample_headers_def sample_library_def entity_number_def sample_texts_def sample_forwarded_def
    sha256_c_def is_ascii_hexdigit_def list_all_iff)

text \<open>Safety. A relay that opens with a database keeps it to its own user: after \<open>RelayState::open\<close> the file
  is a regular file, no link, owned by the effective user with no bit for group or others, at the path that
  was asked for; its directory was such a directory before SQLite wrote in it; and the webhook secret is not
  empty.\<close>

theorem relay_files_private:
  assumes "relay_open sys sqlite x now secret p fs = Inr (fs', q, s)"
  shows "secret \<noteq> [] \<and> rs_secret s = secret \<and> (fp_absolute p \<longrightarrow> q = p) \<and>
    (\<exists>m. sys_status sys fs' q = Some m \<and> ps_kind m = RegularPath \<and> ps_uid m = sys_euid sys \<and> is_owner_only (ps_mode m)) \<and>
    (\<exists>d fs1 m. parent_path q = Some d \<and> sys_status sys fs1 d = Some m \<and> ps_kind m = DirectoryPath \<and>
      ps_uid m = sys_euid sys \<and> is_owner_only (ps_mode m) \<and> (sys_exists sys fs d \<longrightarrow> fs1 = fs))"
proof -
  have owned: "\<exists>m. sys_status sys f r = Some m \<and> ps_kind m = k \<and> ps_uid m = sys_euid sys \<and> is_owner_only (ps_mode m)"
    if "owned_privately sys f k r = Inr u" for f k r u
    using that by (auto simp: owned_privately_def result_simps ok_or_def split: option.splits)
  obtain fs1 fs2 inbox where o: "secret \<noteq> []" "secure_database_path sys p fs = Inr (fs1, q)"
    "sqlite q fs1 = Some (fs2, inbox)" "verify_owner_only_file sys fs2 q = Inr ()" "fs2 = fs'"
    "s = (relay_new secret)\<lparr>rs_inbox := snd (initialize_inbox x now inbox)\<rparr>"
    using assms by (auto simp: relay_open_def result_simps ok_or_def split: option.splits)
  obtain d fs3 where d: "parent_path q = Some d" "secure_parent sys d fs = Inr fs3" "fp_absolute p \<longrightarrow> q = p"
    using o(2) by (auto simp: secure_database_path_def result_simps ok_or_def split: option.splits if_splits)
  have "verify_owner_only_directory sys fs3 d = Inr ()" "sys_exists sys fs d \<longrightarrow> fs3 = fs"
    using d(2) by (auto simp: secure_parent_def result_simps split: if_splits)
  with owned [of fs3 DirectoryPath d] owned [of fs' RegularPath q] o d show ?thesis
    unfolding verify_owner_only_directory_def verify_owner_only_file_def
    by (simp add: relay_new_def) blast
qed

text \<open>A system on which the directory is there and the file is created.\<close>

definition sample_path :: file_path where
  "sample_path = \<lparr>fp_absolute = True, fp_components = [''d'', ''f'']\<rparr>"

definition sample_system :: "bool file_system" where
  "sample_system = \<lparr>sys_status = (\<lambda>created p. if fp_components p = [''d''] then Some \<lparr>ps_kind = DirectoryPath, ps_uid = 5, ps_mode = 448\<rparr>
       else if created then Some \<lparr>ps_kind = RegularPath, ps_uid = 5, ps_mode = 384\<rparr> else None),
     sys_not_found = (\<lambda>created _. \<not> created), sys_exists = (\<lambda>created p. created \<or> fp_components p = [''d'']),
     sys_current_dir = (\<lambda>_. None), sys_create_dir_all = (\<lambda>_ _. None), sys_set_mode = (\<lambda>_ _ _. None),
     sys_create_new = (\<lambda>_ _ _. Some True), sys_euid = 5\<rparr>"

theorem relay_files_private_witness:
  "\<exists>s. relay_open sample_system (\<lambda>_ f. Some (f, [], [])) sample_texts 0 ''k'' sample_path False = Inr (True, sample_path, s) \<and>
     is_owner_only 384 \<and> rs_secret s = ''k''"
proof -
  have modes: "is_owner_only 448" "is_owner_only 384" by (simp_all add: is_owner_only_def)
  then have "\<exists>s. relay_open sample_system (\<lambda>_ f. Some (f, [], [])) sample_texts 0 ''k'' sample_path False = Inr (True, sample_path, s)"
    by (simp add: relay_open_def secure_database_path_def secure_parent_def verify_owner_only_directory_def
      verify_owner_only_file_def owned_privately_def sample_system_def sample_path_def parent_path_def ok_or_def ensure_def)
  with relay_files_private [where p = sample_path and q = sample_path] modes show ?thesis by metis
qed

end
