(* ===== verification/GitHub_Wire.thy ===== *)
theory GitHub_Wire
  imports GitHub_Model Json_Decode
begin

text \<open>
  What GitHub's API answers, as \<open>crates/patchwright-engine/src/github.rs\<close> decodes it (the \<open>Wire\<close>
  structures), and how a row becomes an entry of the snapshot.
\<close>

section \<open>Rows\<close>

record wire_repository_identity =
  wri_full_name :: string
  wri_fork :: bool

record wire_ref =
  wr_sha :: string
  wr_ref_name :: string
  wr_repo :: "wire_repository_identity option"

record wire_item =
  wt_id :: u64
  wt_number :: u64
  wt_title :: string
  wt_state :: string
  wt_state_reason :: "string option"
  wt_body :: "string option"
  wt_user :: string
  wt_html_url :: string
  wt_draft :: bool
  wt_comments :: u64
  wt_created_at :: "string option"
  wt_updated_at :: string
  wt_pull_request :: "json option"
  wt_labels :: "string list"
  wt_assignees :: "string list"
  wt_milestone :: "string option"

record wire_pull =
  wp_item :: wire_item
  wp_head :: wire_ref
  wp_base :: wire_ref
  wp_draft :: bool
  wp_maintainer_can_modify :: bool
  wp_mergeable :: "bool option"
  wp_mergeable_state :: "string option"
  wp_rebaseable :: "bool option"
  wp_merged :: "bool option"
  wp_merge_commit_sha :: "string option"
  wp_additions :: u64
  wp_deletions :: u64
  wp_changed_files :: u64

record enriched_pull =
  en_pull :: wire_pull
  en_head_committed_at :: "string option"

record wire_commit =
  wc_sha :: string
  wc_committer_date :: string

record wire_comment =
  wk_id :: u64
  wk_body :: "string option"
  wk_user :: string
  wk_html_url :: string
  wk_issue_url :: string
  wk_updated_at :: "string option"

record wire_review_comment =
  wq_id :: u64
  wq_body :: "string option"
  wq_user :: string
  wq_html_url :: string
  wq_pull_request_url :: string
  wq_path :: "string option"
  wq_line :: "u64 option"
  wq_updated_at :: "string option"

record wire_review =
  wv_id :: u64
  wv_body :: "string option"
  wv_user :: string
  wv_html_url :: string
  wv_state :: string
  wv_submitted_at :: "string option"

record wire_check_run =
  wn_id :: u64
  wn_name :: string
  wn_status :: string
  wn_conclusion :: "string option"
  wn_html_url :: "string option"

section \<open>Decoding\<close>

text \<open>A struct of one text: \<open>User\<close>, \<open>WireLabel\<close>, \<open>WireMilestone\<close>.\<close>

definition named_text :: "string \<Rightarrow> json \<Rightarrow> string option" where
  "named_text k v = Option.bind (object_members v) (required_field as_str k)"

definition decode_repository_identity :: "json \<Rightarrow> wire_repository_identity option" where
  "decode_repository_identity v =
     Option.bind (object_members v) (\<lambda>ms.
     Option.bind (required_field as_str ''full_name'' ms) (\<lambda>full_name.
     Option.bind (defaulted_field False as_bool ''fork'' ms) (\<lambda>fork.
     Some \<lparr>wri_full_name = full_name, wri_fork = fork\<rparr>)))"

definition decode_ref :: "json \<Rightarrow> wire_ref option" where
  "decode_ref v =
     Option.bind (object_members v) (\<lambda>ms.
     Option.bind (required_field as_str ''sha'' ms) (\<lambda>sha.
     Option.bind (required_field as_str ''ref'' ms) (\<lambda>ref_name.
     Option.bind (optional_field decode_repository_identity ''repo'' ms) (\<lambda>repo.
     Some \<lparr>wr_sha = sha, wr_ref_name = ref_name, wr_repo = repo\<rparr>))))"

definition item_of_members :: "(string \<times> json) list \<Rightarrow> wire_item option" where
  "item_of_members ms =
     Option.bind (required_field as_u64 ''id'' ms) (\<lambda>i.
     Option.bind (required_field as_u64 ''number'' ms) (\<lambda>number.
     Option.bind (required_field as_str ''title'' ms) (\<lambda>title.
     Option.bind (required_field as_str ''state'' ms) (\<lambda>state.
     Option.bind (optional_field as_str ''state_reason'' ms) (\<lambda>state_reason.
     Option.bind (optional_field as_str ''body'' ms) (\<lambda>body.
     Option.bind (required_field (named_text ''login'') ''user'' ms) (\<lambda>user.
     Option.bind (required_field as_str ''html_url'' ms) (\<lambda>html_url.
     Option.bind (defaulted_field False as_bool ''draft'' ms) (\<lambda>draft.
     Option.bind (defaulted_field 0 as_u64 ''comments'' ms) (\<lambda>comments.
     Option.bind (optional_field as_str ''created_at'' ms) (\<lambda>created_at.
     Option.bind (required_field as_str ''updated_at'' ms) (\<lambda>updated_at.
     Option.bind (optional_field Some ''pull_request'' ms) (\<lambda>pull_request.
     Option.bind (defaulted_field [] (decode_list (named_text ''name'')) ''labels'' ms) (\<lambda>labels.
     Option.bind (defaulted_field [] (decode_list (named_text ''login'')) ''assignees'' ms) (\<lambda>assignees.
     Option.bind (optional_field (named_text ''title'') ''milestone'' ms) (\<lambda>milestone.
     Some \<lparr>wt_id = i, wt_number = number, wt_title = title, wt_state = state, wt_state_reason = state_reason,
       wt_body = body, wt_user = user, wt_html_url = html_url, wt_draft = draft, wt_comments = comments,
       wt_created_at = created_at, wt_updated_at = updated_at, wt_pull_request = pull_request,
       wt_labels = labels, wt_assignees = assignees, wt_milestone = milestone\<rparr>))))))))))))))))"

definition decode_item :: "json \<Rightarrow> wire_item option" where
  "decode_item v = Option.bind (object_members v) item_of_members"

text \<open>A flattened item sees the members that the pull request itself does not name.\<close>

definition pull_fields :: "string list" where
  "pull_fields = [''head'', ''base'', ''draft'', ''maintainer_can_modify'', ''mergeable'', ''mergeable_state'',
     ''rebaseable'', ''merged'', ''merge_commit_sha'', ''additions'', ''deletions'', ''changed_files'']"

definition decode_pull :: "json \<Rightarrow> wire_pull option" where
  "decode_pull v =
     Option.bind (object_members v) (\<lambda>ms.
     Option.bind (item_of_members (filter (\<lambda>(k, _). k \<notin> set pull_fields) ms)) (\<lambda>item.
     Option.bind (required_field decode_ref ''head'' ms) (\<lambda>head.
     Option.bind (required_field decode_ref ''base'' ms) (\<lambda>base.
     Option.bind (defaulted_field False as_bool ''draft'' ms) (\<lambda>draft.
     Option.bind (defaulted_field False as_bool ''maintainer_can_modify'' ms) (\<lambda>modify.
     Option.bind (optional_field as_bool ''mergeable'' ms) (\<lambda>mergeable.
     Option.bind (optional_field as_str ''mergeable_state'' ms) (\<lambda>mergeable_state.
     Option.bind (optional_field as_bool ''rebaseable'' ms) (\<lambda>rebaseable.
     Option.bind (optional_field as_bool ''merged'' ms) (\<lambda>merged.
     Option.bind (optional_field as_str ''merge_commit_sha'' ms) (\<lambda>merge_commit_sha.
     Option.bind (defaulted_field 0 as_u64 ''additions'' ms) (\<lambda>additions.
     Option.bind (defaulted_field 0 as_u64 ''deletions'' ms) (\<lambda>deletions.
     Option.bind (defaulted_field 0 as_u64 ''changed_files'' ms) (\<lambda>changed_files.
     Some \<lparr>wp_item = item, wp_head = head, wp_base = base, wp_draft = draft, wp_maintainer_can_modify = modify,
       wp_mergeable = mergeable, wp_mergeable_state = mergeable_state, wp_rebaseable = rebaseable,
       wp_merged = merged, wp_merge_commit_sha = merge_commit_sha, wp_additions = additions,
       wp_deletions = deletions, wp_changed_files = changed_files\<rparr>))))))))))))))"

definition decode_commit :: "json \<Rightarrow> wire_commit option" where
  "decode_commit v =
     Option.bind (object_members v) (\<lambda>ms.
     Option.bind (required_field as_str ''sha'' ms) (\<lambda>sha.
     Option.bind (required_field object_members ''commit'' ms) (\<lambda>commit.
     Option.bind (required_field (named_text ''date'') ''committer'' commit) (\<lambda>date.
     Some \<lparr>wc_sha = sha, wc_committer_date = date\<rparr>))))"

definition decode_comment :: "json \<Rightarrow> wire_comment option" where
  "decode_comment v =
     Option.bind (object_members v) (\<lambda>ms.
     Option.bind (required_field as_u64 ''id'' ms) (\<lambda>i.
     Option.bind (optional_field as_str ''body'' ms) (\<lambda>body.
     Option.bind (required_field (named_text ''login'') ''user'' ms) (\<lambda>user.
     Option.bind (required_field as_str ''html_url'' ms) (\<lambda>html_url.
     Option.bind (required_field as_str ''issue_url'' ms) (\<lambda>issue_url.
     Option.bind (optional_field as_str ''updated_at'' ms) (\<lambda>updated_at.
     Some \<lparr>wk_id = i, wk_body = body, wk_user = user, wk_html_url = html_url, wk_issue_url = issue_url,
       wk_updated_at = updated_at\<rparr>)))))))"

definition decode_review_comment :: "json \<Rightarrow> wire_review_comment option" where
  "decode_review_comment v =
     Option.bind (object_members v) (\<lambda>ms.
     Option.bind (required_field as_u64 ''id'' ms) (\<lambda>i.
     Option.bind (optional_field as_str ''body'' ms) (\<lambda>body.
     Option.bind (required_field (named_text ''login'') ''user'' ms) (\<lambda>user.
     Option.bind (required_field as_str ''html_url'' ms) (\<lambda>html_url.
     Option.bind (required_field as_str ''pull_request_url'' ms) (\<lambda>pull_request_url.
     Option.bind (optional_field as_str ''path'' ms) (\<lambda>path.
     Option.bind (optional_field as_u64 ''line'' ms) (\<lambda>line.
     Option.bind (optional_field as_str ''updated_at'' ms) (\<lambda>updated_at.
     Some \<lparr>wq_id = i, wq_body = body, wq_user = user, wq_html_url = html_url,
       wq_pull_request_url = pull_request_url, wq_path = path, wq_line = line, wq_updated_at = updated_at\<rparr>)))))))))"

definition decode_review :: "json \<Rightarrow> wire_review option" where
  "decode_review v =
     Option.bind (object_members v) (\<lambda>ms.
     Option.bind (required_field as_u64 ''id'' ms) (\<lambda>i.
     Option.bind (optional_field as_str ''body'' ms) (\<lambda>body.
     Option.bind (required_field (named_text ''login'') ''user'' ms) (\<lambda>user.
     Option.bind (required_field as_str ''html_url'' ms) (\<lambda>html_url.
     Option.bind (required_field as_str ''state'' ms) (\<lambda>state.
     Option.bind (optional_field as_str ''submitted_at'' ms) (\<lambda>submitted_at.
     Some \<lparr>wv_id = i, wv_body = body, wv_user = user, wv_html_url = html_url, wv_state = state,
       wv_submitted_at = submitted_at\<rparr>)))))))"

definition decode_check_run :: "json \<Rightarrow> wire_check_run option" where
  "decode_check_run v =
     Option.bind (object_members v) (\<lambda>ms.
     Option.bind (required_field as_u64 ''id'' ms) (\<lambda>i.
     Option.bind (required_field as_str ''name'' ms) (\<lambda>name.
     Option.bind (required_field as_str ''status'' ms) (\<lambda>status.
     Option.bind (optional_field as_str ''conclusion'' ms) (\<lambda>conclusion.
     Option.bind (optional_field as_str ''html_url'' ms) (\<lambda>html_url.
     Some \<lparr>wn_id = i, wn_name = name, wn_status = status, wn_conclusion = conclusion, wn_html_url = html_url\<rparr>))))))"

definition decode_workflow_run :: "json \<Rightarrow> github_workflow_run option" where
  "decode_workflow_run v =
     Option.bind (Option.bind (object_members v) (aliased ''headSha'' ''head_sha'')) (\<lambda>ms.
     Option.bind (Option.bind (aliased ''htmlUrl'' ''html_url'' ms) (aliased ''updatedAt'' ''updated_at'')) (\<lambda>ms.
     Option.bind (required_field as_u64 ''id'' ms) (\<lambda>i.
     Option.bind (optional_field as_str ''name'' ms) (\<lambda>name.
     Option.bind (optional_field as_str ''status'' ms) (\<lambda>status.
     Option.bind (optional_field as_str ''conclusion'' ms) (\<lambda>conclusion.
     Option.bind (required_field as_str ''event'' ms) (\<lambda>event.
     Option.bind (required_field as_str ''headSha'' ms) (\<lambda>head_sha.
     Option.bind (required_field as_str ''htmlUrl'' ms) (\<lambda>html_url.
     Option.bind (required_field as_str ''updatedAt'' ms) (\<lambda>updated_at.
     Some \<lparr>gw_id = i, gw_name = name, gw_status = status, gw_conclusion = conclusion, gw_event = event,
       gw_head_sha = head_sha, gw_html_url = html_url, gw_updated_at = updated_at\<rparr>))))))))))"

definition decode_account :: "json \<Rightarrow> github_account option" where
  "decode_account v =
     Option.bind (Option.bind (object_members v) (aliased ''avatarUrl'' ''avatar_url'')) (\<lambda>ms.
     Option.bind (aliased ''htmlUrl'' ''html_url'' ms) (\<lambda>ms.
     Option.bind (required_field as_str ''login'' ms) (\<lambda>login.
     Option.bind (required_field as_str ''avatarUrl'' ms) (\<lambda>avatar_url.
     Option.bind (required_field as_str ''htmlUrl'' ms) (\<lambda>html_url.
     Some \<lparr>ga_login = login, ga_avatar_url = avatar_url, ga_html_url = html_url\<rparr>)))))"

definition decode_permission :: "json \<Rightarrow> github_permission option" where
  "decode_permission v = map_option (\<lambda>b. if b then PermissionGranted else PermissionDenied) (as_bool v)"

definition no_permissions :: github_repository_permissions where
  "no_permissions = \<lparr>gp_admin = PermissionDenied, gp_maintain = PermissionDenied, gp_push = PermissionDenied,
     gp_triage = PermissionDenied, gp_pull = PermissionDenied\<rparr>"

definition decode_permissions :: "json \<Rightarrow> github_repository_permissions option" where
  "decode_permissions v =
     Option.bind (object_members v) (\<lambda>ms. let permission = (\<lambda>k. defaulted_field PermissionDenied decode_permission k ms) in
     Option.bind (permission ''admin'') (\<lambda>admin.
     Option.bind (permission ''maintain'') (\<lambda>maintain.
     Option.bind (permission ''push'') (\<lambda>push.
     Option.bind (permission ''triage'') (\<lambda>triage.
     Option.bind (permission ''pull'') (\<lambda>pull.
     Some \<lparr>gp_admin = admin, gp_maintain = maintain, gp_push = push, gp_triage = triage, gp_pull = pull\<rparr>))))))"

definition repository_aliases :: "(string \<times> json) list \<Rightarrow> (string \<times> json) list option" where
  "repository_aliases ms = fold (\<lambda>(k, alias) r. Option.bind r (aliased k alias))
     [(''fullName'', ''full_name''), (''defaultBranch'', ''default_branch''), (''htmlUrl'', ''html_url''),
      (''updatedAt'', ''updated_at''), (''pushedAt'', ''pushed_at''), (''openIssuesCount'', ''open_issues_count''),
      (''installationId'', ''installation_id'')] (Some ms)"

definition decode_repository :: "json \<Rightarrow> github_repository option" where
  "decode_repository v =
     Option.bind (Option.bind (object_members v) repository_aliases) (\<lambda>ms.
     Option.bind (required_field as_u64 ''id'' ms) (\<lambda>i.
     Option.bind (required_field as_str ''fullName'' ms) (\<lambda>full_name.
     Option.bind (optional_field as_str ''description'' ms) (\<lambda>description.
     Option.bind (required_field as_bool ''private'' ms) (\<lambda>priv.
     Option.bind (required_field as_bool ''archived'' ms) (\<lambda>archived.
     Option.bind (required_field as_str ''defaultBranch'' ms) (\<lambda>default_branch.
     Option.bind (required_field as_str ''htmlUrl'' ms) (\<lambda>html_url.
     Option.bind (required_field as_str ''updatedAt'' ms) (\<lambda>updated_at.
     Option.bind (optional_field as_str ''pushedAt'' ms) (\<lambda>pushed_at.
     Option.bind (required_field as_u64 ''openIssuesCount'' ms) (\<lambda>issues.
     Option.bind (defaulted_field 0 as_u64 ''openPullRequestCount'' ms) (\<lambda>pulls.
     Option.bind (defaulted_field 0 as_u64 ''failingCheckCount'' ms) (\<lambda>failing.
     Option.bind (optional_field as_str ''defaultBranchSha'' ms) (\<lambda>branch_sha.
     Option.bind (optional_field as_str ''defaultBranchCommittedAt'' ms) (\<lambda>committed_at.
     Option.bind (optional_field as_u64 ''installationId'' ms) (\<lambda>installation_id.
     Option.bind (defaulted_field no_permissions decode_permissions ''permissions'' ms) (\<lambda>permissions.
     Some \<lparr>gr_id = i, gr_full_name = full_name, gr_description = description, gr_private = priv,
       gr_archived = archived, gr_default_branch = default_branch, gr_html_url = html_url, gr_updated_at = updated_at,
       gr_pushed_at = pushed_at, gr_open_issues_count = issues, gr_open_pull_request_count = pulls,
       gr_failing_check_count = failing, gr_default_branch_sha = branch_sha,
       gr_default_branch_committed_at = committed_at, gr_installation_id = installation_id,
       gr_permissions = permissions\<rparr>)))))))))))))))))"

end
