(* ===== verification/GitHub_Client.thy ===== *)
theory GitHub_Client
  imports GitHub_Wire Http
begin

text \<open>
  The read client of \<open>crates/patchwright-engine/src/github.rs\<close> (\<open>GitHubSource\<close>). An operation is given
  its share of the network, \<open>net n rq\<close>: the reply to its \<open>n\<close>-th request. Its value lists the requests it
  made, which carry the token, and the result, which is \<open>None\<close> while the fuel of a pagination is not
  enough. The loops of the source have no bound of their own: \<open>Source_Properties\<close> says when they end.
\<close>

section \<open>The client\<close>

datatype source_error =
    InvalidApiUrl | MissingOwner | InvalidFullName | DifferentIdentity | BuildUrl | RequestFailed
  | ApiReturned nat | DecodeFailed | OmittedField string | GraphqlFailed | ThreadsIncomplete
  | ThreadNodesMissing | CursorMissing | ThreadPathInvalid

text \<open>The functions of \<open>Url\<close>: parsing, joining and the comparison of origins.\<close>

record url_functions =
  uf_parse :: "string \<Rightarrow> bool"
  uf_join :: "string \<Rightarrow> string \<Rightarrow> string option"
  uf_same_origin :: "string \<Rightarrow> string \<Rightarrow> bool"

record github_source =
  so_urls :: url_functions
  so_base_url :: string
  so_token :: string

definition source_new :: "url_functions \<Rightarrow> string \<Rightarrow> string \<Rightarrow> source_error + github_source" where
  "source_new urls base_url token =
     and_then (ensure (uf_parse urls base_url) InvalidApiUrl) (\<lambda>_.
     Inr \<lparr>so_urls = urls, so_base_url = base_url, so_token = token\<rparr>)"

datatype source_reply =
    NoReply
  | SourceReply (sr_status: nat) (sr_link: "string option") (sr_body: "json option")

type_synonym network = "nat \<Rightarrow> http_request \<Rightarrow> source_reply"

type_synonym 'a fetched = "http_request list \<times> (source_error + 'a) option"

definition fetch_then :: "'a fetched \<Rightarrow> ('a \<Rightarrow> 'b fetched) \<Rightarrow> 'b fetched" where
  "fetch_then r f = (case r of
       (ts, None) \<Rightarrow> (ts, None)
     | (ts, Some (Inl e)) \<Rightarrow> (ts, Some (Inl e))
     | (ts, Some (Inr a)) \<Rightarrow> (ts @ fst (f a), snd (f a)))"

definition fetch_done :: "source_error + 'a \<Rightarrow> 'a fetched" where
  "fetch_done r = ([], Some r)"

definition source_request :: "github_source \<Rightarrow> http_method \<Rightarrow> string \<Rightarrow> json option \<Rightarrow> http_request" where
  "source_request src m url body = \<lparr>rq_method = m, rq_url = url, rq_bearer = so_token src, rq_body = body\<rparr>"

definition reply_body :: "source_reply \<Rightarrow> source_error + json" where
  "reply_body r = (case r of NoReply \<Rightarrow> Inl RequestFailed
     | SourceReply status _ body \<Rightarrow>
         if \<not> is_success status then Inl (ApiReturned status) else ok_or body DecodeFailed)"

definition source_get :: "github_source \<Rightarrow> (http_request \<Rightarrow> source_reply) \<Rightarrow> (json \<Rightarrow> 'a option) \<Rightarrow> string \<Rightarrow> 'a fetched" where
  "source_get src ask decode path = (case uf_join (so_urls src) (so_base_url src) path of
       None \<Rightarrow> fetch_done (Inl BuildUrl)
     | Some url \<Rightarrow> (let rq = source_request src GET url None in
         ([rq], Some (and_then (reply_body (ask rq)) (\<lambda>v. ok_or (decode v) DecodeFailed)))))"

definition source_graphql :: "github_source \<Rightarrow> (http_request \<Rightarrow> source_reply) \<Rightarrow> json \<Rightarrow> json fetched" where
  "source_graphql src ask body = (case uf_join (so_urls src) (so_base_url src) ''/graphql'' of
       None \<Rightarrow> fetch_done (Inl BuildUrl)
     | Some url \<Rightarrow> (let rq = source_request src POST url (Some body) in ([rq], Some (reply_body (ask rq)))))"

section \<open>Pagination\<close>

definition same_origin_url :: "github_source \<Rightarrow> string \<Rightarrow> string option" where
  "same_origin_url src v = filter_option (uf_same_origin (so_urls src) (so_base_url src))
     (uf_join (so_urls src) (so_base_url src) v)"

definition next_url :: "github_source \<Rightarrow> source_reply \<Rightarrow> string option" where
  "next_url src r = (case r of NoReply \<Rightarrow> None
     | SourceReply _ link _ \<Rightarrow> Option.bind (Option.bind link next_link) (same_origin_url src))"

text \<open>The rows of a page: the body itself, or one field of it.\<close>

definition page_rows :: "(json \<Rightarrow> 'a option) \<Rightarrow> string option \<Rightarrow> json \<Rightarrow> source_error + 'a list" where
  "page_rows decode field v = (case field of
       None \<Rightarrow> ok_or (decode_list decode v) DecodeFailed
     | Some k \<Rightarrow>
         and_then (ok_or (object_members v) DecodeFailed) (\<lambda>ms.
         and_then (ok_or (map_of ms k) (OmittedField k)) (\<lambda>page.
         ok_or (decode_list decode page) DecodeFailed)))"

fun paginate :: "github_source \<Rightarrow> network \<Rightarrow> (json \<Rightarrow> source_error + 'a list) \<Rightarrow> nat \<Rightarrow> nat \<Rightarrow> nat \<Rightarrow> string \<Rightarrow>
    'a list \<Rightarrow> 'a list fetched" where
  "paginate src net rows limit 0 n url values = ([], None)"
| "paginate src net rows limit (Suc fuel) n url values =
     (let rq = source_request src GET url None; r = net n rq in
      case and_then (reply_body r) rows of
        Inl e \<Rightarrow> ([rq], Some (Inl e))
      | Inr page \<Rightarrow>
          if limit \<le> length (values @ page) then ([rq], Some (Inr (take limit (values @ page))))
          else (case next_url src r of
              None \<Rightarrow> ([rq], Some (Inr (values @ page)))
            | Some url' \<Rightarrow> (let rest = paginate src net rows limit fuel (n + 1) url' (values @ page) in
                (rq # fst rest, snd rest))))"

definition paginated_rows :: "github_source \<Rightarrow> network \<Rightarrow> nat \<Rightarrow> (json \<Rightarrow> source_error + 'a list) \<Rightarrow> string \<Rightarrow> nat \<Rightarrow>
    'a list fetched" where
  "paginated_rows src net fuel rows path limit = (case uf_join (so_urls src) (so_base_url src) path of
       None \<Rightarrow> fetch_done (Inl BuildUrl)
     | Some url \<Rightarrow> paginate src net rows limit fuel 0 url [])"

definition paginated :: "github_source \<Rightarrow> network \<Rightarrow> nat \<Rightarrow> (json \<Rightarrow> 'a option) \<Rightarrow> string \<Rightarrow> nat \<Rightarrow> 'a list fetched" where
  "paginated src net fuel decode path limit = paginated_rows src net fuel (page_rows decode None) path limit"

definition paginated_field :: "github_source \<Rightarrow> network \<Rightarrow> nat \<Rightarrow> (json \<Rightarrow> 'a option) \<Rightarrow> string \<Rightarrow> string \<Rightarrow> nat \<Rightarrow>
    'a list fetched" where
  "paginated_field src net fuel decode path field limit = paginated_rows src net fuel (page_rows decode (Some field)) path limit"

definition source_account :: "github_source \<Rightarrow> network \<Rightarrow> github_account fetched" where
  "source_account src net = source_get src (net 0) decode_account ''/user''"

definition source_repositories :: "github_source \<Rightarrow> network \<Rightarrow> nat \<Rightarrow> nat \<Rightarrow> github_repository list fetched" where
  "source_repositories src net fuel limit = paginated src net fuel decode_repository
     ''/user/repos?affiliation=owner,collaborator,organization_member&sort=updated&direction=desc&per_page=100'' limit"

definition source_repository :: "github_source \<Rightarrow> network \<Rightarrow> string \<Rightarrow> github_repository fetched" where
  "source_repository src net full_name = (case split_once CHR ''/'' full_name of
       None \<Rightarrow> fetch_done (Inl MissingOwner)
     | Some (owner, name) \<Rightarrow>
         if owner = [] \<or> name = [] \<or> CHR ''/'' \<in> set name then fetch_done (Inl InvalidFullName)
         else fetch_then (source_get src (net 0) decode_repository
             (''/repos/'' @ encode_path_segment owner @ ''/'' @ encode_path_segment name)) (\<lambda>repository.
           fetch_done (if gr_full_name repository = full_name then Inr repository else Inl DifferentIdentity)))"

section \<open>Review threads\<close>

definition threads_query :: string where
  "threads_query = ''query PatchwrightReviewThreads($owner: String!, $name: String!, $number: Int!, $after: String) { repository(owner: $owner, name: $name) { pullRequest(number: $number) { reviewThreads(first: 100, after: $after) { nodes { id isResolved isOutdated viewerCanResolve path line comments(first: 1) { nodes { databaseId body author { login } url updatedAt } } } pageInfo { hasNextPage endCursor } } } } }''"

definition threads_body :: "string \<Rightarrow> string \<Rightarrow> u64 \<Rightarrow> string option \<Rightarrow> json" where
  "threads_body owner name number after = JObject [(''query'', JString threads_query),
     (''variables'', JObject [(''owner'', JString owner), (''name'', JString name),
       (''number'', JNumber (PosInt number)), (''after'', case after of None \<Rightarrow> JNull | Some c \<Rightarrow> JString c)])]"

text \<open>\<open>/comments/nodes/0\<close>\<close>

definition first_comment :: "json \<Rightarrow> json option" where
  "first_comment node = Option.bind (pointer [''comments'', ''nodes''] node)
     (\<lambda>v. case v of JArray (c # _) \<Rightarrow> Some c | JObject ms \<Rightarrow> map_of ms ''0'' | _ \<Rightarrow> None)"

definition thread_of_node :: "u64 \<Rightarrow> json \<Rightarrow> github_discussion option" where
  "thread_of_node number node =
     Option.bind (first_comment node) (\<lambda>comment.
     Option.bind (u64_at [''databaseId''] comment) (\<lambda>i.
     Some \<lparr>gd_id = i, gd_item_number = number, gd_kind = ''reviewThread'',
       gd_author = (case str_at [''author'', ''login''] comment of Some a \<Rightarrow> a | None \<Rightarrow> ''ghost''),
       gd_body = str_at [''body''] comment,
       gd_state = Some (if bool_at [''isResolved''] node = Some True then ''resolved'' else ''unresolved''),
       gd_path = str_at [''path''] node, gd_line = u64_at [''line''] node,
       gd_html_url = (case str_at [''url''] comment of Some u \<Rightarrow> u | None \<Rightarrow> []),
       gd_updated_at = str_at [''updatedAt''] comment, gd_thread_node_id = str_at [''id''] node,
       gd_thread_resolved = bool_at [''isResolved''] node, gd_thread_outdated = bool_at [''isOutdated''] node,
       gd_viewer_can_resolve = bool_at [''viewerCanResolve''] node\<rparr>))"

text \<open>The nodes of a page, until the limit is reached: whether it was, and the threads so far.\<close>

fun add_threads :: "u64 \<Rightarrow> nat \<Rightarrow> json list \<Rightarrow> github_discussion list \<Rightarrow> bool \<times> github_discussion list" where
  "add_threads number limit [] acc = (False, acc)"
| "add_threads number limit (node # nodes) acc = (case thread_of_node number node of
       None \<Rightarrow> add_threads number limit nodes acc
     | Some d \<Rightarrow> if limit \<le> length acc + 1 then (True, acc @ [d]) else add_threads number limit nodes (acc @ [d]))"

definition threads_page :: "json \<Rightarrow> source_error + json \<times> json list" where
  "threads_page response =
     and_then (ensure (json_get ''errors'' response = None) GraphqlFailed) (\<lambda>_.
     and_then (ok_or (pointer [''data'', ''repository'', ''pullRequest'', ''reviewThreads''] response) ThreadsIncomplete) (\<lambda>c.
     and_then (ok_or (Option.bind (json_get ''nodes'' c) as_array) ThreadNodesMissing) (\<lambda>nodes.
     Inr (c, nodes))))"

fun threads_loop :: "github_source \<Rightarrow> network \<Rightarrow> string \<Rightarrow> string \<Rightarrow> u64 \<Rightarrow> nat \<Rightarrow> nat \<Rightarrow> nat \<Rightarrow> string option \<Rightarrow>
    github_discussion list \<Rightarrow> github_discussion list fetched" where
  "threads_loop src net owner name number limit 0 n after acc = ([], None)"
| "threads_loop src net owner name number limit (Suc fuel) n after acc =
     fetch_then (source_graphql src (net n) (threads_body owner name number after)) (\<lambda>response.
     case threads_page response of
       Inl e \<Rightarrow> fetch_done (Inl e)
     | Inr (c, nodes) \<Rightarrow> (case add_threads number limit nodes acc of
           (True, acc) \<Rightarrow> fetch_done (Inr acc)
         | (False, acc) \<Rightarrow>
             if bool_at [''pageInfo'', ''hasNextPage''] c \<noteq> Some True then fetch_done (Inr acc)
             else (case str_at [''pageInfo'', ''endCursor''] c of
                 None \<Rightarrow> fetch_done (Inl CursorMissing)
               | Some cursor \<Rightarrow> threads_loop src net owner name number limit fuel (n + 1) (Some cursor) acc)))"

definition review_threads_for_pull :: "github_source \<Rightarrow> network \<Rightarrow> nat \<Rightarrow> string \<Rightarrow> string \<Rightarrow> u64 \<Rightarrow> nat \<Rightarrow>
    github_discussion list fetched" where
  "review_threads_for_pull src net fuel owner name number limit =
     threads_loop src net owner name number limit fuel 0 None []"

end
