(* ===== verification/GitHub_Snapshot.thy ===== *)
theory GitHub_Snapshot
  imports GitHub_Client
begin

text \<open>
  \<open>GitHubSource::repository_snapshot\<close> of \<open>crates/patchwright-engine/src/github.rs\<close>: the rows of a
  repository are fetched, pull requests are completed, and everything is condensed into one snapshot. The
  concurrent fetches of a phase are joined in the order in which they end (\<open>sw_order phase n\<close> for its \<open>n\<close> jobs), and each has its
  own share of the network (\<open>sw_net\<close>); the requests of a phase are listed for all its fetches, even when
  one of them fails first.
\<close>

section \<open>Entries of the snapshot\<close>

definition issue_of_wire :: "wire_item \<Rightarrow> string \<Rightarrow> work_item_kind \<Rightarrow> github_work_item" where
  "issue_of_wire w repository kind = \<lparr>wi_id = wt_id w, wi_repository_full_name = repository,
     wi_number = wt_number w, wi_kind = kind, wi_title = wt_title w, wi_state = wt_state w,
     wi_state_reason = wt_state_reason w, wi_body = wt_body w, wi_author = wt_user w, wi_html_url = wt_html_url w,
     wi_draft = wt_draft w, wi_comments_count = wt_comments w, wi_base_ref = None, wi_base_sha = None,
     wi_head_ref = None, wi_head_sha = None, wi_merged = None, wi_merge_commit_sha = None,
     wi_created_at = wt_created_at w, wi_head_committed_at = None, wi_latest_review_at = None,
     wi_updated_at = wt_updated_at w, wi_review_decision = None, wi_ci_health = None, wi_mergeable = None,
     wi_mergeable_state = None, wi_rebaseable = None, wi_has_conflicts = None,
     wi_head_repository_full_name = None, wi_head_repository_fork = False, wi_maintainer_can_modify = False,
     wi_additions = 0, wi_deletions = 0, wi_changed_files = 0, wi_labels = wt_labels w,
     wi_assignees = wt_assignees w, wi_milestone = wt_milestone w\<rparr>"

definition item_of_pull :: "enriched_pull \<Rightarrow> string \<Rightarrow> string option \<Rightarrow> string option \<Rightarrow> string \<Rightarrow> github_work_item" where
  "item_of_pull e repository latest decision health = (let p = en_pull e; w = wp_item p in
     \<lparr>wi_id = wt_id w, wi_repository_full_name = repository,
     wi_number = wt_number w, wi_kind = PullRequestItem, wi_title = wt_title w, wi_state = wt_state w,
     wi_state_reason = wt_state_reason w, wi_body = wt_body w, wi_author = wt_user w, wi_html_url = wt_html_url w,
     wi_draft = wp_draft p, wi_comments_count = wt_comments w, wi_base_ref = Some (wr_ref_name (wp_base p)),
     wi_base_sha = Some (wr_sha (wp_base p)), wi_head_ref = Some (wr_ref_name (wp_head p)),
     wi_head_sha = Some (wr_sha (wp_head p)), wi_merged = wp_merged p,
     wi_merge_commit_sha = wp_merge_commit_sha p, wi_created_at = wt_created_at w,
     wi_head_committed_at = en_head_committed_at e, wi_latest_review_at = latest,
     wi_updated_at = wt_updated_at w, wi_review_decision = decision, wi_ci_health = Some health,
     wi_mergeable = wp_mergeable p, wi_mergeable_state = wp_mergeable_state p, wi_rebaseable = wp_rebaseable p,
     wi_has_conflicts = map_option (\<lambda>m. \<not> m \<and> wp_mergeable_state p = Some ''dirty'') (wp_mergeable p),
     wi_head_repository_full_name = map_option wri_full_name (wr_repo (wp_head p)),
     wi_head_repository_fork = (case wr_repo (wp_head p) of None \<Rightarrow> False | Some r \<Rightarrow> wri_fork r),
     wi_maintainer_can_modify = wp_maintainer_can_modify p, wi_additions = wp_additions p,
     wi_deletions = wp_deletions p, wi_changed_files = wp_changed_files p, wi_labels = wt_labels w,
     wi_assignees = wt_assignees w, wi_milestone = wt_milestone w\<rparr>)"

text \<open>The number at the end of a URL (\<open>rsplit('/').next()?.parse().ok()?\<close>).\<close>

definition trailing_number :: "string \<Rightarrow> u64 option" where
  "trailing_number url = parse_u64 (last (split_on CHR ''/'' url))"

definition discussion_of_comment :: "string \<Rightarrow> wire_comment \<Rightarrow> github_discussion option" where
  "discussion_of_comment kind c = map_option (\<lambda>number. \<lparr>gd_id = wk_id c, gd_item_number = number, gd_kind = kind,
     gd_author = wk_user c, gd_body = wk_body c, gd_state = None, gd_path = None, gd_line = None,
     gd_html_url = wk_html_url c, gd_updated_at = wk_updated_at c, gd_thread_node_id = None,
     gd_thread_resolved = None, gd_thread_outdated = None, gd_viewer_can_resolve = None\<rparr>)
     (trailing_number (wk_issue_url c))"

definition discussion_of_review_comment :: "wire_review_comment \<Rightarrow> github_discussion option" where
  "discussion_of_review_comment c = map_option (\<lambda>number. \<lparr>gd_id = wq_id c, gd_item_number = number,
     gd_kind = ''reviewComment'', gd_author = wq_user c, gd_body = wq_body c, gd_state = None,
     gd_path = wq_path c, gd_line = wq_line c, gd_html_url = wq_html_url c, gd_updated_at = wq_updated_at c,
     gd_thread_node_id = None, gd_thread_resolved = None, gd_thread_outdated = None,
     gd_viewer_can_resolve = None\<rparr>) (trailing_number (wq_pull_request_url c))"

definition discussion_of_review :: "u64 \<Rightarrow> wire_review \<Rightarrow> github_discussion" where
  "discussion_of_review number r = \<lparr>gd_id = wv_id r, gd_item_number = number, gd_kind = ''review'',
     gd_author = wv_user r, gd_body = wv_body r, gd_state = Some (wv_state r), gd_path = None, gd_line = None,
     gd_html_url = wv_html_url r, gd_updated_at = wv_submitted_at r, gd_thread_node_id = None,
     gd_thread_resolved = None, gd_thread_outdated = None, gd_viewer_can_resolve = None\<rparr>"

definition check_of_wire :: "u64 \<Rightarrow> wire_check_run \<Rightarrow> github_check_run" where
  "check_of_wire number r = \<lparr>gc_id = wn_id r, gc_item_number = number, gc_name = wn_name r,
     gc_status = wn_status r, gc_conclusion = wn_conclusion r, gc_html_url = wn_html_url r\<rparr>"

section \<open>Phases\<close>

datatype source_job =
    IssueRows | PullRows | DefaultCommit | PullDetail nat | IssueComments | ReviewComments
  | Reviews nat | Threads nat | PullChecks nat | WorkflowRuns

datatype source_phase = EnrichPhase | ReviewPhase | ThreadPhase | CheckPhase

record snapshot_world =
  sw_net :: "source_job \<Rightarrow> network"
  sw_order :: "source_phase \<Rightarrow> nat \<Rightarrow> nat list"

text \<open>\<open>join_next\<close> until the set is empty; the first error ends the phase.\<close>

fun join_results :: "(source_error + 'a) option list \<Rightarrow> (source_error + 'a list) option" where
  "join_results [] = Some (Inr [])"
| "join_results (None # rs) = None"
| "join_results (Some (Inl e) # rs) = Some (Inl e)"
| "join_results (Some (Inr a) # rs) = map_option (\<lambda>r. and_then r (\<lambda>as. Inr (a # as))) (join_results rs)"

definition join_jobs :: "nat list \<Rightarrow> (nat \<Rightarrow> 'a fetched) \<Rightarrow> 'a list fetched" where
  "join_jobs order job = (concat (map (fst \<circ> job) order), join_results (map (snd \<circ> job) order))"

definition pull_number :: "wire_pull \<Rightarrow> u64" where
  "pull_number p = wt_number (wp_item p)"

definition enrich_pull :: "github_source \<Rightarrow> network \<Rightarrow> string \<Rightarrow> wire_pull \<Rightarrow> enriched_pull fetched" where
  "enrich_pull src net base p =
     fetch_then (source_get src (net 0) decode_pull (base @ ''/pulls/'' @ decimal (unat (pull_number p)))) (\<lambda>detail.
     fetch_then (source_get src (net 1) decode_commit (base @ ''/commits/'' @ wr_sha (wp_head detail))) (\<lambda>commit.
     fetch_done (Inr \<lparr>en_pull = detail, en_head_committed_at = Some (wc_committer_date commit)\<rparr>)))"

definition enrich_pulls :: "github_source \<Rightarrow> snapshot_world \<Rightarrow> string \<Rightarrow> wire_pull list \<Rightarrow> enriched_pull list fetched" where
  "enrich_pulls src w base pulls =
     fetch_then (join_jobs (sw_order w EnrichPhase (length pulls)) (\<lambda>i. enrich_pull src (sw_net w (PullDetail i)) base (pulls ! i)))
       (\<lambda>es. fetch_done (Inr (sort_key (pull_number \<circ> en_pull) es)))"

definition reviews_of_pull :: "github_source \<Rightarrow> network \<Rightarrow> nat \<Rightarrow> string \<Rightarrow> nat \<Rightarrow> wire_pull \<Rightarrow> github_discussion list fetched" where
  "reviews_of_pull src net fuel base limit p =
     fetch_then (paginated src net fuel decode_review
       (base @ ''/pulls/'' @ decimal (unat (pull_number p)) @ ''/reviews?per_page=100'') limit) (\<lambda>rs.
     fetch_done (Inr (map (discussion_of_review (pull_number p)) rs)))"

definition open_pulls :: "wire_pull list \<Rightarrow> wire_pull list" where
  "open_pulls pulls = filter (\<lambda>p. wt_state (wp_item p) = ''open'') pulls"

definition review_threads :: "github_source \<Rightarrow> snapshot_world \<Rightarrow> nat \<Rightarrow> string \<Rightarrow> wire_pull list \<Rightarrow> nat \<Rightarrow>
    github_discussion list fetched" where
  "review_threads src w fuel base pulls limit =
     (case Option.bind (strip_prefix ''/repos/'' base) (split_once CHR ''/'') of
       None \<Rightarrow> fetch_done (Inl ThreadPathInvalid)
     | Some (owner, name) \<Rightarrow>
         fetch_then (join_jobs (sw_order w ThreadPhase (length (open_pulls pulls))) (\<lambda>i. review_threads_for_pull src (sw_net w (Threads i)) fuel
           owner name (pull_number (open_pulls pulls ! i)) limit)) (\<lambda>tss. fetch_done (Inr (concat tss))))"

definition discussions :: "github_source \<Rightarrow> snapshot_world \<Rightarrow> nat \<Rightarrow> string \<Rightarrow> wire_pull list \<Rightarrow> nat \<Rightarrow> nat \<Rightarrow>
    github_discussion list fetched" where
  "discussions src w fuel base pulls limit per_pull =
     fetch_then (paginated src (sw_net w IssueComments) fuel decode_comment (base @ ''/issues/comments?per_page=100'') limit) (\<lambda>cs.
     fetch_then (paginated src (sw_net w ReviewComments) fuel decode_review_comment (base @ ''/pulls/comments?per_page=100'') limit) (\<lambda>rcs.
     fetch_then (join_jobs (sw_order w ReviewPhase (length pulls)) (\<lambda>i. reviews_of_pull src (sw_net w (Reviews i)) fuel base per_pull (pulls ! i))) (\<lambda>rss.
     fetch_then (review_threads src w fuel base pulls per_pull) (\<lambda>ts.
     fetch_done (Inr (List.map_filter (discussion_of_comment ''issueComment'') cs
       @ List.map_filter discussion_of_review_comment rcs @ concat rss @ ts))))))"

definition checks_of_pull :: "github_source \<Rightarrow> network \<Rightarrow> nat \<Rightarrow> string \<Rightarrow> nat \<Rightarrow> wire_pull \<Rightarrow> github_check_run list fetched" where
  "checks_of_pull src net fuel base limit p =
     fetch_then (paginated_field src net fuel decode_check_run
       (base @ ''/commits/'' @ wr_sha (wp_head p) @ ''/check-runs?per_page=100'') ''check_runs'' limit) (\<lambda>rs.
     fetch_done (Inr (map (check_of_wire (pull_number p)) rs)))"

definition pull_checks :: "github_source \<Rightarrow> snapshot_world \<Rightarrow> nat \<Rightarrow> string \<Rightarrow> wire_pull list \<Rightarrow> nat \<Rightarrow>
    github_check_run list fetched" where
  "pull_checks src w fuel base pulls limit =
     fetch_then (join_jobs (sw_order w CheckPhase (length pulls)) (\<lambda>i. checks_of_pull src (sw_net w (PullChecks i)) fuel base limit (pulls ! i)))
       (\<lambda>css. fetch_done (Inr (concat css)))"

section \<open>The snapshot\<close>

definition pull_work_item :: "string \<Rightarrow> github_discussion list \<Rightarrow> github_check_run list \<Rightarrow> enriched_pull \<Rightarrow> github_work_item" where
  "pull_work_item full_name ds cs e = (let number = pull_number (en_pull e);
       own = filter (\<lambda>d. gd_item_number d = number) ds;
       runs = filter (\<lambda>c. gc_item_number c = number) cs in
     item_of_pull e full_name (latest_review_at own) (review_decision own) (ci_health runs))"

definition counted_repository :: "github_repository \<Rightarrow> wire_commit \<Rightarrow> wire_pull list \<Rightarrow> github_check_run list \<Rightarrow>
    github_repository" where
  "counted_repository repository commit pulls cs = repository\<lparr>gr_default_branch_sha := Some (wc_sha commit),
     gr_default_branch_committed_at := Some (wc_committer_date commit),
     gr_open_pull_request_count := of_nat (length (open_pulls pulls)),
     gr_failing_check_count := of_nat (length (filter (\<lambda>c. gc_item_number c \<in> pull_number ` set (open_pulls pulls) \<and>
       is_failing_conclusion (gc_conclusion c)) cs))\<rparr>"

definition assemble_snapshot :: "github_repository \<Rightarrow> wire_item list \<Rightarrow> wire_commit \<Rightarrow> enriched_pull list \<Rightarrow>
    github_discussion list \<Rightarrow> github_check_run list \<Rightarrow> github_workflow_run list \<Rightarrow> github_repository_snapshot" where
  "assemble_snapshot repository issues commit es ds cs runs = (let pulls = map en_pull es in
     \<lparr>gs_repository = counted_repository repository commit pulls cs,
      gs_work_items = map (\<lambda>w. issue_of_wire w (gr_full_name repository) IssueItem)
          (filter (\<lambda>w. wt_pull_request w = None) issues)
        @ map (pull_work_item (gr_full_name repository) ds cs) es,
      gs_discussions = ds, gs_checks = cs, gs_workflow_runs = runs\<rparr>)"

definition repository_snapshot :: "github_source \<Rightarrow> snapshot_world \<Rightarrow> nat \<Rightarrow> github_repository \<Rightarrow> nat \<Rightarrow>
    github_repository_snapshot fetched" where
  "repository_snapshot src w fuel repository requested =
     (let limit = fst (bounded_snapshot_limits requested 0) in
      case split_once CHR ''/'' (gr_full_name repository) of
        None \<Rightarrow> fetch_done (Inl MissingOwner)
      | Some (owner, name) \<Rightarrow> (let base = ''/repos/'' @ owner @ ''/'' @ name in
     fetch_then (paginated src (sw_net w IssueRows) fuel decode_item (base @ ''/issues?state=all&per_page=100'') limit) (\<lambda>issues.
     fetch_then (paginated src (sw_net w PullRows) fuel decode_pull (base @ ''/pulls?state=all&per_page=100'') limit) (\<lambda>rows.
     fetch_then (source_get src (sw_net w DefaultCommit 0) decode_commit
       (base @ ''/commits/'' @ encode_path_segment (gr_default_branch repository))) (\<lambda>commit.
     fetch_then (enrich_pulls src w base rows) (\<lambda>es.
     let pulls = map en_pull es; per_pull = snd (bounded_snapshot_limits limit (length pulls)) in
     fetch_then (discussions src w fuel base pulls limit per_pull) (\<lambda>ds.
     fetch_then (pull_checks src w fuel base pulls per_pull) (\<lambda>cs.
     fetch_then (paginated_field src (sw_net w WorkflowRuns) fuel decode_workflow_run
       (base @ ''/actions/runs?per_page=100'') ''workflow_runs'' limit) (\<lambda>runs.
     fetch_done (Inr (assemble_snapshot repository issues commit es ds cs runs)))))))))))"

end
