(* ===== verification/Rpc_Sync.thy ===== *)
theory Rpc_Sync
  imports GitHub_Snapshot Rpc_Actions Store_Jobs Store_GitHub
begin

text \<open>
  Synchronization with GitHub in \<open>crates/patchwright-engine/src/rpc.rs\<close>: the handlers that read the
  snapshots, \<open>github_sync\<close>, the synchronization of one repository under an installation token, the
  reconciliation of a task, and the cancellable loop of a synchronization job (the job itself is in
  \<open>Rpc_Sync_Jobs\<close>). Requests go through the read client; \<open>None\<close> is a handler whose paginations go
  on. A loop over concurrent fetches is given the order in which they end. Errors while a snapshot is
  written are those of SQLite only, which the model of the store does not have.
\<close>

section \<open>What is stored\<close>

record github_status =
  hs_account :: "github_account option"
  hs_repository_count :: nat
  hs_last_synced_at :: "timestamp option"

definition github_status :: "store \<Rightarrow> github_status" where
  "github_status s = \<lparr>hs_account = st_account s, hs_repository_count = length (github_repositories s),
     hs_last_synced_at = github_last_synced_at s\<rparr>"

definition github_repository_handler :: "json \<Rightarrow> store \<Rightarrow> rpc_error + github_repository_snapshot option" where
  "github_repository_handler params s = (let full_name = text_or_empty params ''fullName'' in
     if full_name = [] then Inl invalid_parameters else Inr (load_github_repository full_name s))"

section \<open>Credentials\<close>

datatype credential_error = BrokerNotRun | NotAuthenticated | CredentialNotUtf8 | CredentialEmpty

text \<open>\<open>GhCliCredentialBroker::token\<close>: whether the process ended well, and what it wrote.\<close>

definition gh_token :: "(bool \<times> string) option \<Rightarrow> credential_error + string" where
  "gh_token output =
     and_then (ok_or output BrokerNotRun) (\<lambda>(success, out).
     and_then (ensure success NotAuthenticated) (\<lambda>_.
     and_then (ensure (utf8_valid out) CredentialNotUtf8) (\<lambda>_.
     and_then (ensure (trim out \<noteq> []) CredentialEmpty) (\<lambda>_. Inr (trim out)))))"

text \<open>What a synchronization of the account meets outside the store.\<close>

record sync_world =
  sx_gh_output :: "(bool \<times> string) option"
  sx_variable :: "string \<Rightarrow> string option"
  sx_urls :: url_functions
  sx_fuel :: nat
  sx_account :: network
  sx_repositories :: network
  sx_snapshot :: "nat \<Rightarrow> snapshot_world"

definition github_api_url :: "sync_world \<Rightarrow> string" where
  "github_api_url w = (case sx_variable w ''PATCHWRIGHT_GITHUB_API_URL'' of
       Some u \<Rightarrow> u | None \<Rightarrow> default_github_api_url)"

definition github_source_from_environment :: "sync_world \<Rightarrow> unit + github_source" where
  "github_source_from_environment w =
     and_then (map_err (\<lambda>_. ()) (gh_token (sx_gh_output w))) (\<lambda>token.
     map_err (\<lambda>_. ()) (source_new (sx_urls w) (github_api_url w) token))"

section \<open>Summaries\<close>

datatype sync_failure = WorkerFailed | RepositoryFailed string

record sync_summary =
  su_account :: github_account
  su_discovered :: nat
  su_synced :: nat
  su_work_items :: nat
  su_discussions :: nat
  su_checks :: nat
  su_workflow_runs :: nat
  su_failures :: "sync_failure list"

definition new_summary :: "github_account \<Rightarrow> nat \<Rightarrow> sync_summary" where
  "new_summary account n = \<lparr>su_account = account, su_discovered = n, su_synced = 0, su_work_items = 0,
     su_discussions = 0, su_checks = 0, su_workflow_runs = 0, su_failures = []\<rparr>"

definition empty_sync_summary :: sync_summary where
  "empty_sync_summary = new_summary \<lparr>ga_login = ''cancelled'', ga_avatar_url = [], ga_html_url = []\<rparr> 0"

text \<open>What either loop does with a worker that ended by itself.\<close>

definition counted :: "github_repository_snapshot \<Rightarrow> sync_summary \<Rightarrow> sync_summary" where
  "counted snap u = u\<lparr>su_synced := su_synced u + 1,
     su_work_items := su_work_items u + length (gs_work_items snap),
     su_discussions := su_discussions u + length (gs_discussions snap),
     su_checks := su_checks u + length (gs_checks snap),
     su_workflow_runs := su_workflow_runs u + length (gs_workflow_runs snap)\<rparr>"

definition add_failure :: "sync_failure \<Rightarrow> sync_summary \<Rightarrow> sync_summary" where
  "add_failure f u = u\<lparr>su_failures := su_failures u @ [f]\<rparr>"

definition take_result :: "timestamp \<Rightarrow> github_repository \<Rightarrow> source_error + github_repository_snapshot \<Rightarrow>
    store \<times> sync_summary \<Rightarrow> store \<times> sync_summary" where
  "take_result now repository r = (\<lambda>(s, u). case r of
       Inr snap \<Rightarrow> (replace_github_snapshot now snap s, counted snap u)
     | Inl _ \<Rightarrow> (s, add_failure (RepositoryFailed (gr_full_name repository)) u))"

section \<open>All repositories at once\<close>

text \<open>
  One round of \<open>join_next\<close>: the worker that ended and when, or one that panicked; and what other clients
  do to the store between two rounds.
\<close>

datatype join_round = Joined timestamp nat | Panicked | Elsewhere "store \<Rightarrow> store"

fun sync_rounds :: "(nat \<Rightarrow> github_repository_snapshot fetched) \<Rightarrow> github_repository list \<Rightarrow> join_round list \<Rightarrow>
    store \<times> sync_summary \<Rightarrow> (store \<times> sync_summary) option" where
  "sync_rounds job repositories [] x = Some x"
| "sync_rounds job repositories (Panicked # rounds) (s, u) =
     sync_rounds job repositories rounds (s, add_failure WorkerFailed u)"
| "sync_rounds job repositories (Elsewhere f # rounds) (s, u) = sync_rounds job repositories rounds (f s, u)"
| "sync_rounds job repositories (Joined now i # rounds) x = (case snd (job i) of
       None \<Rightarrow> None
     | Some r \<Rightarrow> sync_rounds job repositories rounds (take_result now (repositories ! i) r x))"

definition snapshot_jobs :: "github_source \<Rightarrow> sync_world \<Rightarrow> github_repository list \<Rightarrow> nat \<Rightarrow> nat \<Rightarrow>
    github_repository_snapshot fetched" where
  "snapshot_jobs src w repositories resource_limit i =
     repository_snapshot src (sx_snapshot w i) (sx_fuel w) (repositories ! i) resource_limit"

definition sync_repositories :: "github_source \<Rightarrow> sync_world \<Rightarrow> github_account \<Rightarrow> github_repository list \<Rightarrow> nat \<Rightarrow>
    join_round list \<Rightarrow> store \<Rightarrow> (store \<times> sync_summary) option" where
  "sync_repositories src w account repositories resource_limit rounds s =
     sync_rounds (snapshot_jobs src w repositories resource_limit) repositories rounds
       (s, new_summary account (length repositories))"

definition text_limit :: "json \<Rightarrow> string \<Rightarrow> nat \<Rightarrow> nat" where
  "text_limit params key maximum =
     (let n = (case Option.bind (str_at [key] params) parse_u64 of Some n \<Rightarrow> unat n | None \<Rightarrow> maximum) in
      max 1 (min n maximum))"

definition sync_error :: "int \<Rightarrow> string \<Rightarrow> rpc_error + 'a" where
  "sync_error code message = Inl (RpcError code message)"

text \<open>\<open>others\<close> is what other clients do to the store while the account and the list are fetched.\<close>

definition sync_github :: "sync_world \<Rightarrow> join_round list \<Rightarrow> (store \<Rightarrow> store) \<Rightarrow> json \<Rightarrow> store \<Rightarrow>
    (store \<times> (rpc_error + sync_summary)) option" where
  "sync_github w rounds others params s =
     (case gh_token (sx_gh_output w) of
       Inl _ \<Rightarrow> Some (s, sync_error (- 32010) ''GitHub authentication unavailable'')
     | Inr token \<Rightarrow> (case source_new (sx_urls w) (github_api_url w) token of
       Inl _ \<Rightarrow> Some (s, sync_error (- 32011) ''GitHub source unavailable'')
     | Inr src \<Rightarrow> (case snd (source_account src (sx_account w)) of
       None \<Rightarrow> None
     | Some (Inl _) \<Rightarrow> Some (others s, sync_error (- 32012) ''GitHub account lookup failed'')
     | Some (Inr account) \<Rightarrow>
         (case snd (source_repositories src (sx_repositories w) (sx_fuel w) (text_limit params ''repositoryLimit'' 100)) of
       None \<Rightarrow> None
     | Some (Inl _) \<Rightarrow> Some (others s, sync_error (- 32013) ''GitHub repository discovery failed'')
     | Some (Inr repositories) \<Rightarrow> map_option (\<lambda>(s, u). (s, Inr u))
         (sync_repositories src w account repositories (text_limit params ''resourceLimit'' 1000) rounds
           (save_github_account account (others s)))))))"

section \<open>The cancellable loop\<close>

text \<open>
  Where a cancellation is seen: before or while the account or the list is fetched, before all workers are
  spawned, or in a round of the loop. A worker that sees it first ends without a result.
\<close>

datatype sync_round = CancelSeen | WorkerCancelled nat | Round join_round

record cancel_points =
  cn_account :: bool
  cn_repositories :: bool
  cn_spawning :: bool
  cn_others :: "store \<Rightarrow> store"
  cn_rounds :: "sync_round list"

definition cancellable :: "bool \<Rightarrow> 'a fetched \<Rightarrow> (source_error + 'a option) option" where
  "cancellable cancelled r =
     (if cancelled then Some (Inr None) else map_option (map_sum id Some) (snd r))"

fun cancellable_rounds :: "(nat \<Rightarrow> github_repository_snapshot fetched) \<Rightarrow> github_repository list \<Rightarrow> sync_round list \<Rightarrow>
    store \<times> sync_summary \<Rightarrow> (store \<times> sync_summary \<times> bool) option" where
  "cancellable_rounds job repositories [] (s, u) = Some (s, u, False)"
| "cancellable_rounds job repositories (CancelSeen # rounds) (s, u) = Some (s, u, True)"
| "cancellable_rounds job repositories (WorkerCancelled i # rounds) (s, u) = Some (s, u, True)"
| "cancellable_rounds job repositories (Round Panicked # rounds) (s, u) =
     cancellable_rounds job repositories rounds (s, add_failure WorkerFailed u)"
| "cancellable_rounds job repositories (Round (Elsewhere f) # rounds) (s, u) =
     cancellable_rounds job repositories rounds (f s, u)"
| "cancellable_rounds job repositories (Round (Joined now i) # rounds) x = (case snd (job i) of
       None \<Rightarrow> None
     | Some r \<Rightarrow> cancellable_rounds job repositories rounds (take_result now (repositories ! i) r x))"

definition sync_repositories_cancellable :: "github_source \<Rightarrow> sync_world \<Rightarrow> cancel_points \<Rightarrow> github_account \<Rightarrow>
    github_repository list \<Rightarrow> nat \<Rightarrow> store \<Rightarrow> (store \<times> sync_summary \<times> bool) option" where
  "sync_repositories_cancellable src w c account repositories resource_limit s =
     (let u = new_summary account (length repositories) in
      if cn_spawning c \<and> repositories \<noteq> [] then Some (s, u, True)
      else cancellable_rounds (snapshot_jobs src w repositories resource_limit) repositories (cn_rounds c) (s, u))"

definition run_cancellable_github_sync :: "sync_world \<Rightarrow> cancel_points \<Rightarrow> nat \<times> nat \<Rightarrow> store \<Rightarrow>
    (store \<times> (unit + sync_summary \<times> bool)) option" where
  "run_cancellable_github_sync w c limits s = (case github_source_from_environment w of
       Inl _ \<Rightarrow> Some (s, Inl ())
     | Inr src \<Rightarrow> (case cancellable (cn_account c) (source_account src (sx_account w)) of
       None \<Rightarrow> None
     | Some (Inl _) \<Rightarrow> Some (cn_others c s, Inl ())
     | Some (Inr None) \<Rightarrow> Some (cn_others c s, Inr (empty_sync_summary, True))
     | Some (Inr (Some account)) \<Rightarrow>
         (case cancellable (cn_repositories c) (source_repositories src (sx_repositories w) (sx_fuel w) (fst limits)) of
       None \<Rightarrow> None
     | Some (Inl _) \<Rightarrow> Some (cn_others c s, Inl ())
     | Some (Inr None) \<Rightarrow> Some (cn_others c s, Inr (empty_sync_summary, True))
     | Some (Inr (Some repositories)) \<Rightarrow> map_option (\<lambda>(s, u, cancelled). (s, Inr (u, cancelled)))
         (sync_repositories_cancellable src w c account repositories (snd limits)
           (save_github_account account (cn_others c s))))))"

section \<open>One repository\<close>

record repository_sync_parameters =
  rs_full_name :: string
  rs_repository_id :: u64
  rs_expected_installation_id :: "u64 option"

definition repository_sync_parameters :: "json \<Rightarrow> repository_sync_parameters option" where
  "repository_sync_parameters params =
     (case (required_string params ''fullName'', positive_u64 params ''repositoryId'') of
       (Some full_name, Some repository_id) \<Rightarrow>
         (if json_get ''installationId'' params = None
          then Some \<lparr>rs_full_name = full_name, rs_repository_id = repository_id, rs_expected_installation_id = None\<rparr>
          else map_option (\<lambda>n. \<lparr>rs_full_name = full_name, rs_repository_id = repository_id,
            rs_expected_installation_id = Some n\<rparr>) (positive_u64 params ''installationId''))
     | _ \<Rightarrow> None)"

definition github_app_source_for_repository :: "url_functions \<Rightarrow> app_world \<Rightarrow> i64 \<Rightarrow> string \<Rightarrow> u64 \<Rightarrow> u64 option \<Rightarrow>
    (unit + github_source \<times> u64) call" where
  "github_app_source_for_repository urls a now full_name repository_id expected =
     await (github_app_installation_token a now full_name repository_id ingestion_permissions) (\<lambda>token.
     try_then (ensure (expected \<in> {None, Some (it_installation_id token)}) ()) (\<lambda>_.
     try_then (ok_or (runtime_configuration_of a) ()) (\<lambda>rc.
     try_then (map_err (\<lambda>_. ()) (source_new urls (rc_api_base_url rc) (it_token token))) (\<lambda>src.
     Done (Inr (src, it_installation_id token))))))"

text \<open>What reading one repository meets: the lookup, and the fetches of its snapshot.\<close>

record repository_world =
  rw_urls :: url_functions
  rw_fuel :: nat
  rw_lookup :: network
  rw_snapshot :: snapshot_world

text \<open>From the source to a snapshot of the repository with that identifier.\<close>

definition identified_snapshot :: "repository_world \<Rightarrow> string \<Rightarrow> string \<Rightarrow> u64 \<Rightarrow> u64 \<Rightarrow> nat \<Rightarrow> github_source \<Rightarrow>
    (rpc_error + github_repository_snapshot) option" where
  "identified_snapshot w refresh full_name repository_id installation_id limit src =
     (case snd (source_repository src (rw_lookup w) full_name) of
       None \<Rightarrow> None
     | Some (Inl _) \<Rightarrow> Some (sync_error (- 32013) ''GitHub repository lookup failed'')
     | Some (Inr repository) \<Rightarrow>
         if gr_id repository \<noteq> repository_id
         then Some (sync_error (- 32014) ''GitHub repository identity mismatch'')
         else map_option (map_err (\<lambda>_. RpcError (- 32015) refresh))
           (snd (repository_snapshot src (rw_snapshot w) (rw_fuel w)
             (repository\<lparr>gr_installation_id := Some installation_id\<rparr>) limit)))"

definition authentication_unavailable :: "rpc_error + 'a" where
  "authentication_unavailable = sync_error (- 32010) ''GitHub App repository authentication unavailable''"

definition sync_github_repository :: "repository_world \<Rightarrow> app_world \<Rightarrow> timestamp \<Rightarrow> i64 \<Rightarrow> (store \<Rightarrow> store) \<Rightarrow> json \<Rightarrow>
    store \<Rightarrow> (store \<times> (rpc_error + github_repository_snapshot)) option call" where
  "sync_github_repository w a now unix_now others params s =
     (case repository_sync_parameters params of
       None \<Rightarrow> Done (Some (s, Inl invalid_parameters))
     | Some wanted \<Rightarrow> mapped_call (\<lambda>r. case r of
         Inl _ \<Rightarrow> Some (others s, authentication_unavailable)
       | Inr (src, installation_id) \<Rightarrow> map_option (\<lambda>r. case r of
           Inl e \<Rightarrow> (others s, Inl e)
         | Inr snap \<Rightarrow> (replace_github_snapshot now snap (others s), Inr snap))
           (identified_snapshot w ''GitHub repository synchronization failed'' (rs_full_name wanted)
             (rs_repository_id wanted) installation_id (bounded_limit params ''resourceLimit'' 100 100) src))
         (github_app_source_for_repository (rw_urls w) a unix_now (rs_full_name wanted) (rs_repository_id wanted)
           (rs_expected_installation_id wanted)))"

section \<open>Reconciliation of a task\<close>

text \<open>The first locked section: the repository that the task and its binding agree on.\<close>

definition reconcile_target :: "uuid \<Rightarrow> store \<Rightarrow> rpc_error + string \<times> u64 \<times> u64" where
  "reconcile_target i s =
     and_then (ok_or (load_task i s) (RpcError (- 32040) ''task is missing'')) (\<lambda>t.
     and_then (ok_or (source_repository_full_name (task_source t))
       (RpcError (- 32045) ''task is not backed by GitHub'')) (\<lambda>full_name.
     and_then (ok_or (source_repository_id (task_source t))
       (RpcError (- 32045) ''task is not backed by GitHub'')) (\<lambda>repository_id.
     and_then (ok_or (task_repository_binding_id t)
       (RpcError (- 32033) ''task repository binding is missing'')) (\<lambda>binding_id.
     and_then (ok_or (repository_binding binding_id s)
       (RpcError (- 32033) ''task repository binding is missing'')) (\<lambda>b.
     and_then (ensure (rb_github_repository_id b = repository_id \<and> rb_full_name b = full_name)
       (RpcError (- 32045) ''task repository identity changed'')) (\<lambda>_.
     Inr (full_name, repository_id, rb_installation_id b)))))))"

text \<open>The second one: the snapshot is stored, and then the task is reconciled with it.\<close>

definition commit_reconciliation :: "delivery_env \<Rightarrow> timestamp \<Rightarrow> timestamp \<Rightarrow> uuid \<Rightarrow> github_repository_snapshot \<Rightarrow>
    store \<Rightarrow> store \<times> (rpc_error + task)" where
  "commit_reconciliation env now later i snap s = (let s = replace_github_snapshot now snap s in
     case reconcile_completed_task_from_snapshot env later i snap s of
       Inl _ \<Rightarrow> (s, Inl (RpcError (- 32046) ''GitHub does not confirm this exact task is complete''))
     | Inr (s', t) \<Rightarrow> (s', Inr t))"

definition task_reconcile_github :: "(string \<Rightarrow> uuid option) \<Rightarrow> delivery_env \<Rightarrow> repository_world \<Rightarrow> app_world \<Rightarrow>
    timestamp \<Rightarrow> timestamp \<Rightarrow> i64 \<Rightarrow> (store \<Rightarrow> store) \<Rightarrow> json \<Rightarrow> store \<Rightarrow> (store \<times> (rpc_error + task)) option call" where
  "task_reconcile_github parse_uuid env w a now later unix_now others params s =
     (case required_task_id parse_uuid params of
       None \<Rightarrow> Done (Some (s, Inl invalid_parameters))
     | Some i \<Rightarrow> (case reconcile_target i s of
       Inl e \<Rightarrow> Done (Some (s, Inl e))
     | Inr (full_name, repository_id, installation_id) \<Rightarrow> mapped_call (\<lambda>r. case r of
         Inl _ \<Rightarrow> Some (others s, authentication_unavailable)
       | Inr (src, _) \<Rightarrow> map_option (\<lambda>r. case r of
           Inl e \<Rightarrow> (others s, Inl e)
         | Inr snap \<Rightarrow> commit_reconciliation env now later i snap (others s))
           (identified_snapshot w ''GitHub task reconciliation refresh failed'' full_name repository_id
             installation_id 100 src))
         (github_app_source_for_repository (rw_urls w) a unix_now full_name repository_id
           (Some installation_id))))"

end
