(* ===== verification/Rpc_Sync_Jobs.thy ===== *)
theory Rpc_Sync_Jobs
  imports Rpc_Sync
begin

text \<open>
  Synchronization jobs in \<open>crates/patchwright-engine/src/rpc.rs\<close>: \<open>github_sync_start\<close>,
  \<open>github_sync_status\<close>, \<open>github_sync_cancel\<close> and the worker \<open>run_github_sync_job\<close>. A handler and a
  worker hold the lock of the store for one access at a time, so each is modelled as the sequence of
  its locked sections, and \<open>sync_act\<close> runs one section of one of them: the interleavings of any number of
  requests with the worker are the sequences of actions.
\<close>

section \<open>The sections\<close>

text \<open>\<open>ServerState::github_syncs\<close>: the job that is active and the value of its watch channel.\<close>

type_synonym active_syncs = "(uuid \<times> bool) list"

definition github_sync_start :: "uuid \<Rightarrow> timestamp \<Rightarrow> active_syncs \<Rightarrow> store \<Rightarrow>
    (store \<times> active_syncs) \<times> (rpc_error + job)" where
  "github_sync_start fresh now active s =
     (if active \<noteq> [] then ((s, active), Inl (RpcError (- 32014) ''GitHub sync already active''))
      else case job_new fresh now GitHubSync None ''GitHub sync queued'' of
        Inl _ \<Rightarrow> ((s, active), Inl (RpcError (- 32000) ''job creation failed''))
      | Inr j \<Rightarrow> (case create_job j s of
          Inl _ \<Rightarrow> ((s, active), Inl persistence_failure)
        | Inr s' \<Rightarrow> ((s', active @ [(job_id j, False)]), Inr j)))"

definition sync_job_of :: "uuid \<Rightarrow> store \<Rightarrow> rpc_error + job" where
  "sync_job_of i s =
     and_then (map_err (\<lambda>_. persistence_failure) (load_job i s)) (\<lambda>j. case j of
       Some j \<Rightarrow> if job_kind j = GitHubSync then Inr j else Inl (RpcError (- 32015) ''GitHub sync job not found'')
     | None \<Rightarrow> Inl (RpcError (- 32015) ''GitHub sync job not found''))"

definition github_sync_status :: "(string \<Rightarrow> uuid option) \<Rightarrow> json \<Rightarrow> store \<Rightarrow> rpc_error + job" where
  "github_sync_status parse_uuid params s =
     and_then (ok_or (uuid_parameter parse_uuid ''jobId'' params) invalid_parameters) (\<lambda>i. sync_job_of i s)"

text \<open>\<open>github_sync_cancel\<close>: what it read, the transition it then makes, and the signal to the worker.\<close>

definition cancel_read :: "(string \<Rightarrow> uuid option) \<Rightarrow> json \<Rightarrow> store \<Rightarrow> rpc_error + uuid \<times> job" where
  "cancel_read parse_uuid params s =
     and_then (ok_or (uuid_parameter parse_uuid ''jobId'' params) invalid_parameters) (\<lambda>i.
     and_then (sync_job_of i s) (\<lambda>j. Inr (i, j)))"

definition cancel_transition :: "job_state \<Rightarrow> (job_state \<times> cancellation_state \<times> string) option" where
  "cancel_transition st = (case st of
       JobQueued \<Rightarrow> Some (JobCancelled, Acknowledged, ''GitHub sync cancelled before start'')
     | JobRunning \<Rightarrow> Some (JobCancelling, Requested, ''GitHub sync cancellation requested'')
     | _ \<Rightarrow> None)"

definition cancel_write :: "timestamp \<Rightarrow> uuid \<Rightarrow> job \<Rightarrow> store \<Rightarrow> store \<times> (rpc_error + unit)" where
  "cancel_write now i j s = (case cancel_transition (job_state j) of
       None \<Rightarrow> (s, Inr ())
     | Some (state, cancellation, summary) \<Rightarrow>
         (case transition_job now i (job_state j) state cancellation summary None s of
           Inl _ \<Rightarrow> (s, Inl persistence_failure)
         | Inr (s', _) \<Rightarrow> (s', Inr ())))"

definition cancel_signal :: "uuid \<Rightarrow> active_syncs \<Rightarrow> active_syncs" where
  "cancel_signal i active = map (\<lambda>(k, f). (k, f \<or> k = i)) active"

text \<open>\<open>run_github_sync_job\<close>: the start, the ending that it decides on, and the transition it makes.\<close>

definition worker_begin :: "timestamp \<Rightarrow> uuid \<Rightarrow> store \<Rightarrow> store \<times> bool" where
  "worker_begin now i s = (case transition_job now i JobQueued JobRunning NotRequested
       ''GitHub sync running via gh read-only fallback'' None s of
     Inl _ \<Rightarrow> (s, False) | Inr r \<Rightarrow> r)"

type_synonym sync_result = "unit + sync_summary \<times> bool"

definition worker_read :: "uuid \<Rightarrow> store \<Rightarrow> job option" where
  "worker_read i s = (case load_job i s of Inl _ \<Rightarrow> None | Inr j \<Rightarrow> j)"

definition result_cancelled :: "sync_result \<Rightarrow> bool" where
  "result_cancelled r = (case r of Inl _ \<Rightarrow> False | Inr (_, cancelled) \<Rightarrow> cancelled)"

definition cancelled_text :: "nat \<Rightarrow> string" where
  "cancelled_text n = ''GitHub sync cancelled after '' @ decimal n @ '' repositories''"

definition completed_text :: "nat \<Rightarrow> nat \<Rightarrow> string" where
  "completed_text n k = ''GitHub sync completed: '' @ decimal n @ '' repositories, '' @ decimal k @ '' work items''"

definition stopped_text :: string where
  "stopped_text = ''GitHub sync cancelled''"

definition failed_text :: string where
  "failed_text = ''GitHub sync failed; inspect engine logs''"

definition sync_ending :: "bool \<Rightarrow> sync_result \<Rightarrow> job_state \<times> cancellation_state \<times> string" where
  "sync_ending signalled r =
     (if signalled \<or> result_cancelled r
      then (JobCancelled, Acknowledged, case r of Inl _ \<Rightarrow> stopped_text | Inr (u, _) \<Rightarrow> cancelled_text (su_synced u))
      else case r of
          Inr (u, _) \<Rightarrow> (JobSucceeded, NotRequested, completed_text (su_synced u) (su_work_items u))
        | Inl _ \<Rightarrow> (JobFailed, NotRequested, failed_text))"

definition worker_write :: "timestamp \<Rightarrow> uuid \<Rightarrow> job_state \<Rightarrow> job_state \<times> cancellation_state \<times> string \<Rightarrow> store \<Rightarrow> store" where
  "worker_write now i current ending s =
     (case transition_job now i current (fst ending) (fst (snd ending)) (snd (snd ending)) None s of
       Inl _ \<Rightarrow> s | Inr (s', _) \<Rightarrow> s')"

section \<open>Interleavings\<close>

text \<open>The counters of a summary are of the type \<open>usize\<close>.\<close>

definition counters_fit :: "sync_result \<Rightarrow> bool" where
  "counters_fit r = (case r of Inl _ \<Rightarrow> True | Inr (u, _) \<Rightarrow> su_synced u < 2 ^ 64 \<and> su_work_items u < 2 ^ 64)"

text \<open>
  Where the worker of a job stands, and where a cancellation stands: it has read the job, or it has
  still to signal. The synchronization itself takes the result it ends with, which says that it was cancelled
  only when the channel was signalled, and writes to the other tables only.
\<close>

datatype worker_phase =
    Spawned | Synchronizing | Synchronized sync_result | Current job sync_result
  | Ending job_state "job_state \<times> cancellation_state \<times> string" | Leaving

datatype cancel_phase = Transitioning uuid job | Signalling uuid

record sync_state =
  sy_store :: store
  sy_active :: active_syncs
  sy_workers :: "(uuid \<times> worker_phase) list"
  sy_cancels :: "cancel_phase list"

datatype sync_action =
    StartSync uuid timestamp
  | CancelRequest uuid
  | CancelStep nat timestamp
  | WorkerStep timestamp
  | SyncEnds sync_result
  | StoreChange store
  | RestartEngine timestamp

definition sync_rows :: "store \<Rightarrow> (uuid \<times> job) list" where
  "sync_rows s = filter (\<lambda>(_, j). job_kind j = GitHubSync) (st_jobs s)"

text \<open>One section of the worker; there is one worker at a time (\<open>sync_one_worker\<close>).\<close>

definition worker_step :: "timestamp \<Rightarrow> uuid \<Rightarrow> worker_phase \<Rightarrow> sync_state \<Rightarrow> sync_state option" where
  "worker_step now i ph st = (case ph of
       Spawned \<Rightarrow> (case worker_begin now i (sy_store st) of (s, started) \<Rightarrow>
         Some (st\<lparr>sy_store := s, sy_workers := [(i, if started then Synchronizing else Leaving)]\<rparr>))
     | Synchronizing \<Rightarrow> None
     | Synchronized r \<Rightarrow> Some (st\<lparr>sy_workers := [(i, case worker_read i (sy_store st) of
         None \<Rightarrow> Leaving | Some j \<Rightarrow> Current j r)]\<rparr>)
     | Current j r \<Rightarrow> Some (st\<lparr>sy_workers :=
         [(i, Ending (job_state j) (sync_ending (map_of (sy_active st) i = Some True) r))]\<rparr>)
     | Ending current ending \<Rightarrow> Some (st\<lparr>sy_store := worker_write now i current ending (sy_store st),
         sy_workers := [(i, Leaving)]\<rparr>)
     | Leaving \<Rightarrow> Some (st\<lparr>sy_active := filter (\<lambda>(k, _). k \<noteq> i) (sy_active st), sy_workers := []\<rparr>))"

definition cancel_step :: "timestamp \<Rightarrow> nat \<Rightarrow> cancel_phase \<Rightarrow> sync_state \<Rightarrow> sync_state" where
  "cancel_step now n ph st = (case ph of
       Transitioning i j \<Rightarrow> (case cancel_write now i j (sy_store st) of
           (s, Inl _) \<Rightarrow> st\<lparr>sy_cancels := take n (sy_cancels st) @ drop (Suc n) (sy_cancels st)\<rparr>
         | (s, Inr _) \<Rightarrow> st\<lparr>sy_store := s, sy_cancels := (sy_cancels st)[n := Signalling i]\<rparr>)
     | Signalling i \<Rightarrow> st\<lparr>sy_active := cancel_signal i (sy_active st),
         sy_cancels := take n (sy_cancels st) @ drop (Suc n) (sy_cancels st)\<rparr>)"

definition sync_act :: "sync_action \<Rightarrow> sync_state \<Rightarrow> sync_state option" where
  "sync_act a st = (case a of
       StartSync fresh now \<Rightarrow> (case github_sync_start fresh now (sy_active st) (sy_store st) of
           (_, Inl _) \<Rightarrow> Some st
         | ((s, active), Inr j) \<Rightarrow> Some (st\<lparr>sy_store := s, sy_active := active,
             sy_workers := sy_workers st @ [(job_id j, Spawned)]\<rparr>))
     | CancelRequest i \<Rightarrow> (case sync_job_of i (sy_store st) of
           Inl _ \<Rightarrow> Some st
         | Inr j \<Rightarrow> Some (st\<lparr>sy_cancels := sy_cancels st @ [Transitioning i j]\<rparr>))
     | CancelStep n now \<Rightarrow>
         if n < length (sy_cancels st) then Some (cancel_step now n (sy_cancels st ! n) st) else None
     | WorkerStep now \<Rightarrow> (case sy_workers st of [(i, ph)] \<Rightarrow> worker_step now i ph st | _ \<Rightarrow> None)
     | SyncEnds r \<Rightarrow> (case sy_workers st of
           [(i, Synchronizing)] \<Rightarrow> if \<not> counters_fit r \<or> result_cancelled r \<and> map_of (sy_active st) i \<noteq> Some True then None
             else Some (st\<lparr>sy_workers := [(i, Synchronized r)]\<rparr>)
         | _ \<Rightarrow> None)
     | StoreChange s \<Rightarrow>
         if table_wf (st_jobs s) \<and> sync_rows s = sync_rows (sy_store st) then Some (st\<lparr>sy_store := s\<rparr>) else None
     | RestartEngine now \<Rightarrow> (case recover_interrupted_jobs now (sy_store st) of
           Inl _ \<Rightarrow> None
         | Inr s \<Rightarrow> Some \<lparr>sy_store = s, sy_active = [], sy_workers = [], sy_cancels = []\<rparr>))"

fun sync_acts :: "sync_action list \<Rightarrow> sync_state \<Rightarrow> sync_state option" where
  "sync_acts [] st = Some st"
| "sync_acts (a # as) st = Option.bind (sync_act a st) (sync_acts as)"

definition engine_started :: "store \<Rightarrow> sync_state" where
  "engine_started s = \<lparr>sy_store = s, sy_active = [], sy_workers = [], sy_cancels = []\<rparr>"

section \<open>Transitions of one job\<close>

lemma transition_row:
  assumes "table_wf (st_jobs s)" "transition_job now i expected next c summary k s = Inr (s', g)"
  shows "table_wf (st_jobs s') \<and> (\<forall>m. m \<noteq> i \<longrightarrow> find_row m (st_jobs s') = find_row m (st_jobs s)) \<and>
    (if g then \<exists>j. find_row i (st_jobs s) = Some j \<and> job_state j = expected \<and>
       find_row i (st_jobs s') = Some (advanced_job now next c (trim summary) k j) \<and> is_summary (trim summary)
     else s' = s)"
proof (cases g)
  case True
  then have t: "transition_job now i expected next c summary k s = Inr (s', True)" using assms(2) by simp
  show ?thesis using transition_job_granted [OF assms(1) t] True by (smt (verit) option.inject)
next
  case False
  then show ?thesis using transition_job_refused [OF assms(1), of now i expected "next" c summary k s'] assms by auto
qed

lemma transition_goes:
  assumes "table_wf (st_jobs s)" "find_row i (st_jobs s) = Some j" "job_state j = expected"
    "job_permits expected next" "is_summary (trim summary)" "unat (job_generation j) < 100"
  shows "\<exists>s'. transition_job now i expected next c summary k s = Inr (s', True)"
proof -
  have g: "unat (job_generation j + 1) < 2 ^ 63" using assms(6) by (simp add: unat_word_ariths)
  have n: "snd (update_where (\<lambda>k j'. k = i \<and> job_state j' = expected \<and> job_generation j' = job_generation j)
      f (st_jobs s)) = 1" for f
    using job_row_count [OF assms(1), of i "\<lambda>j'. job_state j' = expected \<and> job_generation j' = job_generation j"]
      assms(2,3) by simp
  have v: "validate_summary summary = Inr (trim summary)" using assms(5) by (simp add: valid_simps)
  show ?thesis
    using assms(2,3,4) g n by (simp add: transition_job_def v Let_def split_def sql_u64_def)
qed

lemma sync_row_kept:
  assumes "table_wf (st_jobs s')" "sync_rows s' = sync_rows s" "find_row i (st_jobs s) = Some j" "job_kind j = GitHubSync"
  shows "find_row i (st_jobs s') = Some j"
proof -
  have "(i, j) \<in> set (sync_rows s)" using find_row_in [OF assms(3)] assms(4) by (simp add: sync_rows_def)
  then have "(i, j) \<in> set (st_jobs s')" unfolding assms(2) [symmetric] by (simp add: sync_rows_def)
  then show ?thesis using in_find_row [OF assms(1)] by simp
qed

lemma sync_start_ok:
  assumes "github_sync_start fresh now active s = ((s', active'), Inr j)"
  shows "active = [] \<and> active' = [(fresh, False)] \<and> job_id j = fresh \<and> \<not> has_row fresh (st_jobs s) \<and>
    st_jobs s' = st_jobs s @ [(fresh, j)] \<and> job_state j = JobQueued \<and> job_kind j = GitHubSync \<and>
    job_generation j = 0 \<and> is_summary (trim (job_summary j)) \<and> job_cancellation j = NotRequested"
  using assms
  by (auto simp: github_sync_start_def job_new_def create_job_def result_simps valid_simps trim_trim split: if_splits sum.splits)

section \<open>The summaries of a job\<close>


lemma contains_sub_split:
  assumes "contains_sub m (xs @ d # ys)" "d \<notin> set m"
  shows "contains_sub m xs \<or> contains_sub m ys"
proof -
  from assms(1) obtain u v where e: "xs @ d # ys = u @ m @ v" by (auto simp: contains_sub_iff)
  then consider (l) us where "xs = u @ us" "us @ d # ys = m @ v" | (r) us where "u = xs @ us" "d # ys = us @ m @ v"
    by (auto simp: append_eq_append_conv2)
  then show ?thesis
  proof cases
    case l
    then consider (a) ws where "us = m @ ws" | (b) ws where "m = us @ ws" "ws \<noteq> []" "d # ys = ws @ v"
      by (cases "length m \<le> length us") (auto simp: append_eq_append_conv2)
    then show ?thesis
    proof cases
      case a
      then show ?thesis using l(1) by (auto simp: contains_sub_iff)
    next
      case b
      then show ?thesis using assms(2) by (cases ws) auto
    qed
  next
    case r
    then show ?thesis using assms(2) by (cases us) (auto simp: contains_sub_iff Cons_eq_append_conv, fastforce?)
  qed
qed

lemma contains_sub_digits:
  assumes "contains_sub m (xs @ ds @ ys)" "ds \<noteq> []" "list_all is_digit ds" "\<forall>c\<in>set m. \<not> is_digit c"
  shows "contains_sub m xs \<or> contains_sub m ys"
  using assms(2,1,3)
proof (induction ds arbitrary: xs rule: list_nonempty_induct)
  case (single d)
  then show ?case using contains_sub_split [of m xs d ys] assms(4) by auto
next
  case (cons d ds)
  have d: "d \<notin> set m" using cons.prems(2) assms(4) by auto
  have "contains_sub m xs \<or> contains_sub m ([] @ ds @ ys)"
    using contains_sub_split [of m xs d "ds @ ys"] cons.prems(1) d by simp
  then show ?case
  proof
    assume "contains_sub m ([] @ ds @ ys)"
    then have "contains_sub m [] \<or> contains_sub m ys" using cons.IH [of "[]"] cons.prems(2) by simp
    then show ?thesis by (cases "m = []") (auto simp: contains_sub_iff)
  qed simp
qed

lemma decimal_length: "n < 10 ^ k \<Longrightarrow> 0 < k \<Longrightarrow> length (decimal n) \<le> k"
proof (induction n arbitrary: k rule: decimal.induct)
  case (1 n)
  show ?case
  proof (cases "n < 10")
    case True
    then show ?thesis using 1 by (simp add: decimal.simps [of n])
  next
    case False
    then obtain l where l: "k = Suc l" "0 < l" using 1(2,3) by (cases k; cases "k - 1") auto
    then have "n div 10 < 10 ^ l" using 1(2) by (simp add: div_less_iff_less_mult mult.commute)
    then show ?thesis using 1(1) [of l] False l by (simp add: decimal.simps [of n])
  qed
qed

lemma decimal_chars: "c \<in> set (decimal n) \<Longrightarrow> is_digit c"
  using decimal_digits [of n] by (simp add: list_all_iff)

lemma digit_plain: "is_digit c \<Longrightarrow> is_ascii_printable c \<and> ascii_lower c = c"
  by (auto simp: is_digit_def is_ascii_printable_def ascii_lower_def Let_def)

lemma decimal_plain:
  "list_all is_ascii_printable (decimal n)" "to_ascii_lowercase (decimal n) = decimal n" "decimal n \<noteq> []"
  using digit_plain decimal_chars decimal_digits [of n]
  by (auto simp: list_all_iff to_ascii_lowercase_def intro!: map_idI)

lemma markers_no_digit: "m \<in> set summary_markers \<Longrightarrow> m \<noteq> [] \<and> (\<forall>c\<in>set m. \<not> is_digit c)"
  by (auto simp: summary_markers_def is_digit_def)

lemma summary_text:
  assumes "list_all is_ascii_printable t" "t \<noteq> []" "is_ascii_graphic (hd t)" "is_ascii_graphic (last t)" "length t \<le> 256"
    "\<forall>m\<in>set summary_markers. \<not> contains_sub m (to_ascii_lowercase t)"
  shows "trim t = t \<and> is_summary t"
proof -
  have "c \<in> set t \<Longrightarrow> is_ascii_printable c" for c using assms(1) by (simp add: list_all_iff)
  then have "CHR 0x0A \<notin> set t" "CHR 0x0D \<notin> set t" "CHR 0x00 \<notin> set t"
    by (fastforce simp: is_ascii_printable_def)+
  then show ?thesis using assms trim_printable [of t] by (simp add: is_summary_def max_summary_bytes_def)
qed

definition marked :: "string \<Rightarrow> bool" where
  "marked t \<longleftrightarrow> (\<exists>m\<in>set summary_markers. contains_sub m (to_ascii_lowercase t))"

lemma marked_decimal: "marked (a @ decimal n @ b) \<Longrightarrow> marked a \<or> marked b"
proof -
  assume "marked (a @ decimal n @ b)"
  then obtain m where m: "m \<in> set summary_markers"
    "contains_sub m (to_ascii_lowercase a @ decimal n @ to_ascii_lowercase b)"
    using decimal_plain(2) by (auto simp: marked_def to_ascii_lowercase_def)
  have "contains_sub m (to_ascii_lowercase a) \<or> contains_sub m (to_ascii_lowercase b)"
    by (rule contains_sub_digits [OF m(2) decimal_plain(3)])
      (use decimal_digits [of n] markers_no_digit [OF m(1)] in auto)
  then show ?thesis using m(1) by (auto simp: marked_def)
qed

lemma summary_joined:
  assumes "list_all is_ascii_printable a" "list_all is_ascii_printable b" "a \<noteq> []" "b \<noteq> []"
    "is_ascii_graphic (hd a)" "is_ascii_graphic (last b)" "length a + length b \<le> 236" "n < 2 ^ 64"
    "\<not> marked a" "\<not> marked b"
  shows "is_summary (trim (a @ decimal n @ b))"
proof -
  have "length (decimal n) \<le> 20" using decimal_length [of n 20] assms(8) by simp
  moreover have "\<forall>m\<in>set summary_markers. \<not> contains_sub m (to_ascii_lowercase (a @ decimal n @ b))"
    using marked_decimal [of a n b] assms(9,10) unfolding marked_def by blast
  ultimately have "trim (a @ decimal n @ b) = a @ decimal n @ b \<and> is_summary (a @ decimal n @ b)"
    using assms(1-8) decimal_plain(1) by (intro summary_text) simp_all
  then show ?thesis by simp
qed

definition words_ok :: "string \<Rightarrow> bool" where
  "words_ok t \<longleftrightarrow> list_all is_ascii_printable t \<and> t \<noteq> [] \<and> length t \<le> 64 \<and> \<not> marked t"

lemma summary_kept:
  assumes "list_all is_ascii_printable t" "t \<noteq> []" "is_ascii_graphic (hd t)" "is_ascii_graphic (last t)" "length t \<le> 256"
    "\<forall>m\<in>set summary_markers. \<not> contains_sub m (to_ascii_lowercase t)"
  shows "validate_summary t = Inr t"
  using summary_text [OF assms] by (simp add: valid_simps)

lemmas text_rules = is_ascii_printable_def is_ascii_graphic_def summary_markers_def to_ascii_lowercase_def
  ascii_lower_def starts_with_def

lemma sync_texts:
  "validate_summary ''GitHub sync queued'' = Inr ''GitHub sync queued''"
  "validate_summary ''GitHub sync running via gh read-only fallback'' = Inr ''GitHub sync running via gh read-only fallback''"
  "validate_summary ''GitHub sync cancellation requested'' = Inr ''GitHub sync cancellation requested''"
  "validate_summary ''GitHub sync cancelled before start'' = Inr ''GitHub sync cancelled before start''"
  by (rule summary_kept; simp add: text_rules)+

lemma ending_texts: "validate_summary stopped_text = Inr stopped_text" "validate_summary failed_text = Inr failed_text"
  unfolding stopped_text_def failed_text_def by (rule summary_kept; simp add: text_rules)+

lemma validated_summary: "validate_summary t = Inr t \<Longrightarrow> is_summary (trim t)"
  unfolding validate_summary_ok by blast

lemma ending_words: "words_ok ''GitHub sync cancelled after ''" "words_ok '' repositories''"
  "words_ok ''GitHub sync completed: ''" "words_ok '' repositories, ''" "words_ok '' work items''"
  "is_ascii_graphic (hd ''GitHub sync cancelled after '')" "is_ascii_graphic (last '' repositories'')"
  "is_ascii_graphic (hd ''GitHub sync completed: '')" "is_ascii_graphic (last '' work items'')"
  by (simp_all add: words_ok_def marked_def text_rules)

lemma ending_text:
  assumes "counters_fit r"
  shows "is_summary (trim (snd (snd (sync_ending f r))))"
proof -
  have one: "is_summary (trim (a @ decimal n @ b))"
    if "words_ok a" "words_ok b" "is_ascii_graphic (hd a)" "is_ascii_graphic (last b)" "n < 2 ^ 64" for a b n
    using that summary_joined [of a b n] by (simp add: words_ok_def)
  have two: "is_summary (trim (a @ decimal n @ b @ decimal k @ c))"
    if "words_ok a" "words_ok b" "words_ok c" "is_ascii_graphic (hd a)" "is_ascii_graphic (last c)" "n < 2 ^ 64" "k < 2 ^ 64"
    for a b c n k
  proof -
    have "\<not> marked (b @ decimal k @ c)" using that(2,3) marked_decimal [of b k c] by (auto simp: words_ok_def)
    then show ?thesis
      using that decimal_plain(1) [of k] decimal_length [of k 20]
      by (intro summary_joined) (simp_all add: words_ok_def)
  qed
  have "is_summary (trim (cancelled_text n))" if "n < 2 ^ 64" for n
    unfolding cancelled_text_def by (rule one [OF ending_words(1,2,6,7) that])
  moreover have "is_summary (trim (completed_text n k))" if "n < 2 ^ 64" "k < 2 ^ 64" for n k
    unfolding completed_text_def by (rule two [OF ending_words(3,4,5,8,9) that])
  moreover note ending_texts [THEN validated_summary]
  ultimately show ?thesis using assms by (cases r) (simp_all add: sync_ending_def counters_fit_def split_def)
qed

section \<open>One worker for one active job\<close>

definition row_in_phase :: "worker_phase \<Rightarrow> job \<Rightarrow> bool" where
  "row_in_phase ph j \<longleftrightarrow> job_kind j = GitHubSync \<and> is_summary (trim (job_summary j)) \<and> (case ph of
       Spawned \<Rightarrow> (job_state j = JobQueued \<and> job_generation j = 0) \<or> job_state j = JobCancelled
     | Leaving \<Rightarrow> True
     | _ \<Rightarrow> (job_state j = JobRunning \<and> job_generation j = 1) \<or> (job_state j = JobCancelling \<and> job_generation j = 2))"

definition sync_inv :: "sync_state \<Rightarrow> bool" where
  "sync_inv st \<longleftrightarrow> table_wf (st_jobs (sy_store st)) \<and>
     (sy_active st = [] \<and> sy_workers st = [] \<or>
      (\<exists>i f ph j. sy_active st = [(i, f)] \<and> sy_workers st = [(i, ph)] \<and>
         find_row i (st_jobs (sy_store st)) = Some j \<and> row_in_phase ph j))"

lemma cancel_write_row:
  assumes "table_wf (st_jobs s)" "cancel_write now i j s = (s', r)"
  shows "table_wf (st_jobs s') \<and> (\<forall>m. m \<noteq> i \<longrightarrow> find_row m (st_jobs s') = find_row m (st_jobs s)) \<and>
    (s' = s \<or> (\<exists>row c summary. find_row i (st_jobs s) = Some row \<and> is_summary (trim summary) \<and>
       ((job_state row = JobQueued \<and> find_row i (st_jobs s') = Some (advanced_job now JobCancelled c (trim summary) None row)) \<or>
        (job_state row = JobRunning \<and> find_row i (st_jobs s') = Some (advanced_job now JobCancelling c (trim summary) None row)))))"
proof (cases "cancel_transition (job_state j)")
  case None
  then show ?thesis using assms by (simp add: cancel_write_def)
next
  case (Some t)
  obtain state c summary where t: "t = (state, c, summary)" by (cases t)
  from Some have states: "(job_state j = JobQueued \<and> state = JobCancelled) \<or> (job_state j = JobRunning \<and> state = JobCancelling)"
    by (auto simp: cancel_transition_def t split: job_state.splits)
  show ?thesis
  proof (cases "transition_job now i (job_state j) state c summary None s")
    case (Inl e)
    then show ?thesis using assms Some by (simp add: cancel_write_def t)
  next
    case (Inr x)
    obtain g where g: "transition_job now i (job_state j) state c summary None s = Inr (s', g)"
      using Inr assms(2) Some by (cases x) (auto simp: cancel_write_def t)
    note row = transition_row [OF assms(1) g]
    show ?thesis
    proof (cases g)
      case False
      then show ?thesis using row assms(1) by simp
    next
      case True
      then obtain ja where "find_row i (st_jobs s) = Some ja" "job_state ja = job_state j" "is_summary (trim summary)"
        "find_row i (st_jobs s') = Some (advanced_job now state c (trim summary) None ja)"
        using row by auto
      then show ?thesis using row states by metis
    qed
  qed
qed

lemma row_in_phase_cancelled:
  assumes "row_in_phase ph row" "is_summary m" "trim m = m"
    "job_state row = JobQueued \<and> row' = advanced_job now JobCancelled c m k row \<or>
     job_state row = JobRunning \<and> row' = advanced_job now JobCancelling c m k row"
  shows "row_in_phase ph row'"
  using assms by (cases ph) (auto simp: row_in_phase_def)

lemma sync_inv_cancelled:
  assumes inv: "sync_inv st" and w: "cancel_write now i j (sy_store st) = (s', r)"
  shows "sync_inv (st\<lparr>sy_store := s', sy_cancels := cs\<rparr>)"
proof -
  have wf: "table_wf (st_jobs (sy_store st))" using inv by (simp add: sync_inv_def)
  note row = cancel_write_row [OF wf w]
  have "row_in_phase ph row \<Longrightarrow> find_row k (st_jobs (sy_store st)) = Some row \<Longrightarrow>
      \<exists>row'. find_row k (st_jobs s') = Some row' \<and> row_in_phase ph row'" for k ph row
    using row row_in_phase_cancelled [of ph row] trim_trim by (metis option.inject)
  then show ?thesis using inv row unfolding sync_inv_def by fastforce
qed

lemma worker_begin_row:
  assumes "table_wf (st_jobs s)" "worker_begin now i s = (s', started)" "find_row i (st_jobs s) = Some j"
    "row_in_phase Spawned j"
  shows "table_wf (st_jobs s') \<and> (\<forall>m. m \<noteq> i \<longrightarrow> find_row m (st_jobs s') = find_row m (st_jobs s)) \<and>
    (started \<longleftrightarrow> job_state j = JobQueued) \<and> (\<not> started \<longrightarrow> s' = s) \<and>
    (\<exists>j'. find_row i (st_jobs s') = Some j' \<and> row_in_phase (if started then Synchronizing else Leaving) j' \<and>
       (started \<longrightarrow> job_state j' = JobRunning))"
proof (cases "job_state j = JobQueued")
  case True
  note m = sync_texts(2) [THEN validated_summary]
  have "unat (job_generation j) < 100" using assms(4) True by (simp add: row_in_phase_def)
  from transition_goes [OF assms(1,3) True _ m this, of JobRunning now NotRequested None]
  obtain s1 where t: "transition_job now i JobQueued JobRunning NotRequested
      ''GitHub sync running via gh read-only fallback'' None s = Inr (s1, True)"
    by (auto simp: job_permits_def)
  then have s': "s' = s1" "started" using assms(2) by (simp_all add: worker_begin_def)
  show ?thesis using transition_row [OF assms(1) t] assms(3,4) True m
    by (auto simp: s' row_in_phase_def trim_trim)
next
  case False
  have "s' = s \<and> \<not> started"
  proof (cases "transition_job now i JobQueued JobRunning NotRequested
      ''GitHub sync running via gh read-only fallback'' None s")
    case (Inl e)
    then show ?thesis using assms(2) by (simp add: worker_begin_def)
  next
    case (Inr x)
    then show ?thesis using transition_row [OF assms(1), of now i JobQueued JobRunning NotRequested
      "''GitHub sync running via gh read-only fallback''" None "fst x" "snd x"] assms(2,3) False
      by (auto simp: worker_begin_def split: if_splits)
  qed
  then show ?thesis using assms False by (auto simp: row_in_phase_def)
qed

section \<open>The invariant\<close>

lemma worker_write_row:
  assumes "table_wf (st_jobs s)" "find_row i (st_jobs s) = Some j"
  shows "table_wf (st_jobs (worker_write now i current e s)) \<and>
    (\<forall>m. m \<noteq> i \<longrightarrow> find_row m (st_jobs (worker_write now i current e s)) = find_row m (st_jobs s)) \<and>
    (find_row i (st_jobs (worker_write now i current e s)) = Some j \<or>
     (job_state j = current \<and> is_summary (trim (snd (snd e))) \<and> find_row i (st_jobs (worker_write now i current e s)) =
       Some (advanced_job now (fst e) (fst (snd e)) (trim (snd (snd e))) None j)))"
proof (cases "transition_job now i current (fst e) (fst (snd e)) (snd (snd e)) None s")
  case (Inl x)
  then show ?thesis using assms by (simp add: worker_write_def)
next
  case (Inr x)
  obtain s' g where x: "x = (s', g)" by (cases x)
  show ?thesis using transition_row [OF assms(1) Inr [unfolded x]] assms
    by (cases g) (auto simp: worker_write_def Inr x)
qed

lemma row_in_phase_leaving: "row_in_phase ph j \<Longrightarrow> row_in_phase Leaving j"
  by (simp add: row_in_phase_def)

lemma sync_inv_worker:
  assumes inv: "sync_inv st" and w: "sy_workers st = [(i, ph)]" and step: "worker_step now i ph st = Some st'"
  shows "sync_inv st'"
proof -
  obtain f j where a: "sy_active st = [(i, f)]" "find_row i (st_jobs (sy_store st)) = Some j" "row_in_phase ph j"
    and wf: "table_wf (st_jobs (sy_store st))"
    using inv w by (auto simp: sync_inv_def)
  show ?thesis
  proof (cases ph)
    case Spawned
    obtain s started where b: "worker_begin now i (sy_store st) = (s, started)" by fastforce
    show ?thesis using worker_begin_row [OF wf b a(2)] a(1,3) step
      by (auto simp: Spawned worker_step_def b sync_inv_def)
  next
    case Synchronizing
    then show ?thesis using step by (simp add: worker_step_def)
  next
    case (Synchronized r)
    have v: "validate_summary (job_summary j) = Inr (trim (job_summary j))"
      using a(3) by (simp add: row_in_phase_def valid_simps)
    have "\<exists>j'. worker_read i (sy_store st) = Some j' \<and> job_state j' = job_state j"
      using a(2) by (simp add: worker_read_def load_job_def v)
    then show ?thesis using step a wf
      by (auto simp: Synchronized worker_step_def sync_inv_def row_in_phase_def)
  next
    case (Current j' r)
    then show ?thesis using step a wf by (auto simp: worker_step_def sync_inv_def row_in_phase_def)
  next
    case (Ending current e)
    show ?thesis using worker_write_row [OF wf a(2), of now current e] step a
      by (auto simp: Ending worker_step_def sync_inv_def row_in_phase_def trim_trim)
  next
    case Leaving
    then show ?thesis using step a wf by (auto simp: worker_step_def sync_inv_def)
  qed
qed

text \<open>What a granted start leaves.\<close>

definition started_with :: "uuid \<Rightarrow> job \<Rightarrow> sync_state \<Rightarrow> sync_state \<Rightarrow> bool" where
  "started_with fresh j st st' \<longleftrightarrow> sy_active st = [] \<and> sy_active st' = [(fresh, False)] \<and>
     sy_workers st' = sy_workers st @ [(fresh, Spawned)] \<and> sy_cancels st' = sy_cancels st \<and>
     \<not> has_row fresh (st_jobs (sy_store st)) \<and> st_jobs (sy_store st') = st_jobs (sy_store st) @ [(fresh, j)] \<and>
     job_state j = JobQueued \<and> job_kind j = GitHubSync \<and> job_generation j = 0 \<and> is_summary (trim (job_summary j))"

lemma sync_act_start:
  assumes "sync_act (StartSync fresh now) st = Some st'"
  shows "st' = st \<or> (\<exists>j. started_with fresh j st st')"
proof -
  obtain s active r where r: "github_sync_start fresh now (sy_active st) (sy_store st) = ((s, active), r)"
    by (metis prod.exhaust)
  show ?thesis
  proof (cases r)
    case (Inl e)
    then show ?thesis using assms by (simp add: sync_act_def r)
  next
    case (Inr j)
    have "st' = st\<lparr>sy_store := s, sy_active := active, sy_workers := sy_workers st @ [(job_id j, Spawned)]\<rparr>"
      using assms by (simp add: sync_act_def r Inr)
    then show ?thesis using sync_start_ok [OF r [unfolded Inr]] by (auto simp: started_with_def)
  qed
qed

lemma sync_inv_act:
  assumes inv: "sync_inv st" and act: "sync_act a st = Some st'"
  shows "sync_inv st'"
proof (cases a)
  case (StartSync fresh now)
  then consider "st' = st" | j where "started_with fresh j st st'" using act sync_act_start by blast
  then show ?thesis
  proof cases
    case 1
    then show ?thesis using inv by simp
  next
    case (2 j)
    have "find_row fresh (st_jobs (sy_store st')) = Some j"
      using 2 by (simp add: started_with_def find_row_append_new has_row_def)
    then show ?thesis using 2 inv by (auto simp: started_with_def sync_inv_def row_in_phase_def)
  qed
next
  case (CancelRequest i)
  then show ?thesis using act inv by (auto simp: sync_act_def sync_inv_def split: sum.splits)
next
  case (CancelStep n now)
  then have n: "n < length (sy_cancels st)" and st': "st' = cancel_step now n (sy_cancels st ! n) st"
    using act by (auto simp: sync_act_def split: if_splits)
  show ?thesis
  proof (cases "sy_cancels st ! n")
    case (Transitioning i j)
    obtain s r where r: "cancel_write now i j (sy_store st) = (s, r)" by fastforce
    show ?thesis using sync_inv_cancelled [OF inv r] inv
      by (cases r) (auto simp: st' Transitioning cancel_step_def r sync_inv_def)
  next
    case (Signalling i)
    then show ?thesis using inv by (auto simp: st' cancel_step_def sync_inv_def cancel_signal_def)
  qed
next
  case (WorkerStep now)
  then show ?thesis using act inv sync_inv_worker
    by (auto simp: sync_act_def split: list.splits prod.splits)
next
  case (SyncEnds r)
  then show ?thesis using act inv
    by (auto simp: sync_act_def sync_inv_def row_in_phase_def split: list.splits prod.splits worker_phase.splits if_splits)
next
  case (StoreChange s)
  then have s: "table_wf (st_jobs s)" "sync_rows s = sync_rows (sy_store st)" "st' = st\<lparr>sy_store := s\<rparr>"
    using act by (auto simp: sync_act_def split: if_splits)
  show ?thesis using inv sync_row_kept [OF s(1,2)] by (auto simp: s sync_inv_def row_in_phase_def)
next
  case (RestartEngine now)
  then show ?thesis using act inv recover_jobs_wf
    by (auto simp: sync_act_def sync_inv_def recover_interrupted_jobs_def split: sum.splits)
qed

lemma sync_inv_acts: "sync_inv st \<Longrightarrow> sync_acts as st = Some st' \<Longrightarrow> sync_inv st'"
  by (induction "as" arbitrary: st) (auto simp: bind_eq_Some_conv dest: sync_inv_act)

lemma sync_inv_started: "table_wf (st_jobs s) \<Longrightarrow> sync_inv (engine_started s)"
  by (simp add: sync_inv_def engine_started_def)

end
