(* ===== verification/Source_Properties.thy ===== *)
theory Source_Properties
  imports GitHub_Snapshot Samples
begin

text \<open>
  The properties of the read client: when a pagination ends and when it never does, that the token stays
  with the origin of the API, and how large and how consistent a snapshot is.
\<close>

section \<open>Requests and results of composed fetches\<close>

definition fetched_ok :: "'a fetched \<Rightarrow> 'a \<Rightarrow> bool" where
  "fetched_ok r a \<longleftrightarrow> snd r = Some (Inr a)"

lemma fetched_then [simp]: "fetched_ok (fetch_then r f) b \<longleftrightarrow> (\<exists>a. fetched_ok r a \<and> fetched_ok (f a) b)"
  by (auto simp: fetched_ok_def fetch_then_def split: prod.splits option.splits sum.splits)

lemma fetched_done [simp]: "fetched_ok (fetch_done r) b \<longleftrightarrow> r = Inr b"
  by (simp add: fetched_ok_def fetch_done_def)

lemma requests_then:
  assumes "list_all P (fst r)" "\<And>a. fetched_ok r a \<Longrightarrow> list_all P (fst (f a))"
  shows "list_all P (fst (fetch_then r f))"
  using assms by (auto simp: fetch_then_def fetched_ok_def split: prod.splits option.splits sum.splits)

lemma requests_done [simp]: "list_all P (fst (fetch_done r))"
  by (simp add: fetch_done_def)

lemma join_results_ok: "join_results rs = Some (Inr vs) \<longleftrightarrow> rs = map (Some \<circ> Inr) vs"
proof (induction rs arbitrary: vs rule: join_results.induct)
  case (4 a rs)
  have map: "Some (Inr a) # rs = map (Some \<circ> Inr) vs \<longleftrightarrow> (\<exists>ws. vs = a # ws \<and> join_results rs = Some (Inr ws))"
    by (cases vs) (auto simp: 4)
  have join: "join_results (Some (Inr a) # rs) = Some (Inr vs) \<longleftrightarrow> (\<exists>ws. vs = a # ws \<and> join_results rs = Some (Inr ws))"
    by (auto simp: result_simps)
  show ?case unfolding map join ..
qed (auto simp: Cons_eq_map_conv)

lemma joined_ok: "fetched_ok (join_jobs order job) vs \<longleftrightarrow> list_all2 (\<lambda>i a. fetched_ok (job i) a) order vs"
  by (auto simp: fetched_ok_def join_jobs_def join_results_ok list_all2_conv_all_nth list_eq_iff_nth_eq)

lemma requests_joined:
  "(\<And>i. i \<in> set order \<Longrightarrow> list_all P (fst (job i))) \<Longrightarrow> list_all P (fst (join_jobs order job))"
  by (auto simp: join_jobs_def list_all_iff)

section \<open>Paginations\<close>

lemma paginate_ends:
  assumes progress: "\<And>n rq page. and_then (reply_body (net n rq)) rows = Inr page \<Longrightarrow> next_url src (net n rq) \<noteq> None \<Longrightarrow> page \<noteq> []"
    and "length acc < limit" "limit \<le> length acc + fuel"
  shows "snd (paginate src net rows limit fuel n url acc) \<noteq> None \<and>
    length (fst (paginate src net rows limit fuel n url acc)) \<le> limit - length acc"
  using assms(2,3)
proof (induction fuel arbitrary: n url acc)
  case 0
  then show ?case by simp
next
  case (Suc fuel)
  define rq where "rq = source_request src GET url None"
  show ?case
  proof (cases "and_then (reply_body (net n rq)) rows")
    case (Inl e)
    with Suc.prems show ?thesis by (simp add: rq_def [symmetric])
  next
    case page: (Inr page)
    show ?thesis
    proof (cases "length (acc @ page) < limit \<and> next_url src (net n rq) \<noteq> None")
      case False
      with page Suc.prems show ?thesis by (auto simp: rq_def [symmetric] split: option.splits)
    next
      case True
      then obtain url' where url': "next_url src (net n rq) = Some url'" by auto
      have "page \<noteq> []" using progress [OF page] url' by simp
      then have len: "length acc < length (acc @ page)" by simp
      have step: "paginate src net rows limit (Suc fuel) n url acc =
          (rq # fst (paginate src net rows limit fuel (n + 1) url' (acc @ page)),
           snd (paginate src net rows limit fuel (n + 1) url' (acc @ page)))"
        using page True url' by (simp add: rq_def [symmetric] Let_def)
      have fewer: "length (acc @ page) < limit" using True by blast
      moreover have "limit \<le> length (acc @ page) + fuel" using len Suc.prems(2) by linarith
      ultimately have "snd (paginate src net rows limit fuel (n + 1) url' (acc @ page)) \<noteq> None \<and>
          length (fst (paginate src net rows limit fuel (n + 1) url' (acc @ page))) \<le> limit - length (acc @ page)"
        by (rule Suc.IH)
      then show ?thesis unfolding step fst_conv snd_conv list.size using len fewer by linarith
    qed
  qed
qed

lemma paginate_asks: "fst (paginate src net rows limit (Suc fuel) n url acc) \<noteq> []"
  by (simp add: Let_def split: sum.split option.split)

lemma paginate_limited:
  "fetched_ok (paginate src net rows limit fuel n url acc) vs \<Longrightarrow> length acc \<le> limit \<Longrightarrow> length vs \<le> limit"
  by (induction src net rows limit fuel n url acc rule: paginate.induct)
    (auto simp: fetched_ok_def Let_def split: sum.splits if_splits option.splits)

lemma paginate_stuck:
  assumes "\<And>n rq. and_then (reply_body (net n rq)) rows = Inr [] \<and> next_url src (net n rq) \<noteq> None" "length acc < limit"
  shows "snd (paginate src net rows limit fuel n url acc) = None \<and>
    length (fst (paginate src net rows limit fuel n url acc)) = fuel"
proof (induction fuel arbitrary: n url)
  case (Suc fuel)
  define rq where "rq = source_request src GET url None"
  obtain url' where "next_url src (net n rq) = Some url'" "and_then (reply_body (net n rq)) rows = Inr []"
    using assms(1) [of n rq] by auto
  with Suc assms(2) show ?case by (simp add: rq_def [symmetric])
qed simp

section \<open>Where requests go\<close>

definition at_origin :: "github_source \<Rightarrow> http_request \<Rightarrow> bool" where
  "at_origin src rq \<longleftrightarrow> rq_bearer rq = so_token src \<and> uf_same_origin (so_urls src) (so_base_url src) (rq_url rq)"

text \<open>A path of the API: a slash, and then a letter or digit, whatever follows.\<close>

definition rooted :: "string \<Rightarrow> bool" where
  "rooted path \<longleftrightarrow> (\<exists>c p. path = CHR ''/'' # c # p \<and> is_ascii_alphanumeric c)"

text \<open>What the URL standard says of \<open>Url::join\<close> when the base has the scheme \<open>http\<close> or \<open>https\<close>: after a slash
  and a character that is neither a slash of either kind nor one that the parser skips (tab, newline), the
  rest is path, query and fragment, and the origin is that of the base.\<close>

definition joins_at_origin :: "github_source \<Rightarrow> bool" where
  "joins_at_origin src \<longleftrightarrow> (\<forall>path url. rooted path \<longrightarrow> uf_join (so_urls src) (so_base_url src) path = Some url \<longrightarrow>
     uf_same_origin (so_urls src) (so_base_url src) url)"

lemma rooted_append: "rooted p \<Longrightarrow> rooted (p @ q)"
  by (auto simp: rooted_def)

lemma rooted_repos: "rooted (''/repos/'' @ p)" "rooted ''/graphql''" "rooted ''/user''"
  by (simp_all add: rooted_def is_ascii_alphanumeric_def)

lemma source_request_origin:
  "joins_at_origin src \<Longrightarrow> rooted path \<Longrightarrow> uf_join (so_urls src) (so_base_url src) path = Some url \<Longrightarrow>
     at_origin src (source_request src m url body)"
  unfolding joins_at_origin_def at_origin_def source_request_def by simp

lemma get_origin:
  "joins_at_origin src \<Longrightarrow> rooted path \<Longrightarrow> list_all (at_origin src) (fst (source_get src ask decode path))"
  by (auto simp: source_get_def Let_def source_request_origin split: option.split)

lemma graphql_origin: "joins_at_origin src \<Longrightarrow> list_all (at_origin src) (fst (source_graphql src ask body))"
  using source_request_origin [OF _ rooted_repos(2)]
  by (auto simp: source_graphql_def Let_def split: option.split)

lemma paginate_origin:
  assumes "uf_same_origin (so_urls src) (so_base_url src) url"
  shows "list_all (at_origin src) (fst (paginate src net rows limit fuel n url acc))"
  using assms
proof (induction fuel arbitrary: n url acc)
  case (Suc fuel)
  define rq where "rq = source_request src GET url None"
  have rq: "at_origin src rq" using Suc.prems by (simp add: rq_def at_origin_def source_request_def)
  have "uf_same_origin (so_urls src) (so_base_url src) url'" if "next_url src (net n rq) = Some url'" for url'
    using that by (auto simp: next_url_def same_origin_url_def bind_eq_Some_conv result_simps split: source_reply.splits)
  with Suc.IH rq show ?case
    by (simp add: rq_def [symmetric] Let_def split: sum.split option.split)
qed simp

lemma paginated_origin:
  assumes "joins_at_origin src" "rooted path"
  shows "list_all (at_origin src) (fst (paginated_rows src net fuel rows path limit))"
proof (cases "uf_join (so_urls src) (so_base_url src) path")
  case (Some url)
  then have "uf_same_origin (so_urls src) (so_base_url src) url" using assms by (simp add: joins_at_origin_def)
  with Some show ?thesis by (simp add: paginated_rows_def paginate_origin)
qed (simp add: paginated_rows_def)

lemma threads_origin:
  "joins_at_origin src \<Longrightarrow> list_all (at_origin src) (fst (threads_loop src net owner name number limit fuel n after acc))"
proof (induction fuel arbitrary: n after acc)
  case (Suc fuel)
  then show ?case
    by (auto intro!: requests_then graphql_origin split: sum.split prod.split bool.split option.split)
qed simp

lemmas origin_intros = requests_then requests_done requests_joined get_origin paginated_origin threads_origin
  rooted_append

lemma enrich_origin: "joins_at_origin src \<Longrightarrow> rooted base \<Longrightarrow> list_all (at_origin src) (fst (enrich_pulls src w base pulls))"
  unfolding enrich_pulls_def enrich_pull_def by (intro origin_intros)

lemma reviews_origin:
  "joins_at_origin src \<Longrightarrow> rooted base \<Longrightarrow> list_all (at_origin src) (fst (reviews_of_pull src net fuel base limit p))"
  unfolding reviews_of_pull_def paginated_def by (intro origin_intros)

lemma review_threads_origin:
  "joins_at_origin src \<Longrightarrow> list_all (at_origin src) (fst (review_threads src w fuel base pulls limit))"
  unfolding review_threads_def review_threads_for_pull_def
  by (auto intro!: origin_intros split: option.split)

lemma discussions_origin:
  "joins_at_origin src \<Longrightarrow> rooted base \<Longrightarrow> list_all (at_origin src) (fst (discussions src w fuel base pulls limit k))"
  unfolding discussions_def paginated_def by (intro origin_intros reviews_origin review_threads_origin)

lemma checks_origin:
  "joins_at_origin src \<Longrightarrow> rooted base \<Longrightarrow> list_all (at_origin src) (fst (pull_checks src w fuel base pulls k))"
  unfolding pull_checks_def checks_of_pull_def paginated_field_def by (intro origin_intros)

lemma snapshot_origin:
  "joins_at_origin src \<Longrightarrow> list_all (at_origin src) (fst (repository_snapshot src w fuel repository requested))"
  unfolding repository_snapshot_def Let_def paginated_def paginated_field_def
  by (auto split: option.split simp del: append_Cons append_assoc
    intro!: origin_intros rooted_repos enrich_origin discussions_origin checks_origin)

lemma repositories_origin:
  "joins_at_origin src \<Longrightarrow> list_all (at_origin src) (fst (source_repositories src net fuel limit))"
  unfolding source_repositories_def paginated_def
  by (intro paginated_origin, assumption, unfold rooted_def, rule exI, rule exI, rule conjI, rule refl)
    (simp add: is_ascii_alphanumeric_def)

lemma repository_origin:
  "joins_at_origin src \<Longrightarrow> list_all (at_origin src) (fst (source_repository src net full_name))"
  unfolding source_repository_def
  by (auto split: option.split simp del: append_Cons append_assoc intro!: origin_intros rooted_repos)

section \<open>The size of what is fetched\<close>

definition joins_all :: "snapshot_world \<Rightarrow> bool" where
  "joins_all w \<longleftrightarrow> (\<forall>ph n. mset (sw_order w ph n) = mset [0..<n])"

lemma joined_length: "joins_all w \<Longrightarrow> fetched_ok (join_jobs (sw_order w ph n) job) vs \<Longrightarrow> length vs = n"
  unfolding joins_all_def joined_ok by (metis list_all2_lengthD mset_eq_length length_upt minus_nat.diff_0)

lemma joined_each:
  assumes "joins_all w" "fetched_ok (join_jobs (sw_order w ph n) job) vs" "v \<in> set vs"
  shows "\<exists>i < n. fetched_ok (job i) v"
proof -
  obtain k where k: "k < length vs" "vs ! k = v" using assms(3) by (auto simp: in_set_conv_nth)
  then have "fetched_ok (job (sw_order w ph n ! k)) v" "k < length (sw_order w ph n)"
    using assms(2) by (auto simp: joined_ok list_all2_conv_all_nth)
  moreover have "set (sw_order w ph n) = {0..<n}"
    using assms(1) unfolding joins_all_def by (metis set_mset_mset set_upt)
  ultimately show ?thesis by (metis atLeastLessThan_iff nth_mem)
qed

lemma paginated_length: "fetched_ok (paginated_rows src net fuel rows path limit) vs \<Longrightarrow> length vs \<le> limit"
  by (auto simp: paginated_rows_def split: option.splits dest: paginate_limited)

lemma add_threads_length:
  "add_threads number limit nodes acc = (full, vs) \<Longrightarrow> length acc < limit \<Longrightarrow> length vs \<le> limit \<and> (\<not> full \<longrightarrow> length vs < limit)"
  by (induction number limit nodes acc rule: add_threads.induct) (auto split: option.splits if_splits)

lemma threads_length:
  "fetched_ok (threads_loop src net owner name number limit fuel n after acc) vs \<Longrightarrow> length acc < limit \<Longrightarrow> length vs \<le> limit"
proof (induction fuel arbitrary: n after acc)
  case 0
  then show ?case by (simp add: fetched_ok_def)
next
  case (Suc fuel)
  then obtain response where r: "fetched_ok (case threads_page response of Inl e \<Rightarrow> fetch_done (Inl e)
     | Inr (c, nodes) \<Rightarrow> (case add_threads number limit nodes acc of
           (True, acc) \<Rightarrow> fetch_done (Inr acc)
         | (False, acc) \<Rightarrow>
             if bool_at [''pageInfo'', ''hasNextPage''] c \<noteq> Some True then fetch_done (Inr acc)
             else (case str_at [''pageInfo'', ''endCursor''] c of
                 None \<Rightarrow> fetch_done (Inl CursorMissing)
               | Some cursor \<Rightarrow> threads_loop src net owner name number limit fuel (n + 1) (Some cursor) acc))) vs" by auto
  then obtain c nodes where page: "threads_page response = Inr (c, nodes)"
    by (cases "threads_page response") auto
  obtain full acc' where add: "add_threads number limit nodes acc = (full, acc')" by (metis surj_pair)
  note len = add_threads_length [OF add Suc.prems(2)]
  show ?case
  proof (cases full)
    case True
    with r page add len show ?thesis by simp
  next
    case False
    with r page add len show ?thesis
      by (auto split: if_splits option.splits dest: Suc.IH)
  qed
qed

lemma concat_length: "(\<And>v. v \<in> set vs \<Longrightarrow> length v \<le> k) \<Longrightarrow> length (concat vs) \<le> length vs * k"
  by (induction vs) (auto simp: add_mono)

lemma per_pull_bound:
  assumes "1 \<le> limit" "limit \<le> 100" "n \<le> limit" "k = snd (bounded_snapshot_limits limit n)"
  shows "1 \<le> k" "n * k \<le> 2 * limit"
proof -
  have k: "k = max ((limit + max n 1 - 1) div max n 1) 1"
    using assms(1,2,4) by (simp add: bounded_snapshot_limits_def max_snapshot_resources_def Let_def)
  then show "1 \<le> k" by simp
  have "n * ((limit + max n 1 - 1) div max n 1) \<le> limit + n"
    by (cases "n = 0") (auto intro: order_trans [OF times_div_less_eq_dividend])
  moreover have "n * k \<le> max (n * ((limit + max n 1 - 1) div max n 1)) n" unfolding k by (simp add: max_def)
  ultimately show "n * k \<le> 2 * limit" using assms(3) by linarith
qed

lemma enriched:
  assumes "joins_all w" "fetched_ok (enrich_pulls src w base rows) es"
  shows "length es = length rows" "sorted (map (pull_number \<circ> en_pull) es)"
proof -
  obtain vs where "fetched_ok (join_jobs (sw_order w EnrichPhase (length rows))
      (\<lambda>i. enrich_pull src (sw_net w (PullDetail i)) base (rows ! i))) vs" and es: "es = sort_key (pull_number \<circ> en_pull) vs"
    using assms(2) by (auto simp: enrich_pulls_def)
  then show "length es = length rows" using joined_length [OF assms(1)] by simp
  show "sorted (map (pull_number \<circ> en_pull) es)" unfolding es by (rule sorted_sort_key)
qed

lemma checks_fetched:
  assumes "joins_all w" "fetched_ok (pull_checks src w fuel base pulls k) cs"
  shows "length cs \<le> length pulls * k" "gc_item_number ` set cs \<subseteq> pull_number ` set pulls"
proof -
  obtain vs where vs: "fetched_ok (join_jobs (sw_order w CheckPhase (length pulls))
      (\<lambda>i. checks_of_pull src (sw_net w (PullChecks i)) fuel base k (pulls ! i))) vs" and cs: "cs = concat vs"
    using assms(2) by (auto simp: pull_checks_def)
  have each: "length v \<le> k \<and> gc_item_number ` set v \<subseteq> pull_number ` set pulls" if v: "v \<in> set vs" for v
  proof -
    obtain i where i: "i < length pulls" "fetched_ok (checks_of_pull src (sw_net w (PullChecks i)) fuel base k (pulls ! i)) v"
      using joined_each [OF assms(1) vs v] by blast
    then obtain rs where "fetched_ok (paginated_rows src (sw_net w (PullChecks i)) fuel (page_rows decode_check_run (Some ''check_runs''))
        (base @ ''/commits/'' @ wr_sha (wp_head (pulls ! i)) @ ''/check-runs?per_page=100'') k) rs"
      and v': "v = map (check_of_wire (pull_number (pulls ! i))) rs"
      by (auto simp: checks_of_pull_def paginated_field_def simp del: append_Cons)
    then have "length rs \<le> k" by (blast dest: paginated_length)
    with v' i(1) show ?thesis by (auto simp: check_of_wire_def)
  qed
  then show "length cs \<le> length pulls * k"
    using concat_length [of vs k] joined_length [OF assms(1) vs] by (simp add: cs)
  show "gc_item_number ` set cs \<subseteq> pull_number ` set pulls" using each by (fastforce simp: cs)
qed

lemma discussions_fetched:
  assumes "joins_all w" "fetched_ok (discussions src w fuel base pulls limit k) ds" "1 \<le> k"
  shows "length ds \<le> 2 * limit + 2 * (length pulls * k)"
proof -
  obtain cs rcs rss ts where
    cs: "fetched_ok (paginated src (sw_net w IssueComments) fuel decode_comment (base @ ''/issues/comments?per_page=100'') limit) cs"
    and rcs: "fetched_ok (paginated src (sw_net w ReviewComments) fuel decode_review_comment (base @ ''/pulls/comments?per_page=100'') limit) rcs"
    and rss: "fetched_ok (join_jobs (sw_order w ReviewPhase (length pulls)) (\<lambda>i. reviews_of_pull src (sw_net w (Reviews i)) fuel base k (pulls ! i))) rss"
    and ts: "fetched_ok (review_threads src w fuel base pulls k) ts"
    and ds: "ds = List.map_filter (discussion_of_comment ''issueComment'') cs
       @ List.map_filter discussion_of_review_comment rcs @ concat rss @ ts"
    using assms(2) unfolding discussions_def fetched_then fetched_done by blast
  have len: "length cs \<le> limit" "length rcs \<le> limit"
    using cs rcs unfolding paginated_def by (blast dest: paginated_length)+
  have sub: "length (List.map_filter f xs) \<le> length xs" for f :: "'x \<Rightarrow> 'y option" and xs
    by (induction xs) (auto simp: List.map_filter_simps split: option.split)
  have reviews: "length (concat rss) \<le> length pulls * k"
  proof -
    have "length v \<le> k" if v: "v \<in> set rss" for v
      using joined_each [OF assms(1) rss v] paginated_length
      by (fastforce simp: reviews_of_pull_def paginated_def simp del: append_Cons)
    then show ?thesis using concat_length [of rss k] joined_length [OF assms(1) rss] by simp
  qed
  have threads: "length ts \<le> length pulls * k"
  proof -
    obtain owner name tss where tss: "fetched_ok (join_jobs (sw_order w ThreadPhase (length (open_pulls pulls)))
        (\<lambda>i. review_threads_for_pull src (sw_net w (Threads i)) fuel owner name (pull_number (open_pulls pulls ! i)) k)) tss"
      and "ts = concat tss"
      using ts by (auto simp: review_threads_def split: option.splits)
    moreover have "length v \<le> k" if v: "v \<in> set tss" for v
      using joined_each [OF assms(1) tss v] assms(3) threads_length [where acc = "[]"]
      by (fastforce simp: review_threads_for_pull_def)
    moreover have "length tss = length (open_pulls pulls)" using joined_length [OF assms(1) tss] .
    moreover have "length (open_pulls pulls) * k \<le> length pulls * k" by (simp add: open_pulls_def)
    ultimately show ?thesis using concat_length [of tss k] by (metis order_trans)
  qed
  show ?thesis unfolding ds length_append
    using len reviews threads sub [of "discussion_of_comment ''issueComment''" cs] sub [of discussion_of_review_comment rcs]
    by linarith
qed

lemma rows_fetched:
  assumes "fetched_ok (paginated_rows src net fuel rows path (fst (bounded_snapshot_limits requested 0))) vs"
  shows "length vs \<le> 100"
  using paginated_length [OF assms] snapshot_limits_bounds by (metis order_trans surjective_pairing)

section \<open>Properties\<close>

text \<open>C17: Termination. A pagination ends when every page that names a next page holds a row: after at most as many
  requests as rows are wanted, with an error or with at most that many rows. The loop of the source has no
  other bound; the fuel of the model needs to be no larger than the limit.\<close>

theorem pagination_ends:
  assumes "\<And>n rq page. and_then (reply_body (net n rq)) rows = Inr page \<Longrightarrow> next_url src (net n rq) \<noteq> None \<Longrightarrow> page \<noteq> []"
    and "0 < limit" "limit \<le> fuel"
  shows "\<exists>requests r. paginated_rows src net fuel rows path limit = (requests, Some r) \<and> length requests \<le> limit \<and>
    (case r of Inl _ \<Rightarrow> True | Inr vs \<Rightarrow> length vs \<le> limit)"
proof (cases "uf_join (so_urls src) (so_base_url src) path")
  case None
  then show ?thesis using assms(2) by (auto simp: paginated_rows_def fetch_done_def)
next
  case (Some url)
  then have p: "paginated_rows src net fuel rows path limit = paginate src net rows limit fuel 0 url []"
    by (simp add: paginated_rows_def)
  have "snd (paginate src net rows limit fuel 0 url []) \<noteq> None"
    "length (fst (paginate src net rows limit fuel 0 url [])) \<le> limit"
    using paginate_ends [where acc = "[]" and limit = limit and fuel = fuel and n = 0 and url = url, OF assms(1)] assms(2,3) by auto
  then obtain ts r where t: "paginate src net rows limit fuel 0 url [] = (ts, Some r)" "length ts \<le> limit"
    by (metis not_None_eq prod.collapse)
  moreover have "length vs \<le> limit" if "r = Inr vs" for vs
    using paginate_limited [of src net rows limit fuel 0 url "[]" vs] t(1) that by (simp add: fetched_ok_def)
  ultimately show ?thesis unfolding p by (auto split: sum.split)
qed

text \<open>A service that answers every request with one page of one row and no link.\<close>

definition plain_urls :: url_functions where
  "plain_urls = \<lparr>uf_parse = (\<lambda>_. True), uf_join = (\<lambda>base path. if starts_with base path then Some path else Some (base @ path)),
     uf_same_origin = starts_with\<rparr>"

definition sample_source :: github_source where
  "sample_source = \<lparr>so_urls = plain_urls, so_base_url = ''b'', so_token = ''k''\<rparr>"

definition one_page :: network where
  "one_page n rq = SourceReply 200 None (Some (JArray [JNull]))"

theorem pagination_ends_witness:
  "\<exists>requests r. paginated sample_source one_page 5 Some ''/user'' 5 = (requests, Some r) \<and> length requests \<le> 5"
  using pagination_ends [where net = one_page and rows = "page_rows Some None" and src = sample_source and
      path = "''/user''" and limit = 5 and fuel = 5]
  by (fastforce simp: one_page_def next_url_def paginated_def)

text \<open>Error behaviour. Pages without rows that go on naming a next page of the same origin keep a pagination
  running for ever: whatever the number of requests, it has no result yet. Nothing but the service's good
  behaviour ends the loop, which a bound on the pages would.\<close>

theorem empty_pages_never_end:
  assumes "\<And>n rq. and_then (reply_body (net n rq)) rows = Inr [] \<and> next_url src (net n rq) \<noteq> None"
    and "uf_join (so_urls src) (so_base_url src) path = Some url" "0 < limit"
  shows "\<forall>fuel. snd (paginated_rows src net fuel rows path limit) = None \<and>
    length (fst (paginated_rows src net fuel rows path limit)) = fuel"
  using paginate_stuck [where acc = "[]" and limit = limit, OF assms(1)] assms(2,3) by (auto simp: paginated_rows_def)

text \<open>The link of an endless page: \<open><b>;rel="next"\<close>.\<close>

definition endless_link :: string where
  "endless_link = ''<b>;rel='' @ [CHR 0x22] @ ''next'' @ [CHR 0x22]"

definition endless_pages :: network where
  "endless_pages n rq = SourceReply 200 (Some endless_link) (Some (JArray []))"

lemma endless_next: "next_link endless_link = Some ''b''"
proof -
  have split: "split_on CHR '','' endless_link = [endless_link]" by (simp add: endless_link_def)
  have "trim endless_link = endless_link" "trim ''<b>'' = ''<b>''"
    "trim (''rel='' @ [CHR 0x22] @ ''next'' @ [CHR 0x22]) = ''rel='' @ [CHR 0x22] @ ''next'' @ [CHR 0x22]"
    by (rule trim_word; simp add: endless_link_def is_ascii_graphic_def)+
  moreover have "split_once CHR '';'' endless_link = Some (''<b>'', ''rel='' @ [CHR 0x22] @ ''next'' @ [CHR 0x22])"
    by (simp add: split_once_def endless_link_def)
  ultimately show ?thesis
    by (simp add: next_link_def split next_link_part_def List.map_filter_simps trim_end_matches_def trim_start_matches_def)
qed

theorem empty_pages_never_end_witness:
  "\<forall>fuel. snd (paginated sample_source endless_pages fuel Some ''/user'' 5) = None"
proof -
  have "and_then (reply_body (endless_pages n rq)) (page_rows Some None) = Inr [] \<and>
      next_url sample_source (endless_pages n rq) \<noteq> None" for n rq
    by (simp add: endless_pages_def reply_body_def is_success_def page_rows_def decode_list_def as_array_def ok_or_def
      next_url_def endless_next same_origin_url_def sample_source_def plain_urls_def starts_with_def filter_option_def)
  from empty_pages_never_end [where path = "''/user''" and url = "''b/user''" and limit = 5, OF this] show ?thesis
    by (simp add: paginated_def sample_source_def plain_urls_def starts_with_def)
qed


lemma sample_joins: "joins_at_origin sample_source"
  by (auto simp: joins_at_origin_def sample_source_def plain_urls_def starts_with_def split: if_splits)


text \<open>C18: Bounds and consistency of a snapshot. It holds at most 200 work items, 600 discussions, 200 checks and 100
  workflow runs, whatever limit is asked for. The pull requests come in the order of their numbers, each with the
  CI health of its own checks and the review decision of its own reviews in this snapshot; every check belongs to
  one of them; the repository's count of open pull requests counts the open ones of the snapshot.\<close>

theorem snapshot_sound:
  assumes "repository_snapshot src w fuel repository requested = (requests, Some (Inr snap))" "joins_all w"
  shows "length (gs_work_items snap) \<le> 200 \<and> length (gs_discussions snap) \<le> 600 \<and> length (gs_checks snap) \<le> 200 \<and>
    length (gs_workflow_runs snap) \<le> 100 \<and>
    (\<forall>item \<in> set (gs_work_items snap). wi_repository_full_name item = gr_full_name repository \<and>
      (wi_kind item = PullRequestItem \<longrightarrow>
        wi_ci_health item = Some (ci_health (filter (\<lambda>c. gc_item_number c = wi_number item) (gs_checks snap))) \<and>
        wi_review_decision item = review_decision (filter (\<lambda>d. gd_item_number d = wi_number item) (gs_discussions snap)))) \<and>
    sorted (map wi_number (filter (\<lambda>item. wi_kind item = PullRequestItem) (gs_work_items snap))) \<and>
    gc_item_number ` set (gs_checks snap) \<subseteq> wi_number ` set (filter (\<lambda>item. wi_kind item = PullRequestItem) (gs_work_items snap)) \<and>
    gr_open_pull_request_count (gs_repository snap) = of_nat (length (filter (\<lambda>item. wi_kind item = PullRequestItem \<and>
      wi_state item = ''open'') (gs_work_items snap)))"
proof -
  define limit where "limit = fst (bounded_snapshot_limits requested 0)"
  have limit: "1 \<le> limit" "limit \<le> 100"
    using snapshot_limits_bounds [of requested 0] by (auto simp: limit_def prod_eq_iff)
  have ok: "fetched_ok (repository_snapshot src w fuel repository requested) snap"
    using assms(1) by (simp add: fetched_ok_def)
  obtain owner name where split: "split_once CHR ''/'' (gr_full_name repository) = Some (owner, name)"
    using ok by (cases "split_once CHR ''/'' (gr_full_name repository)") (auto simp: repository_snapshot_def Let_def)
  define base where "base = ''/repos/'' @ owner @ ''/'' @ name"
  obtain issues rows commit es ds cs runs where
    issues: "fetched_ok (paginated src (sw_net w IssueRows) fuel decode_item (base @ ''/issues?state=all&per_page=100'') limit) issues"
    and rows: "fetched_ok (paginated src (sw_net w PullRows) fuel decode_pull (base @ ''/pulls?state=all&per_page=100'') limit) rows"
    and es: "fetched_ok (enrich_pulls src w base rows) es"
    and ds: "fetched_ok (discussions src w fuel base (map en_pull es) limit
        (snd (bounded_snapshot_limits limit (length (map en_pull es))))) ds"
    and cs: "fetched_ok (pull_checks src w fuel base (map en_pull es)
        (snd (bounded_snapshot_limits limit (length (map en_pull es))))) cs"
    and runs: "fetched_ok (paginated_field src (sw_net w WorkflowRuns) fuel decode_workflow_run
       (base @ ''/actions/runs?per_page=100'') ''workflow_runs'' limit) runs"
    and snap: "snap = assemble_snapshot repository issues commit es ds cs runs"
    using ok unfolding repository_snapshot_def split limit_def [symmetric] option.case prod.case Let_def
      base_def [symmetric] fetched_then fetched_done by (blast intro: sum.inject(2) [THEN iffD1])
  have few: "length issues \<le> 100" "length rows \<le> limit" "length runs \<le> 100"
    using issues rows runs limit paginated_length unfolding paginated_def paginated_field_def
    by (meson order_trans)+
  note en = enriched [OF assms(2) es]
  define k where "k = snd (bounded_snapshot_limits limit (length (map en_pull es)))"
  have k: "1 \<le> k" "length es * k \<le> 2 * limit"
    using per_pull_bound [OF limit, of "length es" k] few(2) en(1) by (simp_all add: k_def)
  have dlen: "length ds \<le> 600"
    using discussions_fetched [OF assms(2) ds] k limit(2) unfolding k_def [symmetric] by simp
  note ch = checks_fetched [OF assms(2) cs]
  have clen: "length cs \<le> 200" using ch(1) k(2) limit(2) unfolding k_def [symmetric] by simp
  have ilen: "length (filter (\<lambda>w. wt_pull_request w = None) issues) \<le> 100"
    using few(1) length_filter_le order_trans by blast
  have items: "gs_work_items snap = map (\<lambda>w. issue_of_wire w (gr_full_name repository) IssueItem)
      (filter (\<lambda>w. wt_pull_request w = None) issues) @ map (pull_work_item (gr_full_name repository) ds cs) es"
    and parts: "gs_discussions snap = ds" "gs_checks snap = cs" "gs_workflow_runs snap = runs"
    "gs_repository snap = counted_repository repository commit (map en_pull es) cs"
    by (simp_all add: snap assemble_snapshot_def Let_def)
  have kinds: "wi_kind (issue_of_wire v f IssueItem) = IssueItem" "wi_kind (pull_work_item f ds cs e) = PullRequestItem"
    "wi_number (pull_work_item f ds cs e) = pull_number (en_pull e)"
    "wi_state (pull_work_item f ds cs e) = wt_state (wp_item (en_pull e))" for v f e
    by (simp_all add: issue_of_wire_def pull_work_item_def item_of_pull_def Let_def pull_number_def)
  have pulls: "filter (\<lambda>item. wi_kind item = PullRequestItem) (gs_work_items snap) =
      map (pull_work_item (gr_full_name repository) ds cs) es"
    unfolding items by (simp add: filter_map comp_def kinds)
  show ?thesis
  proof (intro conjI)
    show "length (gs_work_items snap) \<le> 200" using ilen en(1) few(2) limit(2) by (simp add: items)
    show "\<forall>item \<in> set (gs_work_items snap). wi_repository_full_name item = gr_full_name repository \<and>
      (wi_kind item = PullRequestItem \<longrightarrow>
        wi_ci_health item = Some (ci_health (filter (\<lambda>c. gc_item_number c = wi_number item) (gs_checks snap))) \<and>
        wi_review_decision item = review_decision (filter (\<lambda>d. gd_item_number d = wi_number item) (gs_discussions snap)))"
      unfolding items parts
      by (auto simp: issue_of_wire_def pull_work_item_def item_of_pull_def Let_def pull_number_def)
    show "sorted (map wi_number (filter (\<lambda>item. wi_kind item = PullRequestItem) (gs_work_items snap)))"
      unfolding pulls using en(2) by (simp add: comp_def kinds)
    show "gc_item_number ` set (gs_checks snap) \<subseteq>
        wi_number ` set (filter (\<lambda>item. wi_kind item = PullRequestItem) (gs_work_items snap))"
      unfolding pulls parts using ch(2) by (simp add: image_image kinds)
    show "gr_open_pull_request_count (gs_repository snap) = of_nat (length (filter (\<lambda>item. wi_kind item = PullRequestItem \<and>
      wi_state item = ''open'') (gs_work_items snap)))"
      unfolding items parts by (simp add: counted_repository_def open_pulls_def filter_map comp_def kinds)
  qed (use dlen clen few(3) in \<open>simp_all add: parts\<close>)
qed

text \<open>A repository without issues and pull requests.\<close>

definition sample_commit :: json where
  "sample_commit = JObject [(''sha'', JString ''s''), (''commit'', JObject [(''committer'', JObject [(''date'', JString ''d'')])])]"

definition sample_snapshot_world :: snapshot_world where
  "sample_snapshot_world = \<lparr>sw_net = (\<lambda>job _ _. SourceReply 200 None (Some (case job of
       DefaultCommit \<Rightarrow> sample_commit
     | WorkflowRuns \<Rightarrow> JObject [(''workflow_runs'', JArray [])]
     | _ \<Rightarrow> JArray []))), sw_order = (\<lambda>_ n. [0..<n])\<rparr>"

definition sample_github_repository :: github_repository where
  "sample_github_repository = \<lparr>gr_id = 11, gr_full_name = ''o/r'', gr_description = None, gr_private = False,
     gr_archived = False, gr_default_branch = ''m'', gr_html_url = ''h'', gr_updated_at = ''t'', gr_pushed_at = None,
     gr_open_issues_count = 0, gr_open_pull_request_count = 7, gr_failing_check_count = 0,
     gr_default_branch_sha = None, gr_default_branch_committed_at = None, gr_installation_id = None,
     gr_permissions = no_permissions\<rparr>"

lemma plain_url: "\<exists>url. uf_join plain_urls base path = Some url"
  by (cases "starts_with base path") (simp_all add: plain_urls_def)

lemma empty_page:
  assumes "so_urls src = plain_urls" "\<And>n rq. net n rq = SourceReply 200 None (Some v)" "rows v = Inr []" "0 < limit"
  shows "fetched_ok (paginated_rows src net (Suc fuel) rows path limit) []"
proof -
  obtain url where "uf_join (so_urls src) (so_base_url src) path = Some url" using plain_url assms(1) by auto
  then show ?thesis using assms
    by (simp add: paginated_rows_def fetched_ok_def reply_body_def is_success_def next_url_def ok_or_def Let_def)
qed

definition empty_repository_snapshot :: "github_repository \<Rightarrow> github_repository_snapshot" where
  "empty_repository_snapshot repository =
     assemble_snapshot repository [] \<lparr>wc_sha = ''s'', wc_committer_date = ''d''\<rparr> [] [] [] []"

lemma empty_repository_fetched:
  assumes src: "so_urls src = plain_urls" and name: "gr_full_name repository = ''o/r''" and n: "n \<in> {5, 100}"
  shows "fetched_ok (repository_snapshot src sample_snapshot_world 1 repository n) (empty_repository_snapshot repository)"
proof -
  let ?w = sample_snapshot_world
  have limits: "fst (bounded_snapshot_limits n 0) = n" "snd (bounded_snapshot_limits n 0) = n" "0 < n"
    using n by (auto simp: bounded_snapshot_limits_def max_snapshot_resources_def Let_def)
  have page: "fetched_ok (paginated src (sw_net ?w job) 1 decode path n) []"
    if "job \<in> {IssueRows, PullRows, IssueComments, ReviewComments}" for job path and decode :: "json \<Rightarrow> 'x option"
    unfolding paginated_def One_nat_def
    by (rule empty_page [where v = "JArray []", OF src _ _ limits(3)])
      (use that in \<open>auto simp: sample_snapshot_world_def page_rows_def decode_list_def as_array_def ok_or_def\<close>)
  have runs: "fetched_ok (paginated_field src (sw_net ?w WorkflowRuns) 1 decode_workflow_run path ''workflow_runs'' n) []" for path
    unfolding paginated_field_def One_nat_def
    by (rule empty_page [where v = "JObject [(''workflow_runs'', JArray [])]", OF src _ _ limits(3)])
      (auto simp: sample_snapshot_world_def page_rows_def decode_list_def as_array_def object_members_def ok_or_def)
  define commit where "commit = \<lparr>wc_sha = ''s'', wc_committer_date = ''d''\<rparr>"
  have commit: "fetched_ok (source_get src (sw_net ?w DefaultCommit 0) decode_commit path) commit" for path
    using plain_url [of "so_base_url src" path]
    by (auto simp: source_get_def src fetched_ok_def sample_snapshot_world_def reply_body_def is_success_def ok_or_def Let_def
      decode_commit_def sample_commit_def object_members_def required_field_def named_text_def as_str_def commit_def)
  have none: "join_jobs (sw_order ?w ph 0) job = ([], Some (Inr []))" for ph and job :: "nat \<Rightarrow> 'y fetched"
    by (simp add: sample_snapshot_world_def join_jobs_def)
  have enrich: "fetched_ok (enrich_pulls src ?w base []) []" for base
    unfolding enrich_pulls_def list.size none by (simp add: fetched_ok_def fetch_then_def fetch_done_def)
  have checks: "fetched_ok (pull_checks src ?w 1 base [] n) []" for base
    unfolding pull_checks_def list.size none by (simp add: fetched_ok_def fetch_then_def fetch_done_def)
  have threads: "fetched_ok (review_threads src ?w 1 (''/repos/'' @ ''o'' @ ''/'' @ ''r'') [] n) []"
    by (simp add: review_threads_def strip_prefix_def starts_with_def split_once_def open_pulls_def none)
      (simp add: fetched_ok_def fetch_then_def fetch_done_def)
  have ds: "fetched_ok (discussions src ?w 1 (''/repos/'' @ ''o'' @ ''/'' @ ''r'') [] n n) []"
    unfolding discussions_def fetched_then list.size none
    by (intro exI conjI, rule page, simp, rule page, simp, simp add: fetched_ok_def, rule threads)
      (simp add: List.map_filter_simps)
  have split: "split_once CHR ''/'' (gr_full_name repository) = Some (''o'', ''r'')"
    by (simp add: name split_once_Some)
  show ?thesis
    unfolding repository_snapshot_def limits split option.case prod.case Let_def fetched_then
    apply (intro exI conjI)
           apply (rule page, simp)
          apply (rule page, simp)
         apply (rule commit)
        apply (rule enrich)
       apply (simp only: list.map list.size limits)
       apply (rule ds)
      apply (simp only: list.map list.size limits)
      apply (rule checks)
     apply (rule runs)
    apply (simp add: empty_repository_snapshot_def commit_def)
    done
qed

theorem snapshot_sound_witness:
  "\<exists>requests snap. repository_snapshot sample_source sample_snapshot_world 1 sample_github_repository 5 = (requests, Some (Inr snap)) \<and>
     gr_default_branch_sha (gs_repository snap) = Some ''s'' \<and> gr_open_pull_request_count (gs_repository snap) = 0 \<and>
     length (gs_discussions snap) \<le> 600"
proof -
  have "fetched_ok (repository_snapshot sample_source sample_snapshot_world 1 sample_github_repository 5)
      (empty_repository_snapshot sample_github_repository)"
    by (rule empty_repository_fetched) (simp_all add: sample_source_def sample_github_repository_def)
  then obtain requests where r: "repository_snapshot sample_source sample_snapshot_world 1 sample_github_repository 5 =
      (requests, Some (Inr (empty_repository_snapshot sample_github_repository)))"
    by (metis fetched_ok_def prod.collapse)
  have "joins_all sample_snapshot_world" by (simp add: joins_all_def sample_snapshot_world_def)
  from snapshot_sound [OF r this] r show ?thesis
    by (auto simp: empty_repository_snapshot_def assemble_snapshot_def Let_def counted_repository_def open_pulls_def)
qed

end
