(* ===== verification/Sync_Properties.thy ===== *)
theory Sync_Properties
  imports Rpc_Sync_Jobs Source_Properties Relay_Properties
begin

text \<open>
  The properties of synchronization: one job at a time, what a cancellation achieves and when it leaves
  a job behind, and what a reconciliation of a task fetches and stores.
\<close>

section \<open>Cancelled jobs\<close>

definition undecided :: "worker_phase \<Rightarrow> bool" where
  "undecided ph \<longleftrightarrow> (case ph of Ending _ _ \<Rightarrow> False | Leaving \<Rightarrow> False | _ \<Rightarrow> True)"

text \<open>No step from here leads to a success of the job.\<close>

definition doomed :: "uuid \<Rightarrow> sync_state \<Rightarrow> bool" where
  "doomed i st \<longleftrightarrow> (\<exists>j. find_row i (st_jobs (sy_store st)) = Some j \<and> job_kind j = GitHubSync \<and> job_state j \<noteq> JobSucceeded) \<and>
     (\<forall>ph. (i, ph) \<in> set (sy_workers st) \<longrightarrow> (if undecided ph then map_of (sy_active st) i = Some True
        else case ph of Ending _ e \<Rightarrow> fst e \<noteq> JobSucceeded | _ \<Rightarrow> True))"

lemma doomed_row: "doomed i st \<Longrightarrow> find_row i (st_jobs s) = find_row i (st_jobs (sy_store st)) \<Longrightarrow>
    doomed i (st\<lparr>sy_store := s, sy_cancels := cs\<rparr>)"
  by (simp add: doomed_def)

lemma doomed_worker:
  assumes inv: "sync_inv st" and d: "doomed i st" and w: "sy_workers st = [(k, ph)]"
    and step: "worker_step now k ph st = Some st'"
  shows "doomed i st'"
proof -
  obtain f j where a: "sy_active st = [(k, f)]" "find_row k (st_jobs (sy_store st)) = Some j" "row_in_phase ph j"
    and wf: "table_wf (st_jobs (sy_store st))"
    using inv w by (auto simp: sync_inv_def)
  show ?thesis
  proof (cases ph)
    case Spawned
    obtain s started where b: "worker_begin now k (sy_store st) = (s, started)" by fastforce
    have st': "st' = st\<lparr>sy_store := s, sy_workers := [(k, if started then Synchronizing else Leaving)]\<rparr>"
      using step by (simp add: Spawned worker_step_def b)
    show ?thesis
    proof (cases "k = i")
      case True
      then show ?thesis using worker_begin_row [OF wf b a(2)] a d w
        by (cases started) (auto simp: st' Spawned doomed_def undecided_def row_in_phase_def)
    next
      case False
      then show ?thesis using worker_begin_row [OF wf b a(2)] a(3) d w by (auto simp: st' Spawned doomed_def)
    qed
  next
    case Synchronizing
    then show ?thesis using step by (simp add: worker_step_def)
  next
    case (Synchronized r)
    then show ?thesis using step d w
      by (auto simp: worker_step_def doomed_def undecided_def split: option.splits)
  next
    case (Current j' r)
    then show ?thesis using step d w a(1)
      by (auto simp: worker_step_def doomed_def undecided_def sync_ending_def)
  next
    case (Ending current e)
    then have st': "st' = st\<lparr>sy_store := worker_write now k current e (sy_store st), sy_workers := [(k, Leaving)]\<rparr>"
      using step by (simp add: worker_step_def)
    show ?thesis using worker_write_row [OF wf a(2), of now current e] d w a
      by (cases "k = i") (auto simp: st' Ending doomed_def undecided_def)
  next
    case Leaving
    then show ?thesis using step d by (auto simp: worker_step_def doomed_def)
  qed
qed

lemma doomed_act:
  assumes inv: "sync_inv st" and d: "doomed i st" and act: "sync_act a st = Some st'"
  shows "doomed i st'"
proof -
  have wf: "table_wf (st_jobs (sy_store st))" using inv by (simp add: sync_inv_def)
  obtain j where j: "find_row i (st_jobs (sy_store st)) = Some j" "job_kind j = GitHubSync" "job_state j \<noteq> JobSucceeded"
    using d by (auto simp: doomed_def)
  show ?thesis
  proof (cases a)
    case (StartSync fresh now)
    then consider "st' = st" | j' where "started_with fresh j' st st'" using act sync_act_start by blast
    then show ?thesis
    proof cases
      case 1
      then show ?thesis using d by simp
    next
      case (2 j')
      then have "fresh \<noteq> i" using j(1) by (auto simp: started_with_def)
      then show ?thesis using 2 d j inv
        by (auto simp: started_with_def doomed_def sync_inv_def find_row_append_new)
    qed
  next
    case (CancelRequest k)
    then show ?thesis using act d by (auto simp: sync_act_def doomed_def split: sum.splits)
  next
    case (CancelStep n now)
    then have st': "st' = cancel_step now n (sy_cancels st ! n) st"
      using act by (auto simp: sync_act_def split: if_splits)
    show ?thesis
    proof (cases "sy_cancels st ! n")
      case (Transitioning k j')
      obtain s r where r: "cancel_write now k j' (sy_store st) = (s, r)" by fastforce
      have "\<exists>j. find_row i (st_jobs s) = Some j \<and> job_kind j = GitHubSync \<and> job_state j \<noteq> JobSucceeded"
        using cancel_write_row [OF wf r] j by (cases "k = i") auto
      then show ?thesis using d by (cases r) (auto simp: st' Transitioning cancel_step_def r doomed_def)
    next
      case (Signalling k)
      have "map_of (sy_active st) i = Some True \<Longrightarrow> map_of (cancel_signal k (sy_active st)) i = Some True"
        using inv by (auto simp: cancel_signal_def sync_inv_def split: if_splits)
      then show ?thesis using d by (auto simp: st' Signalling cancel_step_def doomed_def)
    qed
  next
    case (WorkerStep now)
    then obtain k ph where "sy_workers st = [(k, ph)]" "worker_step now k ph st = Some st'"
      using act by (auto simp: sync_act_def split: list.splits prod.splits)
    then show ?thesis by (rule doomed_worker [OF inv d])
  next
    case (SyncEnds r)
    then obtain k where "sy_workers st = [(k, Synchronizing)]" "st' = st\<lparr>sy_workers := [(k, Synchronized r)]\<rparr>"
      using act by (auto simp: sync_act_def split: list.splits prod.splits worker_phase.splits if_splits)
    then show ?thesis using d by (auto simp: doomed_def undecided_def)
  next
    case (StoreChange s)
    then have s: "table_wf (st_jobs s)" "sync_rows s = sync_rows (sy_store st)" "st' = st\<lparr>sy_store := s\<rparr>"
      using act by (auto simp: sync_act_def split: if_splits)
    show ?thesis using d sync_row_kept [OF s(1,2) j(1,2)] j by (auto simp: s(3) doomed_def)
  next
    case (RestartEngine now)
    then obtain s where s: "recover_interrupted_jobs now (sy_store st) = Inr s"
      "st' = engine_started s"
      using act by (auto simp: sync_act_def engine_started_def split: sum.splits)
    show ?thesis using recover_interrupted_row [OF wf s(1), of i] j
      by (auto simp: s(2) engine_started_def doomed_def recovered_def)
  qed
qed

lemma doomed_acts: "sync_inv st \<Longrightarrow> doomed i st \<Longrightarrow> sync_acts as st = Some st' \<Longrightarrow> doomed i st'"
  by (induction "as" arbitrary: st) (auto simp: bind_eq_Some_conv dest: sync_inv_act doomed_act)

lemma signalled_doomed:
  assumes "sync_inv st" "(i, True) \<in> set (sy_active st)" "(i, ph) \<in> set (sy_workers st)" "undecided ph"
  shows "doomed i st"
  using assms by (cases ph) (auto simp: sync_inv_def doomed_def row_in_phase_def undecided_def)

section \<open>Orderly runs\<close>

text \<open>
  Runs in which nothing comes between the reading and the writing of a cancellation, or of the ending of
  a worker.
\<close>

inductive orderly_run :: "store \<Rightarrow> sync_state \<Rightarrow> bool" for s0 where
  started: "orderly_run s0 (engine_started s0)"
| start: "orderly_run s0 st \<Longrightarrow> sync_act (StartSync fresh now) st = Some st' \<Longrightarrow> orderly_run s0 st'"
| cancelled: "orderly_run s0 st \<Longrightarrow>
     sync_acts [CancelRequest i, CancelStep 0 t, CancelStep 0 t'] st = Some st' \<Longrightarrow> orderly_run s0 st'"
| begins: "orderly_run s0 st \<Longrightarrow> sy_workers st = [(i, Spawned)] \<Longrightarrow> sync_act (WorkerStep t) st = Some st' \<Longrightarrow>
     orderly_run s0 st'"
| ends: "orderly_run s0 st \<Longrightarrow> sync_acts [SyncEnds r, WorkerStep t1, WorkerStep t2, WorkerStep t3] st = Some st' \<Longrightarrow>
     orderly_run s0 st'"
| leaves: "orderly_run s0 st \<Longrightarrow> sy_workers st = [(i, Leaving)] \<Longrightarrow> sync_act (WorkerStep t) st = Some st' \<Longrightarrow>
     orderly_run s0 st'"
| changed: "orderly_run s0 st \<Longrightarrow> sync_act (StoreChange s) st = Some st' \<Longrightarrow> orderly_run s0 st'"

text \<open>A job that needs no worker.\<close>

definition at_rest :: "job \<Rightarrow> bool" where
  "at_rest j \<longleftrightarrow> job_state j \<notin> {JobQueued, JobRunning, JobCancelling}"

text \<open>
  Every job but the one at work is at rest. The worker of that one is not between two accesses, and it was
  signalled only when the row says so.
\<close>

definition orderly_worker :: "sync_state \<Rightarrow> uuid \<Rightarrow> worker_phase \<Rightarrow> bool" where
  "orderly_worker st i ph \<longleftrightarrow> (\<exists>j. find_row i (st_jobs (sy_store st)) = Some j \<and>
     (ph = Leaving \<and> at_rest j \<or> ph \<in> {Spawned, Synchronizing} \<and>
       (map_of (sy_active st) i = Some True \<longrightarrow> job_state j = JobCancelled \<or> job_state j = JobCancelling)))"

definition orderly_inv :: "sync_state \<Rightarrow> bool" where
  "orderly_inv st \<longleftrightarrow> sync_inv st \<and> sy_cancels st = [] \<and>
     (\<forall>i j. find_row i (st_jobs (sy_store st)) = Some j \<longrightarrow> job_kind j = GitHubSync \<longrightarrow>
        at_rest j \<or> i \<in> fst ` set (sy_workers st)) \<and>
     (\<forall>i ph. (i, ph) \<in> set (sy_workers st) \<longrightarrow> orderly_worker st i ph)"

lemma cancel_write_goes:
  assumes "table_wf (st_jobs s)" "find_row i (st_jobs s) = Some row" "job_state j = job_state row"
    "unat (job_generation row) < 100 \<or> at_rest row"
  shows "\<exists>s'. cancel_write now i j s = (s', Inr ()) \<and> (case job_state row of
      JobQueued \<Rightarrow> \<exists>row'. find_row i (st_jobs s') = Some row' \<and> job_state row' = JobCancelled
    | JobRunning \<Rightarrow> \<exists>row'. find_row i (st_jobs s') = Some row' \<and> job_state row' = JobCancelling
    | _ \<Rightarrow> s' = s)"
proof (cases "cancel_transition (job_state j)")
  case None
  then show ?thesis using assms(3) by (auto simp: cancel_write_def cancel_transition_def split: job_state.splits)
next
  case (Some t)
  obtain state c m where t: "t = (state, c, m)" by (cases t)
  note texts = sync_texts(3,4) [THEN validated_summary]
  have g: "unat (job_generation row) < 100"
    using Some assms(3,4) by (auto simp: cancel_transition_def at_rest_def split: job_state.splits)
  have "job_permits (job_state j) state \<and> is_summary (trim m)" and
    states: "(job_state row = JobQueued \<and> state = JobCancelled) \<or> (job_state row = JobRunning \<and> state = JobCancelling)"
    using Some texts assms(3) by (auto simp: cancel_transition_def t job_permits_def split: job_state.splits)
  then obtain s' where s': "transition_job now i (job_state j) state c m None s = Inr (s', True)"
    using transition_goes [OF assms(1,2) assms(3) [symmetric] _ _ g] by blast
  have "\<exists>row'. find_row i (st_jobs s') = Some row' \<and> job_state row' = state"
    using transition_row [OF assms(1) s'] assms(2) by auto
  moreover have "cancel_write now i j s = (s', Inr ())" by (simp add: cancel_write_def Some t s')
  ultimately show ?thesis using states by (intro exI [of _ s']) auto
qed

lemma sync_job_of_row: "sync_job_of i s = Inr j \<Longrightarrow>
    \<exists>row. find_row i (st_jobs s) = Some row \<and> job_state j = job_state row \<and> job_kind row = GitHubSync"
  by (auto simp: sync_job_of_def load_job_def result_simps split: option.splits if_splits)

text \<open>What a cancellation does without interruption.\<close>

lemma cancelled_at_once:
  assumes c: "sync_acts [CancelRequest i, CancelStep 0 t, CancelStep 0 t'] st = Some st'" and n: "sy_cancels st = []"
  obtains j s' where "sync_job_of i (sy_store st) = Inr j"
    "cancel_write t i j (sy_store st) = (s', Inr ())"
    "st' = st\<lparr>sy_store := s', sy_active := cancel_signal i (sy_active st), sy_cancels := []\<rparr>"
proof -
  obtain j where j: "sync_job_of i (sy_store st) = Inr j"
    using c n by (cases "sync_job_of i (sy_store st)") (auto simp: sync_act_def)
  obtain s' r where w: "cancel_write t i j (sy_store st) = (s', r)" by fastforce
  have "r = Inr ()" using c by (cases r) (auto simp: sync_act_def j n cancel_step_def w)
  then show ?thesis using that [OF j, of s'] c w by (auto simp: sync_act_def j n cancel_step_def)
qed

lemma orderly_cancelled:
  assumes o: "orderly_inv st" and c: "sync_acts [CancelRequest i, CancelStep 0 t, CancelStep 0 t'] st = Some st'"
  shows "orderly_inv st'"
proof -
  have inv: "sync_inv st" and n: "sy_cancels st = []" using o by (simp_all add: orderly_inv_def)
  have inv': "sync_inv st'" using sync_inv_acts [OF inv c] .
  have wf: "table_wf (st_jobs (sy_store st))" using inv by (simp add: sync_inv_def)
  obtain j s' where j: "sync_job_of i (sy_store st) = Inr j" "cancel_write t i j (sy_store st) = (s', Inr ())"
    and st': "st' = st\<lparr>sy_store := s', sy_active := cancel_signal i (sy_active st), sy_cancels := []\<rparr>"
    using cancelled_at_once [OF c n] .
  obtain row where row: "find_row i (st_jobs (sy_store st)) = Some row" "job_state j = job_state row" "job_kind row = GitHubSync"
    using sync_job_of_row [OF j(1)] by blast
  have others: "find_row m (st_jobs s') = find_row m (st_jobs (sy_store st))" if "m \<noteq> i" for m
    using cancel_write_row [OF wf j(2)] that by blast
  show ?thesis
  proof (cases "at_rest row")
    case True
    then have "s' = sy_store st" using j(2) row(2)
      by (auto simp: cancel_write_def cancel_transition_def at_rest_def split: job_state.splits)
    then have st': "st' = st\<lparr>sy_active := cancel_signal i (sy_active st)\<rparr>" using st' n by simp
    have "orderly_worker st' k ph" if "orderly_worker st k ph" "(k, ph) \<in> set (sy_workers st)" for k ph
      using that inv row True
      by (auto simp: orderly_worker_def st' cancel_signal_def sync_inv_def at_rest_def row_in_phase_def split: if_splits)
    then show ?thesis using o inv' by (auto simp: orderly_inv_def st')
  next
    case False
    then obtain f ph where w: "sy_workers st = [(i, ph)]" "sy_active st = [(i, f)]" "row_in_phase ph row"
      "ph \<in> {Spawned, Synchronizing}" "orderly_worker st i ph"
      using o row by (fastforce simp: orderly_inv_def sync_inv_def orderly_worker_def)
    have g: "unat (job_generation row) < 100" using w(3,4) False by (auto simp: row_in_phase_def at_rest_def)
    obtain row' where "find_row i (st_jobs s') = Some row'" "job_state row' = JobCancelled \<or> job_state row' = JobCancelling"
      using cancel_write_goes [OF wf row(1,2), of t] g j(2) False row(1)
      by (auto simp: at_rest_def split: job_state.splits)
    note row' = this
    have "at_rest k \<or> m = i" if "find_row m (st_jobs s') = Some k" "job_kind k = GitHubSync" for m k
      using o that others [of m] w(1) by (cases "m = i") (auto simp: orderly_inv_def)
    then show ?thesis using row' inv' w(1,4) by (auto simp: orderly_inv_def orderly_worker_def st')
  qed
qed

lemma worker_steps: "sy_workers st = [(i, ph)] \<Longrightarrow> sync_acts (WorkerStep t # as) st = Option.bind (worker_step t i ph st) (sync_acts as)"
  by (simp add: sync_act_def)

text \<open>What the ending of a worker does without interruption.\<close>

lemma ended_at_once:
  assumes e: "sync_acts [SyncEnds r, WorkerStep t1, WorkerStep t2, WorkerStep t3] st = Some st'" and inv: "sync_inv st"
  obtains i f row e s' where "sy_workers st = [(i, Synchronizing)]" "sy_active st = [(i, f)]"
    "find_row i (st_jobs (sy_store st)) = Some row" "row_in_phase Synchronizing row" "result_cancelled r \<longrightarrow> f"
    "e = sync_ending f r" "is_summary (trim (snd (snd e)))" "s' = worker_write t3 i (job_state row) e (sy_store st)"
    "st' = st\<lparr>sy_store := s', sy_workers := [(i, Leaving)]\<rparr>"
proof -
  obtain i ph f row where i: "sy_workers st = [(i, ph)]" "sy_active st = [(i, f)]"
    "find_row i (st_jobs (sy_store st)) = Some row" "row_in_phase ph row"
    using e inv by (auto simp: sync_act_def sync_inv_def)
  have ph: "ph = Synchronizing" and r: "counters_fit r" "result_cancelled r \<longrightarrow> f"
    using e i(1,2) by (auto simp: sync_act_def split: worker_phase.splits if_splits)
  have no: "(result_cancelled r \<and> \<not> f) = False" using r by blast
  have v: "validate_summary (job_summary row) = Inr (trim (job_summary row))"
    using i(4) by (simp add: row_in_phase_def valid_simps)
  have read: "worker_read i (sy_store st) = Some (row\<lparr>job_id := i, job_summary := trim (job_summary row)\<rparr>)"
    using i(3) by (simp add: worker_read_def load_job_def v)
  have "st' = st\<lparr>sy_store := worker_write t3 i (job_state row) (sync_ending f r) (sy_store st), sy_workers := [(i, Leaving)]\<rparr>"
    using e r no by (simp add: sync_act_def i(1,2) ph worker_step_def read)
  then show ?thesis by (intro that [OF _ i(2,3) _ r(2) refl ending_text [OF r(1)] refl]) (use i ph in simp_all)
qed

lemma orderly_ended:
  assumes o: "orderly_inv st" and e: "sync_acts [SyncEnds r, WorkerStep t1, WorkerStep t2, WorkerStep t3] st = Some st'"
  shows "orderly_inv st'"
proof -
  have inv: "sync_inv st" and n: "sy_cancels st = []" using o by (simp_all add: orderly_inv_def)
  have inv': "sync_inv st'" using sync_inv_acts [OF inv e] .
  have wf: "table_wf (st_jobs (sy_store st))" using inv by (simp add: sync_inv_def)
  obtain i f row en s' where i: "sy_workers st = [(i, Synchronizing)]" "sy_active st = [(i, f)]"
    "find_row i (st_jobs (sy_store st)) = Some row" "row_in_phase Synchronizing row" "result_cancelled r \<longrightarrow> f"
    "en = sync_ending f r" "is_summary (trim (snd (snd en)))" "s' = worker_write t3 i (job_state row) en (sy_store st)"
    "st' = st\<lparr>sy_store := s', sy_workers := [(i, Leaving)]\<rparr>"
    using ended_at_once [OF e inv] .
  have "orderly_worker st i Synchronizing" using o i(1) by (simp add: orderly_inv_def)
  then have "f \<longrightarrow> job_state row = JobCancelling"
    using i(2,3,4) by (auto simp: orderly_worker_def row_in_phase_def)
  then have p: "job_permits (job_state row) (fst en)"
    using i(4,5,6) by (auto simp: row_in_phase_def job_permits_def sync_ending_def split: sum.splits)
  have g: "unat (job_generation row) < 100" using i(4) by (auto simp: row_in_phase_def)
  obtain s1 where s1: "transition_job t3 i (job_state row) (fst en) (fst (snd en)) (snd (snd en)) None (sy_store st) = Inr (s1, True)"
    using transition_goes [OF wf i(3) refl p i(7) g] by blast
  have rows: "find_row i (st_jobs s') = Some (advanced_job t3 (fst en) (fst (snd en)) (trim (snd (snd en))) None row)"
    "find_row m (st_jobs s') = find_row m (st_jobs (sy_store st))" if "m \<noteq> i" for m
    using transition_row [OF wf s1] i(3) that by (auto simp: i(8) worker_write_def s1)
  have "at_rest (advanced_job t3 (fst en) (fst (snd en)) (trim (snd (snd en))) None row)"
    by (auto simp: at_rest_def i(6) sync_ending_def split: sum.splits)
  moreover have "at_rest k \<or> m = i" if "find_row m (st_jobs s') = Some k" "job_kind k = GitHubSync" for m k
    using o that rows(2) [of m] i(1) by (cases "m = i") (auto simp: orderly_inv_def)
  moreover have "find_row i (st_jobs s') = Some (advanced_job t3 (fst en) (fst (snd en)) (trim (snd (snd en))) None row)"
    using transition_row [OF wf s1] i(3) by (auto simp: i(8) worker_write_def s1)
  ultimately show ?thesis using inv' n by (auto simp: orderly_inv_def orderly_worker_def i(9))
qed

lemma orderly_inv_run:
  assumes "orderly_run s0 st" "table_wf (st_jobs s0)" "\<forall>(i, j)\<in>set (sync_rows s0). at_rest j"
  shows "orderly_inv st"
  using assms(1)
proof (induction rule: orderly_run.induct)
  case started
  then show ?case using assms(2,3) sync_inv_started find_row_in
    by (fastforce simp: orderly_inv_def engine_started_def sync_rows_def)
next
  case (start st fresh now st')
  have inv': "sync_inv st'" using sync_inv_act start by (auto simp: orderly_inv_def)
  consider "st' = st" | j where "started_with fresh j st st'" using start sync_act_start by blast
  then show ?case
  proof cases
    case 1
    then show ?thesis using start by simp
  next
    case (2 j)
    then show ?thesis using start inv'
      by (auto simp: orderly_inv_def orderly_worker_def started_with_def find_row_append_new sync_inv_def has_row_def
        split: option.splits)
  qed
next
  case cancelled
  then show ?case using orderly_cancelled by blast
next
  case (begins st i t st')
  have o: "orderly_inv st" by (rule begins.IH)
  have inv: "sync_inv st" using o by (simp add: orderly_inv_def)
  have inv': "sync_inv st'" using sync_inv_act [OF inv begins(3)] .
  obtain f j where a: "sy_active st = [(i, f)]" "find_row i (st_jobs (sy_store st)) = Some j" "row_in_phase Spawned j"
    and wf: "table_wf (st_jobs (sy_store st))"
    using inv begins(2) by (auto simp: sync_inv_def)
  obtain s started where b: "worker_begin t i (sy_store st) = (s, started)" by fastforce
  have st': "st' = st\<lparr>sy_store := s, sy_workers := [(i, if started then Synchronizing else Leaving)]\<rparr>"
    using begins(2,3) by (simp add: sync_act_def worker_step_def b)
  note row = worker_begin_row [OF wf b a(2,3)]
  have "orderly_worker st i Spawned" using o begins(2) by (simp add: orderly_inv_def)
  then have f: "started \<longrightarrow> \<not> f" using row a by (auto simp: orderly_worker_def)
  have w: "orderly_worker st' i (if started then Synchronizing else Leaving)"
    using row f a by (cases started) (auto simp: orderly_worker_def st' at_rest_def row_in_phase_def)
  have "at_rest k \<or> m = i" if "find_row m (st_jobs s) = Some k" "job_kind k = GitHubSync" for m k
    using o that row begins(2) by (cases "m = i") (auto simp: orderly_inv_def)
  then show ?case using w inv' o by (auto simp: orderly_inv_def st')
next
  case ends
  then show ?case using orderly_ended by blast
next
  case (leaves st i t st')
  have inv': "sync_inv st'" using sync_inv_act leaves by (auto simp: orderly_inv_def)
  have "orderly_worker st i Leaving" using leaves by (simp add: orderly_inv_def)
  then have "at_rest k" if "find_row m (st_jobs (sy_store st)) = Some k" "job_kind k = GitHubSync" for m k
    using leaves(2) leaves.IH that by (cases "m = i") (auto simp: orderly_inv_def orderly_worker_def)
  then show ?case using leaves inv' by (auto simp: orderly_inv_def sync_act_def worker_step_def)
next
  case (changed st s st')
  have inv: "sync_inv st" and inv': "sync_inv st'" using sync_inv_act changed by (auto simp: orderly_inv_def)
  have s: "table_wf (st_jobs s)" "sync_rows s = sync_rows (sy_store st)" "st' = st\<lparr>sy_store := s\<rparr>"
    using changed(2) by (auto simp: sync_act_def split: if_splits)
  have wf: "table_wf (st_jobs (sy_store st))" using inv by (simp add: sync_inv_def)
  have earlier: "find_row i (st_jobs (sy_store st)) = Some j" if "find_row i (st_jobs s) = Some j" "job_kind j = GitHubSync" for i j
    by (rule sync_row_kept [OF wf s(2) [symmetric] that])
  have "orderly_worker st' i ph" if "(i, ph) \<in> set (sy_workers st)" for i ph
  proof -
    have "orderly_worker st i ph" using changed.IH that by (simp add: orderly_inv_def)
    moreover have "\<exists>j. find_row i (st_jobs (sy_store st)) = Some j \<and> job_kind j = GitHubSync"
      using inv that by (auto simp: sync_inv_def row_in_phase_def)
    ultimately show ?thesis using sync_row_kept [OF s(1,2)] by (auto simp: orderly_worker_def s(3))
  qed
  then show ?case using changed.IH inv' earlier by (auto simp: orderly_inv_def s(3))
qed

section \<open>Stranded jobs\<close>

text \<open>A job that counts as under way but has no worker.\<close>

definition stranded :: "job_state set \<Rightarrow> uuid \<Rightarrow> sync_state \<Rightarrow> bool" where
  "stranded S i st \<longleftrightarrow> i \<notin> fst ` set (sy_workers st) \<and>
     (\<exists>j. find_row i (st_jobs (sy_store st)) = Some j \<and> job_kind j = GitHubSync \<and> job_state j \<in> S)"

fun restarts :: "sync_action \<Rightarrow> bool" where
  "restarts (RestartEngine _) = True"
| "restarts _ = False"

lemma stranded_act:
  assumes inv: "sync_inv st" and d: "stranded S i st" and act: "sync_act a st = Some st'" and r: "\<not> restarts a"
    and S: "S = {JobRunning, JobCancelling} \<or> S = {JobCancelling}"
  shows "stranded S i st'"
proof -
  have wf: "table_wf (st_jobs (sy_store st))" using inv by (simp add: sync_inv_def)
  obtain j where j: "find_row i (st_jobs (sy_store st)) = Some j" "job_kind j = GitHubSync"
    "job_state j \<in> S"
    using d by (auto simp: stranded_def)
  show ?thesis
  proof (cases a)
    case (StartSync fresh now)
    then consider "st' = st" | j' where "started_with fresh j' st st'" using act sync_act_start by blast
    then show ?thesis
    proof cases
      case 1
      then show ?thesis using d by simp
    next
      case (2 j')
      then have "fresh \<noteq> i" using j(1) by (auto simp: started_with_def)
      then show ?thesis using 2 d j by (auto simp: started_with_def stranded_def find_row_append_new)
    qed
  next
    case (CancelRequest k)
    then show ?thesis using act d by (auto simp: sync_act_def stranded_def split: sum.splits)
  next
    case (CancelStep n now)
    then have st': "st' = cancel_step now n (sy_cancels st ! n) st"
      using act by (auto simp: sync_act_def split: if_splits)
    show ?thesis
    proof (cases "sy_cancels st ! n")
      case (Transitioning k j')
      obtain s x where x: "cancel_write now k j' (sy_store st) = (s, x)" by fastforce
      have "\<exists>j. find_row i (st_jobs s) = Some j \<and> job_kind j = GitHubSync \<and> job_state j \<in> S"
        using cancel_write_row [OF wf x] j S by (cases "k = i") auto
      then show ?thesis using d by (cases x) (auto simp: st' Transitioning cancel_step_def x stranded_def)
    next
      case (Signalling k)
      then show ?thesis using d by (auto simp: st' cancel_step_def stranded_def)
    qed
  next
    case (WorkerStep now)
    then obtain k ph where k: "sy_workers st = [(k, ph)]" "worker_step now k ph st = Some st'"
      using act by (auto simp: sync_act_def split: list.splits prod.splits)
    obtain jk where jk: "find_row k (st_jobs (sy_store st)) = Some jk" "row_in_phase ph jk"
      using inv k(1) by (auto simp: sync_inv_def)
    have "k \<noteq> i" using d k(1) by (auto simp: stranded_def)
    moreover have "fst ` set (sy_workers st') \<subseteq> {k}"
      using k(2) by (auto simp: worker_step_def split: worker_phase.splits prod.splits)
    moreover have "find_row i (st_jobs (sy_store st')) = find_row i (st_jobs (sy_store st))"
    proof (cases ph)
      case Spawned
      obtain s started where b: "worker_begin now k (sy_store st) = (s, started)" by fastforce
      show ?thesis using worker_begin_row [OF wf b jk(1)] jk(2) k(2) \<open>k \<noteq> i\<close> by (auto simp: Spawned worker_step_def b)
    next
      case (Ending current e)
      show ?thesis using worker_write_row [OF wf jk(1), of now current e] k(2) \<open>k \<noteq> i\<close> by (auto simp: Ending worker_step_def)
    qed (use k(2) in \<open>auto simp: worker_step_def\<close>)
    ultimately show ?thesis using j by (auto simp: stranded_def)
  next
    case (SyncEnds x)
    then show ?thesis using act d
      by (auto simp: sync_act_def stranded_def split: list.splits prod.splits worker_phase.splits if_splits)
  next
    case (StoreChange s)
    then have s: "table_wf (st_jobs s)" "sync_rows s = sync_rows (sy_store st)" "st' = st\<lparr>sy_store := s\<rparr>"
      using act by (auto simp: sync_act_def split: if_splits)
    show ?thesis using d sync_row_kept [OF s(1,2) j(1,2)] j by (auto simp: s(3) stranded_def)
  next
    case (RestartEngine now)
    then show ?thesis using r by simp
  qed
qed

lemma stranded_acts:
  "sync_inv st \<Longrightarrow> stranded S i st \<Longrightarrow> S = {JobRunning, JobCancelling} \<or> S = {JobCancelling} \<Longrightarrow>
     sync_acts as st = Some st' \<Longrightarrow> \<not> list_ex restarts as \<Longrightarrow> stranded S i st'"
proof (induction "as" arbitrary: st)
  case (Cons a "as")
  then obtain st1 where one: "sync_act a st = Some st1" "sync_acts as st1 = Some st'" by (auto simp: bind_eq_Some_conv)
  have r: "\<not> restarts a" "\<not> list_ex restarts as" using Cons.prems(5) by simp_all
  show ?case
    by (rule Cons.IH [OF sync_inv_act [OF Cons.prems(1) one(1)] stranded_act [OF Cons.prems(1,2) one(1) r(1) Cons.prems(3)]
          Cons.prems(3) one(2) r(2)])
qed simp

text \<open>A cancellation that reads the job before its worker begins and is refused after it has begun.\<close>

definition early_race :: "sync_action list" where
  "early_race = [StartSync 1 0, CancelRequest 1, WorkerStep 1, CancelStep 0 2, CancelStep 0 3,
     SyncEnds (Inr (empty_sync_summary, True)), WorkerStep 4, WorkerStep 5, WorkerStep 6, WorkerStep 7]"

text \<open>A cancellation between the decision of the worker and its last write.\<close>

definition late_race :: "sync_action list" where
  "late_race = [StartSync 1 0, WorkerStep 1, SyncEnds (Inr (empty_sync_summary, False)), WorkerStep 2, WorkerStep 3,
     CancelRequest 1, CancelStep 0 4, CancelStep 0 5, WorkerStep 6, WorkerStep 7]"

definition job_at :: "uuid \<Rightarrow> sync_state \<Rightarrow> job_state option" where
  "job_at i st = map_option job_state (find_row i (st_jobs (sy_store st)))"

definition left_behind :: "sync_action list \<Rightarrow> (active_syncs \<times> uuid list \<times> (uuid \<times> job_kind \<times> job_state) list) option" where
  "left_behind as = map_option (\<lambda>st. (sy_active st, map fst (sy_workers st),
     map (\<lambda>(i, j). (i, job_kind j, job_state j)) (st_jobs (sy_store st)))) (sync_acts as (engine_started empty_store))"

lemmas race_rules = sync_acts.simps sync_act_def engine_started_def github_sync_start_def job_new_def sync_texts create_job_def
  sql_u64_def insert_new_def has_row_def find_row_def empty_store_def sync_job_of_def load_job_def transition_job_def
  worker_step_def worker_begin_def cancel_step_def cancel_write_def cancel_transition_def job_permits_def update_where_def
  cancel_signal_def counters_fit_def result_cancelled_def worker_read_def worker_write_def sync_ending_def
  empty_sync_summary_def new_summary_def Let_def matching_def

lemma early_race_ends: "left_behind early_race = Some ([], [], [(1, GitHubSync, JobRunning)])"
  unfolding left_behind_def early_race_def by (simp add: race_rules)

lemma late_race_ends: "left_behind late_race = Some ([], [], [(1, GitHubSync, JobCancelling)])"
proof -
  have zero: "decimal 0 = ''0''" by code_simp
  have done_text: "validate_summary (completed_text 0 0) = Inr (completed_text 0 0)"
    unfolding completed_text_def zero by (rule summary_kept; simp add: text_rules)
  show ?thesis unfolding left_behind_def late_race_def by (simp add: race_rules done_text)
qed

lemma early_race_again:
  "left_behind (early_race @ [CancelRequest 1, CancelStep 0 8, CancelStep 0 9]) = Some ([], [], [(1, GitHubSync, JobCancelling)])"
  unfolding left_behind_def early_race_def by (simp add: race_rules)

lemma left_behind_stranded:
  assumes "left_behind as = Some ([], [], [(1, GitHubSync, state)])"
  obtains st where "sync_acts as (engine_started empty_store) = Some st" "sy_active st = []" "\<And>S. state \<in> S \<Longrightarrow> stranded S 1 st"
    "job_at 1 st = Some state"
proof -
  obtain st where st: "sync_acts as (engine_started empty_store) = Some st" "sy_active st = []" "sy_workers st = []"
    "map (\<lambda>(i, j). (i, job_kind j, job_state j)) (st_jobs (sy_store st)) = [(1, GitHubSync, state)]"
    using assms(1) by (auto simp: left_behind_def)
  obtain j where "st_jobs (sy_store st) = [(1, j)]" "job_kind j = GitHubSync" "job_state j = state"
    using st(4) by auto
  then show ?thesis using st by (intro that [OF st(1,2)]) (auto simp: stranded_def find_row_def job_at_def)
qed

lemma sync_acts_append: "sync_acts (as @ bs) st = Option.bind (sync_acts as st) (sync_acts bs)"
proof (induction "as" arbitrary: st)
  case (Cons a "as")
  then show ?case by (cases "sync_act a st") simp_all
qed simp

definition seen :: "sync_action list \<Rightarrow> (active_syncs \<times> (uuid \<times> worker_phase) list \<times> (uuid \<times> job_kind \<times> job_state) list) option" where
  "seen as = map_option (\<lambda>st. (sy_active st, sy_workers st,
     map (\<lambda>(i, j). (i, job_kind j, job_state j)) (st_jobs (sy_store st)))) (sync_acts as (engine_started empty_store))"

lemma seen_state: "seen as = Some (a, w, v) \<Longrightarrow> sync_acts as (engine_started empty_store) = Some st \<Longrightarrow>
    sy_active st = a \<and> sy_workers st = w \<and> map (\<lambda>(i, j). (i, job_kind j, job_state j)) (st_jobs (sy_store st)) = v"
  by (simp add: seen_def)

lemma seen_some: "seen as = Some x \<Longrightarrow> \<exists>st. sync_acts as (engine_started empty_store) = Some st"
  by (auto simp: seen_def)

lemma sync_acts_then: "sync_acts as st = Some st1 \<Longrightarrow> sync_acts bs st1 = r \<Longrightarrow> sync_acts (as @ bs) st = r"
  by (simp add: sync_acts_append)

lemma sync_acts_split: "sync_acts (as @ bs) st = Some st2 \<Longrightarrow>
    \<exists>st1. sync_acts as st = Some st1 \<and> sync_acts bs st1 = Some st2"
  by (auto simp: sync_acts_append bind_eq_Some_conv)

definition signalled_part :: "sync_action list" where
  "signalled_part = [StartSync 1 0, CancelRequest 1, WorkerStep 1, CancelStep 0 2, CancelStep 0 3]"

lemma signalled_part_seen: "seen signalled_part = Some ([(1, True)], [(1, Synchronizing)], [(1, GitHubSync, JobRunning)])"
  unfolding seen_def signalled_part_def by (simp add: race_rules)

lemma signalled_part_race: "early_race = signalled_part @ drop 5 early_race"
  by (simp add: early_race_def signalled_part_def)

definition cancel_queued :: "sync_action list" where
  "cancel_queued = [CancelRequest 1, CancelStep 0 2, CancelStep 0 3]"

lemma orderly_example:
  "seen [StartSync 1 0] = Some ([(1, False)], [(1, Spawned)], [(1, GitHubSync, JobQueued)])"
  "seen ([StartSync 1 0] @ cancel_queued) = Some ([(1, True)], [(1, Spawned)], [(1, GitHubSync, JobCancelled)])"
  "seen ([StartSync 1 0] @ cancel_queued @ [WorkerStep 4]) = Some ([(1, True)], [(1, Leaving)], [(1, GitHubSync, JobCancelled)])"
  "seen ([StartSync 1 0] @ cancel_queued @ [WorkerStep 4, WorkerStep 5]) = Some ([], [], [(1, GitHubSync, JobCancelled)])"
  unfolding seen_def cancel_queued_def by (simp_all add: race_rules)

section \<open>The properties of jobs\<close>

text \<open>One synchronization at a time. However requests to start and to cancel interleave with the worker,
  with other writers of the store and with restarts, at most one job is active, it has exactly one worker,
  and the row of that job is in a state that fits where the worker stands.\<close>

theorem one_sync_at_a_time:
  assumes "table_wf (st_jobs s)" and "sync_acts as (engine_started s) = Some st"
  shows "length (sy_active st) \<le> 1 \<and> map fst (sy_workers st) = map fst (sy_active st) \<and>
    (\<forall>(i, ph) \<in> set (sy_workers st). \<exists>j. find_row i (st_jobs (sy_store st)) = Some j \<and> row_in_phase ph j)"
proof -
  have "sync_inv st" using sync_inv_acts [OF sync_inv_started [OF assms(1)] assms(2)] .
  then show ?thesis by (auto simp: sync_inv_def)
qed

theorem one_sync_at_a_time_witness:
  "length (map fst (sy_workers (engine_started empty_store))) \<le> 1 \<and>
     (\<exists>st. sync_acts early_race (engine_started empty_store) = Some st \<and> map fst (sy_workers st) = map fst (sy_active st))"
proof -
  obtain st where st: "sync_acts early_race (engine_started empty_store) = Some st"
    using left_behind_stranded [OF early_race_ends] by blast
  have wf: "table_wf (st_jobs empty_store)" by (simp add: empty_store_def)
  from one_sync_at_a_time [OF wf st] st show ?thesis by (auto simp: engine_started_def)
qed

text \<open>C19: A cancellation that reaches the worker is final. Once the worker of a job was signalled before it
  decided how the job ended, the job never counts as succeeded, whatever else happens, restarts included.\<close>

theorem cancelled_sync_never_succeeds:
  assumes "table_wf (st_jobs s)" and "sync_acts as (engine_started s) = Some st"
    and "(i, True) \<in> set (sy_active st)" "(i, ph) \<in> set (sy_workers st)" "undecided ph"
    and "sync_acts bs st = Some st'"
  shows "\<exists>j. find_row i (st_jobs (sy_store st')) = Some j \<and> job_state j \<noteq> JobSucceeded"
proof -
  have inv: "sync_inv st" using sync_inv_acts [OF sync_inv_started [OF assms(1)] assms(2)] .
  have "doomed i st'" by (rule doomed_acts [OF inv signalled_doomed [OF inv assms(3-5)] assms(6)])
  then show ?thesis by (auto simp: doomed_def)
qed

text \<open>C20: Synchronizations settle. As long as the engine runs and nothing comes between the two accesses of a
  cancellation or of an ending worker, every synchronization job but the one at work is at rest: it
  succeeded, failed, was cancelled, or was interrupted by an earlier restart.\<close>

theorem orderly_syncs_settle:
  assumes "table_wf (st_jobs s)" and "\<forall>(i, j) \<in> set (sync_rows s). at_rest j" and "orderly_run s st"
    and "(i, j) \<in> set (sync_rows (sy_store st))" and "i \<notin> fst ` set (sy_active st)"
  shows "job_state j \<in> {JobSucceeded, JobFailed, JobCancelled, JobInterrupted}"
proof -
  have o: "orderly_inv st" by (rule orderly_inv_run [OF assms(3,1,2)])
  then have inv: "sync_inv st" by (simp add: orderly_inv_def)
  have "find_row i (st_jobs (sy_store st)) = Some j" "job_kind j = GitHubSync"
    using assms(4) inv in_find_row by (auto simp: sync_rows_def sync_inv_def)
  moreover have "i \<notin> fst ` set (sy_workers st)" using assms(5) inv by (auto simp: sync_inv_def)
  ultimately have "at_rest j" using o by (auto simp: orderly_inv_def)
  then show ?thesis by (cases "job_state j") (auto simp: at_rest_def)
qed



theorem cancelled_sync_never_succeeds_witness:
  "\<exists>st j. sync_acts early_race (engine_started empty_store) = Some st \<and>
     find_row 1 (st_jobs (sy_store st)) = Some j \<and> job_state j \<noteq> JobSucceeded"
proof -
  have wf: "table_wf (st_jobs empty_store)" by (simp add: empty_store_def)
  obtain st' where st': "sync_acts early_race (engine_started empty_store) = Some st'"
    using left_behind_stranded [OF early_race_ends] by blast
  have "sync_acts (signalled_part @ drop 5 early_race) (engine_started empty_store) = Some st'"
    by (rule ssubst [OF signalled_part_race [symmetric], of "\<lambda>as. sync_acts as (engine_started empty_store) = Some st'"]) (rule st')
  from sync_acts_split [OF this] obtain st where st:
    "sync_acts signalled_part (engine_started empty_store) = Some st" "sync_acts (drop 5 early_race) st = Some st'" by blast
  note at = seen_state [OF signalled_part_seen st(1)]
  show ?thesis
    using cancelled_sync_never_succeeds [OF wf st(1), of 1 Synchronizing, OF _ _ _ st(2)] at st' by (auto simp: undecided_def)
qed

theorem orderly_syncs_settle_witness:
  "\<exists>st j. orderly_run empty_store st \<and> (1, j) \<in> set (sync_rows (sy_store st)) \<and> sy_active st = [] \<and>
     job_state j \<in> {JobSucceeded, JobFailed, JobCancelled, JobInterrupted}"
proof -
  let ?e = "engine_started empty_store"
  obtain st4 where 4: "sync_acts ([StartSync 1 0] @ cancel_queued @ [WorkerStep 4, WorkerStep 5]) ?e = Some st4"
    using seen_some [OF orderly_example(4)] by blast
  note last = seen_state [OF orderly_example(4) 4]
  obtain st1 where 1: "sync_acts [StartSync 1 0] ?e = Some st1"
    "sync_acts (cancel_queued @ [WorkerStep 4, WorkerStep 5]) st1 = Some st4"
    using sync_acts_split [OF 4] by blast
  obtain st2 where 2: "sync_acts cancel_queued st1 = Some st2" "sync_acts [WorkerStep 4, WorkerStep 5] st2 = Some st4"
    using sync_acts_split [OF 1(2)] by blast
  obtain st3 where 3: "sync_act (WorkerStep 4) st2 = Some st3" "sync_act (WorkerStep 5) st3 = Some st4"
    using 2(2) by (auto simp only: sync_acts.simps bind_eq_Some_conv)
  have 5: "sync_acts [WorkerStep 4] st2 = Some st3" using 3(1) by simp
  have w2: "sy_workers st2 = [(1, Spawned)]"
    using seen_state [OF orderly_example(2) sync_acts_then [OF 1(1) 2(1)]] by blast
  have w3: "sy_workers st3 = [(1, Leaving)]"
    using seen_state [OF orderly_example(3) sync_acts_then [OF 1(1) sync_acts_then [OF 2(1) 5]]] by blast
  have "orderly_run empty_store st1"
    by (rule orderly_run.start [OF orderly_run.started, of 1 0]) (use 1(1) in \<open>auto simp only: sync_acts.simps bind_eq_Some_conv\<close>)
  then have "orderly_run empty_store st2" by (rule orderly_run.cancelled [OF _ 2(1) [unfolded cancel_queued_def]])
  then have "orderly_run empty_store st3" using w2 3(1) by (rule orderly_run.begins)
  then have run: "orderly_run empty_store st4" using w3 3(2) by (rule orderly_run.leaves)
  obtain j where j: "(1, j) \<in> set (sync_rows (sy_store st4))" using last by (auto simp: sync_rows_def)
  have "table_wf (st_jobs empty_store)" "\<forall>(i, j) \<in> set (sync_rows empty_store). at_rest j"
    by (simp_all add: empty_store_def sync_rows_def)
  from orderly_syncs_settle [OF this run j] run j last show ?thesis by auto
qed

section \<open>Reconciliation of a task\<close>

lemma snapshot_repository:
  assumes "fetched_ok (repository_snapshot src w fuel repository n) snap"
  shows "gr_id (gs_repository snap) = gr_id repository \<and> gr_full_name (gs_repository snap) = gr_full_name repository \<and>
    gr_installation_id (gs_repository snap) = gr_installation_id repository"
  using assms
  by (auto simp: repository_snapshot_def Let_def assemble_snapshot_def counted_repository_def split: option.splits prod.splits)

lemma lookup_full_name: "fetched_ok (source_repository src net full_name) repository \<Longrightarrow> gr_full_name repository = full_name"
  by (auto simp: source_repository_def split: option.splits prod.splits if_splits)

lemma identified_snapshot_ok:
  assumes "identified_snapshot w refresh full_name repository_id installation_id limit src = Some (Inr snap)"
  obtains repository where "fetched_ok (source_repository src (rw_lookup w) full_name) repository"
    "gr_id repository = repository_id" "gr_full_name repository = full_name"
    "fetched_ok (repository_snapshot src (rw_snapshot w) (rw_fuel w)
       (repository\<lparr>gr_installation_id := Some installation_id\<rparr>) limit) snap"
    "gr_id (gs_repository snap) = repository_id" "gr_full_name (gs_repository snap) = full_name"
    "gr_installation_id (gs_repository snap) = Some installation_id"
proof -
  obtain repository where r: "fetched_ok (source_repository src (rw_lookup w) full_name) repository"
    "gr_id repository = repository_id"
    "fetched_ok (repository_snapshot src (rw_snapshot w) (rw_fuel w)
       (repository\<lparr>gr_installation_id := Some installation_id\<rparr>) limit) snap"
    using assms by (auto simp: identified_snapshot_def fetched_ok_def sync_error_def map_err_eq_Inr
      split: option.splits sum.splits if_splits)
  show ?thesis using that [OF r(1,2) _ r(3)] snapshot_repository [OF r(3)] lookup_full_name [OF r(1)] r(2) by simp
qed

text \<open>What the read client sends: its token, in \<open>GET\<close>s and GraphQL queries.\<close>

definition read_with_token :: "github_source \<Rightarrow> http_request \<Rightarrow> bool" where
  "read_with_token src rq \<longleftrightarrow> rq_bearer rq = so_token src \<and> only_reads rq"

lemma get_with_token: "list_all (read_with_token src) (fst (source_get src ask decode path))"
  by (auto simp: source_get_def source_request_def read_with_token_def only_reads_def fetch_done_def Let_def split: option.split)

lemma threads_query_reads: "only_reads \<lparr>rq_method = POST, rq_url = url, rq_bearer = t, rq_body = Some (threads_body owner name n after)\<rparr>"
  by (simp add: only_reads_def threads_body_def threads_query_def str_at_def json_get_def as_str_def starts_with_def)

lemma graphql_with_token: "list_all (read_with_token src) (fst (source_graphql src ask (threads_body owner name n after)))"
  by (auto simp: source_graphql_def source_request_def read_with_token_def threads_query_reads fetch_done_def Let_def split: option.split)

lemma paginate_with_token: "list_all (read_with_token src) (fst (paginate src net rows limit fuel n url acc))"
  by (induction fuel arbitrary: n url acc)
    (auto simp: Let_def read_with_token_def source_request_def only_reads_def split: sum.split option.split)

lemma paginated_with_token: "list_all (read_with_token src) (fst (paginated_rows src net fuel rows path limit))"
  by (auto simp: paginated_rows_def paginate_with_token split: option.split)

lemma threads_with_token:
  "list_all (read_with_token src) (fst (threads_loop src net owner name number limit fuel n after acc))"
  by (induction fuel arbitrary: n after acc)
    (auto intro!: requests_then graphql_with_token split: sum.split prod.split bool.split option.split)

lemmas token_intros = requests_then requests_done requests_joined get_with_token paginated_with_token threads_with_token

lemma repository_with_token: "list_all (read_with_token src) (fst (source_repository src net full_name))"
  unfolding source_repository_def by (auto split: option.split intro!: token_intros)

lemma snapshot_with_token:
  "list_all (read_with_token src) (fst (repository_snapshot src w fuel repository requested))"
  unfolding repository_snapshot_def Let_def paginated_def paginated_field_def enrich_pulls_def enrich_pull_def
    discussions_def reviews_of_pull_def review_threads_def review_threads_for_pull_def pull_checks_def checks_of_pull_def
  by (auto split: option.split simp del: append_Cons append_assoc intro!: token_intros)

lemma mapped_reads: "all_requests P c \<Longrightarrow> all_requests P (mapped_call f c)"
  unfolding mapped_call_def by (rule all_requests_bind) simp_all

lemma source_reads: "all_requests (\<lambda>_ eff. eff = ReadEffect) (github_app_source_for_repository urls a now full_name n expected)"
  unfolding github_app_source_for_repository_def github_app_installation_token_def
  by (intro all_requests_await all_requests_try mapped_reads token_reads) (auto intro!: all_requests_await all_requests_try mapped_reads token_reads split: prod.splits)

lemma source_installation:
  assumes "conversation (github_app_source_for_repository urls a now full_name n (Some installation_id)) es (Inr (src, k))"
  shows "\<exists>token rc. conversation (github_app_installation_token a now full_name n ingestion_permissions) es (Inr token) \<and>
    it_installation_id token = installation_id \<and> runtime_configuration_of a = Some rc \<and>
    src = \<lparr>so_urls = urls, so_base_url = rc_api_base_url rc, so_token = it_token token\<rparr>"
  using assms
  by (auto simp: github_app_source_for_repository_def conversation_await conversation_try ensure_eq_Inr map_err_eq_Inr
      ok_or_eq_Inr source_new_def and_then_eq_Inr)

lemma installation_token_minted:
  assumes "conversation (github_app_installation_token a now full_name n permissions) es (Inr token)"
  shows "\<exists>b jwt owner name. split_once CHR ''/'' full_name = Some (owner, name) \<and> mint_exchange b jwt owner name n permissions token es"
proof -
  have "\<exists>owner name br cache x. split_once CHR ''/'' full_name = Some (owner, name) \<and>
      conversation (token_for_repository br [] owner name n permissions now) es x \<and> Inr (token, cache) = map_err (\<lambda>_. ()) x"
    using assms unfolding github_app_installation_token_def conversation_try ok_or_eq_Inr
    by (auto simp: conversation_await conversation_mapped conversation_try ok_or_eq_Inr ensure_eq_Inr split: prod.splits) blast
  then obtain owner name br cache x where split: "split_once CHR ''/'' full_name = Some (owner, name)"
    and c: "conversation (token_for_repository br [] owner name n permissions now) es x" "Inr (token, cache) = map_err (\<lambda>_. ()) x"
    by blast
  have "x = Inr (token, cache)" using c(2) by (cases x) simp_all
  with token_for_repository_ok [of br "[]" owner name n permissions now es token cache] c(1) split show ?thesis
    by (auto simp: find_row_def)
qed

text \<open>What a request to reconcile a task may do: refuse and leave the store to the others, or commit a snapshot.\<close>

definition bound_snapshot :: "task \<Rightarrow> repository_binding \<Rightarrow> github_repository_snapshot \<Rightarrow> bool" where
  "bound_snapshot t b snap \<longleftrightarrow> source_repository_id (task_source t) = Some (gr_id (gs_repository snap)) \<and>
     source_repository_full_name (task_source t) = Some (gr_full_name (gs_repository snap)) \<and>
     rb_github_repository_id b = gr_id (gs_repository snap) \<and> rb_full_name b = gr_full_name (gs_repository snap) \<and>
     gr_installation_id (gs_repository snap) = Some (rb_installation_id b)"

lemma reconcile_target_ok:
  "reconcile_target i s = Inr (full_name, repository_id, installation_id) \<longleftrightarrow>
     (\<exists>t b binding_id. load_task i s = Some t \<and> task_repository_binding_id t = Some binding_id \<and>
        repository_binding binding_id s = Some b \<and> source_repository_full_name (task_source t) = Some full_name \<and>
        source_repository_id (task_source t) = Some repository_id \<and> rb_github_repository_id b = repository_id \<and>
        rb_full_name b = full_name \<and> rb_installation_id b = installation_id)"
  by (auto simp: reconcile_target_def and_then_eq_Inr ok_or_eq_Inr ensure_eq_Inr)

lemma reconcile_keeps_snapshots:
  assumes "reconcile_completed_task_from_snapshot env now i snap s = Inr (s', t')"
  shows "st_snapshots s' = st_snapshots s"
proof -
  have events: "st_snapshots (save_task_events es s) = st_snapshots s" for es s
    by (induction es arbitrary: s) (auto simp: save_task_events_def record_task_def)
  have set: "st_snapshots s2 = st_snapshots s1" if "set_delivery key result completed s1 = Inr s2" for key result completed s1 s2
    using that by (auto simp: set_delivery_def and_then_eq_Inr Let_def split: prod.splits)
  from assms obtain t item c where o: "reconcile_outcome env now i t item c s = Inr (s', t')"
    by (rule reconcile_item)
  show ?thesis
  proof (cases c)
    case True
    then show ?thesis using reconcile_completed [of env now i t item s s' t'] o
      by (auto simp: complete_delivery_with_task_events_def and_then_eq_Inr events dest: set)
  next
    case False
    then have "reconcile_outcome env now i t item False s = Inr (s', t')" using o by simp
    then show ?thesis
      by (rule reconcile_retry)
        (auto simp: complete_failed_merge_delivery_def and_then_eq_Inr record_task_def invalidate_task_approvals_def
          Let_def split_def dest: set)
  qed
qed

lemma committed_snapshot:
  "load_github_repository name (fst (commit_reconciliation env now later i snap s)) =
     (if name = gr_full_name (gs_repository snap) then Some snap else load_github_repository name s)"
proof (cases "reconcile_completed_task_from_snapshot env later i snap (replace_github_snapshot now snap s)")
  case (Inl e)
  then show ?thesis by (simp add: commit_reconciliation_def load_github_repository_def replace_github_snapshot_def)
next
  case (Inr x)
  obtain s2 t where x: "x = (s2, t)" by (cases x)
  have c: "commit_reconciliation env now later i snap s = (s2, Inr t)"
    by (simp add: commit_reconciliation_def Let_def Inr x)
  show ?thesis using reconcile_keeps_snapshots [OF Inr [unfolded x]]
    unfolding c by (simp add: load_github_repository_def replace_github_snapshot_def)
qed

text \<open>C22: A task is reconciled with its own repository. Whatever GitHub replies, reconciling a task changes
  nothing on GitHub. It stores a snapshot only of the repository that the task's source and its binding name
  with the same identifier and full name; that snapshot was read with one token, which every request of its
  reading bears, all of them \<open>GET\<close>s and GraphQL queries; and that token was minted in this very operation, for
  this one repository, with the permissions to read, from the installation that the binding names. The
  snapshots of other repositories stay what the other clients made them, and any other end is an error that
  leaves the store to the other clients.\<close>

theorem reconciled_as_bound:
  assumes "conversation (task_reconcile_github parse_uuid env w a now later unix_now others params s) es (Some (s', r))"
  shows "mutations es = [] \<and> ((s' = s \<or> s' = others s) \<and> (\<exists>e. r = Inl e) \<or>
    (\<exists>i t b binding_id snap token rc repository src br jwt owner name.
       required_task_id parse_uuid params = Some i \<and> load_task i s = Some t \<and>
       task_repository_binding_id t = Some binding_id \<and> repository_binding binding_id s = Some b \<and> bound_snapshot t b snap \<and>
       split_once CHR ''/'' (rb_full_name b) = Some (owner, name) \<and>
       mint_exchange br jwt owner name (rb_github_repository_id b) [(''actions'', ''read''), (''checks'', ''read''),
         (''contents'', ''read''), (''issues'', ''read''), (''metadata'', ''read''), (''pull_requests'', ''read'')] token es \<and>
       it_installation_id token = rb_installation_id b \<and> runtime_configuration_of a = Some rc \<and>
       src = \<lparr>so_urls = rw_urls w, so_base_url = rc_api_base_url rc, so_token = it_token token\<rparr> \<and>
       snd (source_repository src (rw_lookup w) (rb_full_name b)) = Some (Inr repository) \<and>
       snd (repository_snapshot src (rw_snapshot w) (rw_fuel w)
         (repository\<lparr>gr_installation_id := Some (rb_installation_id b)\<rparr>) 100) = Some (Inr snap) \<and>
       (\<forall>rq \<in> set (fst (source_repository src (rw_lookup w) (rb_full_name b))) \<union>
          set (fst (repository_snapshot src (rw_snapshot w) (rw_fuel w)
            (repository\<lparr>gr_installation_id := Some (rb_installation_id b)\<rparr>) 100)).
          rq_bearer rq = it_token token \<and> only_reads rq) \<and>
       (s', r) = commit_reconciliation env now later i snap (others s) \<and>
       load_github_repository (rb_full_name b) s' = Some snap \<and>
       (\<forall>other. other \<noteq> rb_full_name b \<longrightarrow> load_github_repository other s' = load_github_repository other (others s))))"
proof (cases "required_task_id parse_uuid params")
  case None
  then show ?thesis using assms by (simp add: task_reconcile_github_def)
next
  case (Some i)
  show ?thesis
  proof (cases "reconcile_target i s")
    case (Inl e)
    then show ?thesis using assms Some by (simp add: task_reconcile_github_def)
  next
    case (Inr x)
    obtain full_name n k where x: "x = (full_name, n, k)" by (cases x)
    obtain t b binding_id where t: "load_task i s = Some t" "task_repository_binding_id t = Some binding_id"
      "repository_binding binding_id s = Some b" "source_repository_full_name (task_source t) = Some full_name"
      "source_repository_id (task_source t) = Some n" and b: "rb_github_repository_id b = n" "rb_full_name b = full_name"
      "rb_installation_id b = k"
      using Inr unfolding x reconcile_target_ok by blast
    let ?c = "github_app_source_for_repository (rw_urls w) a unix_now full_name n (Some k)"
    obtain y where c: "conversation ?c es y" and
      y: "Some (s', r) = (case y of Inl _ \<Rightarrow> Some (others s, authentication_unavailable)
        | Inr (src, _) \<Rightarrow> map_option (\<lambda>r. case r of Inl e \<Rightarrow> (others s, Inl e)
            | Inr snap \<Rightarrow> commit_reconciliation env now later i snap (others s))
          (identified_snapshot w ''GitHub task reconciliation refresh failed'' full_name n k 100 src))"
      using assms by (auto simp: task_reconcile_github_def Some Inr x conversation_mapped)
    have reads: "mutations es = []" by (rule reads_no_mutations [OF c source_reads])
    show ?thesis
    proof (cases y)
      case (Inl e)
      then show ?thesis using y reads by (auto simp: authentication_unavailable_def sync_error_def)
    next
      case (Inr p)
      obtain src k' where p: "p = (src, k')" by (cases p)
      obtain token rc where token: "it_installation_id token = k" "runtime_configuration_of a = Some rc"
        "src = \<lparr>so_urls = rw_urls w, so_base_url = rc_api_base_url rc, so_token = it_token token\<rparr>"
        and asked: "conversation (github_app_installation_token a unix_now full_name n ingestion_permissions) es (Inr token)"
        using source_installation [OF c [unfolded Inr p]] by blast
      obtain br jwt owner name where minted: "split_once CHR ''/'' full_name = Some (owner, name)"
        "mint_exchange br jwt owner name n ingestion_permissions token es"
        using installation_token_minted [OF asked] by blast
      obtain q where q: "identified_snapshot w ''GitHub task reconciliation refresh failed'' full_name n k 100 src = Some q"
        "(s', r) = (case q of Inl e \<Rightarrow> (others s, Inl e) | Inr snap \<Rightarrow> commit_reconciliation env now later i snap (others s))"
        using y [symmetric] by (auto simp: Inr p map_option_eq_Some)
      show ?thesis
      proof (cases q)
        case (Inl e)
        then show ?thesis using q reads by auto
      next
        case (Inr snap)
        from q(1) [unfolded Inr] obtain repository where fetched:
          "fetched_ok (source_repository src (rw_lookup w) full_name) repository"
          "fetched_ok (repository_snapshot src (rw_snapshot w) (rw_fuel w) (repository\<lparr>gr_installation_id := Some k\<rparr>) 100) snap"
          and same: "gr_id (gs_repository snap) = n" "gr_full_name (gs_repository snap) = full_name"
            "gr_installation_id (gs_repository snap) = Some k"
          by (rule identified_snapshot_ok)
        have sr: "(s', r) = commit_reconciliation env now later i snap (others s)" using q(2) Inr by simp
        have s': "s' = fst (commit_reconciliation env now later i snap (others s))" using sr by (metis fst_conv)
        have bears: "rq_bearer rq = it_token token \<and> only_reads rq"
          if "rq \<in> set (fst (source_repository src (rw_lookup w) full_name)) \<union>
            set (fst (repository_snapshot src (rw_snapshot w) (rw_fuel w) (repository\<lparr>gr_installation_id := Some k\<rparr>) 100))" for rq
          using that repository_with_token [of src "rw_lookup w" full_name]
            snapshot_with_token [of src "rw_snapshot w" "rw_fuel w" "repository\<lparr>gr_installation_id := Some k\<rparr>" 100]
          by (auto simp: list_all_iff read_with_token_def token(3))
        have stored: "load_github_repository full_name s' = Some snap"
          "\<forall>other. other \<noteq> full_name \<longrightarrow> load_github_repository other s' = load_github_repository other (others s)"
          by (simp_all add: s' committed_snapshot same)
        have bound: "bound_snapshot t b snap" using same t(4,5) b by (simp add: bound_snapshot_def)
        note facts = minted(1) minted(2) [unfolded ingestion_permissions_def] token(1,2,3) sr stored ballI bears
          fetched [unfolded fetched_ok_def]
        show ?thesis
          by (rule conjI [OF reads], rule disjI2, rule exI [of _ i], rule exI [of _ t], rule exI [of _ b], rule exI [of _ binding_id],
            rule exI [of _ snap], rule exI [of _ token], rule exI [of _ rc], rule exI [of _ repository], rule exI [of _ src],
            rule exI [of _ br], rule exI [of _ jwt], rule exI [of _ owner], rule exI [of _ name], intro conjI)
            (rule Some t(1,2,3) bound facts [unfolded b [symmetric]] | assumption)+
      qed
    qed
  qed
qed

definition reading_exchange :: exchange where
  "reading_exchange = (\<lparr>rq_method = POST, rq_url = ''https://h/app/installations/'' @ decimal 5 @ ''/access_tokens'',
     rq_bearer = ''jwt'', rq_body = Some (mint_body 11 ingestion_permissions)\<rparr>, ReadEffect,
     Reply 201 None None (Some (JObject [(''token'', JString ''t''), (''expires_at'', JString ''x'')])))"

lemma reading_token:
  "\<exists>cache. conversation (token_for_repository sample_broker [] ''o'' ''r'' 11 ingestion_permissions 0)
     [found_exchange, reading_exchange] (Inr (sample_token\<lparr>it_permissions := ingestion_permissions\<rparr>, cache))"
  by (simp add: token_steps sample_broker_defs found_exchange_def reading_exchange_def sample_token_def
    str_at_def u64_at_def json_get_def as_str_def as_u64_def)

definition repository_json :: json where
  "repository_json = JObject [(''id'', JNumber (PosInt 11)), (''full_name'', JString ''o/r''), (''private'', JBool False),
     (''archived'', JBool False), (''default_branch'', JString ''m''), (''html_url'', JString ''h''),
     (''updated_at'', JString ''t''), (''open_issues_count'', JNumber (PosInt 0))]"

definition sample_repository_world :: repository_world where
  "sample_repository_world = \<lparr>rw_urls = plain_urls, rw_fuel = 1, rw_lookup = (\<lambda>_ _. SourceReply 200 None (Some repository_json)),
     rw_snapshot = sample_snapshot_world\<rparr>"

lemma sample_decoded: "decode_repository repository_json = Some (sample_github_repository\<lparr>gr_open_pull_request_count := 0\<rparr>)"
  by code_simp

lemma sample_identified:
  assumes "so_urls src = plain_urls"
  shows "identified_snapshot sample_repository_world refresh ''o/r'' 11 5 100 src =
    Some (Inr (empty_repository_snapshot (sample_github_repository\<lparr>gr_open_pull_request_count := 0, gr_installation_id := Some 5\<rparr>)))"
proof -
  have "snd (source_repository src (rw_lookup sample_repository_world) ''o/r'') =
      Some (Inr (sample_github_repository\<lparr>gr_open_pull_request_count := 0\<rparr>))"
    using plain_url [of "so_base_url src" "''/repos/'' @ encode_path_segment ''o'' @ ''/'' @ encode_path_segment ''r''"] assms
    by (auto simp: source_repository_def split_once_def source_get_def sample_repository_world_def sample_decoded
      fetch_then_def fetch_done_def reply_body_def is_success_def Let_def sample_github_repository_def)
  moreover have "fetched_ok (repository_snapshot src sample_snapshot_world 1
      (sample_github_repository\<lparr>gr_open_pull_request_count := 0, gr_installation_id := Some 5\<rparr>) 100)
      (empty_repository_snapshot (sample_github_repository\<lparr>gr_open_pull_request_count := 0, gr_installation_id := Some 5\<rparr>))"
    by (rule empty_repository_fetched) (simp_all add: assms sample_github_repository_def)
  ultimately show ?thesis
    by (simp add: identified_snapshot_def sample_repository_world_def fetched_ok_def) (simp add: sample_github_repository_def)
qed

lemma reading_source:
  "conversation (github_app_source_for_repository plain_urls sample_app 0 ''o/r'' 11 (Some 5)) [found_exchange, reading_exchange]
     (Inr (\<lparr>so_urls = plain_urls, so_base_url = ''https://h/'', so_token = ''t''\<rparr>, 5))"
proof -
  obtain cache where "conversation (token_for_repository sample_broker [] ''o'' ''r'' 11 ingestion_permissions 0)
    [found_exchange, reading_exchange] (Inr (sample_token\<lparr>it_permissions := ingestion_permissions\<rparr>, cache))"
    using reading_token by blast
  then have "conversation (mapped_call (map_err (\<lambda>_. ())) (token_for_repository sample_broker [] ''o'' ''r'' 11 ingestion_permissions 0))
      [found_exchange, reading_exchange] (Inr (sample_token\<lparr>it_permissions := ingestion_permissions\<rparr>, cache))"
    unfolding conversation_mapped by force
  then have "conversation (github_app_installation_token sample_app 0 ''o/r'' 11 ingestion_permissions) [found_exchange, reading_exchange]
      (Inr (sample_token\<lparr>it_permissions := ingestion_permissions\<rparr>))"
    by (simp add: github_app_installation_token_def split_once_def sample_configured conversation_await) blast
  then show ?thesis
    unfolding github_app_source_for_repository_def conversation_await
    by (intro disjI2 exI conjI) (assumption, simp_all add: sample_configured sample_token_def source_new_def plain_urls_def)
qed

theorem reconciled_as_bound_witness:
  "\<exists>es s' r. conversation (task_reconcile_github (\<lambda>_. Some 7) sample_env sample_repository_world sample_app 1 2 0 id
       (JObject [(''taskId'', JString ''7'')]) delivery_store) es (Some (s', r)) \<and> mutations es = [] \<and>
     map fst (st_snapshots s') = [''o/r''] \<and> r = Inl (RpcError (- 32046) ''GitHub does not confirm this exact task is complete'')"
proof -
  let ?src = "\<lparr>so_urls = plain_urls, so_base_url = ''https://h/'', so_token = ''t''\<rparr>"
  let ?snap = "empty_repository_snapshot (sample_github_repository\<lparr>gr_open_pull_request_count := 0, gr_installation_id := Some 5\<rparr>)"
  let ?r = "commit_reconciliation sample_env 1 2 7 ?snap delivery_store"
  have i: "required_task_id (\<lambda>_. Some 7) (JObject [(''taskId'', JString ''7'')]) = Some 7"
    by (simp add: required_task_id_def uuid_parameter_def str_at_def json_get_def as_str_def)
  have target: "reconcile_target 7 delivery_store = Inr (''o/r'', 11, 5)"
    by (simp add: reconcile_target_def merge_task_def sample_pull_request_def sample_binding_def)
  have snap: "identified_snapshot sample_repository_world ''GitHub task reconciliation refresh failed'' ''o/r'' 11 5 100 ?src = Some (Inr ?snap)"
    by (rule sample_identified) simp
  obtain s' r where sr: "?r = (s', r)" by (rule prod.exhaust)
  have c: "conversation (task_reconcile_github (\<lambda>_. Some 7) sample_env sample_repository_world sample_app 1 2 0 id
       (JObject [(''taskId'', JString ''7'')]) delivery_store) [found_exchange, reading_exchange] (Some (s', r))"
    unfolding sr [symmetric] task_reconcile_github_def i option.case target sum.case prod.case conversation_mapped
    by (intro exI conjI) (simp add: sample_repository_world_def, rule reading_source, simp add: snap)
  have stored: "map fst (st_snapshots (fst ?r)) = [''o/r'']"
    "snd ?r = Inl (RpcError (- 32046) ''GitHub does not confirm this exact task is complete'')"
  proof -
    have no_items: "gs_work_items ?snap = []" by (simp add: empty_repository_snapshot_def assemble_snapshot_def)
    have task: "load_task 7 (replace_github_snapshot 1 ?snap delivery_store) = Some merge_task"
      using delivery_store_rows(1) by (simp add: replace_github_snapshot_def load_task_def)
    obtain e where "reconcile_completed_task_from_snapshot sample_env 2 7 ?snap (replace_github_snapshot 1 ?snap delivery_store) = Inl e"
      using task no_items
      by (cases "reconcile_completed_task_from_snapshot sample_env 2 7 ?snap (replace_github_snapshot 1 ?snap delivery_store)")
        (auto simp: reconcile_completed_task_from_snapshot_def and_then_eq_Inr ok_or_eq_Inr)
    then have r: "?r = (replace_github_snapshot 1 ?snap delivery_store,
        Inl (RpcError (- 32046) ''GitHub does not confirm this exact task is complete''))"
      by (simp add: commit_reconciliation_def)
    have "gr_full_name (gs_repository ?snap) = ''o/r''" "st_snapshots delivery_store = []"
      by (simp_all add: empty_repository_snapshot_def assemble_snapshot_def counted_repository_def sample_github_repository_def
        delivery_store_def empty_store_def)
    then show "map fst (st_snapshots (fst ?r)) = [''o/r'']"
      unfolding r by (simp add: replace_github_snapshot_def upsert_def)
    show "snd ?r = Inl (RpcError (- 32046) ''GitHub does not confirm this exact task is complete'')" by (simp add: r)
  qed
  have none: "mutations [found_exchange, reading_exchange] = []" using reconciled_as_bound [OF c] by (rule conjunct1)
  show ?thesis
    by (intro exI conjI, rule c, rule none) (use stored in \<open>simp_all only: sr fst_conv snd_conv\<close>)
qed

end
