(* ===== verification/Codex_Protocol.thy ===== *)
theory Codex_Protocol
  imports Codex_Records Json_Decode Tables
begin

text \<open>
  The protocol with the Codex app-server, \<open>crates/patchwright-engine/src/codex/protocol.rs\<close>: requests,
  the decoder of a line and the state it keeps, which is the requests that wait for a response and the
  turns whose completion was seen. The sets are lists without repetitions. The parser of JSON is an
  argument of \<open>decode_line\<close>.
\<close>

definition max_line_bytes :: nat where
  "max_line_bytes = 4 * 1024 * 1024"

datatype client_method =
  Initialize | AccountRead | ThreadStart | ThreadResume | TurnStart | TurnSteer | TurnInterrupt

definition method_text :: "client_method \<Rightarrow> string" where
  "method_text m = (case m of
       Initialize \<Rightarrow> ''initialize'' | AccountRead \<Rightarrow> ''account/read'' | ThreadStart \<Rightarrow> ''thread/start''
     | ThreadResume \<Rightarrow> ''thread/resume'' | TurnStart \<Rightarrow> ''turn/start'' | TurnSteer \<Rightarrow> ''turn/steer''
     | TurnInterrupt \<Rightarrow> ''turn/interrupt'')"

datatype protocol_error =
    LineTooLarge | MalformedJson | NotAnObject | MissingField string | UnsupportedJsonRpcVersion | InvalidRequestId
  | DuplicateRequestId request_id | UnexpectedResponseId request_id | DuplicateCompletion string string
  | UnknownTurnStatus string

definition validate_request_id :: "request_id \<Rightarrow> protocol_error + unit" where
  "validate_request_id i = ensure (i \<noteq> StringId []) InvalidRequestId"

definition json_of_request_id :: "request_id \<Rightarrow> json" where
  "json_of_request_id i = (case i of
       StringId t \<Rightarrow> JString t
     | NumberId n \<Rightarrow> JNumber (if 0 \<le> sint n then PosInt (ucast n) else NegInt n))"

text \<open>\<open>ClientRequest::new\<close> and its encoder.\<close>

definition client_request :: "request_id \<Rightarrow> client_method \<Rightarrow> json \<Rightarrow> protocol_error + json" where
  "client_request i m params = and_then (validate_request_id i) (\<lambda>_.
     Inr (JObject [(''jsonrpc'', JString ''2.0''), (''id'', json_of_request_id i),
       (''method'', JString (method_text m)), (''params'', params)]))"

definition initialized_notification :: json where
  "initialized_notification = JObject [(''jsonrpc'', JString ''2.0''), (''method'', JString ''initialized'')]"

record response_envelope =
  re_id :: request_id
  re_payload :: json
  re_is_error :: bool

datatype server_request_kind =
  CommandApprovalRequest | FileChangeApprovalRequest | PermissionApprovalRequest | UnsupportedRequest string

record server_request_envelope =
  sq_id :: request_id
  sq_kind :: server_request_kind
  sq_params :: json

datatype turn_status = TurnCompletedStatus | TurnInterrupted | TurnFailed | TurnInProgress

datatype codex_wire_event =
    EventInitialized
  | ItemStarted string string string
  | ItemCompleted string string string
  | TurnCompleted string string turn_status
  | ErrorEvent string string bool
  | UnsupportedEvent string

datatype incoming_message =
  ResponseMessage response_envelope | ServerRequest server_request_envelope | EventMessage codex_wire_event

section \<open>The decoder\<close>

record protocol_decoder =
  pd_pending :: "request_id list"
  pd_completed :: "(string \<times> string) list"

definition new_decoder :: protocol_decoder where
  "new_decoder = \<lparr>pd_pending = [], pd_completed = []\<rparr>"

definition register_request :: "request_id \<Rightarrow> protocol_decoder \<Rightarrow> protocol_error + protocol_decoder" where
  "register_request i d = and_then (validate_request_id i) (\<lambda>_.
     if i \<in> set (pd_pending d) then Inl (DuplicateRequestId i) else Inr (d\<lparr>pd_pending := i # pd_pending d\<rparr>))"

definition cancel_request :: "request_id \<Rightarrow> protocol_decoder \<Rightarrow> protocol_decoder" where
  "cancel_request i d = d\<lparr>pd_pending := filter (\<lambda>k. k \<noteq> i) (pd_pending d)\<rparr>"

text \<open>The untagged decoder of \<open>RequestId\<close>: an integer of 64 bits with a sign, or a string.\<close>

definition as_i64 :: "json \<Rightarrow> i64 option" where
  "as_i64 v = (case v of
       JNumber (PosInt n) \<Rightarrow> if n < 2 ^ 63 then Some (ucast n) else None
     | JNumber (NegInt n) \<Rightarrow> Some n
     | _ \<Rightarrow> None)"

definition decode_request_id :: "json \<Rightarrow> protocol_error + request_id" where
  "decode_request_id v = and_then
     (case as_i64 v of Some n \<Rightarrow> Inr (NumberId n)
      | None \<Rightarrow> (case as_str v of Some t \<Rightarrow> Inr (StringId t) | None \<Rightarrow> Inl InvalidRequestId))
     (\<lambda>i. and_then (validate_request_id i) (\<lambda>_. Inr i))"

definition required_params :: "json option \<Rightarrow> protocol_error + json" where
  "required_params v = ok_or (Option.bind v (\<lambda>v. map_option (\<lambda>_. v) (object_members v))) (MissingField ''params'')"

definition required_text :: "json option \<Rightarrow> string \<Rightarrow> protocol_error + string" where
  "required_text v field = ok_or (filter_option (\<lambda>t. t \<noteq> []) (Option.bind v as_str)) (MissingField field)"

definition decode_response :: "json \<Rightarrow> json \<Rightarrow> protocol_decoder \<Rightarrow> protocol_decoder \<times> (protocol_error + incoming_message)" where
  "decode_response i object d = (case decode_request_id i of
       Inl e \<Rightarrow> (d, Inl e)
     | Inr i \<Rightarrow>
         if i \<notin> set (pd_pending d) then (d, Inl (UnexpectedResponseId i))
         else (cancel_request i d, case json_get ''error'' object of
             Some e \<Rightarrow> Inr (ResponseMessage \<lparr>re_id = i, re_payload = e, re_is_error = True\<rparr>)
           | None \<Rightarrow> and_then (ok_or (json_get ''result'' object) (MissingField ''result'')) (\<lambda>r.
               Inr (ResponseMessage \<lparr>re_id = i, re_payload = r, re_is_error = False\<rparr>))))"

definition server_request_kind_of :: "string \<Rightarrow> server_request_kind" where
  "server_request_kind_of m =
     (if m = ''item/commandExecution/requestApproval'' then CommandApprovalRequest
      else if m = ''item/fileChange/requestApproval'' then FileChangeApprovalRequest
      else if m = ''item/permissions/requestApproval'' then PermissionApprovalRequest
      else UnsupportedRequest m)"

definition decode_server_request :: "json \<Rightarrow> string \<Rightarrow> json option \<Rightarrow> protocol_error + incoming_message" where
  "decode_server_request i m params =
     and_then (required_params params) (\<lambda>params.
     and_then (decode_request_id i) (\<lambda>i.
     Inr (ServerRequest \<lparr>sq_id = i, sq_kind = server_request_kind_of m, sq_params = params\<rparr>)))"

definition turn_status_of :: "string \<Rightarrow> turn_status option" where
  "turn_status_of t = (if t = ''completed'' then Some TurnCompletedStatus
     else if t = ''interrupted'' then Some TurnInterrupted
     else if t = ''failed'' then Some TurnFailed
     else if t = ''inProgress'' then Some TurnInProgress else None)"

text \<open>What a completion says, before the turn is looked up.\<close>

definition completion_fields :: "json option \<Rightarrow> protocol_error + string \<times> string \<times> turn_status" where
  "completion_fields params =
     and_then (required_params params) (\<lambda>params.
     and_then (required_text (json_get ''threadId'' params) ''threadId'') (\<lambda>thread_id.
     and_then (ok_or (Option.bind (json_get ''turn'' params) (\<lambda>v. map_option (\<lambda>_. v) (object_members v)))
       (MissingField ''turn'')) (\<lambda>turn.
     and_then (required_text (json_get ''id'' turn) ''turn.id'') (\<lambda>turn_id.
     and_then (required_text (json_get ''status'' turn) ''turn.status'') (\<lambda>status.
     and_then (ok_or (turn_status_of status) (UnknownTurnStatus status)) (\<lambda>status.
     Inr (thread_id, turn_id, status)))))))"

definition decode_completion :: "json option \<Rightarrow> protocol_decoder \<Rightarrow> protocol_decoder \<times> (protocol_error + codex_wire_event)" where
  "decode_completion params d = (case completion_fields params of
       Inl e \<Rightarrow> (d, Inl e)
     | Inr (thread_id, turn_id, status) \<Rightarrow>
         if (thread_id, turn_id) \<in> set (pd_completed d) then (d, Inl (DuplicateCompletion thread_id turn_id))
         else (d\<lparr>pd_completed := (thread_id, turn_id) # pd_completed d\<rparr>, Inr (TurnCompleted thread_id turn_id status)))"

definition decode_wire_item :: "json option \<Rightarrow> bool \<Rightarrow> protocol_error + codex_wire_event" where
  "decode_wire_item params started =
     and_then (required_params params) (\<lambda>params.
     and_then (required_text (json_get ''threadId'' params) ''threadId'') (\<lambda>thread_id.
     and_then (required_text (json_get ''turnId'' params) ''turnId'') (\<lambda>turn_id.
     and_then (ok_or (Option.bind (json_get ''item'' params) (\<lambda>v. map_option (\<lambda>_. v) (object_members v)))
       (MissingField ''item'')) (\<lambda>item.
     and_then (required_text (json_get ''id'' item) ''item.id'') (\<lambda>item_id.
     Inr ((if started then ItemStarted else ItemCompleted) thread_id turn_id item_id))))))"

definition decode_error_event :: "json option \<Rightarrow> protocol_error + codex_wire_event" where
  "decode_error_event params =
     and_then (required_params params) (\<lambda>params.
     and_then (required_text (json_get ''threadId'' params) ''threadId'') (\<lambda>thread_id.
     and_then (required_text (json_get ''turnId'' params) ''turnId'') (\<lambda>turn_id.
     and_then (ok_or (bool_at [''willRetry''] params) (MissingField ''willRetry'')) (\<lambda>will_retry.
     Inr (ErrorEvent thread_id turn_id will_retry)))))"

definition decode_notification :: "string \<Rightarrow> json option \<Rightarrow> protocol_decoder \<Rightarrow>
    protocol_decoder \<times> (protocol_error + incoming_message)" where
  "decode_notification m params d =
     (if m = ''turn/completed''
      then (case decode_completion params d of (d', r) \<Rightarrow> (d', and_then r (\<lambda>e. Inr (EventMessage e))))
      else (d, and_then
        (if m = ''initialized'' then Inr EventInitialized
         else if m = ''item/started'' then decode_wire_item params True
         else if m = ''item/completed'' then decode_wire_item params False
         else if m = ''error'' then decode_error_event params
         else Inr (UnsupportedEvent m)) (\<lambda>e. Inr (EventMessage e))))"

definition decode_object :: "json \<Rightarrow> protocol_decoder \<Rightarrow> protocol_decoder \<times> (protocol_error + incoming_message)" where
  "decode_object v d =
     (if object_members v = None then (d, Inl NotAnObject)
      else if json_get ''jsonrpc'' v \<noteq> None \<and> str_at [''jsonrpc''] v \<noteq> Some ''2.0''
      then (d, Inl UnsupportedJsonRpcVersion)
      else case (json_get ''id'' v, str_at [''method''] v) of
        (Some i, Some m) \<Rightarrow> (d, decode_server_request i m (json_get ''params'' v))
      | (Some i, None) \<Rightarrow> decode_response i v d
      | (None, Some m) \<Rightarrow> decode_notification m (json_get ''params'' v) d
      | (None, None) \<Rightarrow> (d, Inl (MissingField ''method or id'')))"

definition decode_line :: "(string \<Rightarrow> json option) \<Rightarrow> string \<Rightarrow> protocol_decoder \<Rightarrow>
    protocol_decoder \<times> (protocol_error + incoming_message)" where
  "decode_line parse line d =
     (if max_line_bytes < length line then (d, Inl LineTooLarge)
      else case parse line of None \<Rightarrow> (d, Inl MalformedJson) | Some v \<Rightarrow> decode_object v d)"

section \<open>Lemmas\<close>

lemma decode_object_response:
  assumes "decode_object v d = (d', Inr (ResponseMessage r))"
  shows "re_id r \<in> set (pd_pending d) \<and> d' = cancel_request (re_id r) d"
  using assms
  by (auto simp: decode_object_def decode_response_def decode_server_request_def decode_notification_def
      and_then_eq_Inr ok_or_eq_Inr split: if_splits option.splits sum.splits prod.splits)

lemma decode_object_completion:
  assumes "decode_object v d = (d', Inr (EventMessage (TurnCompleted thread_id turn_id status)))"
  shows "(thread_id, turn_id) \<notin> set (pd_completed d) \<and> d' = d\<lparr>pd_completed := (thread_id, turn_id) # pd_completed d\<rparr>"
  using assms
  by (auto simp: decode_object_def decode_response_def decode_server_request_def decode_notification_def
      decode_completion_def decode_wire_item_def decode_error_event_def
      and_then_eq_Inr ok_or_eq_Inr split: if_splits option.splits sum.splits prod.splits)

lemma decode_object_keeps:
  assumes "decode_object v d = (d', r)"
  shows "set (pd_pending d') \<subseteq> set (pd_pending d) \<and> set (pd_completed d) \<subseteq> set (pd_completed d')"
  using assms
  by (auto simp: decode_object_def decode_response_def decode_notification_def decode_completion_def cancel_request_def
      split: if_splits option.splits sum.splits prod.splits)

text \<open>The completion of a turn is accepted once, whatever else is decoded in between.\<close>

definition completes :: "json \<Rightarrow> (string \<times> string) option" where
  "completes v = (case decode_object v new_decoder of
       (_, Inr (EventMessage (TurnCompleted thread_id turn_id _))) \<Rightarrow> Some (thread_id, turn_id) | _ \<Rightarrow> None)"

definition decode_claim :: "json \<Rightarrow> protocol_decoder \<Rightarrow> protocol_decoder \<times> bool" where
  "decode_claim v d = (case decode_object v d of
       (d', Inr (EventMessage (TurnCompleted _ _ _))) \<Rightarrow> (d', True) | (d', _) \<Rightarrow> (d', False))"

definition turn_taken :: "(string \<times> string) option \<Rightarrow> protocol_decoder \<Rightarrow> bool" where
  "turn_taken k d \<longleftrightarrow> (case k of Some turn \<Rightarrow> turn \<in> set (pd_completed d) | None \<Rightarrow> False)"

lemma decode_completion_new:
  assumes "completes v = Some turn"
  shows "decode_claim v d = (if turn \<in> set (pd_completed d) then (d, False)
    else (d\<lparr>pd_completed := turn # pd_completed d\<rparr>, True))"
  using assms
  by (auto simp: completes_def decode_claim_def decode_object_def decode_response_def decode_server_request_def
      decode_notification_def decode_completion_def new_decoder_def decode_wire_item_def decode_error_event_def and_then_def ok_or_def
      split: if_splits option.splits sum.splits prod.splits incoming_message.splits codex_wire_event.splits)

lemma decode_claim_granted:
  assumes "decode_claim v d = (d', True)"
  obtains turn where "completes v = Some turn" "turn \<notin> set (pd_completed d)" "d' = d\<lparr>pd_completed := turn # pd_completed d\<rparr>"
proof -
  obtain thread_id turn_id status where
    o: "decode_object v d = (d', Inr (EventMessage (TurnCompleted thread_id turn_id status)))"
    using assms by (auto simp: decode_claim_def split: prod.splits sum.splits incoming_message.splits codex_wire_event.splits)
  have "completes v = Some (thread_id, turn_id)"
    using o by (auto simp: completes_def decode_object_def decode_response_def decode_server_request_def
      decode_notification_def decode_completion_def new_decoder_def decode_wire_item_def decode_error_event_def and_then_eq_Inr ok_or_eq_Inr
      split: if_splits option.splits sum.splits prod.splits)
  then show ?thesis using that decode_object_completion [OF o] by blast
qed

interpretation completion_register: claim_register decode_claim completes turn_taken "\<lambda>_. True"
proof
  fix v s s' r k
  show "decode_claim v s = (s', True) \<Longrightarrow> turn_taken (completes v) s'"
    by (elim decode_claim_granted) (simp add: turn_taken_def)
  show "turn_taken (completes v) s \<Longrightarrow> decode_claim v s = (s, False)"
    by (auto simp: turn_taken_def decode_completion_new split: option.splits)
  show "decode_claim v s = (s', r) \<Longrightarrow> turn_taken k s \<Longrightarrow> turn_taken k s'"
    using decode_object_keeps [of v s s'] by (auto simp: turn_taken_def decode_claim_def
      split: option.splits prod.splits sum.splits incoming_message.splits codex_wire_event.splits)
qed

lemma turn_completes_once: "grants completes turn (snd (claim_all decode_claim vs d)) \<le> 1"
  by (rule completion_register.at_most_one_grant) simp

end
