(* ===== verification/Codex_Process.thy ===== *)
theory Codex_Process
  imports Codex_Protocol Text_More
begin

unbundle bit_operations_syntax

text \<open>
  The Codex app-server as a process, \<open>crates/patchwright-engine/src/codex/process.rs\<close>: how the executable is
  found and probed, with which environment and directory it is started, the reader of its lines, the
  capture of its errors and its termination. What the operating system answers is an argument: the file
  system and the probe in \<open>discovery_world\<close>, the bytes of the output and the ends of writes in the
  process itself, the signals in \<open>termination_world\<close>. Identifiers of processes are not modelled.
\<close>

section \<open>Lossy decoding\<close>

text \<open>
  \<open>String::from_utf8_lossy\<close>: the longest start of a character that no character continues is replaced by
  U+FFFD. \<open>seen\<close> are the bytes of the character that is being read.
\<close>

definition replacement_character :: string where
  "replacement_character = [CHR 0xEF, CHR 0xBF, CHR 0xBD]"

function utf8_lossy_from :: "(nat \<times> nat \<times> nat) option \<Rightarrow> string \<Rightarrow> string \<Rightarrow> string" where
  "utf8_lossy_from None seen [] = []"
| "utf8_lossy_from (Some _) seen [] = replacement_character"
| "utf8_lossy_from None seen (c # cs) = (let b = of_char c in
     if b < 0x80 then c # utf8_lossy_from None [] cs
     else case utf8_second b of None \<Rightarrow> replacement_character @ utf8_lossy_from None [] cs
       | Some r \<Rightarrow> utf8_lossy_from (Some r) [c] cs)"
| "utf8_lossy_from (Some (lo, hi, n)) seen (c # cs) = (let b = of_char c in
     if lo \<le> b \<and> b \<le> hi
     then if n = 0 then seen @ [c] @ utf8_lossy_from None [] cs
       else utf8_lossy_from (Some (0x80, 0xBF, n - 1)) (seen @ [c]) cs
     else replacement_character @ utf8_lossy_from None [] (c # cs))"
  by pat_completeness auto

termination
  by (relation "measure (\<lambda>(st, _, cs). 2 * length cs + (if st = None then 0 else 1))") auto

definition utf8_lossy :: "string \<Rightarrow> string" where
  "utf8_lossy v = utf8_lossy_from None [] v"

lemma utf8_lossy_from_valid: "utf8_from st v \<Longrightarrow>
    utf8_lossy_from st seen v = (case st of None \<Rightarrow> [] | Some _ \<Rightarrow> seen) @ v"
proof (induction st seen v rule: utf8_lossy_from.induct)
  case (3 seen c cs)
  then show ?case by (auto simp: Let_def split: if_splits option.splits)
qed (auto simp: Let_def split: if_splits)

lemma utf8_lossy_valid [simp]: "utf8_valid v \<Longrightarrow> utf8_lossy v = v"
  by (simp add: utf8_lossy_def utf8_valid_def utf8_lossy_from_valid)

section \<open>Errors and states\<close>

datatype process_state = ProcessStarting | ProcessReady | ProcessStopping | ProcessExited | ProcessFailed

datatype process_error =
    MissingExecutable | NotExecutable | VersionProbeFailed | VersionProbeTimeout | EmptyVersion
  | InvalidTaskKey | InvalidWorktree | MissingProcessId | MissingPipe
  | InvalidStateTransition process_state process_state | ProcessTimeout | UnexpectedEof | InvalidUtf8
  | InvalidProtocolLine | ProtocolLineTooLarge | SignalFailed | ProcessIo

section \<open>The executable\<close>

definition allowed_environment_keys :: "string list" where
  "allowed_environment_keys =
     [''CODEX_HOME'', ''HOME'', ''LANG'', ''LC_ALL'', ''PATH'', ''TMPDIR'', ''USER'']"

definition allowlisted_environment :: "(string \<Rightarrow> string option) \<Rightarrow> (string \<times> string) list" where
  "allowlisted_environment env =
     List.map_filter (\<lambda>k. map_option (\<lambda>v. (k, v)) (env k)) allowed_environment_keys"

record process_command =
  pc_program :: string
  pc_args :: "string list"
  pc_directory :: "string option"
  pc_environment :: "(string \<times> string) list"

datatype version_compatibility = Compatible | VersionWarning string string

record codex_executable =
  ex_path :: string
  ex_version :: string
  ex_compatibility :: version_compatibility

definition compatible_version_prefix :: string where
  "compatible_version_prefix = ''codex-cli 0.144.''"

text \<open>How the probe of the version ends.\<close>

datatype probe_end = ProbeNotStarted | ProbeNoId | ProbeIo | ProbeTimeout | ProbeExit bool string

record discovery_world =
  dw_path_directories :: "string list option"
  dw_is_file :: "string \<Rightarrow> bool"
  dw_metadata :: "string \<Rightarrow> (bool \<times> u32) option"
  dw_canonicalize :: "string \<Rightarrow> string option"
  dw_probe :: "process_command \<Rightarrow> probe_end"
  dw_variable :: "string \<Rightarrow> string option"

definition discover_on_path :: "discovery_world \<Rightarrow> string option" where
  "discover_on_path w = Option.bind (dw_path_directories w) (\<lambda>ds.
     List.find (dw_is_file w) (map (\<lambda>d. path_join d ''codex'') ds))"

definition version_probe :: "discovery_world \<Rightarrow> string \<Rightarrow> process_command" where
  "version_probe w path = \<lparr>pc_program = path, pc_args = [''--version''], pc_directory = None,
     pc_environment = allowlisted_environment (dw_variable w)\<rparr>"

definition probed_version :: "probe_end \<Rightarrow> process_error + string" where
  "probed_version p = (case p of
       ProbeNotStarted \<Rightarrow> Inl ProcessIo
     | ProbeNoId \<Rightarrow> Inl MissingProcessId
     | ProbeIo \<Rightarrow> Inl ProcessIo
     | ProbeTimeout \<Rightarrow> Inl VersionProbeTimeout
     | ProbeExit success out \<Rightarrow>
         if \<not> success then Inl VersionProbeFailed
         else let version = trim (utf8_lossy out) in if version = [] then Inl EmptyVersion else Inr version)"

definition version_compatibility_of :: "string \<Rightarrow> version_compatibility" where
  "version_compatibility_of version =
     (if starts_with compatible_version_prefix version then Compatible
      else VersionWarning compatible_version_prefix version)"

definition discover_codex :: "discovery_world \<Rightarrow> string option \<Rightarrow> process_error + codex_executable" where
  "discover_codex w explicit =
     and_then (ok_or (case explicit of Some path \<Rightarrow> Some path | None \<Rightarrow> discover_on_path w) MissingExecutable) (\<lambda>path.
     and_then (ok_or (dw_metadata w path) MissingExecutable) (\<lambda>(is_file, mode).
     and_then (ensure (is_file \<and> mode AND 73 \<noteq> 0) NotExecutable) (\<lambda>_.
     and_then (ok_or (dw_canonicalize w path) ProcessIo) (\<lambda>path.
     and_then (probed_version (dw_probe w (version_probe w path))) (\<lambda>version.
     Inr \<lparr>ex_path = path, ex_version = version, ex_compatibility = version_compatibility_of version\<rparr>)))))"

section \<open>Output and input\<close>

text \<open>
  What the reader of the output meets next: bytes that arrived, its own timeout, an error of the pipe; an
  empty list is the end of the output. \<open>pr_writes\<close> are the ends of the writes to come, which succeed when
  nothing is said.
\<close>

datatype stdout_step = Chunk string | Elapsed | ReadFails

datatype write_end = WriteTimeout | WriteFails | Written

record codex_process =
  pr_task_key :: string
  pr_generation :: uuid
  pr_worktree :: string
  pr_command :: process_command
  pr_stdout :: "stdout_step list"
  pr_writes :: "write_end list"
  pr_written :: "string list"
  pr_state :: process_state
  pr_group_active :: bool

text \<open>\<open>bytes\<close> is lost when the reader is cancelled by its timeout.\<close>

fun read_bounded_protocol_line :: "stdout_step list \<Rightarrow> string \<Rightarrow> (process_error + string) \<times> stdout_step list" where
  "read_bounded_protocol_line [] bytes = (if bytes = [] then Inl UnexpectedEof else Inr bytes, [])"
| "read_bounded_protocol_line (Elapsed # out) bytes = (Inl ProcessTimeout, out)"
| "read_bounded_protocol_line (ReadFails # out) bytes = (Inl ProcessIo, out)"
| "read_bounded_protocol_line (Chunk available # out) bytes =
     (let taken = takeWhile (\<lambda>c. c \<noteq> CHR 0x0A) available in
      if max_line_bytes < length bytes + length taken then (Inl ProtocolLineTooLarge, Chunk available # out)
      else if CHR 0x0A \<in> set available
        then (Inr (bytes @ taken), Chunk (drop (Suc (length taken)) available) # out)
        else read_bounded_protocol_line out (bytes @ taken))"

definition line_of_bytes :: "string \<Rightarrow> process_error + string" where
  "line_of_bytes bytes = (let line = (if bytes \<noteq> [] \<and> last bytes = CHR 0x0D then butlast bytes else bytes) in
     if utf8_valid line then Inr line else Inl InvalidUtf8)"

definition read_line :: "codex_process \<Rightarrow> codex_process \<times> (process_error + string)" where
  "read_line p = (case read_bounded_protocol_line (pr_stdout p) [] of
     (r, out) \<Rightarrow> (p\<lparr>pr_stdout := out\<rparr>, and_then r line_of_bytes))"

definition write_line :: "string \<Rightarrow> codex_process \<Rightarrow> codex_process \<times> (process_error + unit)" where
  "write_line line p =
     (if CHR 0x0A \<in> set line \<or> max_line_bytes < length line then (p, Inl InvalidProtocolLine)
      else case pr_writes p of
        WriteTimeout # ws \<Rightarrow> (p\<lparr>pr_writes := ws\<rparr>, Inl ProcessTimeout)
      | WriteFails # ws \<Rightarrow> (p\<lparr>pr_writes := ws\<rparr>, Inl ProcessIo)
      | ws \<Rightarrow> (p\<lparr>pr_writes := drop 1 ws, pr_written := pr_written p @ [line]\<rparr>, Inr ()))"

definition mark_ready :: "codex_process \<Rightarrow> process_error + codex_process" where
  "mark_ready p = (if pr_state p \<noteq> ProcessStarting then Inl (InvalidStateTransition (pr_state p) ProcessReady)
     else Inr (p\<lparr>pr_state := ProcessReady\<rparr>))"

lemma read_line_keeps: "read_line p = (p', r) \<Longrightarrow> p' = p\<lparr>pr_stdout := pr_stdout p'\<rparr>"
  by (auto simp: read_line_def split: prod.splits)

lemma write_line_keeps: "write_line line p = (p', r) \<Longrightarrow> p' = p\<lparr>pr_writes := pr_writes p', pr_written := pr_written p'\<rparr> \<and>
    pr_written p' = (if r = Inr () then pr_written p @ [line] else pr_written p)"
  by (auto simp: write_line_def split: if_splits list.splits write_end.splits)

section \<open>Launch\<close>

datatype spawn_end = SpawnFails | SpawnedNoId | NoPipe | Spawned_with "stdout_step list" "write_end list"

record launch_world =
  lw_canonicalize :: "string \<Rightarrow> string option"
  lw_is_dir :: "string \<Rightarrow> bool"
  lw_variable :: "string \<Rightarrow> string option"
  lw_spawn :: "process_command \<Rightarrow> spawn_end"

definition app_server_command :: "launch_world \<Rightarrow> codex_executable \<Rightarrow> string \<Rightarrow> process_command" where
  "app_server_command w ex worktree = \<lparr>pc_program = ex_path ex, pc_args = [''app-server''],
     pc_directory = Some worktree, pc_environment = allowlisted_environment (lw_variable w)\<rparr>"

definition launch :: "launch_world \<Rightarrow> codex_executable \<Rightarrow> uuid \<Rightarrow> string \<Rightarrow> string \<Rightarrow> process_error + codex_process" where
  "launch w ex fresh task_key worktree =
     and_then (ensure (trim task_key \<noteq> []) InvalidTaskKey) (\<lambda>_.
     and_then (ok_or (lw_canonicalize w worktree) ProcessIo) (\<lambda>worktree.
     and_then (ensure (lw_is_dir w worktree) InvalidWorktree) (\<lambda>_.
     case lw_spawn w (app_server_command w ex worktree) of
       SpawnFails \<Rightarrow> Inl ProcessIo
     | SpawnedNoId \<Rightarrow> Inl MissingProcessId
     | NoPipe \<Rightarrow> Inl MissingPipe
     | Spawned_with out ws \<Rightarrow> Inr \<lparr>pr_task_key = task_key, pr_generation = fresh, pr_worktree = worktree,
         pr_command = app_server_command w ex worktree, pr_stdout = out, pr_writes = ws, pr_written = [],
         pr_state = ProcessStarting, pr_group_active = True\<rparr>)))"

section \<open>Termination\<close>

datatype group_signal = SigTerm | SigKill

text \<open>The answers to the signals (a group that is gone counts as answered) and to the waits.\<close>

datatype signal_end = Signalled | NoSuchGroup | NotPermitted | OtherErrno

record termination_world =
  tw_term :: signal_end
  tw_exits_in_grace :: "bool option"
  tw_kill :: signal_end
  tw_wait :: bool
  tw_sweep :: signal_end

definition signal_ok :: "signal_end \<Rightarrow> process_error + unit" where
  "signal_ok e = ensure (e \<in> {Signalled, NoSuchGroup}) SignalFailed"

definition sweep_ok :: "signal_end \<Rightarrow> process_error + unit" where
  "sweep_ok e = ensure (e \<in> {Signalled, NoSuchGroup, NotPermitted}) SignalFailed"

text \<open>\<open>tw_exits_in_grace\<close> is whether waiting within the grace period went well, \<open>None\<close> when it did not end.\<close>

definition stop_leader :: "termination_world \<Rightarrow> process_error + group_signal list" where
  "stop_leader w =
     and_then (signal_ok (tw_term w)) (\<lambda>_. case tw_exits_in_grace w of
       Some waited \<Rightarrow> and_then (ensure waited ProcessIo) (\<lambda>_. Inr [SigTerm])
     | None \<Rightarrow> and_then (signal_ok (tw_kill w)) (\<lambda>_.
         and_then (ensure (tw_wait w) ProcessIo) (\<lambda>_. Inr [SigTerm, SigKill])))"

definition terminate :: "termination_world \<Rightarrow> codex_process \<Rightarrow> codex_process \<times> (process_error + group_signal list)" where
  "terminate w p =
     (if pr_state p \<in> {ProcessExited, ProcessFailed} then (p, Inr [])
      else case and_then (stop_leader w) (\<lambda>sent. and_then (sweep_ok (tw_sweep w)) (\<lambda>_. Inr (sent @ [SigKill]))) of
        Inl e \<Rightarrow> (p\<lparr>pr_state := ProcessStopping\<rparr>, Inl e)
      | Inr sent \<Rightarrow> (p\<lparr>pr_state := ProcessExited, pr_group_active := False\<rparr>, Inr sent))"

text \<open>\<open>wait_for_exit\<close>, with the status of the leader if waiting went well, and \<open>Drop\<close>.\<close>

definition wait_for_exit :: "bool option \<Rightarrow> codex_process \<Rightarrow> codex_process \<times> (process_error + group_signal list)" where
  "wait_for_exit status p = (case status of
       None \<Rightarrow> (p, Inl ProcessIo)
     | Some success \<Rightarrow> (p\<lparr>pr_group_active := False, pr_state := (if success then ProcessExited else ProcessFailed)\<rparr>,
         Inr (if pr_group_active p then [SigKill] else [])))"

definition drop_process :: "codex_process \<Rightarrow> group_signal list" where
  "drop_process p = (if pr_group_active p then [SigKill] else [])"

section \<open>The ring of error output\<close>

definition ring_extend :: "nat \<Rightarrow> string \<Rightarrow> string \<Rightarrow> string" where
  "ring_extend capacity buffer ring =
     (if capacity = 0 then ring
      else let ring = ring @ buffer in drop (length ring - capacity) ring)"

definition capture_stderr :: "nat \<Rightarrow> string list \<Rightarrow> string" where
  "capture_stderr capacity buffers = fold (ring_extend capacity) buffers []"

section \<open>The reader of lines\<close>

text \<open>What is left of the output, as bytes.\<close>

definition bytes_left :: "stdout_step list \<Rightarrow> string" where
  "bytes_left out = concat (map (\<lambda>s. case s of Chunk v \<Rightarrow> v | _ \<Rightarrow> []) out)"

lemma bytes_left_simps [simp]:
  "bytes_left [] = []" "bytes_left (Chunk v # out) = v @ bytes_left out"
  "bytes_left (Elapsed # out) = bytes_left out" "bytes_left (ReadFails # out) = bytes_left out"
  "bytes_left (map Chunk vs) = concat vs"
  by (simp_all add: bytes_left_def comp_def)

text \<open>The reference: the bytes before the first line feed of a whole output.\<close>

definition first_line :: "string \<Rightarrow> string" where
  "first_line v = takeWhile (\<lambda>c. c \<noteq> CHR 0x0A) v"

definition after_line :: "string \<Rightarrow> string" where
  "after_line v = drop (Suc (length (first_line v))) v"

lemma first_line_append: "first_line (v @ w) = (if CHR 0x0A \<in> set v then first_line v else v @ first_line w)"
  by (induction v) (auto simp: first_line_def)

lemma first_line_none: "CHR 0x0A \<notin> set v \<Longrightarrow> first_line v = v"
  by (auto simp: first_line_def takeWhile_eq_all_conv)

lemma after_line_append:
  "after_line (v @ w) = (if CHR 0x0A \<in> set v then after_line v @ w else after_line w)"
proof -
  have "CHR 0x0A \<in> set v \<Longrightarrow> length (first_line v) < length v"
    by (induction v) (auto simp: first_line_def)
  then show ?thesis by (auto simp: after_line_def first_line_append)
qed

lemma protocol_line_chunks:
  assumes "read_bounded_protocol_line (map Chunk vs) bytes = (r, out)" "length bytes \<le> max_line_bytes"
  shows "r = (if concat vs = [] \<and> bytes = [] then Inl UnexpectedEof
      else if max_line_bytes < length (bytes @ first_line (concat vs)) then Inl ProtocolLineTooLarge
      else Inr (bytes @ first_line (concat vs)))"
    and "r = Inr line \<Longrightarrow> bytes_left out = after_line (concat vs)"
  using assms
proof (induction vs arbitrary: bytes)
  case Nil
  case 1 then show ?case by (auto simp: first_line_def)
  case 2 then show ?case by (auto simp: after_line_def split: if_splits)
next
  case (Cons v vs)
  have t: "takeWhile (\<lambda>c. c \<noteq> CHR 0x0A) v = first_line v" by (simp add: first_line_def)
  { case 1 then show ?case using Cons.IH(1) [of "bytes @ first_line v"]
      by (auto simp: Let_def t first_line_append first_line_none split: if_splits)
  next
    case 2 then show ?case using Cons.IH(2) [of "bytes @ first_line v"]
      by (auto simp: Let_def t first_line_none after_line_append after_line_def [symmetric] split: if_splits) }
qed

lemma line_of_bytes_ok [result_simps]: "line_of_bytes v = Inr line \<longleftrightarrow>
    line = (if v \<noteq> [] \<and> last v = CHR 0x0D then butlast v else v) \<and> utf8_valid line"
  by (auto simp: line_of_bytes_def Let_def)

text \<open>The line at the head of a whole output, without a carriage return at its end.\<close>

definition chomp :: "string \<Rightarrow> string" where
  "chomp v = (if v \<noteq> [] \<and> last v = CHR 0x0D then butlast v else v)"

definition whole_line :: "string \<Rightarrow> process_error + string" where
  "whole_line v = (if v = [] then Inl UnexpectedEof
     else if 4 * 1024 * 1024 < length (first_line v) then Inl ProtocolLineTooLarge
     else if utf8_valid (chomp (first_line v)) then Inr (chomp (first_line v))
     else Inl InvalidUtf8)"

lemma read_line_chunks:
  assumes "read_line (p\<lparr>pr_stdout := map Chunk vs\<rparr>) = (p', r)"
  shows "r = whole_line (concat vs)" and "r = Inr line \<Longrightarrow> bytes_left (pr_stdout p') = after_line (concat vs)"
proof -
  obtain q out where b: "read_bounded_protocol_line (map Chunk vs) [] = (q, out)" by fastforce
  have q: "q = (if concat vs = [] then Inl UnexpectedEof
      else if max_line_bytes < length (first_line (concat vs)) then Inl ProtocolLineTooLarge
      else Inr (first_line (concat vs)))"
    using protocol_line_chunks(1) [OF b] by (simp add: max_line_bytes_def)
  have r: "r = and_then q line_of_bytes" "pr_stdout p' = out"
    using assms b by (auto simp: read_line_def)
  show "r = whole_line (concat vs)"
    unfolding r q whole_line_def by (simp add: line_of_bytes_def chomp_def max_line_bytes_def)
  show "bytes_left (pr_stdout p') = after_line (concat vs)" if "r = Inr line"
    using protocol_line_chunks(2) [OF b] that unfolding r by (auto simp: result_simps max_line_bytes_def)
qed

lemma protocol_line_chunked: "read_bounded_protocol_line (map Chunk vs) bytes = (r, out) \<Longrightarrow> \<exists>ws. out = map Chunk ws"
proof (induction vs arbitrary: bytes)
  case (Cons v vs)
  have "\<exists>ws. Chunk w # map Chunk us = map Chunk ws" for w us by (metis list.simps(9))
  with Cons show ?case by (auto simp: Let_def split: if_splits)
qed auto

text \<open>The results of up to \<open>n\<close> reads, to the first error; and the same for a whole output.\<close>

fun read_lines :: "nat \<Rightarrow> codex_process \<Rightarrow> (process_error + string) list" where
  "read_lines 0 p = []"
| "read_lines (Suc n) p = (case read_line p of
     (_, Inl e) \<Rightarrow> [Inl e] | (p, Inr line) \<Rightarrow> Inr line # read_lines n p)"

fun output_lines :: "nat \<Rightarrow> string \<Rightarrow> (process_error + string) list" where
  "output_lines 0 v = []"
| "output_lines (Suc n) v = (case whole_line v of
     Inl e \<Rightarrow> [Inl e] | Inr line \<Rightarrow> Inr line # output_lines n (after_line v))"

lemma timed_out_line_is_lost:
  assumes "CHR 0x0A \<notin> set a" "length a \<le> max_line_bytes"
  shows "read_bounded_protocol_line (Chunk a # Elapsed # out) [] = (Inl ProcessTimeout, out)"
  using assms by (simp add: Let_def first_line_def [symmetric] first_line_none)

section \<open>Termination and error output\<close>

lemma stop_leader_ok [result_simps]:
  "stop_leader w = Inr sent \<longleftrightarrow> tw_term w \<in> {Signalled, NoSuchGroup} \<and>
     (tw_exits_in_grace w = Some True \<and> sent = [SigTerm] \<or>
      tw_exits_in_grace w = None \<and> tw_kill w \<in> {Signalled, NoSuchGroup} \<and> tw_wait w \<and> sent = [SigTerm, SigKill])"
  by (auto simp: stop_leader_def signal_ok_def result_simps split: option.splits)

lemma terminate_ok:
  assumes "terminate w p = (p', Inr sent)"
  shows "pr_state p' \<in> {ProcessExited, ProcessFailed}"
    and "pr_state p \<notin> {ProcessExited, ProcessFailed} \<Longrightarrow> \<not> pr_group_active p' \<and> sent \<noteq> [] \<and> last sent = SigKill"
  using assms by (auto simp: terminate_def split: if_splits sum.splits simp: result_simps)

lemma terminate_twice:
  assumes "terminate w p = (p', Inr sent)"
  shows "terminate w' p' = (p', Inr [])"
  using terminate_ok(1) [OF assms] by (auto simp: terminate_def)

lemma ring_extend_suffix:
  assumes "0 < capacity" "ring = drop (length v - capacity) v"
  shows "ring_extend capacity buffer ring = drop (length (v @ buffer) - capacity) (v @ buffer)"
  using assms by (cases "length v \<le> capacity") (auto simp: ring_extend_def Let_def add.commute)

text \<open>The ring holds the last \<open>capacity\<close> bytes of all the error output.\<close>

lemma capture_stderr_suffix:
  "capture_stderr capacity buffers = drop (length (concat buffers) - capacity) (concat buffers)"
proof (cases "capacity = 0")
  case True
  have "fold (ring_extend 0) buffers ring = ring" for ring
    by (induction buffers arbitrary: ring) (simp_all add: ring_extend_def)
  with True show ?thesis by (simp add: capture_stderr_def)
next
  case False
  have "fold (ring_extend capacity) buffers ring =
      drop (length (v @ concat buffers) - capacity) (v @ concat buffers)"
    if "ring = drop (length v - capacity) v" for v ring
    using that
  proof (induction buffers arbitrary: v ring)
    case (Cons b buffers)
    then show ?case using Cons.IH [OF ring_extend_suffix [OF _ Cons.prems, of b]] False by simp
  qed simp
  from this [of "[]" "[]"] show ?thesis by (simp add: capture_stderr_def)
qed

end
