(* ===== verification/Codex_Session.thy ===== *)
theory Codex_Session
  imports Codex_Process Store_Codex
begin

text \<open>
  The handshake with a Codex app-server, \<open>crates/patchwright-engine/src/codex/session.rs\<close>: \<open>connect\<close> with its
  requests and the checkpoints of the session it leaves in the store. The clock, fresh identifiers, the parser and
  encoder of JSON, and what the other holders of the store's lock do in between are in \<open>codex_env\<close>; each is
  read at the steps of an operation, which are counted.
\<close>

section \<open>Steps on the store\<close>

record codex_env =
  cx_parse :: "string \<Rightarrow> json option"
  cx_show :: "json \<Rightarrow> string"
  cx_show_uuid :: "uuid \<Rightarrow> string"
  cx_now :: "nat \<Rightarrow> timestamp"
  cx_fresh :: "nat \<Rightarrow> uuid"
  cx_others :: "nat \<Rightarrow> store \<Rightarrow> store"
  cx_deadline :: "nat \<Rightarrow> bool"
  cx_launch :: "nat \<Rightarrow> launch_world"
  cx_termination :: "nat \<Rightarrow> termination_world"

type_synonym codex_run = "store \<times> nat"

text \<open>A section under the lock of the store, at a time and with an identifier of its own.\<close>

definition locked :: "codex_env \<Rightarrow> (timestamp \<Rightarrow> uuid \<Rightarrow> store \<Rightarrow> store \<times> 'a) \<Rightarrow> codex_run \<Rightarrow> codex_run \<times> 'a" where
  "locked env f run = (case run of (s, n) \<Rightarrow>
     (case f (cx_now env n) (cx_fresh env n) (cx_others env n s) of (s', r) \<Rightarrow> ((s', Suc n), r)))"

text \<open>A fallible transaction that gives a value.\<close>

definition transact_value :: "('e \<Rightarrow> 'f) \<Rightarrow> (store \<Rightarrow> 'e + store \<times> 'a) \<Rightarrow> store \<Rightarrow> store \<times> ('f + 'a)" where
  "transact_value g f s = (case f s of Inl e \<Rightarrow> (s, Inl (g e)) | Inr (s', a) \<Rightarrow> (s', Inr a))"

text \<open>An operation on the first part of a state, and on the second.\<close>

definition on_first :: "('a \<Rightarrow> 'a \<times> 'r) \<Rightarrow> 'a \<times> 'b \<Rightarrow> ('a \<times> 'b) \<times> 'r" where
  "on_first f st = (case f (fst st) of (a, r) \<Rightarrow> ((a, snd st), r))"

definition on_second :: "('b \<Rightarrow> 'b \<times> 'r) \<Rightarrow> 'a \<times> 'b \<Rightarrow> ('a \<times> 'b) \<times> 'r" where
  "on_second f st = (case f (snd st) of (b, r) \<Rightarrow> ((fst st, b), r))"

text \<open>An operation on the first part, and then one on both.\<close>

definition then_do_first :: "('a \<Rightarrow> 'a \<times> ('e + 'r)) \<Rightarrow> ('r \<Rightarrow> 'a \<times> 'b \<Rightarrow> ('a \<times> 'b) \<times> ('e + 't)) \<Rightarrow>
    'a \<times> 'b \<Rightarrow> ('a \<times> 'b) \<times> ('e + 't)" where
  "then_do_first f g st = then_do (on_first f st) g"

lemma on_first_simps [simp]: "on_first f (a, b) = (case f a of (a', r) \<Rightarrow> ((a', b), r))"
  by (simp add: on_first_def)

lemma on_second_simps [simp]: "on_second f (a, b) = (case f b of (b', r) \<Rightarrow> ((a, b'), r))"
  by (simp add: on_second_def)

lemma transact_value_ok [result_simps]: "transact_value g f s = (s', Inr a) \<longleftrightarrow> f s = Inr (s', a)"
  by (auto simp: transact_value_def split: sum.splits)

section \<open>Requests of the handshake\<close>

datatype session_error =
    SessionProcess process_error | SessionProtocol protocol_error | SessionStore store_error
  | SessionMissingField string | ServerRejected string | UnexpectedHandshakeMessage | SessionMetadata string

type_synonym handshake = "codex_process \<times> codex_run"

text \<open>The loop over at most 128 messages.\<close>

fun await_response :: "(string \<Rightarrow> json option) \<Rightarrow> nat \<Rightarrow> protocol_decoder \<Rightarrow> codex_process \<Rightarrow>
    codex_process \<times> (session_error + protocol_decoder \<times> response_envelope)" where
  "await_response parse 0 d p = (p, Inl UnexpectedHandshakeMessage)"
| "await_response parse (Suc n) d p = (case read_line p of
       (p, Inl e) \<Rightarrow> (p, Inl (SessionProcess e))
     | (p, Inr line) \<Rightarrow> (case decode_line parse line d of
           (d, Inl e) \<Rightarrow> (p, Inl (SessionProtocol e))
         | (d, Inr (ResponseMessage r)) \<Rightarrow> (p, Inr (d, r))
         | (d, Inr (EventMessage _)) \<Rightarrow> await_response parse n d p
         | (d, Inr (ServerRequest _)) \<Rightarrow> (p, Inl UnexpectedHandshakeMessage)))"

definition write_message :: "codex_env \<Rightarrow> json \<Rightarrow> codex_process \<Rightarrow> codex_process \<times> (session_error + unit)" where
  "write_message env v p = (case write_line (cx_show env v) p of (p, r) \<Rightarrow> (p, map_err SessionProcess r))"

definition send_request :: "codex_env \<Rightarrow> i64 \<Rightarrow> client_method \<Rightarrow> json \<Rightarrow> protocol_decoder \<Rightarrow> codex_process \<Rightarrow>
    codex_process \<times> (session_error + protocol_decoder \<times> response_envelope)" where
  "send_request env i m params d p =
     then_do (p, map_err SessionProtocol (register_request (NumberId i) d)) (\<lambda>d p.
     then_do (p, map_err SessionProtocol (client_request (NumberId i) m params)) (\<lambda>request p.
     then_do (write_message env request p) (\<lambda>_ p.
     await_response (cx_parse env) 128 d p)))"

definition initialize_params :: json where
  "initialize_params = JObject [(''clientInfo'', JObject [(''name'', JString ''Patchwright''),
     (''title'', JString ''Patchwright''), (''version'', JString ''0.2.0'')]), (''capabilities'', JNull)]"

definition initialize_fields :: "string list" where
  "initialize_fields = [''userAgent'', ''codexHome'', ''platformFamily'', ''platformOs'']"

definition validate_initialize_response :: "response_envelope \<Rightarrow> session_error + unit" where
  "validate_initialize_response r =
     and_then (ensure (\<not> re_is_error r) (ServerRejected ''initialize'')) (\<lambda>_.
     and_then (collect (\<lambda>field. ok_or (filter_option (\<lambda>t. t \<noteq> []) (Option.bind (json_get field (re_payload r)) as_str))
       (SessionMissingField field)) initialize_fields) (\<lambda>_. Inr ()))"

definition decode_account_state :: "response_envelope \<Rightarrow> codex_account_state" where
  "decode_account_state r =
     (if re_is_error r then AccountUnavailable
      else case json_get ''account'' (re_payload r) of
        Some JNull \<Rightarrow> SignedOut | Some (JObject _) \<Rightarrow> SignedIn | _ \<Rightarrow> AccountUnavailable)"

definition bootstrap_request :: "thread_bootstrap \<Rightarrow> string \<Rightarrow> client_method \<times> json" where
  "bootstrap_request b worktree = (case b of
       StartThread instructions \<Rightarrow> (ThreadStart, JObject [(''cwd'', JString (utf8_lossy worktree)),
         (''baseInstructions'', JString instructions), (''approvalPolicy'', JString ''on-request''),
         (''sandbox'', JString ''workspace-write'')])
     | ResumeThread thread \<Rightarrow> (ThreadResume, JObject [(''threadId'', JString thread),
         (''cwd'', JString (utf8_lossy worktree))]))"

definition bootstrap_thread :: "codex_env \<Rightarrow> thread_bootstrap \<Rightarrow> protocol_decoder \<Rightarrow> codex_process \<Rightarrow>
    codex_process \<times> (session_error + protocol_decoder \<times> response_envelope)" where
  "bootstrap_thread env b d p = (case bootstrap_request b (pr_worktree p) of
     (m, params) \<Rightarrow> send_request env 3 m params d p)"

section \<open>The connection\<close>

definition checkpoint_session :: "codex_env \<Rightarrow> codex_session \<Rightarrow> string \<Rightarrow> string \<Rightarrow> handshake \<Rightarrow>
    handshake \<times> (session_error + codex_session)" where
  "checkpoint_session env session kind summary = on_second (locked env (\<lambda>now _.
     transact_value SessionStore (checkpoint_codex_session now session kind summary)))"

definition starting_session :: "uuid \<Rightarrow> uuid \<Rightarrow> string \<Rightarrow> thread_bootstrap \<Rightarrow> timestamp \<Rightarrow> codex_session" where
  "starting_session i generation version b now = \<lparr>cs_task_id = i, cs_process_generation = generation,
     cs_protocol_version = ''2.0'', cs_executable_version = version, cs_account_state = AccountUnavailable,
     cs_thread_id = (case b of StartThread _ \<Rightarrow> None | ResumeThread thread \<Rightarrow> Some thread), cs_last_turn_id = None,
     cs_last_sequence = 0, cs_status = SessionStarting, cs_updated_at = now\<rparr>"

definition is_resume :: "thread_bootstrap \<Rightarrow> bool" where
  "is_resume b = (case b of StartThread _ \<Rightarrow> False | ResumeThread _ \<Rightarrow> True)"

text \<open>What follows the response to the last request.\<close>

definition finish_connect :: "codex_env \<Rightarrow> thread_bootstrap \<Rightarrow> codex_session \<Rightarrow> response_envelope \<Rightarrow> handshake \<Rightarrow>
    handshake \<times> (session_error + codex_session)" where
  "finish_connect env b session thread st =
     (if re_is_error thread \<and> is_resume b
      then checkpoint_session env (session\<lparr>cs_status := StaleThreadNeedsConfirmation\<rparr>) ''threadStale''
        ''Saved Codex thread requires confirmation'' st
      else if re_is_error thread
      then then_do (checkpoint_session env (session\<lparr>cs_status := SessionFailed\<rparr>) ''threadFailed''
        ''Codex thread start failed'' st) (\<lambda>_ st. (st, Inl (ServerRejected ''thread/start'')))
      else
        then_do (st, ok_or (str_at [''thread'', ''id''] (re_payload thread)) (SessionMissingField ''thread.id'')) (\<lambda>thread_id st.
        then_do (st, map_err SessionMetadata (session_metadata thread_id ''thread id'' 256)) (\<lambda>_ st.
        then_do (on_first (\<lambda>p. case mark_ready p of Inl e \<Rightarrow> (p, Inl (SessionProcess e)) | Inr p' \<Rightarrow> (p', Inr ())) st) (\<lambda>_.
        checkpoint_session env (session\<lparr>cs_thread_id := Some thread_id, cs_status := SessionReady\<rparr>) ''threadReady''
          ''Codex thread ready''))))"

text \<open>The three exchanges, each with the checkpoint that follows it.\<close>

definition initialize_session :: "codex_env \<Rightarrow> codex_session \<Rightarrow> handshake \<Rightarrow>
    handshake \<times> (session_error + codex_session \<times> protocol_decoder)" where
  "initialize_session env session =
     then_do_first (send_request env 1 Initialize initialize_params new_decoder) (\<lambda>(d, initialize) st.
     then_do (st, validate_initialize_response initialize) (\<lambda>_.
     then_do_first (write_message env initialized_notification) (\<lambda>_ st.
     then_do (checkpoint_session env (session\<lparr>cs_status := SessionInitialized\<rparr>) ''initialized'' ''Codex initialized'' st) (\<lambda>session st.
     (st, Inr (session, d))))))"

definition read_account :: "codex_env \<Rightarrow> codex_session \<Rightarrow> protocol_decoder \<Rightarrow> handshake \<Rightarrow>
    handshake \<times> (session_error + codex_session \<times> protocol_decoder)" where
  "read_account env session d =
     then_do_first (send_request env 2 AccountRead (JObject [(''refreshToken'', JBool False)]) d) (\<lambda>(d, account) st.
     then_do (checkpoint_session env (session\<lparr>cs_account_state := decode_account_state account\<rparr>) ''accountRead''
       ''Codex account state read'' st) (\<lambda>session st.
     (st, Inr (session, d))))"

definition open_thread :: "codex_env \<Rightarrow> thread_bootstrap \<Rightarrow> codex_session \<Rightarrow> protocol_decoder \<Rightarrow> handshake \<Rightarrow>
    handshake \<times> (session_error + codex_session)" where
  "open_thread env b session d = then_do_first (bootstrap_thread env b d) (\<lambda>(_, thread). finish_connect env b session thread)"

definition connect :: "codex_env \<Rightarrow> uuid \<Rightarrow> string \<Rightarrow> thread_bootstrap \<Rightarrow> handshake \<Rightarrow>
    handshake \<times> (session_error + codex_session)" where
  "connect env i version b st =
     then_do (st, map_err SessionMetadata (session_metadata version ''executable version'' 128)) (\<lambda>_ st.
     then_do (st, map_err SessionMetadata (validate_bootstrap b)) (\<lambda>_ st.
     then_do (checkpoint_session env (starting_session i (pr_generation (fst st)) version b (cx_now env (snd (snd st))))
       ''processStarted'' ''Codex process started'' st) (\<lambda>session st.
     then_do (initialize_session env session st) (\<lambda>(session, d) st.
     then_do (read_account env session d st) (\<lambda>(session, d).
     open_thread env b session d)))))"

section \<open>Lemmas\<close>

lemma then_do_first_ok [result_simps]:
  "then_do_first f g (a, b) = (st', Inr t) \<longleftrightarrow> (\<exists>a' r. f a = (a', Inr r) \<and> g r (a', b) = (st', Inr t))"
  by (cases "f a"; cases "snd (f a)") (auto simp: then_do_first_def)

lemma await_response_keeps:
  "await_response parse k d p = (p', Inr (d', r)) \<Longrightarrow> p' = p\<lparr>pr_stdout := pr_stdout p'\<rparr>"
proof (induction k arbitrary: d p)
  case (Suc k)
  obtain q x where 1: "read_line p = (q, x)" by fastforce
  have q: "q = p\<lparr>pr_stdout := pr_stdout q\<rparr>" by (rule read_line_keeps [OF 1])
  then have later: "p' = q\<lparr>pr_stdout := pr_stdout p'\<rparr> \<Longrightarrow> p' = p\<lparr>pr_stdout := pr_stdout p'\<rparr>"
    by (metis codex_process.surjective codex_process.update_convs(5))
  show ?case using Suc.prems Suc.IH [of _ q] q later
    by (auto simp: 1 split: sum.splits prod.splits incoming_message.splits)
qed simp

text \<open>A request of the handshake that was answered: its line was written, and nothing else changed but the output.\<close>

definition handshake_request :: "i64 \<Rightarrow> client_method \<Rightarrow> json \<Rightarrow> json" where
  "handshake_request i m params = JObject [(''jsonrpc'', JString ''2.0''), (''id'', json_of_request_id (NumberId i)),
     (''method'', JString (method_text m)), (''params'', params)]"

definition wrote :: "string list \<Rightarrow> codex_process \<Rightarrow> codex_process \<Rightarrow> bool" where
  "wrote ls p p' \<longleftrightarrow> pr_written p' = pr_written p @ ls \<and> pr_state p' = pr_state p \<and>
     pr_generation p' = pr_generation p \<and> pr_worktree p' = pr_worktree p"

lemma wrote_trans: "wrote v p q \<Longrightarrow> wrote w q r \<Longrightarrow> wrote (v @ w) p r"
  by (simp add: wrote_def)

lemma write_message_wrote: "write_message env v p = (p', Inr u) \<Longrightarrow> wrote [cx_show env v] p p'"
proof -
  assume "write_message env v p = (p', Inr u)"
  then have w: "write_line (cx_show env v) p = (p', Inr u)" by (auto simp: write_message_def result_simps split: prod.splits)
  have k: "p' = p\<lparr>pr_writes := pr_writes p', pr_written := pr_written p'\<rparr>" "pr_written p' = pr_written p @ [cx_show env v]"
    using write_line_keeps [OF w] by auto
  show ?thesis using k(2) arg_cong [OF k(1), of pr_state] arg_cong [OF k(1), of pr_generation] arg_cong [OF k(1), of pr_worktree]
    by (simp add: wrote_def)
qed

lemma send_request_wrote:
  assumes "send_request env i m params d p = (p', Inr x)"
  shows "wrote [cx_show env (handshake_request i m params)] p p'"
proof -
  obtain d1 q where 1: "write_message env (handshake_request i m params) p = (q, Inr ())"
    "await_response (cx_parse env) 128 d1 q = (p', Inr x)"
    using assms by (auto simp: send_request_def handshake_request_def client_request_def validate_request_id_def result_simps
      simp del: await_response.simps split: prod.splits)
  have k: "p' = q\<lparr>pr_stdout := pr_stdout p'\<rparr>" using await_response_keeps 1(2) by (cases x) blast
  show ?thesis using write_message_wrote [OF 1(1)] arg_cong [OF k, of pr_state] arg_cong [OF k, of pr_generation]
      arg_cong [OF k, of pr_worktree] arg_cong [OF k, of pr_written]
    by (simp add: wrote_def)
qed

text \<open>A session that went through checkpoints, which change its number and its time only.\<close>

definition same_session :: "codex_session \<Rightarrow> codex_session \<Rightarrow> bool" where
  "same_session c c' \<longleftrightarrow> cs_task_id c' = cs_task_id c \<and> cs_process_generation c' = cs_process_generation c \<and>
     cs_thread_id c' = cs_thread_id c \<and> cs_status c' = cs_status c \<and> cs_account_state c' = cs_account_state c"

lemma checkpoint_session_same:
  assumes "checkpoint_session env session kind summary (p, run) = ((p', run'), Inr session')"
  shows "p' = p \<and> same_session session session' \<and> load_codex_session (cs_task_id session) (fst run') = Some session'"
proof -
  have "p' = p \<and> (\<exists>m t. session' = session\<lparr>cs_last_sequence := m, cs_updated_at := t\<rparr>) \<and>
      load_codex_session (cs_task_id session) (fst run') = Some session'"
    using assms
    by (cases run) (auto simp: checkpoint_session_def locked_def checkpoint_codex_session_def append_codex_event_def
        upsert_codex_session_def load_codex_session_def Let_def result_simps split: prod.splits)
  then show ?thesis by (auto simp: same_session_def)
qed

lemma finish_connect_ok:
  assumes "finish_connect env b session thread (p, run) = ((p', run'), Inr session')"
  shows "load_codex_session (cs_task_id session) (fst run') = Some session' \<and> cs_task_id session' = cs_task_id session \<and>
    cs_process_generation session' = cs_process_generation session \<and> cs_account_state session' = cs_account_state session \<and>
    pr_written p' = pr_written p \<and>
    (re_is_error thread \<and> is_resume b \<and> p' = p \<and> cs_status session' = StaleThreadNeedsConfirmation \<and> cs_thread_id session' = cs_thread_id session \<or>
     \<not> re_is_error thread \<and> pr_state p = ProcessStarting \<and> pr_state p' = ProcessReady \<and> cs_status session' = SessionReady \<and>
       (\<exists>t. cs_thread_id session' = Some t \<and> str_at [''thread'', ''id''] (re_payload thread) = Some t \<and>
          trim t \<noteq> [] \<and> length t \<le> 256 \<and> CHR 0x00 \<notin> set t))"
proof (cases "re_is_error thread")
  case True
  then have r: "is_resume b" "checkpoint_session env (session\<lparr>cs_status := StaleThreadNeedsConfirmation\<rparr>) ''threadStale''
      ''Saved Codex thread requires confirmation'' (p, run) = ((p', run'), Inr session')"
    using assms by (auto simp: finish_connect_def result_simps split: if_splits)
  show ?thesis using checkpoint_session_same [OF r(2)] r(1) True by (simp add: same_session_def)
next
  case False
  obtain t q where t: "str_at [''thread'', ''id''] (re_payload thread) = Some t" "session_metadata t ''thread id'' 256 = Inr ()"
    "mark_ready p = Inr q"
    "checkpoint_session env (session\<lparr>cs_thread_id := Some t, cs_status := SessionReady\<rparr>) ''threadReady''
      ''Codex thread ready'' (q, run) = ((p', run'), Inr session')"
    using assms False by (auto simp: finish_connect_def result_simps split: sum.splits)
  have "pr_state p = ProcessStarting \<and> q = p\<lparr>pr_state := ProcessReady\<rparr>"
    using t(3) by (auto simp: mark_ready_def split: if_splits)
  then show ?thesis using checkpoint_session_same [OF t(4)] t(1,2) False
    by (auto simp: same_session_def session_metadata_def split: if_splits)
qed

text \<open>What a connection that was made has written, in this order.\<close>

definition handshake_lines :: "codex_env \<Rightarrow> thread_bootstrap \<Rightarrow> string \<Rightarrow> string list" where
  "handshake_lines env b worktree = map (cx_show env) [handshake_request 1 Initialize initialize_params,
     initialized_notification, handshake_request 2 AccountRead (JObject [(''refreshToken'', JBool False)]),
     handshake_request 3 (fst (bootstrap_request b worktree)) (snd (bootstrap_request b worktree))]"

lemma initialize_session_ok:
  assumes "initialize_session env session (p, run) = ((p', run'), Inr (session', d))"
  shows "wrote [cx_show env (handshake_request 1 Initialize initialize_params), cx_show env initialized_notification] p p' \<and>
    same_session (session\<lparr>cs_status := SessionInitialized\<rparr>) session'"
proof -
  obtain q1 x q2 where 1: "send_request env 1 Initialize initialize_params new_decoder p = (q1, Inr x)"
    "write_message env initialized_notification q1 = (q2, Inr ())"
    "checkpoint_session env (session\<lparr>cs_status := SessionInitialized\<rparr>) ''initialized'' ''Codex initialized'' (q2, run) = ((p', run'), Inr session')"
    using assms by (auto simp: initialize_session_def result_simps split: prod.splits)
  show ?thesis using wrote_trans [OF send_request_wrote [OF 1(1)] write_message_wrote [OF 1(2)]] checkpoint_session_same [OF 1(3)] by simp
qed

lemma read_account_ok:
  assumes "read_account env session d (p, run) = ((p', run'), Inr (session', d'))"
  shows "wrote [cx_show env (handshake_request 2 AccountRead (JObject [(''refreshToken'', JBool False)]))] p p' \<and>
    (\<exists>account. same_session (session\<lparr>cs_account_state := account\<rparr>) session')"
proof -
  obtain q1 x where 1: "send_request env 2 AccountRead (JObject [(''refreshToken'', JBool False)]) d p = (q1, Inr x)"
    "checkpoint_session env (session\<lparr>cs_account_state := decode_account_state (snd x)\<rparr>) ''accountRead''
       ''Codex account state read'' (q1, run) = ((p', run'), Inr session')"
    using assms by (auto simp: read_account_def result_simps)
  show ?thesis using send_request_wrote [OF 1(1)] checkpoint_session_same [OF 1(2)] by blast
qed

lemma bootstrap_thread_wrote:
  "bootstrap_thread env b d p = (p', Inr x) \<Longrightarrow>
     wrote [cx_show env (handshake_request 3 (fst (bootstrap_request b (pr_worktree p))) (snd (bootstrap_request b (pr_worktree p))))] p p'"
  using send_request_wrote by (auto simp: bootstrap_thread_def split: prod.splits)

lemma connect_steps:
  assumes "connect env i version b (p, run) = ((p', run'), Inr session)"
  obtains p1 run1 session1 thread where "wrote (handshake_lines env b (pr_worktree p)) p p1"
    "cs_task_id session1 = i" "cs_process_generation session1 = pr_generation p"
    "cs_thread_id session1 = (case b of StartThread _ \<Rightarrow> None | ResumeThread t \<Rightarrow> Some t)"
    "finish_connect env b session1 thread (p1, run1) = ((p', run'), Inr session)"
    "validate_bootstrap b = Inr ()"
proof -
  obtain q1 r1 s1 q2 r2 s2 d2 q3 r3 s3 d3 where
    1: "checkpoint_session env (starting_session i (pr_generation p) version b (cx_now env (snd run)))
      ''processStarted'' ''Codex process started'' (p, run) = ((q1, r1), Inr s1)"
    and 2: "initialize_session env s1 (q1, r1) = ((q2, r2), Inr (s2, d2))"
    and 3: "read_account env s2 d2 (q2, r2) = ((q3, r3), Inr (s3, d3))"
    and 4: "open_thread env b s3 d3 (q3, r3) = ((p', run'), Inr session)" "validate_bootstrap b = Inr ()"
    using assms by (auto simp: connect_def result_simps)
  obtain q4 d4 where 5: "bootstrap_thread env b d3 q3 = (q4, Inr d4)"
    "finish_connect env b s3 (snd d4) (q4, r3) = ((p', run'), Inr session)"
    using 4(1) by (auto simp: open_thread_def result_simps)
  note all = checkpoint_session_same [OF 1] initialize_session_ok [OF 2] read_account_ok [OF 3] bootstrap_thread_wrote [OF 5(1)]
  have "wrote (handshake_lines env b (pr_worktree p)) p q4"
    using all by (simp add: wrote_def handshake_lines_def)
  then show ?thesis
    using that [of q4 s3] 4(2) 5(2) all by (auto simp: same_session_def starting_session_def)
qed

end
