(* ===== verification/Codex_Turns.thy ===== *)
theory Codex_Turns
  imports Codex_Session Store_Jobs
begin

text \<open>
  One Codex process at work on a task, the struct \<open>ActiveCodex\<close> of
  \<open>crates/patchwright-engine/src/codex/service.rs\<close>: what becomes of the messages it sends
  (\<open>normalize_event\<close>, \<open>normalize_approval\<close>, \<open>persist_incoming\<close>), the exchange of a request
  (\<open>request\<close>) and the poll for events (\<open>pump_available\<close>).
\<close>

section \<open>The state of an active process\<close>

datatype service_error =
    ServiceProcess process_error | ServiceProtocol protocol_error | ServiceSession session_error
  | ServicePersistence store_error | ServiceJob job_error | ServiceJson | ServiceTaskNotFound
  | ServiceTaskState task_state | ProcessNotActive | SessionNotReady | NoActiveTurn | DuplicateClientMessageId
  | InvalidOperatorInput | InvalidEventLimit | ServiceMissingField string | TurnMismatch | RequestRejected
  | ResponseMismatch | RequestBudgetExceeded | RuntimeApprovalNotFound | RuntimeApprovalInvalid | JobTransitionRefused

record active_codex =
  ac_process :: codex_process
  ac_decoder :: protocol_decoder
  ac_session :: codex_session
  ac_next_request_id :: i64
  ac_client_message_ids :: "string list"
  ac_active_turn_id :: "string option"
  ac_execution_job_id :: uuid
  ac_interrupt_sent :: bool

type_synonym turn_run = "active_codex \<times> codex_run"

definition max_input_bytes :: nat where
  "max_input_bytes = 64 * 1024"

definition max_client_message_id_bytes :: nat where
  "max_client_message_id_bytes = 128"

definition max_request_events :: nat where
  "max_request_events = 4096"

definition max_request_event_bytes :: nat where
  "max_request_event_bytes = 16 * 1024 * 1024"

section \<open>Contents\<close>

definition sensitive_markers :: "string list" where
  "sensitive_markers = [''authorization: bearer '', ''bearer '', ''gho_'', ''ghp_'', ''ghs_'', ''github_pat_'',
     ''sk-'', ''xoxb-'', ''xoxp-'', ''token='', ''secret='', ''password='', ''-----begin private key-----'',
     ''-----begin rsa private key-----'', ''-----begin openssh private key-----'']"

definition contains_sensitive_content :: "string \<Rightarrow> bool" where
  "contains_sensitive_content v = list_ex (\<lambda>m. contains_sub m (to_ascii_lowercase v)) sensitive_markers"

text \<open>\<open>str::is_char_boundary\<close>, and the loop that looks for one below.\<close>

definition is_char_boundary :: "string \<Rightarrow> nat \<Rightarrow> bool" where
  "is_char_boundary v n \<longleftrightarrow> n = 0 \<or> n = length v \<or> n < length v \<and> (of_char (v ! n) < (0x80 :: nat) \<or> 0xC0 \<le> (of_char (v ! n) :: nat))"

fun floor_boundary :: "string \<Rightarrow> nat \<Rightarrow> nat" where
  "floor_boundary v 0 = 0"
| "floor_boundary v (Suc n) = (if is_char_boundary v (Suc n) then Suc n else floor_boundary v n)"

definition bounded_content :: "string \<Rightarrow> string" where
  "bounded_content v =
     (if contains_sensitive_content v then ''[REDACTED]''
      else if length v \<le> max_input_bytes then v
      else take (floor_boundary v max_input_bytes) v)"

definition validate_operator_input :: "string \<Rightarrow> string \<Rightarrow> service_error + unit" where
  "validate_operator_input client_message_id input =
     ensure (\<not> (client_message_id = [] \<or> max_client_message_id_bytes < length client_message_id \<or>
       any_char is_control client_message_id \<or> trim input = [] \<or> max_input_bytes < length input \<or> CHR 0x00 \<in> set input))
       InvalidOperatorInput"

section \<open>Events\<close>

definition string_field :: "json \<Rightarrow> string \<Rightarrow> string option" where
  "string_field v field = Option.bind (json_get field v) as_str"

definition or_else :: "'a option \<Rightarrow> 'a option \<Rightarrow> 'a option" where
  "or_else x y = (case x of Some a \<Rightarrow> Some a | None \<Rightarrow> y)"

fun joined_by :: "string \<Rightarrow> string list \<Rightarrow> string" where
  "joined_by sep [] = []"
| "joined_by sep [v] = v"
| "joined_by sep (v # vs) = v @ sep @ joined_by sep vs"

definition completed_item_content :: "(json \<Rightarrow> string) \<Rightarrow> json \<Rightarrow> string option" where
  "completed_item_content show_json item = Option.bind (string_field item ''type'') (\<lambda>item_type.
     if item_type = ''agentMessage'' \<or> item_type = ''plan'' then string_field item ''text''
     else if item_type = ''reasoning''
       then map_option (\<lambda>parts. joined_by ''\<newline>'' (List.map_filter as_str parts)) (Option.bind (json_get ''summary'' item) as_array)
     else if item_type = ''commandExecution''
       then or_else (string_field item ''aggregatedOutput'') (string_field item ''command'')
     else if item_type = ''fileChange'' then map_option show_json (json_get ''changes'' item)
     else Some item_type)"

text \<open>Kind, summary and content of an event; \<open>None\<close> for a method that is not kept.\<close>

definition event_parts :: "(json \<Rightarrow> string) \<Rightarrow> string \<Rightarrow> json \<Rightarrow> (string \<times> string \<times> string option) option" where
  "event_parts show_json m params =
     (if m = ''item/agentMessage/delta''
        then Some (''textDelta'', ''Codex response streamed'', string_field params ''delta'')
      else if m = ''item/reasoning/summaryTextDelta'' \<or> m = ''item/reasoning/textDelta''
        then Some (''reasoningDelta'', ''Codex reasoning streamed'', string_field params ''delta'')
      else if m = ''item/commandExecution/outputDelta''
        then Some (''commandOutputDelta'', ''Command output streamed'', string_field params ''delta'')
      else if m = ''item/fileChange/outputDelta''
        then Some (''fileChangeDelta'', ''File change streamed'', string_field params ''delta'')
      else if m = ''item/started''
        then map_option (\<lambda>item. (''itemStarted'', ''Codex item started'',
          Some (case string_field item ''type'' of Some t \<Rightarrow> t | None \<Rightarrow> ''unknown''))) (json_get ''item'' params)
      else if m = ''item/completed''
        then map_option (\<lambda>item. (''itemCompleted'', ''Codex item completed'', completed_item_content show_json item))
          (json_get ''item'' params)
      else if m = ''turn/completed''
        then Some (''turnCompleted'', ''Codex turn completed'', str_at [''turn'', ''status''] params)
      else if m = ''error'' then Some (''error'', ''Codex turn failed'', str_at [''error'', ''message''] params)
      else None)"

definition normalize_event :: "(json \<Rightarrow> string) \<Rightarrow> json \<Rightarrow> codex_event_draft option" where
  "normalize_event show_json raw =
     Option.bind (string_field raw ''method'') (\<lambda>m.
     Option.bind (json_get ''params'' raw) (\<lambda>params.
     map_option (\<lambda>(kind, summary, content). \<lparr>ed_kind = kind, ed_summary = summary,
       ed_thread_id = string_field params ''threadId'',
       ed_turn_id = or_else (string_field params ''turnId'') (str_at [''turn'', ''id''] params),
       ed_item_id = or_else (string_field params ''itemId'') (str_at [''item'', ''id''] params),
       ed_content = map_option bounded_content content\<rparr>) (event_parts show_json m params)))"

definition approval_identity :: "json \<Rightarrow> string \<Rightarrow> service_error + string" where
  "approval_identity params name = ok_or (string_field params name) (ServiceMissingField ''approval identity'')"

definition approval_kind :: "server_request_kind \<Rightarrow> codex_approval_kind option" where
  "approval_kind k = (case k of
       CommandApprovalRequest \<Rightarrow> Some CommandApproval | FileChangeApprovalRequest \<Rightarrow> Some FileChangeApproval | _ \<Rightarrow> None)"

definition normalize_approval :: "timestamp \<Rightarrow> uuid \<Rightarrow> codex_session \<Rightarrow> server_request_envelope \<Rightarrow>
    service_error + codex_runtime_approval option" where
  "normalize_approval now fresh session request = (case approval_kind (sq_kind request) of
       None \<Rightarrow> Inr None
     | Some kind \<Rightarrow> let p = sq_params request in
         and_then (approval_identity p ''threadId'') (\<lambda>thread_id.
         and_then (approval_identity p ''turnId'') (\<lambda>turn_id.
         and_then (approval_identity p ''itemId'') (\<lambda>item_id.
         Inr (Some \<lparr>ra_id = fresh, ra_task_id = cs_task_id session, ra_class = CodexRuntime,
           ra_request_id = sq_id request, ra_process_generation = cs_process_generation session,
           ra_thread_id = thread_id, ra_turn_id = turn_id, ra_item_id = item_id, ra_kind = kind,
           ra_reason = map_option bounded_content (string_field p ''reason''),
           ra_command = map_option bounded_content (string_field p ''command''),
           ra_cwd = map_option bounded_content (string_field p ''cwd''),
           ra_grant_root = map_option bounded_content (string_field p ''grantRoot''),
           ra_state = RuntimePending, ra_created_at = now, ra_expires_at = now + minutes 10,
           ra_decided_at = None\<rparr>)))))"

section \<open>What is kept of a message\<close>

definition append_event :: "codex_env \<Rightarrow> codex_event_draft \<Rightarrow> turn_run \<Rightarrow> turn_run \<times> (service_error + unit)" where
  "append_event env draft st =
     (case on_second (locked env (\<lambda>now _. transact_value ServicePersistence
         (append_codex_event now (ac_session (fst st)) draft))) st of
       (st, Inl e) \<Rightarrow> (st, Inl e)
     | ((a, run), Inr session) \<Rightarrow> ((a\<lparr>ac_session := session\<rparr>, run), Inr ()))"

text \<open>The end of a turn moves a task that is being implemented on to its verification.\<close>

definition complete_turn :: "uuid \<Rightarrow> timestamp \<Rightarrow> uuid \<Rightarrow> store \<Rightarrow> store \<times> (service_error + unit)" where
  "complete_turn i now fresh s = (case load_task i s of
       None \<Rightarrow> (s, Inl ServiceTaskNotFound)
     | Some t \<Rightarrow> if task_state t \<noteq> Implementing then (s, Inr ())
         else then_do (s, map_err (\<lambda>_. ServiceTaskState (task_state t)) (transition now Verifying t)) (\<lambda>t s.
           then_do (s, map_err ServiceJob (task_checkpoint_new fresh now (task_id t) (task_state t)
             ''Codex turn completed; verification is ready'')) (\<lambda>c.
           transact ServicePersistence (save_task_with_checkpoint (t\<lparr>task_checkpoint_id := Some (cp_id c)\<rparr>)
             ''Codex implementation turn completed'' c))))"

definition end_turn :: "codex_env \<Rightarrow> turn_run \<Rightarrow> turn_run \<times> (service_error + unit)" where
  "end_turn env st = (case st of (a, run) \<Rightarrow>
     on_second (locked env (complete_turn (cs_task_id (ac_session a)))) (a\<lparr>ac_active_turn_id := None\<rparr>, run))"

definition persist_approval :: "codex_env \<Rightarrow> incoming_message \<Rightarrow> turn_run \<Rightarrow> turn_run \<times> (service_error + unit)" where
  "persist_approval env message st = (case message of
       ServerRequest request \<Rightarrow>
         (case normalize_approval (cx_now env (snd (snd st))) (cx_fresh env (snd (snd st))) (ac_session (fst st)) request of
           Inl e \<Rightarrow> (st, Inl e)
         | Inr None \<Rightarrow> (st, Inr ())
         | Inr (Some a) \<Rightarrow> on_second (locked env (\<lambda>_ _. transact ServicePersistence (save_codex_runtime_approval a))) st)
     | _ \<Rightarrow> (st, Inr ()))"

definition is_completion :: "codex_event_draft \<Rightarrow> bool" where
  "is_completion draft \<longleftrightarrow> ed_kind draft = ''turnCompleted''"

definition of_other_turn :: "active_codex \<Rightarrow> codex_event_draft \<Rightarrow> bool" where
  "of_other_turn a draft \<longleftrightarrow>
     ed_thread_id draft \<noteq> cs_thread_id (ac_session a) \<or> ed_turn_id draft \<noteq> ac_active_turn_id a"

definition persist_event :: "codex_env \<Rightarrow> codex_event_draft \<Rightarrow> turn_run \<Rightarrow> turn_run \<times> (service_error + unit)" where
  "persist_event env draft st = then_do (append_event env draft st) (\<lambda>_ st.
     if is_completion draft then end_turn env st else (st, Inr ()))"

definition persist_incoming :: "codex_env \<Rightarrow> json \<Rightarrow> incoming_message \<Rightarrow> turn_run \<Rightarrow>
    turn_run \<times> (service_error + unit)" where
  "persist_incoming env raw message st = (case message of
       ResponseMessage _ \<Rightarrow> (st, Inr ())
     | _ \<Rightarrow> (case normalize_event (cx_show env) raw of
           None \<Rightarrow> persist_approval env message st
         | Some draft \<Rightarrow>
             if is_completion draft \<and> of_other_turn (fst st) draft then (st, Inr ())
             else then_do (persist_event env draft st) (\<lambda>_. persist_approval env message)))"

section \<open>Requests and polls\<close>

definition set_process :: "codex_process \<Rightarrow> turn_run \<Rightarrow> turn_run" where
  "set_process p st = ((fst st)\<lparr>ac_process := p\<rparr>, snd st)"

definition set_decoder :: "protocol_decoder \<Rightarrow> turn_run \<Rightarrow> turn_run" where
  "set_decoder d st = ((fst st)\<lparr>ac_decoder := d\<rparr>, snd st)"

text \<open>The loop of \<open>request\<close>: \<open>n\<close> events and \<open>bytes\<close> are left of its budget.\<close>

fun request_loop :: "codex_env \<Rightarrow> request_id \<Rightarrow> nat \<Rightarrow> nat \<Rightarrow> turn_run \<Rightarrow> turn_run \<times> (service_error + response_envelope)" where
  "request_loop env expected n bytes st = (case read_line (ac_process (fst st)) of
       (p, Inl e) \<Rightarrow> (set_process p st,
         Inl (if e = ProcessTimeout \<and> cx_deadline env (snd (snd st)) then RequestBudgetExceeded else ServiceProcess e))
     | (p, Inr line) \<Rightarrow> (case n of
           0 \<Rightarrow> (set_process p st, Inl RequestBudgetExceeded)
         | Suc n \<Rightarrow>
             if bytes < length line then (set_process p st, Inl RequestBudgetExceeded)
             else (case cx_parse env line of
                 None \<Rightarrow> (set_process p st, Inl ServiceJson)
               | Some raw \<Rightarrow> (case decode_line (cx_parse env) line (ac_decoder (fst st)) of
                     (d, Inl e) \<Rightarrow> (set_decoder d (set_process p st), Inl (ServiceProtocol e))
                   | (d, Inr (ResponseMessage r)) \<Rightarrow> (set_decoder d (set_process p st),
                       if re_id r \<noteq> expected then Inl ResponseMismatch
                       else if re_is_error r then Inl RequestRejected else Inr r)
                   | (d, Inr message) \<Rightarrow>
                       then_do (persist_incoming env raw message (set_decoder d (set_process p st)))
                         (\<lambda>_. request_loop env expected n (bytes - length line))))))"

declare request_loop.simps [simp del]

definition send_line :: "codex_env \<Rightarrow> json \<Rightarrow> turn_run \<Rightarrow> turn_run \<times> (service_error + unit)" where
  "send_line env v st = (case write_line (cx_show env v) (ac_process (fst st)) of
     (p, r) \<Rightarrow> (set_process p st, map_err ServiceProcess r))"

definition request_exchange :: "codex_env \<Rightarrow> request_id \<Rightarrow> client_method \<Rightarrow> json \<Rightarrow> turn_run \<Rightarrow>
    turn_run \<times> (service_error + response_envelope)" where
  "request_exchange env i m params st =
     then_do (st, map_err ServiceProtocol (client_request i m params)) (\<lambda>request st.
     then_do (send_line env request st) (\<lambda>_. request_loop env i max_request_events max_request_event_bytes))"

definition codex_request :: "codex_env \<Rightarrow> client_method \<Rightarrow> json \<Rightarrow> turn_run \<Rightarrow>
    turn_run \<times> (service_error + response_envelope)" where
  "codex_request env m params st = (case st of (a, run) \<Rightarrow>
     let i = NumberId (ac_next_request_id a); a = a\<lparr>ac_next_request_id := ac_next_request_id a + 1\<rparr> in
     (case register_request i (ac_decoder a) of
       Inl e \<Rightarrow> ((a, run), Inl (ServiceProtocol e))
     | Inr d \<Rightarrow> (case request_exchange env i m params (a\<lparr>ac_decoder := d\<rparr>, run) of
           (st, Inl e) \<Rightarrow> (set_decoder (cancel_request i (ac_decoder (fst st))) st, Inl e)
         | (st, Inr r) \<Rightarrow> (st, Inr r))))"

text \<open>\<open>pump_available\<close> reads at most 128 lines, until none arrives within five milliseconds.\<close>

fun pump_available :: "codex_env \<Rightarrow> nat \<Rightarrow> turn_run \<Rightarrow> turn_run \<times> (service_error + unit)" where
  "pump_available env 0 st = (st, Inr ())"
| "pump_available env (Suc n) st = (case read_line (ac_process (fst st)) of
       (p, Inl e) \<Rightarrow> (set_process p st, if e = ProcessTimeout then Inr () else Inl (ServiceProcess e))
     | (p, Inr line) \<Rightarrow> (case cx_parse env line of
           None \<Rightarrow> (set_process p st, Inl ServiceJson)
         | Some raw \<Rightarrow> (case decode_line (cx_parse env) line (ac_decoder (fst st)) of
               (d, Inl e) \<Rightarrow> (set_decoder d (set_process p st), Inl (ServiceProtocol e))
             | (d, Inr message) \<Rightarrow>
                 then_do (persist_incoming env raw message (set_decoder d (set_process p st)))
                   (\<lambda>_. pump_available env n))))"

definition pump :: "codex_env \<Rightarrow> turn_run \<Rightarrow> turn_run \<times> (service_error + unit)" where
  "pump env = pump_available env 128"

text \<open>\<open>request_interrupt_if_active\<close>: its own timer ends a read or a write like any other timeout.\<close>

definition request_interrupt :: "codex_env \<Rightarrow> turn_run \<Rightarrow> turn_run \<times> bool" where
  "request_interrupt env st = (case st of (a, run) \<Rightarrow>
     (case (cs_thread_id (ac_session a), ac_active_turn_id a) of
       (Some thread_id, Some turn_id) \<Rightarrow>
         if ac_interrupt_sent a then (st, False)
         else (case codex_request env TurnInterrupt (JObject [(''threadId'', JString thread_id), (''turnId'', JString turn_id)])
             (a\<lparr>ac_interrupt_sent := True\<rparr>, run) of
           (st, r) \<Rightarrow> (st, is_ok r \<and> ac_active_turn_id (fst st) = None))
     | _ \<Rightarrow> (st, False)))"

section \<open>What a message leaves alone\<close>

text \<open>Nobody else takes the lock of the store.\<close>

definition quiet :: "codex_env \<Rightarrow> bool" where
  "quiet env \<longleftrightarrow> (\<forall>n s. cx_others env n s = s)"

text \<open>The same process at work: its session keeps its identity, and the active turn is the same or over.\<close>

definition same_work :: "active_codex \<Rightarrow> active_codex \<Rightarrow> bool" where
  "same_work a a' \<longleftrightarrow> ac_next_request_id a' = ac_next_request_id a \<and> ac_client_message_ids a' = ac_client_message_ids a \<and>
     ac_execution_job_id a' = ac_execution_job_id a \<and> ac_interrupt_sent a' = ac_interrupt_sent a \<and>
     cs_task_id (ac_session a') = cs_task_id (ac_session a) \<and> cs_thread_id (ac_session a') = cs_thread_id (ac_session a) \<and>
     cs_process_generation (ac_session a') = cs_process_generation (ac_session a) \<and>
     cs_status (ac_session a') = cs_status (ac_session a) \<and> ac_active_turn_id a' \<in> {ac_active_turn_id a, None}"

lemma same_work_refl [simp]: "same_work a a"
  by (simp add: same_work_def)

lemma same_work_trans: "same_work a b \<Longrightarrow> same_work b c \<Longrightarrow> same_work a c"
  by (auto simp: same_work_def)

lemma same_work_updates [simp]:
  "same_work (a\<lparr>ac_process := p\<rparr>) b = same_work a b" "same_work a (b\<lparr>ac_process := p\<rparr>) = same_work a b"
  "same_work (a\<lparr>ac_decoder := d\<rparr>) b = same_work a b" "same_work a (b\<lparr>ac_decoder := d\<rparr>) = same_work a b"
  by (simp_all add: same_work_def)

text \<open>Tables that events leave alone; the tasks are left alone but for the end of a turn.\<close>

definition events_frame :: "store \<Rightarrow> store \<Rightarrow> bool" where
  "events_frame s s' \<longleftrightarrow> st_jobs s' = st_jobs s \<and> st_contracts s' = st_contracts s \<and>
     (st_tasks s' = st_tasks s \<and> st_task_events s' = st_task_events s \<and> st_checkpoints s' = st_checkpoints s)"

lemma events_frame_refl [simp]: "events_frame s s"
  by (simp add: events_frame_def)

lemma append_codex_event_frame:
  assumes "append_codex_event now session draft s = Inr (s', session')"
  shows "events_frame s s' \<and> st_runtime_approvals s' = st_runtime_approvals s \<and>
    session' = session\<lparr>cs_last_sequence := cs_last_sequence session', cs_updated_at := now\<rparr> \<and>
    load_codex_session (cs_task_id session) s' = Some session'"
  using assms by (auto simp: append_codex_event_def upsert_codex_session_def load_codex_session_def events_frame_def Let_def result_simps)

lemma append_event_frame:
  assumes "append_event env draft (a, s, n) = ((a', s', n'), r)" "quiet env"
  shows "same_work a a' \<and> ac_process a' = ac_process a \<and> ac_decoder a' = ac_decoder a \<and>
    ac_active_turn_id a' = ac_active_turn_id a \<and> events_frame s s' \<and> st_runtime_approvals s' = st_runtime_approvals s \<and> n' = Suc n"
proof -
  obtain q where q: "transact_value ServicePersistence (append_codex_event (cx_now env n) (ac_session a) draft) s = q" by simp
  show ?thesis
  proof (cases "append_codex_event (cx_now env n) (ac_session a) draft s")
    case (Inl e)
    then show ?thesis using assms by (auto simp: append_event_def locked_def transact_value_def quiet_def)
  next
    case (Inr x)
    obtain s1 session where x: "x = (s1, session)" by (cases x)
    have a': "a' = a\<lparr>ac_session := session\<rparr>" "s' = s1" "n' = Suc n"
      using assms Inr x by (auto simp: append_event_def locked_def transact_value_def quiet_def)
    note f = append_codex_event_frame [OF Inr [unfolded x]]
    have "cs_task_id session = cs_task_id (ac_session a)" "cs_thread_id session = cs_thread_id (ac_session a)"
      "cs_process_generation session = cs_process_generation (ac_session a)" "cs_status session = cs_status (ac_session a)"
      using f by (metis codex_session.select_convs codex_session.surjective codex_session.update_convs)+
    then show ?thesis using f by (simp add: a' same_work_def)
  qed
qed

lemma complete_turn_store:
  assumes "complete_turn i now fresh s = (s', r)"
  shows "s' = s \<or> (\<exists>t c. load_task i s = Some t \<and> task_state t = Implementing \<and>
    s' = (record_task (t\<lparr>task_state := Verifying, task_updated_at := now, task_checkpoint_id := Some (cp_id c)\<rparr>)
      ''Codex implementation turn completed'' s)\<lparr>st_checkpoints := st_checkpoints s @ [(cp_id c, c)]\<rparr>)"
proof (cases "\<exists>t. load_task i s = Some t \<and> task_state t = Implementing")
  case True
  then obtain t where t: "load_task i s = Some t" "task_state t = Implementing" by blast
  let ?t = "t\<lparr>task_state := Verifying, task_updated_at := now\<rparr>"
  have tr: "transition now Verifying t = Inr ?t" using t by (simp add: transition_def permits_def)
  show ?thesis
  proof (cases "task_checkpoint_new fresh now (task_id t) Verifying ''Codex turn completed; verification is ready''")
    case (Inl e)
    then show ?thesis using assms t by (simp add: complete_turn_def tr)
  next
    case (Inr c)
    have "transact ServicePersistence (save_task_with_checkpoint (?t\<lparr>task_checkpoint_id := Some (cp_id c)\<rparr>)
        ''Codex implementation turn completed'' c) s = (s', r)"
      using assms t by (simp add: complete_turn_def tr Inr)
    then have "s' = s \<or> save_task_with_checkpoint (?t\<lparr>task_checkpoint_id := Some (cp_id c)\<rparr>)
        ''Codex implementation turn completed'' c s = Inr s'"
      by (simp add: transact_def split: sum.splits)
    then show ?thesis
    proof
      assume "save_task_with_checkpoint (?t\<lparr>task_checkpoint_id := Some (cp_id c)\<rparr>) ''Codex implementation turn completed'' c s = Inr s'"
      then have "s' = (record_task (?t\<lparr>task_checkpoint_id := Some (cp_id c)\<rparr>) ''Codex implementation turn completed'' s)
          \<lparr>st_checkpoints := st_checkpoints s @ [(cp_id c, c)]\<rparr>"
        by (simp only: save_task_with_checkpoint_ok)
      then show ?thesis using t by blast
    qed blast
  qed
next
  case False
  then show ?thesis using assms by (auto simp: complete_turn_def split: option.splits if_splits)
qed

lemma persist_approval_store:
  assumes "persist_approval env m (a, s, n) = ((a', s', n'), r)" "quiet env"
  shows "a' = a \<and> events_frame s s'"
  using assms
  by (auto simp: persist_approval_def locked_def quiet_def transact_def save_codex_runtime_approval_def events_frame_def
      split: incoming_message.splits sum.splits option.splits if_splits)

text \<open>The step of the task that the end of a turn makes.\<close>

definition verified_next :: "uuid \<Rightarrow> store \<Rightarrow> store \<Rightarrow> bool" where
  "verified_next i s s' \<longleftrightarrow> (\<exists>t u c. load_task i s = Some t \<and> task_state t = Implementing \<and>
     st_tasks s' = upsert (task_id t) (t\<lparr>task_state := Verifying, task_updated_at := u, task_checkpoint_id := c\<rparr>) (st_tasks s))"

lemma end_turn_store:
  assumes "end_turn env (a, s, n) = ((a', s', n'), r)" "quiet env"
  shows "a' = a\<lparr>ac_active_turn_id := None\<rparr> \<and> st_jobs s' = st_jobs s \<and> st_contracts s' = st_contracts s \<and>
    (st_tasks s' = st_tasks s \<or> verified_next (cs_task_id (ac_session a)) s s')"
proof -
  obtain q where c: "complete_turn (cs_task_id (ac_session a)) (cx_now env n) (cx_fresh env n) s = (s', q)"
    and a': "a' = a\<lparr>ac_active_turn_id := None\<rparr>"
    using assms by (auto simp: end_turn_def locked_def quiet_def split: prod.splits)
  from complete_turn_store [OF c] show ?thesis
  proof
    assume "s' = s"
    then show ?thesis using a' by simp
  next
    assume "\<exists>t c. load_task (cs_task_id (ac_session a)) s = Some t \<and> task_state t = Implementing \<and>
      s' = (record_task (t\<lparr>task_state := Verifying, task_updated_at := cx_now env n, task_checkpoint_id := Some (cp_id c)\<rparr>)
        ''Codex implementation turn completed'' s)\<lparr>st_checkpoints := st_checkpoints s @ [(cp_id c, c)]\<rparr>"
    then obtain t c where t: "load_task (cs_task_id (ac_session a)) s = Some t" "task_state t = Implementing"
      "s' = (record_task (t\<lparr>task_state := Verifying, task_updated_at := cx_now env n, task_checkpoint_id := Some (cp_id c)\<rparr>)
        ''Codex implementation turn completed'' s)\<lparr>st_checkpoints := st_checkpoints s @ [(cp_id c, c)]\<rparr>" by blast
    have "verified_next (cs_task_id (ac_session a)) s s'"
      unfolding verified_next_def
      by (intro exI [of _ t] exI [of _ "cx_now env n"] exI [of _ "Some (cp_id c)"]) (simp add: t record_task_def)
    then show ?thesis using a' t(3) by (simp add: record_task_def)
  qed
qed

lemma persist_event_store:
  assumes "persist_event env draft (a, s, n) = ((a', s', n'), r)" "quiet env"
  shows "same_work a a' \<and> ac_process a' = ac_process a \<and> ac_decoder a' = ac_decoder a \<and> st_jobs s' = st_jobs s \<and>
    st_contracts s' = st_contracts s \<and>
    (st_tasks s' = st_tasks s \<or> is_completion draft \<and> verified_next (cs_task_id (ac_session a)) s s' \<and> ac_active_turn_id a' = None)"
proof -
  obtain a1 s1 n1 r1 where 1: "append_event env draft (a, s, n) = ((a1, s1, n1), r1)" by (metis prod.exhaust)
  note f = append_event_frame [OF 1 assms(2)]
  show ?thesis
  proof (cases "r1 = Inr () \<and> is_completion draft")
    case False
    then have "a' = a1" "s' = s1" using assms(1) 1 by (cases r1; auto simp: persist_event_def)+
    then show ?thesis using f by (simp add: events_frame_def)
  next
    case True
    then have e: "end_turn env (a1, s1, n1) = ((a', s', n'), r)" using assms(1) 1 by (simp add: persist_event_def)
    have "load_task i s1 = load_task i s" for i using f by (simp add: events_frame_def load_task_def)
    then show ?thesis using end_turn_store [OF e assms(2)] f True
      by (auto simp: events_frame_def same_work_def verified_next_def)
  qed
qed

lemma persist_incoming_store:
  assumes "persist_incoming env raw m (a, s, n) = ((a', s', n'), r)" "quiet env"
  shows "same_work a a' \<and> ac_process a' = ac_process a \<and> ac_decoder a' = ac_decoder a \<and> st_jobs s' = st_jobs s \<and>
    st_contracts s' = st_contracts s"
    and "st_tasks s' = st_tasks s \<or> (\<exists>draft. normalize_event (cx_show env) raw = Some draft \<and> is_completion draft \<and>
      \<not> of_other_turn a draft \<and> verified_next (cs_task_id (ac_session a)) s s' \<and> ac_active_turn_id a' = None)"
proof -
  have "(same_work a a' \<and> ac_process a' = ac_process a \<and> ac_decoder a' = ac_decoder a \<and> st_jobs s' = st_jobs s \<and>
      st_contracts s' = st_contracts s) \<and>
    (st_tasks s' = st_tasks s \<or> (\<exists>draft. normalize_event (cx_show env) raw = Some draft \<and> is_completion draft \<and>
      \<not> of_other_turn a draft \<and> verified_next (cs_task_id (ac_session a)) s s' \<and> ac_active_turn_id a' = None))"
  proof (cases "normalize_event (cx_show env) raw")
    case None
    then show ?thesis using assms persist_approval_store [of env m a s n]
      by (auto simp: persist_incoming_def events_frame_def split: incoming_message.splits)
  next
    case (Some draft)
    obtain a1 s1 n1 r1 where 1: "persist_event env draft (a, s, n) = ((a1, s1, n1), r1)" by (metis prod.exhaust)
    note e = persist_event_store [OF 1 assms(2)]
    show ?thesis
    proof (cases "(\<exists>x. m = ResponseMessage x) \<or> is_completion draft \<and> of_other_turn a draft")
      case True
      then show ?thesis using assms(1) Some by (auto simp: persist_incoming_def split: incoming_message.splits)
    next
      case False
      then have p: "then_do ((a1, s1, n1), r1) (\<lambda>_. persist_approval env m) = ((a', s', n'), r)"
        using assms(1) Some 1 by (auto simp: persist_incoming_def split: incoming_message.splits)
      have "a' = a1 \<and> events_frame s1 s'"
        using p persist_approval_store [of env m a1 s1 n1] assms(2) by (cases r1) auto
      then show ?thesis using e Some False by (auto simp: events_frame_def verified_next_def)
    qed
  qed
  then show "same_work a a' \<and> ac_process a' = ac_process a \<and> ac_decoder a' = ac_decoder a \<and> st_jobs s' = st_jobs s \<and>
      st_contracts s' = st_contracts s"
    and "st_tasks s' = st_tasks s \<or> (\<exists>draft. normalize_event (cx_show env) raw = Some draft \<and> is_completion draft \<and>
      \<not> of_other_turn a draft \<and> verified_next (cs_task_id (ac_session a)) s s' \<and> ac_active_turn_id a' = None)" by blast+
qed

section \<open>What a request and a poll leave alone\<close>

lemma set_process_pair [simp]: "set_process p (a, run) = (a\<lparr>ac_process := p\<rparr>, run)"
  by (simp add: set_process_def)

lemma set_decoder_pair [simp]: "set_decoder d (a, run) = (a\<lparr>ac_decoder := d\<rparr>, run)"
  by (simp add: set_decoder_def)

text \<open>The exchange with the process: only the output is consumed, and no request is added.\<close>

definition listened :: "active_codex \<Rightarrow> active_codex \<Rightarrow> bool" where
  "listened a a' \<longleftrightarrow> same_work a a' \<and> pr_written (ac_process a') = pr_written (ac_process a) \<and>
     pr_state (ac_process a') = pr_state (ac_process a) \<and>
     set (pd_pending (ac_decoder a')) \<subseteq> set (pd_pending (ac_decoder a))"

lemma listened_trans: "listened a b \<Longrightarrow> listened b c \<Longrightarrow> listened a c"
  by (auto simp: listened_def intro: same_work_trans)

lemma listened_read:
  assumes "read_line (ac_process a) = (p, r)"
  shows "listened a (a\<lparr>ac_process := p\<rparr>)"
  using arg_cong [OF read_line_keeps [OF assms], of pr_written] arg_cong [OF read_line_keeps [OF assms], of pr_state]
  by (simp add: listened_def)

lemma decode_line_pending:
  assumes "decode_line parse line d = (d', r)"
  shows "set (pd_pending d') \<subseteq> set (pd_pending d)"
    and "r = Inr (ResponseMessage x) \<Longrightarrow> d' = cancel_request (re_id x) d"
proof -
  have "(d' = d \<and> (\<exists>e. r = Inl e)) \<or> (\<exists>v. decode_object v d = (d', r))"
    using assms by (auto simp: decode_line_def split: if_splits option.splits)
  then show "set (pd_pending d') \<subseteq> set (pd_pending d)"
    and "r = Inr (ResponseMessage x) \<Longrightarrow> d' = cancel_request (re_id x) d"
    using decode_object_keeps decode_object_response by (blast, metis Inl_Inr_False)
qed

lemma listened_line:
  assumes "read_line (ac_process a) = (p, x)" "decode_line parse line (ac_decoder a) = (d, y)"
  shows "listened a (a\<lparr>ac_process := p, ac_decoder := d\<rparr>)"
  using listened_read [OF assms(1)] decode_line_pending(1) [OF assms(2)] by (simp add: listened_def)

lemma listened_persist:
  assumes "persist_incoming env raw m (a, s, n) = ((a', s', n'), r)" "quiet env"
  shows "listened a a' \<and> st_jobs s' = st_jobs s \<and> st_contracts s' = st_contracts s"
  using persist_incoming_store(1) [OF assms] by (simp add: listened_def)

lemma pump_available_store:
  assumes "pump_available env k (a, s, n) = ((a', s', n'), r)" "quiet env"
  shows "listened a a' \<and> st_jobs s' = st_jobs s \<and> st_contracts s' = st_contracts s"
  using assms(1)
proof (induction k arbitrary: a s n)
  case 0
  then show ?case by (simp add: listened_def)
next
  case (Suc k)
  obtain p x where 1: "read_line (ac_process a) = (p, x)" by fastforce
  note l1 = listened_read [OF 1]
  show ?case
  proof (cases x)
    case (Inl e)
    then show ?thesis using Suc.prems l1 by (simp add: 1)
  next
    case (Inr line)
    show ?thesis
    proof (cases "cx_parse env line")
      case None
      then show ?thesis using Suc.prems l1 by (simp add: 1 Inr)
    next
      case (Some raw)
      obtain d y where 2: "decode_line (cx_parse env) line (ac_decoder a) = (d, y)" by fastforce
      note l2 = listened_line [OF 1 2]
      show ?thesis
      proof (cases y)
        case (Inl e)
        then show ?thesis using Suc.prems l2 by (simp add: 1 \<open>x = Inr line\<close> Some 2)
      next
        case (Inr m)
        obtain a1 s1 n1 r1 where 3: "persist_incoming env raw m (a\<lparr>ac_process := p, ac_decoder := d\<rparr>, s, n) = ((a1, s1, n1), r1)"
          by (metis prod.exhaust)
        note l3 = listened_persist [OF 3 assms(2)]
        have rest: "then_do ((a1, s1, n1), r1) (\<lambda>_. pump_available env k) = ((a', s', n'), r)"
          using Suc.prems by (simp add: 1 \<open>x = Inr line\<close> Some 2 Inr 3)
        show ?thesis using rest Suc.IH [of a1 s1 n1] l2 l3 by (cases r1) (auto intro: listened_trans)
      qed
    qed
  qed
qed

lemma request_loop_store:
  assumes "request_loop env i k b (a, s, n) = ((a', s', n'), r)" "quiet env"
  shows "listened a a' \<and> st_jobs s' = st_jobs s \<and> st_contracts s' = st_contracts s \<and>
    (\<forall>x. r = Inr x \<longrightarrow> re_id x = i \<and> \<not> re_is_error x \<and> i \<notin> set (pd_pending (ac_decoder a')))"
  using assms(1)
proof (induction k arbitrary: a s n b)
  case 0
  obtain p x where 1: "read_line (ac_process a) = (p, x)" by fastforce
  show ?case using 0 listened_read [OF 1] by (cases x) (auto simp: request_loop.simps [of env i 0] 1)
next
  case (Suc k)
  obtain p x where 1: "read_line (ac_process a) = (p, x)" by fastforce
  note l1 = listened_read [OF 1]
  note unfolded = Suc.prems [unfolded request_loop.simps [of env i "Suc k"]]
  show ?case
  proof (cases "\<exists>line raw. x = Inr line \<and> length line \<le> b \<and> cx_parse env line = Some raw")
    case False
    then show ?thesis using unfolded l1 by (cases x) (auto simp: 1 split: if_splits option.splits)
  next
    case True
    then obtain line raw where x: "x = Inr line" "length line \<le> b" "cx_parse env line = Some raw" by blast
    obtain d y where 2: "decode_line (cx_parse env) line (ac_decoder a) = (d, y)" by fastforce
    note l2 = listened_line [OF 1 2]
    show ?thesis
    proof (cases "\<exists>m. y = Inr m \<and> (\<forall>z. m \<noteq> ResponseMessage z)")
      case False
      then show ?thesis using unfolded l2 x(2) decode_line_pending(2) [OF 2]
        by (auto simp: 1 x 2 cancel_request_def split: sum.splits incoming_message.splits if_splits)
    next
      case True
      then obtain m where m: "y = Inr m" "\<forall>z. m \<noteq> ResponseMessage z" by blast
      obtain a1 s1 n1 r1 where 3: "persist_incoming env raw m (a\<lparr>ac_process := p, ac_decoder := d\<rparr>, s, n) = ((a1, s1, n1), r1)"
        by (metis prod.exhaust)
      note l3 = listened_persist [OF 3 assms(2)]
      have rest: "then_do ((a1, s1, n1), r1) (\<lambda>_. request_loop env i k (b - length line)) = ((a', s', n'), r)"
        using unfolded x(2) m 3 by (cases m) (simp_all add: 1 x 2)
      show ?thesis using rest Suc.IH [of "b - length line" a1 s1 n1] l2 l3 by (cases r1) (auto intro: listened_trans)
    qed
  qed
qed

lemma send_line_store:
  assumes "send_line env v (a, run) = ((a', run'), r)"
  shows "run' = run \<and> same_work a a' \<and> ac_decoder a' = ac_decoder a \<and> pr_state (ac_process a') = pr_state (ac_process a) \<and>
    ac_session a' = ac_session a \<and>
    pr_written (ac_process a') = (if r = Inr () then pr_written (ac_process a) @ [cx_show env v] else pr_written (ac_process a))"
proof -
  obtain p x where 1: "write_line (cx_show env v) (ac_process a) = (p, x)" by fastforce
  have a': "a' = a\<lparr>ac_process := p\<rparr>" "run' = run" "r = map_err ServiceProcess x"
    using assms by (auto simp: send_line_def 1)
  have k: "p = (ac_process a)\<lparr>pr_writes := pr_writes p, pr_written := pr_written p\<rparr>"
    "pr_written p = (if x = Inr () then pr_written (ac_process a) @ [cx_show env v] else pr_written (ac_process a))"
    using write_line_keeps [OF 1] by blast+
  have "pr_state p = pr_state (ac_process a)" using arg_cong [OF k(1), of pr_state] by simp
  then show ?thesis using k(2) by (cases x) (simp_all add: a')
qed

text \<open>The request that is sent: its identifier is the next one.\<close>

definition own_request :: "active_codex \<Rightarrow> client_method \<Rightarrow> json \<Rightarrow> json" where
  "own_request a m params = JObject [(''jsonrpc'', JString ''2.0''), (''id'', json_of_request_id (NumberId (ac_next_request_id a))),
     (''method'', JString (method_text m)), (''params'', params)]"

lemma codex_request_store:
  assumes "codex_request env m params (a, s, n) = ((a', s', n'), r)" "quiet env" "pd_pending (ac_decoder a) = []"
  shows "same_work (a\<lparr>ac_next_request_id := ac_next_request_id a + 1\<rparr>) a' \<and> st_jobs s' = st_jobs s \<and>
    st_contracts s' = st_contracts s \<and> pr_state (ac_process a') = pr_state (ac_process a) \<and>
    pd_pending (ac_decoder a') = []"
    and "pr_written (ac_process a') = pr_written (ac_process a) \<and> (\<exists>e. r = Inl e) \<or>
      pr_written (ac_process a') = pr_written (ac_process a) @ [cx_show env (own_request a m params)]"
    and "r = Inr x \<Longrightarrow> re_id x = NumberId (ac_next_request_id a) \<and> \<not> re_is_error x"
proof -
  let ?i = "NumberId (ac_next_request_id a)" and ?b = "a\<lparr>ac_next_request_id := ac_next_request_id a + 1\<rparr>"
  let ?d = "(ac_decoder a)\<lparr>pd_pending := [?i]\<rparr>"
  have reg: "register_request ?i (ac_decoder ?b) = Inr ?d"
    by (simp add: register_request_def validate_request_id_def assms(3))
  have req: "client_request ?i m params = Inr (own_request a m params)"
    by (simp add: client_request_def validate_request_id_def own_request_def)
  obtain a1 run1 r1 where 1: "send_line env (own_request a m params) (?b\<lparr>ac_decoder := ?d\<rparr>, s, n) = ((a1, run1), r1)"
    by (metis prod.exhaust)
  note l1 = send_line_store [OF 1]
  obtain a2 s2 n2 r2 where 2: "request_exchange env ?i m params (?b\<lparr>ac_decoder := ?d\<rparr>, s, n) = ((a2, s2, n2), r2)"
    by (metis prod.exhaust)
  have ex: "then_do ((a1, run1), r1) (\<lambda>_. request_loop env ?i max_request_events max_request_event_bytes) = ((a2, s2, n2), r2)"
    using 2 by (simp add: request_exchange_def req 1)
  have l2: "same_work ?b a2 \<and> st_jobs s2 = st_jobs s \<and> st_contracts s2 = st_contracts s \<and>
      pr_state (ac_process a2) = pr_state (ac_process a) \<and> set (pd_pending (ac_decoder a2)) \<subseteq> {?i} \<and>
      pr_written (ac_process a2) = pr_written (ac_process a1) \<and> (r1 \<noteq> Inr () \<longrightarrow> (\<exists>e. r2 = Inl e)) \<and>
      (\<forall>x. r2 = Inr x \<longrightarrow> re_id x = ?i \<and> \<not> re_is_error x \<and> ?i \<notin> set (pd_pending (ac_decoder a2)))"
  proof (cases r1)
    case (Inl e)
    then show ?thesis using ex l1 by auto
  next
    case (Inr u)
    then have "request_loop env ?i max_request_events max_request_event_bytes (a1, s, n) = ((a2, s2, n2), r2)"
      using ex l1 by simp
    from request_loop_store [OF this assms(2)] show ?thesis using l1 Inr
      by (auto simp: listened_def intro: same_work_trans)
  qed
  have out: "((a', s', n'), r) = (case r2 of Inl e \<Rightarrow> ((a2\<lparr>ac_decoder := cancel_request ?i (ac_decoder a2)\<rparr>, s2, n2), Inl e)
      | Inr x \<Rightarrow> ((a2, s2, n2), Inr x))"
    using assms(1) reg 2 by (simp add: codex_request_def Let_def split: sum.splits)
  have "pd_pending (ac_decoder a') = []"
  proof (cases r2)
    case (Inl e)
    then show ?thesis using out l2 by (auto simp: cancel_request_def filter_empty_conv)
  next
    case (Inr x)
    then have "set (pd_pending (ac_decoder a2)) \<subseteq> {?i}" "?i \<notin> set (pd_pending (ac_decoder a2))" "a' = a2" using out l2 by auto
    then have "set (pd_pending (ac_decoder a')) = {}" by (metis insertI1 subset_singletonD)
    then show ?thesis by simp
  qed
  then show "same_work ?b a' \<and> st_jobs s' = st_jobs s \<and> st_contracts s' = st_contracts s \<and>
      pr_state (ac_process a') = pr_state (ac_process a) \<and> pd_pending (ac_decoder a') = []"
    using out l2 by (cases r2) auto
  show "pr_written (ac_process a') = pr_written (ac_process a) \<and> (\<exists>e. r = Inl e) \<or>
      pr_written (ac_process a') = pr_written (ac_process a) @ [cx_show env (own_request a m params)]"
    using out l1 l2 by (cases r2) (auto split: if_splits)
  show "re_id x = ?i \<and> \<not> re_is_error x" if "r = Inr x"
    using out l2 that by (cases r2) auto
qed

end
