(* ===== verification/Codex_Service.thy ===== *)
theory Codex_Service
  imports Codex_Turns
begin

text \<open>
  \<open>CodexService\<close> of \<open>crates/patchwright-engine/src/codex/service.rs\<close>: the table of active processes with its
  operations. An operation gives the service and the store it leaves; an error comes with what was done before it.
  An active entry that is dropped has its process group killed (\<open>drop_process\<close>).
\<close>

section \<open>Status\<close>

datatype codex_service_state =
    CodexUnavailable | CodexNotStarted | CodexReady | CodexStaleThread | CodexFailed | CodexExited

record codex_runtime_status =
  rs_task_id :: uuid
  rs_state :: codex_service_state
  rs_process_generation :: "uuid option"
  rs_account_state :: "codex_account_state option"
  rs_thread_id :: "string option"
  rs_turn_id :: "string option"
  rs_last_sequence :: u64
  rs_can_start :: bool
  rs_can_send :: bool
  rs_can_steer :: bool

record codex_turn_receipt =
  tr_thread_id :: string
  tr_turn_id :: string
  tr_client_message_id :: string

record codex_service =
  sv_executable :: codex_executable
  sv_executable_version :: string
  sv_active :: "(uuid, active_codex) table"

type_synonym service_run = "codex_service \<times> codex_run"

definition session_state :: "codex_session_status \<Rightarrow> bool \<Rightarrow> codex_service_state" where
  "session_state status process_ready = (case status of
       SessionReady \<Rightarrow> if process_ready then CodexReady else CodexExited
     | StaleThreadNeedsConfirmation \<Rightarrow> CodexStaleThread
     | SessionFailed \<Rightarrow> CodexFailed
     | _ \<Rightarrow> CodexExited)"

definition status_from_session :: "codex_session \<Rightarrow> bool \<Rightarrow> codex_runtime_status" where
  "status_from_session c process_ready = \<lparr>rs_task_id = cs_task_id c,
     rs_state = session_state (cs_status c) process_ready, rs_process_generation = Some (cs_process_generation c),
     rs_account_state = Some (cs_account_state c), rs_thread_id = cs_thread_id c, rs_turn_id = cs_last_turn_id c,
     rs_last_sequence = cs_last_sequence c, rs_can_start = (\<not> process_ready), rs_can_send = process_ready,
     rs_can_steer = False\<rparr>"

definition status_from_active :: "uuid \<Rightarrow> active_codex \<Rightarrow> codex_runtime_status" where
  "status_from_active i a = (let ready = (pr_state (ac_process a) = ProcessReady) in
     (status_from_session (ac_session a) ready)\<lparr>rs_task_id := i,
       rs_can_steer := (ready \<and> ac_active_turn_id a \<noteq> None), rs_turn_id := ac_active_turn_id a\<rparr>)"

definition not_started :: "uuid \<Rightarrow> codex_runtime_status" where
  "not_started i = \<lparr>rs_task_id = i, rs_state = CodexNotStarted, rs_process_generation = None,
     rs_account_state = None, rs_thread_id = None, rs_turn_id = None, rs_last_sequence = 0, rs_can_start = True,
     rs_can_send = False, rs_can_steer = False\<rparr>"

definition service_status :: "codex_env \<Rightarrow> uuid \<Rightarrow> service_run \<Rightarrow> service_run \<times> (service_error + codex_runtime_status)" where
  "service_status env i st = (case find_row i (sv_active (fst st)) of
       Some a \<Rightarrow> (st, Inr (status_from_active i a))
     | None \<Rightarrow> on_second (locked env (\<lambda>_ _ s. (s, Inr (case load_codex_session i s of
         Some c \<Rightarrow> status_from_session c False | None \<Rightarrow> not_started i)))) st)"

section \<open>Active processes\<close>

definition set_active :: "uuid \<Rightarrow> active_codex \<Rightarrow> codex_service \<Rightarrow> codex_service" where
  "set_active i a sv = sv\<lparr>sv_active := upsert i a (sv_active sv)\<rparr>"

definition remove_active :: "uuid \<Rightarrow> codex_service \<Rightarrow> codex_service" where
  "remove_active i sv = sv\<lparr>sv_active := AList.delete i (sv_active sv)\<rparr>"

text \<open>\<open>get_mut\<close>: what \<open>f\<close> leaves of the entry is in the table afterwards.\<close>

definition with_active :: "uuid \<Rightarrow> (turn_run \<Rightarrow> turn_run \<times> (service_error + 'a)) \<Rightarrow> service_run \<Rightarrow>
    service_run \<times> (service_error + 'a)" where
  "with_active i f st = (case st of (sv, run) \<Rightarrow> (case find_row i (sv_active sv) of
       None \<Rightarrow> (st, Inl ProcessNotActive)
     | Some a \<Rightarrow> (case f (a, run) of ((a, run), r) \<Rightarrow> ((set_active i a sv, run), r))))"

text \<open>The polls of \<open>events\<close> and \<open>approvals\<close> pass over a task that has no process.\<close>

definition pump_task :: "codex_env \<Rightarrow> uuid \<Rightarrow> service_run \<Rightarrow> service_run \<times> (service_error + unit)" where
  "pump_task env i st =
     (if find_row i (sv_active (fst st)) = None then (st, Inr ()) else with_active i (pump env) st)"

definition terminate_active :: "codex_env \<Rightarrow> active_codex \<Rightarrow> codex_run \<Rightarrow> codex_run \<times> (service_error + unit)" where
  "terminate_active env a run = (case run of (s, n) \<Rightarrow>
     ((s, Suc n), map_err ServiceProcess (and_then (snd (terminate (cx_termination env n) (ac_process a))) (\<lambda>_. Inr ()))))"

section \<open>Start\<close>

definition codex_instructions :: "task \<Rightarrow> task_contract option \<Rightarrow> string" where
  "codex_instructions t contract = (case contract of
       None \<Rightarrow> ''Implement the Patchwright task: '' @ task_title t
     | Some c \<Rightarrow> ''Goal: '' @ tc_goal c @ ''\<newline>Acceptance criteria:\<newline>- '' @
         joined_by ''\<newline>- '' (tc_acceptance_criteria c))"

text \<open>The first locked section: the task, resumed when it was paused, its last session and the instructions.\<close>

definition resume_paused :: "timestamp \<Rightarrow> task \<Rightarrow> store \<Rightarrow> store \<times> (service_error + task)" where
  "resume_paused now t s =
     (if task_state t = Paused
      then (case resume now t of Inl _ \<Rightarrow> (s, Inl (ServiceTaskState (task_state t)))
        | Inr t' \<Rightarrow> (save_task t' ''Codex task resumed'' s, Inr t'))
      else (s, Inr t))"

definition begin_start :: "uuid \<Rightarrow> timestamp \<Rightarrow> store \<Rightarrow>
    store \<times> (service_error + task \<times> codex_session option \<times> string)" where
  "begin_start i now s =
     then_do (s, ok_or (load_task i s) ServiceTaskNotFound) (\<lambda>t s.
     then_do (resume_paused now t s) (\<lambda>t s.
     then_do (s, ensure (task_state t = Preparing \<or> task_state t = Implementing) (ServiceTaskState (task_state t))) (\<lambda>_ s.
     then_do (s, map_err ServicePersistence (load_task_contract i s)) (\<lambda>contract s.
     (s, Inr (t, load_codex_session i s, codex_instructions t contract))))))"

definition bootstrap_of :: "codex_session option \<Rightarrow> string \<Rightarrow> thread_bootstrap" where
  "bootstrap_of session instructions = (case Option.bind session cs_thread_id of
       Some thread \<Rightarrow> ResumeThread thread | None \<Rightarrow> StartThread instructions)"

definition launch_process :: "codex_env \<Rightarrow> codex_service \<Rightarrow> uuid \<Rightarrow> string \<Rightarrow> codex_run \<Rightarrow>
    codex_run \<times> (service_error + codex_process)" where
  "launch_process env sv i path run = (case run of (s, n) \<Rightarrow> ((s, Suc n), map_err ServiceProcess
     (launch (cx_launch env n) (sv_executable sv) (cx_fresh env n) (cx_show_uuid env i) path)))"

text \<open>A prepared task whose thread is ready enters implementation.\<close>

definition enter_implementing :: "task \<Rightarrow> codex_session \<Rightarrow> timestamp \<Rightarrow> uuid \<Rightarrow> store \<Rightarrow> store \<times> (service_error + unit)" where
  "enter_implementing t session now fresh s =
     then_do (s, map_err (\<lambda>_. ServiceTaskState (task_state t)) (transition now Implementing t)) (\<lambda>t s.
     then_do (s, map_err ServiceJob (task_checkpoint_new fresh now (task_id t) (task_state t) ''Codex thread ready'')) (\<lambda>c.
     transact ServicePersistence (enter_implementing_with_codex t c session)))"

definition begin_execution :: "uuid \<Rightarrow> timestamp \<Rightarrow> uuid \<Rightarrow> store \<Rightarrow> store \<times> (service_error + uuid)" where
  "begin_execution i now fresh s =
     then_do (s, map_err ServiceJob (job_new fresh now TaskExecution (Some i) ''Codex task execution queued'')) (\<lambda>j s.
     then_do (transact ServicePersistence (create_job j) s) (\<lambda>_ s.
     then_do (transact_value ServicePersistence (transition_job now (job_id j) JobQueued JobRunning NotRequested
       ''Codex task execution running'' None) s) (\<lambda>moved s.
     (s, if moved then Inr (job_id j) else Inl JobTransitionRefused))))"

definition new_active :: "codex_process \<Rightarrow> codex_session \<Rightarrow> uuid \<Rightarrow> active_codex" where
  "new_active p session job = \<lparr>ac_process = p, ac_decoder = new_decoder, ac_session = session,
     ac_next_request_id = 4, ac_client_message_ids = [], ac_active_turn_id = None, ac_execution_job_id = job,
     ac_interrupt_sent = False\<rparr>"

text \<open>What follows the connection.\<close>

definition connected :: "codex_env \<Rightarrow> uuid \<Rightarrow> task \<Rightarrow> codex_session \<Rightarrow> codex_service \<Rightarrow> handshake \<Rightarrow>
    service_run \<times> (service_error + codex_runtime_status)" where
  "connected env i t session sv h = (case h of (p, run) \<Rightarrow>
     (case (if cs_status session = SessionReady \<and> task_state t = Preparing
         then locked env (enter_implementing t session) run else (run, Inr ())) of
       (run, Inl e) \<Rightarrow> ((sv, run), Inl e)
     | (run, Inr _) \<Rightarrow> (case locked env (begin_execution i) run of
           (run, Inl e) \<Rightarrow> ((sv, run), Inl e)
         | (run, Inr job) \<Rightarrow> ((set_active i (new_active p session job) sv, run),
             Inr (status_from_session session (cs_status session = SessionReady))))))"

definition start_process :: "codex_env \<Rightarrow> uuid \<Rightarrow> task \<Rightarrow> thread_bootstrap \<Rightarrow> service_run \<Rightarrow>
    service_run \<times> (service_error + codex_runtime_status)" where
  "start_process env i t b st = (case st of (sv, run) \<Rightarrow>
     (case launch_process env sv i (task_repository_path t) run of
       (run, Inl e) \<Rightarrow> ((sv, run), Inl e)
     | (run, Inr p) \<Rightarrow> (case connect env i (sv_executable_version sv) b (p, run) of
           ((p, run), Inl e) \<Rightarrow> ((sv, run), Inl (ServiceSession e))
         | (h, Inr session) \<Rightarrow> connected env i t session sv h)))"

definition service_start :: "codex_env \<Rightarrow> uuid \<Rightarrow> service_run \<Rightarrow> service_run \<times> (service_error + codex_runtime_status)" where
  "service_start env i st =
     (if has_row i (sv_active (fst st)) then service_status env i st
      else then_do (on_second (locked env (\<lambda>now _. begin_start i now)) st) (\<lambda>(t, session, instructions).
        start_process env i t (bootstrap_of session instructions)))"

section \<open>Turns\<close>

definition note_client_message :: "string \<Rightarrow> turn_run \<Rightarrow> turn_run \<times> (service_error + unit)" where
  "note_client_message m st = (case st of (a, run) \<Rightarrow>
     if m \<in> set (ac_client_message_ids a) then (st, Inl DuplicateClientMessageId)
     else ((a\<lparr>ac_client_message_ids := m # ac_client_message_ids a\<rparr>, run), Inr ()))"

definition message_input :: "string \<Rightarrow> json" where
  "message_input input = JArray [JObject [(''type'', JString ''text''), (''text'', JString input),
     (''text_elements'', JArray [])]]"

definition message_draft :: "string \<Rightarrow> string \<Rightarrow> string \<Rightarrow> string \<Rightarrow> string \<Rightarrow> string \<Rightarrow> codex_event_draft" where
  "message_draft kind summary thread_id turn_id m input = \<lparr>ed_kind = kind, ed_summary = summary,
     ed_thread_id = Some thread_id, ed_turn_id = Some turn_id, ed_item_id = Some m,
     ed_content = Some (bounded_content input)\<rparr>"

definition turn_started :: "string \<Rightarrow> turn_run \<Rightarrow> turn_run" where
  "turn_started turn_id st = (let a = fst st in (a\<lparr>ac_active_turn_id := Some turn_id,
     ac_session := (ac_session a)\<lparr>cs_last_turn_id := Some turn_id\<rparr>\<rparr>, snd st))"

definition active_start_turn :: "codex_env \<Rightarrow> string \<Rightarrow> string \<Rightarrow> turn_run \<Rightarrow>
    turn_run \<times> (service_error + codex_turn_receipt)" where
  "active_start_turn env m input st =
     then_do (st, ensure (cs_status (ac_session (fst st)) = SessionReady) SessionNotReady) (\<lambda>_ st.
     then_do (note_client_message m st) (\<lambda>_ st.
     then_do (st, ok_or (cs_thread_id (ac_session (fst st))) SessionNotReady) (\<lambda>thread_id st.
     then_do (codex_request env TurnStart (JObject [(''threadId'', JString thread_id),
       (''clientUserMessageId'', JString m), (''input'', message_input input)]) st) (\<lambda>response st.
     then_do (st, ok_or (str_at [''turn'', ''id''] (re_payload response)) (ServiceMissingField ''turn.id'')) (\<lambda>turn_id st.
     then_do (append_event env (message_draft ''userMessage'' ''Operator message sent'' thread_id turn_id m input)
       (turn_started turn_id st)) (\<lambda>_ st.
     (st, Inr \<lparr>tr_thread_id = thread_id, tr_turn_id = turn_id, tr_client_message_id = m\<rparr>)))))))"

definition service_start_turn :: "codex_env \<Rightarrow> uuid \<Rightarrow> string \<Rightarrow> string \<Rightarrow> service_run \<Rightarrow>
    service_run \<times> (service_error + codex_turn_receipt)" where
  "service_start_turn env i m input st = then_do (st, validate_operator_input m input) (\<lambda>_.
     with_active i (active_start_turn env m input))"

definition active_steer_turn :: "codex_env \<Rightarrow> string \<Rightarrow> string \<Rightarrow> turn_run \<Rightarrow>
    turn_run \<times> (service_error + codex_turn_receipt)" where
  "active_steer_turn env m input st =
     then_do (note_client_message m st) (\<lambda>_ st.
     then_do (st, ok_or (cs_thread_id (ac_session (fst st))) SessionNotReady) (\<lambda>thread_id st.
     then_do (st, ok_or (ac_active_turn_id (fst st)) NoActiveTurn) (\<lambda>turn_id st.
     then_do (codex_request env TurnSteer (JObject [(''threadId'', JString thread_id),
       (''expectedTurnId'', JString turn_id), (''clientUserMessageId'', JString m), (''input'', message_input input)]) st) (\<lambda>response st.
     then_do (st, ok_or (str_at [''turnId''] (re_payload response)) (ServiceMissingField ''turnId'')) (\<lambda>answered st.
     then_do (st, ensure (answered = turn_id) TurnMismatch) (\<lambda>_ st.
     then_do (append_event env (message_draft ''userSteer'' ''Operator steering message sent'' thread_id turn_id m input) st) (\<lambda>_ st.
     (st, Inr \<lparr>tr_thread_id = thread_id, tr_turn_id = turn_id, tr_client_message_id = m\<rparr>))))))))"

definition service_steer_turn :: "codex_env \<Rightarrow> uuid \<Rightarrow> string \<Rightarrow> string \<Rightarrow> service_run \<Rightarrow>
    service_run \<times> (service_error + codex_turn_receipt)" where
  "service_steer_turn env i m input st = then_do (st, validate_operator_input m input) (\<lambda>_.
     with_active i (active_steer_turn env m input))"

section \<open>Events and crashes\<close>

definition crash_reason :: string where
  "crash_reason = ''Codex app-server exited unexpectedly; worktree and evidence retained''"

definition load_some_task :: "codex_env \<Rightarrow> uuid \<Rightarrow> codex_run \<Rightarrow> codex_run \<times> (service_error + task)" where
  "load_some_task env i = locked env (\<lambda>_ _ s. (s, ok_or (load_task i s) ServiceTaskNotFound))"

text \<open>Interrupt a task that was read before, with a checkpoint that says so.\<close>

definition interrupt_task :: "task_state \<Rightarrow> string \<Rightarrow> string \<Rightarrow> uuid \<Rightarrow> task \<Rightarrow> timestamp \<Rightarrow> uuid \<Rightarrow> store \<Rightarrow>
    store \<times> (service_error + unit)" where
  "interrupt_task state reason summary i t now fresh s =
     then_do (s, map_err (\<lambda>_. ServiceTaskState (task_state t)) (interrupt now state reason t)) (\<lambda>t s.
     then_do (s, map_err ServiceJob (task_checkpoint_new fresh now i state summary)) (\<lambda>c.
     transact ServicePersistence (save_task_with_checkpoint t summary c)))"

definition fail_crashed_task :: "codex_env \<Rightarrow> uuid \<Rightarrow> task \<Rightarrow> codex_run \<Rightarrow> codex_run \<times> (service_error + unit)" where
  "fail_crashed_task env i t run =
     (if task_state t \<in> {Failed, Cancelled, Completed} then (run, Inr ())
      else locked env (interrupt_task Failed crash_reason ''Codex app-server crash recorded'' i t) run)"

definition record_crash_of :: "codex_env \<Rightarrow> uuid \<Rightarrow> active_codex \<Rightarrow> codex_run \<Rightarrow> codex_run \<times> (service_error + unit)" where
  "record_crash_of env i a run =
     (case append_event env (status_draft ''error'' ''Codex app-server exited unexpectedly'')
         (a\<lparr>ac_session := (ac_session a)\<lparr>cs_status := SessionFailed\<rparr>\<rparr>, run) of
       ((a, run), Inl e) \<Rightarrow> (run, Inl e)
     | ((a, run), Inr _) \<Rightarrow>
         then_do (load_some_task env i (fst (terminate_active env a run))) (\<lambda>t run.
         then_do (fail_crashed_task env i t run) (\<lambda>_.
         locked env (\<lambda>now _ s. case transact_value ServicePersistence (transition_job now (ac_execution_job_id a) JobRunning
             JobFailed NotRequested ''Codex app-server exited unexpectedly'' None) s of
           (s, r) \<Rightarrow> (s, and_then r (\<lambda>_. Inr ()))))))"

definition record_crash :: "codex_env \<Rightarrow> uuid \<Rightarrow> service_run \<Rightarrow> service_run \<times> (service_error + unit)" where
  "record_crash env i st = (case st of (sv, run) \<Rightarrow> (case find_row i (sv_active sv) of
       None \<Rightarrow> (st, Inr ())
     | Some a \<Rightarrow> on_second (record_crash_of env i a) (remove_active i sv, run)))"

definition max_event_page :: nat where
  "max_event_page = 500"

definition events_page :: "uuid \<Rightarrow> u64 \<Rightarrow> nat \<Rightarrow> store \<Rightarrow> store \<times> (service_error + codex_event list)" where
  "events_page i after limit s = (s, map_err ServicePersistence (and_then (codex_events i after s) (\<lambda>es. Inr (take limit es))))"

definition service_events :: "codex_env \<Rightarrow> uuid \<Rightarrow> u64 \<Rightarrow> nat \<Rightarrow> service_run \<Rightarrow>
    service_run \<times> (service_error + codex_event list)" where
  "service_events env i after limit st =
     (if limit = 0 \<or> max_event_page < limit then (st, Inl InvalidEventLimit)
      else case pump_task env i st of
        (st, Inl e) \<Rightarrow> then_do (record_crash env i st) (\<lambda>_ st. (st, Inl e))
      | (st, Inr _) \<Rightarrow> on_second (locked env (\<lambda>_ _. events_page i after limit)) st)"

section \<open>Runtime approvals\<close>

definition service_approvals :: "codex_env \<Rightarrow> uuid \<Rightarrow> service_run \<Rightarrow> service_run \<times> (service_error + codex_runtime_approval list)" where
  "service_approvals env i st = then_do (pump_task env i st) (\<lambda>_.
     on_second (locked env (\<lambda>_ _ s. (s, Inr (codex_runtime_approvals i s)))))"

definition still_bound :: "timestamp \<Rightarrow> uuid \<Rightarrow> active_codex \<Rightarrow> codex_runtime_approval \<Rightarrow> bool" where
  "still_bound now generation a ap \<longleftrightarrow> ra_process_generation ap = generation \<and>
     cs_process_generation (ac_session a) = generation \<and> ac_active_turn_id a = Some (ra_turn_id ap) \<and> now < ra_expires_at ap"

definition approval_response :: "codex_runtime_approval \<Rightarrow> bool \<Rightarrow> json" where
  "approval_response ap approve = JObject [(''jsonrpc'', JString ''2.0''), (''id'', json_of_request_id (ra_request_id ap)),
     (''result'', JObject [(''decision'', JString (if approve then ''accept'' else ''decline''))])]"

definition save_approval_state :: "codex_env \<Rightarrow> codex_runtime_approval \<Rightarrow> turn_run \<Rightarrow> turn_run \<times> (service_error + unit)" where
  "save_approval_state env ap = on_second (locked env (\<lambda>_ _. transact ServicePersistence (save_codex_runtime_approval ap)))"

definition resolution_draft :: "codex_runtime_approval \<Rightarrow> bool \<Rightarrow> codex_event_draft" where
  "resolution_draft ap approve = \<lparr>ed_kind = ''approvalResolved'',
     ed_summary = (if approve then ''Codex runtime request approved once'' else ''Codex runtime request declined''),
     ed_thread_id = Some (ra_thread_id ap), ed_turn_id = Some (ra_turn_id ap), ed_item_id = Some (ra_item_id ap),
     ed_content = None\<rparr>"

definition answer_approval :: "codex_env \<Rightarrow> codex_runtime_approval \<Rightarrow> bool \<Rightarrow> turn_run \<Rightarrow>
    turn_run \<times> (service_error + codex_runtime_approval)" where
  "answer_approval env ap approve st =
     then_do (send_line env (approval_response ap approve) st) (\<lambda>_ st.
     let decided = ap\<lparr>ra_state := (if approve then RuntimeApproved else RuntimeDeclined),
       ra_decided_at := Some (cx_now env (snd (snd st)))\<rparr> in
     then_do (save_approval_state env decided st) (\<lambda>_ st.
     then_do (append_event env (resolution_draft decided approve) st) (\<lambda>_ st. (st, Inr decided))))"

definition active_resolve_approval :: "codex_env \<Rightarrow> uuid \<Rightarrow> uuid \<Rightarrow> bool \<Rightarrow> turn_run \<Rightarrow>
    turn_run \<times> (service_error + codex_runtime_approval)" where
  "active_resolve_approval env approval_id generation approve st =
     then_do (on_second (locked env (\<lambda>_ _ s. (s, ok_or (codex_runtime_approval approval_id s) RuntimeApprovalNotFound))) st) (\<lambda>ap st.
     let now = cx_now env (snd (snd st)) in
     if ra_state ap \<noteq> RuntimePending then (st, Inr ap)
     else if \<not> still_bound now generation (fst st) ap
     then then_do (save_approval_state env (ap\<lparr>ra_state := (if ra_expires_at ap \<le> now then RuntimeExpired
       else RuntimeInvalidated)\<rparr>) st) (\<lambda>_ st. (st, Inl RuntimeApprovalInvalid))
     else answer_approval env ap approve st)"

definition service_resolve_approval :: "codex_env \<Rightarrow> uuid \<Rightarrow> uuid \<Rightarrow> uuid \<Rightarrow> bool \<Rightarrow> service_run \<Rightarrow>
    service_run \<times> (service_error + codex_runtime_approval)" where
  "service_resolve_approval env i approval_id generation approve =
     with_active i (active_resolve_approval env approval_id generation approve)"

section \<open>Interruption and shutdown\<close>

definition service_stop :: "codex_env \<Rightarrow> uuid \<Rightarrow> service_run \<Rightarrow> service_run \<times> (service_error + unit)" where
  "service_stop env i st = (case st of (sv, run) \<Rightarrow> (case find_row i (sv_active sv) of
       None \<Rightarrow> (st, Inr ())
     | Some a \<Rightarrow> on_second (terminate_active env a) (remove_active i sv, run)))"

definition move_job :: "codex_env \<Rightarrow> uuid \<Rightarrow> job_state \<Rightarrow> job_state \<Rightarrow> cancellation_state \<Rightarrow> string \<Rightarrow> codex_run \<Rightarrow>
    codex_run \<times> (service_error + bool)" where
  "move_job env i from to c summary = locked env (\<lambda>now _.
     transact_value ServicePersistence (transition_job now i from to c summary None))"

definition stop_requested :: "bool \<Rightarrow> string" where
  "stop_requested cancel = (if cancel then ''Codex task cancellation requested'' else ''Codex task pause requested'')"

definition stop_reason :: "bool \<Rightarrow> string" where
  "stop_reason cancel = (if cancel then ''Cancelled by operator; worktree and evidence retained''
     else ''Paused by operator; worktree and evidence retained'')"

definition stop_summary :: "bool \<Rightarrow> string" where
  "stop_summary cancel = (if cancel then ''Codex task cancelled'' else ''Codex task paused'')"

text \<open>The end of an interruption, when the turn was completed before it and when it was not.\<close>

definition end_interrupt :: "codex_env \<Rightarrow> uuid \<Rightarrow> uuid \<Rightarrow> bool \<Rightarrow> bool \<Rightarrow> task \<Rightarrow> codex_run \<Rightarrow> codex_run \<times> (service_error + unit)" where
  "end_interrupt env i job cancel completed t run =
     (if completed
      then then_do (move_job env job JobCancelling JobSucceeded Acknowledged ''Codex turn completed during cancellation'' run)
        (\<lambda>_ run. (run, Inr ()))
      else
        then_do (locked env (interrupt_task (if cancel then Cancelled else Paused) (stop_reason cancel) (stop_summary cancel) i t) run) (\<lambda>_ run.
        then_do (move_job env job JobCancelling JobCancelled Acknowledged (stop_summary cancel) run) (\<lambda>moved run.
        (run, ensure moved JobTransitionRefused))))"

definition interrupt_active :: "codex_env \<Rightarrow> uuid \<Rightarrow> bool \<Rightarrow> active_codex \<Rightarrow> codex_run \<Rightarrow> codex_run \<times> (service_error + unit)" where
  "interrupt_active env i cancel a run =
     then_do (move_job env (ac_execution_job_id a) JobRunning JobCancelling Requested (stop_requested cancel) run) (\<lambda>moved run.
     then_do (run, ensure moved JobTransitionRefused) (\<lambda>_ run.
     (case request_interrupt env (a, run) of ((a, run), completed) \<Rightarrow>
       then_do (terminate_active env a run) (\<lambda>_ run.
       then_do (load_some_task env i run) (\<lambda>t.
       end_interrupt env i (ac_execution_job_id a) cancel completed t)))))"

definition service_interrupt :: "codex_env \<Rightarrow> uuid \<Rightarrow> bool \<Rightarrow> service_run \<Rightarrow> service_run \<times> (service_error + codex_runtime_status)" where
  "service_interrupt env i cancel st = (case st of (sv, run) \<Rightarrow> (case find_row i (sv_active sv) of
       None \<Rightarrow> (st, Inl ProcessNotActive)
     | Some a \<Rightarrow> then_do (on_second (interrupt_active env i cancel a) (remove_active i sv, run)) (\<lambda>_. service_status env i)))"

text \<open>
  \<open>shutdown\<close>: the processes are terminated, in the order of the table here and at the same time in the code, where
  the error that is reported is the first to arrive; then their jobs are interrupted one by one.
\<close>

fun terminate_all :: "codex_env \<Rightarrow> active_codex list \<Rightarrow> codex_run \<Rightarrow> codex_run \<times> service_error option" where
  "terminate_all env [] run = (run, None)"
| "terminate_all env (a # rest) run = (case terminate_active env a run of
     (run, r) \<Rightarrow> (case terminate_all env rest run of
       (run, e) \<Rightarrow> (run, case r of Inl e \<Rightarrow> Some e | Inr _ \<Rightarrow> e)))"

definition interrupt_job :: "uuid \<Rightarrow> timestamp \<Rightarrow> store \<Rightarrow> store \<times> (service_error + unit)" where
  "interrupt_job i now s =
     then_do (s, map_err ServicePersistence (load_job i s)) (\<lambda>found s. case found of
       None \<Rightarrow> (s, Inr ())
     | Some j \<Rightarrow>
         if job_state j = JobRunning \<or> job_state j = JobCancelling
         then then_do (transact_value ServicePersistence (transition_job now (job_id j) (job_state j) JobInterrupted
           (job_cancellation j) ''Engine shutdown interrupted Codex execution'' (job_checkpoint j)) s) (\<lambda>_ s. (s, Inr ()))
         else (s, Inr ()))"

fun interrupt_jobs :: "codex_env \<Rightarrow> uuid list \<Rightarrow> codex_run \<Rightarrow> codex_run \<times> (service_error + unit)" where
  "interrupt_jobs env [] run = (run, Inr ())"
| "interrupt_jobs env (i # is) run = then_do (locked env (\<lambda>now _. interrupt_job i now) run) (\<lambda>_. interrupt_jobs env is)"

definition service_shutdown :: "codex_env \<Rightarrow> service_run \<Rightarrow> service_run \<times> (service_error + unit)" where
  "service_shutdown env st = (case st of (sv, run) \<Rightarrow>
     let active = map snd (sv_active sv) in
     (case terminate_all env active run of (run, e) \<Rightarrow>
       then_do (on_second (interrupt_jobs env (map ac_execution_job_id active)) (sv\<lparr>sv_active := []\<rparr>, run)) (\<lambda>_ st.
       (st, case e of None \<Rightarrow> Inr () | Some e \<Rightarrow> Inl e))))"

end
