(* ===== verification/Rpc_Codex.thy ===== *)
theory Rpc_Codex
  imports Codex_Service Json
begin

text \<open>
  The handlers of Codex in \<open>crates/patchwright-engine/src/rpc.rs\<close>: the parameters they accept, what they answer when
  no service was found at the start of the engine, and the codes of the errors of the service.
\<close>

type_synonym codex_server = "codex_service option \<times> codex_run"

definition codex_rpc_error :: "service_error \<Rightarrow> rpc_error" where
  "codex_rpc_error e = (case e of
       ServiceTaskNotFound \<Rightarrow> RpcError (- 32040) ''task not found''
     | ServiceTaskState _ \<Rightarrow> RpcError (- 32041) ''invalid task state''
     | DuplicateClientMessageId \<Rightarrow> RpcError (- 32042) ''duplicate client message''
     | ProcessNotActive \<Rightarrow> RpcError (- 32043) ''Codex task is not ready''
     | SessionNotReady \<Rightarrow> RpcError (- 32043) ''Codex task is not ready''
     | NoActiveTurn \<Rightarrow> RpcError (- 32043) ''Codex task is not ready''
     | InvalidOperatorInput \<Rightarrow> invalid_parameters
     | InvalidEventLimit \<Rightarrow> invalid_parameters
     | RuntimeApprovalNotFound \<Rightarrow> RpcError (- 32044) ''Codex approval not found''
     | RuntimeApprovalInvalid \<Rightarrow> RpcError (- 32045) ''Codex approval expired or invalidated''
     | _ \<Rightarrow> RpcError (- 32051) ''Codex operation failed'')"

definition codex_task_id :: "(string \<Rightarrow> uuid option) \<Rightarrow> json \<Rightarrow> rpc_error + uuid" where
  "codex_task_id parse_uuid params = ok_or (uuid_parameter parse_uuid ''taskId'' params) invalid_parameters"

text \<open>A call of the service, when there is one.\<close>

definition with_service :: "(service_run \<Rightarrow> service_run \<times> (service_error + 'a)) \<Rightarrow> codex_server \<Rightarrow>
    codex_server \<times> (rpc_error + 'a)" where
  "with_service f st = (case st of
       (None, run) \<Rightarrow> (st, Inl (RpcError (- 32050) ''Codex unavailable''))
     | (Some sv, run) \<Rightarrow> (case f (sv, run) of ((sv, run), r) \<Rightarrow> ((Some sv, run), map_err codex_rpc_error r)))"

definition unavailable_status :: "uuid \<Rightarrow> codex_runtime_status" where
  "unavailable_status i = (not_started i)\<lparr>rs_state := CodexUnavailable, rs_can_start := False\<rparr>"

definition codex_status :: "codex_env \<Rightarrow> (string \<Rightarrow> uuid option) \<Rightarrow> json \<Rightarrow> codex_server \<Rightarrow>
    codex_server \<times> (rpc_error + codex_runtime_status)" where
  "codex_status env parse_uuid params st = then_do (st, codex_task_id parse_uuid params) (\<lambda>i st.
     if fst st = None then (st, Inr (unavailable_status i)) else with_service (service_status env i) st)"

definition codex_start :: "codex_env \<Rightarrow> (string \<Rightarrow> uuid option) \<Rightarrow> json \<Rightarrow> codex_server \<Rightarrow>
    codex_server \<times> (rpc_error + codex_runtime_status)" where
  "codex_start env parse_uuid params st = then_do (st, codex_task_id parse_uuid params) (\<lambda>i.
     with_service (service_start env i))"

definition number_text :: "json \<Rightarrow> string \<Rightarrow> u64 option" where
  "number_text params key = Option.bind (Option.bind (json_get key params) as_str) parse_u64"

definition codex_events_reply :: "codex_env \<Rightarrow> (string \<Rightarrow> uuid option) \<Rightarrow> json \<Rightarrow> codex_server \<Rightarrow>
    codex_server \<times> (rpc_error + codex_event list)" where
  "codex_events_reply env parse_uuid params st = then_do (st, codex_task_id parse_uuid params) (\<lambda>i st.
     let after = (case number_text params ''after'' of Some n \<Rightarrow> n | None \<Rightarrow> 0);
         limit = (case number_text params ''limit'' of Some n \<Rightarrow> unat n | None \<Rightarrow> 100) in
     if fst st \<noteq> None then with_service (service_events env i after limit) st
     else if limit = 0 \<or> 500 < limit then (st, Inl (codex_rpc_error InvalidEventLimit))
     else on_second (locked env (\<lambda>_ _ s. case events_page i after limit s of (s, r) \<Rightarrow> (s, map_err codex_rpc_error r))) st)"

definition codex_turn_input :: "codex_env \<Rightarrow> (string \<Rightarrow> uuid option) \<Rightarrow> bool \<Rightarrow> json \<Rightarrow> codex_server \<Rightarrow>
    codex_server \<times> (rpc_error + codex_turn_receipt)" where
  "codex_turn_input env parse_uuid steer params st =
     then_do (st, codex_task_id parse_uuid params) (\<lambda>i st.
     then_do (st, ok_or (required_string params ''clientMessageId'') invalid_parameters) (\<lambda>m st.
     then_do (st, ok_or (Option.bind (json_get ''input'' params) as_str) invalid_parameters) (\<lambda>input.
     with_service (if steer then service_steer_turn env i m input else service_start_turn env i m input))))"

definition codex_turn_start :: "codex_env \<Rightarrow> (string \<Rightarrow> uuid option) \<Rightarrow> json \<Rightarrow> codex_server \<Rightarrow>
    codex_server \<times> (rpc_error + codex_turn_receipt)" where
  "codex_turn_start env parse_uuid = codex_turn_input env parse_uuid False"

definition codex_turn_steer :: "codex_env \<Rightarrow> (string \<Rightarrow> uuid option) \<Rightarrow> json \<Rightarrow> codex_server \<Rightarrow>
    codex_server \<times> (rpc_error + codex_turn_receipt)" where
  "codex_turn_steer env parse_uuid = codex_turn_input env parse_uuid True"

definition codex_approvals :: "codex_env \<Rightarrow> (string \<Rightarrow> uuid option) \<Rightarrow> json \<Rightarrow> codex_server \<Rightarrow>
    codex_server \<times> (rpc_error + codex_runtime_approval list)" where
  "codex_approvals env parse_uuid params st = then_do (st, codex_task_id parse_uuid params) (\<lambda>i.
     with_service (service_approvals env i))"

definition parse_bool :: "string \<Rightarrow> bool option" where
  "parse_bool t = (if t = ''true'' then Some True else if t = ''false'' then Some False else None)"

definition flexible_bool :: "json \<Rightarrow> bool option" where
  "flexible_bool v = or_else (as_bool v) (Option.bind (as_str v) parse_bool)"

definition codex_approval_resolve :: "codex_env \<Rightarrow> (string \<Rightarrow> uuid option) \<Rightarrow> json \<Rightarrow> codex_server \<Rightarrow>
    codex_server \<times> (rpc_error + codex_runtime_approval)" where
  "codex_approval_resolve env parse_uuid params st =
     then_do (st, codex_task_id parse_uuid params) (\<lambda>i st.
     case (uuid_parameter parse_uuid ''approvalId'' params, uuid_parameter parse_uuid ''processGeneration'' params,
         Option.bind (json_get ''approve'' params) flexible_bool) of
       (Some approval_id, Some generation, Some approve) \<Rightarrow>
         with_service (service_resolve_approval env i approval_id generation approve) st
     | _ \<Rightarrow> (st, Inl invalid_parameters))"

definition codex_interrupt :: "codex_env \<Rightarrow> (string \<Rightarrow> uuid option) \<Rightarrow> bool \<Rightarrow> json \<Rightarrow> codex_server \<Rightarrow>
    codex_server \<times> (rpc_error + codex_runtime_status)" where
  "codex_interrupt env parse_uuid cancel params st = then_do (st, codex_task_id parse_uuid params) (\<lambda>i.
     with_service (service_interrupt env i cancel))"

end
