(* ===== verification/Codex_Properties.thy ===== *)
theory Codex_Properties
  imports Rpc_Codex Samples Rpc_Sync_Jobs
begin

text \<open>
  The properties of the Codex service: the lines of the protocol, the handshake, requests and their answers,
  the ends of turns, runtime approvals, interruptions, and three ways in which a task comes to harm.
\<close>

section \<open>Lines and requests\<close>

text \<open>C99: Equivalence. What is read from the app-server depends on its bytes only and not on how they arrive: reading
  lines from any sequence of chunks gives the lines of the whole output, cut at its line feeds, without a carriage
  return at their ends, and with the same error where one is too long, is not UTF-8 or is missing.\<close>

theorem chunking_invisible: "read_lines n (p\<lparr>pr_stdout := map Chunk vs\<rparr>) = output_lines n (concat vs)"
proof (induction n arbitrary: vs)
  case (Suc n)
  obtain q out where b: "read_bounded_protocol_line (map Chunk vs) [] = (q, out)" by fastforce
  obtain ws where ws: "out = map Chunk ws" using protocol_line_chunked [OF b] by blast
  have r: "read_line (p\<lparr>pr_stdout := map Chunk vs\<rparr>) = (p\<lparr>pr_stdout := map Chunk ws\<rparr>, and_then q line_of_bytes)"
    by (simp add: read_line_def b ws)
  have whole: "and_then q line_of_bytes = whole_line (concat vs)" using read_line_chunks(1) [OF r] .
  show ?case
  proof (cases "whole_line (concat vs)")
    case (Inl e)
    then show ?thesis by (simp add: r whole)
  next
    case (Inr line)
    have "concat ws = after_line (concat vs)" using read_line_chunks(2) [OF r] whole Inr by simp
    then show ?thesis using Suc.IH [of ws] by (simp add: r whole Inr)
  qed
qed simp


text \<open>C99: Safety. A request is answered by its own response. When no request is pending, a request is sent under
  the next identifier, as one line or not at all; what it returns is the response with that identifier, which is not an
  error; and afterwards nothing is pending again, however the exchange ended, so that no late response can be
  taken for that of another request.\<close>

theorem request_answered:
  assumes "codex_request env m params (a, s, n) = ((a', s', n'), r)" and "quiet env" and "pd_pending (ac_decoder a) = []"
  shows "pd_pending (ac_decoder a') = [] \<and> ac_next_request_id a' = ac_next_request_id a + 1 \<and>
    (pr_written (ac_process a') = pr_written (ac_process a) @ [cx_show env (own_request a m params)] \<or>
     pr_written (ac_process a') = pr_written (ac_process a) \<and> (\<exists>e. r = Inl e)) \<and>
    (case r of Inl _ \<Rightarrow> True | Inr x \<Rightarrow> re_id x = NumberId (ac_next_request_id a) \<and> \<not> re_is_error x)"
  using codex_request_store(1,2) [OF assms] codex_request_store(3) [OF assms]
  by (auto simp: same_work_def split: sum.splits)

section \<open>The end of a turn\<close>

text \<open>The row of a task is stored under its identifier.\<close>

definition tasks_keyed :: "store \<Rightarrow> bool" where
  "tasks_keyed s \<longleftrightarrow> (\<forall>i t. load_task i s = Some t \<longrightarrow> task_id t = i)"

lemma normalize_completion:
  assumes "normalize_event f raw = Some draft" "is_completion draft"
  obtains params where "string_field raw ''method'' = Some ''turn/completed''" "json_get ''params'' raw = Some params"
    "ed_thread_id draft = string_field params ''threadId''"
    "ed_turn_id draft = or_else (string_field params ''turnId'') (str_at [''turn'', ''id''] params)"
proof -
  obtain m params kind summary content where p: "string_field raw ''method'' = Some m" "json_get ''params'' raw = Some params"
    "event_parts f m params = Some (kind, summary, content)"
    and d: "draft = \<lparr>ed_kind = kind, ed_summary = summary, ed_thread_id = string_field params ''threadId'',
       ed_turn_id = or_else (string_field params ''turnId'') (str_at [''turn'', ''id''] params),
       ed_item_id = or_else (string_field params ''itemId'') (str_at [''item'', ''id''] params),
       ed_content = map_option bounded_content content\<rparr>"
    using assms(1) by (auto simp: normalize_event_def bind_eq_Some_conv)
  have "kind = ''turnCompleted''" using assms(2) by (simp add: is_completion_def d)
  then have "m = ''turn/completed''" using p(3) by (auto simp: event_parts_def split: if_splits)
  then show ?thesis using p d that by simp
qed

text \<open>C99: Safety. Only the end of its own turn moves a task. When handling a message of the app-server
  changes the row of a task, then the message says that a turn was completed, on the thread of the
  session and with the identifier of the turn that is active; the task is the one of the session, it was
  being implemented and now awaits its verification, with nothing else of it changed but its time and its
  checkpoint; and no turn is active any more.\<close>

theorem turn_end_own:
  assumes "persist_incoming env raw m (a, s, n) = ((a', s', n'), r)" and "quiet env" and "tasks_keyed s"
    and "load_task j s' \<noteq> load_task j s"
  shows "j = cs_task_id (ac_session a) \<and> ac_active_turn_id a' = None \<and>
    Option.bind (json_get ''method'' raw) as_str = Some ''turn/completed'' \<and>
    (\<exists>params. json_get ''params'' raw = Some params \<and>
       Option.bind (json_get ''threadId'' params) as_str = cs_thread_id (ac_session a) \<and>
       (case Option.bind (json_get ''turnId'' params) as_str of Some u \<Rightarrow> Some u
        | None \<Rightarrow> str_at [''turn'', ''id''] params) = ac_active_turn_id a) \<and>
    (\<exists>t u c. load_task j s = Some t \<and> task_state t = Implementing \<and>
       load_task j s' = Some (t\<lparr>task_state := Verifying, task_updated_at := u, task_checkpoint_id := c\<rparr>))"
proof -
  obtain draft where d: "normalize_event (cx_show env) raw = Some draft" "is_completion draft" "\<not> of_other_turn a draft"
    "verified_next (cs_task_id (ac_session a)) s s'" "ac_active_turn_id a' = None"
    using persist_incoming_store(2) [OF assms(1,2)] assms(4) by (auto simp: load_task_def)
  obtain t u c where t: "load_task (cs_task_id (ac_session a)) s = Some t" "task_state t = Implementing"
    "st_tasks s' = upsert (task_id t) (t\<lparr>task_state := Verifying, task_updated_at := u, task_checkpoint_id := c\<rparr>) (st_tasks s)"
    using d(4) by (auto simp: verified_next_def)
  have i: "task_id t = cs_task_id (ac_session a)" using assms(3) t(1) by (simp add: tasks_keyed_def)
  have l: "load_task k s' = (if k = task_id t
      then Some (t\<lparr>task_state := Verifying, task_updated_at := u, task_checkpoint_id := c\<rparr>) else load_task k s)" for k
    by (simp add: load_task_def t(3))
  have j: "j = task_id t" using assms(4) l by (auto split: if_splits)
  obtain params where "string_field raw ''method'' = Some ''turn/completed''" "json_get ''params'' raw = Some params"
    "ed_thread_id draft = string_field params ''threadId''"
    "ed_turn_id draft = or_else (string_field params ''turnId'') (str_at [''turn'', ''id''] params)"
    by (rule normalize_completion [OF d(1,2)])
  then show ?thesis using d(3,5) t l i j by (auto simp: of_other_turn_def string_field_def or_else_def)
qed

section \<open>Runtime approvals\<close>

text \<open>An approval is stored under its identifier.\<close>

definition approvals_keyed :: "store \<Rightarrow> bool" where
  "approvals_keyed s \<longleftrightarrow> (\<forall>i ap. codex_runtime_approval i s = Some ap \<longrightarrow> ra_id ap = i)"

lemma save_approval_loaded:
  assumes "save_codex_runtime_approval ap s = Inr s'"
  shows "codex_runtime_approval (ra_id ap) s' = Some ap"
  using save_runtime_row(1) [OF assms, of "ra_id ap"]
  by (auto simp: codex_runtime_approval_def runtime_row_of_def split: option.splits)

lemma answer_approval_ok:
  assumes "answer_approval env ap approve (a, s, n) = ((a', s', n'), r)" "quiet env"
  shows "pr_written (ac_process a') \<in> {pr_written (ac_process a), pr_written (ac_process a) @ [cx_show env (approval_response ap approve)]}"
    and "r = Inr d \<Longrightarrow> ra_state d = (if approve then RuntimeApproved else RuntimeDeclined) \<and> ra_id d = ra_id ap \<and>
      codex_runtime_approval (ra_id ap) s' = Some d"
proof -
  let ?d = "ap\<lparr>ra_state := (if approve then RuntimeApproved else RuntimeDeclined), ra_decided_at := Some (cx_now env n)\<rparr>"
  obtain a1 run1 r1 where 1: "send_line env (approval_response ap approve) (a, s, n) = ((a1, run1), r1)" by (metis prod.exhaust)
  note l1 = send_line_store [OF 1]
  have w1: "pr_written (ac_process a1) \<in> {pr_written (ac_process a), pr_written (ac_process a) @ [cx_show env (approval_response ap approve)]}"
    using l1 by auto
  have *: "pr_written (ac_process a') = pr_written (ac_process a1) \<and>
      (r = Inr d \<longrightarrow> d = ?d \<and> codex_runtime_approval (ra_id ap) s' = Some d)" for d
  proof (cases r1)
    case (Inl e)
    then show ?thesis using assms(1) by (auto simp: answer_approval_def 1)
  next
    case (Inr u)
    have run1: "run1 = (s, n)" using l1 by simp
    have rest: "then_do (save_approval_state env ?d (a1, s, n)) (\<lambda>_ st.
        then_do (append_event env (resolution_draft ?d approve) st) (\<lambda>_ st. (st, Inr ?d))) = ((a', s', n'), r)"
      using assms(1) by (simp add: answer_approval_def 1 Inr run1 Let_def)
    show ?thesis
    proof (cases "save_codex_runtime_approval ?d s")
      case (Inl e)
      then show ?thesis using rest assms(2) by (auto simp: save_approval_state_def locked_def quiet_def transact_def)
    next
      case (Inr s2)
      obtain a3 s3 n3 r3 where 3: "append_event env (resolution_draft ?d approve) (a1, s2, Suc n) = ((a3, s3, n3), r3)"
        by (metis prod.exhaust)
      note l3 = append_event_frame [OF 3 assms(2)]
      have end': "then_do ((a3, s3, n3), r3) (\<lambda>_ st. (st, Inr ?d)) = ((a', s', n'), r)"
        using rest assms(2) by (simp add: save_approval_state_def locked_def quiet_def transact_def Inr 3)
      have "codex_runtime_approval (ra_id ap) s2 = Some ?d" using save_approval_loaded [OF Inr] by simp
      then have "codex_runtime_approval (ra_id ap) s3 = Some ?d" using l3 by (simp add: codex_runtime_approval_def)
      then show ?thesis using end' l3 by (cases r3) auto
    qed
  qed
  show "pr_written (ac_process a') \<in> {pr_written (ac_process a), pr_written (ac_process a) @ [cx_show env (approval_response ap approve)]}"
    using * w1 by simp
  show "ra_state d = (if approve then RuntimeApproved else RuntimeDeclined) \<and> ra_id d = ra_id ap \<and>
      codex_runtime_approval (ra_id ap) s' = Some d" if "r = Inr d"
    using * [of d] that by auto
qed

lemma resolve_decided:
  assumes "quiet env" "codex_runtime_approval i s = Some ap" "ra_state ap \<noteq> RuntimePending"
  shows "active_resolve_approval env i g approve (a, s, n) = ((a, s, Suc n), Inr ap)"
  using assms by (simp add: active_resolve_approval_def locked_def quiet_def)

text \<open>C99: Safety. A runtime approval is answered once, and only while it is bound. Resolving it writes to
  the app-server only when it is stored as pending, was asked for by this very process under the turn that
  is active, and has not expired; the one line that is written accepts or declines, as the operator
  decided, the request it was asked with. When the resolution succeeds the approval is stored as approved or
  declined, and as long as it is stored so, resolving it again, with whatever decision and at whatever
  process, writes nothing, changes nothing and gives this first answer.\<close>

theorem approval_answered_once:
  assumes "active_resolve_approval env i g approve (a, s, n) = ((a', s', n'), r)" and "quiet env" and "approvals_keyed s"
    and "pr_written (ac_process a') \<noteq> pr_written (ac_process a)"
  shows "\<exists>ap. codex_runtime_approval i s = Some ap \<and> ra_state ap = RuntimePending \<and> ra_process_generation ap = g \<and>
    cs_process_generation (ac_session a) = g \<and> ac_active_turn_id a = Some (ra_turn_id ap) \<and>
    cx_now env (Suc n) < ra_expires_at ap \<and>
    pr_written (ac_process a') = pr_written (ac_process a) @ [cx_show env (JObject [(''jsonrpc'', JString ''2.0''),
      (''id'', case ra_request_id ap of StringId t \<Rightarrow> JString t
         | NumberId k \<Rightarrow> JNumber (if 0 \<le> sint k then PosInt (ucast k) else NegInt k)),
      (''result'', JObject [(''decision'', JString (if approve then ''accept'' else ''decline''))])])] \<and>
    (\<forall>d. r = Inr d \<longrightarrow> ra_state d = (if approve then RuntimeApproved else RuntimeDeclined) \<and>
       codex_runtime_approval i s' = Some d \<and>
       (\<forall>g' approve' b u m. codex_runtime_approval i u = Some d \<longrightarrow>
         active_resolve_approval env i g' approve' (b, u, m) = ((b, u, Suc m), Inr d)))"
proof (cases "codex_runtime_approval i s")
  case None
  then show ?thesis using assms by (simp add: active_resolve_approval_def locked_def quiet_def)
next
  case (Some ap)
  have pending: "ra_state ap = RuntimePending"
  proof (rule ccontr)
    assume "ra_state ap \<noteq> RuntimePending"
    then show False using resolve_decided [OF assms(2) Some] assms(1,4) by simp
  qed
  have bound: "still_bound (cx_now env (Suc n)) g a ap"
  proof (rule ccontr)
    assume "\<not> ?thesis"
    then have "pr_written (ac_process a') = pr_written (ac_process a)"
      using assms(1,2) pending
      by (simp add: active_resolve_approval_def locked_def quiet_def Some save_approval_state_def Let_def transact_def split: sum.splits)
    then show False using assms(4) by simp
  qed
  have ans: "answer_approval env ap approve (a, s, Suc n) = ((a', s', n'), r)"
    using assms(1,2) pending bound by (simp add: active_resolve_approval_def locked_def quiet_def Some)
  have id: "ra_id ap = i" using assms(3) Some by (simp add: approvals_keyed_def)
  have "ra_state d = (if approve then RuntimeApproved else RuntimeDeclined) \<and> codex_runtime_approval i s' = Some d \<and>
     (\<forall>g' approve' b u m. codex_runtime_approval i u = Some d \<longrightarrow>
       active_resolve_approval env i g' approve' (b, u, m) = ((b, u, Suc m), Inr d))" if "r = Inr d" for d
    using answer_approval_ok(2) [OF ans assms(2) that] resolve_decided [OF assms(2)] id by (auto split: if_splits)
  then show ?thesis
    using Some pending bound answer_approval_ok(1) [OF ans assms(2)] assms(4)
    by (auto simp: still_bound_def approval_response_def json_of_request_id_def)
qed

section \<open>Connections and starts\<close>

text \<open>C99: A connection says its lines in order and leaves a session that the next start resumes. When connecting succeeds, the app-server
  was sent exactly \<open>initialize\<close>, \<open>initialized\<close>, \<open>account/read\<close> and the request for the thread in the worktree of the process; the
  session is stored, of this process, and has a thread. The process is ready when the thread is, and otherwise the thread was a saved one that
  the app-server refused: it stays the thread of the session, so that the next start asks for the same thread again.\<close>

theorem handshake_order:
  assumes "connect env i version b (p, run) = ((p', run'), Inr session)"
  shows "pr_written p' = pr_written p @ handshake_lines env b (pr_worktree p) \<and> load_codex_session i (fst run') = Some session \<and>
    cs_process_generation session = pr_generation p \<and>
    (cs_status session = SessionReady \<and> pr_state p' = ProcessReady \<or>
     cs_status session = StaleThreadNeedsConfirmation \<and> pr_state p' = pr_state p \<and> is_resume b) \<and>
    (\<exists>t. cs_thread_id session = Some t \<and> (cs_status session = StaleThreadNeedsConfirmation \<longrightarrow> b = ResumeThread t) \<and>
       (\<forall>instructions. bootstrap_of (load_codex_session i (fst run')) instructions = ResumeThread t))"
proof -
  obtain p1 run1 session1 thread where c: "wrote (handshake_lines env b (pr_worktree p)) p p1"
    "cs_task_id session1 = i" "cs_process_generation session1 = pr_generation p"
    "cs_thread_id session1 = (case b of StartThread _ \<Rightarrow> None | ResumeThread t \<Rightarrow> Some t)"
    "finish_connect env b session1 thread (p1, run1) = ((p', run'), Inr session)"
    by (rule connect_steps [OF assms])
  note f = finish_connect_ok [OF c(5)]
  show ?thesis
  proof (cases "re_is_error thread")
    case True
    then obtain t where "b = ResumeThread t" using f by (cases b) (auto simp: is_resume_def)
    then show ?thesis using f c True by (auto simp: wrote_def bootstrap_of_def)
  next
    case False
    then show ?thesis using f c by (auto simp: wrote_def bootstrap_of_def)
  qed
qed

text \<open>C99: A start that is refused resumes the task all the same. Starting Codex on a task that was paused in a state other than preparing and
  implementing fails with that state; but the task is stored as resumed already, so the pause of the operator is gone.\<close>

theorem refused_start_resumes:
  assumes "quiet env" and "\<not> has_row i (sv_active sv)" and "load_task i s = Some t" and "tasks_keyed s"
    and "task_state t = Paused" and "task_interruption t = Some k" and "int_state k = Paused"
    and "int_resume_state k \<notin> {Preparing, Implementing}"
  shows "\<exists>s' t'. service_start env i (sv, s, n) = ((sv, s', Suc n), Inl (ServiceTaskState (int_resume_state k))) \<and>
    load_task i s' = Some t' \<and> task_state t' = int_resume_state k \<and> task_interruption t' = None"
proof -
  let ?t = "t\<lparr>task_state := int_resume_state k, task_interruption := None, task_updated_at := cx_now env n\<rparr>"
  have r: "resume (cx_now env n) t = Inr ?t"
    using assms(5,6,7) by (simp add: resume_def is_recoverable_interruption_def)
  have i: "task_id t = i" using assms(3,4) by (simp add: tasks_keyed_def)
  have b: "begin_start i (cx_now env n) s = (save_task ?t ''Codex task resumed'' s, Inl (ServiceTaskState (int_resume_state k)))"
    using assms(3,5,8) by (simp add: begin_start_def resume_paused_def r)
  have "service_start env i (sv, s, n) = ((sv, save_task ?t ''Codex task resumed'' s, Suc n), Inl (ServiceTaskState (int_resume_state k)))"
    using assms(1,2) by (simp add: service_start_def locked_def quiet_def b)
  moreover have "load_task i (save_task ?t ''Codex task resumed'' s) = Some ?t" by (simp add: save_task_def i)
  ultimately show ?thesis by (intro exI [of _ "save_task ?t ''Codex task resumed'' s"] exI [of _ ?t]) simp
qed

section \<open>Interruptions\<close>

lemma transition_job_tasks: "transition_job now i from to c summary k s = Inr (s', moved) \<Longrightarrow> st_tasks s' = st_tasks s"
  by (auto simp: transition_job_def and_then_def Let_def split_def split: sum.splits option.splits if_splits)

lemma move_job_ok:
  assumes "move_job env i from to c summary (s, n) = ((s', n'), Inr moved)" "quiet env" "table_wf (st_jobs s)"
  shows "table_wf (st_jobs s') \<and> st_tasks s' = st_tasks s \<and>
    (if moved then \<exists>j. find_row i (st_jobs s) = Some j \<and> job_state j = from \<and>
       (\<exists>j'. find_row i (st_jobs s') = Some j' \<and> job_state j' = to) else s' = s)"
proof -
  have t: "transition_job (cx_now env n) i from to c summary None s = Inr (s', moved)"
    using assms(1,2) by (auto simp: move_job_def locked_def quiet_def result_simps split: prod.splits)
  have "moved \<Longrightarrow> \<exists>j'. find_row i (st_jobs s') = Some j' \<and> job_state j' = to"
    using transition_row [OF assms(3) t] by (auto simp: advanced_job_def)
  then show ?thesis using transition_row [OF assms(3) t] transition_job_tasks [OF t] by (cases moved) auto
qed

lemma interrupt_task_ok:
  assumes "interrupt_task state reason summary i t now fresh s = (s', Inr u)"
  shows "st_jobs s' = st_jobs s \<and> task_id t = i \<and> (\<exists>t'. load_task i s' = Some t' \<and> task_state t' = state \<and>
    (\<exists>k. task_interruption t' = Some k \<and> int_state k = state \<and> int_resume_state k = task_state t))"
proof -
  obtain t' c where 1: "interrupt now state reason t = Inr t'" "task_checkpoint_new fresh now i state summary = Inr c"
    "save_task_with_checkpoint t' summary c s = Inr s'"
    using assms by (auto simp: interrupt_task_def result_simps)
  have t': "task_id t' = task_id t \<and> task_state t' = state \<and>
      (\<exists>k. task_interruption t' = Some k \<and> int_state k = state \<and> int_resume_state k = task_state t)"
    using 1(1) by (auto simp: interrupt_def Let_def split: if_splits)
  have c: "cp_task_id c = i" using 1(2) by (auto simp: task_checkpoint_new_def result_simps)
  have s': "task_id t' = cp_task_id c" "s' = (record_task t' summary s)\<lparr>st_checkpoints := st_checkpoints s @ [(cp_id c, c)]\<rparr>"
    using 1(3) unfolding save_task_with_checkpoint_ok by blast+
  show ?thesis using t' c s' by (simp add: record_task_def load_task_def)
qed

lemma request_interrupt_store:
  assumes "request_interrupt env (a, s, n) = ((a', s', n'), completed)" "quiet env" "pd_pending (ac_decoder a) = []"
  shows "st_jobs s' = st_jobs s \<and> ac_execution_job_id a' = ac_execution_job_id a \<and>
    pr_state (ac_process a') = pr_state (ac_process a) \<and> (completed \<longrightarrow> ac_active_turn_id a \<noteq> None) \<and>
    (ac_active_turn_id a = None \<longrightarrow> s' = s)"
proof (cases "\<exists>th u. cs_thread_id (ac_session a) = Some th \<and> ac_active_turn_id a = Some u \<and> \<not> ac_interrupt_sent a")
  case False
  then show ?thesis using assms(1) by (auto simp: request_interrupt_def split: option.splits if_splits)
next
  case True
  then obtain th u where t: "cs_thread_id (ac_session a) = Some th" "ac_active_turn_id a = Some u" "\<not> ac_interrupt_sent a" by blast
  obtain a1 s1 n1 r where 1: "codex_request env TurnInterrupt (JObject [(''threadId'', JString th), (''turnId'', JString u)])
      (a\<lparr>ac_interrupt_sent := True\<rparr>, s, n) = ((a1, s1, n1), r)" by (metis prod.exhaust)
  have "a' = a1" "s' = s1" using assms(1) t by (auto simp: request_interrupt_def 1)
  then show ?thesis using codex_request_store(1) [OF 1 assms(2)] assms(3) t(2) by (simp add: same_work_def)
qed

lemma terminate_active_store: "terminate_active env a (s, n) = ((s', n'), r) \<Longrightarrow> s' = s"
  by (simp add: terminate_active_def)

text \<open>How an interruption ends, for a job that is being cancelled.\<close>

lemma end_interrupt_ok:
  assumes "end_interrupt env i job cancel completed t (s, n) = ((s', n'), Inr u)" "quiet env" "table_wf (st_jobs s)"
    and "find_row job (st_jobs s) = Some j" "job_state j = JobCancelling"
  shows "\<exists>j'. find_row job (st_jobs s') = Some j' \<and> (completed \<and> job_state j' = JobSucceeded \<or>
    \<not> completed \<and> job_state j' = JobCancelled \<and> (\<exists>t' k. load_task i s' = Some t' \<and>
      task_state t' = (if cancel then Cancelled else Paused) \<and> task_interruption t' = Some k \<and> int_resume_state k = task_state t))"
proof (cases completed)
  case True
  obtain moved where m: "move_job env job JobCancelling JobSucceeded Acknowledged ''Codex turn completed during cancellation'' (s, n) = ((s', n'), Inr moved)"
    using assms(1) True by (auto simp: end_interrupt_def result_simps)
  have "moved"
  proof (rule ccontr)
    assume "\<not> moved"
    then have "transition_job (cx_now env n) job JobCancelling JobSucceeded Acknowledged ''Codex turn completed during cancellation'' None s = Inr (s', False)"
      using m assms(2) by (auto simp: move_job_def locked_def quiet_def result_simps split: prod.splits)
    then show False using transition_job_refused [OF assms(3)] assms(4,5) by blast
  qed
  then show ?thesis using move_job_ok [OF m assms(2,3)] True by auto
next
  case False
  obtain s1 m1 where 1: "locked env (interrupt_task (if cancel then Cancelled else Paused) (stop_reason cancel) (stop_summary cancel) i t) (s, n)
      = ((s1, m1), Inr ())"
    and 2: "move_job env job JobCancelling JobCancelled Acknowledged (stop_summary cancel) (s1, m1) = ((s', n'), Inr True)"
    using assms(1) False by (fastforce simp: end_interrupt_def result_simps)
  have 3: "interrupt_task (if cancel then Cancelled else Paused) (stop_reason cancel) (stop_summary cancel) i t (cx_now env n) (cx_fresh env n) s
      = (s1, Inr ())"
    using 1 assms(2) by (auto simp: locked_def quiet_def split: prod.splits)
  note k = interrupt_task_ok [OF 3]
  have "table_wf (st_jobs s1)" using k assms(3) by simp
  note l = move_job_ok [OF 2 assms(2) this]
  have "load_task i s' = load_task i s1" using l by (simp add: load_task_def)
  then show ?thesis using k l False by auto
qed

text \<open>C99: A granted interruption settles the job and the task. When pausing or cancelling a task succeeds, its process is no longer
  active, and the job of its execution has ended in one of two ways: it succeeded, when a turn was active and its end arrived first;
  or it is cancelled and the task is paused or cancelled as it was asked, with the state it was in to resume to.\<close>

theorem interrupt_settles:
  assumes "service_interrupt env i cancel (sv, s, n) = ((sv', s', n'), Inr status)" and "quiet env"
    and "find_row i (sv_active sv) = Some a" and "pd_pending (ac_decoder a) = []" and "table_wf (st_jobs s)"
  shows "find_row i (sv_active sv') = None \<and> (\<exists>j. find_row (ac_execution_job_id a) (st_jobs s') = Some j \<and>
    (job_state j = JobSucceeded \<and> ac_active_turn_id a \<noteq> None \<or>
     job_state j = JobCancelled \<and> (\<exists>t k. load_task i s' = Some t \<and> task_state t = (if cancel then Cancelled else Paused) \<and>
       task_interruption t = Some k)))"
proof -
  have gone: "find_row i (sv_active (remove_active i sv)) = None"
    by (simp add: remove_active_def find_row_def delete_conv')
  obtain s1 n1 where 1: "interrupt_active env i cancel a (s, n) = ((s1, n1), Inr ())"
    and st: "service_status env i (remove_active i sv, s1, n1) = ((sv', s', n'), Inr status)"
    using assms(1,3) by (auto simp: service_interrupt_def result_simps split: prod.splits)
  have end': "sv' = remove_active i sv" "s' = s1"
    using st gone assms(2) by (auto simp: service_status_def locked_def quiet_def)
  obtain s2 n2 where 2: "move_job env (ac_execution_job_id a) JobRunning JobCancelling Requested (stop_requested cancel) (s, n) = ((s2, n2), Inr True)"
    and rest: "(case request_interrupt env (a, s2, n2) of ((a, run), completed) \<Rightarrow>
       then_do (terminate_active env a run) (\<lambda>_ run. then_do (load_some_task env i run) (\<lambda>t.
       end_interrupt env i (ac_execution_job_id a) cancel completed t))) = ((s1, n1), Inr ())"
    using 1 by (fastforce simp: interrupt_active_def result_simps)
  note m = move_job_ok [OF 2 assms(2,5)]
  obtain a3 s3 n3 completed where 3: "request_interrupt env (a, s2, n2) = ((a3, s3, n3), completed)" by (metis prod.exhaust)
  note q = request_interrupt_store [OF 3 assms(2,4)]
  obtain n5 t where 4: "end_interrupt env i (ac_execution_job_id a3) cancel completed t (s3, n5) = ((s1, n1), Inr ())"
    using rest assms(2) by (auto simp: 3 result_simps load_some_task_def locked_def quiet_def terminate_active_def)
  obtain j where j: "find_row (ac_execution_job_id a3) (st_jobs s3) = Some j" "job_state j = JobCancelling" using m q by auto
  have "table_wf (st_jobs s3)" using m q by simp
  from end_interrupt_ok [OF 4 assms(2) this j] show ?thesis using gone end' q by auto
qed

lemma codex_texts:
  "validate_summary ''Codex task cancellation requested'' = Inr ''Codex task cancellation requested''"
  "validate_summary ''Codex task pause requested'' = Inr ''Codex task pause requested''"
  "validate_summary ''Codex process started'' = Inr ''Codex process started''"
  "validate_summary ''Codex initialized'' = Inr ''Codex initialized''"
  "validate_summary ''Codex account state read'' = Inr ''Codex account state read''"
  "validate_summary ''Codex thread ready'' = Inr ''Codex thread ready''"
  "validate_summary ''Codex turn completed'' = Inr ''Codex turn completed''"
  "validate_summary ''Codex turn completed; verification is ready'' = Inr ''Codex turn completed; verification is ready''"
  "validate_summary ''Command output streamed'' = Inr ''Command output streamed''"
  "validate_summary ''Codex app-server exited unexpectedly'' = Inr ''Codex app-server exited unexpectedly''"
  "validate_summary ''Codex app-server crash recorded'' = Inr ''Codex app-server crash recorded''"
  "validate_summary ''Codex runtime request approved once'' = Inr ''Codex runtime request approved once''"
  "validate_summary ''Codex runtime request declined'' = Inr ''Codex runtime request declined''"
  "validate_summary ''Codex task paused'' = Inr ''Codex task paused''"
  by (rule summary_kept; simp add: text_rules)+

lemma stop_requested_summary: "is_summary (trim (stop_requested cancel))"
  by (cases cancel) (simp_all add: stop_requested_def validated_summary codex_texts)

text \<open>C99: An interruption that fails halfway cannot be repeated. When the process group does not take the signal, pausing or cancelling
  fails after the entry of the process was removed and its job moved on: the job stays in cancelling, the task is left as it was unless a
  turn was active, and every further attempt is refused because no process is active.\<close>

theorem failed_interrupt_strands:
  assumes "quiet env" and "find_row i (sv_active sv) = Some a" and "pd_pending (ac_decoder a) = []" and "table_wf (st_jobs s)"
    and "find_row (ac_execution_job_id a) (st_jobs s) = Some j" and "job_state j = JobRunning" and "unat (job_generation j) < 100"
    and "pr_state (ac_process a) = ProcessReady" and "\<forall>m. tw_term (cx_termination env m) = NotPermitted"
  shows "\<exists>sv' s' n'. service_interrupt env i cancel (sv, s, n) = ((sv', s', n'), Inl (ServiceProcess SignalFailed)) \<and>
    (\<exists>j'. find_row (ac_execution_job_id a) (st_jobs s') = Some j' \<and> job_state j' = JobCancelling) \<and>
    (ac_active_turn_id a = None \<longrightarrow> st_tasks s' = st_tasks s) \<and>
    (\<forall>env' cancel' run. service_interrupt env' i cancel' (sv', run) = ((sv', run), Inl ProcessNotActive))"
proof -
  have p: "job_permits JobRunning JobCancelling" by (simp add: job_permits_def)
  obtain s1 where t: "transition_job (cx_now env n) (ac_execution_job_id a) JobRunning JobCancelling Requested (stop_requested cancel) None s = Inr (s1, True)"
    using transition_goes [OF assms(4,5,6) p stop_requested_summary assms(7)] by blast
  have 1: "move_job env (ac_execution_job_id a) JobRunning JobCancelling Requested (stop_requested cancel) (s, n) = ((s1, Suc n), Inr True)"
    using assms(1) by (simp add: move_job_def locked_def quiet_def transact_value_def t)
  note m = move_job_ok [OF 1 assms(1,4)]
  obtain a2 s2 n2 completed where 2: "request_interrupt env (a, s1, Suc n) = ((a2, s2, n2), completed)" by (metis prod.exhaust)
  note q = request_interrupt_store [OF 2 assms(1,3)]
  have 3: "terminate_active env a2 (s2, n2) = ((s2, Suc n2), Inl (ServiceProcess SignalFailed))"
    using q assms(8,9) by (simp add: terminate_active_def terminate_def stop_leader_def signal_ok_def ensure_def)
  have 4: "interrupt_active env i cancel a (s, n) = ((s2, Suc n2), Inl (ServiceProcess SignalFailed))"
    by (simp add: interrupt_active_def 1 2 3)
  have gone: "find_row i (sv_active (remove_active i sv)) = None"
    by (simp add: remove_active_def find_row_def delete_conv')
  have "service_interrupt env i cancel (sv, s, n) = ((remove_active i sv, s2, Suc n2), Inl (ServiceProcess SignalFailed))"
    using assms(2) by (simp add: service_interrupt_def 4)
  moreover have "service_interrupt env' i cancel' (remove_active i sv, run) = ((remove_active i sv, run), Inl ProcessNotActive)" for env' cancel' run
    using gone by (simp add: service_interrupt_def)
  ultimately show ?thesis using m q by (intro exI [of _ "remove_active i sv"] exI [of _ s2] exI [of _ "Suc n2"]) auto
qed

section \<open>A process at work\<close>

text \<open>Values for the witnesses: a parser that knows a few lines, a process and a task being implemented.\<close>

lemma codex_kinds:
  "validate_codex_event_kind ''processStarted'' = Inr ''processStarted''"
  "validate_codex_event_kind ''initialized'' = Inr ''initialized''"
  "validate_codex_event_kind ''accountRead'' = Inr ''accountRead''"
  "validate_codex_event_kind ''threadReady'' = Inr ''threadReady''"
  "validate_codex_event_kind ''turnCompleted'' = Inr ''turnCompleted''"
  "validate_codex_event_kind ''commandOutputDelta'' = Inr ''commandOutputDelta''"
  "validate_codex_event_kind ''approvalResolved'' = Inr ''approvalResolved''"
  "validate_codex_event_kind ''error'' = Inr ''error''"
  by (simp_all add: validate_codex_event_kind_def trim_word is_ascii_graphic_def printable_no_control is_ascii_printable_def)

lemma codex_identities: "validate_codex_identity ''th'' f = Inr ()" "validate_codex_identity ''tu'' f = Inr ()"
  "validate_codex_identity ''it'' f = Inr ()"
  by (simp_all add: validate_codex_identity_def printable_no_control is_ascii_printable_def)

definition response_json :: "u64 \<Rightarrow> json \<Rightarrow> json" where
  "response_json i v = JObject [(''id'', JNumber (PosInt i)), (''result'', v)]"

definition completion_json :: "string \<Rightarrow> json" where
  "completion_json status = JObject [(''method'', JString ''turn/completed''), (''params'', JObject [(''threadId'', JString ''th''),
     (''turn'', JObject [(''id'', JString ''tu''), (''status'', JString status)])])]"

definition output_json :: "string \<Rightarrow> json" where
  "output_json delta = JObject [(''method'', JString ''item/commandExecution/outputDelta''),
     (''params'', JObject [(''threadId'', JString ''th''), (''turnId'', JString ''tu''), (''itemId'', JString ''it''), (''delta'', JString delta)])]"

definition ask_json :: json where
  "ask_json = JObject [(''id'', JNumber (PosInt 8)), (''method'', JString ''item/commandExecution/requestApproval''),
     (''params'', JObject [(''threadId'', JString ''th''), (''turnId'', JString ''tu''), (''itemId'', JString ''it'')])]"

definition sample_lines :: "(string \<times> json) list" where
  "sample_lines = [(''{}'', output_json ''hi''), (''{0}'', output_json [CHR 0x00]),
     (''{1}'', response_json 1 (JObject (map (\<lambda>k. (k, JString ''v'')) initialize_fields))),
     (''{2}'', response_json 2 (JObject [(''account'', JNull)])),
     (''{3}'', response_json 3 (JObject [(''thread'', JObject [(''id'', JString ''th'')])])),
     (''{4}'', response_json 4 (JObject []))]"

definition sample_codex :: codex_env where
  "sample_codex = \<lparr>cx_parse = map_of sample_lines, cx_show = (\<lambda>_. ''line''), cx_show_uuid = (\<lambda>_. ''task''),
     cx_now = (\<lambda>_. 0), cx_fresh = (\<lambda>n. of_nat (100 + n)), cx_others = (\<lambda>_ s. s), cx_deadline = (\<lambda>_. False),
     cx_launch = (\<lambda>_. \<lparr>lw_canonicalize = Some, lw_is_dir = (\<lambda>_. True), lw_variable = (\<lambda>_. None), lw_spawn = (\<lambda>_. SpawnFails)\<rparr>),
     cx_termination = (\<lambda>_. \<lparr>tw_term = Signalled, tw_exits_in_grace = Some True, tw_kill = Signalled, tw_wait = True, tw_sweep = Signalled\<rparr>)\<rparr>"

definition process_with :: "process_state \<Rightarrow> stdout_step list \<Rightarrow> codex_process" where
  "process_with state out = \<lparr>pr_task_key = ''task'', pr_generation = 5, pr_worktree = ''/r'',
     pr_command = \<lparr>pc_program = ''codex'', pc_args = [], pc_directory = None, pc_environment = []\<rparr>, pr_stdout = out, pr_writes = [],
     pr_written = [], pr_state = state, pr_group_active = True\<rparr>"

definition ready_session :: codex_session where
  "ready_session = \<lparr>cs_task_id = 7, cs_process_generation = 5, cs_protocol_version = ''2.0'', cs_executable_version = ''v'',
     cs_account_state = SignedOut, cs_thread_id = Some ''th'', cs_last_turn_id = Some ''tu'', cs_last_sequence = 0,
     cs_status = SessionReady, cs_updated_at = 0\<rparr>"

definition working :: "stdout_step list \<Rightarrow> active_codex" where
  "working out = (new_active (process_with ProcessReady out) ready_session 9)\<lparr>ac_active_turn_id := Some ''tu''\<rparr>"

definition execution_job :: job where
  "execution_job = \<lparr>job_id = 9, job_kind = TaskExecution, job_task_id = Some 7, job_state = JobRunning,
     job_cancellation = NotRequested, job_summary = ''Fix'', job_checkpoint = None, job_created_at = 0, job_updated_at = 0,
     job_generation = 1\<rparr>"

definition turn_store :: store where
  "turn_store = empty_store\<lparr>st_tasks := [(7, sample_task\<lparr>task_state := Implementing\<rparr>)], st_jobs := [(9, execution_job)]\<rparr>"

definition sample_service :: "stdout_step list \<Rightarrow> codex_service" where
  "sample_service out = \<lparr>sv_executable = \<lparr>ex_path = ''codex'', ex_version = ''v'', ex_compatibility = Compatible\<rparr>,
     sv_executable_version = ''v'', sv_active = [(7, working out)]\<rparr>"

lemma sample_quiet: "quiet sample_codex"
  by (simp add: quiet_def sample_codex_def)

lemmas codex_samples = sample_codex_def sample_service_def working_def new_active_def process_with_def ready_session_def turn_store_def
  empty_store_def new_decoder_def sample_task_def execution_job_def

lemmas codex_tables = load_task_def find_row_def has_row_def insert_new_def upsert_def record_task_def max_sequence_def sql_u64_def
  load_codex_session_def codex_events_def task_events_of_def

lemma plain_content: "bounded_content ''hi'' = ''hi''" "bounded_content ''completed'' = ''completed''"
  "bounded_content ''failed'' = ''failed''" "bounded_content ''interrupted'' = ''interrupted''" "bounded_content [CHR 0x00] = [CHR 0x00]"
  by (simp_all add: bounded_content_def contains_sensitive_content_def sensitive_markers_def max_input_bytes_def text_rules)

text \<open>The event of a completed turn, whatever its status.\<close>

lemma completion_draft: "normalize_event f (completion_json status) = Some \<lparr>ed_kind = ''turnCompleted'', ed_summary = ''Codex turn completed'',
     ed_thread_id = Some ''th'', ed_turn_id = Some ''tu'', ed_item_id = None, ed_content = Some (bounded_content status)\<rparr>"
  by (simp add: normalize_event_def completion_json_def string_field_def json_get_def as_str_def event_parts_def str_at_def or_else_def)

definition ends_verified :: "string \<Rightarrow> bool" where
  "ends_verified status = (case persist_incoming sample_codex (completion_json status)
       (EventMessage (TurnCompleted ''th'' ''tu'' TurnFailed)) (working [], turn_store, 0) of
     ((a, s, n), r) \<Rightarrow> r = Inr () \<and> map_option task_state (load_task 7 s) = Some Verifying)"

lemma turn_ends:
  assumes "bounded_content status = status" "length status < 20" "CHR 0x00 \<notin> set status"
  shows "ends_verified status"
  using assms
  by (simp add: ends_verified_def persist_incoming_def completion_draft is_completion_def of_other_turn_def codex_samples
      persist_event_def append_event_def locked_def transact_value_def append_codex_event_def codex_kinds codex_texts
      codex_identities validate_codex_event_content_def upsert_codex_session_def codex_tables end_turn_def complete_turn_def
      transition_def permits_def task_checkpoint_new_def transact_def save_task_with_checkpoint_def insert_checkpoint_def
      persist_approval_def ensure_msg_def Let_def)

text \<open>C99: A turn that failed counts as implemented. The end of the active turn moves the task on to its verification whatever became of the turn:
  also when the app-server says that it failed or was interrupted, which the protocol decodes but nothing looks at.\<close>

theorem failed_turn_verified:
  "snd (decode_object (completion_json ''failed'') new_decoder) = Inr (EventMessage (TurnCompleted ''th'' ''tu'' TurnFailed)) \<and>
   ends_verified ''failed'' \<and>
   snd (decode_object (completion_json ''interrupted'') new_decoder) = Inr (EventMessage (TurnCompleted ''th'' ''tu'' TurnInterrupted)) \<and>
   ends_verified ''interrupted''"
proof -
  have "snd (decode_object (completion_json st) new_decoder) = and_then (ok_or (turn_status_of st) (UnknownTurnStatus st))
      (\<lambda>x. Inr (EventMessage (TurnCompleted ''th'' ''tu'' x)))" if "st \<noteq> []" for st
    using that by (simp add: decode_object_def completion_json_def object_members_def json_get_def str_at_def as_str_def decode_notification_def
        decode_completion_def completion_fields_def required_params_def required_text_def filter_option_def new_decoder_def
        and_then_def ok_or_def split: option.splits)
  then show ?thesis using turn_ends plain_content by (simp add: turn_status_of_def)
qed

section \<open>Polls that cost a task\<close>

lemma pump_step: "0 < k \<Longrightarrow> pump_available env k st = (case read_line (ac_process (fst st)) of
       (p, Inl e) \<Rightarrow> (set_process p st, if e = ProcessTimeout then Inr () else Inl (ServiceProcess e))
     | (p, Inr line) \<Rightarrow> (case cx_parse env line of
           None \<Rightarrow> (set_process p st, Inl ServiceJson)
         | Some raw \<Rightarrow> (case decode_line (cx_parse env) line (ac_decoder (fst st)) of
               (d, Inl e) \<Rightarrow> (set_decoder d (set_process p st), Inl (ServiceProtocol e))
             | (d, Inr message) \<Rightarrow>
                 then_do (persist_incoming env raw message (set_decoder d (set_process p st)))
                   (\<lambda>_. pump_available env (k - 1)))))"
  using pump_available.simps(2) [of env "k - 1"] by (simp only: Suc_diff_1)

definition polled :: "service_run \<Rightarrow> service_run \<times> (service_error + codex_event list)" where
  "polled = service_events sample_codex 7 0 100"

definition task_is :: "task_state \<Rightarrow> service_run \<Rightarrow> bool" where
  "task_is state st \<longleftrightarrow> map_option task_state (load_task 7 (fst (snd st))) = Some state"

lemmas poll_rules = service_events_def max_event_page_def pump_task_def with_active_def pump_def pump_step read_line_def
  line_of_bytes_def max_line_bytes_def set_active_def on_second_def on_first_def locked_def events_page_def codex_tables Let_def
  utf8_valid_def

lemma torn_line_lost: "\<exists>st. polled (sample_service [Chunk ''{'', Elapsed, Chunk ''}\<newline>'', Elapsed], turn_store, 0) = (st, Inr []) \<and>
    st = (sample_service [Chunk ''}\<newline>'', Elapsed], turn_store, 1)"
  by (simp add: polled_def poll_rules codex_samples)

lemma whole_line_kept: "\<exists>st e. polled (sample_service [Chunk ''{}\<newline>'', Elapsed], turn_store, 0) = (st, Inr [e]) \<and>
    has_row 7 (sv_active (fst st)) \<and> task_is Implementing st"
  by (simp add: polled_def poll_rules codex_samples sample_lines_def decode_line_def decode_object_def output_json_def object_members_def
      json_get_def str_at_def as_str_def decode_notification_def persist_incoming_def normalize_event_def string_field_def
      event_parts_def or_else_def is_completion_def persist_event_def append_event_def transact_value_def append_codex_event_def
      codex_kinds codex_texts codex_identities validate_codex_event_content_def upsert_codex_session_def plain_content
      persist_approval_def task_is_def set_process_def set_decoder_def)

lemma crash_trimmed: "trim crash_reason = crash_reason" "crash_reason \<noteq> []"
  unfolding crash_reason_def by (rule trim_printable; simp add: text_rules) simp

lemmas crash_rules = record_crash_def record_crash_of_def append_event_def transact_value_def append_codex_event_def status_draft_def
  codex_kinds codex_texts upsert_codex_session_def terminate_active_def load_some_task_def fail_crashed_task_def interrupt_task_def
  interrupt_def is_interruption_def is_terminal_def crash_trimmed task_checkpoint_new_def transact_def save_task_with_checkpoint_def
  insert_checkpoint_def ensure_msg_def transition_job_def job_permits_def update_where_def matching_def remove_active_def task_is_def

lemma torn_line_fails: "\<exists>st. polled (sample_service [Chunk ''}\<newline>'', Elapsed], turn_store, 1) = (st, Inl ServiceJson) \<and>
    \<not> has_row 7 (sv_active (fst st)) \<and> task_is Failed st"
  by (simp add: polled_def poll_rules codex_samples sample_lines_def crash_rules)

text \<open>C99: A line that takes its time fails the task. One and the same line of a healthy app-server, polled for in one piece, becomes an event of
  a task that goes on. When it arrives in two pieces with more than the five milliseconds of a poll in between, the first poll drops the first
  piece and reports no events; the next one takes the second piece for a line that is not JSON, records a crash, stops the app-server and
  fails the task.\<close>

theorem torn_line_fails_task:
  "(\<exists>st e. polled (sample_service [Chunk ''{}\<newline>'', Elapsed], turn_store, 0) = (st, Inr [e]) \<and>
      has_row 7 (sv_active (fst st)) \<and> task_is Implementing st) \<and>
   (\<exists>st st'. polled (sample_service [Chunk ''{'', Elapsed, Chunk ''}\<newline>'', Elapsed], turn_store, 0) = (st, Inr []) \<and>
      polled st = (st', Inl ServiceJson) \<and> \<not> has_row 7 (sv_active (fst st')) \<and> task_is Failed st')"
  using whole_line_kept torn_line_lost torn_line_fails by blast

text \<open>C99: Output with a NUL fails the task. The output of a command that contains a NUL byte is a valid event of the protocol, but it is neither
  redacted nor cut, and the store refuses it: the poll records a crash of an app-server that works, stops it and fails the task.\<close>

theorem nul_output_fails_task:
  "\<exists>st e. polled (sample_service [Chunk ''{0}\<newline>'', Elapsed], turn_store, 0) = (st, Inl (ServicePersistence e)) \<and>
     \<not> has_row 7 (sv_active (fst st)) \<and> task_is Failed st"
  by (simp add: polled_def poll_rules codex_samples sample_lines_def decode_line_def decode_object_def output_json_def object_members_def
      json_get_def str_at_def as_str_def decode_notification_def persist_incoming_def normalize_event_def string_field_def
      event_parts_def or_else_def is_completion_def persist_event_def validate_codex_event_content_def plain_content
      set_process_def set_decoder_def crash_rules)

section \<open>Witnesses\<close>

theorem request_answered_witness:
  "\<exists>a' s' n' x. codex_request sample_codex TurnSteer JNull (working [Chunk ''{4}\<newline>''], turn_store, 0) = ((a', s', n'), Inr x) \<and>
     re_id x = NumberId 4 \<and> pd_pending (ac_decoder a') = []"
proof -
  have "\<exists>a' s' n' x. codex_request sample_codex TurnSteer JNull (working [Chunk ''{4}\<newline>''], turn_store, 0) = ((a', s', n'), Inr x)"
    by (simp add: codex_request_def register_request_def validate_request_id_def codex_samples request_exchange_def client_request_def
        send_line_def write_line_def max_line_bytes_def request_loop.simps read_line_def Let_def line_of_bytes_def utf8_valid_def
        max_request_events_def max_request_event_bytes_def sample_lines_def decode_line_def decode_object_def response_json_def
        object_members_def json_get_def str_at_def decode_response_def decode_request_id_def as_i64_def cancel_request_def
        word_less_def)
  then obtain a' s' n' x where r: "codex_request sample_codex TurnSteer JNull (working [Chunk ''{4}\<newline>''], turn_store, 0) = ((a', s', n'), Inr x)"
    by blast
  have "pd_pending (ac_decoder (working [Chunk ''{4}\<newline>''])) = []" "ac_next_request_id (working [Chunk ''{4}\<newline>'']) = 4"
    by (simp_all add: codex_samples)
  then show ?thesis using request_answered [OF r sample_quiet] r by auto
qed

theorem turn_end_own_witness:
  "\<exists>a' s' n' r. persist_incoming sample_codex (completion_json ''completed'') (EventMessage (TurnCompleted ''th'' ''tu'' TurnFailed))
     (working [], turn_store, 0) = ((a', s', n'), r) \<and> load_task 7 s' \<noteq> load_task 7 turn_store \<and> ac_active_turn_id a' = None"
proof -
  obtain a' s' n' r where p: "persist_incoming sample_codex (completion_json ''completed'') (EventMessage (TurnCompleted ''th'' ''tu'' TurnFailed))
     (working [], turn_store, 0) = ((a', s', n'), r)" by (metis prod.exhaust)
  have "map_option task_state (load_task 7 s') = Some Verifying"
    using turn_ends [of "''completed''"] p plain_content by (simp add: ends_verified_def)
  moreover have k: "map_option task_state (load_task 7 turn_store) = Some Implementing" "tasks_keyed turn_store"
    by (auto simp: turn_store_def load_task_def find_row_def tasks_keyed_def sample_task_def split: if_splits)
  ultimately have "load_task 7 s' \<noteq> load_task 7 turn_store" by auto
  then show ?thesis using turn_end_own [OF p sample_quiet k(2)] p by blast
qed

text \<open>An approval of the running turn, and its resolution.\<close>

definition sample_asked :: codex_runtime_approval where
  "sample_asked = \<lparr>ra_id = 3, ra_task_id = 7, ra_class = CodexRuntime, ra_request_id = NumberId 8,
     ra_process_generation = 5, ra_thread_id = ''th'', ra_turn_id = ''tu'', ra_item_id = ''it'', ra_kind = CommandApproval,
     ra_reason = None, ra_command = None, ra_cwd = None, ra_grant_root = None, ra_state = RuntimePending,
     ra_created_at = 0, ra_expires_at = minutes 10, ra_decided_at = None\<rparr>"

definition asked_store :: store where
  "asked_store = turn_store\<lparr>st_runtime_approvals := [(3, runtime_row_of sample_asked)]\<rparr>"

theorem approval_answered_once_witness:
  "\<exists>a s n d. active_resolve_approval sample_codex 3 5 False (working [], asked_store, 0) = ((a, s, n), Inr d) \<and>
     pr_written (ac_process a) = [''line''] \<and> ra_state d = RuntimeDeclined \<and>
     active_resolve_approval sample_codex 3 5 True (a, s, n) = ((a, s, Suc n), Inr d)"
proof -
  have keyed: "approvals_keyed asked_store"
    by (auto simp: approvals_keyed_def asked_store_def runtime_row_of_def codex_runtime_approval_def find_row_def
        sample_asked_def split: if_splits)
  obtain a s n r where run: "active_resolve_approval sample_codex 3 5 False (working [], asked_store, 0) = ((a, s, n), r)"
    by (metis prod.exhaust)
  have w: "pr_written (ac_process a) = [''line''] \<and> (\<exists>d. r = Inr d)"
    using run
    by (simp add: active_resolve_approval_def codex_runtime_approval_def sample_asked_def still_bound_def codex_samples
        minutes_def seconds_def answer_approval_def send_line_def write_line_def max_line_bytes_def save_approval_state_def
        locked_def transact_def save_codex_runtime_approval_def asked_store_def runtime_row_of_def has_row_def find_row_def
        Let_def append_event_def transact_value_def append_codex_event_def resolution_draft_def codex_kinds codex_texts
        codex_identities upsert_codex_session_def codex_tables)
      (elim conjE, hypsubst, simp)
  then obtain d where d: "r = Inr d" by blast
  have "pr_written (ac_process a) \<noteq> pr_written (ac_process (working []))" using w by (simp add: codex_samples)
  from approval_answered_once [OF run sample_quiet keyed this] w d run show ?thesis by auto
qed

end
