(* ===== verification/Spec2Isabelle.thy ===== *)
theory Spec2Isabelle
  imports Core_Properties Triage_Properties Store_Properties Delivery_Properties Rpc_Properties
    Preparation_Properties Relay_Properties Webhook_Properties Sync_Properties Codex_Properties
begin

text \<open>
  A verification library of Patchwright, an engine that lets a coding agent work on GitHub issues
  and pull requests under a person's approvals. Three crates make it up: \<open>patchwright-core\<close> (the
  records and rules), \<open>patchwright-engine\<close> (the event store, the services and the JSON-RPC server)
  and \<open>patchwright-relay\<close> (the bridge to the GitHub application: its tokens, the changes it makes and
  the webhooks it takes in).

  \<^bold>\<open>The core.\<close> A task moves through the states of \<open>domain.rs\<close> (\<open>Domain\<close>); it works under a contract
  and a repository binding (\<open>Task_Source\<close>, \<open>Contract\<close>, both of \<open>contract.rs\<close>), and what it does needs
  approvals that the policy checks (\<open>Policy\<close>). An action on GitHub is a typed value with a preview
  (\<open>GitHub_Actions\<close>). \<open>Queue\<close>, \<open>Workspace_Sorting\<close> and \<open>Instructions\<close> are the pure rules of triage.

  \<^bold>\<open>The store.\<close> It keeps everything in SQLite tables: \<open>Tables\<close> has the statements as operations on
  association lists, \<open>Store\<close> the record of the tables with tasks, contracts and approvals,
  \<open>Store_Claims\<close> preparations, deliveries and conversions, \<open>Store_Jobs\<close> jobs, \<open>Store_Codex\<close> sessions of
  the agent, \<open>Store_GitHub\<close> snapshots, queue, monitors and webhooks, \<open>Store_Open\<close> migrations and
  restarts. \<open>Jobs\<close>, \<open>Monitoring_Record\<close>, \<open>GitHub_Model\<close> and \<open>Codex_Records\<close> are the records it holds.

  \<^bold>\<open>The services.\<close> \<open>Conversion\<close> turns an item of a snapshot into a task (\<open>conversion.rs\<close>), \<open>Planning\<close>
  writes its contract from the evidence of a commit (\<open>planning.rs\<close> and the parts of \<open>repository.rs\<close> it
  calls), \<open>Preparation\<close> has the approvals to prepare a worktree (\<open>preparation.rs\<close>), \<open>Worktrees\<close> every
  git process that is started (\<open>worktree.rs\<close>), \<open>Verification\<close> the commands of a contract with their
  evidence (\<open>verification.rs\<close>, \<open>command.rs\<close>), and \<open>Delivery\<close> preview, approval, execution, outcome and
  reconciliation of an action (\<open>delivery.rs\<close>). The handlers of \<open>rpc.rs\<close> compose these: \<open>Json\<close> has the
  values and parameters, \<open>Json_Decode\<close> what serde's derived decoders do with them, \<open>Rpc_Tasks\<close>,
  \<open>Rpc_Delivery\<close>, \<open>Rpc_Actions\<close>, \<open>Rpc_Monitoring\<close>, \<open>Rpc_Queue\<close>, \<open>Rpc_Webhook\<close> and \<open>Rpc_Sync\<close> the handlers.
  \<open>Rpc_Sync_Jobs\<close> has the synchronization of GitHub in the background: starting, asking for and cancelling it and
  its worker, each as the sequence of its locked sections, and \<open>sync_acts\<close> as their interleavings.

  \<^bold>\<open>GitHub and the relay.\<close> \<open>Http\<close> models a client as an interaction tree (\<open>call\<close>): it asks a request,
  and goes on with the reply; \<open>conversation\<close> are the exchanges that a call can have. \<open>Mutations\<close> is the
  client that changes things on GitHub (\<open>mutations.rs\<close>), \<open>App_Auth\<close> and \<open>Installation\<close> the tokens it
  uses (\<open>app_auth.rs\<close>, \<open>installation.rs\<close>), and \<open>Rpc_Actions\<close> what the engine does with both. The read client
  of \<open>github.rs\<close> is \<open>GitHub_Wire\<close> (the decoders of the rows), \<open>GitHub_Client\<close> (requests and paginations)
  and \<open>GitHub_Snapshot\<close> (the fetches of a snapshot and how they are condensed). \<open>Relay_Inbox\<close> is the durable
  inbox of webhooks, \<open>Relay_Webhook\<close> the handler that fills it and the forwarder that empties it into
  the engine (\<open>webhook.rs\<close>), \<open>Rpc_Webhook\<close> the handler at the other end.

  \<^bold>\<open>How state and effects are modelled.\<close> A struct is a record, an enum a datatype with its
  constructors, a machine integer a word of its width. A fallible function returns \<open>error + value\<close>, and
  \<open>and_then\<close> is the question mark operator. An operation of the store takes the store and returns the
  new one; a transaction is one step, so an error comes without a store and leaves the old one, but
  for the handlers, which pair the reply with the store they leave. Strings are lists of bytes in
  UTF-8. The clock, fresh identifiers, SHA-256, HMAC, RSA, the JSON parser and encoders, chrono's
  parser, reqwest and url, git and other processes, the file system and the replies of GitHub are
  arguments of the definitions that use them; the properties that need something of them say so (the
  encoded results name their state, an encoder is injective, a hash does not collide on two values).

  \<^bold>\<open>What the lemmas show.\<close> \<open>Prelude\<close> has the result type and its rules, \<open>Rust_Text\<close> and \<open>Text_More\<close> the
  functions of Rust's standard library on strings, \<open>Ordering\<close> its comparisons and stable sort. Each
  component theory has its invariant and the characterizations of its operations (the lemmas ending in
  \<open>_ok\<close>, collected in \<open>result_simps\<close> and \<open>valid_simps\<close>). Interfaces are locales: \<open>comparator\<close> for the
  orders, \<open>checked_document\<close> for what is validated again when decoded, \<open>keyed_rows\<close> for upserted rows,
  and \<open>claim_register\<close> for everything that may be granted once: it is interpreted on preparations,
  conversions, deliveries, executions and webhooks, and gives each that a key is granted at most once in
  any sequence of requests. The theories named \<open>_Properties\<close> hold the numbered properties with their
  witnesses, \<open>Samples\<close> the values these use. Runs over time are inductive relations, each with its
  invariant by rule induction: \<open>lifecycle\<close>, \<open>jobs_reachable\<close>, \<open>monitor_life\<close>, \<open>task_writes\<close>, \<open>codex_life\<close>,
  \<open>deliveries\<close> (with the remote calls made under each key), \<open>broker_life\<close> (the tokens handed out), and
  \<open>relay_run\<close> and \<open>mail_run\<close> (the inbox and the abstract mailbox it refines). Synchronizations run as sequences
  of actions with the invariant \<open>sync_inv\<close>; \<open>orderly_run\<close> are the runs in which no cancellation falls into a section
  of the worker, in which every job settles; two runs outside of them are shown to strand one.

  \<^bold>\<open>Bounds and fuel.\<close> Most loops of the code are over lists and are structural here. The paginations of
  \<open>GitHub_Client\<close> follow links that the server chooses, so they take fuel: \<open>None\<close> is a run that goes on.
  \<open>pagination_ends\<close> shows that as much fuel as rows are wanted is enough when every page that names a
  successor holds a row, and \<open>empty_pages_never_end\<close> that no fuel is when they do not. Integers wrap where the
  code's do in release builds; values that SQLite cannot hold are refused from \<open>2 ^ 63\<close> on.

  \<^bold>\<open>Not modelled.\<close> The socket and the framing and dispatch of the server and its remaining handlers, the
  protocol and process of Codex with its service, leases and the discovery of instruction files, the
  relay's \<open>main.rs\<close> and \<open>github.rs\<close>, signals to processes, the syntax of JSON, redirects of reqwest, and
  serde's sequence form of structs but for the events of webhooks.
\<close>

end
